(* ===== verification/Prelude.thy ===== *)
theory Prelude
  imports Main "HOL-Library.Sublist" "HOL-Library.Char_ord" "HOL-Library.List_Lexorder"
    "HOL-Library.AList"
begin

text \<open>
  Shared vocabulary of the development: fallible results, stateful actions with the invariants
  they keep, and the values of untyped metadata maps.

  A Go function that returns a value and an error is a sum, the error on the left. Times are nanoseconds since Go's zero time, so
  \<open>IsZero\<close> is \<open>= 0\<close>; durations are nanoseconds.
\<close>

named_theorems result_simps \<open>rewriting fallible results and stateful actions\<close>
named_theorems string_simps \<open>facts about Go's string functions\<close>

section \<open>Fallible results\<close>

type_synonym ('e, 'a) result = "'e + 'a"

text \<open>Sequencing of two fallible steps: the Go idiom of returning the error at once.\<close>

definition bindR :: "'e + 'a \<Rightarrow> ('a \<Rightarrow> 'e + 'b) \<Rightarrow> 'e + 'b" where
  "bindR m f = (case m of Inl e \<Rightarrow> Inl e | Inr x \<Rightarrow> f x)"

lemma bindR_simps [simp, result_simps]:
  "bindR (Inl e) f = Inl e"
  "bindR (Inr x) f = f x"
  by (simp_all add: bindR_def)

lemma bindR_eq_Inr [result_simps]: "bindR m f = Inr y \<longleftrightarrow> (\<exists>x. m = Inr x \<and> f x = Inr y)"
  by (cases m) auto

lemma bindR_eq_Inl [result_simps]:
  "bindR m f = Inl e \<longleftrightarrow> m = Inl e \<or> (\<exists>x. m = Inr x \<and> f x = Inl e)"
  by (cases m) auto

lemma bindR_assoc: "bindR (bindR m f) g = bindR m (\<lambda>x. bindR (f x) g)"
  by (cases m) auto

definition isOk :: "'e + 'a \<Rightarrow> bool" where
  "isOk r = (case r of Inl _ \<Rightarrow> False | Inr _ \<Rightarrow> True)"

lemma isOk_simps [simp]: "isOk (Inr x)" "\<not> isOk (Inl e)"
  by (simp_all add: isOk_def)

lemma isOk_iff: "isOk r \<longleftrightarrow> (\<exists>x. r = Inr x)"
  by (cases r) auto

lemma isOk_run: "isOk (fst r) \<Longrightarrow> \<exists>x t. r = (Inr x, t)"
  by (cases r) (auto simp: isOk_iff)

section \<open>Stateful actions\<close>

text \<open>
  An operation of a service reads and changes a state and may fail. The state is returned with
  the error too: what was written before the failure stays written, as in the code.
\<close>

type_synonym ('s, 'e, 'a) action = "'s \<Rightarrow> ('e + 'a) \<times> 's"

definition bindS :: "('s, 'e, 'a) action \<Rightarrow> ('a \<Rightarrow> ('s, 'e, 'b) action) \<Rightarrow> ('s, 'e, 'b) action" where
  "bindS m f s = (case m s of (Inl e, s') \<Rightarrow> (Inl e, s') | (Inr x, s') \<Rightarrow> f x s')"

definition returnS :: "'a \<Rightarrow> ('s, 'e, 'a) action" where
  "returnS x s = (Inr x, s)"

definition failS :: "'e \<Rightarrow> ('s, 'e, 'a) action" where
  "failS e s = (Inl e, s)"

definition liftR :: "'e + 'a \<Rightarrow> ('s, 'e, 'a) action" where
  "liftR r s = (r, s)"

definition readS :: "('s \<Rightarrow> 'e + 'a) \<Rightarrow> ('s, 'e, 'a) action" where
  "readS f s = (f s, s)"

definition modifyS :: "('s \<Rightarrow> 's) \<Rightarrow> ('s, 'e, unit) action" where
  "modifyS f s = (Inr (), f s)"

lemmas action_defs = bindS_def returnS_def failS_def liftR_def readS_def modifyS_def

lemma bindS_run [result_simps]:
  "bindS (returnS x) f s = f x s"
  "bindS (failS e) f s = (Inl e, s)"
  "bindS (liftR r) f s = (case r of Inl e \<Rightarrow> (Inl e, s) | Inr x \<Rightarrow> f x s)"
  "bindS (readS g) f s = (case g s of Inl e \<Rightarrow> (Inl e, s) | Inr x \<Rightarrow> f x s)"
  "bindS (modifyS h) k s = k () (h s)"
  by (simp_all add: action_defs split: sum.splits)

lemma bindS_Inr:
  "bindS m f s = (Inr y, t) \<longleftrightarrow> (\<exists>x s'. m s = (Inr x, s') \<and> f x s' = (Inr y, t))"
  by (auto simp: bindS_def split: prod.splits sum.splits)

lemma bindS_unit: "bindS m f s = (Inr y, t) \<longleftrightarrow> (\<exists>s'. m s = (Inr (), s') \<and> f () s' = (Inr y, t))"
  by (simp add: bindS_Inr)

lemma bindS_Inl:
  "bindS m f s = (Inl e, t) \<longleftrightarrow>
    m s = (Inl e, t) \<or> (\<exists>x s'. m s = (Inr x, s') \<and> f x s' = (Inl e, t))"
  by (auto simp: bindS_def split: prod.splits sum.splits)

lemma action_Inr [result_simps]:
  "returnS x s = (Inr y, t) \<longleftrightarrow> y = x \<and> t = s"
  "failS e s = (Inr y, t) \<longleftrightarrow> False"
  "liftR r s = (Inr y, t) \<longleftrightarrow> r = Inr y \<and> t = s"
  "readS g s = (Inr y, t) \<longleftrightarrow> g s = Inr y \<and> t = s"
  by (auto simp: action_defs)

text \<open>An action keeps a state predicate when every run of it, failing or not, does.\<close>

definition preserves :: "('s \<Rightarrow> bool) \<Rightarrow> ('s, 'e, 'a) action \<Rightarrow> bool" where
  "preserves P m \<longleftrightarrow> (\<forall>s. P s \<longrightarrow> P (snd (m s)))"

lemma preservesD: "preserves P m \<Longrightarrow> P s \<Longrightarrow> P (snd (m s))"
  by (simp add: preserves_def)

lemma preserves_bindS [intro]:
  assumes "preserves P m" and "\<And>x. preserves P (f x)"
  shows "preserves P (bindS m f)"
  unfolding preserves_def
proof (intro allI impI)
  fix s assume "P s"
  with assms(1) have m: "P (snd (m s))" by (rule preservesD)
  show "P (snd (bindS m f s))"
  proof (cases "m s")
    case (Pair r s')
    with m show ?thesis
      by (cases r) (auto simp: bindS_def intro: preservesD [OF assms(2)])
  qed
qed

lemma preserves_basic [intro, simp]:
  "preserves P (returnS x)" "preserves P (failS e)" "preserves P (liftR r)" "preserves P (readS g)"
  by (simp_all add: preserves_def action_defs)

lemma preserves_if [intro]:
  "preserves P m \<Longrightarrow> preserves P n \<Longrightarrow> preserves P (if b then m else n)"
  by simp

section \<open>Lists\<close>

lemma find_SomeD: "find P xs = Some x \<Longrightarrow> P x \<and> x \<in> set xs"
  by (induction xs) (auto split: if_splits)

lemma map_of_rev_None: "map_of (rev kvs) k = None \<longleftrightarrow> k \<notin> fst ` set kvs"
  by (simp add: map_of_eq_None_iff)

section \<open>Values of untyped JSON maps\<close>

text \<open>
  A \<open>float64\<close>: the values the code compares are ordered as IEEE floats are, a comparison with NaN
  is false, and \<open>Finite m e\<close> is \<open>m\<close> times two to the power \<open>e\<close>.
\<close>

datatype f64 = NaN | NegInf | Finite int int | PosInf

text \<open>\<open>JTime\<close> is the RFC 3339 text of a time.\<close>

datatype jval = JStr string | JInt int | JBool bool | JTime int | JStrs "string list" | JInts "int list" | JFloat f64

type_synonym jmap = "(string \<times> jval) list"

end
