(* ===== verification/GoStrings.thy ===== *)
theory GoStrings
  imports Prelude
begin

text \<open>
  Go strings and the functions of package strings that the code calls: trimming, cutting,
  splitting, joining, prefixes, the slug pattern of the identifiers, and the order of sort.Strings.
  A Go string is a sequence of bytes, so it is a \<^typ>\<open>string\<close> here, one \<^typ>\<open>char\<close> per byte.
  Case mapping (strings.ToLower, strings.EqualFold) is modelled for ASCII letters, which is what
  the code compares against; the other functions are modelled for every byte string.
\<close>

section \<open>Trimming\<close>

text \<open>
  The byte sequences that unicode.IsSpace accepts: the six ASCII ones and the UTF-8 encodings of
  U+0085, U+00A0, U+1680, U+2000 to U+200A, U+2028, U+2029, U+202F, U+205F and U+3000.
\<close>

definition ascii_space :: "char \<Rightarrow> bool" where
  "ascii_space c \<longleftrightarrow> c = CHR 0x20 \<or> c = CHR 0x09 \<or> c = CHR 0x0A \<or> c = CHR 0x0B \<or> c = CHR 0x0C \<or>
     c = CHR 0x0D"

fun space_prefix :: "string \<Rightarrow> nat" where
  "space_prefix [] = 0"
| "space_prefix (a # xs) =
    (if ascii_space a then 1
     else if a = CHR 0xC2 then
       (case xs of b # _ \<Rightarrow> if b = CHR 0x85 \<or> b = CHR 0xA0 then 2 else 0 | [] \<Rightarrow> 0)
     else if a = CHR 0xE1 then
       (case xs of b # c # _ \<Rightarrow> if b = CHR 0x9A \<and> c = CHR 0x80 then 3 else 0 | _ \<Rightarrow> 0)
     else if a = CHR 0xE2 then
       (case xs of b # c # _ \<Rightarrow>
          if b = CHR 0x80 \<and> (c \<in> {CHR 0x80, CHR 0x81, CHR 0x82, CHR 0x83, CHR 0x84, CHR 0x85,
               CHR 0x86, CHR 0x87, CHR 0x88, CHR 0x89, CHR 0x8A, CHR 0xA8, CHR 0xA9, CHR 0xAF})
             \<or> b = CHR 0x81 \<and> c = CHR 0x9F then 3 else 0 | _ \<Rightarrow> 0)
     else if a = CHR 0xE3 then
       (case xs of b # c # _ \<Rightarrow> if b = CHR 0x80 \<and> c = CHR 0x80 then 3 else 0 | _ \<Rightarrow> 0)
     else 0)"

lemma space_prefix_le: "space_prefix s \<le> length s"
  by (cases s rule: space_prefix.cases) (auto split: list.splits)

text \<open>strings.TrimLeftFunc and strings.TrimRightFunc with unicode.IsSpace.\<close>

function trim_left :: "string \<Rightarrow> string" where
  "trim_left s = (if space_prefix s = 0 then s else trim_left (drop (space_prefix s) s))"
  by pat_completeness auto
termination
proof (relation "measure length", simp)
  fix s :: string
  assume "space_prefix s \<noteq> 0"
  then show "(drop (space_prefix s) s, s) \<in> measure length"
    using space_prefix_le [of s] by simp
qed

declare trim_left.simps [simp del]

definition space_suffix :: "string \<Rightarrow> nat" where
  "space_suffix s =
    (if s \<noteq> [] \<and> ascii_space (last s) then 1
     else if 2 \<le> length s \<and> space_prefix (drop (length s - 2) s) = 2 then 2
     else if 3 \<le> length s \<and> space_prefix (drop (length s - 3) s) = 3 then 3
     else 0)"

lemma space_suffix_le: "space_suffix s \<le> length s"
  by (cases s) (auto simp: space_suffix_def)

function trim_right :: "string \<Rightarrow> string" where
  "trim_right s = (if space_suffix s = 0 then s else trim_right (take (length s - space_suffix s) s))"
  by pat_completeness auto
termination
proof (relation "measure length", simp)
  fix s :: string
  assume "space_suffix s \<noteq> 0"
  then show "(take (length s - space_suffix s) s, s) \<in> measure length"
    using space_suffix_le [of s] by auto
qed

declare trim_right.simps [simp del]

definition trim_space :: "string \<Rightarrow> string" where
  "trim_space s = trim_right (trim_left s)"

lemma trim_left_fix: "space_prefix s = 0 \<Longrightarrow> trim_left s = s"
  by (simp add: trim_left.simps [of s])

lemma trim_right_fix: "space_suffix s = 0 \<Longrightarrow> trim_right s = s"
  by (simp add: trim_right.simps [of s])

lemma trim_left_done: "space_prefix (trim_left s) = 0"
proof (induction s rule: trim_left.induct)
  case (1 s)
  then show ?case by (cases "space_prefix s = 0") (simp_all add: trim_left.simps [of s])
qed

lemma trim_right_done: "space_suffix (trim_right s) = 0"
proof (induction s rule: trim_right.induct)
  case (1 s)
  then show ?case by (cases "space_suffix s = 0") (simp_all add: trim_right.simps [of s])
qed

lemma trim_right_prefix: "\<exists>n. trim_right s = take n s"
proof (induction s rule: trim_right.induct)
  case (1 s)
  show ?case
  proof (cases "space_suffix s = 0")
    case True
    then have "trim_right s = take (length s) s" by (simp add: trim_right_fix)
    then show ?thesis by blast
  next
    case False
    with 1 obtain n where "trim_right (take (length s - space_suffix s) s) =
        take n (take (length s - space_suffix s) s)" by blast
    with False have "trim_right s = take (min n (length s - space_suffix s)) s"
      by (simp add: trim_right.simps [of s])
    then show ?thesis by blast
  qed
qed

lemma space_prefix_take: "space_prefix s = 0 \<Longrightarrow> space_prefix (take n s) = 0"
  by (cases s; cases n) (auto simp: take_Cons split: if_splits list.splits nat.splits)

lemma trim_space_idem [simp, string_simps]: "trim_space (trim_space s) = trim_space s"
proof -
  obtain n where n: "trim_right (trim_left s) = take n (trim_left s)"
    using trim_right_prefix by blast
  have "space_prefix (trim_space s) = 0"
    unfolding trim_space_def n by (rule space_prefix_take) (rule trim_left_done)
  moreover have "space_suffix (trim_space s) = 0"
    by (simp add: trim_space_def trim_right_done)
  ultimately show ?thesis
    by (subst trim_space_def) (simp add: trim_left_fix trim_right_fix)
qed

lemma trim_space_Nil [simp, string_simps]: "trim_space [] = []"
  by (simp add: trim_space_def trim_left_fix trim_right_fix space_suffix_def)

text \<open>Printable ASCII: no such byte starts or ends a space, so a string of them is trimmed.\<close>

definition graphic :: "char \<Rightarrow> bool" where
  "graphic c \<longleftrightarrow> 0x21 \<le> (of_char c :: nat) \<and> (of_char c :: nat) \<le> 0x7E"

lemma graphic_not_space: "graphic c \<Longrightarrow> \<not> ascii_space c"
  by (auto simp: graphic_def ascii_space_def)

lemma graphic_space_prefix: "graphic c \<Longrightarrow> space_prefix (c # s) = 0"
  by (auto simp: graphic_def graphic_not_space dest: graphic_not_space)

lemma space_prefix_last:
  "space_prefix s = length s \<Longrightarrow> 2 \<le> length s \<Longrightarrow> \<not> graphic (last s)"
  by (cases s) (auto simp: graphic_def split: if_splits list.splits)

lemma graphic_space_suffix:
  assumes "graphic (last s)" and "s \<noteq> []"
  shows "space_suffix s = 0"
proof -
  have l: "last (drop (length s - k) s) = last s" if "k \<ge> 1" for k
    using that assms(2) by (cases "length s - k < length s") (auto simp: last_drop)
  have "space_prefix (drop (length s - 2) s) \<noteq> 2" if "2 \<le> length s"
    using space_prefix_last [of "drop (length s - 2) s"] l [of 2] that assms by auto
  moreover have "space_prefix (drop (length s - 3) s) \<noteq> 3" if "3 \<le> length s"
    using space_prefix_last [of "drop (length s - 3) s"] l [of 3] that assms by auto
  ultimately show ?thesis
    using assms graphic_not_space by (auto simp: space_suffix_def)
qed

lemma trim_space_graphic:
  assumes "s \<noteq> []" and "graphic (hd s)" and "graphic (last s)"
  shows "trim_space s = s"
  using assms by (cases s) (simp_all add: trim_space_def trim_left_fix trim_right_fix
    graphic_space_prefix graphic_space_suffix del: space_prefix.simps)

section \<open>Cutting, splitting and joining\<close>

text \<open>strings.Cut: the text before and after the first occurrence of the separator.\<close>

fun str_cut :: "string \<Rightarrow> string \<Rightarrow> (string \<times> string) option" where
  "str_cut sep s =
    (if prefix sep s then Some ([], drop (length sep) s)
     else (case s of [] \<Rightarrow> None | c # cs \<Rightarrow> map_option (\<lambda>(a, b). (c # a, b)) (str_cut sep cs)))"

declare str_cut.simps [simp del]

lemma str_cut_Some: "str_cut sep s = Some (a, b) \<Longrightarrow> s = a @ sep @ b"
proof (induction sep s arbitrary: a rule: str_cut.induct)
  case (1 sep s)
  show ?case
  proof (cases "prefix sep s")
    case True
    with "1.prems" show ?thesis
      by (auto simp: str_cut.simps [of sep s] prefix_def)
  next
    case False
    with "1.prems" obtain c cs a' where s: "s = c # cs" "a = c # a'" "str_cut sep cs = Some (a', b)"
      by (auto simp: str_cut.simps [of sep s] split: list.splits)
    with "1.IH" [OF False s(1) s(3)] show ?thesis by simp
  qed
qed

text \<open>A cut is at the first occurrence: a text without the separator's first byte is skipped.\<close>

lemma str_cut_skip: "d \<notin> set a \<Longrightarrow> str_cut (d # sep) (a @ d # sep @ b) = Some (a, b)"
proof (induction a)
  case Nil
  then show ?case by (subst str_cut.simps) simp
next
  case (Cons c a)
  then show ?case by (subst str_cut.simps) simp
qed

lemma str_cut_None: "str_cut sep s = None \<Longrightarrow> \<not> (\<exists>a b. s = a @ sep @ b)"
proof (induction sep s rule: str_cut.induct)
  case (1 sep s)
  from "1.prems" have np: "\<not> prefix sep s" by (auto simp: str_cut.simps [of sep s] split: if_splits)
  show ?case
  proof (cases s)
    case Nil
    with np show ?thesis by auto
  next
    case (Cons c cs)
    with "1.prems" np have "str_cut sep cs = None" by (simp add: str_cut.simps [of sep "c # cs"])
    with "1.IH" [OF np Cons] np Cons show ?thesis
      by (metis append_Cons append_Nil list.exhaust list.inject prefixI)
  qed
qed

text \<open>strings.Replace with a count of one.\<close>

definition replace_first :: "string \<Rightarrow> string \<Rightarrow> string \<Rightarrow> string" where
  "replace_first s old new = (case str_cut old s of None \<Rightarrow> s | Some (a, b) \<Rightarrow> a @ new @ b)"

text \<open>strings.Split on a one-byte separator, and strings.Join.\<close>

fun split_on :: "char \<Rightarrow> string \<Rightarrow> string list" where
  "split_on d [] = [[]]"
| "split_on d (c # cs) =
    (if c = d then [] # split_on d cs
     else (case split_on d cs of [] \<Rightarrow> [[c]] | w # ws \<Rightarrow> (c # w) # ws))"

lemma split_on_not_Nil [simp]: "split_on d s \<noteq> []"
  by (induction s) (auto split: list.splits)

fun join_with :: "string \<Rightarrow> string list \<Rightarrow> string" where
  "join_with sep [] = []"
| "join_with sep [w] = w"
| "join_with sep (w # v # ws) = w @ sep @ join_with sep (v # ws)"

lemma join_with_Cons: "ws \<noteq> [] \<Longrightarrow> join_with sep (w # ws) = w @ sep @ join_with sep ws"
  by (cases ws) auto

lemma join_split [string_simps]: "join_with [d] (split_on d s) = s"
proof (induction s)
  case (Cons c cs)
  obtain w ws where w: "split_on d cs = w # ws" by (cases "split_on d cs") auto
  have "join_with [d] ((c # w) # ws) = c # join_with [d] (w # ws)" by (cases ws) auto
  with w Cons show ?case by (auto simp: join_with_Cons)
qed simp

lemma split_on_no_sep: "w \<in> set (split_on d s) \<Longrightarrow> d \<notin> set w"
  by (induction s arbitrary: w) (auto split: list.splits if_splits)

lemma split_on_single: "d \<notin> set s \<Longrightarrow> split_on d s = [s]"
  by (induction s) auto

lemma split_on_append: "d \<notin> set a \<Longrightarrow> split_on d (a @ d # b) = a # split_on d b"
  by (induction a) auto

text \<open>strings.LastIndex and strings.Index of one byte, as the split at that byte.\<close>

fun split_last :: "char \<Rightarrow> string \<Rightarrow> (string \<times> string) option" where
  "split_last d [] = None"
| "split_last d (c # cs) =
    (case split_last d cs of
       Some (a, b) \<Rightarrow> Some (c # a, b)
     | None \<Rightarrow> if c = d then Some ([], cs) else None)"

definition last_index :: "char \<Rightarrow> string \<Rightarrow> int" where
  "last_index d s = (case split_last d s of None \<Rightarrow> -1 | Some (a, b) \<Rightarrow> int (length a))"

definition before_first :: "char \<Rightarrow> string \<Rightarrow> string" where
  "before_first d s = takeWhile (\<lambda>c. c \<noteq> d) s"

lemma split_last_None: "split_last d s = None \<longleftrightarrow> d \<notin> set s"
  by (induction s) (auto split: option.splits)

lemma split_last_append: "d \<notin> set b \<Longrightarrow> split_last d (a @ d # b) = Some (a, b)"
proof (induction a)
  case Nil
  then have "split_last d b = None" by (simp add: split_last_None)
  then show ?case by simp
qed simp

lemma split_last_SomeD: "split_last d s = Some (a, b) \<Longrightarrow> s = a @ d # b \<and> d \<notin> set b"
  by (induction s arbitrary: a b) (auto simp: split_last_None split: option.splits if_splits)

lemma split_last_Some: "split_last d s = Some (a, b) \<longleftrightarrow> s = a @ d # b \<and> d \<notin> set b"
  using split_last_append split_last_SomeD by blast

text \<open>strings.HasPrefix, strings.TrimPrefix, strings.HasSuffix and strings.TrimSuffix.\<close>

definition trim_prefix :: "string \<Rightarrow> string \<Rightarrow> string" where
  "trim_prefix p s = (if prefix p s then drop (length p) s else s)"

definition trim_suffix :: "string \<Rightarrow> string \<Rightarrow> string" where
  "trim_suffix p s = (if suffix p s then take (length s - length p) s else s)"

text \<open>strings.ToLower and strings.EqualFold on ASCII letters.\<close>

definition lower_char :: "char \<Rightarrow> char" where
  "lower_char c = (if 0x41 \<le> (of_char c :: nat) \<and> (of_char c :: nat) \<le> 0x5A
     then char_of ((of_char c :: nat) + 32) else c)"

definition to_lower :: "string \<Rightarrow> string" where
  "to_lower s = map lower_char s"

text \<open>
  strings.EqualFold against an ASCII text: two letters outside ASCII fold onto ASCII ones, the long s
  (C5 BF) and the Kelvin sign (E2 84 AA).
\<close>

fun fold_text :: "string \<Rightarrow> string" where
  "fold_text [] = []"
| "fold_text (c # s) =
    (if prefix [CHR 0xC5, CHR 0xBF] (c # s) then CHR ''s'' # fold_text (drop 1 s)
     else if prefix [CHR 0xE2, CHR 0x84, CHR 0xAA] (c # s) then CHR ''k'' # fold_text (drop 2 s)
     else lower_char c # fold_text s)"

definition equal_fold :: "string \<Rightarrow> string \<Rightarrow> bool" where
  "equal_fold s t \<longleftrightarrow> fold_text s = fold_text t"

section \<open>Decimal numerals\<close>

text \<open>The verb \<open>%d\<close> of package fmt on an integer.\<close>

fun show_nat :: "nat \<Rightarrow> string" where
  "show_nat n = (if n < 10 then [char_of (48 + n)] else show_nat (n div 10) @ [char_of (48 + n mod 10)])"

declare show_nat.simps [simp del]

definition show_int :: "int \<Rightarrow> string" where
  "show_int i = (if i < 0 then CHR ''-'' # show_nat (nat (- i)) else show_nat (nat i))"

text \<open>strconv.Atoi: an optional sign and decimal digits in the range of a 64-bit int; \<open>None\<close> is its error.\<close>

definition digit_value :: "char \<Rightarrow> int option" where
  "digit_value c = (let n = (of_char c :: nat) in if 48 \<le> n \<and> n \<le> 57 then Some (int n - 48) else None)"

fun digits_value :: "int \<Rightarrow> string \<Rightarrow> int option" where
  "digits_value acc [] = Some acc"
| "digits_value acc (c # cs) =
    (case digit_value c of None \<Rightarrow> None | Some d \<Rightarrow> digits_value (10 * acc + d) cs)"

definition signed_digits :: "string \<Rightarrow> int option" where
  "signed_digits s = (case s of [] \<Rightarrow> None
     | c # cs \<Rightarrow>
        if c = CHR ''-'' then (if cs = [] then None else map_option uminus (digits_value 0 cs))
        else if c = CHR ''+'' then (if cs = [] then None else digits_value 0 cs)
        else digits_value 0 s)"

definition atoi :: "string \<Rightarrow> int option" where
  "atoi s = (case signed_digits s of None \<Rightarrow> None
     | Some i \<Rightarrow> if - (2 ^ 63) \<le> i \<and> i < 2 ^ 63 then Some i else None)"

section \<open>Identifiers\<close>

text \<open>
  The slug pattern \<open>^[a-z0-9]([-a-z0-9]*[a-z0-9])?$\<close> of package application and of package
  project. The optional group is the empty text or a run of slug bytes that ends in no dash.
\<close>

definition slug_alnum :: "char \<Rightarrow> bool" where
  "slug_alnum c \<longleftrightarrow> (0x61 \<le> (of_char c :: nat) \<and> (of_char c :: nat) \<le> 0x7A) \<or>
     (0x30 \<le> (of_char c :: nat) \<and> (of_char c :: nat) \<le> 0x39)"

definition slug_pattern :: "string \<Rightarrow> bool" where
  "slug_pattern s = (case s of [] \<Rightarrow> False | c # cs \<Rightarrow> slug_alnum c \<and>
     (cs = [] \<or> (list_all (\<lambda>d. d = CHR ''-'' \<or> slug_alnum d) (butlast cs) \<and> slug_alnum (last cs))))"

lemma slug_alnum_graphic: "slug_alnum c \<Longrightarrow> graphic c"
  by (auto simp: slug_alnum_def graphic_def)

lemma slug_ends:
  assumes "slug_pattern s"
  shows "s \<noteq> []" "slug_alnum (hd s)" "slug_alnum (last s)"
  using assms by (auto simp: slug_pattern_def split: list.splits)

lemma slug_bytes:
  assumes s: "slug_pattern s" and c: "c \<in> set s"
  shows "c = CHR ''-'' \<or> slug_alnum c"
proof -
  obtain d ds where sd: "s = d # ds" using c by (cases s) auto
  have d: "slug_alnum d" using s sd by (simp add: slug_pattern_def)
  show ?thesis
  proof (cases "c = d \<or> ds = []")
    case True
    with d c sd show ?thesis by auto
  next
    case False
    with s sd have l: "slug_alnum (last ds)"
      and b: "list_all (\<lambda>d. d = CHR ''-'' \<or> slug_alnum d) (butlast ds)"
      by (auto simp: slug_pattern_def)
    from False c sd have "c \<in> set (butlast ds @ [last ds])" by auto
    then have "c \<in> set (butlast ds) \<or> c = last ds" by auto
    with l b show ?thesis by (auto simp: list_all_iff)
  qed
qed

lemma slug_no_byte:
  assumes "slug_pattern s" and "\<not> slug_alnum c" and "c \<noteq> CHR ''-''"
  shows "c \<notin> set s"
  using slug_bytes [OF assms(1)] assms(2,3) by blast

lemma slug_no_special [string_simps]:
  assumes "slug_pattern s"
  shows "CHR ''_'' \<notin> set s" "CHR ''/'' \<notin> set s" "CHR ''.'' \<notin> set s" "CHR '':'' \<notin> set s"
  by (rule slug_no_byte [OF assms]; simp add: slug_alnum_def)+

lemma slug_trim: "slug_pattern s \<Longrightarrow> trim_space s = s"
  by (rule trim_space_graphic) (simp_all add: slug_ends slug_alnum_graphic)

section \<open>Lists of strings\<close>

text \<open>
  The loops that keep the first occurrence of each trimmed, nonempty value: the helper that
  several packages write for themselves.
\<close>

fun dedupe_into :: "string list \<Rightarrow> string list \<Rightarrow> string list" where
  "dedupe_into items [] = items"
| "dedupe_into items (v # vs) =
    (let value = trim_space v in
     if value = [] \<or> value \<in> set items then dedupe_into items vs
     else dedupe_into (items @ [value]) vs)"

lemma dedupe_into_set:
  "set (dedupe_into items vs) = set items \<union> (trim_space ` set vs - {[]})"
  by (induction items vs rule: dedupe_into.induct) (auto simp: Let_def)

lemma dedupe_into_distinct: "distinct items \<Longrightarrow> distinct (dedupe_into items vs)"
  by (induction items vs rule: dedupe_into.induct) (auto simp: Let_def)

lemma dedupe_into_id:
  assumes "distinct (items @ vs)" and "\<forall>v \<in> set vs. trim_space v = v \<and> v \<noteq> []"
  shows "dedupe_into items vs = items @ vs"
  using assms by (induction items vs rule: dedupe_into.induct) (auto simp: Let_def)

end
