(* ===== verification/GoEncoding.thy ===== *)
theory GoEncoding
  imports GoStrings
begin

text \<open>
  The part of encoding/base64, unicode/utf8 and encoding/json that the backend uses to write the
  Docker credential of an application: standard base64, the length of a valid UTF-8 sequence, and
  a JSON string with the escapes of json.Marshal.
\<close>

section \<open>Base 64\<close>

definition b64_char :: "nat \<Rightarrow> char" where
  "b64_char n =
    (if n < 26 then char_of (65 + n) else if n < 52 then char_of (71 + n)
     else if n < 62 then char_of (n - 4) else if n = 62 then CHR ''+'' else CHR ''/'')"

fun base64 :: "string \<Rightarrow> string" where
  "base64 [] = []"
| "base64 [a] =
    (let x = of_char a :: nat in [b64_char (x div 4), b64_char (x mod 4 * 16), CHR ''='', CHR ''=''])"
| "base64 [a, b] =
    (let x = of_char a :: nat; y = of_char b :: nat in
     [b64_char (x div 4), b64_char (x mod 4 * 16 + y div 16), b64_char (y mod 16 * 4), CHR ''=''])"
| "base64 (a # b # c # rest) =
    (let x = of_char a :: nat; y = of_char b :: nat; z = of_char c :: nat in
     b64_char (x div 4) # b64_char (x mod 4 * 16 + y div 16) #
     b64_char (y mod 16 * 4 + z div 64) # b64_char (z mod 64) # base64 rest)"

text \<open>Decoding a group of four, to state that no byte of a credential is lost.\<close>

definition b64_value :: "char \<Rightarrow> nat" where
  "b64_value c = (let n = of_char c :: nat in
     if 65 \<le> n \<and> n < 91 then n - 65 else if 97 \<le> n \<and> n < 123 then n - 71
     else if 48 \<le> n \<and> n < 58 then n + 4 else if n = 43 then 62 else 63)"

fun unbase64 :: "string \<Rightarrow> string" where
  "unbase64 (p # q # r # s # rest) =
    (let a = b64_value p; b = b64_value q; c = b64_value r; d = b64_value s in
     if s = CHR ''='' then
       (if r = CHR ''='' then [char_of (a * 4 + b div 16)]
        else [char_of (a * 4 + b div 16), char_of (b mod 16 * 16 + c div 4)])
     else char_of (a * 4 + b div 16) # char_of (b mod 16 * 16 + c div 4) #
       char_of (c mod 4 * 64 + d) # unbase64 rest)"
| "unbase64 _ = []"

lemma b64_value_char: "n < 64 \<Longrightarrow> b64_value (b64_char n) = n"
  by (auto simp: b64_char_def b64_value_def Let_def)

lemma b64_char_not_pad: "n < 64 \<Longrightarrow> b64_char n \<noteq> CHR ''=''"
proof
  assume n: "n < 64" and e: "b64_char n = CHR ''=''"
  from b64_value_char [OF n] have "n = 63" unfolding e by (simp add: b64_value_def)
  with e show False by (simp add: b64_char_def)
qed

lemma pack_bits: "b < n \<Longrightarrow> (a * n + b) div n = a \<and> (a * n + b) mod n = b" for a b n :: nat
  by simp

lemma group_bits:
  fixes x y z :: nat
  assumes "x < 256" "y < 256" "z < 256"
  shows "x div 4 < 64" "x mod 4 * 16 + y div 16 < 64" "y mod 16 * 4 + z div 64 < 64" "z mod 64 < 64"
    and "x div 4 * 4 + (x mod 4 * 16 + y div 16) div 16 = x"
    and "(x mod 4 * 16 + y div 16) mod 16 * 16 + (y mod 16 * 4 + z div 64) div 4 = y"
    and "(y mod 16 * 4 + z div 64) mod 4 * 64 + z mod 64 = z"
proof -
  have b: "y div 16 < 16" "z div 64 < 4" using assms by linarith+
  note p = pack_bits [OF b(1), of "x mod 4"] pack_bits [OF b(2), of "y mod 16"]
  show "x div 4 < 64" "x mod 4 * 16 + y div 16 < 64" "y mod 16 * 4 + z div 64 < 64" "z mod 64 < 64"
    using assms by linarith+
  show "x div 4 * 4 + (x mod 4 * 16 + y div 16) div 16 = x"
    using p(1) by (metis div_mult_mod_eq)
  show "(x mod 4 * 16 + y div 16) mod 16 * 16 + (y mod 16 * 4 + z div 64) div 4 = y"
    using p by (metis div_mult_mod_eq)
  show "(y mod 16 * 4 + z div 64) mod 4 * 64 + z mod 64 = z"
    using p(2) by (metis div_mult_mod_eq)
qed

text \<open>Three bytes in a group of four are read back.\<close>

lemma group_back:
  fixes a b c :: char
  defines "x \<equiv> of_char a :: nat" and "y \<equiv> of_char b :: nat" and "z \<equiv> of_char c :: nat"
  shows "char_of (x div 4 * 4 + (x mod 4 * 16 + y div 16) div 16) = a"
    and "char_of ((x mod 4 * 16 + y div 16) mod 16 * 16 + (y mod 16 * 4 + z div 64) div 4) = b"
    and "char_of ((y mod 16 * 4 + z div 64) mod 4 * 64 + z mod 64) = c"
    and "char_of (x div 4 * 4 + x mod 4 * 16 div 16) = a"
    and "char_of ((x mod 4 * 16 + y div 16) mod 16 * 16 + y mod 16 * 4 div 4) = b"
  using group_bits(5-7) [of x y z] group_bits(5,6) [of x y 0] group_bits(5) [of x 0 0]
  by (simp_all only: x_def y_def z_def nat_of_char_less_256 char_of_char div_0 add_0_right zero_less_numeral)

lemma base64_roundtrip: "unbase64 (base64 s) = s"
proof (induction s rule: base64.induct)
  case (2 a)
  show ?case
    using group_bits(1,2) [of "of_char a" 0 0] group_back(4) [of a]
    by (simp only: base64.simps unbase64.simps Let_def b64_value_char nat_of_char_less_256 zero_less_numeral
        div_0 add_0_right simp_thms if_True)
next
  case (3 a b)
  show ?case
    using group_bits(1-3) [of "of_char a" "of_char b" 0] group_back(1,5) [of a b]
    by (simp only: base64.simps unbase64.simps Let_def b64_value_char b64_char_not_pad nat_of_char_less_256
        zero_less_numeral div_0 add_0_right simp_thms if_True if_False)
next
  case (4 a b c rest)
  then show ?case
    using group_bits(1-4) [of "of_char a" "of_char b" "of_char c"] group_back(1) [of a b] group_back(2) [of a b c] group_back(3) [of b c]
    by (simp only: base64.simps unbase64.simps Let_def b64_value_char b64_char_not_pad nat_of_char_less_256
        simp_thms if_False)
qed simp

section \<open>UTF-8 and JSON strings\<close>

definition in_range :: "nat \<Rightarrow> nat \<Rightarrow> char \<Rightarrow> bool" where
  "in_range a b c \<longleftrightarrow> a \<le> (of_char c :: nat) \<and> (of_char c :: nat) \<le> b"

text \<open>The length of the valid UTF-8 sequence at the head, 0 when there is none.\<close>

fun rune_length :: "string \<Rightarrow> nat" where
  "rune_length [] = 0"
| "rune_length (a # xs) =
    (if in_range 0 0x7F a then 1
     else if in_range 0xC2 0xDF a then
       (case xs of b # _ \<Rightarrow> if in_range 0x80 0xBF b then 2 else 0 | [] \<Rightarrow> 0)
     else if in_range 0xE0 0xEF a then
       (case xs of b # c # _ \<Rightarrow>
          if in_range (if a = CHR 0xE0 then 0xA0 else 0x80) (if a = CHR 0xED then 0x9F else 0xBF) b
             \<and> in_range 0x80 0xBF c then 3 else 0
        | _ \<Rightarrow> 0)
     else if in_range 0xF0 0xF4 a then
       (case xs of b # c # d # _ \<Rightarrow>
          if in_range (if a = CHR 0xF0 then 0x90 else 0x80) (if a = CHR 0xF4 then 0x8F else 0xBF) b
             \<and> in_range 0x80 0xBF c \<and> in_range 0x80 0xBF d then 4 else 0
        | _ \<Rightarrow> 0)
     else 0)"

definition hex_digit :: "nat \<Rightarrow> char" where
  "hex_digit n = (if n < 10 then char_of (48 + n) else char_of (87 + n))"

definition json_ascii :: "char \<Rightarrow> string" where
  "json_ascii c =
    (let n = of_char c :: nat in
     if c = CHR 0x22 then [CHR 0x5C, CHR 0x22]
     else if c = CHR 0x5C then [CHR 0x5C, CHR 0x5C]
     else if n = 8 then CHR 0x5C # ''b''
     else if n = 12 then CHR 0x5C # ''f''
     else if n = 10 then CHR 0x5C # ''n''
     else if n = 13 then CHR 0x5C # ''r''
     else if n = 9 then CHR 0x5C # ''t''
     else if n < 32 \<or> c = CHR ''<'' \<or> c = CHR ''>'' \<or> c = CHR ''&'' then
       CHR 0x5C # ''u00'' @ [hex_digit (n div 16), hex_digit (n mod 16)]
     else [c])"

function json_body :: "string \<Rightarrow> string" where
  "json_body [] = []"
| "json_body (a # xs) =
    (let k = rune_length (a # xs) in
     if k = 0 then (CHR 0x5C # ''ufffd'') @ json_body xs
     else if k = 1 then json_ascii a @ json_body xs
     else if take 3 (a # xs) = [CHR 0xE2, CHR 0x80, CHR 0xA8] then (CHR 0x5C # ''u2028'') @ json_body (drop 2 xs)
     else if take 3 (a # xs) = [CHR 0xE2, CHR 0x80, CHR 0xA9] then (CHR 0x5C # ''u2029'') @ json_body (drop 2 xs)
     else take k (a # xs) @ json_body (drop (k - 1) xs))"
  by pat_completeness auto
termination by (relation "measure length") auto

definition json_string :: "string \<Rightarrow> string" where
  "json_string s = CHR 0x22 # json_body s @ [CHR 0x22]"

end
