(* ===== verification/GoErrors.thy ===== *)
theory GoErrors
  imports GoStrings
begin

text \<open>
  The error values of the backend: the sentinel errors of the packages application, project, change,
  admin, gitops, context and core, their error structs, errors made with errors.New or fmt.Errorf (\<open>OtherError\<close>, with the
  text), and wrapping with the verb \<open>%w\<close> (\<open>Wrapped\<close>, with the text before the colon; \<open>Annotated\<close>, with the text after it). errors.Is and
  errors.As look through the wrapping.
\<close>

datatype go_error =
    ErrNotFound | ErrConflict | ErrArchived | ErrAlreadyArchived | ErrInvalidID
  | ErrRequiresDeployer | ErrRequiresAdmin | ErrChangeRequired | ErrInvalidPolicy
  | ErrDeploymentNotFound
  | ErrProjectNotFound | ErrProjectForbidden | ErrProjectConflict
  | ErrClusterForbidden | ErrClusterConflict
  | ErrChangeNotFound | ErrInvalidOperation | ErrApprovalRequired | ErrSubmissionRequired
  | ErrStateConflict
  | ErrUnauthorized | ErrAdminForbidden
  | ValidationError string jmap
  | ProjectValidationError string jmap
  | ClusterValidationError string jmap
  | ImageValidationError string string string string
  | ProtectedProjectError string string string
  | CatalogNotFoundError string
  | MissingFileError string
  | ErrRepositoryLockBusy | ErrDeadlineExceeded | ErrCanceled
  | ApiRequestError string int string
  | OtherError string
  | Wrapped string go_error
  | Annotated go_error string

text \<open>errors.Unwrap to the end: the error a chain of \<open>%w\<close> wraps.\<close>

fun root_cause :: "go_error \<Rightarrow> go_error" where
  "root_cause (Wrapped _ e) = root_cause e"
| "root_cause (Annotated e _) = root_cause e"
| "root_cause e = e"

definition errors_is :: "go_error \<Rightarrow> go_error \<Rightarrow> bool" where
  "errors_is e target \<longleftrightarrow> root_cause e = target"

text \<open>errors.As with the two validation structs of package application.\<close>

definition as_validation :: "go_error \<Rightarrow> bool" where
  "as_validation e = (case root_cause e of ValidationError _ _ \<Rightarrow> True | _ \<Rightarrow> False)"

definition as_image_validation :: "go_error \<Rightarrow> (string \<times> string) option" where
  "as_image_validation e =
    (case root_cause e of ImageValidationError code msg _ _ \<Rightarrow> Some (code, msg) | _ \<Rightarrow> None)"

text \<open>The Error method: wrapped texts are joined by a colon.\<close>

fun error_text :: "go_error \<Rightarrow> string" where
  "error_text ErrNotFound = ''application not found''"
| "error_text ErrConflict = ''application conflict''"
| "error_text ErrArchived = ''application archived''"
| "error_text ErrAlreadyArchived = ''application already archived''"
| "error_text ErrInvalidID = ''application id is invalid''"
| "error_text ErrRequiresDeployer = ''deployer permissions are required''"
| "error_text ErrRequiresAdmin = ''admin permissions are required''"
| "error_text ErrChangeRequired = ''change review is required for this environment''"
| "error_text ErrInvalidPolicy = ''application request violates project policy''"
| "error_text ErrDeploymentNotFound = ''deployment not found''"
| "error_text ErrProjectNotFound = ''project not found''"
| "error_text ErrProjectForbidden = ''project forbidden''"
| "error_text ErrProjectConflict = ''project conflict''"
| "error_text ErrClusterForbidden = ''cluster forbidden''"
| "error_text ErrClusterConflict = ''cluster conflict''"
| "error_text ErrChangeNotFound = ''change not found''"
| "error_text ErrInvalidOperation = ''change operation is invalid''"
| "error_text ErrApprovalRequired = ''approved change is required before merge''"
| "error_text ErrSubmissionRequired = ''submitted change is required before this transition''"
| "error_text ErrStateConflict = ''change state transition is invalid''"
| "error_text ErrUnauthorized = ''unauthorized''"
| "error_text ErrAdminForbidden = ''admin forbidden''"
| "error_text (ApiRequestError p c m) = ''kubernetes api '' @ p @ '' failed with status '' @ show_int c @ '': '' @ m"
| "error_text (ValidationError m _) = m"
| "error_text (ProjectValidationError m _) = m"
| "error_text (ClusterValidationError m _) = m"
| "error_text (ImageValidationError _ m _ _) = m"
| "error_text (ProtectedProjectError _ _ _) = ''protected project cannot be deleted''"
| "error_text (CatalogNotFoundError p) = ''project catalog was not found at '' @ p"
| "error_text (MissingFileError p) = ''managed repository is missing required file '' @ p"
| "error_text ErrRepositoryLockBusy = ''managed git repository lock is busy''"
| "error_text ErrDeadlineExceeded = ''context deadline exceeded''"
| "error_text ErrCanceled = ''context canceled''"
| "error_text (OtherError m) = m"
| "error_text (Wrapped m e) = m @ '': '' @ error_text e"
| "error_text (Annotated e m) = error_text e @ '': '' @ m"

lemma root_cause_idem [simp]: "root_cause (root_cause e) = root_cause e"
  by (induction e) auto

lemma errors_is_wrapped [simp]: "errors_is (Wrapped m e) t = errors_is e t" "errors_is (Annotated e m) t = errors_is e t"
  by (simp_all add: errors_is_def)

definition field_detail :: "string \<Rightarrow> jmap" where
  "field_detail f = [(''field'', JStr f)]"

end
