(* ===== verification/Domain.thy ===== *)
theory Domain
  imports GoErrors
begin

text \<open>
  The data model: the structs of the packages core, project, application and change that cross
  component boundaries. Every struct is a record with the fields in the source's order; a pointer
  field is an \<open>option\<close>; a Go string type whose values come from requests or files stays a string,
  an enumeration the code alone writes is a datatype.
\<close>

section \<open>Package core\<close>

record user =
  user_id :: string
  user_name :: string
  user_display :: string
  user_groups :: "string list"

section \<open>Package project\<close>

datatype role = RoleViewer | RoleDeployer | RoleAdmin

record access =
  viewer_groups :: "string list"
  deployer_groups :: "string list"
  admin_groups :: "string list"

record environment =
  env_id :: string
  env_name :: string
  env_cluster :: string
  env_write_mode :: string
  env_default :: bool

record policy_set =
  pol_min_replicas :: int
  pol_environments :: "string list"
  pol_strategies :: "string list"
  pol_clusters :: "string list"
  pol_prod_pr :: bool
  pol_auto_rollback :: bool
  pol_required_probes :: bool

record repository =
  repo_id :: string
  repo_name :: string
  repo_url :: string
  repo_description :: string
  repo_branch :: string
  repo_auth_path :: string
  repo_config_file :: string

record catalog_project =
  cp_id :: string
  cp_name :: string
  cp_description :: string
  cp_namespace :: string
  cp_access :: access
  cp_environments :: "environment list"
  cp_repositories :: "repository list"
  cp_policies :: policy_set

record project_summary =
  ps_id :: string
  ps_name :: string
  ps_description :: string
  ps_namespace :: string
  ps_role :: role

section \<open>Package cluster\<close>

record cluster =
  cl_id :: string
  cl_name :: string
  cl_description :: string
  cl_default :: bool

section \<open>Package application\<close>

datatype sync_status = SyncUnknown | SyncSyncing | SyncSynced | SyncDegraded

record secret_entry =
  se_key :: string
  se_value :: string

record resource_quantity =
  rq_cpu :: string
  rq_memory :: string

record resource_requirements =
  rr_requests :: resource_quantity
  rr_limits :: resource_quantity

record create_request =
  cr_name :: string
  cr_description :: string
  cr_image :: string
  cr_service_port :: int
  cr_replicas :: int
  cr_strategy :: string
  cr_mesh :: bool
  cr_load_balancer :: bool
  cr_environment :: string
  cr_secrets :: "secret_entry list"
  cr_repository_id :: string
  cr_repository_url :: string
  cr_repository_branch :: string
  cr_repository_token :: string
  cr_repository_service_id :: string
  cr_config_path :: string
  cr_poll_interval :: int
  cr_registry_server :: string
  cr_registry_username :: string
  cr_registry_token :: string
  cr_repository_token_path :: string
  cr_registry_secret_path :: string

record update_request =
  up_description :: "string option"
  up_image :: "string option"
  up_service_port :: "int option"
  up_replicas :: "int option"
  up_strategy :: "string option"
  up_mesh :: "bool option"
  up_load_balancer :: "bool option"
  up_environment :: "string option"
  up_repository_id :: "string option"
  up_repository_url :: "string option"
  up_repository_branch :: "string option"
  up_repository_service_id :: "string option"
  up_config_path :: "string option"
  up_poll_interval :: "int option"
  up_resources :: "resource_requirements option"

record app_record =
  ar_id :: string
  ar_project_id :: string
  ar_namespace :: string
  ar_name :: string
  ar_description :: string
  ar_image :: string
  ar_service_port :: int
  ar_replicas :: int
  ar_required_probes :: bool
  ar_strategy :: string
  ar_environment :: string
  ar_created_at :: int
  ar_updated_at :: int
  ar_secret_path :: string
  ar_repository_id :: string
  ar_repository_url :: string
  ar_repository_branch :: string
  ar_repository_service_id :: string
  ar_config_path :: string
  ar_repository_token_path :: string
  ar_registry_secret_path :: string
  ar_poll_interval :: int
  ar_resources :: resource_requirements
  ar_mesh :: bool
  ar_load_balancer :: bool

record project_context =
  pc_id :: string
  pc_namespace :: string
  pc_environments :: "string list"
  pc_environment_clusters :: "(string \<times> string) list"
  pc_policies :: policy_set

record deployment_record =
  dr_id :: string
  dr_application_id :: string
  dr_project_id :: string
  dr_application_name :: string
  dr_environment :: string
  dr_image :: string
  dr_image_tag :: string
  dr_strategy :: string
  dr_status :: string
  dr_sync_status :: "sync_status option"
  dr_rollout_phase :: string
  dr_current_step :: "int option"
  dr_canary_weight :: "int option"
  dr_stable_revision :: string
  dr_canary_revision :: string
  dr_message :: string
  dr_commit_sha :: string
  dr_created_at :: int
  dr_updated_at :: int

record app_event =
  ev_id :: string
  ev_type :: string
  ev_message :: string
  ev_created_at :: int
  ev_metadata :: jmap

record rollback_policy =
  rp_enabled :: bool
  rp_max_error_rate :: "f64 option"
  rp_max_latency :: "int option"
  rp_min_request_rate :: "f64 option"

record sync_info =
  si_status :: sync_status
  si_message :: string
  si_observed_at :: int

record app_metadata =
  am_id :: string
  am_project_id :: string
  am_namespace :: string
  am_name :: string
  am_description :: string
  am_image :: string
  am_service_port :: int
  am_replicas :: int
  am_required_probes :: "bool option"
  am_strategy :: string
  am_environment :: string
  am_created_at :: int
  am_updated_at :: int
  am_secret_path :: string
  am_archived_at :: "int option"
  am_archived_by :: string
  am_environments :: "string list"
  am_repository_id :: string
  am_repository_url :: string
  am_repository_branch :: string
  am_repository_service_id :: string
  am_config_path :: string
  am_repository_token_path :: string
  am_registry_secret_path :: string
  am_poll_interval :: int
  am_resources :: resource_requirements
  am_mesh :: "bool option"
  am_load_balancer :: "bool option"

section \<open>Package change\<close>

datatype change_status = Draft | Submitted | Approved | Merged

record change_request =
  cq_operation :: string
  cq_application_id :: string
  cq_name :: string
  cq_description :: string
  cq_image :: string
  cq_service_port :: int
  cq_strategy :: string
  cq_environment :: string
  cq_image_tag :: string
  cq_secrets :: "secret_entry list"
  cq_repository_url :: string
  cq_repository_branch :: string
  cq_repository_token :: string
  cq_repository_service_id :: string
  cq_config_path :: string
  cq_registry_server :: string
  cq_registry_username :: string
  cq_registry_token :: string
  cq_policies :: "policy_set option"
  cq_summary :: string

record change_record =
  ch_id :: string
  ch_project_id :: string
  ch_application_id :: string
  ch_operation :: string
  ch_environment :: string
  ch_write_mode :: string
  ch_status :: change_status
  ch_summary :: string
  ch_diff_preview :: "string list"
  ch_request :: change_request
  ch_created_by :: string
  ch_approved_by :: string
  ch_merged_by :: string
  ch_created_at :: int
  ch_updated_at :: int

end
