(* ===== verification/Messages.thy ===== *)
theory Messages
  imports Prelude
begin

text \<open>
  The message texts of events, errors and operations that the backend writes in Korean, as the
  UTF-8 bytes of the source. Each comment names the function that uses the text.
\<close>

definition utf8 :: "nat list \<Rightarrow> string" where
  "utf8 bytes = map char_of bytes"

text \<open>image_verifier.go RegistryImageVerifier.Verify\<close>

definition msg_invalid_image :: string where
  "msg_invalid_image =
    utf8 [236, 187, 168, 237, 133, 140, 236, 157, 180, 235, 132, 136] @ '' '' @ utf8 [236, 157,
      180, 235, 175, 184, 236, 167, 128] @ '' '' @ utf8 [237, 152, 149, 236, 139, 157, 236, 157,
      180] @ '' '' @ utf8 [236, 152, 172, 235, 176, 148, 235, 165, 180, 236, 167, 128] @ '' '' @
      utf8 [236, 149, 138, 236, 138, 181, 235, 139, 136, 235, 139, 164] @ ''.''"

text \<open>image_verifier.go imageNotFoundError\<close>

definition msg_image_not_found :: string where
  "msg_image_not_found =
    utf8 [236, 167, 128, 236, 160, 149, 237, 149, 156] @ '' '' @ utf8 [236, 187, 168, 237, 133,
      140, 236, 157, 180, 235, 132, 136] @ '' '' @ utf8 [236, 157, 180, 235, 175, 184, 236, 167,
      128, 235, 165, 188] @ '' '' @ utf8 [236, 176, 190, 236, 157, 132] @ '' '' @ utf8 [236,
      136, 152] @ '' '' @ utf8 [236, 151, 134, 236, 138, 181, 235, 139, 136, 235, 139, 164] @
      ''. '' @ utf8 [236, 157, 180, 235, 175, 184, 236, 167, 128] @ '' '' @ utf8 [236, 157, 180,
      235, 166, 132, 234, 179, 188] @ '' '' @ utf8 [237, 131, 156, 234, 183, 184, 235, 165, 188]
      @ '' '' @ utf8 [237, 153, 149, 236, 157, 184, 237, 149, 180] @ '' '' @ utf8 [236, 163,
      188, 236, 132, 184, 236, 154, 148] @ ''.''"

text \<open>image_verifier.go authRequiredError\<close>

definition msg_auth_required :: string where
  "msg_auth_required =
    utf8 [236, 157, 180, 235, 175, 184, 236, 167, 128] @ '' '' @ utf8 [235, 160, 136, 236, 167,
      128, 236, 138, 164, 237, 138, 184, 235, 166, 172, 236, 151, 144] @ '' '' @ utf8 [236, 157,
      184, 236, 166, 157, 236, 157, 180] @ '' '' @ utf8 [237, 149, 132, 236, 154, 148, 237, 149,
      169, 235, 139, 136, 235, 139, 164] @ ''. '' @ utf8 [237, 152, 132, 236, 158, 172] @ '' ''
      @ utf8 [236, 132, 164, 236, 160, 149, 235, 167, 140, 236, 156, 188, 235, 161, 156, 235,
      138, 148] @ '' '' @ utf8 [236, 157, 180] @ '' '' @ utf8 [236, 157, 180, 235, 175, 184,
      236, 167, 128, 235, 165, 188] @ '' '' @ utf8 [234, 176, 128, 236, 160, 184, 236, 152, 172]
      @ '' '' @ utf8 [236, 136, 152] @ '' '' @ utf8 [236, 151, 134, 236, 138, 181, 235, 139,
      136, 235, 139, 164] @ ''.''"

text \<open>image_verifier.go imageCheckFailure\<close>

definition msg_check_failed :: string where
  "msg_check_failed =
    utf8 [236, 157, 180, 235, 175, 184, 236, 167, 128] @ '' '' @ utf8 [236, 160, 145, 234, 183,
      188] @ '' '' @ utf8 [236, 131, 129, 237, 131, 156, 235, 165, 188] @ '' '' @ utf8 [237,
      153, 149, 236, 157, 184, 237, 149, 152, 236, 167, 128] @ '' '' @ utf8 [235, 170, 187, 237,
      150, 136, 236, 138, 181, 235, 139, 136, 235, 139, 164] @ '': ''"

text \<open>image_verifier.go statusToImageError\<close>

definition msg_registry_status :: string where
  "msg_registry_status =
    utf8 [236, 157, 180, 235, 175, 184, 236, 167, 128] @ '' '' @ utf8 [235, 160, 136, 236, 167,
      128, 236, 138, 164, 237, 138, 184, 235, 166, 172] @ '' '' @ utf8 [237, 153, 149, 236, 157,
      184, 236, 151, 144] @ '' '' @ utf8 [236, 139, 164, 237, 140, 168, 237, 150, 136, 236, 138,
      181, 235, 139, 136, 235, 139, 164] @ ''. status=''"

text \<open>service.go VerifyImageAccess\<close>

definition msg_image_accessible :: string where
  "msg_image_accessible =
    utf8 [236, 157, 180, 235, 175, 184, 236, 167, 128, 235, 165, 188] @ '' '' @ utf8 [234, 176,
      128, 236, 160, 184, 236, 152, 172] @ '' '' @ utf8 [236, 136, 152] @ '' '' @ utf8 [236,
      158, 136, 236, 138, 181, 235, 139, 136, 235, 139, 164] @ ''.''"

text \<open>service.go CreateApplication\<close>

definition msg_application :: string where
  "msg_application =
    utf8 [236, 149, 160, 237, 148, 140, 235, 166, 172, 236, 188, 128, 236, 157, 180, 236, 133,
      152] @ '' ''"

text \<open>service.go CreateApplication\<close>

definition msg_created :: string where
  "msg_created =
    '' '' @ utf8 [236, 131, 157, 236, 132, 177]"

text \<open>service.go prepareDeploymentOperation\<close>

definition msg_queued :: string where
  "msg_queued =
    utf8 [235, 176, 176, 237, 143, 172] @ '' '' @ utf8 [236, 154, 148, 236, 178, 173, 236, 157,
      180] @ '' durable queue'' @ utf8 [236, 151, 144] @ '' '' @ utf8 [236, 160, 128, 236, 158,
      165, 235, 144, 152, 236, 151, 136, 234, 179, 160] @ '' worker '' @ utf8 [236, 139, 164,
      237, 150, 137, 236, 157, 132] @ '' '' @ utf8 [234, 184, 176, 235, 139, 164, 235, 166, 172,
      234, 179, 160] @ '' '' @ utf8 [236, 158, 136, 236, 138, 181, 235, 139, 136, 235, 139, 164]
      @ ''.''"

text \<open>service.go executeDeploymentOperation\<close>

definition msg_desired_image :: string where
  "msg_desired_image =
    ''Git desired state'' @ utf8 [236, 151, 144] @ '' '' @ utf8 [236, 157, 180, 235, 175, 184,
      236, 167, 128] @ '' ''"

text \<open>service.go executeDeploymentOperation\<close>

definition msg_applied :: string where
  "msg_applied =
    '' '' @ utf8 [235, 176, 152, 236, 152, 129]"

text \<open>service.go executeDeploymentOperation\<close>

definition msg_new_tag :: string where
  "msg_new_tag =
    utf8 [236, 131, 136] @ '' '' @ utf8 [236, 157, 180, 235, 175, 184, 236, 167, 128] @ '' '' @
      utf8 [237, 131, 156, 234, 183, 184] @ '' ''"

text \<open>service.go executeDeploymentOperation\<close>

definition msg_redeploy :: string where
  "msg_redeploy =
    '' '' @ utf8 [236, 158, 172, 235, 176, 176, 237, 143, 172]"

text \<open>service.go PatchApplication\<close>

definition msg_settings_updated :: string where
  "msg_settings_updated =
    utf8 [236, 149, 160, 237, 148, 140, 235, 166, 172, 236, 188, 128, 236, 157, 180, 236, 133,
      152] @ '' '' @ utf8 [236, 132, 164, 236, 160, 149] @ '' '' @ utf8 [234, 176, 177, 236,
      139, 160]"

text \<open>service.go UpdateApplicationSecrets\<close>

definition msg_secrets_updated :: string where
  "msg_secrets_updated =
    utf8 [236, 149, 160, 237, 148, 140, 235, 166, 172, 236, 188, 128, 236, 157, 180, 236, 133,
      152] @ '' '' @ utf8 [237, 153, 152, 234, 178, 189] @ '' '' @ utf8 [235, 179, 128, 236,
      136, 152, 235, 165, 188] @ '' '' @ utf8 [234, 176, 177, 236, 139, 160, 237, 150, 136, 236,
      138, 181, 235, 139, 136, 235, 139, 164] @ ''.''"

text \<open>service.go RestoreApplicationSecretVersion\<close>

definition msg_secrets_restored_a :: string where
  "msg_secrets_restored_a =
    utf8 [237, 153, 152, 234, 178, 189] @ '' '' @ utf8 [235, 179, 128, 236, 136, 152, 235, 165,
      188] @ '' secret version ''"

text \<open>service.go RestoreApplicationSecretVersion\<close>

definition msg_secrets_restored_b :: string where
  "msg_secrets_restored_b =
    '' '' @ utf8 [234, 184, 176, 236, 164, 128, 236, 156, 188, 235, 161, 156] @ '' '' @ utf8
      [235, 179, 181, 236, 155, 144, 237, 150, 136, 236, 138, 181, 235, 139, 136, 235, 139, 164]
      @ ''.''"

text \<open>service.go ArchiveApplication\<close>

definition msg_archived :: string where
  "msg_archived =
    utf8 [236, 149, 160, 237, 148, 140, 235, 166, 172, 236, 188, 128, 236, 157, 180, 236, 133,
      152, 236, 157, 132] @ '' '' @ utf8 [235, 179, 180, 234, 180, 128] @ '' '' @ utf8 [236,
      178, 152, 235, 166, 172, 237, 150, 136, 236, 138, 181, 235, 139, 136, 235, 139, 164] @
      ''.''"

text \<open>service.go SaveRollbackPolicy\<close>

definition msg_rollback_policy :: string where
  "msg_rollback_policy =
    utf8 [236, 158, 144, 235, 143, 153] @ '' '' @ utf8 [235, 161, 164, 235, 176, 177] @ '' '' @
      utf8 [236, 160, 149, 236, 177, 133] @ '' '' @ utf8 [234, 176, 177, 236, 139, 160]"

text \<open>service.go verifyDeploymentImage\<close>

definition msg_image_word :: string where
  "msg_image_word =
    utf8 [236, 157, 180, 235, 175, 184, 236, 167, 128] @ '' ''"

text \<open>service.go verifyDeploymentImage\<close>

definition msg_image_verified :: string where
  "msg_image_verified =
    '' '' @ utf8 [236, 160, 145, 234, 183, 188, 236, 157, 132] @ '' '' @ utf8 [237, 153, 149,
      236, 157, 184, 237, 150, 136, 236, 138, 181, 235, 139, 136, 235, 139, 164] @ ''.''"

text \<open>cluster/service.go defaultCluster\<close>

definition msg_default_cluster :: string where
  "msg_default_cluster =
    utf8 [234, 184, 176, 235, 179, 184] @ '' '' @ utf8 [237, 129, 180, 235, 159, 172, 236, 138,
      164, 237, 132, 176] @ '' '' @ utf8 [237, 131, 128, 234, 178, 159]"

text \<open>deployment_operations.go deploymentRecord\<close>

definition msg_op_running :: string where
  "msg_op_running =
    utf8 [235, 176, 176, 237, 143, 172] @ '' worker'' @ utf8 [234, 176, 128] @ '' Git desired
      state '' @ utf8 [235, 176, 152, 236, 152, 129, 236, 157, 132] @ '' '' @ utf8 [236, 178,
      152, 235, 166, 172, 237, 149, 152, 234, 179, 160] @ '' '' @ utf8 [236, 158, 136, 236, 138,
      181, 235, 139, 136, 235, 139, 164] @ ''.''"

text \<open>deployment_operations.go deploymentRecord\<close>

definition msg_op_retrying :: string where
  "msg_op_retrying =
    utf8 [236, 153, 184, 235, 182, 128] @ '' '' @ utf8 [236, 157, 152, 236, 161, 180, 236, 132,
      177] @ '' '' @ utf8 [235, 152, 144, 235, 138, 148] @ '' Git write '' @ utf8 [236, 139,
      164, 237, 140, 168] @ '' '' @ utf8 [237, 155, 132] @ '' '' @ utf8 [236, 158, 172, 236,
      139, 156, 235, 143, 132, 235, 165, 188] @ '' '' @ utf8 [234, 184, 176, 235, 139, 164, 235,
      166, 172, 234, 179, 160] @ '' '' @ utf8 [236, 158, 136, 236, 138, 181, 235, 139, 136, 235,
      139, 164] @ ''.''"

text \<open>deployment_operations.go deploymentRecord\<close>

definition msg_op_failed :: string where
  "msg_op_failed =
    utf8 [235, 176, 176, 237, 143, 172] @ '' operation'' @ utf8 [236, 157, 180] @ '' '' @ utf8
      [236, 158, 172, 236, 139, 156, 235, 143, 132] @ '' '' @ utf8 [237, 149, 156, 235, 143,
      132, 235, 165, 188] @ '' '' @ utf8 [236, 180, 136, 234, 179, 188, 237, 150, 136, 236, 138,
      181, 235, 139, 136, 235, 139, 164] @ ''.''"

text \<open>deployment_operations_mariadb.go MarkDeploymentOperationSucceeded\<close>

definition msg_op_completed :: string where
  "msg_op_completed =
    ''Git desired state '' @ utf8 [235, 176, 152, 236, 152, 129, 236, 157, 132] @ '' '' @ utf8
      [236, 153, 132, 235, 163, 140, 237, 150, 136, 236, 138, 181, 235, 139, 136, 235, 139, 164]
      @ ''.''"

text \<open>service.go decorateDeploymentStatus\<close>

definition msg_rollout_done :: string where
  "msg_rollout_done =
    ''Flux '' @ utf8 [235, 143, 153, 234, 184, 176, 237, 153, 148, 236, 153, 128] @ ''
      Kubernetes '' @ utf8 [235, 161, 164, 236, 149, 132, 236, 155, 131, 236, 157, 180] @ '' ''
      @ utf8 [236, 153, 132, 235, 163, 140, 235, 144, 152, 236, 151, 136, 236, 138, 181, 235,
      139, 136, 235, 139, 164] @ ''.''"

text \<open>service.go PromoteDeployment\<close>

definition msg_deployment :: string where
  "msg_deployment =
    utf8 [235, 176, 176, 237, 143, 172] @ '' ''"

text \<open>service.go PromoteDeployment\<close>

definition msg_promoted :: string where
  "msg_promoted =
    '' '' @ utf8 [236, 138, 185, 234, 178, 169]"

text \<open>service.go AbortDeployment\<close>

definition msg_aborted :: string where
  "msg_aborted =
    '' '' @ utf8 [236, 164, 145, 235, 139, 168]"

text \<open>service.go GetProjectHealth\<close>

definition msg_sync_unread :: string where
  "msg_sync_unread =
    ''sync '' @ utf8 [236, 131, 129, 237, 131, 156, 235, 165, 188] @ '' '' @ utf8 [236, 157,
      189, 236, 167, 128] @ '' '' @ utf8 [235, 170, 187, 237, 150, 136, 236, 138, 181, 235, 139,
      136, 235, 139, 164] @ ''.''"

text \<open>service.go syncHealthSignal\<close>

definition msg_sync_read :: string where
  "msg_sync_read =
    ''Flux sync '' @ utf8 [236, 131, 129, 237, 131, 156, 235, 165, 188] @ '' '' @ utf8 [236,
      157, 189, 236, 151, 136, 236, 138, 181, 235, 139, 136, 235, 139, 164] @ ''.''"

text \<open>service.go latestDeploymentHealthSignal\<close>

definition msg_no_history :: string where
  "msg_no_history =
    utf8 [236, 149, 132, 236, 167, 129] @ '' '' @ utf8 [234, 184, 176, 235, 161, 157, 235, 144,
      156] @ '' '' @ utf8 [235, 176, 176, 237, 143, 172] @ '' '' @ utf8 [236, 157, 180, 235,
      160, 165, 236, 157, 180] @ '' '' @ utf8 [236, 151, 134, 236, 138, 181, 235, 139, 136, 235,
      139, 164] @ ''.''"

text \<open>service.go latestDeploymentHealthSignal\<close>

definition msg_history_read :: string where
  "msg_history_read =
    utf8 [236, 181, 156, 234, 183, 188] @ '' '' @ utf8 [235, 176, 176, 237, 143, 172] @ '' '' @
      utf8 [236, 157, 180, 235, 160, 165, 236, 157, 132] @ '' '' @ utf8 [236, 157, 189, 236,
      151, 136, 236, 138, 181, 235, 139, 136, 235, 139, 164] @ ''.''"

text \<open>service.go latestDeploymentHealthSignal\<close>

definition msg_history_failed :: string where
  "msg_history_failed =
    utf8 [236, 181, 156, 234, 183, 188] @ '' '' @ utf8 [235, 176, 176, 237, 143, 172, 234, 176,
      128] @ '' '' @ utf8 [236, 139, 164, 237, 140, 168] @ '' '' @ utf8 [236, 131, 129, 237,
      131, 156, 236, 158, 133, 235, 139, 136, 235, 139, 164] @ ''.''"

text \<open>service.go latestDeploymentHealthSignal\<close>

definition msg_history_aborted :: string where
  "msg_history_aborted =
    utf8 [236, 181, 156, 234, 183, 188] @ '' '' @ utf8 [235, 176, 176, 237, 143, 172, 234, 176,
      128] @ '' '' @ utf8 [236, 164, 145, 235, 139, 168, 235, 144, 152, 236, 151, 136, 234, 177,
      176, 235, 130, 152] @ '' '' @ utf8 [236, 158, 144, 235, 143, 153] @ '' '' @ utf8 [235,
      161, 164, 235, 176, 177, 236, 157, 132] @ '' '' @ utf8 [237, 138, 184, 235, 166, 172, 234,
      177, 176, 237, 150, 136, 236, 138, 181, 235, 139, 136, 235, 139, 164] @ ''.''"

text \<open>service.go summarizeMetricDiagnostics\<close>

definition msg_no_series :: string where
  "msg_no_series =
    utf8 [236, 136, 152, 236, 167, 145, 235, 144, 156] @ '' metric series'' @ utf8 [234, 176,
      128] @ '' '' @ utf8 [236, 151, 134, 236, 138, 181, 235, 139, 136, 235, 139, 164] @ ''.''"

text \<open>service.go summarizeMetricDiagnostics\<close>

definition msg_empty_values :: string where
  "msg_empty_values =
    ''metric series'' @ utf8 [235, 138, 148] @ '' '' @ utf8 [236, 158, 136, 236, 156, 188, 235,
      130, 152] @ '' '' @ utf8 [234, 176, 146, 236, 157, 180] @ '' '' @ utf8 [235, 185, 132,
      236, 150, 180] @ '' '' @ utf8 [236, 158, 136, 236, 138, 181, 235, 139, 136, 235, 139, 164]
      @ ''. ServiceMonitor target, /metrics endpoint, label '' @ utf8 [235, 167, 164, 236, 185,
      173, 236, 157, 132] @ '' '' @ utf8 [237, 153, 149, 236, 157, 184, 237, 149, 180, 236, 149,
      188] @ '' '' @ utf8 [237, 149, 169, 235, 139, 136, 235, 139, 164] @ ''.''"

text \<open>service.go summarizeMetricDiagnostics\<close>

definition msg_some_empty :: string where
  "msg_some_empty =
    utf8 [236, 157, 188, 235, 182, 128] @ '' metric series'' @ utf8 [234, 176, 128] @ '' '' @
      utf8 [235, 185, 132, 236, 150, 180] @ '' '' @ utf8 [236, 158, 136, 236, 138, 181, 235,
      139, 136, 235, 139, 164] @ ''.''"

text \<open>service.go summarizeMetricDiagnostics\<close>

definition msg_series_ok :: string where
  "msg_series_ok =
    ''metric series'' @ utf8 [234, 176, 128] @ '' '' @ utf8 [236, 160, 149, 236, 131, 129, 236,
      160, 129, 236, 156, 188, 235, 161, 156] @ '' '' @ utf8 [236, 136, 152, 236, 167, 145, 235,
      144, 152, 234, 179, 160] @ '' '' @ utf8 [236, 158, 136, 236, 138, 181, 235, 139, 136, 235,
      139, 164] @ ''.''"

text \<open>service.go GetNetworkExposure\<close>

definition msg_no_exposure_reader :: string where
  "msg_no_exposure_reader =
    ''LoadBalancer '' @ utf8 [235, 133, 184, 236, 182, 156] @ '' '' @ utf8 [236, 131, 129, 237,
      131, 156] @ '' '' @ utf8 [235, 166, 172, 235, 141, 148, 234, 176, 128] @ '' '' @ utf8
      [236, 132, 164, 236, 160, 149, 235, 144, 152, 236, 167, 128] @ '' '' @ utf8 [236, 149,
      138, 236, 149, 152, 236, 138, 181, 235, 139, 136, 235, 139, 164] @ ''.''"

text \<open>poller.go SyncRepositoryNow\<close>

definition msg_based_on :: string where
  "msg_based_on =
    '' '' @ utf8 [234, 184, 176, 236, 164, 128, 236, 156, 188, 235, 161, 156] @ '' ''"

text \<open>poller.go SyncRepositoryNow\<close>

definition msg_nothing_new :: string where
  "msg_nothing_new =
    utf8 [236, 160, 128, 236, 158, 165, 236, 134, 140, 235, 165, 188] @ '' '' @ utf8 [237, 153,
      149, 236, 157, 184, 237, 150, 136, 236, 167, 128, 235, 167, 140] @ '' '' @ utf8 [236, 131,
      136] @ '' '' @ utf8 [235, 176, 152, 236, 152, 129] @ '' '' @ utf8 [235, 130, 180, 236,
      154, 169, 236, 157, 128] @ '' '' @ utf8 [236, 151, 134, 236, 138, 181, 235, 139, 136, 235,
      139, 164] @ ''.''"

text \<open>poller.go SyncRepositoryNow\<close>

definition msg_repository :: string where
  "msg_repository =
    utf8 [236, 160, 128, 236, 158, 165, 236, 134, 140] @ '' ''"

text \<open>poller.go SyncRepositoryNow\<close>

definition msg_service_settings :: string where
  "msg_service_settings =
    utf8 [236, 157, 152] @ '' '' @ utf8 [236, 132, 156, 235, 185, 132, 236, 138, 164] @ '' '' @
      utf8 [236, 132, 164, 236, 160, 149, 236, 157, 132] @ '' '' @ utf8 [235, 176, 152, 236,
      152, 129, 237, 150, 136, 236, 138, 181, 235, 139, 136, 235, 139, 164] @ ''.''"

text \<open>poller.go SyncRepositoryNow\<close>

definition msg_settings_applied :: string where
  "msg_settings_applied =
    utf8 [236, 132, 156, 235, 185, 132, 236, 138, 164] @ '' '' @ utf8 [236, 132, 164, 236, 160,
      149, 236, 157, 132] @ '' '' @ utf8 [235, 176, 152, 236, 152, 129, 237, 150, 136, 236, 138,
      181, 235, 139, 136, 235, 139, 164] @ ''.''"

text \<open>poller.go SyncRepositoryNow\<close>

definition msg_no_new_tag :: string where
  "msg_no_new_tag =
    utf8 [236, 160, 128, 236, 158, 165, 236, 134, 140, 235, 165, 188] @ '' '' @ utf8 [237, 153,
      149, 236, 157, 184, 237, 150, 136, 236, 167, 128, 235, 167, 140] @ '' '' @ utf8 [236, 131,
      136] @ '' image tag '' @ utf8 [235, 179, 128, 234, 178, 189, 236, 157, 128] @ '' '' @ utf8
      [236, 151, 134, 236, 138, 181, 235, 139, 136, 235, 139, 164] @ ''.''"

text \<open>poller.go SyncRepositoryNow\<close>

definition msg_change_detected_a :: string where
  "msg_change_detected_a =
    utf8 [236, 157, 152] @ '' '' @ utf8 [235, 179, 128, 234, 178, 189, 236, 157, 132] @ '' '' @
      utf8 [234, 176, 144, 236, 167, 128, 237, 149, 152, 236, 151, 172] @ '' '' @ utf8 [236,
      158, 144, 235, 143, 153] @ '' '' @ utf8 [235, 176, 176, 237, 143, 172, 235, 165, 188] @ ''
      '' @ utf8 [236, 136, 152, 237, 150, 137, 237, 149, 169, 235, 139, 136, 235, 139, 164] @
      ''. ('' @ utf8 [237, 131, 156, 234, 183, 184] @ '': ''"

text \<open>poller.go SyncRepositoryNow\<close>

definition msg_based_change :: string where
  "msg_based_change =
    '' '' @ utf8 [234, 184, 176, 236, 164, 128] @ '' '' @ utf8 [235, 179, 128, 234, 178, 189,
      236, 157, 132] @ '' '' @ utf8 [234, 176, 144, 236, 167, 128, 237, 149, 180] @ '' ''"

text \<open>poller.go SyncRepositoryNow\<close>

definition msg_started :: string where
  "msg_started =
    '' '' @ utf8 [235, 176, 176, 237, 143, 172, 235, 165, 188] @ '' '' @ utf8 [236, 139, 156,
      236, 158, 145, 237, 150, 136, 236, 138, 181, 235, 139, 136, 235, 139, 164] @ ''.''"

text \<open>poller.go pollAutoRollback\<close>

definition msg_rollback_failed :: string where
  "msg_rollback_failed =
    utf8 [236, 158, 144, 235, 143, 153] @ '' '' @ utf8 [235, 161, 164, 235, 176, 177] @ '' '' @
      utf8 [235, 176, 176, 237, 143, 172, 235, 165, 188] @ '' '' @ utf8 [236, 139, 156, 236,
      158, 145, 237, 149, 152, 236, 167, 128] @ '' '' @ utf8 [235, 170, 187, 237, 150, 136, 236,
      138, 181, 235, 139, 136, 235, 139, 164] @ ''.''"

text \<open>poller.go pollAutoRollback\<close>

definition msg_rolled_back :: string where
  "msg_rolled_back =
    utf8 [236, 158, 144, 235, 143, 153] @ '' '' @ utf8 [235, 161, 164, 235, 176, 177, 236, 157,
      132] @ '' '' @ utf8 [236, 136, 152, 237, 150, 137, 237, 150, 136, 236, 138, 181, 235, 139,
      136, 235, 139, 164] @ ''. ''"

text \<open>poller.go pollAll\<close>

definition msg_poller_bot :: string where
  "msg_poller_bot =
    ''AODS '' @ utf8 [236, 158, 144, 235, 143, 153] @ '' '' @ utf8 [236, 151, 133, 235, 141,
      176, 236, 157, 180, 237, 138, 184] @ '' '' @ utf8 [235, 180, 135]"

text \<open>poller.go evaluateAutoRollback\<close>

definition msg_error_rate_a :: string where
  "msg_error_rate_a =
    utf8 [236, 151, 144, 235, 159, 172, 236, 156, 168] @ '' ''"

text \<open>poller.go evaluateAutoRollback\<close>

definition msg_error_rate_b :: string where
  "msg_error_rate_b =
    utf8 [234, 176, 128] @ '' '' @ utf8 [236, 158, 132, 234, 179, 132, 236, 185, 152] @ '' ''"

text \<open>poller.go evaluateAutoRollback\<close>

definition msg_exceeded :: string where
  "msg_exceeded =
    utf8 [235, 165, 188] @ '' '' @ utf8 [236, 180, 136, 234, 179, 188, 237, 150, 136, 236, 138,
      181, 235, 139, 136, 235, 139, 164] @ ''.''"

text \<open>poller.go evaluateAutoRollback\<close>

definition msg_latency :: string where
  "msg_latency =
    utf8 [236, 167, 128, 236, 151, 176, 236, 139, 156, 234, 176, 132] @ '' P95 ''"

text \<open>change/service.go resolveSummary\<close>

definition msg_change_settings :: string where
  "msg_change_settings =
    '' '' @ utf8 [236, 132, 164, 236, 160, 149] @ '' '' @ utf8 [234, 176, 177, 236, 139, 160]"

text \<open>change/service.go resolveSummary\<close>

definition msg_change_policies :: string where
  "msg_change_policies =
    utf8 [237, 148, 132, 235, 161, 156, 236, 160, 157, 237, 138, 184] @ '' '' @ utf8 [236, 160,
      149, 236, 177, 133] @ '' '' @ utf8 [234, 176, 177, 236, 139, 160]"

text \<open>change/service.go resolveSummary\<close>

definition msg_change_request :: string where
  "msg_change_request =
    utf8 [235, 179, 128, 234, 178, 189] @ '' '' @ utf8 [236, 154, 148, 236, 178, 173]"

text \<open>change/service.go buildDiffPreview\<close>

definition msg_strategy_a :: string where
  "msg_strategy_a =
    '' '' @ utf8 [236, 160, 132, 235, 158, 181, 236, 157, 132] @ '' ''"

text \<open>change/service.go buildDiffPreview\<close>

definition msg_strategy_b :: string where
  "msg_strategy_b =
    '' '' @ utf8 [235, 161, 156] @ '' '' @ utf8 [235, 179, 128, 234, 178, 189]"

text \<open>change/service.go buildDiffPreview\<close>

definition msg_env_a :: string where
  "msg_env_a =
    '' '' @ utf8 [234, 184, 176, 235, 179, 184] @ '' '' @ utf8 [237, 153, 152, 234, 178, 189,
      236, 157, 132] @ '' ''"

text \<open>change/service.go buildDiffPreview\<close>

definition msg_env_b :: string where
  "msg_env_b =
    '' '' @ utf8 [235, 161, 156] @ '' '' @ utf8 [236, 160, 132, 237, 153, 152]"

text \<open>change/service.go buildDiffPreview\<close>

definition msg_image_a :: string where
  "msg_image_a =
    '' '' @ utf8 [236, 157, 180, 235, 175, 184, 236, 167, 128, 235, 165, 188] @ '' '' @ utf8
      [236, 131, 136] @ '' '' @ utf8 [237, 131, 156, 234, 183, 184] @ '' ''"

text \<open>change/service.go buildDiffPreview\<close>

definition msg_image_b :: string where
  "msg_image_b =
    '' '' @ utf8 [235, 161, 156] @ '' '' @ utf8 [234, 176, 177, 236, 139, 160]"

text \<open>change/service.go buildDiffPreview\<close>

definition msg_project_policies :: string where
  "msg_project_policies =
    '' '' @ utf8 [237, 148, 132, 235, 161, 156, 236, 160, 157, 237, 138, 184] @ '' '' @ utf8
      [236, 160, 149, 236, 177, 133] @ '' '' @ utf8 [234, 176, 177, 236, 139, 160]"

text \<open>change/service.go buildDiffPreview\<close>

definition msg_no_preview :: string where
  "msg_no_preview =
    utf8 [235, 175, 184, 235, 166, 172, 235, 179, 180, 234, 184, 176] @ '' '' @ utf8 [236, 160,
      149, 235, 179, 180] @ '' '' @ utf8 [236, 151, 134, 236, 157, 140]"

text \<open>kubernetes/local.go LocalSyncStatusReader.Read\<close>

definition msg_local_sync :: string where
  "msg_local_sync =
    ''Kubernetes/Flux '' @ utf8 [236, 151, 176, 235, 143, 153, 236, 157, 180] @ '' '' @ utf8
      [236, 132, 164, 236, 160, 149, 235, 144, 152, 236, 167, 128] @ '' '' @ utf8 [236, 149,
      138, 236, 149, 132] @ '' '' @ utf8 [235, 143, 153, 234, 184, 176, 237, 153, 148] @ '' '' @
      utf8 [236, 131, 129, 237, 131, 156, 235, 165, 188] @ '' '' @ utf8 [237, 153, 149, 236,
      157, 184, 237, 149, 160] @ '' '' @ utf8 [236, 136, 152] @ '' '' @ utf8 [236, 151, 134,
      236, 138, 181, 235, 139, 136, 235, 139, 164] @ ''.''"

text \<open>kubernetes/local.go LocalNetworkExposureReader.Read\<close>

definition msg_internal_service :: string where
  "msg_internal_service =
    utf8 [237, 152, 132, 236, 158, 172, 235, 138, 148] @ '' '' @ utf8 [235, 130, 180, 235, 182,
      128] @ '' '' @ utf8 [236, 160, 132, 236, 154, 169] @ ''(ClusterIP) '' @ utf8 [236, 132,
      156, 235, 185, 132, 236, 138, 164, 235, 161, 156] @ '' '' @ utf8 [236, 154, 180, 236, 152,
      129] @ '' '' @ utf8 [236, 164, 145, 236, 158, 133, 235, 139, 136, 235, 139, 164] @ ''.''"

text \<open>kubernetes/local.go LocalNetworkExposureReader.Read\<close>

definition msg_local_balancer :: string where
  "msg_local_balancer =
    ''Kubernetes API '' @ utf8 [236, 151, 176, 235, 143, 153, 236, 157, 180] @ '' '' @ utf8
      [236, 132, 164, 236, 160, 149, 235, 144, 152, 236, 167, 128] @ '' '' @ utf8 [236, 149,
      138, 236, 149, 132] @ '' '' @ utf8 [236, 139, 164, 236, 160, 156] @ '' LoadBalancer '' @
      utf8 [236, 164, 128, 235, 185, 132] @ '' '' @ utf8 [236, 131, 129, 237, 131, 156, 235,
      165, 188] @ '' '' @ utf8 [236, 161, 176, 237, 154, 140, 237, 149, 160] @ '' '' @ utf8
      [236, 136, 152] @ '' '' @ utf8 [236, 151, 134, 236, 138, 181, 235, 139, 136, 235, 139,
      164] @ ''. '' @ utf8 [237, 152, 132, 236, 158, 172, 235, 138, 148] @ '' '' @ utf8 [236,
      154, 148, 236, 178, 173] @ '' '' @ utf8 [236, 160, 128, 236, 158, 165] @ '' '' @ utf8
      [236, 131, 129, 237, 131, 156, 235, 167, 140] @ '' '' @ utf8 [237, 153, 149, 236, 157,
      184, 237, 149, 160] @ '' '' @ utf8 [236, 136, 152] @ '' '' @ utf8 [236, 158, 136, 236,
      138, 181, 235, 139, 136, 235, 139, 164] @ ''.''"

text \<open>kubernetes/real.go ErrorNetworkExposureReader.Read\<close>

definition msg_balancer_failed :: string where
  "msg_balancer_failed =
    ''LoadBalancer '' @ utf8 [236, 131, 129, 237, 131, 156] @ '' '' @ utf8 [236, 161, 176, 237,
      154, 140, 236, 151, 144] @ '' '' @ utf8 [236, 139, 164, 237, 140, 168, 237, 150, 136, 236,
      138, 181, 235, 139, 136, 235, 139, 164]"

text \<open>kubernetes/real.go ServiceNetworkExposureReader.Read\<close>

definition msg_no_balancer_client :: string where
  "msg_no_balancer_client =
    ''Kubernetes API '' @ utf8 [237, 129, 180, 235, 157, 188, 236, 157, 180, 236, 150, 184, 237,
      138, 184, 234, 176, 128] @ '' '' @ utf8 [236, 132, 164, 236, 160, 149, 235, 144, 152, 236,
      167, 128] @ '' '' @ utf8 [236, 149, 138, 236, 149, 132] @ '' LoadBalancer '' @ utf8 [236,
      131, 129, 237, 131, 156, 235, 165, 188] @ '' '' @ utf8 [236, 161, 176, 237, 154, 140, 237,
      149, 160] @ '' '' @ utf8 [236, 136, 152] @ '' '' @ utf8 [236, 151, 134, 236, 138, 181,
      235, 139, 136, 235, 139, 164] @ ''.''"

text \<open>kubernetes/real.go ServiceNetworkExposureReader.Read\<close>

definition msg_service_missing :: string where
  "msg_service_missing =
    ''Service'' @ utf8 [234, 176, 128] @ '' '' @ utf8 [236, 149, 132, 236, 167, 129] @ '' '' @
      utf8 [236, 131, 157, 236, 132, 177, 235, 144, 152, 236, 167, 128] @ '' '' @ utf8 [236,
      149, 138, 236, 149, 152, 236, 138, 181, 235, 139, 136, 235, 139, 164] @ ''. GitOps '' @
      utf8 [235, 176, 152, 236, 152, 129, 236, 157, 180] @ '' '' @ utf8 [235, 129, 157, 235,
      130, 152, 235, 169, 180] @ '' LoadBalancer '' @ utf8 [236, 164, 128, 235, 185, 132] @ ''
      '' @ utf8 [235, 139, 168, 234, 179, 132, 234, 176, 128] @ '' '' @ utf8 [236, 139, 156,
      236, 158, 145, 235, 144, 169, 235, 139, 136, 235, 139, 164] @ ''.''"

text \<open>kubernetes/real.go ServiceNetworkExposureReader.Read\<close>

definition msg_balancer_ready :: string where
  "msg_balancer_ready =
    utf8 [237, 129, 180, 235, 159, 172, 236, 138, 164, 237, 132, 176] @ '' LoadBalancer '' @
      utf8 [236, 163, 188, 236, 134, 140, 234, 176, 128] @ '' '' @ utf8 [236, 164, 128, 235,
      185, 132, 235, 144, 152, 236, 151, 136, 236, 138, 181, 235, 139, 136, 235, 139, 164] @ '':
      ''"

text \<open>kubernetes/real.go ServiceNetworkExposureReader.Read\<close>

definition msg_recent_event :: string where
  "msg_recent_event =
    '' '' @ utf8 [236, 181, 156, 234, 183, 188] @ '' '' @ utf8 [236, 157, 180, 235, 178, 164,
      237, 138, 184] @ '': ''"

text \<open>kubernetes/real.go ServiceNetworkExposureReader.Read\<close>

definition msg_balancer_warning :: string where
  "msg_balancer_warning =
    ''LoadBalancer '' @ utf8 [236, 164, 128, 235, 185, 132] @ '' '' @ utf8 [236, 164, 145] @ ''
      '' @ utf8 [234, 178, 189, 234, 179, 160, 234, 176, 128] @ '' '' @ utf8 [235, 176, 156,
      236, 131, 157, 237, 150, 136, 236, 138, 181, 235, 139, 136, 235, 139, 164] @ ''. ''"

text \<open>kubernetes/real.go ServiceNetworkExposureReader.Read\<close>

definition msg_service_type_a :: string where
  "msg_service_type_a =
    utf8 [237, 152, 132, 236, 158, 172] @ '' Service '' @ utf8 [237, 131, 128, 236, 158, 133,
      236, 157, 128] @ '' ''"

text \<open>kubernetes/real.go ServiceNetworkExposureReader.Read\<close>

definition msg_service_type_b :: string where
  "msg_service_type_b =
    '' '' @ utf8 [236, 158, 133, 235, 139, 136, 235, 139, 164] @ ''. '' @ utf8 [236, 149, 132,
      236, 167, 129] @ '' LoadBalancer '' @ utf8 [235, 176, 152, 236, 152, 129] @ '' '' @ utf8
      [236, 160, 132, 236, 158, 133, 235, 139, 136, 235, 139, 164] @ ''.''"

text \<open>kubernetes/real.go ServiceNetworkExposureReader.Read\<close>

definition msg_no_address :: string where
  "msg_no_address =
    ''Service'' @ utf8 [235, 138, 148] @ '' LoadBalancer'' @ utf8 [235, 161, 156] @ '' '' @ utf8
      [235, 176, 152, 236, 152, 129, 235, 144, 144, 236, 167, 128, 235, 167, 140] @ '' '' @ utf8
      [236, 153, 184, 235, 182, 128] @ '' '' @ utf8 [236, 163, 188, 236, 134, 140, 234, 176,
      128] @ '' '' @ utf8 [236, 149, 132, 236, 167, 129] @ '' '' @ utf8 [237, 149, 160, 235,
      139, 185, 235, 144, 152, 236, 167, 128] @ '' '' @ utf8 [236, 149, 138, 236, 149, 152, 236,
      138, 181, 235, 139, 136, 235, 139, 164] @ ''.''"

text \<open>kubernetes/real.go mapRolloutInfo\<close>

definition msg_rollout_read :: string where
  "msg_rollout_read =
    ''Argo Rollout '' @ utf8 [236, 131, 129, 237, 131, 156, 235, 165, 188] @ '' '' @ utf8 [236,
      161, 176, 237, 154, 140, 237, 150, 136, 236, 138, 181, 235, 139, 136, 235, 139, 164] @
      ''.''"

text \<open>kubernetes/fleet.go FleetResourceReader.Read\<close>

definition msg_no_fleet_client :: string where
  "msg_no_fleet_client =
    ''Kubernetes API '' @ utf8 [237, 129, 180, 235, 157, 188, 236, 157, 180, 236, 150, 184, 237,
      138, 184, 234, 176, 128] @ '' '' @ utf8 [236, 132, 164, 236, 160, 149, 235, 144, 152, 236,
      167, 128] @ '' '' @ utf8 [236, 149, 138, 236, 149, 152, 236, 138, 181, 235, 139, 136, 235,
      139, 164] @ ''.''"

text \<open>kubernetes/fleet.go FleetResourceReader.Read\<close>

definition msg_no_usage :: string where
  "msg_no_usage =
    ''metrics.k8s.io '' @ utf8 [236, 139, 164, 236, 184, 161, 234, 176, 146, 236, 157, 132] @ ''
      '' @ utf8 [236, 157, 189, 236, 167, 128] @ '' '' @ utf8 [235, 170, 187, 237, 149, 180] @
      '' usage '' @ utf8 [236, 151, 134, 236, 157, 180] @ '' request '' @ utf8 [234, 184, 176,
      236, 164, 128, 235, 167, 140] @ '' '' @ utf8 [237, 145, 156, 236, 139, 156, 237, 149, 169,
      235, 139, 136, 235, 139, 164] @ ''.''"

text \<open>admin/service.go LocalResourceOverviewReader.Read\<close>

definition msg_local_overview :: string where
  "msg_local_overview =
    ''Kubernetes API '' @ utf8 [236, 151, 176, 235, 143, 153, 236, 157, 180] @ '' '' @ utf8
      [236, 132, 164, 236, 160, 149, 235, 144, 152, 236, 167, 128] @ '' '' @ utf8 [236, 149,
      138, 236, 149, 132] @ '' '' @ utf8 [237, 129, 180, 235, 159, 172, 236, 138, 164, 237, 132,
      176] @ '' '' @ utf8 [236, 180, 157, 235, 159, 137, 234, 179, 188] @ '' '' @ utf8 [236,
      139, 164, 236, 130, 172, 236, 154, 169] @ '' '' @ utf8 [237, 154, 168, 236, 156, 168, 236,
      157, 132] @ '' '' @ utf8 [234, 179, 132, 236, 130, 176, 237, 149, 160] @ '' '' @ utf8
      [236, 136, 152] @ '' '' @ utf8 [236, 151, 134, 236, 138, 181, 235, 139, 136, 235, 139,
      164] @ ''.''"

text \<open>admin/service.go ErrorResourceOverviewReader.Read\<close>

definition msg_overview_failed :: string where
  "msg_overview_failed =
    utf8 [237, 129, 180, 235, 159, 172, 236, 138, 164, 237, 132, 176] @ '' '' @ utf8 [235, 166,
      172, 236, 134, 140, 236, 138, 164] @ '' '' @ utf8 [236, 167, 145, 234, 179, 132, 235, 165,
      188] @ '' '' @ utf8 [236, 180, 136, 234, 184, 176, 237, 153, 148, 237, 149, 152, 236, 167,
      128] @ '' '' @ utf8 [235, 170, 187, 237, 150, 136, 236, 138, 181, 235, 139, 136, 235, 139,
      164]"

text \<open>admin/service.go GetFleetResourceOverview\<close>

definition msg_no_overview :: string where
  "msg_no_overview =
    utf8 [237, 129, 180, 235, 159, 172, 236, 138, 164, 237, 132, 176] @ '' runtime '' @ utf8
      [236, 160, 149, 235, 179, 180, 234, 176, 128] @ '' '' @ utf8 [236, 149, 132, 236, 167,
      129] @ '' '' @ utf8 [236, 151, 176, 234, 178, 176, 235, 144, 152, 236, 167, 128] @ '' '' @
      utf8 [236, 149, 138, 236, 149, 152, 236, 138, 181, 235, 139, 136, 235, 139, 164] @ ''.''"

text \<open>admin/service.go classifyServiceEfficiency\<close>

definition msg_no_runtime :: string where
  "msg_no_runtime =
    utf8 [237, 152, 132, 236, 158, 172] @ '' '' @ utf8 [236, 151, 176, 234, 178, 176, 235, 144,
      156] @ '' Kubernetes runtime '' @ utf8 [236, 160, 149, 235, 179, 180, 234, 176, 128] @ ''
      '' @ utf8 [236, 151, 134, 236, 138, 181, 235, 139, 136, 235, 139, 164] @ ''.''"

text \<open>admin/service.go classifyServiceEfficiency\<close>

definition msg_no_pods :: string where
  "msg_no_pods =
    utf8 [236, 139, 164, 237, 150, 137] @ '' '' @ utf8 [236, 164, 145, 236, 157, 184] @ '' pod''
      @ utf8 [235, 165, 188] @ '' '' @ utf8 [236, 176, 190, 236, 167, 128] @ '' '' @ utf8 [235,
      170, 187, 237, 150, 136, 236, 138, 181, 235, 139, 136, 235, 139, 164] @ ''.''"

text \<open>admin/service.go classifyServiceEfficiency\<close>

definition msg_no_metrics :: string where
  "msg_no_metrics =
    ''metrics.k8s.io '' @ utf8 [236, 139, 164, 236, 184, 161, 234, 176, 146, 236, 157, 180] @ ''
      '' @ utf8 [236, 151, 134, 236, 150, 180] @ '' '' @ utf8 [236, 154, 148, 236, 178, 173,
      236, 185, 152] @ '' '' @ utf8 [235, 140, 128, 235, 185, 132] @ '' '' @ utf8 [237, 154,
      168, 236, 156, 168, 236, 157, 132] @ '' '' @ utf8 [234, 179, 132, 236, 130, 176, 237, 149,
      152, 236, 167, 128] @ '' '' @ utf8 [235, 170, 187, 237, 150, 136, 236, 138, 181, 235, 139,
      136, 235, 139, 164] @ ''.''"

text \<open>admin/service.go classifyServiceEfficiency\<close>

definition msg_no_requests :: string where
  "msg_no_requests =
    utf8 [236, 154, 148, 236, 178, 173, 236, 185, 152, 234, 176, 128] @ '' '' @ utf8 [236, 151,
      134, 236, 150, 180] @ '' '' @ utf8 [237, 154, 168, 236, 156, 168, 236, 157, 132] @ '' '' @
      utf8 [234, 179, 132, 236, 130, 176, 237, 149, 152, 236, 167, 128] @ '' '' @ utf8 [235,
      170, 187, 237, 150, 136, 236, 138, 181, 235, 139, 136, 235, 139, 164] @ ''.''"

text \<open>admin/service.go classifyServiceEfficiency\<close>

definition msg_over_used :: string where
  "msg_over_used =
    utf8 [236, 154, 148, 236, 178, 173, 236, 185, 152, 235, 165, 188] @ '' '' @ utf8 [236, 180,
      136, 234, 179, 188, 237, 149, 180] @ '' '' @ utf8 [236, 130, 172, 236, 154, 169] @ '' '' @
      utf8 [236, 164, 145, 236, 158, 133, 235, 139, 136, 235, 139, 164] @ ''. request '' @ utf8
      [236, 131, 129, 237, 150, 165] @ '' '' @ utf8 [235, 152, 144, 235, 138, 148] @ '' workload
      '' @ utf8 [236, 160, 144, 234, 178, 128, 236, 157, 180] @ '' '' @ utf8 [237, 149, 132,
      236, 154, 148, 237, 149, 169, 235, 139, 136, 235, 139, 164] @ ''.''"

text \<open>admin/service.go classifyServiceEfficiency\<close>

definition msg_under_used :: string where
  "msg_under_used =
    utf8 [236, 154, 148, 236, 178, 173] @ '' '' @ utf8 [235, 140, 128, 235, 185, 132] @ '' '' @
      utf8 [236, 130, 172, 236, 154, 169, 235, 159, 137, 236, 157, 180] @ '' '' @ utf8 [235,
      130, 174, 236, 138, 181, 235, 139, 136, 235, 139, 164] @ ''. request'' @ utf8 [235, 165,
      188] @ '' '' @ utf8 [236, 164, 132, 236, 151, 172, 235, 143, 132] @ '' '' @ utf8 [235,
      144, 160] @ '' '' @ utf8 [234, 176, 128, 235, 138, 165, 236, 132, 177, 236, 157, 180] @ ''
      '' @ utf8 [237, 129, 189, 235, 139, 136, 235, 139, 164] @ ''.''"

text \<open>admin/service.go classifyServiceEfficiency\<close>

definition msg_balanced :: string where
  "msg_balanced =
    utf8 [236, 154, 148, 236, 178, 173] @ '' '' @ utf8 [235, 140, 128, 235, 185, 132] @ '' '' @
      utf8 [236, 130, 172, 236, 154, 169, 235, 159, 137, 236, 157, 180] @ '' '' @ utf8 [237,
      152, 132, 236, 158, 172] @ '' '' @ utf8 [236, 136, 152, 236, 164, 128, 236, 151, 144, 236,
      132, 156, 235, 138, 148] @ '' '' @ utf8 [236, 149, 136, 236, 160, 149, 236, 160, 129, 236,
      158, 133, 235, 139, 136, 235, 139, 164] @ ''.''"

end
