(* ===== verification/ImageRef.thy ===== *)
theory ImageRef
  imports Domain GoStrings GoEncoding Messages
begin

text \<open>
  Image references and registry credentials (application/image_verifier.go, and the image helpers of
  store_local.go and poller.go). The registry is an HTTP service: the requests of a verification are
  parameters, one answer per request. The lemmas show that replacing the tag of an image keeps its
  repository and that the tag is read back.
\<close>

section \<open>Tags\<close>

text \<open>The split at the last colon, when it lies after the last slash: the \<open>lastColon > lastSlash\<close> test.\<close>

definition tag_split :: "string \<Rightarrow> (string \<times> string) option" where
  "tag_split s = (if last_index CHR ''/'' s < last_index CHR '':'' s then split_last CHR '':'' s else None)"

definition replace_image_tag :: "string \<Rightarrow> string \<Rightarrow> string" where
  "replace_image_tag img tag =
    (let w = before_first CHR ''@'' img in
     case tag_split w of Some (a, b) \<Rightarrow> a @ '':'' @ tag | None \<Rightarrow> w @ '':'' @ tag)"

definition extract_image_tag :: "string \<Rightarrow> string" where
  "extract_image_tag img =
    (let w = before_first CHR ''@'' img in case tag_split w of Some (a, b) \<Rightarrow> b | None \<Rightarrow> w)"

definition image_repository_ref :: "string \<Rightarrow> string" where
  "image_repository_ref img =
    (let w = before_first CHR ''@'' img in case tag_split w of Some (a, b) \<Rightarrow> a | None \<Rightarrow> w)"

lemma split_last_None': "split_last d s = None \<Longrightarrow> d \<notin> set s"
  by (simp add: split_last_None)

lemma tag_split_Some: "tag_split s = Some (a, b) \<longleftrightarrow> s = a @ CHR '':'' # b \<and> CHR '':'' \<notin> set b \<and> CHR ''/'' \<notin> set b"
proof
  assume t: "tag_split s = Some (a, b)"
  then have l: "last_index CHR ''/'' s < last_index CHR '':'' s" and sp: "split_last CHR '':'' s = Some (a, b)"
    by (auto simp: tag_split_def split: if_splits)
  have s: "s = a @ CHR '':'' # b" "CHR '':'' \<notin> set b"
    using sp by (simp_all add: split_last_Some)
  have s3: "last_index CHR '':'' s = int (length a)" using sp by (simp add: last_index_def)
  have "CHR ''/'' \<notin> set b"
  proof
    assume "CHR ''/'' \<in> set b"
    then obtain c d where cd: "split_last CHR ''/'' b = Some (c, d)"
      by (cases "split_last CHR ''/'' b") (auto simp: split_last_None)
    then have "split_last CHR ''/'' s = Some (a @ CHR '':'' # c, d)"
      by (simp add: s(1) split_last_Some)
    with l s3 show False by (simp add: last_index_def)
  qed
  with s show "s = a @ CHR '':'' # b \<and> CHR '':'' \<notin> set b \<and> CHR ''/'' \<notin> set b" by simp
next
  assume s: "s = a @ CHR '':'' # b \<and> CHR '':'' \<notin> set b \<and> CHR ''/'' \<notin> set b"
  then have c: "split_last CHR '':'' s = Some (a, b)" by (simp add: split_last_Some)
  have "last_index CHR ''/'' s < int (length a)"
  proof (cases "split_last CHR ''/'' s")
    case (Some x)
    obtain u v where x: "x = (u, v)" by (cases x)
    with Some have uv: "s = u @ CHR ''/'' # v" "CHR ''/'' \<notin> set v" by (simp_all add: split_last_Some)
    have "length u < length a"
    proof (rule ccontr)
      assume "\<not> length u < length a"
      then have "\<exists>w. u = a @ w"
        using uv s by (metis append_eq_append_conv_if append_take_drop_id linorder_not_less)
      then obtain w where "u = a @ w" ..
      with uv s have "CHR '':'' # b = w @ CHR ''/'' # v" by simp
      with s show False by (cases w) auto
    qed
    with Some x show ?thesis by (simp add: last_index_def)
  qed (simp add: last_index_def)
  with c show "tag_split s = Some (a, b)" by (simp add: tag_split_def last_index_def)
qed

lemma before_first_id: "d \<notin> set s \<Longrightarrow> before_first d s = s"
  unfolding before_first_def by (induction s) auto

lemma before_first_not_in: "d \<notin> set (before_first d s)"
  unfolding before_first_def by (induction s) auto

lemma image_parts:
  "replace_image_tag img tag = image_repository_ref img @ CHR '':'' # tag"
  by (auto simp: replace_image_tag_def image_repository_ref_def Let_def split: option.splits)

lemma image_repository_no_at: "CHR ''@'' \<notin> set (image_repository_ref img)"
proof -
  let ?w = "before_first CHR ''@'' img"
  have w: "CHR ''@'' \<notin> set ?w" by (rule before_first_not_in)
  show ?thesis
  proof (cases "tag_split ?w")
    case None
    with w show ?thesis by (simp add: image_repository_ref_def)
  next
    case (Some x)
    obtain a b where x: "x = (a, b)" by (cases x)
    with Some have "?w = a @ CHR '':'' # b" by (simp add: tag_split_Some)
    with w have "CHR ''@'' \<notin> set a" by auto
    with Some x show ?thesis by (simp add: image_repository_ref_def)
  qed
qed

definition plain_tag :: "string \<Rightarrow> bool" where
  "plain_tag t \<longleftrightarrow> CHR ''/'' \<notin> set t \<and> CHR '':'' \<notin> set t \<and> CHR ''@'' \<notin> set t"

lemma tag_split_replaced:
  assumes "plain_tag tag"
  shows "tag_split (before_first CHR ''@'' (replace_image_tag img tag)) = Some (image_repository_ref img, tag)"
proof -
  have "before_first CHR ''@'' (replace_image_tag img tag) = replace_image_tag img tag"
    using assms image_repository_no_at [of img]
    by (intro before_first_id) (auto simp: image_parts plain_tag_def)
  then show ?thesis using assms by (simp add: image_parts tag_split_Some plain_tag_def)
qed

lemma replaced_tag:
  assumes "plain_tag tag"
  shows "extract_image_tag (replace_image_tag img tag) = tag"
    and "image_repository_ref (replace_image_tag img tag) = image_repository_ref img"
  using tag_split_replaced [OF assms, of img]
  by (simp_all add: extract_image_tag_def image_repository_ref_def)

section \<open>References\<close>

text \<open>The scheme of the registry URL, which only the HTTP requests use, is left to those requests.\<close>

record image_ref =
  ir_original :: string
  ir_registry :: string
  ir_repository :: string
  ir_identifier :: string

definition contains_byte :: "char \<Rightarrow> string \<Rightarrow> bool" where
  "contains_byte c s \<longleftrightarrow> c \<in> set s"

definition is_registry_component :: "string \<Rightarrow> bool" where
  "is_registry_component v \<longleftrightarrow> contains_byte CHR ''.'' v \<or> contains_byte CHR '':'' v \<or> v = ''localhost''"

definition docker_hub :: string where
  "docker_hub = ''registry-1.docker.io''"

text \<open>The name part and the identifier of a trimmed, nonempty reference.\<close>

definition split_identifier :: "string \<Rightarrow> (string, string \<times> string) result" where
  "split_identifier trimmed =
    (case split_last CHR ''@'' trimmed of
       Some (name, digest) \<Rightarrow> if digest = [] then Inl ''empty digest'' else Inr (name, digest)
     | None \<Rightarrow>
         (case tag_split trimmed of
            Some (name, tag) \<Rightarrow> if tag = [] then Inl ''empty tag'' else Inr (name, tag)
          | None \<Rightarrow> Inr (trimmed, ''latest'')))"

definition parse_image_reference :: "string \<Rightarrow> (string, image_ref) result" where
  "parse_image_reference img =
    (let trimmed = trim_space img in
     if trimmed = [] then Inl ''empty image reference''
     else bindR (split_identifier trimmed) (\<lambda>(name, identifier).
       let parts = split_on CHR ''/'' name;
           own = is_registry_component (hd parts);
           registry = (if own then hd parts else docker_hub);
           repository_parts = (if own then tl parts else parts)
       in if repository_parts = [] then Inl ''missing repository path''
          else let repository = join_with ''/'' repository_parts in
            Inr \<lparr>ir_original = trimmed, ir_registry = registry,
                 ir_repository = (if registry = docker_hub \<and> \<not> contains_byte CHR ''/'' repository
                   then ''library/'' @ repository else repository),
                 ir_identifier = identifier\<rparr>))"

section \<open>Credentials\<close>

record registry_credential =
  rc_server :: string
  rc_username :: string
  rc_password :: string

definition normalize_registry_server :: "string \<Rightarrow> string" where
  "normalize_registry_server v =
    trim_suffix ''/'' (trim_prefix ''http://'' (trim_prefix ''https://'' (trim_space v)))"

definition credential_matches :: "registry_credential \<Rightarrow> string \<Rightarrow> bool" where
  "credential_matches c registry \<longleftrightarrow>
    trim_space (rc_server c) = [] \<or> normalize_registry_server (rc_server c) = normalize_registry_server registry"

definition registry_credential_from_secret ::
  "(string \<times> string) list \<Rightarrow> (string, registry_credential option) result" where
  "registry_credential_from_secret values =
    (let value = (\<lambda>k. case map_of values k of Some x \<Rightarrow> x | None \<Rightarrow> []);
         server = normalize_registry_server (value ''server'');
         username = trim_space (value ''username'');
         password = value ''password''
     in if values = [] then Inr None
        else if server = [] \<and> username = [] \<and> password = [] then Inr None
        else if server = [] \<or> username = [] \<or> password = [] then
          Inl ''stored registry credential is incomplete''
        else Inr (Some \<lparr>rc_server = server, rc_username = username, rc_password = password\<rparr>))"

text \<open>
  The JSON object has its keys in order, as json.Marshal writes maps.
\<close>

definition docker_config_text :: "string \<Rightarrow> string \<Rightarrow> string \<Rightarrow> string" where
  "docker_config_text server username password =
    ''{'' @ json_string ''auths'' @ '':{'' @ json_string server @ '':{'' @
      json_string ''auth'' @ '':'' @ json_string (base64 (username @ '':'' @ password)) @ '','' @
      json_string ''password'' @ '':'' @ json_string password @ '','' @
      json_string ''username'' @ '':'' @ json_string username @ ''}}}''"

definition build_docker_config_json :: "string \<Rightarrow> string \<Rightarrow> string \<Rightarrow> (string, string) result" where
  "build_docker_config_json server username password =
    (let server = normalize_registry_server server; username = trim_space username in
     if server = [] then Inl ''registry server is required''
     else if username = [] then Inl ''registry username is required''
     else if password = [] then Inl ''registry password is required''
     else Inr (docker_config_text server username password))"

definition normalize_registry_credential_input ::
  "string \<Rightarrow> string \<Rightarrow> string \<Rightarrow> string \<Rightarrow> (go_error, (registry_credential \<times> string) option) result" where
  "normalize_registry_credential_input img registry_server registry_username registry_token =
    (let server0 = normalize_registry_server registry_server;
         username = trim_space registry_username;
         token = trim_space registry_token
     in if server0 = [] \<and> username = [] \<and> token = [] then Inr None
        else if username = [] \<or> token = [] then
          Inl (ValidationError ''registryUsername and registryToken must be provided together''
            (field_detail ''registryToken''))
        else bindR
          (if server0 \<noteq> [] then Inr server0
           else (case parse_image_reference img of
              Inl _ \<Rightarrow> Inl (ValidationError ''registryServer could not be inferred from image''
                (field_detail ''registryServer''))
            | Inr ref \<Rightarrow> Inr (normalize_registry_server (ir_registry ref))))
          (\<lambda>server.
            case build_docker_config_json server username token of
              Inl e \<Rightarrow> Inl (ValidationError ''registry credential is invalid''
                (field_detail ''registryToken'' @ [(''error'', JStr e)]))
            | Inr json \<Rightarrow> Inr (Some (\<lparr>rc_server = server, rc_username = username, rc_password = token\<rparr>, json))))"

section \<open>Verification against a registry\<close>

text \<open>
  One manifest request answers with a status, the WWW-Authenticate header and the error code that
  the payload carries, or fails with a text. The token exchange answers with a token or fails.
\<close>

record manifest_response =
  mr_status :: int
  mr_authenticate :: string
  mr_error_code :: string

record registry_client =
  fetch_manifest :: "nat \<Rightarrow> image_ref \<Rightarrow> string \<Rightarrow> (string, manifest_response) result"
  fetch_token :: "nat \<Rightarrow> string \<times> string \<times> string \<Rightarrow> registry_credential option \<Rightarrow> (string, string) result"

fun trim_quotes_left :: "string \<Rightarrow> string" where
  "trim_quotes_left [] = []"
| "trim_quotes_left (c # cs) = (if c = CHR 0x22 then trim_quotes_left cs else c # cs)"

definition trim_quotes :: "string \<Rightarrow> string" where
  "trim_quotes s = rev (trim_quotes_left (rev (trim_quotes_left s)))"

fun challenge_items :: "string list \<Rightarrow> string \<times> string \<times> string \<Rightarrow> string \<times> string \<times> string" where
  "challenge_items [] c = c"
| "challenge_items (item # items) (realm, service, scope) =
    challenge_items items
      (case str_cut ''='' (trim_space item) of
         None \<Rightarrow> (realm, service, scope)
       | Some (key, value) \<Rightarrow>
           let k = to_lower (trim_space key); v = trim_quotes value in
           if k = ''realm'' then (v, service, scope)
           else if k = ''service'' then (realm, v, scope)
           else if k = ''scope'' then (realm, service, v)
           else (realm, service, scope))"

definition parse_bearer_challenge :: "string \<Rightarrow> (string \<times> string \<times> string) option" where
  "parse_bearer_challenge header =
    (let h = trim_space header in
     if h = [] \<or> \<not> prefix ''bearer '' (to_lower h) then None
     else let c = challenge_items (split_on CHR '','' (drop 7 h)) ([], [], []) in
       if fst c = [] then None else Some c)"

definition image_not_found_error :: "image_ref \<Rightarrow> go_error" where
  "image_not_found_error ref =
    ImageValidationError ''IMAGE_NOT_FOUND'' msg_image_not_found (ir_original ref) (ir_registry ref)"

definition auth_required_error :: "image_ref \<Rightarrow> go_error" where
  "auth_required_error ref =
    ImageValidationError ''IMAGE_AUTH_REQUIRED'' msg_auth_required (ir_original ref) (ir_registry ref)"

definition image_check_failure :: "image_ref \<Rightarrow> string \<Rightarrow> go_error" where
  "image_check_failure ref e =
    ImageValidationError ''IMAGE_CHECK_FAILED'' (msg_check_failed @ e) (ir_original ref) (ir_registry ref)"

definition status_to_image_error :: "image_ref \<Rightarrow> int \<Rightarrow> string \<Rightarrow> go_error" where
  "status_to_image_error ref status code =
    (if status = 404 then image_not_found_error ref
     else if status = 401 \<or> status = 403 then auth_required_error ref
     else let message = msg_registry_status @ show_int status in
       ImageValidationError ''IMAGE_CHECK_FAILED''
         (if code = [] then message else message @ '' ('' @ code @ '')'') (ir_original ref) (ir_registry ref))"

definition fetch_registry_token ::
  "registry_client \<Rightarrow> string \<times> string \<times> string \<Rightarrow> registry_credential \<Rightarrow> (string, string) result" where
  "fetch_registry_token client challenge c =
    (if trim_space (rc_username c) = [] \<or> rc_password c = [] then Inl ''registry credentials are incomplete''
     else fetch_token client 0 challenge (Some c))"

text \<open>The anonymous exchange that ends a verification.\<close>

definition verify_anonymously ::
  "registry_client \<Rightarrow> image_ref \<Rightarrow> string \<times> string \<times> string \<Rightarrow> (go_error, unit) result" where
  "verify_anonymously client ref challenge =
    (case fetch_token client 1 challenge None of
       Inl _ \<Rightarrow> Inl (auth_required_error ref)
     | Inr token \<Rightarrow>
        (case fetch_manifest client 2 ref token of
           Inl e \<Rightarrow> Inl (image_check_failure ref e)
         | Inr r \<Rightarrow>
             if mr_status r = 200 then Inr ()
             else if mr_status r = 404 then Inl (image_not_found_error ref)
             else if mr_status r = 401 \<or> mr_status r = 403 then Inl (auth_required_error ref)
             else Inl (status_to_image_error ref (mr_status r) (mr_error_code r))))"

definition verify_challenged ::
  "registry_client \<Rightarrow> image_ref \<Rightarrow> string \<times> string \<times> string \<Rightarrow> registry_credential option \<Rightarrow> (go_error, unit) result" where
  "verify_challenged client ref challenge credential =
    (case credential of
       None \<Rightarrow> verify_anonymously client ref challenge
     | Some c \<Rightarrow>
        if \<not> credential_matches c (ir_registry ref) then verify_anonymously client ref challenge
        else (case fetch_registry_token client challenge c of
           Inl _ \<Rightarrow> verify_anonymously client ref challenge
         | Inr token \<Rightarrow>
            (case fetch_manifest client 1 ref token of
               Inl e \<Rightarrow> Inl (image_check_failure ref e)
             | Inr r \<Rightarrow>
                 if mr_status r = 200 then Inr ()
                 else if mr_status r = 404 then Inl (image_not_found_error ref)
                 else if mr_status r = 401 \<or> mr_status r = 403 then verify_anonymously client ref challenge
                 else Inl (status_to_image_error ref (mr_status r) (mr_error_code r)))))"

definition registry_verify ::
  "registry_client \<Rightarrow> string \<Rightarrow> registry_credential option \<Rightarrow> (go_error, unit) result" where
  "registry_verify client img credential =
    (case parse_image_reference img of
       Inl _ \<Rightarrow> Inl (ImageValidationError ''INVALID_IMAGE_REFERENCE'' msg_invalid_image img [])
     | Inr ref \<Rightarrow>
        (case fetch_manifest client 0 ref [] of
           Inl e \<Rightarrow> Inl (image_check_failure ref e)
         | Inr r \<Rightarrow>
             if mr_status r = 200 then Inr ()
             else if mr_status r = 401 \<or> mr_status r = 403 then
               (case parse_bearer_challenge (mr_authenticate r) of
                  None \<Rightarrow> Inl (auth_required_error ref)
                | Some challenge \<Rightarrow> verify_challenged client ref challenge credential)
             else if mr_status r = 404 then Inl (image_not_found_error ref)
             else Inl (status_to_image_error ref (mr_status r) (mr_error_code r))))"

end
