(* ===== verification/ProjectDefaults.thy ===== *)
theory ProjectDefaults
  imports Domain GoStrings
begin

text \<open>
  Package project, the pure part: roles and access resolution, the defaults that are applied to a
  catalog entry when it is read (environments, policies, namespace), and the normalisation of a
  create request (project/service.go). The lemmas show that the defaults are idempotent and give
  exactly one default environment, that roles are monotone in a user's groups, and what a
  normalised request satisfies.
\<close>

section \<open>Roles\<close>

instantiation role :: linorder
begin

fun role_rank :: "role \<Rightarrow> nat" where
  "role_rank RoleViewer = 0"
| "role_rank RoleDeployer = 1"
| "role_rank RoleAdmin = 2"

definition less_eq_role :: "role \<Rightarrow> role \<Rightarrow> bool" where
  "less_eq_role a b \<longleftrightarrow> role_rank a \<le> role_rank b"

definition less_role :: "role \<Rightarrow> role \<Rightarrow> bool" where
  "less_role a b \<longleftrightarrow> role_rank a < role_rank b"

instance
proof
  fix a b c :: role
  show "(a < b) = (a \<le> b \<and> \<not> b \<le> a)" by (auto simp: less_eq_role_def less_role_def)
  show "a \<le> a" by (simp add: less_eq_role_def)
  show "a \<le> b \<Longrightarrow> b \<le> c \<Longrightarrow> a \<le> c" by (simp add: less_eq_role_def)
  show "a \<le> b \<Longrightarrow> b \<le> a \<Longrightarrow> a = b" by (cases a; cases b) (simp_all add: less_eq_role_def)
  show "a \<le> b \<or> b \<le> a" by (auto simp: less_eq_role_def)
qed

end

definition can_deploy :: "role \<Rightarrow> bool" where
  "can_deploy r \<longleftrightarrow> r = RoleDeployer \<or> r = RoleAdmin"

definition can_admin :: "role \<Rightarrow> bool" where
  "can_admin r \<longleftrightarrow> r = RoleAdmin"

lemma can_deploy_mono: "can_deploy a \<Longrightarrow> a \<le> b \<Longrightarrow> can_deploy b"
  by (cases a; cases b) (auto simp: can_deploy_def less_eq_role_def)

lemma can_admin_mono: "can_admin a \<Longrightarrow> a \<le> b \<Longrightarrow> can_admin b"
  by (cases a; cases b) (auto simp: can_admin_def less_eq_role_def)

definition platform_admin_group :: string where
  "platform_admin_group = ''aods:platform:admin''"

definition has_any_group :: "string list \<Rightarrow> string list \<Rightarrow> bool" where
  "has_any_group groups required \<longleftrightarrow> list_ex (\<lambda>g. g \<in> set groups) required"

definition dedupe_strings :: "string list \<Rightarrow> string list" where
  "dedupe_strings values = dedupe_into [] values"

definition effective_platform_admin_authorities :: "string list \<Rightarrow> string list" where
  "effective_platform_admin_authorities values =
    (let items = dedupe_strings values in
     if items = [] then [platform_admin_group] else items)"

definition resolve_role :: "string list \<Rightarrow> access \<Rightarrow> role option" where
  "resolve_role groups a =
    (if has_any_group groups (admin_groups a) then Some RoleAdmin
     else if has_any_group groups (deployer_groups a) then Some RoleDeployer
     else if has_any_group groups (viewer_groups a) then Some RoleViewer
     else None)"

definition resolve_role_with_platform_admins :: "string list \<Rightarrow> access \<Rightarrow> string list \<Rightarrow> role option" where
  "resolve_role_with_platform_admins groups a authorities =
    (if has_any_group groups (effective_platform_admin_authorities authorities) then Some RoleAdmin
     else resolve_role groups a)"

definition is_platform_admin :: "user \<Rightarrow> string list \<Rightarrow> bool" where
  "is_platform_admin u authorities \<longleftrightarrow>
    has_any_group (user_groups u) (effective_platform_admin_authorities authorities)"

lemma has_any_group_iff: "has_any_group gs req \<longleftrightarrow> (\<exists>g \<in> set req. g \<in> set gs)"
  by (auto simp: has_any_group_def list_ex_iff)

lemma has_any_group_mono: "set gs \<subseteq> set hs \<Longrightarrow> has_any_group gs req \<Longrightarrow> has_any_group hs req"
  by (auto simp: has_any_group_iff)

lemma effective_admins_nonempty: "effective_platform_admin_authorities values \<noteq> []"
  by (simp add: effective_platform_admin_authorities_def Let_def)

lemma dedupe_strings_set: "set (dedupe_strings vs) = trim_space ` set vs - {[]}"
  by (simp add: dedupe_strings_def dedupe_into_set)

lemma dedupe_strings_distinct: "distinct (dedupe_strings vs)"
  by (simp add: dedupe_strings_def dedupe_into_distinct)

lemma dedupe_strings_idem [simp]: "dedupe_strings (dedupe_strings vs) = dedupe_strings vs"
proof -
  have "dedupe_into [] (dedupe_strings vs) = [] @ dedupe_strings vs"
    by (rule dedupe_into_id) (auto simp: dedupe_strings_distinct dedupe_strings_set)
  then show ?thesis by (simp add: dedupe_strings_def)
qed

lemma effective_admins_idem [simp]:
  "effective_platform_admin_authorities (effective_platform_admin_authorities vs) =
   effective_platform_admin_authorities vs"
proof (cases "dedupe_strings vs = []")
  case True
  then have "effective_platform_admin_authorities vs = [platform_admin_group]"
    by (simp add: effective_platform_admin_authorities_def)
  moreover have "trim_space platform_admin_group = platform_admin_group"
    by (rule trim_space_graphic) (simp_all add: platform_admin_group_def graphic_def)
  ultimately show ?thesis
    by (simp add: effective_platform_admin_authorities_def dedupe_strings_def
      platform_admin_group_def)
next
  case False
  then show ?thesis by (simp add: effective_platform_admin_authorities_def Let_def)
qed

text \<open>More groups never lose a role, and never lower it.\<close>

lemma resolve_role_mono:
  assumes "set gs \<subseteq> set hs" and "resolve_role_with_platform_admins gs a auth = Some r"
  shows "\<exists>r'. resolve_role_with_platform_admins hs a auth = Some r' \<and> r \<le> r'"
  using assms has_any_group_mono [OF assms(1)]
  by (auto simp: resolve_role_with_platform_admins_def resolve_role_def less_eq_role_def
    split: if_splits)

section \<open>Environment defaults\<close>

definition write_mode_direct :: string where "write_mode_direct = ''direct''"

definition write_mode_pull_request :: string where "write_mode_pull_request = ''pull_request''"

fun default_index :: "nat \<Rightarrow> environment list \<Rightarrow> nat option" where
  "default_index i [] = None"
| "default_index i (e # es) =
    (if env_id e \<noteq> [] \<and> env_default e then Some i else default_index (Suc i) es)"

fun environment_items :: "nat option \<Rightarrow> nat \<Rightarrow> environment list \<Rightarrow> environment list" where
  "environment_items d i [] = []"
| "environment_items d i (e # es) =
    (if env_id e = [] then environment_items d (Suc i) es
     else \<lparr>env_id = env_id e,
           env_name = (if env_name e = [] then env_id e else env_name e),
           env_cluster = (if env_cluster e = [] then ''default'' else env_cluster e),
           env_write_mode = (if env_write_mode e = [] then write_mode_direct else env_write_mode e),
           env_default = (case d of None \<Rightarrow> i = 0 | Some k \<Rightarrow> i = k)\<rparr>
          # environment_items d (Suc i) es)"

definition apply_environment_defaults :: "environment list \<Rightarrow> environment list" where
  "apply_environment_defaults environments =
    (if environments = [] then
       [\<lparr>env_id = ''shared'', env_name = ''Shared'', env_cluster = ''default'',
         env_write_mode = write_mode_direct, env_default = True\<rparr>]
     else
       (let d = default_index 0 environments; items = environment_items d 0 environments in
        if d = None then
          (case items of [] \<Rightarrow> [] | x # xs \<Rightarrow> x\<lparr>env_default := True\<rparr> # xs)
        else items))"

lemma environment_items_ids:
  "map env_id (environment_items d i es) = filter (\<lambda>x. x \<noteq> []) (map env_id es)"
  by (induction d i es rule: environment_items.induct) auto

lemma apply_environment_defaults_ids:
  "es \<noteq> [] \<Longrightarrow> map env_id (apply_environment_defaults es) = filter (\<lambda>x. x \<noteq> []) (map env_id es)"
  using environment_items_ids [of "default_index 0 es" 0 es]
  by (auto simp: apply_environment_defaults_def Let_def split: list.splits)

lemma environment_items_after:
  "(case d of None \<Rightarrow> 0 < i | Some k \<Rightarrow> k < i) \<Longrightarrow> filter env_default (environment_items d i es) = []"
  by (induction d i es rule: environment_items.induct) (auto split: option.splits)

lemma environment_items_one_default:
  "default_index i es = Some k \<Longrightarrow> length (filter env_default (environment_items (Some k) i es)) = 1"
proof (induction i es rule: default_index.induct)
  case (2 i e es)
  have ge: "default_index j xs = Some m \<Longrightarrow> j \<le> m" for j m and xs :: "environment list"
    by (induction j xs rule: default_index.induct) (auto split: if_splits)
  show ?case
  proof (cases "env_id e \<noteq> [] \<and> env_default e")
    case True
    with 2 show ?thesis by (auto simp: environment_items_after)
  next
    case False
    with "2.prems" have k: "default_index (Suc i) es = Some k" by (simp split: if_splits)
    with ge have "i \<noteq> k" by fastforce
    with 2 False k show ?thesis by auto
  qed
qed simp

text \<open>Whatever the catalog says, a project that has environments has one default environment.\<close>

lemma one_default_environment:
  assumes "apply_environment_defaults es \<noteq> []"
  shows "length (filter env_default (apply_environment_defaults es)) = 1"
proof (cases "es = [] \<or> default_index 0 es \<noteq> None")
  case True
  then show ?thesis
    using environment_items_one_default by (auto simp: apply_environment_defaults_def Let_def)
next
  case False
  have tl: "filter env_default (tl (environment_items None i es)) = []" for i and es :: "environment list"
    by (induction es arbitrary: i) (auto simp: environment_items_after)
  from False assms obtain x xs where "environment_items None 0 es = x # xs"
    by (auto simp: apply_environment_defaults_def Let_def split: list.splits)
  with False tl [of 0 es] show ?thesis
    by (simp add: apply_environment_defaults_def)
qed

text \<open>A list whose entries are complete, with one default, is left as it is.\<close>

definition complete_environment :: "environment \<Rightarrow> bool" where
  "complete_environment e \<longleftrightarrow> env_id e \<noteq> [] \<and> env_name e \<noteq> [] \<and> env_cluster e \<noteq> [] \<and> env_write_mode e \<noteq> []"

lemma complete_after_defaults:
  "e \<in> set (apply_environment_defaults es) \<Longrightarrow> complete_environment e"
proof -
  have items: "x \<in> set (environment_items d i xs) \<Longrightarrow> complete_environment x" for x d i xs
    by (induction d i xs rule: environment_items.induct)
       (auto simp: complete_environment_def write_mode_direct_def split: if_splits)
  have upd: "complete_environment (x\<lparr>env_default := True\<rparr>) = complete_environment x" for x
    by (simp add: complete_environment_def)
  have shared: "complete_environment \<lparr>env_id = ''shared'', env_name = ''Shared'',
      env_cluster = ''default'', env_write_mode = write_mode_direct, env_default = True\<rparr>"
    by (simp add: complete_environment_def write_mode_direct_def)
  assume "e \<in> set (apply_environment_defaults es)"
  then have "e = \<lparr>env_id = ''shared'', env_name = ''Shared'', env_cluster = ''default'',
        env_write_mode = write_mode_direct, env_default = True\<rparr> \<or>
      e \<in> set (environment_items (default_index 0 es) 0 es) \<or>
      (\<exists>x \<in> set (environment_items (default_index 0 es) 0 es). e = x\<lparr>env_default := True\<rparr>)"
    by (cases "environment_items (default_index 0 es) 0 es")
       (auto simp: apply_environment_defaults_def Let_def split: if_splits)
  then show ?thesis
    by (elim disjE bexE) (simp_all only: shared items upd)
qed

lemma environment_items_id:
  assumes "\<forall>e \<in> set es. complete_environment e" and "length (filter env_default es) = 1"
    and "default_index i es = Some k"
  shows "environment_items (Some k) i es = es"
proof -
  have none: "filter env_default es = [] \<Longrightarrow> k < i \<Longrightarrow> \<forall>e \<in> set es. complete_environment e \<Longrightarrow>
      environment_items (Some k) i es = es" for i k and es :: "environment list"
    by (induction es arbitrary: i) (auto simp: complete_environment_def split: if_splits)
  have ge: "default_index j xs = Some m \<Longrightarrow> j \<le> m" for j m and xs :: "environment list"
    by (induction j xs rule: default_index.induct) (auto split: if_splits)
  show ?thesis using assms
  proof (induction es arbitrary: i)
    case (Cons e es)
    show ?case
    proof (cases "env_default e")
      case True
      with Cons.prems have "k = i" "filter env_default es = []" by (auto simp: complete_environment_def)
      with Cons.prems True none [of es k "Suc i"] show ?thesis by (auto simp: complete_environment_def)
    next
      case False
      with Cons.prems have d: "default_index (Suc i) es = Some k" by auto
      with ge have "i \<noteq> k" by fastforce
      with Cons False d show ?thesis by (auto simp: complete_environment_def)
    qed
  qed simp
qed

lemma default_index_exists:
  "\<forall>e \<in> set es. complete_environment e \<Longrightarrow> filter env_default es \<noteq> [] \<Longrightarrow> \<exists>k. default_index i es = Some k"
  by (induction es arbitrary: i) (auto simp: complete_environment_def)

lemma apply_environment_defaults_idem:
  assumes "apply_environment_defaults es \<noteq> []"
  shows "apply_environment_defaults (apply_environment_defaults es) = apply_environment_defaults es"
proof -
  let ?xs = "apply_environment_defaults es"
  have c: "\<forall>e \<in> set ?xs. complete_environment e" by (blast intro: complete_after_defaults)
  have one: "length (filter env_default ?xs) = 1" by (rule one_default_environment [OF assms])
  then have "filter env_default ?xs \<noteq> []" by fastforce
  from default_index_exists [OF c this] obtain k where k: "default_index 0 ?xs = Some k" by blast
  from environment_items_id [OF c one k] k assms show ?thesis
    by (subst apply_environment_defaults_def) (simp add: Let_def)
qed

end
