(* ===== verification/ProjectPolicy.thy ===== *)
theory ProjectPolicy
  imports ProjectDefaults
begin

text \<open>
  Package project, continued: policy defaults, access defaults and the normalisation of a create
  request with all its checks (project/service.go). The lemmas show that policy and project
  defaults are idempotent, that a normalised request carries unique slug identifiers and that its
  policies refer to its environments.
\<close>

section \<open>Policy defaults\<close>

definition contains_string :: "string list \<Rightarrow> string \<Rightarrow> bool" where
  "contains_string values target \<longleftrightarrow> target \<in> set values"

definition should_default_required_probes :: "policy_set \<Rightarrow> bool" where
  "should_default_required_probes p \<longleftrightarrow>
    \<not> pol_required_probes p \<and> pol_min_replicas p \<le> 0 \<and> pol_environments p = [] \<and>
    pol_strategies p = [] \<and> pol_clusters p = [] \<and> \<not> pol_prod_pr p \<and> \<not> pol_auto_rollback p"

fun allowed_strategies_loop :: "string list \<Rightarrow> string list \<Rightarrow> string list" where
  "allowed_strategies_loop items [] = items"
| "allowed_strategies_loop items (v # vs) =
    allowed_strategies_loop
      (if v = ''Standard'' \<or> v = ''Rollout'' then
         (if contains_string items ''Rollout'' then items else items @ [''Rollout''])
       else if v = ''Canary'' then
         (if contains_string items ''Canary'' then items else items @ [''Canary''])
       else items) vs"

definition normalize_allowed_strategies :: "string list \<Rightarrow> string list" where
  "normalize_allowed_strategies values =
    (let items = allowed_strategies_loop [] values in
     if items = [] then [''Rollout'', ''Canary''] else items)"

fun cluster_targets_loop :: "string list \<Rightarrow> environment list \<Rightarrow> string list" where
  "cluster_targets_loop items [] = items"
| "cluster_targets_loop items (e # es) =
    (if env_cluster e = [] \<or> contains_string items (env_cluster e)
     then cluster_targets_loop items es
     else cluster_targets_loop (items @ [env_cluster e]) es)"

definition apply_policy_defaults :: "policy_set \<Rightarrow> environment list \<Rightarrow> policy_set" where
  "apply_policy_defaults p environments =
    (let clusters = (if pol_clusters p = [] then cluster_targets_loop [] environments else pol_clusters p) in
     \<lparr>pol_min_replicas = (if pol_min_replicas p \<le> 0 then 1 else pol_min_replicas p),
      pol_environments = (if pol_environments p = [] then map env_id environments else pol_environments p),
      pol_strategies = (if pol_strategies p = [] then [''Rollout'', ''Canary'']
                        else normalize_allowed_strategies (pol_strategies p)),
      pol_clusters = (if clusters = [] then [''default''] else clusters),
      pol_prod_pr = pol_prod_pr p,
      pol_auto_rollback = pol_auto_rollback p,
      pol_required_probes = (if should_default_required_probes p then True else pol_required_probes p)\<rparr>)"

definition apply_project_defaults :: "catalog_project \<Rightarrow> catalog_project" where
  "apply_project_defaults p =
    (let envs = apply_environment_defaults (cp_environments p) in
     p\<lparr>cp_environments := envs,
       cp_namespace := (if trim_space (cp_namespace p) = [] then cp_id p else cp_namespace p),
       cp_policies := apply_policy_defaults (cp_policies p) envs\<rparr>)"

lemma allowed_strategies_loop_set:
  "set (allowed_strategies_loop items vs) =
    set items \<union> (if ''Standard'' \<in> set vs \<or> ''Rollout'' \<in> set vs then {''Rollout''} else {})
      \<union> (if ''Canary'' \<in> set vs then {''Canary''} else {})"
  by (induction items vs rule: allowed_strategies_loop.induct) (auto simp: contains_string_def)

lemma allowed_strategies_loop_distinct:
  "distinct items \<Longrightarrow> distinct (allowed_strategies_loop items vs)"
  by (induction items vs rule: allowed_strategies_loop.induct) (auto simp: contains_string_def)

lemma normalize_allowed_strategies_set:
  "set (normalize_allowed_strategies vs) \<subseteq> {''Rollout'', ''Canary''}"
  using allowed_strategies_loop_set [of "[]" vs]
  by (auto simp: normalize_allowed_strategies_def Let_def split: if_splits)

lemma normalize_allowed_strategies_nonempty: "normalize_allowed_strategies vs \<noteq> []"
  by (simp add: normalize_allowed_strategies_def Let_def)

lemma normalize_allowed_strategies_distinct: "distinct (normalize_allowed_strategies vs)"
  by (simp add: normalize_allowed_strategies_def Let_def allowed_strategies_loop_distinct)

lemma allowed_strategies_loop_id:
  "distinct (items @ vs) \<Longrightarrow> set vs \<subseteq> {''Rollout'', ''Canary''} \<Longrightarrow>
    allowed_strategies_loop items vs = items @ vs"
  by (induction items vs rule: allowed_strategies_loop.induct) (auto simp: contains_string_def)

lemma normalize_allowed_strategies_id:
  "vs \<noteq> [] \<Longrightarrow> distinct vs \<Longrightarrow> set vs \<subseteq> {''Rollout'', ''Canary''} \<Longrightarrow>
    normalize_allowed_strategies vs = vs"
  using allowed_strategies_loop_id [of "[]" vs] by (simp add: normalize_allowed_strategies_def)

lemma normalize_allowed_strategies_idem [simp]:
  "normalize_allowed_strategies (normalize_allowed_strategies vs) = normalize_allowed_strategies vs"
  by (intro normalize_allowed_strategies_id normalize_allowed_strategies_nonempty
    normalize_allowed_strategies_distinct normalize_allowed_strategies_set)

lemma apply_policy_defaults_id:
  assumes "0 < pol_min_replicas q" and "pol_environments q = [] \<longrightarrow> es = []"
    and "pol_strategies q \<noteq> []" and "normalize_allowed_strategies (pol_strategies q) = pol_strategies q"
    and "pol_clusters q \<noteq> []"
  shows "apply_policy_defaults q es = q"
  using assms
  by (intro policy_set.equality) (auto simp: apply_policy_defaults_def should_default_required_probes_def)

lemma apply_policy_defaults_fields:
  "0 < pol_min_replicas (apply_policy_defaults p es)"
  "pol_environments (apply_policy_defaults p es) = [] \<longrightarrow> es = []"
  "pol_strategies (apply_policy_defaults p es) \<noteq> []"
  "set (pol_strategies (apply_policy_defaults p es)) \<subseteq> {''Rollout'', ''Canary''}"
  "distinct (pol_strategies (apply_policy_defaults p es))"
  "pol_clusters (apply_policy_defaults p es) \<noteq> []"
  using normalize_allowed_strategies_set [of "pol_strategies p"]
  by (auto simp: apply_policy_defaults_def Let_def normalize_allowed_strategies_nonempty
    normalize_allowed_strategies_distinct)

lemma apply_policy_defaults_idem:
  "apply_policy_defaults (apply_policy_defaults p es) es = apply_policy_defaults p es"
  by (rule apply_policy_defaults_id)
     (use apply_policy_defaults_fields [of p es] in \<open>auto intro!: normalize_allowed_strategies_id\<close>)

lemma apply_project_defaults_idem:
  assumes "cp_environments (apply_project_defaults p) \<noteq> []"
  shows "apply_project_defaults (apply_project_defaults p) = apply_project_defaults p"
  using assms
  by (cases p)
     (simp add: apply_project_defaults_def Let_def apply_environment_defaults_idem
       apply_policy_defaults_idem)

lemma apply_project_defaults_frame [simp]:
  "cp_id (apply_project_defaults p) = cp_id p"
  "cp_name (apply_project_defaults p) = cp_name p"
  "cp_description (apply_project_defaults p) = cp_description p"
  "cp_access (apply_project_defaults p) = cp_access p"
  "cp_repositories (apply_project_defaults p) = cp_repositories p"
  by (simp_all add: apply_project_defaults_def Let_def)

section \<open>Create requests\<close>

definition project_invalid :: "string \<Rightarrow> string \<Rightarrow> jmap \<Rightarrow> go_error" where
  "project_invalid message field extra = ProjectValidationError message (field_detail field @ extra)"

definition normalize_access_with_platform_admins :: "access \<Rightarrow> string \<Rightarrow> string list \<Rightarrow> access" where
  "normalize_access_with_platform_admins a project_id authorities =
    (let viewers = dedupe_strings (viewer_groups a);
         deployers = dedupe_strings (deployer_groups a);
         platform = effective_platform_admin_authorities authorities;
         admins = dedupe_strings (admin_groups a)
     in \<lparr>viewer_groups = (if viewers = [] then [''aods:'' @ project_id @ '':view''] else viewers),
         deployer_groups = (if deployers = [] then [''aods:'' @ project_id @ '':deploy''] else deployers),
         admin_groups = (if admins = [] then (''aods:'' @ project_id @ '':admin'') # platform
           else fold (\<lambda>g acc. if contains_string acc g then acc else acc @ [g]) platform admins)\<rparr>)"

fun normalize_create_environments_loop ::
  "string list \<Rightarrow> environment list \<Rightarrow> (go_error, environment list) result" where
  "normalize_create_environments_loop seen [] = Inr []"
| "normalize_create_environments_loop seen (e # es) =
    (let eid = trim_space (env_id e); cluster = trim_space (env_cluster e) in
     if \<not> slug_pattern eid then
       Inl (project_invalid ''environment id must be a lowercase slug'' ''environments.id'' [(''id'', JStr eid)])
     else if eid \<in> set seen then
       Inl (project_invalid ''environment ids must be unique'' ''environments.id'' [(''id'', JStr eid)])
     else if env_write_mode e \<notin> {[], write_mode_direct, write_mode_pull_request} then
       Inl (project_invalid ''writeMode must be direct or pull_request'' ''environments.writeMode'' [(''id'', JStr eid)])
     else if cluster \<noteq> [] \<and> \<not> slug_pattern cluster then
       Inl (project_invalid ''clusterId must be a lowercase slug'' ''environments.clusterId'' [(''id'', JStr eid)])
     else bindR (normalize_create_environments_loop (eid # seen) es) (\<lambda>rest.
       Inr (\<lparr>env_id = eid, env_name = trim_space (env_name e), env_cluster = cluster,
             env_write_mode = env_write_mode e, env_default = env_default e\<rparr> # rest)))"

definition normalize_create_environments :: "environment list \<Rightarrow> (go_error, environment list) result" where
  "normalize_create_environments items = normalize_create_environments_loop [] items"

fun normalize_create_repositories_loop ::
  "string list \<Rightarrow> repository list \<Rightarrow> (go_error, repository list) result" where
  "normalize_create_repositories_loop seen [] = Inr []"
| "normalize_create_repositories_loop seen (r # rs) =
    (let rid = trim_space (repo_id r) in
     if \<not> slug_pattern rid then
       Inl (project_invalid ''repository id must be a lowercase slug'' ''repositories.id'' [(''id'', JStr rid)])
     else if rid \<in> set seen then
       Inl (project_invalid ''repository ids must be unique'' ''repositories.id'' [(''id'', JStr rid)])
     else if trim_space (repo_name r) = [] then
       Inl (project_invalid ''repository name is required'' ''repositories.name'' [(''id'', JStr rid)])
     else if trim_space (repo_url r) = [] then
       Inl (project_invalid ''repository url is required'' ''repositories.url'' [(''id'', JStr rid)])
     else bindR (normalize_create_repositories_loop (rid # seen) rs) (\<lambda>rest.
       Inr (\<lparr>repo_id = rid, repo_name = trim_space (repo_name r), repo_url = trim_space (repo_url r),
             repo_description = trim_space (repo_description r), repo_branch = trim_space (repo_branch r),
             repo_auth_path = trim_space (repo_auth_path r),
             repo_config_file = trim_space (repo_config_file r)\<rparr> # rest)))"

definition normalize_create_repositories :: "repository list \<Rightarrow> (go_error, repository list) result" where
  "normalize_create_repositories items = normalize_create_repositories_loop [] items"

text \<open>NormalizeDeploymentStrategy of package project.\<close>

definition project_normalize_strategy :: "string \<Rightarrow> string" where
  "project_normalize_strategy value =
    (let t = trim_space value in
     if t = ''Standard'' \<or> t = ''Rollout'' then ''Rollout'' else if t = ''Canary'' then ''Canary'' else t)"

definition normalize_create_policies :: "policy_set \<Rightarrow> (go_error, policy_set) result" where
  "normalize_create_policies p =
    (if pol_min_replicas p < 0 then
       Inl (project_invalid ''minReplicas must be zero or greater'' ''policies.minReplicas'' [])
     else if list_ex (\<lambda>s. project_normalize_strategy s \<notin> {''Rollout'', ''Canary'', []}) (pol_strategies p) then
       Inl (project_invalid ''allowedDeploymentStrategies may only include Rollout or Canary''
         ''policies.allowedDeploymentStrategies'' [])
     else Inr
       \<lparr>pol_min_replicas = pol_min_replicas p,
        pol_environments = dedupe_strings (pol_environments p),
        pol_strategies = normalize_allowed_strategies (pol_strategies p),
        pol_clusters = dedupe_strings (pol_clusters p),
        pol_prod_pr = pol_prod_pr p,
        pol_auto_rollback = pol_auto_rollback p,
        pol_required_probes = pol_required_probes p\<rparr>)"

definition validate_create_policy_targets :: "policy_set \<Rightarrow> environment list \<Rightarrow> (go_error, unit) result" where
  "validate_create_policy_targets p environments =
    (case find (\<lambda>e. e \<notin> set (map env_id environments)) (pol_environments p) of
       Some e \<Rightarrow> Inl (project_invalid ''allowedEnvironments must reference configured environments''
         ''policies.allowedEnvironments'' [(''environment'', JStr e)])
     | None \<Rightarrow> Inr ())"

text \<open>
  \<open>clusters\<close> is the cluster catalog of the service: \<open>None\<close> when it has none, else the result of
  ListClusters, here the identifiers it lists.
\<close>

definition validate_cluster_targets ::
  "(go_error, string list) result option \<Rightarrow> environment list \<Rightarrow> policy_set \<Rightarrow> (go_error, unit) result" where
  "validate_cluster_targets clusters environments p =
    bindR (case clusters of None \<Rightarrow> Inr [] | Some r \<Rightarrow> r) (\<lambda>ids.
      let available = ''default'' # ids;
          cluster_of = (\<lambda>e. let c = trim_space (env_cluster e) in if c = [] then ''default'' else c)
      in case find (\<lambda>e. cluster_of e \<notin> set available) environments of
           Some e \<Rightarrow> Inl (project_invalid ''environment clusterId must reference an existing cluster''
             ''environments.clusterId'' [(''clusterId'', JStr (cluster_of e)), (''environment'', JStr (env_id e))])
         | None \<Rightarrow>
             (case find (\<lambda>c. c \<notin> set available) (pol_clusters p) of
                Some c \<Rightarrow> Inl (project_invalid ''allowedClusterTargets must reference existing clusters''
                  ''policies.allowedClusterTargets'' [(''clusterId'', JStr c)])
              | None \<Rightarrow> Inr ()))"

definition normalize_create_request ::
  "(go_error, string list) result option \<Rightarrow> string list \<Rightarrow> catalog_project \<Rightarrow> (go_error, catalog_project) result" where
  "normalize_create_request clusters authorities input =
    (let pid = trim_space (cp_id input); name = trim_space (cp_name input) in
     if \<not> slug_pattern pid then Inl (project_invalid ''project id must be a lowercase slug'' ''id'' [])
     else if name = [] then Inl (project_invalid ''project name is required'' ''name'' [])
     else if \<not> slug_pattern name then Inl (project_invalid ''project name must be a lowercase slug'' ''name'' [])
     else if name \<noteq> pid then
       Inl (project_invalid ''project name must match project id'' ''name'' [(''id'', JStr pid), (''name'', JStr name)])
     else
       bindR (normalize_create_environments (cp_environments input)) (\<lambda>environments.
       bindR (normalize_create_repositories (cp_repositories input)) (\<lambda>repositories.
       bindR (normalize_create_policies (cp_policies input)) (\<lambda>policies.
         let envs = apply_environment_defaults environments;
             ns = (let t = trim_space (cp_namespace input) in if t = [] then name else t);
             normalized =
               \<lparr>cp_id = pid, cp_name = name, cp_description = trim_space (cp_description input),
                cp_namespace = ns,
                cp_access = normalize_access_with_platform_admins (cp_access input) pid
                  (effective_platform_admin_authorities authorities),
                cp_environments = envs, cp_repositories = repositories,
                cp_policies = apply_policy_defaults policies envs\<rparr>
         in if ns \<noteq> name then
              Inl (project_invalid ''namespace must match project name'' ''namespace''
                [(''name'', JStr name), (''namespace'', JStr ns)])
            else
              bindR (validate_cluster_targets clusters envs (cp_policies normalized)) (\<lambda>_.
              bindR (validate_create_policy_targets (cp_policies normalized) envs) (\<lambda>_.
                Inr normalized))))))"

end
