(* ===== verification/AppModel.thy ===== *)
theory AppModel
  imports ImageRef ProjectPolicy
begin

text \<open>
  Package application, the pure part of service.go, types.go, resources.go and poll_tracker.go:
  deployment strategies, application identifiers, the checks of a create request, the network
  profile, repository metadata, secret entries, project policies and the project context that the
  manifest store receives.
\<close>

section \<open>Strategies and identifiers\<close>

definition strategy_rollout :: string where "strategy_rollout = ''Rollout''"

definition strategy_canary :: string where "strategy_canary = ''Canary''"

definition default_repository_config_path :: string where
  "default_repository_config_path = ''aolda_deploy.json''"

definition normalize_strategy :: "string \<Rightarrow> string" where
  "normalize_strategy v =
    (let t = trim_space v in
     if t = ''Canary'' then strategy_canary
     else if t = ''Rollout'' \<or> t = ''Standard'' then strategy_rollout
     else t)"

definition is_canary :: "string \<Rightarrow> bool" where
  "is_canary v \<longleftrightarrow> normalize_strategy v = strategy_canary"

lemma trim_literals [simp]:
  "trim_space ''Canary'' = ''Canary''" "trim_space ''Rollout'' = ''Rollout''"
  by (rule trim_space_graphic; simp add: graphic_def)+

lemma normalize_strategy_idem [simp]: "normalize_strategy (normalize_strategy v) = normalize_strategy v"
  by (auto simp: normalize_strategy_def Let_def strategy_rollout_def strategy_canary_def)

lemma is_canary_normalize [simp]: "is_canary (normalize_strategy v) = is_canary v"
  by (simp add: is_canary_def)

definition split_application_id :: "string \<Rightarrow> (go_error, string \<times> string) result" where
  "split_application_id application_id =
    (case str_cut ''__'' application_id of
       None \<Rightarrow> Inl ErrInvalidID
     | Some (project_id, app_name) \<Rightarrow>
         if project_id = [] \<or> app_name = [] then Inl ErrInvalidID else Inr (project_id, app_name))"

definition build_application_id :: "string \<Rightarrow> string \<Rightarrow> string" where
  "build_application_id project_id app_name = project_id @ ''__'' @ app_name"

lemma split_build:
  assumes "CHR ''_'' \<notin> set pid" and "pid \<noteq> []" and "app \<noteq> []"
  shows "split_application_id (build_application_id pid app) = Inr (pid, app)"
  using str_cut_skip [OF assms(1), of "''_''" app] assms(2,3)
  by (simp add: split_application_id_def build_application_id_def)

lemma split_inverse:
  assumes "split_application_id i = Inr (pid, app)"
  shows "i = build_application_id pid app" and "pid \<noteq> []" and "app \<noteq> []"
  using assms by (auto simp: split_application_id_def build_application_id_def
    dest: str_cut_Some split: option.splits if_splits)

section \<open>Repository polling interval\<close>

definition allowed_poll_intervals :: "int list" where
  "allowed_poll_intervals = [60, 300, 600]"

definition normalize_poll_interval :: "int \<Rightarrow> int" where
  "normalize_poll_interval v = (if v \<in> set allowed_poll_intervals then v else 0)"

definition validate_poll_interval :: "int \<Rightarrow> (go_error, unit) result" where
  "validate_poll_interval v =
    (if 0 < normalize_poll_interval v then Inr ()
     else Inl (ValidationError ''repositoryPollIntervalSeconds must be one of 60, 300, or 600''
       [(''field'', JStr ''repositoryPollIntervalSeconds''), (''allowed'', JInts allowed_poll_intervals)]))"

definition app_has_repository_source :: "app_record \<Rightarrow> bool" where
  "app_has_repository_source a \<longleftrightarrow> trim_space (ar_repository_url a) \<noteq> [] \<or> trim_space (ar_repository_id a) \<noteq> []"

section \<open>Checks of a create request\<close>

definition app_invalid :: "string \<Rightarrow> string \<Rightarrow> go_error" where
  "app_invalid message field = ValidationError message (field_detail field)"

definition validate_create_request :: "create_request \<Rightarrow> (go_error, unit) result" where
  "validate_create_request r =
    (if \<not> slug_pattern (trim_space (cr_name r)) then
       Inl (app_invalid ''name must be a DNS-1123 style slug'' ''name'')
     else if trim_space (cr_image r) = [] then Inl (app_invalid ''image is required'' ''image'')
     else if cr_service_port r < 1 \<or> 65535 < cr_service_port r then
       Inl (app_invalid ''servicePort must be between 1 and 65535'' ''servicePort'')
     else if cr_replicas r < 0 then Inl (app_invalid ''replicas must be zero or greater'' ''replicas'')
     else if trim_space (cr_strategy r) = [] then
       Inl (app_invalid ''deploymentStrategy is required'' ''deploymentStrategy'')
     else if normalize_strategy (cr_strategy r) \<notin> {strategy_rollout, strategy_canary} then
       Inl (app_invalid ''deploymentStrategy must be Rollout or Canary'' ''deploymentStrategy'')
     else if cr_poll_interval r \<noteq> 0 then validate_poll_interval (cr_poll_interval r)
     else Inr ())"

lemma validate_create_request_ok:
  assumes "validate_create_request r = Inr ()"
  shows "slug_pattern (trim_space (cr_name r))" "trim_space (cr_image r) \<noteq> []"
    "1 \<le> cr_service_port r" "cr_service_port r \<le> 65535" "0 \<le> cr_replicas r"
    "normalize_strategy (cr_strategy r) \<in> {strategy_rollout, strategy_canary}"
    "cr_poll_interval r \<in> {0, 60, 300, 600}"
proof -
  note d = assms [unfolded validate_create_request_def]
  show "slug_pattern (trim_space (cr_name r))" "trim_space (cr_image r) \<noteq> []"
    "1 \<le> cr_service_port r" "cr_service_port r \<le> 65535" "0 \<le> cr_replicas r"
    "normalize_strategy (cr_strategy r) \<in> {strategy_rollout, strategy_canary}"
    using d by (auto split: if_splits)
  from d have "cr_poll_interval r = 0 \<or> validate_poll_interval (cr_poll_interval r) = Inr ()"
    by (auto split: if_splits)
  then show "cr_poll_interval r \<in> {0, 60, 300, 600}"
    by (auto simp: validate_poll_interval_def normalize_poll_interval_def allowed_poll_intervals_def split: if_splits)
qed

section \<open>Network profile\<close>

definition normalize_create_network_profile :: "create_request \<Rightarrow> create_request" where
  "normalize_create_network_profile r =
    (if normalize_strategy (cr_strategy r) = strategy_canary then r\<lparr>cr_mesh := True\<rparr> else r)"

definition validate_network_profile :: "string \<Rightarrow> bool \<Rightarrow> bool \<Rightarrow> (go_error, unit) result" where
  "validate_network_profile strategy mesh load_balancer =
    (let canary = (normalize_strategy strategy = strategy_canary) in
     if canary \<and> \<not> mesh then
       Inl (app_invalid ''meshEnabled must be true when deploymentStrategy is Canary'' ''meshEnabled'')
     else if canary \<and> load_balancer then
       Inl (app_invalid ''loadBalancerEnabled cannot be true when deploymentStrategy is Canary''
         ''loadBalancerEnabled'')
     else Inr ())"

definition network_ok :: "string \<Rightarrow> bool \<Rightarrow> bool \<Rightarrow> bool" where
  "network_ok strategy mesh load_balancer \<longleftrightarrow> (is_canary strategy \<longrightarrow> mesh \<and> \<not> load_balancer)"

lemma validate_network_profile_iff:
  "validate_network_profile s m l = Inr () \<longleftrightarrow> network_ok s m l"
  by (auto simp: validate_network_profile_def network_ok_def is_canary_def Let_def)

section \<open>Repository metadata\<close>

definition normalize_repository_metadata :: "catalog_project \<Rightarrow> create_request \<Rightarrow> (go_error, create_request) result" where
  "normalize_repository_metadata p r =
    (let rid = trim_space (cr_repository_id r); url = trim_space (cr_repository_url r);
         branch = trim_space (cr_repository_branch r); token = trim_space (cr_repository_token r);
         service = trim_space (cr_repository_service_id r); config = trim_space (cr_config_path r)
     in if url \<noteq> [] then
          (if rid \<noteq> [] then
             Inl (app_invalid ''repositoryId and repositoryUrl cannot be used together'' ''repositoryUrl'')
           else Inr (r\<lparr>cr_repository_id := [], cr_repository_url := url, cr_repository_branch := branch,
                  cr_repository_service_id := service,
                  cr_config_path := (if config = [] then default_repository_config_path else config)\<rparr>))
        else if rid = [] then
          (if service \<noteq> [] \<or> config \<noteq> [] \<or> branch \<noteq> [] \<or> token \<noteq> [] then
             Inl (app_invalid ''repositoryUrl is required when GitHub source metadata is provided'' ''repositoryUrl'')
           else Inr (r\<lparr>cr_repository_url := [], cr_repository_branch := [], cr_repository_service_id := [],
                  cr_config_path := []\<rparr>))
        else (case find (\<lambda>x. repo_id x = rid) (cp_repositories p) of
            Some x \<Rightarrow>
              Inr (r\<lparr>cr_repository_id := rid, cr_repository_url := repo_url x,
                cr_repository_branch := trim_space (repo_branch x), cr_repository_service_id := service,
                cr_config_path :=
                  (if config \<noteq> [] then config
                   else if trim_space (repo_config_file x) \<noteq> [] then trim_space (repo_config_file x)
                   else default_repository_config_path)\<rparr>)
          | None \<Rightarrow> Inl (ValidationError ''repositoryId is not connected to this project''
              [(''field'', JStr ''repositoryId''), (''repositoryId'', JStr rid)])))"

section \<open>Secret entries\<close>

fun normalize_secrets_loop ::
  "(string \<times> string) list \<Rightarrow> secret_entry list \<Rightarrow> (go_error, (string \<times> string) list) result" where
  "normalize_secrets_loop values [] = Inr values"
| "normalize_secrets_loop values (e # es) =
    (let key = trim_space (se_key e) in
     if key = [] then Inl (app_invalid ''secret key must not be blank'' ''secrets.key'')
     else if key \<in> fst ` set values then
       Inl (ValidationError (''duplicate secret key '' @ key) [(''field'', JStr ''secrets.key''), (''key'', JStr key)])
     else normalize_secrets_loop (values @ [(key, se_value e)]) es)"

definition normalize_secrets :: "secret_entry list \<Rightarrow> (go_error, (string \<times> string) list) result" where
  "normalize_secrets entries = normalize_secrets_loop [] entries"

fun normalize_secret_delete_keys_loop ::
  "string list \<Rightarrow> (string \<times> string) list \<Rightarrow> string list \<Rightarrow> (go_error, string list) result" where
  "normalize_secret_delete_keys_loop keys set_values [] = Inr keys"
| "normalize_secret_delete_keys_loop keys set_values (e # es) =
    (let key = trim_space e in
     if key = [] then Inl (app_invalid ''secret delete key must not be blank'' ''delete'')
     else if key \<in> set keys then normalize_secret_delete_keys_loop keys set_values es
     else if key \<in> fst ` set set_values then
       Inl (ValidationError (''secret key '' @ key @ '' cannot be set and deleted in the same request'')
         [(''field'', JStr ''delete''), (''key'', JStr key)])
     else normalize_secret_delete_keys_loop (keys @ [key]) set_values es)"

definition normalize_secret_delete_keys ::
  "string list \<Rightarrow> (string \<times> string) list \<Rightarrow> (go_error, string list) result" where
  "normalize_secret_delete_keys entries set_values = normalize_secret_delete_keys_loop [] set_values entries"

lemma normalize_secrets_loop_eq:
  "normalize_secrets_loop vs es = Inr xs \<Longrightarrow> xs = vs @ map (\<lambda>e. (trim_space (se_key e), se_value e)) es"
  by (induction vs es rule: normalize_secrets_loop.induct) (auto simp: Let_def split: if_splits)

lemma normalize_secrets_loop_distinct:
  "normalize_secrets_loop vs es = Inr xs \<Longrightarrow> distinct (map fst vs) \<Longrightarrow> distinct (map fst xs)"
  by (induction vs es rule: normalize_secrets_loop.induct) (auto simp: Let_def split: if_splits)

lemma normalize_secrets_ok:
  assumes "normalize_secrets es = Inr xs"
  shows "distinct (map fst xs)" and "xs = map (\<lambda>e. (trim_space (se_key e), se_value e)) es"
  using normalize_secrets_loop_eq [of "[]" es xs] normalize_secrets_loop_distinct [of "[]" es xs] assms
  by (auto simp: normalize_secrets_def)

lemma delete_keys_loop_set:
  "normalize_secret_delete_keys_loop ks vs es = Inr xs \<Longrightarrow> set xs = set ks \<union> trim_space ` set es"
  by (induction ks vs es rule: normalize_secret_delete_keys_loop.induct)
     (auto simp: Let_def split: if_splits)

lemma delete_keys_loop_apart:
  "normalize_secret_delete_keys_loop ks vs es = Inr xs \<Longrightarrow> \<forall>k \<in> set ks. k \<notin> fst ` set vs \<Longrightarrow> distinct ks \<Longrightarrow>
    (\<forall>k \<in> set xs. k \<notin> fst ` set vs) \<and> distinct xs"
  by (induction ks vs es rule: normalize_secret_delete_keys_loop.induct)
     (auto simp: Let_def simp del: image_iff split: if_splits)

lemma delete_keys_ok:
  assumes "normalize_secret_delete_keys es vs = Inr xs"
  shows "set xs = trim_space ` set es" and "\<forall>k \<in> set xs. k \<notin> fst ` set vs" and "distinct xs"
  using delete_keys_loop_set [of "[]" vs es xs] delete_keys_loop_apart [of "[]" vs es xs] assms
  by (simp_all add: normalize_secret_delete_keys_def)

section \<open>Policies and the project context\<close>

definition resolve_environment :: "catalog_project \<Rightarrow> string \<Rightarrow> string" where
  "resolve_environment p requested =
    (let r = trim_space requested in
     if r \<noteq> [] then r
     else (case find env_default (cp_environments p) of Some e \<Rightarrow> env_id e | None \<Rightarrow> ''shared''))"

definition contains_normalized_value :: "string list \<Rightarrow> string \<Rightarrow> bool" where
  "contains_normalized_value values target \<longleftrightarrow> list_ex (\<lambda>v. normalize_strategy v = target) values"

definition validate_project_policies :: "catalog_project \<Rightarrow> string \<Rightarrow> string \<Rightarrow> (go_error, unit) result" where
  "validate_project_policies p environment strategy =
    (if environment \<notin> set (pol_environments (cp_policies p)) then
       Inl (ValidationError ''environment is not allowed by project policy''
         [(''field'', JStr ''environment''), (''environment'', JStr environment)])
     else if \<not> contains_normalized_value (pol_strategies (cp_policies p)) (normalize_strategy strategy) then
       Inl (ValidationError ''deploymentStrategy is not allowed by project policy''
         [(''field'', JStr ''deploymentStrategy''), (''deploymentStrategy'', JStr (normalize_strategy strategy))])
     else Inr ())"

definition requires_change_flow :: "catalog_project \<Rightarrow> string \<Rightarrow> bool" where
  "requires_change_flow p environment \<longleftrightarrow>
    list_ex (\<lambda>e. env_id e = environment \<and> env_write_mode e = write_mode_pull_request) (cp_environments p) \<or>
    environment = ''prod'' \<and> pol_prod_pr (cp_policies p)"

definition environment_cluster_map :: "environment list \<Rightarrow> (string \<times> string) list" where
  "environment_cluster_map items = fold (\<lambda>e m. AList.update (env_id e) (env_cluster e) m) items []"

fun normalize_policy_strategies_loop :: "string list \<Rightarrow> string list \<Rightarrow> string list" where
  "normalize_policy_strategies_loop items [] = items"
| "normalize_policy_strategies_loop items (v # vs) =
    (let n = normalize_strategy v in
     normalize_policy_strategies_loop (if n = [] \<or> n \<in> set items then items else items @ [n]) vs)"

definition normalize_policy_strategies :: "string list \<Rightarrow> string list" where
  "normalize_policy_strategies values = normalize_policy_strategies_loop [] values"

definition build_project_context :: "catalog_project \<Rightarrow> project_context" where
  "build_project_context p =
    \<lparr>pc_id = cp_id p, pc_namespace = cp_namespace p,
     pc_environments = map env_id (cp_environments p),
     pc_environment_clusters = environment_cluster_map (cp_environments p),
     pc_policies = (cp_policies p)
       \<lparr>pol_strategies := normalize_policy_strategies (pol_strategies (cp_policies p))\<rparr>\<rparr>"

section \<open>Resource requirements\<close>

text \<open>
  Quantities are float64 values. strconv.ParseFloat and the rounded product of two floats are the
  parameters of the record \<open>float_unit\<close>; the multipliers are the exact values of the source's
  constants, a mantissa and a binary exponent.
\<close>

record float_unit =
  fu_parse :: "string \<Rightarrow> f64 option"
  fu_times :: "f64 \<Rightarrow> f64 \<Rightarrow> f64"

fun f64_less :: "f64 \<Rightarrow> f64 \<Rightarrow> bool" where
  "f64_less NaN _ = False"
| "f64_less _ NaN = False"
| "f64_less NegInf b = (b \<noteq> NegInf)"
| "f64_less _ NegInf = False"
| "f64_less PosInf _ = False"
| "f64_less (Finite _ _) PosInf = True"
| "f64_less (Finite m e) (Finite n f) =
    (let k = min e f in m * 2 ^ nat (e - k) < n * 2 ^ nat (f - k))"

definition f64_zero :: f64 where "f64_zero = Finite 0 0"

text \<open>A float is positive exactly when \<open>parsed <= 0\<close> fails and it is a number.\<close>

definition f64_le_zero :: "f64 \<Rightarrow> bool" where
  "f64_le_zero x = (case x of NaN \<Rightarrow> False | NegInf \<Rightarrow> True | Finite m e \<Rightarrow> m \<le> 0 | PosInf \<Rightarrow> False)"

definition cpu_units :: "(string \<times> f64) list" where
  "cpu_units = [(''n'', Finite 4835703278458517 (-82)), (''u'', Finite 4722366482869645 (-72)),
     (''m'', Finite 1152921504606847 (-60))]"

definition memory_units :: "(string \<times> f64) list" where
  "memory_units =
    [(''Ki'', Finite 1 (-10)), (''Mi'', Finite 1 0), (''Gi'', Finite 1 10), (''Ti'', Finite 1 20),
     (''Pi'', Finite 1 30), (''Ei'', Finite 1 40), (''K'', Finite 1000 (-20)),
     (''M'', Finite 1000000 (-20)), (''G'', Finite 1000000000 (-20)), (''T'', Finite 1000000000000 (-20)),
     (''P'', Finite 1000000000000000 (-20)), (''E'', Finite 1000000000000000000 (-20))]"

definition parse_quantity :: "(string \<times> f64) list \<Rightarrow> float_unit \<Rightarrow> string \<Rightarrow> f64 option" where
  "parse_quantity units fu raw =
    (let v = trim_space raw in
     if v = [] then Some f64_zero
     else (case find (\<lambda>u. suffix (fst u) v) units of
         Some u \<Rightarrow> map_option (\<lambda>x. fu_times fu x (snd u)) (fu_parse fu (trim_suffix (fst u) v))
       | None \<Rightarrow> fu_parse fu v))"

definition parse_cpu_quantity :: "float_unit \<Rightarrow> string \<Rightarrow> f64 option" where
  "parse_cpu_quantity = parse_quantity cpu_units"

definition parse_memory_quantity :: "float_unit \<Rightarrow> string \<Rightarrow> f64 option" where
  "parse_memory_quantity = parse_quantity memory_units"

definition default_resource_requirements :: resource_requirements where
  "default_resource_requirements =
    \<lparr>rr_requests = \<lparr>rq_cpu = ''250m'', rq_memory = ''256Mi''\<rparr>,
     rr_limits = \<lparr>rq_cpu = ''500m'', rq_memory = ''512Mi''\<rparr>\<rparr>"

definition resources_is_zero :: "resource_requirements \<Rightarrow> bool" where
  "resources_is_zero r \<longleftrightarrow>
    trim_space (rq_cpu (rr_requests r)) = [] \<and> trim_space (rq_memory (rr_requests r)) = [] \<and>
    trim_space (rq_cpu (rr_limits r)) = [] \<and> trim_space (rq_memory (rr_limits r)) = []"

definition check_quantity :: "(string \<Rightarrow> f64 option) \<Rightarrow> string \<Rightarrow> string \<Rightarrow> (go_error, unit) result" where
  "check_quantity parse label v =
    (if trim_space v = [] then Inl (ValidationError (label @ '' is required'') (field_detail label))
     else if (case parse v of None \<Rightarrow> True | Some x \<Rightarrow> f64_le_zero x) then
       Inl (ValidationError (label @ '' is invalid'') [(''field'', JStr label), (''value'', JStr v)])
     else Inr ())"

definition quantity_or_zero :: "f64 option \<Rightarrow> f64" where
  "quantity_or_zero x = (case x of Some f \<Rightarrow> f | None \<Rightarrow> f64_zero)"

definition validate_resource_requirements :: "float_unit \<Rightarrow> resource_requirements \<Rightarrow> (go_error, unit) result" where
  "validate_resource_requirements fu r =
    bindR (check_quantity (parse_cpu_quantity fu) ''resources.requests.cpu'' (rq_cpu (rr_requests r))) (\<lambda>_.
    bindR (check_quantity (parse_memory_quantity fu) ''resources.requests.memory'' (rq_memory (rr_requests r))) (\<lambda>_.
    bindR (check_quantity (parse_cpu_quantity fu) ''resources.limits.cpu'' (rq_cpu (rr_limits r))) (\<lambda>_.
    bindR (check_quantity (parse_memory_quantity fu) ''resources.limits.memory'' (rq_memory (rr_limits r))) (\<lambda>_.
      if f64_less (quantity_or_zero (parse_cpu_quantity fu (rq_cpu (rr_limits r))))
           (quantity_or_zero (parse_cpu_quantity fu (rq_cpu (rr_requests r)))) then
        Inl (app_invalid ''resources.limits.cpu must be greater than or equal to resources.requests.cpu''
          ''resources.limits.cpu'')
      else if f64_less (quantity_or_zero (parse_memory_quantity fu (rq_memory (rr_limits r))))
           (quantity_or_zero (parse_memory_quantity fu (rq_memory (rr_requests r)))) then
        Inl (app_invalid ''resources.limits.memory must be greater than or equal to resources.requests.memory''
          ''resources.limits.memory'')
      else Inr ()))))"

definition or_default :: "string \<Rightarrow> string \<Rightarrow> string" where
  "or_default v d = (if v = [] then d else v)"

definition normalize_resource_requirements ::
  "float_unit \<Rightarrow> resource_requirements \<Rightarrow> bool \<Rightarrow> (go_error, resource_requirements) result" where
  "normalize_resource_requirements fu r apply_defaults =
    (let d = default_resource_requirements;
         pick = (\<lambda>v dv. if apply_defaults then or_default (trim_space v) dv else trim_space v);
         n = \<lparr>rr_requests = \<lparr>rq_cpu = pick (rq_cpu (rr_requests r)) (rq_cpu (rr_requests d)),
                 rq_memory = pick (rq_memory (rr_requests r)) (rq_memory (rr_requests d))\<rparr>,
              rr_limits = \<lparr>rq_cpu = pick (rq_cpu (rr_limits r)) (rq_cpu (rr_limits d)),
                 rq_memory = pick (rq_memory (rr_limits r)) (rq_memory (rr_limits d))\<rparr>\<rparr>
     in bindR (validate_resource_requirements fu n) (\<lambda>_. Inr n))"

end
