(* ===== verification/DeployQueue.thy ===== *)
theory DeployQueue
  imports AppModel
begin

text \<open>
  The durable queue of deployment operations (deployment_operations.go and the MariaDB store of
  deployment_operations_mariadb.go). The two tables are lists of rows; a transaction is one atomic
  step, so no row is locked by another transaction when it starts. Texts are compared byte by byte,
  a NULL text is the empty text, and times are cut to the microseconds of DATETIME(6).
\<close>

datatype operation_status = OpQueued | OpRunning | OpRetrying | OpCompleted | OpFailed

record operation =
  op_id :: string
  op_application_id :: string
  op_project_id :: string
  op_application_name :: string
  op_environment :: string
  op_image_tag :: string
  op_desired_image :: string
  op_strategy :: string
  op_requested_by :: string
  op_request_id :: string
  op_lock_key :: string
  op_status :: operation_status
  op_message :: string
  op_attempts :: int
  op_max_attempts :: int
  op_last_error :: string
  op_next_attempt_at :: int
  op_lease_owner :: string
  op_lease_until :: int
  op_version :: int
  op_created_at :: int
  op_updated_at :: int
  op_completed_at :: "int option"

record lock_row =
  lk_key :: string
  lk_owner :: string
  lk_until :: int
  lk_version :: int

record queue =
  q_ops :: "operation list"
  q_locks :: "lock_row list"

section \<open>Values of the database\<close>

definition unix_epoch :: int where
  "unix_epoch = 62135596800000000000"

definition db_time :: "int \<Rightarrow> int" where
  "db_time t = t div 1000 * 1000"

definition nullable_string :: "string \<Rightarrow> string" where
  "nullable_string s = (if trim_space s = [] then [] else s)"

definition max_int64 :: "int \<Rightarrow> int \<Rightarrow> int" where
  "max_int64 v fallback = (if v \<le> 0 then fallback else v)"

definition scan_operation :: "operation \<Rightarrow> operation" where
  "scan_operation o1 = o1\<lparr>op_strategy := normalize_strategy (op_strategy o1)\<rparr>"

section \<open>Enqueue\<close>

text \<open>The row that the INSERT writes.\<close>

definition enqueue_row :: "int \<Rightarrow> operation \<Rightarrow> operation" where
  "enqueue_row now o1 = o1\<lparr>
     op_created_at := db_time (if op_created_at o1 = 0 then now else op_created_at o1),
     op_updated_at := db_time now,
     op_next_attempt_at := db_time (if op_next_attempt_at o1 = 0 then now else op_next_attempt_at o1),
     op_max_attempts := (if op_max_attempts o1 \<le> 0 then 5 else op_max_attempts o1),
     op_message := nullable_string (trim_space (op_message o1)),
     op_last_error := nullable_string (op_last_error o1),
     op_lease_owner := nullable_string (op_lease_owner o1),
     op_lease_until := (if op_lease_until o1 = 0 then 0 else db_time (op_lease_until o1)),
     op_version := max_int64 (op_version o1) 1,
     op_completed_at := (case op_completed_at o1 of Some t \<Rightarrow> if t = 0 then None else Some (db_time t) | None \<Rightarrow> None)\<rparr>"

text \<open>Both the id and the request id are unique keys; ON DUPLICATE KEY UPDATE changes nothing.\<close>

definition taken :: "operation \<Rightarrow> queue \<Rightarrow> bool" where
  "taken o1 q = list_ex (\<lambda>r. op_id r = op_id o1 \<or> op_request_id r = op_request_id o1) (q_ops q)"

definition enqueue_operation :: "int \<Rightarrow> operation \<Rightarrow> (queue, go_error, operation) action" where
  "enqueue_operation now o1 q =
    (let q1 = (if taken o1 q then q else q\<lparr>q_ops := q_ops q @ [enqueue_row now o1]\<rparr>)
     in case find (\<lambda>r. op_id r = op_id o1) (q_ops q1) of
          Some r \<Rightarrow> (Inr (scan_operation r), q1)
        | None \<Rightarrow> (Inl (OtherError ''sql: no rows in result set''), q1))"

section \<open>Locks\<close>

definition replace_lock :: "lock_row \<Rightarrow> lock_row list \<Rightarrow> lock_row list" where
  "replace_lock l ls = map (\<lambda>x. if lk_key x = lk_key l then l else x) ls"

text \<open>INSERT IGNORE, SELECT FOR UPDATE, then the conditional UPDATE.\<close>

definition acquire_operation_lock ::
  "string \<Rightarrow> string \<Rightarrow> int \<Rightarrow> int \<Rightarrow> lock_row list \<Rightarrow> (go_error, bool \<times> lock_row list) result" where
  "acquire_operation_lock key worker now lease_until locks =
    (if trim_space key = [] then Inl (OtherError ''operation lock key is required'')
     else
       let locks1 = (if list_ex (\<lambda>l. lk_key l = key) locks then locks
             else locks @ [\<lparr>lk_key = key, lk_owner = [], lk_until = unix_epoch, lk_version = 1\<rparr>])
       in (case find (\<lambda>l. lk_key l = key) locks1 of
             None \<Rightarrow> Inl (OtherError ''sql: no rows in result set'')
           | Some l \<Rightarrow>
               if now < lk_until l \<and> lk_owner l \<noteq> worker then Inr (False, locks1)
               else Inr (True, replace_lock
                 (l\<lparr>lk_owner := worker, lk_until := db_time lease_until, lk_version := lk_version l + 1\<rparr>) locks1)))"

definition release_operation_lock :: "string \<Rightarrow> string \<Rightarrow> lock_row list \<Rightarrow> lock_row list" where
  "release_operation_lock key worker locks =
    (if trim_space key = [] \<or> trim_space worker = [] then locks
     else map (\<lambda>l. if lk_key l = key \<and> lk_owner l = worker
       then l\<lparr>lk_owner := [], lk_until := unix_epoch, lk_version := lk_version l + 1\<rparr> else l) locks)"

section \<open>Claim\<close>

definition claim_candidates :: "int \<Rightarrow> queue \<Rightarrow> operation list" where
  "claim_candidates now q =
    take 10 (sort_key op_created_at
      (filter (\<lambda>r. (op_status r = OpQueued \<or> op_status r = OpRetrying) \<and> op_next_attempt_at r \<le> now) (q_ops q)))"

definition claimed :: "string \<Rightarrow> int \<Rightarrow> int \<Rightarrow> operation \<Rightarrow> operation" where
  "claimed worker now lease r =
    (scan_operation r)\<lparr>op_status := OpRunning, op_attempts := op_attempts r + 1, op_lease_owner := worker,
      op_lease_until := now + lease, op_message := msg_op_running, op_updated_at := now,
      op_version := op_version r + 1\<rparr>"

definition claimed_row :: "operation \<Rightarrow> operation \<Rightarrow> operation" where
  "claimed_row c r =
    r\<lparr>op_status := op_status c, op_message := op_message c, op_attempts := op_attempts c,
      op_lease_owner := op_lease_owner c, op_lease_until := db_time (op_lease_until c),
      op_updated_at := db_time (op_updated_at c), op_version := op_version r + 1\<rparr>"

text \<open>The loop over the candidates; the rows and locks of the transaction so far are its state.\<close>

fun claim_loop ::
  "string \<Rightarrow> int \<Rightarrow> int \<Rightarrow> operation list \<Rightarrow> queue \<Rightarrow> (go_error, operation option \<times> queue) result" where
  "claim_loop worker now lease [] q = Inr (None, q)"
| "claim_loop worker now lease (r # rs) q =
    (case acquire_operation_lock (op_lock_key r) worker now (now + lease) (q_locks q) of
       Inl e \<Rightarrow> Inl e
     | Inr (acquired, locks) \<Rightarrow>
         let q1 = q\<lparr>q_locks := locks\<rparr> in
         if \<not> acquired then claim_loop worker now lease rs q1
         else if \<not> list_ex (\<lambda>x. op_id x = op_id r \<and> op_version x = op_version r) (q_ops q1) then
           claim_loop worker now lease rs q1
         else Inr (Some (claimed worker now lease r),
           q1\<lparr>q_ops := map (\<lambda>x. if op_id x = op_id r \<and> op_version x = op_version r
             then claimed_row (claimed worker now lease r) x else x) (q_ops q1)\<rparr>))"

definition effective_lease :: "int \<Rightarrow> int" where
  "effective_lease d = (if d \<le> 0 then 300000000000 else d)"

definition claim_next :: "int \<Rightarrow> string \<Rightarrow> int \<Rightarrow> (queue, go_error, operation option) action" where
  "claim_next now worker lease q =
    (case claim_loop worker now (effective_lease lease) (claim_candidates now q) q of
       Inl e \<Rightarrow> (Inl e, q)
     | Inr (r, q1) \<Rightarrow> (Inr r, q1))"

section \<open>Finish\<close>

definition max_deployment_attempts :: "operation \<Rightarrow> int" where
  "max_deployment_attempts o1 = (if op_max_attempts o1 \<le> 0 then 5 else op_max_attempts o1)"

text \<open>An UPDATE of the row that the worker still leases; a lost lease rolls the transaction back.\<close>

definition update_leased ::
  "operation \<Rightarrow> string \<Rightarrow> (operation \<Rightarrow> operation) \<Rightarrow> (queue, go_error, unit) action" where
  "update_leased o1 lost f q =
    (let mine = (\<lambda>r. op_id r = op_id o1 \<and> op_lease_owner r = op_lease_owner o1 \<and> op_lease_owner r \<noteq> [])
     in if list_ex mine (q_ops q) then
          (Inr (), \<lparr>q_ops = map (\<lambda>r. if mine r then f r else r) (q_ops q),
             q_locks = release_operation_lock (op_lock_key o1) (op_lease_owner o1) (q_locks q)\<rparr>)
        else (Inl (OtherError (''deployment operation '' @ op_id o1 @ lost)), q))"

definition mark_terminal ::
  "int \<Rightarrow> operation \<Rightarrow> operation_status \<Rightarrow> string \<Rightarrow> string \<Rightarrow> (queue, go_error, unit) action" where
  "mark_terminal now o1 status message last_error =
    update_leased o1 '' lease was lost before terminal state update''
      (\<lambda>r. r\<lparr>op_status := status, op_message := message, op_last_error := nullable_string last_error,
        op_lease_owner := [], op_lease_until := 0, op_updated_at := db_time now,
        op_completed_at := Some (db_time now), op_version := op_version r + 1\<rparr>)"

definition mark_succeeded :: "int \<Rightarrow> operation \<Rightarrow> (queue, go_error, unit) action" where
  "mark_succeeded now o1 = mark_terminal now o1 OpCompleted msg_op_completed []"

definition mark_failed :: "int \<Rightarrow> operation \<Rightarrow> string \<Rightarrow> (queue, go_error, unit) action" where
  "mark_failed now o1 message = mark_terminal now o1 OpFailed msg_op_failed (trim_space message)"

definition mark_retry :: "int \<Rightarrow> operation \<Rightarrow> string \<Rightarrow> int \<Rightarrow> (queue, go_error, unit) action" where
  "mark_retry now o1 message next =
    (if max_deployment_attempts o1 \<le> op_attempts o1 then mark_failed now o1 message
     else update_leased o1 '' lease was lost before retry state update''
       (\<lambda>r. r\<lparr>op_status := OpRetrying, op_message := msg_op_retrying, op_last_error := trim_space message,
         op_next_attempt_at := db_time next, op_lease_owner := [], op_lease_until := 0,
         op_updated_at := db_time now, op_version := op_version r + 1\<rparr>))"

section \<open>Retries\<close>

text \<open>The loop of deploymentOperationBackoff runs \<open>attempt - 1\<close> times.\<close>

definition minute :: int where "minute = 60000000000"

fun backoff_loop :: "nat \<Rightarrow> int \<Rightarrow> int" where
  "backoff_loop 0 delay = delay"
| "backoff_loop (Suc n) delay =
    (let d = delay * 2 in if 15 * minute \<le> d then 15 * minute else backoff_loop n d)"

definition deployment_backoff :: "int \<Rightarrow> int" where
  "deployment_backoff attempt = (if attempt \<le> 0 then minute else backoff_loop (nat (attempt - 1)) minute)"

definition retryable_error :: "go_error \<Rightarrow> bool" where
  "retryable_error e \<longleftrightarrow>
    (if as_validation e then False
     else (case as_image_validation e of
         Some (code, _) \<Rightarrow> code = ''IMAGE_CHECK_FAILED''
       | None \<Rightarrow> root_cause e \<notin> {ErrInvalidID, ErrNotFound, ErrArchived, ErrChangeRequired, ErrInvalidPolicy,
           ErrProjectNotFound, ErrProjectForbidden}))"

section \<open>Deployment records of operations\<close>

fun status_text :: "operation_status \<Rightarrow> string" where
  "status_text OpQueued = ''Queued''"
| "status_text OpRunning = ''Running''"
| "status_text OpRetrying = ''Retrying''"
| "status_text OpCompleted = ''Completed''"
| "status_text OpFailed = ''Failed''"

fun status_message :: "operation_status \<Rightarrow> string" where
  "status_message OpQueued = msg_queued"
| "status_message OpRunning = msg_op_running"
| "status_message OpRetrying = msg_op_retrying"
| "status_message OpFailed = msg_op_failed"
| "status_message OpCompleted = []"

definition operation_record :: "operation \<Rightarrow> deployment_record" where
  "operation_record o1 =
    (let m = (let a = trim_space (op_message o1) in if a \<noteq> [] then a else trim_space (op_last_error o1))
     in \<lparr>dr_id = op_id o1, dr_application_id = op_application_id o1, dr_project_id = op_project_id o1,
         dr_application_name = op_application_name o1, dr_environment = op_environment o1,
         dr_image = op_desired_image o1, dr_image_tag = op_image_tag o1, dr_strategy = op_strategy o1,
         dr_status = status_text (op_status o1), dr_sync_status = None, dr_rollout_phase = [],
         dr_current_step = None, dr_canary_weight = None, dr_stable_revision = [], dr_canary_revision = [],
         dr_message = (if m = [] then status_message (op_status o1) else m), dr_commit_sha = [],
         dr_created_at = op_created_at o1, dr_updated_at = op_updated_at o1\<rparr>)"

definition list_operation_records :: "string \<Rightarrow> queue \<Rightarrow> deployment_record list" where
  "list_operation_records application_id q =
    map (operation_record \<circ> scan_operation)
      (sort_key (\<lambda>r. - op_created_at r)
        (filter (\<lambda>r. op_application_id r = application_id \<and> op_status r \<noteq> OpCompleted) (q_ops q)))"

definition get_operation_record :: "string \<Rightarrow> string \<Rightarrow> queue \<Rightarrow> (go_error, deployment_record) result" where
  "get_operation_record application_id deployment_id q =
    (case find (\<lambda>r. op_id r = deployment_id \<and> op_application_id r = application_id) (q_ops q) of
       Some r \<Rightarrow> Inr (operation_record (scan_operation r))
     | None \<Rightarrow> Inl ErrDeploymentNotFound)"

text \<open>sort.Slice is not stable: entries with equal times are kept in their order here.\<close>

fun merge_loop :: "string list \<Rightarrow> deployment_record list \<Rightarrow> deployment_record list" where
  "merge_loop seen [] = []"
| "merge_loop seen (d # ds) =
    (if dr_id d \<in> set seen then merge_loop seen ds else d # merge_loop (dr_id d # seen) ds)"

definition merge_deployment_records ::
  "deployment_record list \<Rightarrow> deployment_record list \<Rightarrow> deployment_record list" where
  "merge_deployment_records primary operations =
    (if operations = [] then primary
     else sort_key (\<lambda>d. - dr_created_at d) (primary @ merge_loop (map dr_id primary) operations))"

end
