(* ===== verification/Identity.thy ===== *)
theory Identity
  imports GoEncoding Domain DeployQueue
begin

text \<open>
  Who is asking (core/auth.go, core/auth_mapping.go, core/auth_oidc.go, core/identity.go): users from
  headers, from a bearer token that an OIDC issuer signed, or from the development fallback, and the
  expansion of their groups. Hashes, signatures, the JSON decoder and the HTTP client are parameters; the
  cache of keys is state. Go's maps are lists of pairs with distinct keys, so an iteration over a map is
  one over the list, in whatever order it has.
\<close>

section \<open>Quoted texts\<close>

text \<open>The verb \<open>%q\<close>; every rune outside ASCII counts as printable.\<close>

definition quote_ascii :: "char \<Rightarrow> string" where
  "quote_ascii c =
    (let n = of_char c :: nat in
     if c = CHR 0x22 \<or> c = CHR 0x5C then [CHR 0x5C, c]
     else if n = 7 then CHR 0x5C # ''a'' else if n = 8 then CHR 0x5C # ''b''
     else if n = 12 then CHR 0x5C # ''f'' else if n = 10 then CHR 0x5C # ''n''
     else if n = 13 then CHR 0x5C # ''r'' else if n = 9 then CHR 0x5C # ''t''
     else if n = 11 then CHR 0x5C # ''v''
     else if n < 32 \<or> n = 127 then CHR 0x5C # ''x'' @ [hex_digit (n div 16), hex_digit (n mod 16)]
     else [c])"

function quote_body :: "string \<Rightarrow> string" where
  "quote_body [] = []"
| "quote_body (a # xs) =
    (let k = rune_length (a # xs); n = of_char a :: nat in
     if k = 0 then CHR 0x5C # ''x'' @ [hex_digit (n div 16), hex_digit (n mod 16)] @ quote_body xs
     else if k = 1 then quote_ascii a @ quote_body xs
     else take k (a # xs) @ quote_body (drop (k - 1) xs))"
  by pat_completeness auto
termination by (relation "measure length") auto

definition go_quote :: "string \<Rightarrow> string" where
  "go_quote s = CHR 0x22 # quote_body s @ [CHR 0x22]"

section \<open>Requests\<close>

text \<open>A header name stands for its canonical form; http.Header.Get returns the first value or nothing.\<close>

record http_request =
  rq_method :: string
  rq_path :: string
  rq_headers :: "string \<Rightarrow> string list"

definition header_get :: "http_request \<Rightarrow> string \<Rightarrow> string" where
  "header_get r key = (case rq_headers r key of [] \<Rightarrow> [] | v # _ \<Rightarrow> v)"

definition split_comma_separated :: "string \<Rightarrow> string list" where
  "split_comma_separated raw =
    (if raw = [] then [] else filter (\<lambda>p. p \<noteq> []) (map trim_space (split_on (CHR '','') raw)))"

definition header_user_id :: "http_request \<Rightarrow> string" where
  "header_user_id r = trim_space (header_get r ''X-AODS-User-Id'')"

definition user_from_headers :: "http_request \<Rightarrow> bool \<times> (go_error, user) result" where
  "user_from_headers r =
    (let uid = header_user_id r; name = trim_space (header_get r ''X-AODS-Username'');
         display = trim_space (header_get r ''X-AODS-Display-Name'');
         groups = trim_space (header_get r ''X-AODS-Groups'')
     in (uid \<noteq> [] \<or> name \<noteq> [] \<or> display \<noteq> [] \<or> groups \<noteq> [],
         if uid = [] \<or> name = [] then Inl ErrUnauthorized
         else Inr \<lparr>user_id = uid, user_name = name, user_display = display,
           user_groups = split_comma_separated groups\<rparr>))"

definition bearer_token_from_request :: "http_request \<Rightarrow> string option" where
  "bearer_token_from_request r =
    (case str_cut '' '' (trim_space (header_get r ''Authorization'')) of
       None \<Rightarrow> None
     | Some (scheme, token) \<Rightarrow>
         if \<not> equal_fold (trim_space scheme) ''Bearer'' \<or> trim_space token = [] then None
         else Some (trim_space token))"

definition authorization_header_provided :: "http_request \<Rightarrow> bool" where
  "authorization_header_provided r \<longleftrightarrow> trim_space (header_get r ''Authorization'') \<noteq> []"

definition header_identity_provided :: "http_request \<Rightarrow> bool" where
  "header_identity_provided r \<longleftrightarrow> fst (user_from_headers r)"

section \<open>Groups\<close>

text \<open>One step of the loop: a value that is blank or seen already is skipped.\<close>

definition add_authority :: "string \<Rightarrow> string list \<Rightarrow> string list" where
  "add_authority v items =
    (let t = trim_space v in if t = [] \<or> t \<in> set items then items else items @ [t])"

definition dedupe_authority_strings :: "string list \<Rightarrow> string list" where
  "dedupe_authority_strings vs = fold add_authority vs []"

definition expand_authorities :: "string list \<Rightarrow> (string \<times> string list) list \<Rightarrow> string list" where
  "expand_authorities groups mappings =
    (if groups = [] \<or> mappings = [] then groups
     else fold (\<lambda>g items.
         if trim_space g = [] then items
         else fold add_authority (case map_of mappings (trim_space g) of Some as \<Rightarrow> as | None \<Rightarrow> [])
           (add_authority g items)) groups [])"

text \<open>strings.FieldsFunc with the separators of the source.\<close>

fun fields_on :: "(char \<Rightarrow> bool) \<Rightarrow> string \<Rightarrow> string \<Rightarrow> string list" where
  "fields_on sep acc [] = (if acc = [] then [] else [acc])"
| "fields_on sep acc (c # cs) =
    (if sep c then (if acc = [] then fields_on sep [] cs else acc # fields_on sep [] cs)
     else fields_on sep (acc @ [c]) cs)"

definition mapping_error :: "string \<Rightarrow> string \<Rightarrow> go_error" where
  "mapping_error pair what = OtherError (''invalid authority mapping '' @ go_quote pair @ '': '' @ what)"

fun parse_authority_pairs ::
  "string list \<Rightarrow> (string \<times> string list) list \<Rightarrow> (go_error, (string \<times> string list) list) result" where
  "parse_authority_pairs [] m = Inr m"
| "parse_authority_pairs (pair # pairs) m =
    (let p = trim_space pair in
     if p = [] then parse_authority_pairs pairs m
     else (case str_cut ''='' p of
         None \<Rightarrow> Inl (mapping_error p ''expected source=target'')
       | Some (source, targets_raw) \<Rightarrow>
           let s = trim_space source;
               targets = dedupe_authority_strings (fields_on (\<lambda>c. c = CHR ''|'' \<or> c = CHR '';'') [] targets_raw)
           in if s = [] then Inl (mapping_error p ''source is empty'')
              else if targets = [] then Inl (mapping_error p ''target is empty'')
              else parse_authority_pairs pairs
                (AList.update s (dedupe_authority_strings ((case map_of m s of Some as \<Rightarrow> as | None \<Rightarrow> []) @ targets)) m)))"

definition parse_authority_mappings :: "string \<Rightarrow> (go_error, (string \<times> string list) list) result" where
  "parse_authority_mappings raw =
    (if trim_space raw = [] then Inr [] else parse_authority_pairs (split_on (CHR '','') raw) [])"

section \<open>Unpadded URL base 64\<close>

definition b64url_value :: "char \<Rightarrow> nat option" where
  "b64url_value c = (let n = of_char c :: nat in
     if 65 \<le> n \<and> n < 91 then Some (n - 65) else if 97 \<le> n \<and> n < 123 then Some (n - 71)
     else if 48 \<le> n \<and> n < 58 then Some (n + 4) else if n = 45 then Some 62 else if n = 95 then Some 63 else None)"

fun b64url_groups :: "nat list \<Rightarrow> string option" where
  "b64url_groups [] = Some []"
| "b64url_groups [a] = None"
| "b64url_groups [a, b] = Some [char_of (a * 4 + b div 16)]"
| "b64url_groups [a, b, c] = Some [char_of (a * 4 + b div 16), char_of (b mod 16 * 16 + c div 4)]"
| "b64url_groups (a # b # c # d # rest) =
    (case b64url_groups rest of
       None \<Rightarrow> None
     | Some s \<Rightarrow> Some (char_of (a * 4 + b div 16) # char_of (b mod 16 * 16 + c div 4) # char_of (c mod 4 * 64 + d) # s))"

fun b64url_values :: "string \<Rightarrow> nat list option" where
  "b64url_values [] = Some []"
| "b64url_values (c # cs) =
    (case (b64url_value c, b64url_values cs) of (Some v, Some vs) \<Rightarrow> Some (v # vs) | _ \<Rightarrow> None)"

text \<open>Line breaks in the text are skipped.\<close>

definition b64url_decode :: "string \<Rightarrow> string option" where
  "b64url_decode s =
    (case b64url_values (filter (\<lambda>c. c \<noteq> CHR 0x0A \<and> c \<noteq> CHR 0x0D) s) of
       None \<Rightarrow> None | Some vs \<Rightarrow> b64url_groups vs)"

section \<open>Claims\<close>

datatype json = JNull | JBoolean bool | JNumber f64 | JText string | JArray "json list" | JObject "(string \<times> json) list"

definition object_field :: "(string \<times> json) list \<Rightarrow> string \<Rightarrow> json" where
  "object_field m k = (case map_of m k of Some v \<Rightarrow> v | None \<Rightarrow> JNull)"

fun walk_claim :: "json \<Rightarrow> string list \<Rightarrow> json" where
  "walk_claim v [] = v"
| "walk_claim v (part # parts) =
    (if part = [] then JNull
     else (case v of JObject m \<Rightarrow> walk_claim (object_field m part) parts | _ \<Rightarrow> JNull))"

definition claim_value :: "(string \<times> json) list \<Rightarrow> string \<Rightarrow> json" where
  "claim_value claims path = walk_claim (JObject claims) (split_on (CHR ''.'') (trim_space path))"

fun claim_string :: "json \<Rightarrow> string" where
  "claim_string (JText s) = s"
| "claim_string _ = []"

fun claim_strings :: "json \<Rightarrow> string list" where
  "claim_strings (JArray items) =
    concat (map (\<lambda>i. case i of JText s \<Rightarrow> if trim_space s \<noteq> [] then [trim_space s] else [] | _ \<Rightarrow> []) items)"
| "claim_strings (JText s) = (if trim_space s = [] then [] else [trim_space s])"
| "claim_strings _ = []"

definition qualify_client_roles :: "string \<Rightarrow> string list \<Rightarrow> string list" where
  "qualify_client_roles client_id roles =
    (let c = trim_space client_id in
     if c = [] \<or> roles = [] then []
     else map (\<lambda>r. c @ '':'' @ trim_space r) (filter (\<lambda>r. trim_space r \<noteq> []) roles))"

definition client_groups :: "string \<times> json \<Rightarrow> string list" where
  "client_groups cr =
    (case snd cr of
       JObject entry \<Rightarrow> (let roles = claim_strings (object_field entry ''roles'') in
         roles @ qualify_client_roles (fst cr) roles)
     | _ \<Rightarrow> [])"

fun keep_first :: "string list \<Rightarrow> string list \<Rightarrow> string list" where
  "keep_first items [] = items"
| "keep_first items (g # gs) = keep_first (if g \<in> set items then items else items @ [g]) gs"

definition collect_jwt_groups :: "(string \<times> json) list \<Rightarrow> string \<Rightarrow> string list" where
  "collect_jwt_groups claims groups_claim =
    keep_first [] (claim_strings (claim_value claims groups_claim) @
      claim_strings (claim_value claims ''realm_access.roles'') @
      (case claim_value claims ''resource_access'' of JObject m \<Rightarrow> concat (map client_groups m) | _ \<Rightarrow> []))"

text \<open>int64 of a float64: truncated; what lies outside becomes the least value, as on amd64.\<close>

definition wrap64 :: "int \<Rightarrow> int" where
  "wrap64 i = (i + 2 ^ 63) mod 2 ^ 64 - 2 ^ 63"

fun f64_truncate :: "f64 \<Rightarrow> int option" where
  "f64_truncate (Finite m e) =
    Some (if 0 \<le> e then m * 2 ^ nat e else if 0 \<le> m then m div 2 ^ nat (- e) else - (- m div 2 ^ nat (- e)))"
| "f64_truncate _ = None"

definition f64_int64 :: "f64 \<Rightarrow> int" where
  "f64_int64 x =
    (case f64_truncate x of Some i \<Rightarrow> if - (2 ^ 63) \<le> i \<and> i < 2 ^ 63 then i else - (2 ^ 63) | None \<Rightarrow> - (2 ^ 63))"

definition claim_numeric_date :: "json \<Rightarrow> int option" where
  "claim_numeric_date v = (case v of JNumber x \<Rightarrow> Some (f64_int64 x) | _ \<Rightarrow> None)"

text \<open>time.Unix: the seconds are counted from the year one in an int64.\<close>

definition unix_time :: "int \<Rightarrow> int" where
  "unix_time seconds = wrap64 (seconds + unix_epoch div 1000000000) * 1000000000"

definition claim_time_after :: "json \<Rightarrow> int \<Rightarrow> bool" where
  "claim_time_after v now = (case claim_numeric_date v of None \<Rightarrow> False | Some s \<Rightarrow> now < unix_time s)"

definition claim_time_reached :: "json \<Rightarrow> int \<Rightarrow> bool" where
  "claim_time_reached v now =
    (v = JNull \<or> (case claim_numeric_date v of None \<Rightarrow> False | Some s \<Rightarrow> unix_time s \<le> now))"

definition claim_matches_audience :: "json \<Rightarrow> string \<Rightarrow> bool" where
  "claim_matches_audience v expected =
    (case v of JText s \<Rightarrow> s = expected | JArray items \<Rightarrow> list_ex (\<lambda>i. i = JText expected) items | _ \<Rightarrow> False)"

definition fallback_claim :: "string \<Rightarrow> string \<Rightarrow> string" where
  "fallback_claim value fallback = (if trim_space value = [] then fallback else value)"

section \<open>Keys\<close>

datatype hash_kind = SHA256 | SHA384 | SHA512

datatype public_key = RSAKey int int | ECKey string int int

record json_web_key =
  jk_id :: string
  jk_type :: string
  jk_curve :: string
  jk_n :: string
  jk_e :: string
  jk_x :: string
  jk_y :: string

text \<open>The cryptography, the decoder and the client of the identity provider.\<close>

record identity_tools =
  it_digest :: "hash_kind \<Rightarrow> string \<Rightarrow> string"
  it_pkcs1 :: "int \<times> int \<Rightarrow> hash_kind \<Rightarrow> string \<Rightarrow> string \<Rightarrow> bool"
  it_pss :: "int \<times> int \<Rightarrow> hash_kind \<Rightarrow> string \<Rightarrow> string \<Rightarrow> bool"
  it_ecdsa :: "string \<times> int \<times> int \<Rightarrow> string \<Rightarrow> string \<Rightarrow> bool"
  it_on_curve :: "string \<Rightarrow> int \<Rightarrow> int \<Rightarrow> bool"
  it_header :: "string \<Rightarrow> (string \<times> string) option"
  it_claims :: "string \<Rightarrow> (string \<times> json) list option"
  it_jwks :: "string \<Rightarrow> (string, json_web_key list) result"
  it_discovery :: "string \<Rightarrow> (string, string) result"
  it_get :: "nat \<Rightarrow> string \<Rightarrow> (string, int \<times> string \<times> string) result"
  it_clock :: "nat \<Rightarrow> int"

definition set_bytes :: "string \<Rightarrow> int" where
  "set_bytes s = fold (\<lambda>c n. n * 256 + int (of_char c)) s 0"

definition decode_jwt_big_int :: "string \<Rightarrow> (string, int) result" where
  "decode_jwt_big_int value =
    (case b64url_decode (trim_space value) of
       None \<Rightarrow> Inl ''illegal base64 data''
     | Some raw \<Rightarrow> if set_bytes raw = 0 then Inl ''value is zero'' else Inr (set_bytes raw))"

definition to_upper :: "string \<Rightarrow> string" where
  "to_upper s = map (\<lambda>c. if 0x61 \<le> (of_char c :: nat) \<and> (of_char c :: nat) \<le> 0x7A
     then char_of ((of_char c :: nat) - 32) else c) s"

definition rsa_public_key :: "json_web_key \<Rightarrow> (string, public_key) result" where
  "rsa_public_key k =
    (case decode_jwt_big_int (jk_n k) of
       Inl e \<Rightarrow> Inl (''decode jwk modulus: '' @ e)
     | Inr n \<Rightarrow>
        (case decode_jwt_big_int (jk_e k) of
           Inl e \<Rightarrow> Inl (''decode jwk exponent: '' @ e)
         | Inr x \<Rightarrow> if 2 ^ 63 \<le> x then Inl ''jwk exponent is too large'' else Inr (RSAKey n x)))"

definition named_curve :: "string \<Rightarrow> (string, string) result" where
  "named_curve value =
    (let c = to_upper (trim_space value) in
     if c \<in> {''P-256'', ''P-384'', ''P-521''} then Inr c else Inl (''unsupported jwk curve '' @ go_quote value))"

definition ec_public_key :: "identity_tools \<Rightarrow> json_web_key \<Rightarrow> (string, public_key) result" where
  "ec_public_key it k =
    (case named_curve (jk_curve k) of
       Inl e \<Rightarrow> Inl e
     | Inr c \<Rightarrow>
        (case decode_jwt_big_int (jk_x k) of
           Inl e \<Rightarrow> Inl (''decode jwk x coordinate: '' @ e)
         | Inr x \<Rightarrow>
            (case decode_jwt_big_int (jk_y k) of
               Inl e \<Rightarrow> Inl (''decode jwk y coordinate: '' @ e)
             | Inr y \<Rightarrow>
                 if \<not> it_on_curve it c x y then Inl ''jwk point is not on the declared curve''
                 else Inr (ECKey c x y))))"

definition jwk_public_key :: "identity_tools \<Rightarrow> json_web_key \<Rightarrow> (string, public_key) result" where
  "jwk_public_key it k =
    (let t = to_upper (trim_space (jk_type k)) in
     if t = ''RSA'' then rsa_public_key k
     else if t = ''EC'' then ec_public_key it k
     else Inl (''unsupported jwk kty '' @ go_quote (jk_type k)))"

definition usable_keys :: "identity_tools \<Rightarrow> json_web_key list \<Rightarrow> (string \<times> public_key) list" where
  "usable_keys it items =
    fold (\<lambda>k m. case jwk_public_key it k of Inl _ \<Rightarrow> m | Inr key \<Rightarrow> AList.update (trim_space (jk_id k)) key m) items []"

definition pick_jwk :: "(string \<times> public_key) list \<Rightarrow> string \<Rightarrow> public_key option" where
  "pick_jwk keys key_id =
    (if key_id \<noteq> [] then map_of keys key_id
     else (case keys of [(_, key)] \<Rightarrow> Some key | _ \<Rightarrow> None))"

section \<open>The cache of keys\<close>

record identity_state =
  id_keys :: "(string \<times> public_key) list"
  id_fetched_at :: int
  id_asked :: nat

type_synonym 'a identified = "(identity_state, go_error, 'a) action"

definition ask_identity :: "(nat \<Rightarrow> 'a) \<Rightarrow> 'a identified" where
  "ask_identity f s = (Inr (f (id_asked s)), s\<lparr>id_asked := Suc (id_asked s)\<rparr>)"

record oidc_provider =
  oi_issuer :: string
  oi_audience :: string
  oi_user_id_claim :: string
  oi_username_claim :: string
  oi_display_claim :: string
  oi_groups_claim :: string
  oi_jwks_url :: string
  oi_cache_ttl :: int

definition cache_ttl :: "oidc_provider \<Rightarrow> int" where
  "cache_ttl p = (if oi_cache_ttl p \<le> 0 then 5 * minute else oi_cache_ttl p)"

text \<open>A request and the check of its status; the third part of an answer is the status line.\<close>

definition identity_get :: "identity_tools \<Rightarrow> string \<Rightarrow> string \<Rightarrow> string \<Rightarrow> string identified" where
  "identity_get it url ask_prefix status_prefix =
    bindS (ask_identity (\<lambda>n. it_get it n url)) (\<lambda>answer.
      case answer of
        Inl e \<Rightarrow> failS (OtherError (ask_prefix @ e))
      | Inr (code, body, status) \<Rightarrow>
          if code < 200 \<or> 300 \<le> code then
            failS (OtherError (status_prefix @ '' returned '' @ status @ '': '' @ trim_space (take 4096 body)))
          else returnS body)"

definition fetch_keys :: "identity_tools \<Rightarrow> oidc_provider \<Rightarrow> (string \<times> public_key) list identified" where
  "fetch_keys it p =
    bindS (identity_get it (oi_jwks_url p) ''request jwks: '' ''jwks'') (\<lambda>body.
      case it_jwks it body of
        Inl e \<Rightarrow> failS (OtherError (''decode jwks: '' @ e))
      | Inr items \<Rightarrow>
          if usable_keys it items = [] then failS (OtherError ''jwks did not expose any usable public keys'')
          else returnS (usable_keys it items))"

text \<open>The clock is read only when the first two tests do not decide.\<close>

definition cached_keys :: "identity_tools \<Rightarrow> oidc_provider \<Rightarrow> bool \<Rightarrow> (string \<times> public_key) list option identified" where
  "cached_keys it p force s =
    (if force \<or> id_keys s = [] then (Inr None, s)
     else bindS (ask_identity (it_clock it)) (\<lambda>now.
       returnS (if now - id_fetched_at s < cache_ttl p then Some (id_keys s) else None)) s)"

definition keys_for_verification :: "identity_tools \<Rightarrow> oidc_provider \<Rightarrow> bool \<Rightarrow> (string \<times> public_key) list identified" where
  "keys_for_verification it p force =
    bindS (cached_keys it p force) (\<lambda>first. case first of
      Some keys \<Rightarrow> returnS keys
    | None \<Rightarrow>
        bindS (cached_keys it p force) (\<lambda>second. case second of
          Some keys \<Rightarrow> returnS keys
        | None \<Rightarrow>
            bindS (fetch_keys it p) (\<lambda>keys.
            bindS (ask_identity (it_clock it)) (\<lambda>now.
            bindS (modifyS (\<lambda>s. s\<lparr>id_keys := keys, id_fetched_at := now\<rparr>)) (\<lambda>_. returnS keys)))))"

definition oidc_public_key :: "identity_tools \<Rightarrow> oidc_provider \<Rightarrow> string \<Rightarrow> public_key identified" where
  "oidc_public_key it p key_id =
    bindS (keys_for_verification it p False) (\<lambda>keys. case pick_jwk keys key_id of
      Some key \<Rightarrow> returnS key
    | None \<Rightarrow>
        bindS (keys_for_verification it p True) (\<lambda>keys2. case pick_jwk keys2 key_id of
          Some key \<Rightarrow> returnS key
        | None \<Rightarrow> failS (OtherError (''oidc jwks does not contain key '' @ go_quote key_id))))"

section \<open>Tokens\<close>

record parsed_token =
  pk_input :: string
  pk_algorithm :: string
  pk_key_id :: string
  pk_claims :: "(string \<times> json) list"
  pk_signature :: string

definition parse_jwt :: "identity_tools \<Rightarrow> string \<Rightarrow> parsed_token option" where
  "parse_jwt it token =
    (case split_on (CHR ''.'') token of
       [h, c, g] \<Rightarrow>
        (case (b64url_decode h, b64url_decode c, b64url_decode g) of
           (Some hb, Some cb, Some signature) \<Rightarrow>
            (case (it_header it hb, it_claims it cb) of
               (Some (algorithm, key_id), Some claims) \<Rightarrow>
                 Some \<lparr>pk_input = h @ ''.'' @ c, pk_algorithm = algorithm, pk_key_id = key_id, pk_claims = claims,
                   pk_signature = signature\<rparr>
             | _ \<Rightarrow> None)
         | _ \<Rightarrow> None)
     | _ \<Rightarrow> None)"

definition hash_of_algorithm :: "string \<Rightarrow> hash_kind option" where
  "hash_of_algorithm a =
    (if a \<in> {''RS256'', ''PS256'', ''ES256''} then Some SHA256
     else if a \<in> {''RS384'', ''PS384'', ''ES384''} then Some SHA384
     else if a \<in> {''RS512'', ''PS512'', ''ES512''} then Some SHA512
     else None)"

definition verify_jwt_signature :: "identity_tools \<Rightarrow> string \<Rightarrow> string \<Rightarrow> string \<Rightarrow> public_key \<Rightarrow> bool" where
  "verify_jwt_signature it input signature a key =
    (case hash_of_algorithm a of
       None \<Rightarrow> False
     | Some h \<Rightarrow>
        (let digest = it_digest it h input in
         case key of
           RSAKey n e \<Rightarrow>
             if a \<in> {''RS256'', ''RS384'', ''RS512''} then it_pkcs1 it (n, e) h digest signature
             else if a \<in> {''PS256'', ''PS384'', ''PS512''} then it_pss it (n, e) h digest signature
             else False
         | ECKey c x y \<Rightarrow>
             if a \<in> {''ES256'', ''ES384'', ''ES512''} then it_ecdsa it (c, x, y) digest signature else False))"

definition validate_claims :: "oidc_provider \<Rightarrow> (string \<times> json) list \<Rightarrow> int \<Rightarrow> bool" where
  "validate_claims p claims now \<longleftrightarrow>
    (let issuer = trim_space (claim_string (claim_value claims ''iss'')); audience = trim_space (oi_audience p) in
     issuer \<noteq> [] \<and> issuer = trim_space (oi_issuer p) \<and>
     claim_time_after (claim_value claims ''exp'') now \<and> claim_time_reached (claim_value claims ''nbf'') now \<and>
     (audience = [] \<or> claim_matches_audience (claim_value claims ''aud'') audience))"

definition verify_token :: "identity_tools \<Rightarrow> oidc_provider \<Rightarrow> string \<Rightarrow> (string \<times> json) list identified" where
  "verify_token it p token =
    (case parse_jwt it token of
       None \<Rightarrow> failS ErrUnauthorized
     | Some k \<Rightarrow>
        if trim_space (pk_algorithm k) = [] \<or> equal_fold (pk_algorithm k) ''none'' then failS ErrUnauthorized
        else
          bindS (\<lambda>s. case oidc_public_key it p (pk_key_id k) s of
              (Inl e, t) \<Rightarrow> (Inl (Wrapped ''fetch oidc jwks'' e), t) | (Inr key, t) \<Rightarrow> (Inr key, t)) (\<lambda>key.
          if \<not> verify_jwt_signature it (pk_input k) (pk_signature k) (pk_algorithm k) key then failS ErrUnauthorized
          else
            bindS (ask_identity (it_clock it)) (\<lambda>now.
              if \<not> validate_claims p (pk_claims k) now then failS ErrUnauthorized else returnS (pk_claims k))))"

text \<open>The names in the claims; the user name stands in for a missing display name.\<close>

definition claim_text :: "(string \<times> json) list \<Rightarrow> string \<Rightarrow> string \<Rightarrow> string" where
  "claim_text claims path fallback = trim_space (claim_string (claim_value claims (fallback_claim path fallback)))"

definition user_of_claims :: "oidc_provider \<Rightarrow> (string \<times> json) list \<Rightarrow> (go_error, user) result" where
  "user_of_claims p claims =
    (let uid = claim_text claims (oi_user_id_claim p) ''sub'';
         name = claim_text claims (oi_username_claim p) ''preferred_username'';
         display = claim_text claims (oi_display_claim p) ''name''
     in if uid = [] \<or> name = [] then Inl ErrUnauthorized
        else Inr \<lparr>user_id = uid, user_name = name, user_display = (if display = [] then name else display),
          user_groups = collect_jwt_groups claims (fallback_claim (oi_groups_claim p) ''groups'')\<rparr>)"

definition oidc_current_user :: "identity_tools \<Rightarrow> oidc_provider \<Rightarrow> http_request \<Rightarrow> user identified" where
  "oidc_current_user it p r =
    (case bearer_token_from_request r of
       None \<Rightarrow> failS ErrUnauthorized
     | Some token \<Rightarrow> bindS (verify_token it p token) (\<lambda>claims. liftR (user_of_claims p claims)))"

section \<open>Providers\<close>

datatype user_provider =
    HeaderProvider bool user
  | OIDCProvider oidc_provider
  | CompositeProvider "user_provider option" bool user
  | ErrorProvider "go_error option"
  | MappingProvider user_provider "(string \<times> string list) list"

text \<open>DevFallbackUserProvider.\<close>

definition dev_fallback_user :: "bool \<Rightarrow> user \<Rightarrow> http_request \<Rightarrow> (go_error, user) result" where
  "dev_fallback_user allow dev r =
    (if authorization_header_provided r \<or> header_identity_provided r then Inl ErrUnauthorized
     else if allow then Inr dev else Inl ErrUnauthorized)"

definition header_current_user :: "bool \<Rightarrow> user \<Rightarrow> http_request \<Rightarrow> (go_error, user) result" where
  "header_current_user allow dev r =
    (case user_from_headers r of
       (explicit, Inr u) \<Rightarrow> Inr u
     | (explicit, Inl e) \<Rightarrow>
         if errors_is e ErrUnauthorized \<and> \<not> explicit \<and> allow then Inr dev else Inl e)"

fun current_user :: "identity_tools \<Rightarrow> user_provider \<Rightarrow> http_request \<Rightarrow> user identified" where
  "current_user it (HeaderProvider allow dev) r = liftR (header_current_user allow dev r)"
| "current_user it (OIDCProvider p) r = oidc_current_user it p r"
| "current_user it (CompositeProvider primary allow dev) r =
    (if authorization_header_provided r then
       (case primary of None \<Rightarrow> failS ErrUnauthorized | Some q \<Rightarrow> current_user it q r)
     else liftR (dev_fallback_user allow dev r))"
| "current_user it (ErrorProvider e) r = failS (case e of None \<Rightarrow> ErrUnauthorized | Some x \<Rightarrow> x)"
| "current_user it (MappingProvider base mappings) r =
    bindS (current_user it base r) (\<lambda>u. returnS (u\<lparr>user_groups := expand_authorities (user_groups u) mappings\<rparr>))"

end
