(* ===== verification/PollTracker.thy ===== *)
theory PollTracker
  imports AppModel
begin

text \<open>
  The repository poll tracker (application/poll_tracker.go): when the repository of an application
  was last read, with which result, and when it is due again. The tracker is a map from application
  identifiers; its mutex makes every operation one atomic step. The lemmas connect the answer of Due
  with the next time that a snapshot shows, for marks that carry any records.
\<close>

section \<open>State\<close>

datatype poll_result = PollPending | PollSuccess | PollError

record poll_status =
  po_enabled :: bool
  po_interval_seconds :: int
  po_last_checked :: "int option"
  po_last_succeeded :: "int option"
  po_next_scheduled :: "int option"
  po_last_result :: "poll_result option"
  po_last_error :: string
  po_source :: string

record poll_tracker =
  pt_interval :: int
  pt_started_at :: int
  pt_next_cycle :: int
  pt_items :: "string \<rightharpoonup> poll_status"

text \<open>The zero value of the struct.\<close>

definition zero_poll_status :: poll_status where
  "zero_poll_status = \<lparr>po_enabled = False, po_interval_seconds = 0, po_last_checked = None,
    po_last_succeeded = None, po_next_scheduled = None, po_last_result = None, po_last_error = [],
    po_source = []\<rparr>"

definition second :: int where "second = 1000000000"

definition five_minutes :: int where "five_minutes = 300 * second"

definition new_tracker :: "int \<Rightarrow> int \<Rightarrow> poll_tracker" where
  "new_tracker now interval =
    (let i = (if interval \<le> 0 then five_minutes else interval)
     in \<lparr>pt_interval = i, pt_started_at = now, pt_next_cycle = now + i, pt_items = Map.empty\<rparr>)"

section \<open>Intervals and sources\<close>

definition poll_interval_for_app :: "app_record \<Rightarrow> int \<Rightarrow> int" where
  "poll_interval_for_app app fallback =
    (let n = normalize_poll_interval (ar_poll_interval app) in
     if 0 < n then n * second else if fallback \<le> 0 then five_minutes else fallback)"

definition seconds_of :: "int \<Rightarrow> int" where
  "seconds_of d = d div second"

definition poll_source :: "repository \<Rightarrow> app_record \<Rightarrow> string" where
  "poll_source r app =
    (if trim_space (repo_config_file r) \<noteq> [] then trim_space (repo_config_file r)
     else if trim_space (ar_config_path app) \<noteq> [] then trim_space (ar_config_path app)
     else default_repository_config_path)"

definition zero_repository :: repository where
  "zero_repository = \<lparr>repo_id = [], repo_name = [], repo_url = [], repo_description = [], repo_branch = [],
    repo_auth_path = [], repo_config_file = []\<rparr>"

definition time_pointer :: "int \<Rightarrow> int option" where
  "time_pointer t = (if t = 0 then None else Some t)"

section \<open>Operations\<close>

definition begin_cycle :: "int \<Rightarrow> poll_tracker \<Rightarrow> poll_tracker" where
  "begin_cycle now t = t\<lparr>pt_next_cycle := now + pt_interval t\<rparr>"

definition current_status :: "app_record \<Rightarrow> poll_tracker \<Rightarrow> poll_status" where
  "current_status app t = (case pt_items t (ar_id app) of Some p \<Rightarrow> p | None \<Rightarrow> zero_poll_status)"

definition mark_attempt :: "app_record \<Rightarrow> repository \<Rightarrow> int \<Rightarrow> poll_tracker \<Rightarrow> poll_tracker" where
  "mark_attempt app r checked_at t =
    (if \<not> app_has_repository_source app then t
     else
       let interval = poll_interval_for_app app (pt_interval t)
       in t\<lparr>pt_items := (pt_items t)(ar_id app \<mapsto> (current_status app t)\<lparr>
            po_enabled := True, po_interval_seconds := seconds_of interval,
            po_last_checked := time_pointer checked_at, po_next_scheduled := time_pointer (checked_at + interval),
            po_last_result := Some PollPending, po_last_error := [], po_source := poll_source r app\<rparr>)\<rparr>)"

definition mark_success :: "app_record \<Rightarrow> repository \<Rightarrow> int \<Rightarrow> poll_tracker \<Rightarrow> poll_tracker" where
  "mark_success app r checked_at t =
    (if \<not> app_has_repository_source app then t
     else
       let interval = poll_interval_for_app app (pt_interval t)
       in t\<lparr>pt_items := (pt_items t)(ar_id app \<mapsto> (current_status app t)\<lparr>
            po_enabled := True, po_interval_seconds := seconds_of interval,
            po_last_checked := time_pointer checked_at, po_last_succeeded := time_pointer checked_at,
            po_next_scheduled := time_pointer (checked_at + interval),
            po_last_result := Some PollSuccess, po_last_error := [], po_source := poll_source r app\<rparr>)\<rparr>)"

definition mark_failure :: "app_record \<Rightarrow> repository \<Rightarrow> int \<Rightarrow> string option \<Rightarrow> poll_tracker \<Rightarrow> poll_tracker" where
  "mark_failure app r checked_at err t =
    (if \<not> app_has_repository_source app then t
     else
       let interval = poll_interval_for_app app (pt_interval t); current = current_status app t
       in t\<lparr>pt_items := (pt_items t)(ar_id app \<mapsto> current\<lparr>
            po_enabled := True, po_interval_seconds := seconds_of interval,
            po_last_checked := time_pointer checked_at, po_next_scheduled := time_pointer (checked_at + interval),
            po_last_result := Some PollError,
            po_last_error := (case err of Some e \<Rightarrow> e | None \<Rightarrow> po_last_error current),
            po_source := poll_source r app\<rparr>)\<rparr>)"

definition reschedule :: "app_record \<Rightarrow> int \<Rightarrow> poll_tracker \<Rightarrow> poll_tracker" where
  "reschedule app scheduled_from t =
    (if \<not> app_has_repository_source app then t
     else
       let interval = poll_interval_for_app app (pt_interval t); current = current_status app t
       in t\<lparr>pt_items := (pt_items t)(ar_id app \<mapsto> current\<lparr>
            po_enabled := True, po_interval_seconds := seconds_of interval,
            po_next_scheduled := time_pointer (scheduled_from + interval),
            po_source := (if po_source current = [] then poll_source zero_repository app else po_source current)\<rparr>)\<rparr>)"

definition poll_due :: "app_record \<Rightarrow> int \<Rightarrow> poll_tracker \<Rightarrow> bool" where
  "poll_due app now t \<longleftrightarrow>
    app_has_repository_source app \<and>
    (let interval = poll_interval_for_app app (pt_interval t);
         start = (case pt_items t (ar_id app) of
             None \<Rightarrow> pt_started_at t
           | Some p \<Rightarrow> (case po_last_checked p of
               None \<Rightarrow> pt_started_at t
             | Some c \<Rightarrow> if c = 0 then pt_started_at t else c))
     in \<not> now < start + interval)"

definition poll_snapshot :: "app_record \<Rightarrow> poll_tracker \<Rightarrow> poll_status option" where
  "poll_snapshot app t =
    (if \<not> app_has_repository_source app then None
     else (case pt_items t (ar_id app) of
         Some p \<Rightarrow> Some (p\<lparr>
           po_interval_seconds := (if po_interval_seconds p = 0
             then seconds_of (poll_interval_for_app app (pt_interval t)) else po_interval_seconds p),
           po_source := (if po_source p = [] then poll_source zero_repository app else po_source p)\<rparr>)
       | None \<Rightarrow>
           let interval = poll_interval_for_app app (pt_interval t)
           in Some \<lparr>po_enabled = True, po_interval_seconds = seconds_of interval, po_last_checked = None,
             po_last_succeeded = None, po_next_scheduled = time_pointer (pt_started_at t + interval),
             po_last_result = Some PollPending, po_last_error = [],
             po_source = poll_source zero_repository app\<rparr>))"

definition default_interval :: "poll_tracker option \<Rightarrow> int" where
  "default_interval t =
    (case t of None \<Rightarrow> five_minutes
     | Some x \<Rightarrow> if pt_interval x \<le> 0 then five_minutes else pt_interval x)"

section \<open>Lemmas\<close>

lemma interval_pos: "0 < poll_interval_for_app app fallback"
  by (simp add: poll_interval_for_app_def Let_def second_def five_minutes_def)

text \<open>A mark of the poller: each carries the record that the poller has at that point.\<close>

datatype poll_mark =
  Attempted app_record repository int
| Succeeded app_record repository int
| Failed app_record repository int "string option"

fun apply_mark :: "poll_mark \<Rightarrow> poll_tracker \<Rightarrow> poll_tracker" where
  "apply_mark (Attempted a r at) t = mark_attempt a r at t"
| "apply_mark (Succeeded a r at) t = mark_success a r at t"
| "apply_mark (Failed a r at err) t = mark_failure a r at err t"

fun marked_record :: "poll_mark \<Rightarrow> app_record" where
  "marked_record (Attempted a r at) = a"
| "marked_record (Succeeded a r at) = a"
| "marked_record (Failed a r at err) = a"

fun marked_time :: "poll_mark \<Rightarrow> int" where
  "marked_time (Attempted a r at) = at"
| "marked_time (Succeeded a r at) = at"
| "marked_time (Failed a r at err) = at"

fun marked_result :: "poll_mark \<Rightarrow> poll_result" where
  "marked_result (Attempted a r at) = PollPending"
| "marked_result (Succeeded a r at) = PollSuccess"
| "marked_result (Failed a r at err) = PollError"

text \<open>The marks that reach the item of an application: its identifier, and a repository source.\<close>

definition marks_for :: "string \<Rightarrow> poll_mark list \<Rightarrow> poll_mark list" where
  "marks_for aid ms =
    filter (\<lambda>m. ar_id (marked_record m) = aid \<and> app_has_repository_source (marked_record m)) ms"

lemma marks_for_simps [simp]:
  "marks_for aid [] = []"
  "marks_for aid (ms @ [m]) = marks_for aid ms @
    (if ar_id (marked_record m) = aid \<and> app_has_repository_source (marked_record m) then [m] else [])"
  by (simp_all add: marks_for_def)

lemma apply_mark_fixed [simp]:
  "pt_interval (apply_mark m t) = pt_interval t" "pt_started_at (apply_mark m t) = pt_started_at t"
  by (cases m; simp add: mark_attempt_def mark_success_def mark_failure_def Let_def)+

lemma fold_marks_fixed [simp]:
  "pt_interval (fold apply_mark ms t) = pt_interval t" "pt_started_at (fold apply_mark ms t) = pt_started_at t"
  by (induction ms arbitrary: t) simp_all

text \<open>What an item shows of the mark that wrote it.\<close>

definition item_of_mark :: "int \<Rightarrow> poll_mark \<Rightarrow> poll_status \<Rightarrow> bool" where
  "item_of_mark interval m p \<longleftrightarrow> po_last_checked p = Some (marked_time m) \<and>
    po_next_scheduled p = Some (marked_time m + poll_interval_for_app (marked_record m) interval) \<and>
    po_last_result p = Some (marked_result m)"

lemma apply_mark_item:
  assumes "0 < marked_time m"
  shows "if ar_id (marked_record m) = aid \<and> app_has_repository_source (marked_record m)
    then \<exists>p. pt_items (apply_mark m t) aid = Some p \<and> item_of_mark (pt_interval t) m p
    else pt_items (apply_mark m t) aid = pt_items t aid"
  using assms interval_pos [of "marked_record m" "pt_interval t"]
  by (cases m) (auto simp: item_of_mark_def mark_attempt_def mark_success_def mark_failure_def time_pointer_def Let_def)

lemma marks_item:
  assumes "\<forall>m \<in> set ms. 0 < marked_time m"
  shows "if marks_for aid ms = [] then pt_items (fold apply_mark ms t) aid = pt_items t aid
    else \<exists>p. pt_items (fold apply_mark ms t) aid = Some p \<and> item_of_mark (pt_interval t) (last (marks_for aid ms)) p"
  using assms
proof (induction ms rule: rev_induct)
  case (snoc m ms)
  then have "0 < marked_time m" by simp
  from apply_mark_item [OF this, of aid "fold apply_mark ms t"] snoc show ?case by (auto split: if_splits)
qed simp

text \<open>
  Reschedule shows a next time that Due does not follow: with a shorter interval the application is
  due again as soon as the interval has passed since the last read, not since the change.
\<close>

lemma reschedule_not_followed:
  assumes "app_has_repository_source app" and "pt_items t (ar_id app) = Some p" and "po_last_checked p = Some c"
    and "0 < c" and "c + poll_interval_for_app app (pt_interval t) \<le> now" and "0 < now"
  shows "poll_due app now (reschedule app now t) \<and>
    map_option po_next_scheduled (poll_snapshot app (reschedule app now t)) =
      Some (Some (now + poll_interval_for_app app (pt_interval t)))"
  using assms interval_pos [of app "pt_interval t"]
  by (simp add: poll_due_def reschedule_def poll_snapshot_def current_status_def time_pointer_def Let_def)

section \<open>Properties\<close>

text \<open>
  C17: marks alone, of any records, in any order and for any applications, on a new tracker. The
  snapshot of an application announces the time and the outcome of the last mark of its identifier and,
  as the next read, that time plus the interval of the record that was marked; Due adds the interval of
  the record it is asked about. So the application is due exactly from the announced time on unless its
  interval changed since the mark. Before the first mark both count from the start of the tracker.
\<close>

theorem due_as_announced:
  assumes "app_has_repository_source app" and "0 < start" and "\<forall>m \<in> set ms. 0 < marked_time m"
    and "t0 = new_tracker start interval" and "t = fold apply_mark ms t0"
  shows "(case marks_for (ar_id app) ms of
      [] \<Rightarrow> map_option (\<lambda>p. (po_last_checked p, po_last_result p, po_next_scheduled p)) (poll_snapshot app t) =
          Some (None, Some PollPending, Some (start + poll_interval_for_app app (pt_interval t0))) \<and>
        (\<forall>now. poll_due app now t \<longleftrightarrow> start + poll_interval_for_app app (pt_interval t0) \<le> now)
    | m # rest \<Rightarrow> (let l = last (m # rest) in
        map_option (\<lambda>p. (po_last_checked p, po_last_result p, po_next_scheduled p)) (poll_snapshot app t) =
          Some (Some (marked_time l), Some (marked_result l),
            Some (marked_time l + poll_interval_for_app (marked_record l) (pt_interval t0))) \<and>
        (\<forall>now. poll_due app now t \<longleftrightarrow> marked_time l + poll_interval_for_app app (pt_interval t0) \<le> now))) \<and>
    (marks_for (ar_id app) ms = [] \<or>
      ar_poll_interval (marked_record (last (marks_for (ar_id app) ms))) = ar_poll_interval app \<longrightarrow>
      (\<exists>announced. map_option po_next_scheduled (poll_snapshot app t) = Some (Some announced) \<and>
        (\<forall>now. poll_due app now t \<longleftrightarrow> announced \<le> now)))"
proof (cases "marks_for (ar_id app) ms")
  case Nil
  with marks_item [OF assms(3), of "ar_id app" t0] assms(4,5) have "pt_items t (ar_id app) = None"
    by (simp add: new_tracker_def Let_def)
  moreover have "pt_started_at t = start" "pt_interval t = pt_interval t0"
    using assms(4,5) by (simp_all add: new_tracker_def Let_def)
  ultimately show ?thesis
    using assms(1,2) interval_pos [of app "pt_interval t0"] unfolding Nil
    by (auto simp: poll_snapshot_def poll_due_def time_pointer_def Let_def)
next
  case (Cons m rest)
  define l where "l = last (m # rest)"
  have pos: "0 < marked_time l"
    using assms(3) last_in_set [of "m # rest"] Cons unfolding l_def marks_for_def by (metis filter_is_subset list.distinct(1) subsetD)
  from marks_item [OF assms(3), of "ar_id app" t0] Cons assms(5) obtain p where
    p: "pt_items t (ar_id app) = Some p" "item_of_mark (pt_interval t0) l p" by (auto simp: l_def)
  have i: "pt_interval t = pt_interval t0" using assms(5) by simp
  have s: "map_option (\<lambda>p. (po_last_checked p, po_last_result p, po_next_scheduled p)) (poll_snapshot app t) =
      Some (Some (marked_time l), Some (marked_result l),
        Some (marked_time l + poll_interval_for_app (marked_record l) (pt_interval t0)))"
    using assms(1) p by (simp add: poll_snapshot_def item_of_mark_def)
  then have s': "map_option po_next_scheduled (poll_snapshot app t) =
      Some (Some (marked_time l + poll_interval_for_app (marked_record l) (pt_interval t0)))" by auto
  have d: "poll_due app now t \<longleftrightarrow> marked_time l + poll_interval_for_app app (pt_interval t0) \<le> now" for now
    using assms(1) p pos by (auto simp: poll_due_def item_of_mark_def i Let_def)
  have "\<exists>announced. map_option po_next_scheduled (poll_snapshot app t) = Some (Some announced) \<and>
      (\<forall>now. poll_due app now t \<longleftrightarrow> announced \<le> now)"
    if "ar_poll_interval (marked_record l) = ar_poll_interval app"
  proof -
    from that have "poll_interval_for_app (marked_record l) x = poll_interval_for_app app x" for x
      by (simp add: poll_interval_for_app_def)
    with s' have "map_option po_next_scheduled (poll_snapshot app t) =
        Some (Some (marked_time l + poll_interval_for_app app (pt_interval t0)))" by simp
    with d show ?thesis by blast
  qed
  with s d show ?thesis unfolding Cons list.case Let_def l_def [symmetric] by (intro conjI impI) (simp_all only: list.distinct simp_thms)
qed

definition demo_polled_app :: app_record where
  "demo_polled_app = \<lparr>ar_id = ''shop__web'', ar_project_id = ''shop'', ar_namespace = ''shop'', ar_name = ''web'',
    ar_description = [], ar_image = ''repo/web:v1'', ar_service_port = 80, ar_replicas = 1, ar_required_probes = True,
    ar_strategy = ''Rollout'', ar_environment = ''dev'', ar_created_at = 1, ar_updated_at = 1, ar_secret_path = [],
    ar_repository_id = [], ar_repository_url = ''https://github.com/acme/web'', ar_repository_branch = [],
    ar_repository_service_id = [], ar_config_path = [], ar_repository_token_path = [], ar_registry_secret_path = [],
    ar_poll_interval = 60, ar_resources = default_resource_requirements, ar_mesh = False, ar_load_balancer = False\<rparr>"

text \<open>Reading the repository changed the interval of the application from one minute to five.\<close>

definition demo_marks :: "poll_mark list" where
  "demo_marks =
    [Attempted demo_polled_app zero_repository 5,
     Failed (demo_polled_app\<lparr>ar_id := ''shop__api''\<rparr>) zero_repository 6 None,
     Succeeded (demo_polled_app\<lparr>ar_poll_interval := 300\<rparr>) zero_repository 7]"

theorem due_as_announced_witness:
  "map_option po_next_scheduled (poll_snapshot demo_polled_app (fold apply_mark demo_marks (new_tracker 1 0))) =
     Some (Some 300000000007) \<and>
   poll_due demo_polled_app 60000000007 (fold apply_mark demo_marks (new_tracker 1 0)) \<and>
   \<not> poll_due demo_polled_app 60000000006 (fold apply_mark demo_marks (new_tracker 1 0))"
proof -
  have src: "app_has_repository_source demo_polled_app" by code_simp
  then have src2: "app_has_repository_source (demo_polled_app\<lparr>ar_poll_interval := 300\<rparr>)"
    by (simp add: app_has_repository_source_def)
  have marks: "marks_for (ar_id demo_polled_app) demo_marks =
    [Attempted demo_polled_app zero_repository 5, Succeeded (demo_polled_app\<lparr>ar_poll_interval := 300\<rparr>) zero_repository 7]"
    by (simp add: marks_for_def demo_marks_def src src2) (simp add: demo_polled_app_def)
  have times: "\<forall>m \<in> set demo_marks. 0 < marked_time m" by (simp add: demo_marks_def)
  have i: "poll_interval_for_app demo_polled_app x = 60000000000"
    "poll_interval_for_app (demo_polled_app\<lparr>ar_poll_interval := 300\<rparr>) x = 300000000000" for x
    by (simp_all add: poll_interval_for_app_def demo_polled_app_def normalize_poll_interval_def allowed_poll_intervals_def second_def Let_def)
  from due_as_announced [OF src _ times refl refl, of 1 0] show ?thesis
    unfolding marks by (auto simp: Let_def i)
qed

end
