(* ===== verification/GoNumbers.thy ===== *)
theory GoNumbers
  imports Identity PollTracker
begin

text \<open>
  Standard-library parsing the configuration relies on: rounding to double precision, time.ParseDuration
  with its overflow tests on 64-bit values, strconv.ParseBool, the errors of strconv.Atoi, and the path
  functions of path/filepath on a slash-separated system.
\<close>

section \<open>Double precision\<close>

text \<open>
  A positive rational number as a numerator and a denominator, rounded to the nearest value with a
  53-bit significand, ties to even. The numbers met here are far from the limits of the exponent.
\<close>

fun bit_count :: "nat \<Rightarrow> nat" where
  "bit_count n = (if n = 0 then 0 else Suc (bit_count (n div 2)))"

definition half_even :: "nat \<Rightarrow> nat \<Rightarrow> nat" where
  "half_even n d =
    (let q = n div d; r = n mod d in
     if 2 * r < d then q else if d < 2 * r then q + 1 else if even q then q else q + 1)"

definition scaled :: "int \<Rightarrow> nat \<times> nat \<Rightarrow> nat \<times> nat" where
  "scaled e p = (if 0 \<le> e then (fst p * 2 ^ nat e, snd p) else (fst p, snd p * 2 ^ nat (- e)))"

definition round_double :: "nat \<times> nat \<Rightarrow> nat \<times> nat" where
  "round_double p =
    (if fst p = 0 then (0, 1)
     else
       let e = int (bit_count (fst p)) - int (bit_count (snd p)) - 53;
           s = scaled (- e) p;
           e' = (if fst s < 2 ^ 53 * snd s then e else e + 1);
           s' = scaled (- e') p
       in scaled e' (half_even (fst s') (snd s'), 1))"

text \<open>The value of \<open>uint64(float64(f) * (float64(unit) / scale))\<close>; scale is a power of ten a double holds exactly.\<close>

definition fraction_part :: "nat \<Rightarrow> nat \<Rightarrow> nat \<Rightarrow> nat" where
  "fraction_part f scale unit =
    (let a = round_double (unit, scale); b = round_double (f, 1);
         c = round_double (fst a * fst b, snd a * snd b)
     in fst c div snd c)"

section \<open>Durations\<close>

definition is_digit :: "char \<Rightarrow> bool" where
  "is_digit c \<longleftrightarrow> digit_value c \<noteq> None"

definition digit_nat :: "char \<Rightarrow> nat" where
  "digit_nat c = (case digit_value c of None \<Rightarrow> 0 | Some d \<Rightarrow> nat d)"

text \<open>leadingInt: the number, or nothing once it is above \<open>1<<63\<close>, and the rest.\<close>

fun leading_int :: "nat \<Rightarrow> string \<Rightarrow> (nat \<times> string) option" where
  "leading_int x [] = Some (x, [])"
| "leading_int x (c # cs) =
    (if \<not> is_digit c then Some (x, c # cs)
     else if 2 ^ 63 div 10 < x then None
     else if 2 ^ 63 < x * 10 + digit_nat c then None
     else leading_int (x * 10 + digit_nat c) cs)"

text \<open>leadingFraction: digits past the capacity are dropped; the value, the scale and the rest.\<close>

fun leading_fraction :: "bool \<Rightarrow> nat \<Rightarrow> nat \<Rightarrow> string \<Rightarrow> nat \<times> nat \<times> string" where
  "leading_fraction over x scale [] = (x, scale, [])"
| "leading_fraction over x scale (c # cs) =
    (if \<not> is_digit c then (x, scale, c # cs)
     else if over then leading_fraction over x scale cs
     else if (2 ^ 63 - 1) div 10 < x then leading_fraction True x scale cs
     else if 2 ^ 63 < x * 10 + digit_nat c then leading_fraction True x scale cs
     else leading_fraction False (x * 10 + digit_nat c) (scale * 10) cs)"

text \<open>The map of units; the two spellings of the micro sign are their UTF-8 bytes.\<close>

definition unit_map :: "(string \<times> nat) list" where
  "unit_map = [(''ns'', 1), (''us'', 1000), ([CHR 0xC2, CHR 0xB5, CHR ''s''], 1000),
    ([CHR 0xCE, CHR 0xBC, CHR ''s''], 1000), (''ms'', 1000000), (''s'', 1000000000),
    (''m'', 60000000000), (''h'', 3600000000000)]"

text \<open>The quoting of package time: bytes outside printable ASCII in hexadecimal.\<close>

definition time_quote :: "string \<Rightarrow> string" where
  "time_quote s = CHR 0x22 # concat (map (\<lambda>c. let n = of_char c :: nat in
     if n < 32 \<or> 128 \<le> n then CHR 0x5C # ''x'' @ [hex_digit (n div 16), hex_digit (n mod 16)]
     else if c = CHR 0x22 \<or> c = CHR 0x5C then [CHR 0x5C, c] else [c]) s) @ [CHR 0x22]"

definition invalid_duration :: "string \<Rightarrow> (string, 'a) result" where
  "invalid_duration orig = Inl (''time: invalid duration '' @ time_quote orig)"

definition unit_byte :: "char \<Rightarrow> bool" where
  "unit_byte c \<longleftrightarrow> c \<noteq> CHR ''.'' \<and> \<not> is_digit c"

text \<open>One number with its unit: the nanoseconds and the rest, or the error.\<close>

definition duration_part :: "string \<Rightarrow> string \<Rightarrow> (string, nat \<times> string) result" where
  "duration_part orig s =
    (if s = [] \<or> (hd s \<noteq> CHR ''.'' \<and> \<not> is_digit (hd s)) then invalid_duration orig
     else case leading_int 0 s of
       None \<Rightarrow> invalid_duration orig
     | Some (v, r) \<Rightarrow>
         let pre = length s \<noteq> length r;
             point = r \<noteq> [] \<and> hd r = CHR ''.'';
             fr = (if point then leading_fraction False 0 1 (tl r) else (0, 1, r));
             post = point \<and> length (tl r) \<noteq> length (snd (snd fr));
             u = takeWhile unit_byte (snd (snd fr));
             rest = dropWhile unit_byte (snd (snd fr))
         in if \<not> pre \<and> \<not> post then invalid_duration orig
            else if u = [] then Inl (''time: missing unit in duration '' @ time_quote orig)
            else case map_of unit_map u of
              None \<Rightarrow> Inl (''time: unknown unit '' @ time_quote u @ '' in duration '' @ time_quote orig)
            | Some factor \<Rightarrow>
                if 2 ^ 63 div factor < v then invalid_duration orig
                else
                  let w = v * factor + (if 0 < fst fr then fraction_part (fst fr) (fst (snd fr)) factor else 0)
                  in if 0 < fst fr \<and> 2 ^ 63 < w then invalid_duration orig else Inr (w, rest))"

lemma leading_int_length: "leading_int x s = Some (v, r) \<Longrightarrow> length r \<le> length s"
  by (induction x s rule: leading_int.induct) (auto split: if_splits)

lemma leading_fraction_length: "length (snd (snd (leading_fraction ov x sc s))) \<le> length s"
  by (induction ov x sc s rule: leading_fraction.induct) (auto intro: le_SucI)

lemma takeWhile_shorter: "takeWhile P s \<noteq> [] \<Longrightarrow> length (dropWhile P s) < length s"
  by (cases s) (auto simp: less_Suc_eq_le length_dropWhile_le split: if_splits)

lemma duration_part_rest:
  assumes "duration_part orig s = Inr (w, rest)"
  shows "length rest < length s"
proof -
  obtain v r where r: "leading_int 0 s = Some (v, r)"
    using assms by (auto simp: duration_part_def invalid_duration_def split: if_splits option.splits)
  define fr where "fr = (if r \<noteq> [] \<and> hd r = CHR ''.'' then leading_fraction False 0 1 (tl r) else (0, 1, r))"
  have "length (snd (snd fr)) \<le> length r"
    using leading_fraction_length [of False 0 1 "tl r"] by (auto simp: fr_def)
  moreover have "takeWhile unit_byte (snd (snd fr)) \<noteq> [] \<and> rest = dropWhile unit_byte (snd (snd fr))"
    using assms r by (auto simp: duration_part_def invalid_duration_def Let_def fr_def
        split: if_splits option.splits)
  ultimately show ?thesis
    using leading_int_length [OF r] takeWhile_shorter [of unit_byte "snd (snd fr)"] by simp
qed

function duration_parts :: "string \<Rightarrow> nat \<Rightarrow> string \<Rightarrow> (string, nat) result" where
  "duration_parts orig d s =
    (if s = [] then Inr d
     else case duration_part orig s of
       Inl e \<Rightarrow> Inl e
     | Inr part \<Rightarrow> if 2 ^ 63 < d + fst part then invalid_duration orig
         else duration_parts orig (d + fst part) (snd part))"
  by pat_completeness auto
termination
  by (relation "measure (\<lambda>(orig, d, s). length s)") (auto dest!: duration_part_rest)

declare duration_parts.simps [simp del]

definition parse_duration :: "string \<Rightarrow> (string, int) result" where
  "parse_duration orig =
    (let signed = orig \<noteq> [] \<and> (hd orig = CHR ''-'' \<or> hd orig = CHR ''+'');
         neg = signed \<and> hd orig = CHR ''-'';
         s = (if signed then tl orig else orig)
     in if s = ''0'' then Inr 0
        else if s = [] then invalid_duration orig
        else case duration_parts orig 0 s of
          Inl e \<Rightarrow> Inl e
        | Inr d \<Rightarrow>
            if neg then Inr (- int d)
            else if 2 ^ 63 - 1 < d then invalid_duration orig else Inr (int d))"

text \<open>Duration.String: the largest units that fit, fractions without their last zeros.\<close>

definition decimal :: "nat \<Rightarrow> nat \<Rightarrow> string" where
  "decimal n digits =
    (let fraction = show_nat (n mod 10 ^ digits);
         padded = replicate (digits - length fraction) (CHR ''0'') @ fraction;
         kept = rev (dropWhile (\<lambda>c. c = CHR ''0'') (rev padded))
     in show_nat (n div 10 ^ digits) @ (if kept = [] then [] else CHR ''.'' # kept))"

definition duration_text :: "int \<Rightarrow> string" where
  "duration_text d =
    (let u = nat \<bar>d\<bar>; minutes = u div 60000000000; seconds = decimal (u mod 60000000000) 9 @ ''s'';
         text = (if u = 0 then ''0s''
           else if u < 1000 then show_nat u @ ''ns''
           else if u < 1000000 then decimal u 3 @ [char_of (0xC2 :: nat), char_of (0xB5 :: nat)] @ ''s''
           else if u < 1000000000 then decimal u 6 @ ''ms''
           else (if 60 \<le> minutes then show_nat (minutes div 60) @ ''h'' else []) @
             (if 0 < minutes then show_nat (minutes mod 60) @ ''m'' else []) @ seconds)
     in if d < 0 then CHR ''-'' # text else text)"

section \<open>Numbers and truth values\<close>

definition parse_bool :: "string \<Rightarrow> (string, bool) result" where
  "parse_bool s =
    (if s \<in> {''1'', ''t'', ''T'', ''TRUE'', ''true'', ''True''} then Inr True
     else if s \<in> {''0'', ''f'', ''F'', ''FALSE'', ''false'', ''False''} then Inr False
     else Inl (''strconv.ParseBool: parsing '' @ go_quote s @ '': invalid syntax''))"

text \<open>ParseUint stops at the first byte that is no digit, or at the first digit past 64 bits.\<close>

fun past_range :: "nat \<Rightarrow> string \<Rightarrow> bool option" where
  "past_range x [] = Some False"
| "past_range x (c # cs) =
    (if \<not> is_digit c then None
     else if 2 ^ 64 \<le> x * 10 + digit_nat c then Some True
     else past_range (x * 10 + digit_nat c) cs)"

definition atoi_result :: "string \<Rightarrow> (string, int) result" where
  "atoi_result s =
    (case atoi s of
       Some n \<Rightarrow> Inr n
     | None \<Rightarrow>
         let digits = (if s \<noteq> [] \<and> (hd s = CHR ''-'' \<or> hd s = CHR ''+'') then tl s else s)
         in Inl (''strconv.Atoi: parsing '' @ go_quote s @ '': '' @
              (if digits = [] \<or> past_range 0 digits = None then ''invalid syntax'' else ''value out of range'')))"

section \<open>Paths as texts\<close>

definition clean_step :: "bool \<Rightarrow> string list \<Rightarrow> string \<Rightarrow> string list" where
  "clean_step rooted acc c =
    (if c = [] \<or> c = ''.'' then acc
     else if c = ''..'' then
       (if acc \<noteq> [] \<and> last acc \<noteq> ''..'' then butlast acc
        else if rooted then acc else acc @ [c])
     else acc @ [c])"

definition path_clean :: "string \<Rightarrow> string" where
  "path_clean p =
    (let rooted = p \<noteq> [] \<and> hd p = CHR ''/'';
         parts = foldl (clean_step rooted) [] (split_on (CHR ''/'') p)
     in if rooted then CHR ''/'' # join_with ''/'' parts
        else if parts = [] then ''.'' else join_with ''/'' parts)"

definition path_join :: "string list \<Rightarrow> string" where
  "path_join items =
    (let full = filter (\<lambda>e. e \<noteq> []) items in if full = [] then [] else path_clean (join_with ''/'' full))"

definition path_dir :: "string \<Rightarrow> string" where
  "path_dir p =
    (case split_last (CHR ''/'') p of None \<Rightarrow> ''.'' | Some (a, _) \<Rightarrow> path_clean (a @ ''/''))"

text \<open>filepath.Base: the last element, without the slashes after it.\<close>

definition path_base :: "string \<Rightarrow> string" where
  "path_base p =
    (if p = [] then ''.''
     else let q = rev (dropWhile (\<lambda>c. c = CHR ''/'') (rev p)) in
       if q = [] then ''/'' else case split_last (CHR ''/'') q of None \<Rightarrow> q | Some (_, b) \<Rightarrow> b)"

text \<open>Going up ends: the directory of a path is shorter, or the path itself.\<close>

definition weight :: "string list \<Rightarrow> nat" where
  "weight ws = sum_list (map (\<lambda>w. Suc (length w)) ws)"

lemma weight_simps [simp]:
  "weight [] = 0" "weight (w # ws) = Suc (length w) + weight ws" "weight (vs @ ws) = weight vs + weight ws"
  by (auto simp: weight_def)

lemma weight_join: "ws \<noteq> [] \<Longrightarrow> weight ws = Suc (length (join_with [d] ws))"
  by (induction ws rule: induct_list012) auto

lemma weight_butlast: "weight (butlast ws) \<le> weight ws"
  by (cases ws rule: rev_cases) auto

lemma clean_step_weight: "weight (foldl (clean_step rooted) acc ws) \<le> weight acc + weight (filter (\<lambda>w. w \<noteq> []) ws)"
proof (induction ws arbitrary: acc)
  case (Cons w ws)
  have "weight (clean_step rooted acc w) \<le> weight acc + weight (filter (\<lambda>w. w \<noteq> []) [w])"
    using weight_butlast [of acc] by (auto simp: clean_step_def)
  then show ?case using Cons.IH [of "clean_step rooted acc w"] by auto
qed simp

lemma weight_split: "weight (split_on d s) = Suc (length s)"
  using weight_join [of "split_on d s" d] join_split [of d s] by simp

lemma split_on_snoc: "split_on d (a @ [d]) = split_on d a @ [[]]"
  by (induction a) (auto split: list.splits)

end
