(* ===== verification/Config.thy ===== *)
theory Config
  imports GoNumbers
begin

text \<open>
  The configuration (core/config.go): the environment variables with their defaults, the search for the
  repository root, and the questions the wiring asks of a configuration. The environment is a function
  from names to values; what the disk answers about files is part of it.
\<close>

section \<open>The environment of the process\<close>

record process_env =
  pe_env :: "string \<Rightarrow> string option"
  pe_cwd :: "(string, string) result"
  pe_is_file :: "string \<Rightarrow> bool"

definition getenv :: "process_env \<Rightarrow> string \<Rightarrow> string" where
  "getenv pe key = (case pe_env pe key of None \<Rightarrow> [] | Some v \<Rightarrow> v)"

text \<open>os.TempDir and os.UserHomeDir.\<close>

definition temp_dir :: "process_env \<Rightarrow> string" where
  "temp_dir pe = (if getenv pe ''TMPDIR'' = [] then ''/tmp'' else getenv pe ''TMPDIR'')"

definition default_kubeconfig_path :: "process_env \<Rightarrow> string" where
  "default_kubeconfig_path pe =
    (if getenv pe ''HOME'' = [] then [] else path_join [getenv pe ''HOME'', ''.kube'', ''config''])"

definition hour :: int where "hour = 3600 * second"

text \<open>A variable that is set and not empty.\<close>

definition env_value :: "process_env \<Rightarrow> string \<Rightarrow> string option" where
  "env_value pe key = (case pe_env pe key of None \<Rightarrow> None | Some v \<Rightarrow> if v = [] then None else Some v)"

definition env_or_default :: "process_env \<Rightarrow> string \<Rightarrow> string \<Rightarrow> string" where
  "env_or_default pe key fallback = (case env_value pe key of None \<Rightarrow> fallback | Some v \<Rightarrow> v)"

fun env_or_default_any :: "process_env \<Rightarrow> string list \<Rightarrow> string \<Rightarrow> string" where
  "env_or_default_any pe [] fallback = fallback"
| "env_or_default_any pe (key # keys) fallback =
    (case env_value pe key of None \<Rightarrow> env_or_default_any pe keys fallback | Some v \<Rightarrow> v)"

definition env_parsed :: "(string \<Rightarrow> (string, 'a) result) \<Rightarrow> string \<Rightarrow> string \<Rightarrow> (go_error, 'a) result" where
  "env_parsed parse key value =
    (case parse value of Inl e \<Rightarrow> Inl (Wrapped (''parse '' @ key) (OtherError e)) | Inr v \<Rightarrow> Inr v)"

definition env_bool :: "process_env \<Rightarrow> string \<Rightarrow> bool \<Rightarrow> (go_error, bool) result" where
  "env_bool pe key fallback =
    (case env_value pe key of None \<Rightarrow> Inr fallback | Some v \<Rightarrow> env_parsed parse_bool key v)"

definition env_int :: "process_env \<Rightarrow> string \<Rightarrow> int \<Rightarrow> (go_error, int) result" where
  "env_int pe key fallback =
    (case env_value pe key of None \<Rightarrow> Inr fallback | Some v \<Rightarrow> env_parsed atoi_result key v)"

definition env_duration :: "process_env \<Rightarrow> string \<Rightarrow> int \<Rightarrow> (go_error, int) result" where
  "env_duration pe key fallback =
    (case env_value pe key of None \<Rightarrow> Inr fallback | Some v \<Rightarrow> env_parsed parse_duration key v)"

fun env_duration_any :: "process_env \<Rightarrow> string list \<Rightarrow> int \<Rightarrow> (go_error, int) result" where
  "env_duration_any pe [] fallback = Inr fallback"
| "env_duration_any pe (key # keys) fallback =
    (case env_value pe key of None \<Rightarrow> env_duration_any pe keys fallback
     | Some v \<Rightarrow> env_parsed parse_duration key v)"

section \<open>The secret store\<close>

definition secret_store_mode_from_env :: "process_env \<Rightarrow> string" where
  "secret_store_mode_from_env pe =
    (let mode = env_or_default_any pe [''AODS_SECRET_STORE_MODE'', ''AODS_IIV_MODE'', ''AODS_VAULT_MODE''] []
     in if mode \<noteq> [] then mode
        else if env_or_default_any pe [''AODS_IIV_ADDR'', ''AODS_IIV_TOKEN''] [] \<noteq> [] then ''iiv''
        else ''local'')"

definition normalize_secret_store_address :: "string \<Rightarrow> string" where
  "normalize_secret_store_address value =
    (let v = trim_space value in
     if v = [] \<or> str_cut ''://'' v \<noteq> None then v
     else if CHR '':'' \<in> set v then ''http://'' @ v
     else ''http://'' @ v @ '':8200'')"

section \<open>The repository root\<close>

text \<open>The loop climbs from the working directory until both files are there or the top is reached.\<close>

definition repo_marked :: "process_env \<Rightarrow> string \<Rightarrow> bool" where
  "repo_marked pe dir \<longleftrightarrow> pe_is_file pe (path_join [dir, ''AGENTS.md'']) \<and>
    pe_is_file pe (path_join [dir, ''docs'', ''internal-platform'', ''openapi.yaml''])"

text \<open>Going up ends: the parent of a directory is shorter, or the dot, or the directory itself.\<close>

definition climb_measure :: "string \<Rightarrow> nat" where
  "climb_measure dir = (if dir = ''.'' then 0 else Suc (length dir))"

lemma cleaned_shorter: "a \<noteq> [] \<Longrightarrow> path_clean (a @ ''/'') \<noteq> ''.'' \<Longrightarrow> length (path_clean (a @ ''/'')) \<le> length a"
proof -
  assume a: "a \<noteq> []" "path_clean (a @ ''/'') \<noteq> ''.''"
  let ?ws = "split_on (CHR ''/'') (a @ ''/'')"
  let ?parts = "\<lambda>r. foldl (clean_step r) [] ?ws"
  have w: "weight (?parts r) \<le> weight (filter (\<lambda>w. w \<noteq> []) (split_on (CHR ''/'') a))" for r
    using clean_step_weight [of r "[]" ?ws] by (simp add: split_on_snoc)
  have j: "ws \<noteq> [] \<Longrightarrow> Suc (length (join_with ''/'' ws)) = weight ws" for ws
    using weight_join [of ws "CHR ''/''"] by simp
  have f: "weight (filter (\<lambda>w. w \<noteq> []) xs) \<le> weight xs" for xs by (induction xs) auto
  show ?thesis
  proof (cases "hd a = CHR ''/''")
    case True
    then obtain b where b: "a = CHR ''/'' # b" using a(1) by (cases a) auto
    have "weight (?parts True) \<le> Suc (length b)"
      using w [of True] f [of "split_on (CHR ''/'') b"] by (simp add: b weight_split)
    then show ?thesis
      using j [of "?parts True"] by (cases "?parts True = []") (auto simp: path_clean_def b Let_def)
  next
    case False
    have "weight (?parts False) \<le> Suc (length a)"
      using w [of False] f [of "split_on (CHR ''/'') a"] by (simp add: weight_split)
    moreover have "path_clean (a @ ''/'') = join_with ''/'' (?parts False) \<and> ?parts False \<noteq> []"
      using a False by (auto simp: path_clean_def Let_def split: if_splits)
    ultimately show ?thesis using j [of "?parts False"] by simp
  qed
qed

lemma parent_shorter: "path_dir dir \<noteq> dir \<Longrightarrow> climb_measure (path_dir dir) < climb_measure dir"
proof (cases "split_last (CHR ''/'') dir")
  case None
  then show "path_dir dir \<noteq> dir \<Longrightarrow> ?thesis" by (auto simp: path_dir_def climb_measure_def)
next
  case (Some ab)
  assume up: "path_dir dir \<noteq> dir"
  obtain a b where ab: "ab = (a, b)" by (cases ab)
  have dir: "dir = a @ CHR ''/'' # b" using Some split_last_SomeD by (simp add: ab)
  have dot: "dir \<noteq> ''.''" by (auto simp: dir append_eq_Cons_conv)
  have root: "path_clean ''/'' = ''/''" by code_simp
  show ?thesis
  proof (cases "path_dir dir = ''.''")
    case True
    then show ?thesis using dot by (simp add: climb_measure_def)
  next
    case False
    show ?thesis
    proof (cases "a = []")
      case True
      then have "path_dir dir = ''/''" using Some by (simp add: path_dir_def ab root)
      then show ?thesis using up dot by (cases b) (auto simp: climb_measure_def dir True)
    next
      case False
      then show ?thesis
        using cleaned_shorter [of a] Some dot \<open>path_dir dir \<noteq> ''.''\<close>
        by (simp add: path_dir_def ab climb_measure_def dir)
    qed
  qed
qed

function climb_to_root :: "process_env \<Rightarrow> string \<Rightarrow> string option" where
  "climb_to_root pe dir =
    (if repo_marked pe dir then Some dir
     else if path_dir dir = dir then None
     else climb_to_root pe (path_dir dir))"
  by pat_completeness auto
termination
  by (relation "measure (\<lambda>(pe, dir). climb_measure dir)") (auto intro: parent_shorter)

declare climb_to_root.simps [simp del]

definition resolve_repo_root :: "process_env \<Rightarrow> string \<Rightarrow> (go_error, string) result" where
  "resolve_repo_root pe explicit =
    (if explicit \<noteq> [] then Inr explicit
     else case pe_cwd pe of
       Inl e \<Rightarrow> Inl (Wrapped ''get working directory'' (OtherError e))
     | Inr dir \<Rightarrow> (case climb_to_root pe dir of
         None \<Rightarrow> Inl (OtherError (''could not resolve repository root from '' @ dir))
       | Some root \<Rightarrow> Inr root))"

section \<open>Loading\<close>

text \<open>The default display name is the UTF-8 text of the source.\<close>

definition default_display_name :: string where
  "default_display_name = map char_of [0xEB :: nat, 0xA1, 0x9C, 0xEC, 0xBB, 0xAC, 0x20,
    0xEC, 0x9A, 0xB4, 0xEC, 0x98, 0x81, 0xEC, 0x9E, 0x90]"

definition dev_user_from_env :: "process_env \<Rightarrow> user" where
  "dev_user_from_env pe =
    \<lparr>user_id = env_or_default pe ''AODS_DEV_USER_ID'' ''local-user'',
     user_name = env_or_default pe ''AODS_DEV_USERNAME'' ''local.developer'',
     user_display = env_or_default pe ''AODS_DEV_DISPLAY_NAME'' default_display_name,
     user_groups = split_comma_separated (env_or_default pe ''AODS_DEV_GROUPS'' ''aods:shared:deploy'')\<rparr>"

record config =
  c_address :: string
  c_repo_root :: string
  c_auth_mode :: string
  c_platform_admin_authorities :: "string list"
  c_oidc_issuer_url :: string
  c_oidc_jwks_url :: string
  c_oidc_audience :: string
  c_oidc_user_id_claim :: string
  c_oidc_username_claim :: string
  c_oidc_display_name_claim :: string
  c_oidc_groups_claim :: string
  c_oidc_role_mappings :: "(string \<times> string list) list"
  c_oidc_request_timeout :: int
  c_git_mode :: string
  c_git_repo_dir :: string
  c_git_remote :: string
  c_git_branch :: string
  c_git_author_name :: string
  c_git_author_email :: string
  c_git_command_timeout :: int
  c_git_sync_ttl :: int
  c_repository_poll_interval :: int
  c_kubernetes_mode :: string
  c_kubernetes_api_url :: string
  c_kubernetes_bearer_token :: string
  c_kubernetes_ca_file :: string
  c_kubernetes_ca_data :: string
  c_kubernetes_kubeconfig_path :: string
  c_kubernetes_context :: string
  c_kubernetes_request_timeout :: int
  c_image_verification_mode :: string
  c_image_verification_timeout :: int
  c_flux_kustomization_namespace :: string
  c_flux_source_name :: string
  c_flux_status_cache_ttl :: int
  c_prometheus_mode :: string
  c_prometheus_url :: string
  c_prometheus_request_timeout :: int
  c_prometheus_range :: int
  c_prometheus_step :: int
  c_vault_mode :: string
  c_vault_address :: string
  c_vault_token :: string
  c_vault_namespace :: string
  c_vault_request_timeout :: int
  c_vault_staging_cleanup_interval :: int
  c_vault_staging_max_age :: int
  c_orphan_flux_cleanup_interval :: int
  c_mariadb_dsn :: string
  c_application_catalog_db_driver :: string
  c_application_catalog_dsn :: string
  c_application_catalog_cache_ttl :: int
  c_application_catalog_sync_interval :: int
  c_deployment_operation_interval :: int
  c_deployment_operation_lease :: int
  c_deployment_operation_max_attempts :: int
  c_allowed_origin :: string
  c_allow_dev_fallback :: bool
  c_dev_user :: user
  c_local_vault_dir :: string

definition load_config :: "process_env \<Rightarrow> (go_error, config) result" where
  "load_config pe =
    bindR (resolve_repo_root pe (getenv pe ''AODS_REPO_ROOT'')) (\<lambda>repo_root.
    bindR (env_bool pe ''AODS_ALLOW_DEV_FALLBACK'' True) (\<lambda>allow_dev_fallback.
    bindR (env_duration pe ''AODS_K8S_REQUEST_TIMEOUT'' (5 * second)) (\<lambda>kubernetes_request_timeout.
    bindR (env_duration pe ''AODS_IMAGE_CHECK_TIMEOUT'' (5 * second)) (\<lambda>image_verification_timeout.
    bindR (env_duration pe ''AODS_OIDC_REQUEST_TIMEOUT'' (5 * second)) (\<lambda>oidc_request_timeout.
    bindR (parse_authority_mappings (getenv pe ''AODS_OIDC_ROLE_MAPPINGS'')) (\<lambda>oidc_role_mappings.
    bindR (env_duration pe ''AODS_GIT_COMMAND_TIMEOUT'' (15 * second)) (\<lambda>git_command_timeout.
    bindR (env_duration pe ''AODS_GIT_SYNC_TTL'' (60 * second)) (\<lambda>git_sync_ttl.
    bindR (env_duration pe ''AODS_FLUX_STATUS_CACHE_TTL'' (10 * second)) (\<lambda>flux_status_cache_ttl.
    bindR (env_duration pe ''AODS_REPOSITORY_POLL_INTERVAL'' (5 * minute)) (\<lambda>repository_poll_interval.
    bindR (env_duration pe ''AODS_PROMETHEUS_REQUEST_TIMEOUT'' (5 * second)) (\<lambda>prometheus_request_timeout.
    bindR (env_duration pe ''AODS_PROMETHEUS_RANGE'' hour) (\<lambda>prometheus_range.
    bindR (env_duration pe ''AODS_PROMETHEUS_STEP'' (5 * minute)) (\<lambda>prometheus_step.
    bindR (env_duration_any pe [''AODS_IIV_REQUEST_TIMEOUT'', ''AODS_VAULT_REQUEST_TIMEOUT''] (5 * second)) (\<lambda>vault_request_timeout.
    bindR (env_duration_any pe [''AODS_IIV_STAGING_CLEANUP_INTERVAL'', ''AODS_VAULT_STAGING_CLEANUP_INTERVAL''] hour) (\<lambda>vault_staging_cleanup_interval.
    bindR (env_duration_any pe [''AODS_IIV_STAGING_MAX_AGE'', ''AODS_VAULT_STAGING_MAX_AGE''] (24 * hour)) (\<lambda>vault_staging_max_age.
    bindR (env_duration pe ''AODS_ORPHAN_FLUX_CLEANUP_INTERVAL'' hour) (\<lambda>orphan_flux_cleanup_interval.
    bindR (env_duration pe ''AODS_APPLICATION_CATALOG_CACHE_TTL'' (10 * minute)) (\<lambda>application_catalog_cache_ttl.
    bindR (env_duration pe ''AODS_APPLICATION_CATALOG_SYNC_INTERVAL'' minute) (\<lambda>application_catalog_sync_interval.
    bindR (env_duration pe ''AODS_DEPLOYMENT_OPERATION_INTERVAL'' (2 * second)) (\<lambda>deployment_operation_interval.
    bindR (env_duration pe ''AODS_DEPLOYMENT_OPERATION_LEASE'' (5 * minute)) (\<lambda>deployment_operation_lease.
    bindR (env_int pe ''AODS_DEPLOYMENT_OPERATION_MAX_ATTEMPTS'' 5) (\<lambda>deployment_operation_max_attempts.
    Inr \<lparr>c_address = env_or_default pe ''AODS_ADDR'' '':8080'',
      c_repo_root = repo_root,
      c_auth_mode = env_or_default pe ''AODS_AUTH_MODE'' ''header'',
      c_platform_admin_authorities = dedupe_authority_strings (split_comma_separated (env_or_default pe ''AODS_PLATFORM_ADMIN_AUTHORITIES'' ''aods:platform:admin'')),
      c_oidc_issuer_url = env_or_default pe ''AODS_OIDC_ISSUER_URL'' [],
      c_oidc_jwks_url = env_or_default pe ''AODS_OIDC_JWKS_URL'' [],
      c_oidc_audience = env_or_default pe ''AODS_OIDC_AUDIENCE'' [],
      c_oidc_user_id_claim = env_or_default pe ''AODS_OIDC_USER_ID_CLAIM'' ''sub'',
      c_oidc_username_claim = env_or_default pe ''AODS_OIDC_USERNAME_CLAIM'' ''preferred_username'',
      c_oidc_display_name_claim = env_or_default pe ''AODS_OIDC_DISPLAY_NAME_CLAIM'' ''name'',
      c_oidc_groups_claim = env_or_default pe ''AODS_OIDC_GROUPS_CLAIM'' ''groups'',
      c_oidc_role_mappings = oidc_role_mappings,
      c_oidc_request_timeout = oidc_request_timeout,
      c_git_mode = env_or_default pe ''AODS_GIT_MODE'' ''local'',
      c_git_repo_dir = env_or_default pe ''AODS_GIT_REPO_DIR'' (path_join [temp_dir pe, ''aods-managed-gitops'']),
      c_git_remote = env_or_default pe ''AODS_GIT_REMOTE'' [],
      c_git_branch = env_or_default pe ''AODS_GIT_BRANCH'' ''main'',
      c_git_author_name = env_or_default pe ''AODS_GIT_AUTHOR_NAME'' ''AODS Bot'',
      c_git_author_email = env_or_default pe ''AODS_GIT_AUTHOR_EMAIL'' ''aods-bot@local'',
      c_git_command_timeout = git_command_timeout,
      c_git_sync_ttl = git_sync_ttl,
      c_repository_poll_interval = repository_poll_interval,
      c_kubernetes_mode = env_or_default pe ''AODS_K8S_MODE'' ''local'',
      c_kubernetes_api_url = env_or_default pe ''AODS_K8S_API_URL'' [],
      c_kubernetes_bearer_token = env_or_default pe ''AODS_K8S_BEARER_TOKEN'' [],
      c_kubernetes_ca_file = env_or_default pe ''AODS_K8S_CA_FILE'' [],
      c_kubernetes_ca_data = env_or_default pe ''AODS_K8S_CA_DATA'' [],
      c_kubernetes_kubeconfig_path = env_or_default pe ''AODS_K8S_KUBECONFIG'' (default_kubeconfig_path pe),
      c_kubernetes_context = env_or_default pe ''AODS_K8S_CONTEXT'' [],
      c_kubernetes_request_timeout = kubernetes_request_timeout,
      c_image_verification_mode = env_or_default pe ''AODS_IMAGE_CHECK_MODE'' ''anonymous'',
      c_image_verification_timeout = image_verification_timeout,
      c_flux_kustomization_namespace = env_or_default pe ''AODS_FLUX_KUSTOMIZATION_NAMESPACE'' ''flux-system'',
      c_flux_source_name = env_or_default pe ''AODS_FLUX_SOURCE_NAME'' ''aods-manifest'',
      c_flux_status_cache_ttl = flux_status_cache_ttl,
      c_prometheus_mode = env_or_default pe ''AODS_PROMETHEUS_MODE'' ''local'',
      c_prometheus_url = env_or_default pe ''AODS_PROMETHEUS_URL'' [],
      c_prometheus_request_timeout = prometheus_request_timeout,
      c_prometheus_range = prometheus_range,
      c_prometheus_step = prometheus_step,
      c_vault_mode = secret_store_mode_from_env pe,
      c_vault_address = normalize_secret_store_address (env_or_default_any pe [''AODS_IIV_ADDR'', ''AODS_VAULT_ADDR''] []),
      c_vault_token = env_or_default_any pe [''AODS_IIV_TOKEN'', ''AODS_VAULT_TOKEN''] [],
      c_vault_namespace = env_or_default_any pe [''AODS_IIV_NAMESPACE'', ''AODS_VAULT_NAMESPACE''] [],
      c_vault_request_timeout = vault_request_timeout,
      c_vault_staging_cleanup_interval = vault_staging_cleanup_interval,
      c_vault_staging_max_age = vault_staging_max_age,
      c_orphan_flux_cleanup_interval = orphan_flux_cleanup_interval,
      c_mariadb_dsn = env_or_default pe ''AODS_MARIADB_DSN'' [],
      c_application_catalog_db_driver = env_or_default pe ''AODS_APPLICATION_CATALOG_DB_DRIVER'' [],
      c_application_catalog_dsn = env_or_default pe ''AODS_APPLICATION_CATALOG_DSN'' [],
      c_application_catalog_cache_ttl = application_catalog_cache_ttl,
      c_application_catalog_sync_interval = application_catalog_sync_interval,
      c_deployment_operation_interval = deployment_operation_interval,
      c_deployment_operation_lease = deployment_operation_lease,
      c_deployment_operation_max_attempts = deployment_operation_max_attempts,
      c_allowed_origin = env_or_default pe ''AODS_ALLOWED_ORIGIN'' ''*'',
      c_allow_dev_fallback = allow_dev_fallback,
      c_dev_user = dev_user_from_env pe,
      c_local_vault_dir = env_or_default_any pe [''AODS_LOCAL_SECRET_STORE_DIR'', ''AODS_LOCAL_VAULT_DIR''] (path_join [temp_dir pe, ''aods-local-secret-store''])\<rparr>))))))))))))))))))))))"

section \<open>Questions to a configuration\<close>

definition use_git_repo :: "config \<Rightarrow> bool" where
  "use_git_repo c \<longleftrightarrow> equal_fold (c_git_mode c) ''git''"

definition use_oidc_auth :: "config \<Rightarrow> bool" where
  "use_oidc_auth c \<longleftrightarrow> equal_fold (trim_space (c_auth_mode c)) ''oidc''"

definition not_local :: "string \<Rightarrow> bool" where
  "not_local value \<longleftrightarrow> (let mode = trim_space value in mode \<noteq> [] \<and> \<not> equal_fold mode ''local'')"

definition use_kubernetes_api :: "config \<Rightarrow> bool" where
  "use_kubernetes_api c \<longleftrightarrow> not_local (c_kubernetes_mode c)"

definition use_image_verification :: "config \<Rightarrow> bool" where
  "use_image_verification c \<longleftrightarrow> not_local (c_image_verification_mode c)"

definition use_prometheus_api :: "config \<Rightarrow> bool" where
  "use_prometheus_api c \<longleftrightarrow> not_local (c_prometheus_mode c)"

definition use_vault_api :: "config \<Rightarrow> bool" where
  "use_vault_api c \<longleftrightarrow> not_local (c_vault_mode c)"

definition use_mariadb_operations :: "config \<Rightarrow> bool" where
  "use_mariadb_operations c \<longleftrightarrow> trim_space (c_mariadb_dsn c) \<noteq> []"

definition resolved_application_catalog_dsn :: "config \<Rightarrow> string" where
  "resolved_application_catalog_dsn c =
    (if trim_space (c_application_catalog_dsn c) \<noteq> [] then trim_space (c_application_catalog_dsn c)
     else trim_space (c_mariadb_dsn c))"

definition use_application_catalog_cache :: "config \<Rightarrow> bool" where
  "use_application_catalog_cache c \<longleftrightarrow>
    0 < c_application_catalog_cache_ttl c \<and> resolved_application_catalog_dsn c \<noteq> []"

definition normalize_sql_driver_name :: "string \<Rightarrow> string" where
  "normalize_sql_driver_name value =
    (let v = to_lower (trim_space value) in
     if v \<in> {''postgres'', ''postgresql'', ''pg''} then ''postgres''
     else if v \<in> {''mysql'', ''mariadb''} then ''mysql'' else v)"

definition resolved_application_catalog_db_driver :: "config \<Rightarrow> string" where
  "resolved_application_catalog_db_driver c =
    (let driver = normalize_sql_driver_name (c_application_catalog_db_driver c);
         dsn = to_lower (resolved_application_catalog_dsn c) in
     if driver \<noteq> [] then driver
     else if prefix ''postgres://'' dsn \<or> prefix ''postgresql://'' dsn then ''postgres''
     else if dsn \<noteq> [] then ''mysql'' else [])"

end
