(* ===== verification/GoUrl.thy ===== *)
theory GoUrl
  imports Identity
begin

text \<open>
  net/url as the backend uses it: url.Parse with its checks of scheme, user, host, path and fragment,
  Hostname, and the escaping of path segments and query values.
\<close>

section \<open>Escaping\<close>

datatype url_part = InHost | InZone | InUser | InPath | InPathSegment | InQuery | InFragment

definition alnum :: "char \<Rightarrow> bool" where
  "alnum c \<longleftrightarrow> in_range 48 57 c \<or> in_range 65 90 c \<or> in_range 97 122 c"

definition should_escape :: "url_part \<Rightarrow> char \<Rightarrow> bool" where
  "should_escape part c =
    (if alnum c \<or> c \<in> set ''-_.~'' then False
     else if part \<in> {InHost, InZone} \<and> c \<in> set [CHR ''!'', CHR ''$'', CHR ''&'', CHR 0x27, CHR ''('', CHR '')'', CHR ''*'',
       CHR ''+'', CHR '','', CHR '';'', CHR ''='', CHR '':'', CHR ''['', CHR '']'', CHR ''<'', CHR ''>'', CHR 0x22]
     then False
     else if c \<in> set ''$&+,/:;=?@'' then
       (case part of
          InPath \<Rightarrow> c = CHR ''?''
        | InPathSegment \<Rightarrow> c \<in> set ''/;,?''
        | InUser \<Rightarrow> c \<in> set ''@/?:''
        | InQuery \<Rightarrow> True
        | InFragment \<Rightarrow> False
        | _ \<Rightarrow> True)
     else if part = InFragment \<and> c \<in> set ''!()*'' then False
     else True)"

definition upper_hex :: "nat \<Rightarrow> char" where
  "upper_hex n = (if n < 10 then char_of (48 + n) else char_of (55 + n))"

definition url_escape :: "url_part \<Rightarrow> string \<Rightarrow> string" where
  "url_escape part s = concat (map (\<lambda>c. let n = of_char c :: nat in
     if c = CHR '' '' \<and> part = InQuery then ''+''
     else if should_escape part c then [CHR ''%'', upper_hex (n div 16), upper_hex (n mod 16)] else [c]) s)"

definition path_escape :: "string \<Rightarrow> string" where
  "path_escape s = url_escape InPathSegment s"

definition url_query_escape :: "string \<Rightarrow> string" where
  "url_query_escape s = url_escape InQuery s"

definition unhex :: "char \<Rightarrow> nat option" where
  "unhex c = (let n = of_char c :: nat in
     if in_range 48 57 c then Some (n - 48) else if in_range 97 102 c then Some (n - 87)
     else if in_range 65 70 c then Some (n - 55) else None)"

text \<open>
  A host may escape only bytes outside ASCII and the percent sign; a zone also the space and what a host
  may hold.
\<close>

fun url_unescape :: "url_part \<Rightarrow> string \<Rightarrow> string option" where
  "url_unescape part [] = Some []"
| "url_unescape part (c # cs) =
    (if c = CHR ''%'' then
       (case cs of
          a # b # rest \<Rightarrow>
            (case (unhex a, unhex b) of
               (Some x, Some y) \<Rightarrow>
                 if part = InHost \<and> x < 8 \<and> \<not> (a = CHR ''2'' \<and> b = CHR ''5'') then None
                 else if part = InZone \<and> \<not> (a = CHR ''2'' \<and> b = CHR ''5'') \<and> 16 * x + y \<noteq> 32 \<and>
                   should_escape InHost (char_of (16 * x + y)) then None
                 else map_option (\<lambda>t. char_of (16 * x + y) # t) (url_unescape part rest)
             | _ \<Rightarrow> None)
        | _ \<Rightarrow> None)
     else if c = CHR ''+'' \<and> part = InQuery then map_option (\<lambda>t. CHR '' '' # t) (url_unescape part cs)
     else if part \<in> {InHost, InZone} \<and> of_char c < (128 :: nat) \<and> should_escape part c then None
     else map_option (\<lambda>t. c # t) (url_unescape part cs))"

section \<open>Parsing\<close>

record url =
  url_scheme :: string
  url_opaque :: string
  url_user :: "(string \<times> string option) option"
  url_host :: string
  url_path :: string
  url_query :: string
  url_fragment :: string

definition cut_at :: "char \<Rightarrow> string \<Rightarrow> string \<times> string" where
  "cut_at c s = (takeWhile (\<lambda>x. x \<noteq> c) s, drop 1 (dropWhile (\<lambda>x. x \<noteq> c) s))"

text \<open>getScheme: None is the error; an empty scheme leaves the text alone.\<close>

fun scheme_end :: "bool \<Rightarrow> string \<Rightarrow> string \<Rightarrow> (string \<times> string) option option" where
  "scheme_end start acc [] = Some None"
| "scheme_end start acc (c # cs) =
    (if in_range 65 90 c \<or> in_range 97 122 c then scheme_end False (acc @ [c]) cs
     else if in_range 48 57 c \<or> c \<in> set ''+-.'' then
       (if start then Some None else scheme_end False (acc @ [c]) cs)
     else if c = CHR '':'' then (if start then None else Some (Some (acc, cs)))
     else Some None)"

definition valid_optional_port :: "string \<Rightarrow> bool" where
  "valid_optional_port p \<longleftrightarrow> p = [] \<or> (hd p = CHR '':'' \<and> list_all (in_range 48 57) (tl p))"

text \<open>The zone of a bracketed host starts at \<open>%25\<close>.\<close>

definition parse_host :: "string \<Rightarrow> string option" where
  "parse_host host =
    (if host \<noteq> [] \<and> hd host = CHR ''['' then
       (case split_last (CHR '']'') host of
          None \<Rightarrow> None
        | Some (inside, port) \<Rightarrow>
            if \<not> valid_optional_port port then None
            else (case str_cut ''%25'' inside of
                None \<Rightarrow> url_unescape InHost host
              | Some (addr, zone) \<Rightarrow>
                  (case (url_unescape InHost addr, url_unescape InZone (''%25'' @ zone),
                       url_unescape InHost (CHR '']'' # port)) of
                     (Some a, Some z, Some p) \<Rightarrow> Some (a @ z @ p) | _ \<Rightarrow> None)))
     else (case split_last (CHR '':'') host of
         Some (_, port) \<Rightarrow> if valid_optional_port (CHR '':'' # port) then url_unescape InHost host else None
       | None \<Rightarrow> url_unescape InHost host))"

definition valid_userinfo :: "string \<Rightarrow> bool" where
  "valid_userinfo s \<longleftrightarrow> list_all (\<lambda>c. alnum c \<or> c \<in> set (''-._:~!$&()*+,;=%@'' @ [CHR 0x27])) s"

definition parse_userinfo :: "string \<Rightarrow> (string \<times> string option) option" where
  "parse_userinfo info =
    (if \<not> valid_userinfo info then None
     else (case str_cut '':'' info of
         None \<Rightarrow> map_option (\<lambda>u. (u, None)) (url_unescape InUser info)
       | Some (u, p) \<Rightarrow> (case (url_unescape InUser u, url_unescape InUser p) of
           (Some u', Some p') \<Rightarrow> Some (u', Some p') | _ \<Rightarrow> None)))"

definition parse_authority :: "string \<Rightarrow> ((string \<times> string option) option \<times> string) option" where
  "parse_authority authority =
    (case split_last (CHR ''@'') authority of
       None \<Rightarrow> map_option (\<lambda>h. (None, h)) (parse_host authority)
     | Some (info, host) \<Rightarrow>
         (case (parse_host host, parse_userinfo info) of
            (Some h, Some u) \<Rightarrow> Some (Some u, h) | _ \<Rightarrow> None))"

definition url_rest :: "string \<Rightarrow> string \<Rightarrow> string \<Rightarrow> url option" where
  "url_rest scheme rest query =
    (if \<not> prefix ''/'' rest \<and> scheme \<noteq> [] then
       Some \<lparr>url_scheme = scheme, url_opaque = rest, url_user = None, url_host = [], url_path = [],
         url_query = query, url_fragment = []\<rparr>
     else if \<not> prefix ''/'' rest \<and> CHR '':'' \<in> set (fst (cut_at (CHR ''/'') rest)) then None
     else if prefix ''//'' rest \<and> (scheme \<noteq> [] \<or> \<not> prefix ''///'' rest) then
       (let after = drop 2 rest; authority = takeWhile (\<lambda>c. c \<noteq> CHR ''/'') after;
            path = dropWhile (\<lambda>c. c \<noteq> CHR ''/'') after in
        (case (parse_authority authority, url_unescape InPath path) of
           (Some (u, h), Some p) \<Rightarrow>
             Some \<lparr>url_scheme = scheme, url_opaque = [], url_user = u, url_host = h, url_path = p,
               url_query = query, url_fragment = []\<rparr>
         | _ \<Rightarrow> None))
     else (case url_unescape InPath rest of
         None \<Rightarrow> None
       | Some p \<Rightarrow> Some \<lparr>url_scheme = scheme, url_opaque = [], url_user = None, url_host = [], url_path = p,
           url_query = query, url_fragment = []\<rparr>))"

definition control_byte :: "char \<Rightarrow> bool" where
  "control_byte c \<longleftrightarrow> of_char c < (32 :: nat) \<or> of_char c = (127 :: nat)"

definition url_parse :: "string \<Rightarrow> url option" where
  "url_parse raw =
    (let (text, fragment) = cut_at (CHR ''#'') raw in
     if list_ex control_byte text then None
     else if text = ''*'' then
       Some \<lparr>url_scheme = [], url_opaque = [], url_user = None, url_host = [], url_path = ''*'', url_query = [],
         url_fragment = fragment\<rparr>
     else case scheme_end True [] text of
       None \<Rightarrow> None
     | Some found \<Rightarrow>
         let (scheme, body) = (case found of None \<Rightarrow> ([], text) | Some (a, b) \<Rightarrow> (to_lower a, b));
             (rest, query) = cut_at (CHR ''?'') body
         in case (url_rest scheme rest query, url_unescape InFragment fragment) of
           (Some u, Some f) \<Rightarrow> Some (u\<lparr>url_fragment := f\<rparr>)
         | _ \<Rightarrow> None)"

text \<open>Hostname: the host without its port and brackets.\<close>

definition url_hostname :: "url \<Rightarrow> string" where
  "url_hostname u =
    (let h = url_host u in
     if CHR '':'' \<notin> set h then h
     else case split_last (CHR '']'') h of
       Some (inside, _) \<Rightarrow> trim_prefix ''['' inside
     | None \<Rightarrow> takeWhile (\<lambda>c. c \<noteq> CHR '':'') h)"

end
