(* ===== verification/FileStore.thy ===== *)
theory FileStore
  imports GoStrings
begin

text \<open>
  The manifest repository's working tree as the code uses it: cleaned paths (filepath.Join on a
  slash-separated system, relative to RepoRoot), files with decoded contents, directory listings.
  The locale \<open>file_store\<close> is the interface the stores rely on; it is interpreted on the
  association-list files at the end. Directories exist when a file lies below them; disk errors are
  not modelled. A path that climbs above RepoRoot keeps its leading dots and names no file of the tree.
\<close>

section \<open>Paths\<close>

type_synonym path = "string list"

fun clean_into :: "path \<Rightarrow> string list \<Rightarrow> path" where
  "clean_into acc [] = rev acc"
| "clean_into acc (c # cs) =
    (if c = [] \<or> c = ''.'' then clean_into acc cs
     else if c = ''..'' then
       (case acc of [] \<Rightarrow> clean_into [''..''] cs
        | a # rest \<Rightarrow> if a = ''..'' then clean_into (''..'' # acc) cs else clean_into rest cs)
     else clean_into (c # acc) cs)"

definition join_path :: "string list \<Rightarrow> path" where
  "join_path parts = clean_into [] (concat (map (split_on CHR ''/'') parts))"

text \<open>One path component that joining leaves alone.\<close>

definition plain_component :: "string \<Rightarrow> bool" where
  "plain_component c \<longleftrightarrow> c \<noteq> [] \<and> c \<noteq> ''.'' \<and> c \<noteq> ''..'' \<and> CHR ''/'' \<notin> set c"

lemma clean_into_plain: "list_all plain_component cs \<Longrightarrow> clean_into acc cs = rev acc @ cs"
  by (induction cs arbitrary: acc) (auto simp: plain_component_def)

lemma concat_split_plain:
  "list_all plain_component cs \<Longrightarrow> concat (map (split_on CHR ''/'') cs) = cs"
  by (induction cs) (auto simp: plain_component_def split_on_single)

lemma join_path_plain: "list_all plain_component cs \<Longrightarrow> join_path cs = cs"
  by (simp add: join_path_def concat_split_plain clean_into_plain)

lemma slug_plain_component: "slug_pattern s \<Longrightarrow> plain_component s"
  using slug_no_special [of s] slug_ends(1) [of s] by (auto simp: plain_component_def)

lemma plain_component_suffix:
  "plain_component s \<Longrightarrow> CHR ''/'' \<notin> set t \<Longrightarrow> 2 < length t \<Longrightarrow> plain_component (s @ t)"
  by (auto simp: plain_component_def dest: arg_cong [where f = length])

section \<open>Files\<close>

type_synonym 'c files = "(path \<times> 'c) list"

definition fs_read :: "'c files \<Rightarrow> path \<Rightarrow> 'c option" where
  "fs_read fs p = map_of fs p"

definition fs_write :: "path \<Rightarrow> 'c \<Rightarrow> 'c files \<Rightarrow> 'c files" where
  "fs_write p c fs = AList.update p c fs"

definition fs_remove :: "path \<Rightarrow> 'c files \<Rightarrow> 'c files" where
  "fs_remove p fs = AList.delete p fs"

definition fs_remove_all :: "path \<Rightarrow> 'c files \<Rightarrow> 'c files" where
  "fs_remove_all d fs = filter (\<lambda>x. \<not> prefix d (fst x)) fs"

definition fs_subdirs :: "path \<Rightarrow> 'c files \<Rightarrow> string list" where
  "fs_subdirs d fs =
    sort (remdups (map (\<lambda>x. fst x ! length d)
      (filter (\<lambda>x. prefix d (fst x) \<and> length d + 2 \<le> length (fst x)) fs)))"

definition fs_files_in :: "path \<Rightarrow> 'c files \<Rightarrow> string list" where
  "fs_files_in d fs =
    sort (remdups (map (\<lambda>x. last (fst x))
      (filter (\<lambda>x. prefix d (fst x) \<and> length (fst x) = length d + 1) fs)))"

definition fs_dir_exists :: "path \<Rightarrow> 'c files \<Rightarrow> bool" where
  "fs_dir_exists d fs = list_ex (\<lambda>x. strict_prefix d (fst x)) fs"

section \<open>The interface of a file store\<close>

locale file_store =
  fixes fetch :: "'fs \<Rightarrow> path \<Rightarrow> 'c option"
    and store :: "path \<Rightarrow> 'c \<Rightarrow> 'fs \<Rightarrow> 'fs"
    and drop_file :: "path \<Rightarrow> 'fs \<Rightarrow> 'fs"
    and clear_dir :: "path \<Rightarrow> 'fs \<Rightarrow> 'fs"
  assumes read_write: "fetch (store p c fs) q = (if q = p then Some c else fetch fs q)"
    and read_remove: "fetch (drop_file p fs) q = (if q = p then None else fetch fs q)"
    and read_remove_all: "fetch (clear_dir d fs) q = (if prefix d q then None else fetch fs q)"
begin

text \<open>Two trees agree below a directory.\<close>

definition same_below :: "path \<Rightarrow> 'fs \<Rightarrow> 'fs \<Rightarrow> bool" where
  "same_below d fs gs \<longleftrightarrow> (\<forall>q. prefix d q \<longrightarrow> fetch fs q = fetch gs q)"

lemma same_below_refl: "same_below d fs fs"
  by (simp add: same_below_def)

lemma same_below_trans: "same_below d fs gs \<Longrightarrow> same_below d gs hs \<Longrightarrow> same_below d fs hs"
  by (simp add: same_below_def)

lemma write_outside: "\<not> prefix d p \<Longrightarrow> same_below d fs (store p c fs)"
  by (auto simp: same_below_def read_write)

lemma remove_outside: "\<not> prefix d p \<Longrightarrow> same_below d fs (drop_file p fs)"
  by (auto simp: same_below_def read_remove)

lemma remove_all_outside: "\<not> prefix d e \<Longrightarrow> \<not> prefix e d \<Longrightarrow> same_below d fs (clear_dir e fs)"
  by (auto simp: same_below_def read_remove_all dest: prefix_same_cases)

text \<open>A run of writes and a run of removals, read back.\<close>

lemma read_fold_write:
  "fetch (fold (\<lambda>(p, c). store p c) ws fs) q = (case map_of (rev ws) q of Some c \<Rightarrow> Some c | None \<Rightarrow> fetch fs q)"
proof (induction ws arbitrary: fs)
  case (Cons w ws)
  obtain p c where w: "w = (p, c)" by (cases w)
  show ?case unfolding w
    by (auto simp: Cons.IH read_write map_add_def split: option.splits)
qed simp

lemma read_fold_remove:
  "fetch (fold drop_file ps fs) q = (if q \<in> set ps then None else fetch fs q)"
  by (induction ps arbitrary: fs) (auto simp: read_remove)

lemmas read_back = read_write read_remove read_remove_all read_fold_write read_fold_remove

end

interpretation tree: file_store fs_read fs_write fs_remove fs_remove_all
proof
  fix p q d :: path and c :: 'c and fs :: "'c files"
  show "fs_read (fs_write p c fs) q = (if q = p then Some c else fs_read fs q)"
    by (simp add: fs_read_def fs_write_def update_conv')
  show "fs_read (fs_remove p fs) q = (if q = p then None else fs_read fs q)"
    by (simp add: fs_read_def fs_remove_def delete_conv')
  show "fs_read (fs_remove_all d fs) q = (if prefix d q then None else fs_read fs q)"
    by (induction fs) (auto simp: fs_read_def fs_remove_all_def)
qed

lemma fs_read_dom: "fs_read fs p \<noteq> None \<longleftrightarrow> p \<in> fst ` set fs"
  by (simp add: fs_read_def map_of_eq_None_iff)

lemma below_two:
  "prefix d p \<and> length d + 2 \<le> length p \<and> p ! length d = n \<longleftrightarrow> (\<exists>rest. rest \<noteq> [] \<and> p = d @ n # rest)"
proof
  assume a: "prefix d p \<and> length d + 2 \<le> length p \<and> p ! length d = n"
  then obtain s where s: "p = d @ s" by (auto simp: prefix_def)
  with a obtain m rest where "s = m # rest" "rest \<noteq> []" by (cases s; cases "tl s") auto
  with a s show "\<exists>rest. rest \<noteq> [] \<and> p = d @ n # rest" by auto
next
  assume "\<exists>rest. rest \<noteq> [] \<and> p = d @ n # rest"
  then obtain rest where "rest \<noteq> []" "p = d @ n # rest" by blast
  then show "prefix d p \<and> length d + 2 \<le> length p \<and> p ! length d = n" by (cases rest) auto
qed

lemma below_one: "prefix d p \<and> length p = length d + 1 \<and> last p = n \<longleftrightarrow> p = d @ [n]"
proof
  assume a: "prefix d p \<and> length p = length d + 1 \<and> last p = n"
  then obtain s where s: "p = d @ s" "length s = 1" by (auto simp: prefix_def)
  then obtain m where "s = [m]" by (cases s) auto
  with a s show "p = d @ [n]" by simp
qed simp

lemma below_any: "strict_prefix d p \<longleftrightarrow> (\<exists>n rest. p = d @ n # rest)"
proof
  assume "strict_prefix d p"
  then obtain s where "p = d @ s" "s \<noteq> []" by (auto simp: strict_prefix_def prefix_def)
  then show "\<exists>n rest. p = d @ n # rest" by (cases s) auto
qed (auto simp: strict_prefix_def)

lemma fs_subdirs_iff:
  "n \<in> set (fs_subdirs d fs) \<longleftrightarrow> (\<exists>rest. rest \<noteq> [] \<and> fs_read fs (d @ n # rest) \<noteq> None)"
proof -
  have "n \<in> set (fs_subdirs d fs) \<longleftrightarrow>
      (\<exists>x \<in> set fs. prefix d (fst x) \<and> length d + 2 \<le> length (fst x) \<and> fst x ! length d = n)"
    by (auto simp: fs_subdirs_def)
  also have "\<dots> \<longleftrightarrow> (\<exists>x \<in> set fs. \<exists>rest. rest \<noteq> [] \<and> fst x = d @ n # rest)"
    by (simp only: below_two)
  finally show ?thesis unfolding fs_read_dom by force
qed

lemma fs_files_in_iff: "n \<in> set (fs_files_in d fs) \<longleftrightarrow> fs_read fs (d @ [n]) \<noteq> None"
proof -
  have "n \<in> set (fs_files_in d fs) \<longleftrightarrow>
      (\<exists>x \<in> set fs. prefix d (fst x) \<and> length (fst x) = length d + 1 \<and> last (fst x) = n)"
    by (auto simp: fs_files_in_def)
  also have "\<dots> \<longleftrightarrow> (\<exists>x \<in> set fs. fst x = d @ [n])"
    by (simp only: below_one)
  finally show ?thesis unfolding fs_read_dom by force
qed

lemma fs_dir_exists_iff: "fs_dir_exists d fs \<longleftrightarrow> (\<exists>n rest. fs_read fs (d @ n # rest) \<noteq> None)"
  unfolding fs_read_dom by (force simp: fs_dir_exists_def list_ex_iff below_any)

lemmas listing_iff = fs_subdirs_iff fs_files_in_iff fs_dir_exists_iff

end
