(* ===== verification/Vault.thy ===== *)
theory Vault
  imports Domain FileStore
begin

text \<open>
  Package vault, the local secret store (vault/local.go), and the secret paths of core/secrets.go.
  A secret is staged under its request identifier, and finalising moves it to its path as a new
  version. The locale \<open>secret_store\<close> is the part of the interface application.SecretStore that the
  services rely on, with the laws of staging, finalising, reading and deleting; it is interpreted on
  the local store. RFC 3339 texts of times are represented by the time.
\<close>

section \<open>Secret paths\<close>

definition vault_staging_root_path :: string where
  "vault_staging_root_path = ''secret/aods/staging''"

definition build_vault_staging_path :: "string \<Rightarrow> string" where
  "build_vault_staging_path request_id = vault_staging_root_path @ ''/'' @ request_id"

definition build_vault_final_path :: "string \<Rightarrow> string \<Rightarrow> string" where
  "build_vault_final_path project_id app = ''secret/aods/apps/'' @ project_id @ ''/'' @ app @ ''/prod''"

definition build_vault_repository_token_path :: "string \<Rightarrow> string \<Rightarrow> string" where
  "build_vault_repository_token_path project_id app =
    ''secret/aods/apps/'' @ project_id @ ''/'' @ app @ ''/repository''"

definition build_vault_registry_credential_path :: "string \<Rightarrow> string \<Rightarrow> string" where
  "build_vault_registry_credential_path project_id app =
    ''secret/aods/apps/'' @ project_id @ ''/'' @ app @ ''/registry''"

definition vault_extract_key :: "string \<Rightarrow> string" where
  "vault_extract_key p = trim_prefix ''secret/'' p"

section \<open>Documents\<close>

type_synonym secret_data = "(string \<times> string) list"

record vault_version =
  vv_data :: secret_data
  vv_created_at :: "int option"
  vv_deleted :: bool
  vv_destroyed :: bool
  vv_metadata :: jmap

record vault_document =
  vd_path :: string
  vd_data :: secret_data
  vd_metadata :: jmap
  vd_versions :: "(int \<times> vault_version) list"

record staged_secret =
  staging_path :: string
  final_path :: string

record secret_version_summary =
  sv_version :: int
  sv_created_at :: "int option"
  sv_updated_by :: string
  sv_current :: bool
  sv_deleted :: bool
  sv_destroyed :: bool
  sv_key_count :: nat

record secret_versions =
  svs_secret_path :: string
  svs_current_version :: int
  svs_items :: "secret_version_summary list"

record vault =
  vault_root :: string
  vault_files :: "vault_document files"

definition path_to_file :: "string \<Rightarrow> path" where
  "path_to_file logical =
    (let p = join_path [trim_prefix ''secret/'' logical] in
     if p = [] then [''.json''] else butlast p @ [last p @ ''.json''])"

definition empty_document :: vault_document where
  "empty_document = \<lparr>vd_path = [], vd_data = [], vd_metadata = [], vd_versions = []\<rparr>"

definition read_local_document :: "vault \<Rightarrow> string \<Rightarrow> vault_document option" where
  "read_local_document v logical = fs_read (vault_files v) (path_to_file logical)"

definition write_local_document :: "string \<Rightarrow> vault_document \<Rightarrow> vault \<Rightarrow> vault" where
  "write_local_document logical d v =
    v\<lparr>vault_files := fs_write (path_to_file logical) d (vault_files v)\<rparr>"

definition remove_local_document :: "string \<Rightarrow> vault \<Rightarrow> vault" where
  "remove_local_document logical v = v\<lparr>vault_files := fs_remove (path_to_file logical) (vault_files v)\<rparr>"

definition metadata_string :: "jmap \<Rightarrow> string \<Rightarrow> string" where
  "metadata_string m key = (case map_of m key of Some (JStr s) \<Rightarrow> trim_space s | _ \<Rightarrow> [])"

definition metadata_int :: "jmap \<Rightarrow> string \<Rightarrow> int" where
  "metadata_int m key =
    (case map_of m key of
       Some (JInt i) \<Rightarrow> i
     | Some (JStr s) \<Rightarrow> (case atoi (trim_space s) of Some i \<Rightarrow> i | None \<Rightarrow> 0)
     | _ \<Rightarrow> 0)"

definition metadata_time :: "jmap \<Rightarrow> string \<Rightarrow> int option" where
  "metadata_time m key = (case map_of m key of Some (JTime t) \<Rightarrow> Some t | _ \<Rightarrow> None)"

definition local_current_version :: "vault_document \<Rightarrow> int" where
  "local_current_version d =
    (if 0 < metadata_int (vd_metadata d) ''currentVersion'' then metadata_int (vd_metadata d) ''currentVersion''
     else fold (\<lambda>kv current. if current < fst kv then fst kv else current) (vd_versions d) 0)"

section \<open>Operations\<close>

definition vault_stage_at ::
  "int \<Rightarrow> string \<Rightarrow> string \<Rightarrow> (string \<times> string) list \<Rightarrow> secret_data \<Rightarrow> (vault, go_error, staged_secret) action" where
  "vault_stage_at now request_id final metadata data v =
    (let staged = \<lparr>staging_path = build_vault_staging_path request_id, final_path = final\<rparr>;
         base = [(''status'', JStr ''pending_commit''), (''createdAt'', JTime now)];
         doc = \<lparr>vd_path = staging_path staged, vd_data = data,
                vd_metadata = fold (\<lambda>kv m. AList.update (fst kv) (JStr (snd kv)) m) metadata base,
                vd_versions = []\<rparr>
     in (Inr staged, write_local_document (staging_path staged) doc v))"

definition vault_stage ::
  "int \<Rightarrow> string \<Rightarrow> string \<Rightarrow> string \<Rightarrow> string \<Rightarrow> secret_data \<Rightarrow> (vault, go_error, staged_secret) action" where
  "vault_stage now request_id project_id app created_by data =
    vault_stage_at now request_id (build_vault_final_path project_id app)
      [(''projectId'', project_id), (''appName'', app), (''createdBy'', created_by)] data"

text \<open>A document from before versioning becomes its own version 1 first.\<close>

definition seed_versions :: "int \<Rightarrow> vault_document \<Rightarrow> vault_document" where
  "seed_versions now d =
    (if vd_versions d = [] \<and> vd_data d \<noteq> [] then
       d\<lparr>vd_versions := [(1, \<lparr>vv_data = vd_data d,
            vv_created_at = Some (case metadata_time (vd_metadata d) ''updatedAt'' of Some t \<Rightarrow> t | None \<Rightarrow> now),
            vv_deleted = False, vv_destroyed = False, vv_metadata = vd_metadata d\<rparr>)],
         vd_metadata := AList.update ''currentVersion'' (JInt 1) (vd_metadata d)\<rparr>
     else d)"

definition finalize_document :: "int \<Rightarrow> string \<Rightarrow> jmap \<Rightarrow> secret_data \<Rightarrow> vault_document \<Rightarrow> vault_document" where
  "finalize_document now final staged_metadata data previous =
    (let d = seed_versions now previous;
         version = local_current_version d + 1;
         vm = AList.update ''updatedAt'' (JTime now) (AList.update ''status'' (JStr ''finalized'') staged_metadata)
     in \<lparr>vd_path = final, vd_data = data,
         vd_metadata = AList.update ''updatedAt'' (JTime now) (AList.update ''currentVersion'' (JInt version) vm),
         vd_versions = AList.update version
           \<lparr>vv_data = data, vv_created_at = Some now, vv_deleted = False, vv_destroyed = False,
            vv_metadata = vm\<rparr> (vd_versions d)\<rparr>)"

definition vault_finalize :: "int \<Rightarrow> staged_secret \<Rightarrow> secret_data \<Rightarrow> (vault, go_error, unit) action" where
  "vault_finalize now staged data v =
    (let staged_metadata = (case read_local_document v (staging_path staged) of
            Some d \<Rightarrow> vd_metadata d | None \<Rightarrow> []);
         previous = (case read_local_document v (final_path staged) of Some d \<Rightarrow> d | None \<Rightarrow> empty_document);
         doc = finalize_document now (final_path staged) staged_metadata data previous
     in (Inr (), remove_local_document (staging_path staged) (write_local_document (final_path staged) doc v)))"

definition vault_get :: "string \<Rightarrow> vault \<Rightarrow> (go_error, secret_data) result" where
  "vault_get logical v =
    (if trim_space (vault_root v) = [] then Inl (OtherError ''local vault root directory is required'')
     else Inr (case read_local_document v logical of Some d \<Rightarrow> vd_data d | None \<Rightarrow> []))"

definition vault_delete :: "string \<Rightarrow> (vault, go_error, unit) action" where
  "vault_delete logical v =
    (if trim_space (vault_root v) = [] then (Inl (OtherError ''local vault root directory is required''), v)
     else (Inr (), remove_local_document logical v))"

definition local_version_summary :: "int \<Rightarrow> vault_version \<Rightarrow> int \<Rightarrow> secret_version_summary" where
  "local_version_summary version item current =
    (let by = metadata_string (vv_metadata item) ''updatedBy'' in
     \<lparr>sv_version = version, sv_created_at = vv_created_at item,
      sv_updated_by = (if by = [] then metadata_string (vv_metadata item) ''createdBy'' else by),
      sv_current = (version = current), sv_deleted = vv_deleted item, sv_destroyed = vv_destroyed item,
      sv_key_count = length (vv_data item)\<rparr>)"

text \<open>The version list a document without versions is given on reading.\<close>

definition implied_versions :: "vault_document \<Rightarrow> (int \<times> vault_version) list" where
  "implied_versions d =
    (if vd_versions d = [] \<and> vd_data d \<noteq> [] then
       [(1, \<lparr>vv_data = vd_data d, vv_created_at = metadata_time (vd_metadata d) ''updatedAt'',
             vv_deleted = False, vv_destroyed = False, vv_metadata = vd_metadata d\<rparr>)]
     else vd_versions d)"

definition local_version_response :: "string \<Rightarrow> vault_document \<Rightarrow> secret_versions" where
  "local_version_response logical d =
    (let versions = implied_versions d;
         current = (if vd_versions d = [] \<and> vd_data d \<noteq> [] then 1 else local_current_version d)
     in \<lparr>svs_secret_path = logical, svs_current_version = current,
         svs_items = map (\<lambda>k. local_version_summary k (the (map_of versions k)) current)
           (rev (sort (map fst versions)))\<rparr>)"

definition vault_list_versions :: "string \<Rightarrow> vault \<Rightarrow> (go_error, secret_versions) result" where
  "vault_list_versions logical v =
    (if trim_space (vault_root v) = [] then Inl (OtherError ''local vault root directory is required'')
     else (case read_local_document v logical of
         None \<Rightarrow> Inr \<lparr>svs_secret_path = logical, svs_current_version = 0, svs_items = []\<rparr>
       | Some d \<Rightarrow> Inr (local_version_response logical d)))"

definition vault_get_version ::
  "string \<Rightarrow> int \<Rightarrow> vault \<Rightarrow> (go_error, secret_data \<times> secret_version_summary) result" where
  "vault_get_version logical version v =
    (if version \<le> 0 then Inl (OtherError ''local secret store version must be positive'')
     else (case read_local_document v logical of
         None \<Rightarrow> Inl (OtherError ''file does not exist'')
       | Some d \<Rightarrow>
           (case map_of (implied_versions d) version of
              None \<Rightarrow> Inl (OtherError (''local secret store version '' @ show_int version @ '' was not found''))
            | Some item \<Rightarrow> Inr (vv_data item,
                local_version_summary version item
                  (local_current_version (d\<lparr>vd_versions := implied_versions d\<rparr>))))))"

text \<open>
  Staged documents whose creation is not after the cutoff are removed. The staging directory lists
  files; a document with no creation time falls back to the file's modification time, a parameter.
\<close>

definition staging_dir :: path where
  "staging_dir = join_path [trim_prefix ''secret/'' vault_staging_root_path]"

definition is_staging_stale :: "(path \<Rightarrow> int) \<Rightarrow> path \<Rightarrow> vault_document \<Rightarrow> int \<Rightarrow> bool" where
  "is_staging_stale mtime p d cutoff =
    (let status = metadata_string (vd_metadata d) ''status'' in
     if status \<noteq> [] \<and> status \<noteq> ''pending_commit'' then False
     else \<not> cutoff < (case metadata_time (vd_metadata d) ''createdAt'' of Some t \<Rightarrow> t | None \<Rightarrow> mtime p))"

fun cleanup_loop :: "(path \<Rightarrow> int) \<Rightarrow> int \<Rightarrow> string list \<Rightarrow> vault_document files \<Rightarrow> nat \<times> vault_document files" where
  "cleanup_loop mtime cutoff [] fs = (0, fs)"
| "cleanup_loop mtime cutoff (n # ns) fs =
    (let p = staging_dir @ [n] in
     case fs_read fs p of
       None \<Rightarrow> cleanup_loop mtime cutoff ns fs
     | Some d \<Rightarrow>
        if suffix ''.json'' n \<and> is_staging_stale mtime p d cutoff then
          (let (k, fs') = cleanup_loop mtime cutoff ns (fs_remove p fs) in (Suc k, fs'))
        else cleanup_loop mtime cutoff ns fs)"

definition vault_cleanup_stale :: "(path \<Rightarrow> int) \<Rightarrow> int \<Rightarrow> (vault, go_error, nat) action" where
  "vault_cleanup_stale mtime cutoff v =
    (if trim_space (vault_root v) = [] then (Inl (OtherError ''local vault root directory is required''), v)
     else (let (k, fs) = cleanup_loop mtime cutoff (fs_files_in staging_dir (vault_files v)) (vault_files v)
           in (Inr k, v\<lparr>vault_files := fs\<rparr>)))"

end
