(* ===== verification/Manifests.thy ===== *)
theory Manifests
  imports AppModel Vault
begin

text \<open>
  The Kubernetes and Flux manifests that the manifest store renders (the render functions of
  store_local.go, flux_support.go and fluxscaffold/scaffold.go). A manifest is the document tree of
  its YAML text, in the order of the template; the values that pass through a template are strings,
  whatever a YAML parser would make of their unquoted text. Times in annotations are cut to seconds,
  as RFC 3339 writes them.
\<close>

datatype yaml =
    YStr string | YInt int | YBool bool | YTime int | YMap "(string \<times> yaml) list" | YSeq "yaml list"

text \<open>Decoding: the value at a path of keys, a string, an integer.\<close>

fun yget :: "string list \<Rightarrow> yaml \<Rightarrow> yaml option" where
  "yget [] y = Some y"
| "yget (k # ks) (YMap kvs) = (case map_of kvs k of None \<Rightarrow> None | Some y \<Rightarrow> yget ks y)"
| "yget (k # ks) _ = None"

definition ystring :: "string list \<Rightarrow> yaml \<Rightarrow> string" where
  "ystring ks y = (case yget ks y of Some (YStr s) \<Rightarrow> s | _ \<Rightarrow> [])"

definition yint :: "string list \<Rightarrow> yaml \<Rightarrow> int" where
  "yint ks y = (case yget ks y of Some (YInt i) \<Rightarrow> i | _ \<Rightarrow> 0)"

definition ytime :: "string list \<Rightarrow> yaml \<Rightarrow> int" where
  "ytime ks y = (case yget ks y of Some (YTime t) \<Rightarrow> t | _ \<Rightarrow> 0)"

definition yitems :: "string list \<Rightarrow> yaml \<Rightarrow> yaml list" where
  "yitems ks y = (case yget ks y of Some (YSeq ys) \<Rightarrow> ys | _ \<Rightarrow> [])"

definition show_bool :: "bool \<Rightarrow> string" where
  "show_bool b = (if b then ''true'' else ''false'')"

definition to_seconds :: "int \<Rightarrow> int" where
  "to_seconds t = t div 1000000000 * 1000000000"

definition quoted :: "string \<Rightarrow> string" where
  "quoted s = [CHR 0x22] @ s @ [CHR 0x22]"

definition text_lines :: "string list \<Rightarrow> string" where
  "text_lines ls = concat (map (\<lambda>l. l @ [CHR 0x0A]) ls)"

section \<open>Names and constants\<close>

definition default_metrics_path :: string where "default_metrics_path = ''/metrics''"

definition default_metrics_interval :: string where "default_metrics_interval = ''30s''"

definition default_envoy_metrics_path :: string where "default_envoy_metrics_path = ''/stats/prometheus''"

definition default_envoy_metrics_port :: int where "default_envoy_metrics_port = 15090"

definition bootstrap_root_file_name :: string where "bootstrap_root_file_name = ''root-kustomization.yaml''"

record flux_config =
  fc_namespace :: string
  fc_source :: string

definition flux_namespace :: "flux_config \<Rightarrow> string" where
  "flux_namespace cfg = (let n = trim_space (fc_namespace cfg) in if n = [] then ''flux-system'' else n)"

definition flux_source_name :: "flux_config \<Rightarrow> string" where
  "flux_source_name cfg = (let n = trim_space (fc_source cfg) in if n = [] then ''aods-manifest'' else n)"

definition flux_child_name :: "app_record \<Rightarrow> string" where
  "flux_child_name r = ar_project_id r @ ''-'' @ ar_name r"

definition flux_overlay_path :: "app_record \<Rightarrow> string" where
  "flux_overlay_path r =
    (let e = trim_space (ar_environment r) in
     join_with ''/'' (join_path [''apps'', ar_project_id r, ar_name r, ''overlays'', if e = [] then ''shared'' else e]))"

definition workload_file_name :: "app_record \<Rightarrow> string" where
  "workload_file_name r = (if is_canary (ar_strategy r) then ''rollout.yaml'' else ''deployment.yaml'')"

definition service_host :: "app_record \<Rightarrow> string" where
  "service_host r = ar_name r @ ''.'' @ ar_namespace r @ ''.svc.cluster.local''"

section \<open>Workloads\<close>

definition workload_annotations :: "app_record \<Rightarrow> (string \<times> yaml) list" where
  "workload_annotations r =
    [
      (''aods.io/project-id'', YStr (ar_project_id r)),
      (''aods.io/application-name'', YStr (ar_name r)),
      (''aods.io/application-description'', YStr (ar_description r)),
      (''aods.io/deployment-strategy'', YStr (ar_strategy r)),
      (''aods.io/repository-id'', YStr (ar_repository_id r)),
      (''aods.io/repository-url'', YStr (ar_repository_url r)),
      (''aods.io/repository-branch'', YStr (ar_repository_branch r)),
      (''aods.io/repository-service-id'', YStr (ar_repository_service_id r)),
      (''aods.io/config-path'', YStr (ar_config_path r)),
      (''aods.io/repository-poll-interval-seconds'', YStr (show_int (ar_poll_interval r))),
      (''aods.io/mesh-enabled'', YStr (show_bool (ar_mesh r))),
      (''aods.io/loadbalancer-enabled'', YStr (show_bool (ar_load_balancer r))),
      (''aods.io/created-at'', YTime (to_seconds (ar_created_at r))),
      (''aods.io/updated-at'', YTime (to_seconds (ar_updated_at r)))]"

definition workload_template_annotations :: "app_record \<Rightarrow> (string \<times> yaml) list" where
  "workload_template_annotations r =
    [(''aods.io/mesh-enabled'', YStr (show_bool (ar_mesh r))),
     (''aods.io/loadbalancer-enabled'', YStr (show_bool (ar_load_balancer r)))] @
    (if ar_mesh r then [(''sidecar.istio.io/inject'', YStr ''true'')] else [])"

definition workload_template_labels :: "app_record \<Rightarrow> (string \<times> yaml) list" where
  "workload_template_labels r =
    (if ar_mesh r then [(''sidecar.istio.io/inject'', YStr ''true'')] else []) @
    [(''app'', YStr (ar_name r)), (''app.kubernetes.io/name'', YStr (ar_name r)),
     (''app.kubernetes.io/part-of'', YStr (ar_project_id r))]"

definition probe_block :: "app_record \<Rightarrow> (string \<times> yaml) list" where
  "probe_block r =
    (if \<not> ar_required_probes r then [] else [
       (''readinessProbe'', YMap [
           (''httpGet'', YMap [
               (''path'', YStr ''/''),
               (''port'', YStr ''http'')]),
           (''initialDelaySeconds'', YInt 5),
           (''periodSeconds'', YInt 10)]),
       (''livenessProbe'', YMap [
           (''httpGet'', YMap [
               (''path'', YStr ''/''),
               (''port'', YStr ''http'')]),
           (''initialDelaySeconds'', YInt 15),
           (''periodSeconds'', YInt 20)])])"

definition env_from_block :: "app_record \<Rightarrow> (string \<times> yaml) list" where
  "env_from_block r =
    (if ar_secret_path r = [] then []
     else [(''envFrom'', YSeq [YMap [(''secretRef'', YMap [(''name'', YStr (ar_name r @ ''-secrets''))])]])])"

definition image_pull_secrets_block :: "app_record \<Rightarrow> (string \<times> yaml) list" where
  "image_pull_secrets_block r =
    (if ar_registry_secret_path r = [] then []
     else [(''imagePullSecrets'', YSeq [YMap [(''name'', YStr (ar_name r @ ''-registry''))]])])"

definition container_resources_block :: "float_unit \<Rightarrow> resource_requirements \<Rightarrow> (string \<times> yaml) list" where
  "container_resources_block fu res =
    (let e = (case normalize_resource_requirements fu res True of
                Inr x \<Rightarrow> x | Inl _ \<Rightarrow> default_resource_requirements)
     in [(''resources'', YMap [
          (''requests'', YMap [(''cpu'', YStr (rq_cpu (rr_requests e))), (''memory'', YStr (rq_memory (rr_requests e)))]),
          (''limits'', YMap [(''cpu'', YStr (rq_cpu (rr_limits e))), (''memory'', YStr (rq_memory (rr_limits e)))])])])"

definition render_deployment :: "float_unit \<Rightarrow> app_record \<Rightarrow> yaml" where
  "render_deployment fu r =
    YMap [
      (''apiVersion'', YStr ''apps/v1''),
      (''kind'', YStr ''Deployment''),
      (''metadata'', YMap [
          (''name'', YStr (ar_name r)),
          (''namespace'', YStr (ar_namespace r)),
          (''labels'', YMap [
              (''app'', YStr (ar_name r)),
              (''app.kubernetes.io/name'', YStr (ar_name r)),
              (''app.kubernetes.io/part-of'', YStr (ar_project_id r))]),
          (''annotations'', YMap (workload_annotations r))]),
      (''spec'', YMap [
          (''replicas'', YInt (ar_replicas r)),
          (''selector'', YMap [
              (''matchLabels'', YMap [
                  (''app'', YStr (ar_name r)),
                  (''app.kubernetes.io/name'', YStr (ar_name r))])]),
          (''template'', YMap [
              (''metadata'', YMap [
                  (''annotations'', YMap (workload_template_annotations r)),
                  (''labels'', YMap (workload_template_labels r))]),
              (''spec'', YMap (image_pull_secrets_block r @
                  [
                  (''containers'', YSeq [
                      YMap ([
                        (''name'', YStr (ar_name r)),
                        (''image'', YStr (ar_image r)),
                        (''ports'', YSeq [
                            YMap [
                              (''name'', YStr ''http''),
                              (''containerPort'', YInt (ar_service_port r))]])] @
                        probe_block r @
                        env_from_block r @
                        container_resources_block fu (ar_resources r))])]))])])]"

definition render_rollout :: "float_unit \<Rightarrow> app_record \<Rightarrow> yaml" where
  "render_rollout fu r =
    YMap [
      (''apiVersion'', YStr ''argoproj.io/v1alpha1''),
      (''kind'', YStr ''Rollout''),
      (''metadata'', YMap [
          (''name'', YStr (ar_name r)),
          (''namespace'', YStr (ar_namespace r)),
          (''labels'', YMap [
              (''app'', YStr (ar_name r)),
              (''app.kubernetes.io/name'', YStr (ar_name r)),
              (''app.kubernetes.io/part-of'', YStr (ar_project_id r))]),
          (''annotations'', YMap (workload_annotations r))]),
      (''spec'', YMap [
          (''replicas'', YInt (ar_replicas r)),
          (''selector'', YMap [
              (''matchLabels'', YMap [
                  (''app'', YStr (ar_name r)),
                  (''app.kubernetes.io/name'', YStr (ar_name r))])]),
          (''template'', YMap [
              (''metadata'', YMap [
                  (''annotations'', YMap (workload_template_annotations r)),
                  (''labels'', YMap (workload_template_labels r))]),
              (''spec'', YMap (image_pull_secrets_block r @
                  [
                  (''containers'', YSeq [
                      YMap ([
                        (''name'', YStr (ar_name r)),
                        (''image'', YStr (ar_image r)),
                        (''ports'', YSeq [
                            YMap [
                              (''name'', YStr ''http''),
                              (''containerPort'', YInt (ar_service_port r))]])] @
                        probe_block r @
                        env_from_block r @
                        container_resources_block fu (ar_resources r))])]))]),
          (''strategy'', YMap [
              (''canary'', YMap [
                  (''stableService'', YStr (ar_name r)),
                  (''canaryService'', YStr (ar_name r @ ''-canary'')),
                  (''trafficRouting'', YMap [
                      (''istio'', YMap [
                          (''virtualService'', YMap [
                              (''name'', YStr (ar_name r)),
                              (''routes'', YSeq [YStr ''primary''])])])]),
                  (''steps'', YSeq [
                      YMap [(''setWeight'', YInt 5)],
                      YMap [(''pause'', YMap [])],
                      YMap [(''setWeight'', YInt 25)],
                      YMap [(''pause'', YMap [])],
                      YMap [(''setWeight'', YInt 50)],
                      YMap [(''pause'', YMap [])],
                      YMap [(''setWeight'', YInt 100)]])])])])]"

definition render_workload :: "float_unit \<Rightarrow> app_record \<Rightarrow> yaml" where
  "render_workload fu r = (if is_canary (ar_strategy r) then render_rollout fu r else render_deployment fu r)"

section \<open>Services and routing\<close>

definition service_type_block :: "app_record \<Rightarrow> (string \<times> yaml) list" where
  "service_type_block r = (if ar_load_balancer r then [(''type'', YStr ''LoadBalancer'')] else [])"

definition port_item :: "string \<Rightarrow> int \<Rightarrow> yaml" where
  "port_item name port = YMap [(''name'', YStr name), (''port'', YInt port), (''targetPort'', YInt port)]"

definition service_ports_block :: "app_record \<Rightarrow> (string \<times> yaml) list" where
  "service_ports_block r =
    [(''ports'', YSeq ([port_item ''http'' (ar_service_port r)] @
       (if ar_mesh r then [port_item ''envoy-metrics'' default_envoy_metrics_port] else [])))]"

definition render_service :: "app_record \<Rightarrow> yaml" where
  "render_service r =
    YMap [
      (''apiVersion'', YStr ''v1''),
      (''kind'', YStr ''Service''),
      (''metadata'', YMap [
          (''name'', YStr (ar_name r)),
          (''namespace'', YStr (ar_namespace r)),
          (''labels'', YMap [
              (''app'', YStr (ar_name r)),
              (''app.kubernetes.io/name'', YStr (ar_name r)),
              (''app.kubernetes.io/part-of'', YStr (ar_project_id r)),
              (''aods.io/metrics-scrape'', YStr (''true''))]),
          (''annotations'', YMap [
              (''prometheus.io/scrape'', YStr (''true'')),
              (''prometheus.io/path'', YStr default_metrics_path),
              (''prometheus.io/port'', YStr (show_int (ar_service_port r)))])]),
      (''spec'', YMap (service_type_block r @
          [
          (''selector'', YMap [
              (''app'', YStr (ar_name r)),
              (''app.kubernetes.io/name'', YStr (ar_name r))])] @
          service_ports_block r))]"

definition render_canary_service :: "app_record \<Rightarrow> yaml" where
  "render_canary_service r =
    YMap [
      (''apiVersion'', YStr ''v1''),
      (''kind'', YStr ''Service''),
      (''metadata'', YMap [
          (''name'', YStr (ar_name r @ ''-canary'')),
          (''namespace'', YStr (ar_namespace r)),
          (''labels'', YMap [
              (''app'', YStr (ar_name r)),
              (''app.kubernetes.io/name'', YStr (ar_name r)),
              (''app.kubernetes.io/part-of'', YStr (ar_project_id r))])]),
      (''spec'', YMap [
          (''selector'', YMap [
              (''app'', YStr (ar_name r)),
              (''app.kubernetes.io/name'', YStr (ar_name r))]),
          (''ports'', YSeq [
              YMap [
                (''name'', YStr ''http''),
                (''port'', YInt (ar_service_port r)),
                (''targetPort'', YInt (ar_service_port r))],
              YMap [
                (''name'', YStr ''envoy-metrics''),
                (''port'', YInt (default_envoy_metrics_port)),
                (''targetPort'', YInt (default_envoy_metrics_port))]])])]"

definition endpoint_item :: "string \<Rightarrow> string \<Rightarrow> yaml" where
  "endpoint_item port p =
    YMap [(''port'', YStr port), (''path'', YStr p), (''interval'', YStr default_metrics_interval)]"

definition endpoints_block :: "app_record \<Rightarrow> yaml list" where
  "endpoints_block r =
    [endpoint_item ''http'' default_metrics_path] @
    (if ar_mesh r then [endpoint_item ''envoy-metrics'' default_envoy_metrics_path] else [])"

definition render_service_monitor :: "app_record \<Rightarrow> yaml" where
  "render_service_monitor r =
    YMap [
      (''apiVersion'', YStr ''monitoring.coreos.com/v1''),
      (''kind'', YStr ''ServiceMonitor''),
      (''metadata'', YMap [
          (''name'', YStr (ar_name r)),
          (''namespace'', YStr (ar_namespace r)),
          (''labels'', YMap [
              (''app.kubernetes.io/name'', YStr (ar_name r)),
              (''app.kubernetes.io/part-of'', YStr (ar_project_id r)),
              (''prometheus'', YStr ''argo-cd-grafana''),
              (''release'', YStr ''kube-prometheus-stack'')])]),
      (''spec'', YMap [
          (''namespaceSelector'', YMap [(''matchNames'', YSeq [YStr (ar_namespace r)])]),
          (''selector'', YMap [
              (''matchLabels'', YMap [
                  (''aods.io/metrics-scrape'', YStr (''true'')),
                  (''app.kubernetes.io/name'', YStr (ar_name r))])]),
          (''endpoints'', YSeq (endpoints_block r))])]"

definition render_prometheus_rule :: "app_record \<Rightarrow> string \<Rightarrow> yaml" where
  "render_prometheus_rule r flux_ns =
    (let ns = (if trim_space flux_ns = [] then ''flux-system'' else flux_ns);
         pod_regex = ar_name r @ ''-[a-z0-9]+(?:-[a-z0-9]+)?''
     in YMap [
      (''apiVersion'', YStr ''monitoring.coreos.com/v1''),
      (''kind'', YStr ''PrometheusRule''),
      (''metadata'', YMap [
          (''name'', YStr (ar_name r)),
          (''namespace'', YStr (ar_namespace r)),
          (''labels'', YMap [
              (''app.kubernetes.io/name'', YStr (ar_name r)),
              (''app.kubernetes.io/part-of'', YStr (ar_project_id r)),
              (''release'', YStr ''kube-prometheus-stack'')])]),
      (''spec'', YMap [
          (''groups'', YSeq [
              YMap [
                (''name'', YStr (ar_name r @ ''-runtime'')),
                (''rules'', YSeq [
                    YMap [
                      (''alert'', YStr ''AODSApplicationHighErrorRate''),
                      (''expr'', YStr (text_lines [
                          ''('',
                          ''  100 * (sum(rate(istio_requests_total{reporter='' @ quoted (''destination'') @ '',destination_workload_namespace='' @ quoted (ar_namespace r) @ '',destination_app='' @ quoted (ar_name r) @ '',response_code=~'' @ quoted (''5..'') @ ''}[5m])) / clamp_min(sum(rate(istio_requests_total{reporter='' @ quoted (''destination'') @ '',destination_workload_namespace='' @ quoted (ar_namespace r) @ '',destination_app='' @ quoted (ar_name r) @ ''}[5m])), 0.001))'',
                          ''  or'',
                          ''  100 * (sum(rate(http_server_requests_seconds_count{namespace='' @ quoted (ar_namespace r) @ '',application='' @ quoted (ar_name r) @ '',status=~'' @ quoted (''5..'') @ ''}[5m])) / clamp_min(sum(rate(http_server_requests_seconds_count{namespace='' @ quoted (ar_namespace r) @ '',application='' @ quoted (ar_name r) @ ''}[5m])), 0.001))'',
                          ''  or vector(0)'',
                          '') > 5''])),
                      (''for'', YStr ''5m''),
                      (''labels'', YMap [
                          (''severity'', YStr ''warning''),
                          (''projectId'', YStr (ar_project_id r)),
                          (''applicationId'', YStr (ar_id r))]),
                      (''annotations'', YMap [
                          (''summary'', YStr (ar_name r @ '' 5xx '' @ utf8 [235, 185, 132, 236, 156, 168, 236, 157, 180] @ '' '' @ utf8 [235, 134, 146, 236, 138, 181, 235, 139, 136, 235, 139, 164] @ ''.'')),
                          (''description'', YStr (utf8 [236, 181, 156, 234, 183, 188] @ '' 5'' @ utf8 [235, 182, 132] @ '' '' @ utf8 [235, 143, 153, 236, 149, 136] @ '' 5xx '' @ utf8 [235, 185, 132, 236, 156, 168, 236, 157, 180] @ '' 5%'' @ utf8 [235, 165, 188] @ '' '' @ utf8 [236, 180, 136, 234, 179, 188, 237, 150, 136, 236, 138, 181, 235, 139, 136, 235, 139, 164] @ ''.''))])],
                    YMap [
                      (''alert'', YStr ''AODSApplicationHighLatency''),
                      (''expr'', YStr (text_lines [
                          ''('',
                          ''  histogram_quantile(0.95, sum(rate(istio_request_duration_milliseconds_bucket{reporter='' @ quoted (''destination'') @ '',destination_workload_namespace='' @ quoted (ar_namespace r) @ '',destination_app='' @ quoted (ar_name r) @ ''}[5m])) by (le))'',
                          ''  or'',
                          ''  histogram_quantile(0.95, sum(rate(istio_request_duration_seconds_bucket{namespace='' @ quoted (ar_namespace r) @ '',application='' @ quoted (ar_name r) @ ''}[5m])) by (le)) * 1000'',
                          ''  or vector(0)'',
                          '') > 1000''])),
                      (''for'', YStr ''5m''),
                      (''labels'', YMap [
                          (''severity'', YStr ''warning''),
                          (''projectId'', YStr (ar_project_id r)),
                          (''applicationId'', YStr (ar_id r))]),
                      (''annotations'', YMap [
                          (''summary'', YStr (ar_name r @ '' p95 '' @ utf8 [236, 167, 128, 236, 151, 176, 236, 139, 156, 234, 176, 132, 236, 157, 180] @ '' '' @ utf8 [235, 134, 146, 236, 138, 181, 235, 139, 136, 235, 139, 164] @ ''.'')),
                          (''description'', YStr (utf8 [236, 181, 156, 234, 183, 188] @ '' 5'' @ utf8 [235, 182, 132] @ '' '' @ utf8 [235, 143, 153, 236, 149, 136] @ '' p95 '' @ utf8 [236, 167, 128, 236, 151, 176, 236, 139, 156, 234, 176, 132, 236, 157, 180] @ '' 1000ms'' @ utf8 [235, 165, 188] @ '' '' @ utf8 [236, 180, 136, 234, 179, 188, 237, 150, 136, 236, 138, 181, 235, 139, 136, 235, 139, 164] @ ''.''))])],
                    YMap [
                      (''alert'', YStr ''AODSApplicationPodRestarting''),
                      (''expr'', YStr (text_lines [
                          ''sum(increase(kube_pod_container_status_restarts_total{namespace='' @
                            quoted (ar_namespace r) @ '',pod=~'' @ quoted (pod_regex) @
                            '',container!='' @ quoted ([]) @ ''}[10m])) > 0''])),
                      (''for'', YStr ''1m''),
                      (''labels'', YMap [
                          (''severity'', YStr ''warning''),
                          (''projectId'', YStr (ar_project_id r)),
                          (''applicationId'', YStr (ar_id r))]),
                      (''annotations'', YMap [
                          (''summary'', YStr (ar_name r @ '' pod '' @ utf8 [236, 158, 172, 236, 139, 156, 236, 158, 145, 236, 157, 180] @ '' '' @ utf8 [234, 176, 144, 236, 167, 128, 235, 144, 152, 236, 151, 136, 236, 138, 181, 235, 139, 136, 235, 139, 164] @ ''.'')),
                          (''description'', YStr (utf8 [236, 181, 156, 234, 183, 188] @ '' 10'' @ utf8 [235, 182, 132] @ '' '' @ utf8 [235, 143, 153, 236, 149, 136] @ '' '' @ utf8 [236, 149, 160, 237, 148, 140, 235, 166, 172, 236, 188, 128, 236, 157, 180, 236, 133, 152] @ '' pod container restart count'' @ utf8 [234, 176, 128] @ '' '' @ utf8 [236, 166, 157, 234, 176, 128, 237, 150, 136, 236, 138, 181, 235, 139, 136, 235, 139, 164] @ ''.''))])],
                    YMap [
                      (''alert'', YStr ''AODSApplicationPodsNotRunning''),
                      (''expr'', YStr (text_lines [
                          ''sum(kube_pod_status_phase{namespace='' @ quoted (ar_namespace r) @
                            '',pod=~'' @ quoted (pod_regex) @ '',phase=~'' @ quoted
                            (''Failed|Pending|Unknown'') @ ''}) > 0''])),
                      (''for'', YStr ''5m''),
                      (''labels'', YMap [
                          (''severity'', YStr ''critical''),
                          (''projectId'', YStr (ar_project_id r)),
                          (''applicationId'', YStr (ar_id r))]),
                      (''annotations'', YMap [
                          (''summary'', YStr (ar_name r @ '' pod'' @ utf8 [234, 176, 128] @ '' '' @ utf8 [236, 160, 149, 236, 131, 129] @ '' '' @ utf8 [236, 139, 164, 237, 150, 137] @ '' '' @ utf8 [236, 131, 129, 237, 131, 156, 234, 176, 128] @ '' '' @ utf8 [236, 149, 132, 235, 139, 153, 235, 139, 136, 235, 139, 164] @ ''.'')),
                          (''description'', YStr (utf8 [236, 149, 160, 237, 148, 140, 235, 166, 172, 236, 188, 128, 236, 157, 180, 236, 133, 152] @ '' pod '' @ utf8 [236, 164, 145] @ '' Failed, Pending, Unknown '' @ utf8 [236, 131, 129, 237, 131, 156, 234, 176, 128] @ '' 5'' @ utf8 [235, 182, 132] @ '' '' @ utf8 [236, 157, 180, 236, 131, 129] @ '' '' @ utf8 [236, 156, 160, 236, 167, 128, 235, 144, 152, 234, 179, 160] @ '' '' @ utf8 [236, 158, 136, 236, 138, 181, 235, 139, 136, 235, 139, 164] @ ''.''))])],
                    YMap [
                      (''alert'', YStr ''AODSApplicationFluxDegraded''),
                      (''expr'', YStr (text_lines [
                          ''gotk_reconcile_condition{namespace='' @ quoted (ns) @ '',name='' @
                            quoted (flux_child_name r) @ '',type='' @ quoted (''Ready'') @
                            '',status='' @ quoted (''False'') @ ''} > 0''])),
                      (''for'', YStr ''5m''),
                      (''labels'', YMap [
                          (''severity'', YStr ''critical''),
                          (''projectId'', YStr (ar_project_id r)),
                          (''applicationId'', YStr (ar_id r))]),
                      (''annotations'', YMap [
                          (''summary'', YStr (ar_name r @ '' Flux '' @ utf8 [235, 143, 153, 234, 184, 176, 237, 153, 148, 234, 176, 128] @ '' '' @ utf8 [236, 139, 164, 237, 140, 168, 237, 150, 136, 236, 138, 181, 235, 139, 136, 235, 139, 164] @ ''.'')),
                          (''description'', YStr (''Flux Kustomization Ready=False '' @ utf8 [236, 131, 129, 237, 131, 156, 234, 176, 128] @ '' 5'' @ utf8 [235, 182, 132] @ '' '' @ utf8 [236, 157, 180, 236, 131, 129] @ '' '' @ utf8 [236, 156, 160, 236, 167, 128, 235, 144, 152, 234, 179, 160] @ '' '' @ utf8 [236, 158, 136, 236, 138, 181, 235, 139, 136, 235, 139, 164] @ ''.''))])]])]])])])"

definition render_virtual_service :: "app_record \<Rightarrow> yaml" where
  "render_virtual_service r =
    (let host = service_host r in
     if is_canary (ar_strategy r) then YMap [
        (''apiVersion'', YStr ''networking.istio.io/v1beta1''),
        (''kind'', YStr ''VirtualService''),
        (''metadata'', YMap [
            (''name'', YStr (ar_name r)),
            (''namespace'', YStr (ar_namespace r))]),
        (''spec'', YMap [
            (''hosts'', YSeq [YStr host]),
            (''http'', YSeq [
                YMap [
                  (''name'', YStr ''primary''),
                  (''route'', YSeq [
                      YMap [
                        (''destination'', YMap [(''host'', YStr host)]),
                        (''weight'', YInt 100)],
                      YMap [
                        (''destination'', YMap [
                            (''host'', YStr (ar_name r @ ''-canary.'' @ ar_namespace r @ ''.svc.cluster.local''))]),
                        (''weight'', YInt 0)]])]])])]
     else YMap [
        (''apiVersion'', YStr ''networking.istio.io/v1beta1''),
        (''kind'', YStr ''VirtualService''),
        (''metadata'', YMap [
            (''name'', YStr (ar_name r)),
            (''namespace'', YStr (ar_namespace r))]),
        (''spec'', YMap [
            (''hosts'', YSeq [YStr host]),
            (''http'', YSeq [
                YMap [
                  (''route'', YSeq [
                      YMap [
                        (''destination'', YMap [
                            (''host'', YStr host),
                            (''subset'', YStr ''stable'')])]])]])])])"

definition render_destination_rule :: "app_record \<Rightarrow> yaml" where
  "render_destination_rule r =
    (let host = service_host r in
     if is_canary (ar_strategy r) then YMap [
        (''apiVersion'', YStr ''networking.istio.io/v1beta1''),
        (''kind'', YStr ''DestinationRule''),
        (''metadata'', YMap [
            (''name'', YStr (ar_name r)),
            (''namespace'', YStr (ar_namespace r))]),
        (''spec'', YMap [
            (''host'', YStr host),
            (''subsets'', YSeq [
                YMap [
                  (''name'', YStr ''stable''),
                  (''labels'', YMap [(''app.kubernetes.io/name'', YStr (ar_name r))])],
                YMap [
                  (''name'', YStr ''canary''),
                  (''labels'', YMap [(''app.kubernetes.io/name'', YStr (ar_name r))])]])])]
     else YMap [
        (''apiVersion'', YStr ''networking.istio.io/v1beta1''),
        (''kind'', YStr ''DestinationRule''),
        (''metadata'', YMap [
            (''name'', YStr (ar_name r)),
            (''namespace'', YStr (ar_namespace r))]),
        (''spec'', YMap [
            (''host'', YStr host),
            (''subsets'', YSeq [
                YMap [
                  (''name'', YStr ''stable''),
                  (''labels'', YMap [(''app.kubernetes.io/name'', YStr (ar_name r))])]])])])"

section \<open>Secrets\<close>

definition render_external_secret :: "app_record \<Rightarrow> yaml" where
  "render_external_secret r =
    YMap [
      (''apiVersion'', YStr ''external-secrets.io/v1''),
      (''kind'', YStr ''ExternalSecret''),
      (''metadata'', YMap [
          (''name'', YStr (ar_name r)),
          (''namespace'', YStr (ar_namespace r)),
          (''annotations'', YMap [(''aods.io/iiv-path'', YStr (ar_secret_path r))])]),
      (''spec'', YMap [
          (''refreshInterval'', YStr ''1h''),
          (''secretStoreRef'', YMap [
              (''name'', YStr ''aods-iiv''),
              (''kind'', YStr ''ClusterSecretStore'')]),
          (''target'', YMap [
              (''name'', YStr (ar_name r @ ''-secrets'')),
              (''creationPolicy'', YStr ''Owner'')]),
          (''dataFrom'', YSeq [
              YMap [(''extract'', YMap [(''key'', YStr (vault_extract_key (ar_secret_path r)))])]])])]"

definition render_registry_external_secret :: "app_record \<Rightarrow> yaml" where
  "render_registry_external_secret r =
    YMap [
      (''apiVersion'', YStr ''external-secrets.io/v1''),
      (''kind'', YStr ''ExternalSecret''),
      (''metadata'', YMap [
          (''name'', YStr (ar_name r @ ''-registry'')),
          (''namespace'', YStr (ar_namespace r)),
          (''annotations'', YMap [(''aods.io/iiv-path'', YStr (ar_registry_secret_path r))])]),
      (''spec'', YMap [
          (''refreshInterval'', YStr ''1h''),
          (''secretStoreRef'', YMap [
              (''name'', YStr ''aods-iiv''),
              (''kind'', YStr ''ClusterSecretStore'')]),
          (''target'', YMap [
              (''name'', YStr (ar_name r @ ''-registry'')),
              (''creationPolicy'', YStr ''Owner''),
              (''template'', YMap [
                  (''engineVersion'', YStr ''v2''),
                  (''type'', YStr ''kubernetes.io/dockerconfigjson''),
                  (''data'', YMap [(''.dockerconfigjson'', YStr (''{{ .dockerconfigjson | toString }}''))])])]),
          (''data'', YSeq [
              YMap [
                (''secretKey'', YStr ''dockerconfigjson''),
                (''remoteRef'', YMap [
                    (''key'', YStr (vault_extract_key (ar_registry_secret_path r))),
                    (''property'', YStr ''dockerconfigjson'')])]])])]"

section \<open>Kustomizations and Flux\<close>

definition kustomization :: "string list \<Rightarrow> yaml" where
  "kustomization resources =
    YMap [(''apiVersion'', YStr ''kustomize.config.k8s.io/v1beta1''), (''kind'', YStr ''Kustomization''),
      (''resources'', YSeq (map YStr resources))]"

definition base_resources :: "app_record \<Rightarrow> string list" where
  "base_resources r =
    [workload_file_name r, ''service.yaml'', ''servicemonitor.yaml'', ''prometheusrule.yaml''] @
    (if ar_mesh r then [''virtualservice.yaml'', ''destinationrule.yaml''] else []) @
    (if is_canary (ar_strategy r) then [''canary-service.yaml''] else []) @
    (if ar_secret_path r \<noteq> [] then [''externalsecret.yaml''] else []) @
    (if ar_registry_secret_path r \<noteq> [] then [''registry-externalsecret.yaml''] else [])"

definition render_base_kustomization :: "app_record \<Rightarrow> yaml" where
  "render_base_kustomization r = kustomization (base_resources r)"

definition render_overlay_kustomization :: "string \<Rightarrow> yaml" where
  "render_overlay_kustomization environment =
    YMap [
      (''apiVersion'', YStr ''kustomize.config.k8s.io/v1beta1''),
      (''kind'', YStr ''Kustomization''),
      (''resources'', YSeq [YStr ''../../base'']),
      (''commonAnnotations'', YMap [(''aods.io/environment'', YStr environment)])]"

definition flux_child_health_checks :: "app_record \<Rightarrow> (string \<times> yaml) list" where
  "flux_child_health_checks r =
    (if is_canary (ar_strategy r) then []
     else [(''healthChecks'', YSeq [YMap [
        (''apiVersion'', YStr ''apps/v1''), (''kind'', YStr ''Deployment''),
        (''name'', YStr (ar_name r)), (''namespace'', YStr (ar_namespace r))]])])"

definition render_flux_child :: "flux_config \<Rightarrow> app_record \<Rightarrow> yaml" where
  "render_flux_child cfg r =
    YMap [
      (''apiVersion'', YStr ''kustomize.toolkit.fluxcd.io/v1''),
      (''kind'', YStr ''Kustomization''),
      (''metadata'', YMap [
          (''name'', YStr (flux_child_name r)),
          (''namespace'', YStr (flux_namespace cfg)),
          (''annotations'', YMap [
              (''aods.io/application-id'', YStr (ar_id r)),
              (''aods.io/project-id'', YStr (ar_project_id r)),
              (''aods.io/environment'', YStr (ar_environment r))])]),
      (''spec'', YMap ([
          (''interval'', YStr ''1m0s''),
          (''prune'', YBool True),
          (''wait'', YBool False),
          (''timeout'', YStr ''3m0s'')] @
          flux_child_health_checks r @
          [
          (''path'', YStr (''./'' @ flux_overlay_path r)),
          (''targetNamespace'', YStr (ar_namespace r)),
          (''sourceRef'', YMap [
              (''kind'', YStr ''GitRepository''),
              (''name'', YStr (flux_source_name cfg))])]))]"

definition render_flux_bootstrap_root :: "string \<Rightarrow> string \<Rightarrow> string \<Rightarrow> yaml" where
  "render_flux_bootstrap_root cluster_id namespace source_name =
    YMap [
      (''apiVersion'', YStr ''kustomize.toolkit.fluxcd.io/v1''),
      (''kind'', YStr ''Kustomization''),
      (''metadata'', YMap [
          (''name'', YStr (''aods-root-'' @ cluster_id)),
          (''namespace'', YStr namespace)]),
      (''spec'', YMap [
          (''interval'', YStr ''1m0s''),
          (''prune'', YBool True),
          (''wait'', YBool False),
          (''timeout'', YStr ''3m0s''),
          (''path'', YStr (''./platform/flux/clusters/'' @ cluster_id)),
          (''sourceRef'', YMap [
              (''kind'', YStr ''GitRepository''),
              (''name'', YStr source_name)])])]"

definition render_bootstrap_kustomization :: yaml where
  "render_bootstrap_kustomization = kustomization [bootstrap_root_file_name]"

definition render_flux_cluster_root :: "string list \<Rightarrow> yaml" where
  "render_flux_cluster_root resources = kustomization resources"

end
