(* ===== verification/GitRepo.thy ===== *)
theory GitRepo
  imports Config GoUrl RepoState
begin

text \<open>
  The managed git checkout (gitops/repository.go): the locks, the synchronisation with the remote and its
  cache, and the two ways in, WithRead and WithWrite. The git program, the locks of the system, the clock
  and the end of a context are parameters; each is asked with the number of questions so far. What a git
  command leaves is a place: the work tree, the index, and the histories of the branch, of its tracking
  branch and of the remote, newest commit first. Operations run one after the other; a background
  synchronisation is an operation of its own, and one that waits for it lets it run to its end.
\<close>

section \<open>Settings, place and state\<close>

record git_settings =
  gs_dir :: string
  gs_remote :: string
  gs_branch :: string
  gs_author_name :: string
  gs_author_email :: string
  gs_timeout :: int
  gs_ttl :: int

type_synonym commit = "string \<times> repo"

record git_place =
  gp_cloned :: bool
  gp_work :: repo
  gp_index :: repo
  gp_head :: "commit list"
  gp_tracking :: "commit list"
  gp_remote :: "commit list"

text \<open>A failed command has its output, its messages and the error of its process.\<close>

datatype git_answer = GitDone string | GitTimedOut | GitFailed string string string

datatype lock_file = LockDirFailed string | LockOpenFailed string | LockOpened

datatype flock_answer = FlockTaken | FlockBusy | FlockFailed string

text \<open>The tries of a lock are those before its context ends with the error that stands beside them.\<close>

record git_outside =
  gt_command :: "nat \<Rightarrow> string list \<Rightarrow> git_place \<Rightarrow> git_answer \<times> git_place"
  gt_context :: "nat \<Rightarrow> go_error option"
  gt_lock_file :: "nat \<Rightarrow> string \<Rightarrow> lock_file"
  gt_flock :: "nat \<Rightarrow> flock_answer list \<times> go_error"
  gt_mutex :: "nat \<Rightarrow> bool list \<times> go_error"
  gt_clear_dir :: "nat \<Rightarrow> string option"
  gt_make_parent :: "nat \<Rightarrow> string option"
  gt_clock :: "nat \<Rightarrow> int"
  gt_nonblocking :: bool
  gt_temp_dir :: string

record git_state =
  gr_place :: git_place
  gr_synced_at :: int
  gr_synced_key :: string
  gr_sync_error :: "go_error option"
  gr_in_flight :: bool
  gr_asked :: nat

type_synonym 'a git = "(git_state, go_error, 'a) action"

definition ask_git :: "(nat \<Rightarrow> 'a) \<Rightarrow> 'a git" where
  "ask_git f s = (Inr (f (gr_asked s)), s\<lparr>gr_asked := Suc (gr_asked s)\<rparr>)"

section \<open>Running git\<close>

text \<open>
  URL.String for an address with a user: what needs no escape is kept as it was written. Only the password
  is replaced.
\<close>

definition valid_encoded :: "url_part \<Rightarrow> string \<Rightarrow> bool" where
  "valid_encoded part s \<longleftrightarrow>
    list_all (\<lambda>c. c \<in> set [CHR ''!'', CHR ''$'', CHR ''&'', CHR 0x27, CHR ''('', CHR '')'', CHR ''*'', CHR ''+'', CHR '','',
        CHR '';'', CHR ''='', CHR '':'', CHR ''@'', CHR ''['', CHR '']'', CHR ''%''] \<or> \<not> should_escape part c) s"

definition as_written :: "url_part \<Rightarrow> string \<Rightarrow> string \<Rightarrow> string" where
  "as_written part raw decoded = (if valid_encoded part raw then raw else url_escape part decoded)"

definition url_with_password :: "url \<Rightarrow> string \<Rightarrow> string \<Rightarrow> string \<Rightarrow> string" where
  "url_with_password u raw user password =
    (let (text, fragment) = cut_at (CHR ''#'') raw;
         rest = (case str_cut ''//'' text of Some (_, after) \<Rightarrow> after | None \<Rightarrow> []);
         path = dropWhile (\<lambda>c. c \<noteq> CHR ''/'') (fst (cut_at (CHR ''?'') rest))
     in (if url_scheme u = [] then [] else url_scheme u @ '':'') @ ''//'' @ url_escape InUser user @ '':'' @
        url_escape InUser password @ ''@'' @ url_escape InHost (url_host u) @ as_written InPath path (url_path u) @
        (if CHR ''?'' \<in> set rest then CHR ''?'' # url_query u else []) @
        (if url_fragment u = [] then [] else CHR ''#'' # as_written InFragment fragment (url_fragment u)))"

definition redact_remote :: "string \<Rightarrow> string" where
  "redact_remote value =
    (case url_parse value of
       None \<Rightarrow> value
     | Some u \<Rightarrow> (case url_user u of
         Some (name, Some _) \<Rightarrow> url_with_password u value (if name = [] then ''redacted'' else name) ''<redacted>''
       | _ \<Rightarrow> value))"

definition redact_args :: "string list \<Rightarrow> string" where
  "redact_args args = join_with '' '' (map redact_remote args)"

definition effective_timeout :: "git_settings \<Rightarrow> int" where
  "effective_timeout gs = (if gs_timeout gs \<le> 0 then 15 * second else gs_timeout gs)"

definition git_failure :: "git_settings \<Rightarrow> bool \<Rightarrow> string list \<Rightarrow> git_answer \<Rightarrow> (go_error, string) result" where
  "git_failure gs captured args answer =
    (case answer of
       GitDone out \<Rightarrow> Inr out
     | GitTimedOut \<Rightarrow> Inl (OtherError (''git '' @ redact_args args @ '' timed out after '' @
         duration_text (effective_timeout gs)))
     | GitFailed out err reason \<Rightarrow>
         let text = (if trim_space err = [] \<and> \<not> captured then trim_space out else trim_space err) in
         Inl (if text \<noteq> [] then OtherError (''git '' @ redact_args args @ '': '' @ text)
              else Wrapped (''git '' @ redact_args args) (OtherError reason)))"

definition run_output :: "git_outside \<Rightarrow> git_settings \<Rightarrow> bool \<Rightarrow> string list \<Rightarrow> string git" where
  "run_output gt gs captured args s =
    (case gt_command gt (gr_asked s) args (gr_place s) of
       (answer, place) \<Rightarrow>
         (git_failure gs captured args answer, s\<lparr>gr_place := place, gr_asked := Suc (gr_asked s)\<rparr>))"

definition run_git :: "git_outside \<Rightarrow> git_settings \<Rightarrow> string list \<Rightarrow> unit git" where
  "run_git gt gs args = bindS (run_output gt gs False args) (\<lambda>_. returnS ())"

section \<open>Locks\<close>

definition lock_busy :: "string \<Rightarrow> go_error" where
  "lock_busy what = Annotated ErrRepositoryLockBusy what"

definition should_wait_for_lock :: "git_outside \<Rightarrow> bool \<Rightarrow> bool" where
  "should_wait_for_lock gt wait \<longleftrightarrow> wait \<and> \<not> gt_nonblocking gt"

definition check_context :: "git_outside \<Rightarrow> unit git" where
  "check_context gt = bindS (ask_git (gt_context gt)) (\<lambda>e. case e of None \<Rightarrow> returnS () | Some x \<Rightarrow> failS x)"

fun mutex_loop :: "bool \<Rightarrow> bool list \<Rightarrow> go_error \<Rightarrow> (go_error, unit) result" where
  "mutex_loop wait [] ended = Inl ended"
| "mutex_loop wait (won # later) ended =
    (if won then Inr () else if \<not> wait then Inl (lock_busy ''in-process lock'') else mutex_loop wait later ended)"

definition acquire_in_process_lock :: "git_outside \<Rightarrow> bool \<Rightarrow> unit git" where
  "acquire_in_process_lock gt wait =
    bindS (check_context gt) (\<lambda>_.
    bindS (ask_git (gt_mutex gt)) (\<lambda>(tries, ended). liftR (mutex_loop wait tries ended)))"

definition acquire_read_lock :: "git_outside \<Rightarrow> bool \<Rightarrow> unit git" where
  "acquire_read_lock gt wait = acquire_in_process_lock gt wait"

definition lock_file_path :: "git_outside \<Rightarrow> git_settings \<Rightarrow> string" where
  "lock_file_path gt gs =
    (let dir = trim_space (gs_dir gs) in
     if dir = [] then path_join [gt_temp_dir gt, ''.aods-managed-gitops.lock'']
     else path_join [path_dir dir, ''.'' @ path_base dir @ ''.lock''])"

fun flock_loop :: "bool \<Rightarrow> flock_answer list \<Rightarrow> go_error \<Rightarrow> (go_error, unit) result" where
  "flock_loop wait [] ended = Inl ended"
| "flock_loop wait (FlockTaken # later) ended = Inr ()"
| "flock_loop wait (FlockFailed e # later) ended = Inl (Wrapped ''acquire git lock'' (OtherError e))"
| "flock_loop wait (FlockBusy # later) ended =
    (if \<not> wait then Inl (lock_busy ''process lock'') else flock_loop wait later ended)"

definition acquire_process_lock :: "git_outside \<Rightarrow> git_settings \<Rightarrow> bool \<Rightarrow> unit git" where
  "acquire_process_lock gt gs wait =
    bindS (check_context gt) (\<lambda>_.
    bindS (ask_git (\<lambda>n. gt_lock_file gt n (lock_file_path gt gs))) (\<lambda>file.
      case file of
        LockDirFailed e \<Rightarrow> failS (Wrapped ''create git lock directory'' (OtherError e))
      | LockOpenFailed e \<Rightarrow> failS (Wrapped ''open git lock file'' (OtherError e))
      | LockOpened \<Rightarrow> bindS (ask_git (gt_flock gt)) (\<lambda>(tries, ended). liftR (flock_loop wait tries ended))))"

definition with_process_lock :: "git_outside \<Rightarrow> git_settings \<Rightarrow> bool \<Rightarrow> 'a git \<Rightarrow> 'a git" where
  "with_process_lock gt gs wait m = bindS (acquire_process_lock gt gs wait) (\<lambda>_. m)"

section \<open>The cache of the synchronisation\<close>

definition sync_cache_key :: "git_settings \<Rightarrow> string" where
  "sync_cache_key gs = trim_space (gs_remote gs) @ ''|'' @ trim_space (gs_branch gs)"

definition sync_cache_fresh :: "git_settings \<Rightarrow> int \<Rightarrow> git_state \<Rightarrow> bool" where
  "sync_cache_fresh gs now s \<longleftrightarrow>
    0 < gs_ttl gs \<and> gp_cloned (gr_place s) \<and> gr_synced_at s \<noteq> 0 \<and> gr_synced_key s = sync_cache_key gs \<and>
    now - gr_synced_at s < gs_ttl gs"

definition is_sync_cache_fresh :: "git_outside \<Rightarrow> git_settings \<Rightarrow> bool git" where
  "is_sync_cache_fresh gt gs =
    bindS (ask_git (gt_clock gt)) (\<lambda>now. readS (\<lambda>s. Inr (sync_cache_fresh gs now s)))"

definition mark_synced :: "git_outside \<Rightarrow> git_settings \<Rightarrow> unit git" where
  "mark_synced gt gs =
    bindS (ask_git (gt_clock gt)) (\<lambda>now.
      modifyS (\<lambda>s. s\<lparr>gr_synced_at := now, gr_synced_key := sync_cache_key gs, gr_sync_error := None\<rparr>))"

section \<open>Synchronisation\<close>

definition validate_settings :: "git_settings \<Rightarrow> (go_error, unit) result" where
  "validate_settings gs =
    (if trim_space (gs_dir gs) = [] then
       Inl (OtherError ''managed git directory is required when git mode is enabled'')
     else if trim_space (gs_remote gs) = [] then
       Inl (OtherError ''git remote is required when git mode is enabled'')
     else if trim_space (gs_branch gs) = [] then
       Inl (OtherError ''git branch is required when git mode is enabled'')
     else Inr ())"

definition in_dir :: "git_settings \<Rightarrow> string list \<Rightarrow> string list" where
  "in_dir gs args = ''-C'' # gs_dir gs # args"

definition set_url_args :: "git_settings \<Rightarrow> string list" where
  "set_url_args gs = in_dir gs [''remote'', ''set-url'', ''origin'', gs_remote gs]"

definition fetch_args :: "git_settings \<Rightarrow> string list" where
  "fetch_args gs = in_dir gs [''fetch'', ''origin'', gs_branch gs, ''--prune'']"

definition checkout_args :: "git_settings \<Rightarrow> string list" where
  "checkout_args gs = in_dir gs [''checkout'', ''-B'', gs_branch gs, ''origin/'' @ gs_branch gs]"

definition reset_args :: "git_settings \<Rightarrow> string list" where
  "reset_args gs = in_dir gs [''reset'', ''--hard'', ''origin/'' @ gs_branch gs]"

definition clean_args :: "git_settings \<Rightarrow> string list" where
  "clean_args gs = in_dir gs [''clean'', ''-fd'']"

definition status_args :: "git_settings \<Rightarrow> string list" where
  "status_args gs = in_dir gs [''status'', ''--porcelain'']"

definition add_args :: "git_settings \<Rightarrow> string list" where
  "add_args gs = in_dir gs [''add'', ''--all'']"

definition push_args :: "git_settings \<Rightarrow> string list" where
  "push_args gs = in_dir gs [''push'', ''origin'', ''HEAD:'' @ gs_branch gs]"

definition commit_args :: "git_settings \<Rightarrow> string \<Rightarrow> string list" where
  "commit_args gs msg =
    in_dir gs [''-c'', ''user.name='' @ gs_author_name gs, ''-c'', ''user.email='' @ gs_author_email gs,
      ''commit'', ''-m'', msg]"

definition sync_remote :: "git_outside \<Rightarrow> git_settings \<Rightarrow> unit git" where
  "sync_remote gt gs =
    bindS (run_git gt gs (set_url_args gs)) (\<lambda>_.
      run_git gt gs (fetch_args gs))"

definition refresh_worktree :: "git_outside \<Rightarrow> git_settings \<Rightarrow> unit git" where
  "refresh_worktree gt gs =
    bindS (run_git gt gs (checkout_args gs)) (\<lambda>_.
    bindS (run_git gt gs (reset_args gs)) (\<lambda>_.
    bindS (run_git gt gs (clean_args gs)) (\<lambda>_.
      mark_synced gt gs)))"

definition clone_if_missing :: "git_outside \<Rightarrow> git_settings \<Rightarrow> unit git" where
  "clone_if_missing gt gs =
    bindS (readS (\<lambda>s. Inr (gp_cloned (gr_place s)))) (\<lambda>cloned.
      if cloned then returnS ()
      else
        bindS (ask_git (gt_clear_dir gt)) (\<lambda>e. case e of
          Some x \<Rightarrow> failS (Wrapped ''reset managed git directory'' (OtherError x))
        | None \<Rightarrow>
            bindS (modifyS (\<lambda>s. s\<lparr>gr_place := (gr_place s)\<lparr>gp_work := []\<rparr>\<rparr>)) (\<lambda>_.
            bindS (ask_git (gt_make_parent gt)) (\<lambda>e. case e of
              Some x \<Rightarrow> failS (Wrapped ''create managed git parent directory'' (OtherError x))
            | None \<Rightarrow> run_git gt gs [''clone'', ''--branch'', gs_branch gs, ''--single-branch'', gs_remote gs, gs_dir gs]))))"

definition sync_locked :: "git_outside \<Rightarrow> git_settings \<Rightarrow> bool \<Rightarrow> unit git" where
  "sync_locked gt gs force =
    bindS (if force then returnS False else is_sync_cache_fresh gt gs) (\<lambda>fresh.
      if fresh then returnS ()
      else bindS (clone_if_missing gt gs) (\<lambda>_. bindS (sync_remote gt gs) (\<lambda>_. refresh_worktree gt gs)))"

text \<open>A step whose error is kept as the last error of the synchronisation.\<close>

definition finish_sync :: "unit git \<Rightarrow> unit git" where
  "finish_sync m s =
    (case m s of (r, t) \<Rightarrow>
       (r, t\<lparr>gr_in_flight := False, gr_sync_error := (case r of Inl e \<Rightarrow> Some e | Inr _ \<Rightarrow> None)\<rparr>))"

definition background_sync :: "git_outside \<Rightarrow> git_settings \<Rightarrow> unit git" where
  "background_sync gt gs =
    finish_sync (with_process_lock gt gs False
      (bindS (readS (\<lambda>s. Inr (gp_cloned (gr_place s)))) (\<lambda>cloned.
        if \<not> cloned then bindS (acquire_in_process_lock gt False) (\<lambda>_. sync_locked gt gs False)
        else
          bindS (sync_remote gt gs) (\<lambda>_.
          bindS (acquire_in_process_lock gt True) (\<lambda>_. refresh_worktree gt gs)))))"

definition start_background_sync :: "git_outside \<Rightarrow> git_settings \<Rightarrow> unit git" where
  "start_background_sync gt gs =
    bindS (is_sync_cache_fresh gt gs) (\<lambda>fresh.
      modifyS (\<lambda>s. if gr_in_flight s \<or> fresh then s else s\<lparr>gr_in_flight := True\<rparr>))"

text \<open>With no synchronisation in flight: the one of this call.\<close>

definition sync_here :: "git_outside \<Rightarrow> git_settings \<Rightarrow> bool \<Rightarrow> bool \<Rightarrow> unit git" where
  "sync_here gt gs force wait =
    bindS (modifyS (\<lambda>s. s\<lparr>gr_in_flight := True\<rparr>)) (\<lambda>_.
      finish_sync (with_process_lock gt gs wait
        (bindS (acquire_in_process_lock gt wait) (\<lambda>_. sync_locked gt gs force))))"

definition fresh_unless :: "git_outside \<Rightarrow> git_settings \<Rightarrow> bool \<Rightarrow> bool git" where
  "fresh_unless gt gs force = (if force then returnS False else is_sync_cache_fresh gt gs)"

definition sync_once :: "git_outside \<Rightarrow> git_settings \<Rightarrow> bool \<Rightarrow> bool \<Rightarrow> unit git" where
  "sync_once gt gs force wait =
    bindS (liftR (validate_settings gs)) (\<lambda>_.
    bindS (fresh_unless gt gs force) (\<lambda>fresh.
      if fresh then returnS ()
      else bindS (readS (\<lambda>s. Inr (gr_in_flight s))) (\<lambda>busy.
        if \<not> busy then sync_here gt gs force wait
        else if \<not> wait then failS (lock_busy ''sync in progress'')
        else
          bindS (check_context gt) (\<lambda>_.
          bindS (\<lambda>s. (Inr (), snd (background_sync gt gs s))) (\<lambda>_.
          bindS (readS (\<lambda>s. case gr_sync_error s of
              Some e \<Rightarrow> if gp_cloned (gr_place s) then Inr () else Inl e | None \<Rightarrow> Inr ())) (\<lambda>_.
          bindS (fresh_unless gt gs force) (\<lambda>fresh.
            if fresh then returnS () else sync_here gt gs force wait)))))))"

section \<open>Reading and writing\<close>

definition ensure_read_snapshot :: "git_outside \<Rightarrow> git_settings \<Rightarrow> bool \<Rightarrow> unit git" where
  "ensure_read_snapshot gt gs wait =
    bindS (liftR (validate_settings gs)) (\<lambda>_.
    bindS (is_sync_cache_fresh gt gs) (\<lambda>fresh.
      if fresh then returnS ()
      else bindS (readS (\<lambda>s. Inr (gp_cloned (gr_place s)))) (\<lambda>cloned.
        if \<not> cloned then sync_once gt gs False wait else start_background_sync gt gs)))"

definition with_read :: "git_outside \<Rightarrow> git_settings \<Rightarrow> bool \<Rightarrow> (repo \<Rightarrow> (go_error, 'a) result) \<Rightarrow> 'a git" where
  "with_read gt gs wait f =
    bindS (check_context gt) (\<lambda>_.
    bindS (ensure_read_snapshot gt gs (should_wait_for_lock gt wait)) (\<lambda>_.
    bindS (acquire_read_lock gt (should_wait_for_lock gt wait)) (\<lambda>_.
      readS (\<lambda>s. f (gp_work (gr_place s))))))"

definition has_changes :: "git_outside \<Rightarrow> git_settings \<Rightarrow> bool git" where
  "has_changes gt gs =
    bindS (run_output gt gs True (status_args gs)) (\<lambda>out. returnS (trim_space out \<noteq> []))"

text \<open>An operation on the work tree; what it wrote stays, also after its error.\<close>

definition on_work :: "(repo, go_error, 'a) action \<Rightarrow> 'a git" where
  "on_work f s =
    (case f (gp_work (gr_place s)) of
       (r, work) \<Rightarrow> (r, s\<lparr>gr_place := (gr_place s)\<lparr>gp_work := work\<rparr>\<rparr>))"

definition publish_changes :: "git_outside \<Rightarrow> git_settings \<Rightarrow> string \<Rightarrow> unit git" where
  "publish_changes gt gs msg =
    bindS (run_git gt gs (add_args gs)) (\<lambda>_.
    bindS (run_git gt gs (commit_args gs msg)) (\<lambda>_.
    bindS (run_git gt gs (push_args gs)) (\<lambda>_.
      mark_synced gt gs)))"

definition with_write ::
  "git_outside \<Rightarrow> git_settings \<Rightarrow> bool \<Rightarrow> string \<Rightarrow> (repo, go_error, 'a) action \<Rightarrow> 'a git" where
  "with_write gt gs wait msg f =
    bindS (check_context gt) (\<lambda>_.
    with_process_lock gt gs (should_wait_for_lock gt wait)
      (bindS (acquire_in_process_lock gt (should_wait_for_lock gt wait)) (\<lambda>_.
       bindS (sync_locked gt gs True) (\<lambda>_.
       bindS (on_work f) (\<lambda>x.
       bindS (has_changes gt gs) (\<lambda>changed.
         if changed then bindS (publish_changes gt gs msg) (\<lambda>_. returnS x) else returnS x))))))"

definition ensure_file :: "git_outside \<Rightarrow> git_settings \<Rightarrow> string \<Rightarrow> unit git" where
  "ensure_file gt gs path =
    bindS (sync_once gt gs False True) (\<lambda>_.
      readS (\<lambda>s. case fs_read (gp_work (gr_place s)) (join_path [path]) of
        None \<Rightarrow> Inl (MissingFileError path)
      | Some _ \<Rightarrow> Inr ()))"

end
