(* ===== verification/GitLaws.thy ===== *)
theory GitLaws
  imports GitRepo
begin

text \<open>
  Laws of the managed checkout, under what git documents of its commands: a write that succeeds is one
  commit on top of a state of the remote branch, made by the operation from exactly the files of that state,
  and no commit of others is lost. A write that is refused stays visible to readers until the next
  synchronisation.
\<close>

section \<open>What git documents\<close>

definition same_files :: "repo \<Rightarrow> repo \<Rightarrow> bool" where
  "same_files a b \<longleftrightarrow> (\<forall>x. fs_read a x = fs_read b x)"

definition tree :: "commit list \<Rightarrow> repo" where
  "tree h = (case h of [] \<Rightarrow> [] | c # _ \<Rightarrow> snd c)"

text \<open>
  Others may push while a command runs, but nobody rewrites the history of the remote branch, and no file
  is ignored. A push without force succeeds only on top of what the remote has.
\<close>

definition remote_grows :: "git_outside \<Rightarrow> bool" where
  "remote_grows gt \<longleftrightarrow> (\<forall>n args p. suffix (gp_remote p) (gp_remote (snd (gt_command gt n args p))))"

definition fetch_documented :: "git_outside \<Rightarrow> git_settings \<Rightarrow> bool" where
  "fetch_documented gt gs \<longleftrightarrow>
    (\<forall>n p out q. gt_command gt n (fetch_args gs) p = (GitDone out, q) \<longrightarrow>
      suffix (gp_remote p) (gp_tracking q) \<and> suffix (gp_tracking q) (gp_remote q))"

definition refresh_documented :: "git_outside \<Rightarrow> git_settings \<Rightarrow> bool" where
  "refresh_documented gt gs \<longleftrightarrow>
    (\<forall>n p out q. gt_command gt n (checkout_args gs) p =
        (GitDone out, q) \<longrightarrow> gp_tracking q = gp_tracking p) \<and>
    (\<forall>n p out q. gt_command gt n (reset_args gs) p = (GitDone out, q) \<longrightarrow>
        gp_tracking q = gp_tracking p \<and> gp_head q = gp_tracking p \<and> same_files (gp_index q) (tree (gp_head q)) \<and>
        (\<forall>x. fs_read (gp_index q) x \<noteq> None \<longrightarrow> fs_read (gp_work q) x = fs_read (gp_index q) x)) \<and>
    (\<forall>n p out q. gt_command gt n (clean_args gs) p = (GitDone out, q) \<longrightarrow>
        gp_head q = gp_head p \<and> gp_index q = gp_index p \<and>
        (\<forall>x. fs_read (gp_work q) x = (if fs_read (gp_index p) x = None then None else fs_read (gp_work p) x)))"

definition commit_documented :: "git_outside \<Rightarrow> git_settings \<Rightarrow> bool" where
  "commit_documented gt gs \<longleftrightarrow>
    (\<forall>n p out q. gt_command gt n (status_args gs) p = (GitDone out, q) \<longrightarrow>
        gp_head q = gp_head p \<and> gp_index q = gp_index p \<and> gp_work q = gp_work p \<and>
        (trim_space out = [] \<longrightarrow> same_files (gp_work p) (gp_index p) \<and> same_files (gp_index p) (tree (gp_head p)))) \<and>
    (\<forall>n p out q. gt_command gt n (add_args gs) p = (GitDone out, q) \<longrightarrow>
        gp_head q = gp_head p \<and> same_files (gp_index q) (gp_work p)) \<and>
    (\<forall>n p msg out q. gt_command gt n (commit_args gs msg) p = (GitDone out, q) \<longrightarrow>
        (\<exists>files. gp_head q = (msg, files) # gp_head p \<and> same_files files (gp_index p))) \<and>
    (\<forall>n p out q. gt_command gt n (push_args gs) p = (GitDone out, q) \<longrightarrow>
        suffix (gp_head p) (gp_remote q))"

definition git_documented :: "git_outside \<Rightarrow> git_settings \<Rightarrow> bool" where
  "git_documented gt gs \<longleftrightarrow>
    remote_grows gt \<and> fetch_documented gt gs \<and> refresh_documented gt gs \<and> commit_documented gt gs"

section \<open>Commands in a run\<close>

lemma run_output_Inr:
  "run_output gt gs captured args s = (Inr out, t) \<longleftrightarrow>
    (\<exists>p. gt_command gt (gr_asked s) args (gr_place s) = (GitDone out, p) \<and>
      t = s\<lparr>gr_place := p, gr_asked := Suc (gr_asked s)\<rparr>)"
  by (auto simp: run_output_def git_failure_def Let_def split: prod.splits git_answer.splits)

lemma run_git_Inr:
  "run_git gt gs args s = (Inr u, t) \<longleftrightarrow>
    (\<exists>out p. gt_command gt (gr_asked s) args (gr_place s) = (GitDone out, p) \<and>
      t = s\<lparr>gr_place := p, gr_asked := Suc (gr_asked s)\<rparr>)"
  by (auto simp: run_git_def bindS_Inr run_output_Inr action_Inr)

text \<open>What keeps the place.\<close>

lemma ask_git_Inr: "ask_git f s = (Inr x, t) \<longleftrightarrow> x = f (gr_asked s) \<and> t = s\<lparr>gr_asked := Suc (gr_asked s)\<rparr>"
  by (auto simp: ask_git_def)

lemma modifyS_Inr: "modifyS f s = (Inr u, t) \<longleftrightarrow> t = f s"
  by (auto simp: modifyS_def)

lemma check_context_place: "check_context gt s = (Inr u, t) \<Longrightarrow> gr_place t = gr_place s"
  by (auto simp: check_context_def bindS_Inr ask_git_Inr action_Inr split: option.splits)

lemma tries_Inr: "(case m of (tries, ended) \<Rightarrow> liftR (g tries ended)) s = (Inr u, t) \<longleftrightarrow> g (fst m) (snd m) = Inr u \<and> t = s"
  by (cases m) (simp add: action_Inr)

lemma in_process_lock_place: "acquire_in_process_lock gt wait s = (Inr u, t) \<Longrightarrow> gr_place t = gr_place s"
  by (auto simp: acquire_in_process_lock_def bindS_Inr ask_git_Inr tries_Inr dest!: check_context_place)

lemma opened_Inr:
  "(case opened of LockDirFailed e \<Rightarrow> failS (a e) | LockOpenFailed e \<Rightarrow> failS (b e) | LockOpened \<Rightarrow> m) s = (Inr u, t) \<longleftrightarrow>
    opened = LockOpened \<and> m s = (Inr u, t)"
  by (cases opened) (simp_all add: action_Inr)

lemma process_lock_place: "acquire_process_lock gt gs wait s = (Inr u, t) \<Longrightarrow> gr_place t = gr_place s"
  by (auto simp: acquire_process_lock_def bindS_Inr ask_git_Inr tries_Inr opened_Inr dest!: check_context_place)

lemma mark_synced_place: "mark_synced gt gs s = (Inr u, t) \<Longrightarrow> gr_place t = gr_place s"
  by (auto simp: mark_synced_def bindS_Inr ask_git_Inr modifyS_Inr)

text \<open>The history of the remote branch only grows.\<close>

definition grows :: "'a git \<Rightarrow> bool" where
  "grows m \<longleftrightarrow> (\<forall>s. suffix (gp_remote (gr_place s)) (gp_remote (gr_place (snd (m s)))))"

lemma growsD: "grows m \<Longrightarrow> m s = (r, t) \<Longrightarrow> suffix (gp_remote (gr_place s)) (gp_remote (gr_place t))"
  unfolding grows_def by (metis snd_conv)

lemma grows_bindS:
  assumes "grows m" and "\<And>x. grows (f x)"
  shows "grows (bindS m f)"
  unfolding grows_def
proof
  fix s
  obtain r t where run: "m s = (r, t)" by (cases "m s")
  show "suffix (gp_remote (gr_place s)) (gp_remote (gr_place (snd (bindS m f s))))"
  proof (cases r)
    case (Inl e)
    then show ?thesis using growsD [OF assms(1) run] by (simp add: bindS_def run)
  next
    case (Inr x)
    obtain q u where follow: "f x t = (q, u)" by (cases "f x t")
    show ?thesis using suffix_order.trans [OF growsD [OF assms(1) run] growsD [OF assms(2) follow]] Inr
      by (simp add: bindS_def run follow)
  qed
qed

lemma grows_basic:
  "grows (returnS x)" "grows (failS e)" "grows (liftR r)" "grows (readS g)" "grows (ask_git f)"
  "(\<And>s. gp_remote (gr_place (h s)) = gp_remote (gr_place s)) \<Longrightarrow> grows (modifyS h)"
  by (simp_all add: grows_def action_defs ask_git_def)

lemma grows_output: "remote_grows gt \<Longrightarrow> grows (run_output gt gs captured args)"
  by (simp add: grows_def run_output_def remote_grows_def case_prod_beta)

lemma grows_run: "remote_grows gt \<Longrightarrow> grows (run_git gt gs args)"
  unfolding run_git_def by (intro grows_bindS grows_output grows_basic)

lemma grows_clone: "remote_grows gt \<Longrightarrow> grows (clone_if_missing gt gs)"
  unfolding clone_if_missing_def
  by (intro grows_bindS grows_basic) (auto intro!: grows_bindS grows_basic grows_run split: option.split)

section \<open>Synchronisation\<close>

lemma sync_remote_tracking:
  assumes "git_documented gt gs" and "sync_remote gt gs s = (Inr u, t)"
  shows "suffix (gp_remote (gr_place s)) (gp_tracking (gr_place t)) \<and>
    suffix (gp_tracking (gr_place t)) (gp_remote (gr_place t))"
proof -
  obtain v w where first: "run_git gt gs (set_url_args gs) s = (Inr w, v)"
      and fetch: "run_git gt gs (fetch_args gs) v = (Inr u, t)"
    using assms(2) by (auto simp: sync_remote_def bindS_Inr)
  have "suffix (gp_remote (gr_place s)) (gp_remote (gr_place v))"
    using assms(1) growsD [OF grows_run first] by (simp add: git_documented_def)
  moreover have "suffix (gp_remote (gr_place v)) (gp_tracking (gr_place t)) \<and>
      suffix (gp_tracking (gr_place t)) (gp_remote (gr_place t))"
    using fetch assms(1) by (auto simp: run_git_Inr git_documented_def fetch_documented_def)
  ultimately show ?thesis using suffix_order.trans by blast
qed

lemma reset_files:
  assumes "refresh_documented gt gs" and "run_git gt gs (reset_args gs) s = (Inr u, t)"
  shows "gp_head (gr_place t) = gp_tracking (gr_place s)"
    "same_files (gp_index (gr_place t)) (tree (gp_head (gr_place t)))"
    "fs_read (gp_index (gr_place t)) x \<noteq> None \<Longrightarrow> fs_read (gp_work (gr_place t)) x = fs_read (gp_index (gr_place t)) x"
proof -
  obtain out p where "gt_command gt (gr_asked s) (reset_args gs) (gr_place s) = (GitDone out, p)"
      and t: "t = s\<lparr>gr_place := p, gr_asked := Suc (gr_asked s)\<rparr>"
    using assms(2) unfolding run_git_Inr by blast
  then have "gp_head p = gp_tracking (gr_place s) \<and> same_files (gp_index p) (tree (gp_head p)) \<and>
      (\<forall>x. fs_read (gp_index p) x \<noteq> None \<longrightarrow> fs_read (gp_work p) x = fs_read (gp_index p) x)"
    using assms(1) unfolding refresh_documented_def by blast
  then show "gp_head (gr_place t) = gp_tracking (gr_place s)"
      "same_files (gp_index (gr_place t)) (tree (gp_head (gr_place t)))"
      "fs_read (gp_index (gr_place t)) x \<noteq> None \<Longrightarrow> fs_read (gp_work (gr_place t)) x = fs_read (gp_index (gr_place t)) x"
    by (auto simp: t)
qed

lemma clean_files:
  assumes "refresh_documented gt gs" and "run_git gt gs (clean_args gs) s = (Inr u, t)"
  shows "gp_head (gr_place t) = gp_head (gr_place s)"
    "fs_read (gp_work (gr_place t)) x =
      (if fs_read (gp_index (gr_place s)) x = None then None else fs_read (gp_work (gr_place s)) x)"
proof -
  obtain out p where "gt_command gt (gr_asked s) (clean_args gs) (gr_place s) = (GitDone out, p)"
      and t: "t = s\<lparr>gr_place := p, gr_asked := Suc (gr_asked s)\<rparr>"
    using assms(2) unfolding run_git_Inr by blast
  then have "gp_head p = gp_head (gr_place s) \<and> (\<forall>x. fs_read (gp_work p) x =
      (if fs_read (gp_index (gr_place s)) x = None then None else fs_read (gp_work (gr_place s)) x))"
    using assms(1) unfolding refresh_documented_def by blast
  then show "gp_head (gr_place t) = gp_head (gr_place s)"
      "fs_read (gp_work (gr_place t)) x =
        (if fs_read (gp_index (gr_place s)) x = None then None else fs_read (gp_work (gr_place s)) x)"
    by (simp_all add: t)
qed

lemma refresh_worktree_files:
  assumes git: "git_documented gt gs" and run: "refresh_worktree gt gs s = (Inr u, t)"
  shows "gp_head (gr_place t) = gp_tracking (gr_place s) \<and>
    same_files (gp_work (gr_place t)) (tree (gp_head (gr_place t))) \<and>
    suffix (gp_remote (gr_place s)) (gp_remote (gr_place t))"
proof -
  obtain a b c where checkout: "run_git gt gs (checkout_args gs) s = (Inr (), a)"
    and reset: "run_git gt gs (reset_args gs) a = (Inr (), b)"
    and clean: "run_git gt gs (clean_args gs) b = (Inr (), c)"
    and mark: "mark_synced gt gs c = (Inr u, t)"
    using run unfolding refresh_worktree_def bindS_unit by blast
  have laws: "refresh_documented gt gs" "remote_grows gt" using git by (simp_all add: git_documented_def)
  have "gp_tracking (gr_place a) = gp_tracking (gr_place s)"
    using checkout laws(1) unfolding run_git_Inr refresh_documented_def by fastforce
  moreover have "same_files (gp_work (gr_place c)) (gp_index (gr_place b))"
    using clean_files(2) [OF laws(1) clean] reset_files(3) [OF laws(1) reset] by (auto simp: same_files_def)
  moreover have "suffix (gp_remote (gr_place s)) (gp_remote (gr_place c))"
    using growsD [OF grows_run [OF laws(2)] checkout] growsD [OF grows_run [OF laws(2)] reset]
      growsD [OF grows_run [OF laws(2)] clean] by (meson suffix_order.trans)
  ultimately show ?thesis
    using reset_files(1,2) [OF laws(1) reset] clean_files(1) [OF laws(1) clean] mark_synced_place [OF mark]
    by (simp add: same_files_def)
qed

text \<open>A forced synchronisation leaves the files of a state of the remote branch that holds all earlier commits.\<close>

lemma sync_locked_files:
  assumes git: "git_documented gt gs" and run: "sync_locked gt gs True s = (Inr u, t)"
  shows "suffix (gp_remote (gr_place s)) (gp_head (gr_place t)) \<and>
    suffix (gp_head (gr_place t)) (gp_remote (gr_place t)) \<and>
    same_files (gp_work (gr_place t)) (tree (gp_head (gr_place t)))"
proof -
  obtain a b where clone: "clone_if_missing gt gs s = (Inr (), a)"
      and remote: "sync_remote gt gs a = (Inr (), b)" and refresh: "refresh_worktree gt gs b = (Inr u, t)"
    using run by (auto simp: sync_locked_def bindS_Inr action_Inr)
  have "suffix (gp_remote (gr_place s)) (gp_remote (gr_place a))"
    using growsD [OF grows_clone clone] git by (simp add: git_documented_def)
  moreover note sync_remote_tracking [OF git remote] refresh_worktree_files [OF git refresh]
  ultimately show ?thesis by (metis suffix_order.trans)
qed

section \<open>Writes\<close>

lemma publish_changes_remote:
  assumes git: "git_documented gt gs" and run: "publish_changes gt gs msg s = (Inr u, t)"
  shows "\<exists>files. same_files files (gp_work (gr_place s)) \<and>
    suffix ((msg, files) # gp_head (gr_place s)) (gp_remote (gr_place t))"
proof -
  obtain a b c where add: "run_git gt gs (add_args gs) s = (Inr (), a)"
      and commit: "run_git gt gs (commit_args gs msg) a = (Inr (), b)"
      and push: "run_git gt gs (push_args gs) b = (Inr (), c)"
      and mark: "mark_synced gt gs c = (Inr u, t)"
    using run by (auto simp: publish_changes_def bindS_Inr)
  have law: "commit_documented gt gs" using git by (simp add: git_documented_def)
  have a: "gp_head (gr_place a) = gp_head (gr_place s)" "same_files (gp_index (gr_place a)) (gp_work (gr_place s))"
    using add law by (auto simp: run_git_Inr commit_documented_def)
  obtain files where b: "gp_head (gr_place b) = (msg, files) # gp_head (gr_place a)"
      "same_files files (gp_index (gr_place a))"
    using commit law by (auto simp: run_git_Inr commit_documented_def) blast
  have "suffix (gp_head (gr_place b)) (gp_remote (gr_place c))"
    using push law by (auto simp: run_git_Inr commit_documented_def)
  with a b mark_synced_place [OF mark] show ?thesis
    by (intro exI [of _ files]) (auto simp: same_files_def)
qed

text \<open>
  C29: A write that succeeds ran on exactly the files of a state of the remote branch that holds every commit
  the branch had before. Then the branch holds, directly on top of that state, one commit with the message of
  the write and exactly the files the operation left, or the operation changed no file. So the writes of
  several processes never lose each other's commits.
\<close>

theorem write_published:
  assumes git: "git_documented gt gs" and run: "with_write gt gs wait msg f s = (Inr x, t)"
  shows "\<exists>h work work'. suffix (gp_remote (gr_place s)) h \<and> same_files work (tree h) \<and> f work = (Inr x, work') \<and>
    (same_files work' (tree h) \<and> suffix h (gp_remote (gr_place t)) \<or>
     (\<exists>files. same_files files work' \<and> suffix ((msg, files) # h) (gp_remote (gr_place t))))"
proof -
  let ?w = "should_wait_for_lock gt wait"
  obtain a b c d e g y changed where start: "check_context gt s = (Inr (), a)" "acquire_process_lock gt gs ?w a = (Inr (), b)"
      "acquire_in_process_lock gt ?w b = (Inr (), c)"
    and sync: "sync_locked gt gs True c = (Inr (), d)" and work: "on_work f d = (Inr y, e)"
    and status: "has_changes gt gs e = (Inr changed, g)"
    and finish: "(if changed then bindS (publish_changes gt gs msg) (\<lambda>_. returnS y) else returnS y) g = (Inr x, t)"
    using run unfolding with_write_def with_process_lock_def bindS_unit bindS_Inr by blast
  have y: "y = x" using finish by (auto simp: bindS_Inr action_Inr split: if_splits)
  have same: "gr_place c = gr_place s"
    using check_context_place [OF start(1)] process_lock_place [OF start(2)] in_process_lock_place [OF start(3)] by simp
  let ?h = "gp_head (gr_place d)"
  have h: "suffix (gp_remote (gr_place s)) ?h" "suffix ?h (gp_remote (gr_place d))"
      "same_files (gp_work (gr_place d)) (tree ?h)"
    using sync_locked_files [OF git sync] same by simp_all
  obtain work' where f: "f (gp_work (gr_place d)) = (Inr x, work')" "gr_place e = (gr_place d)\<lparr>gp_work := work'\<rparr>"
    using work y by (auto simp: on_work_def split: prod.splits)
  obtain out where asked: "run_output gt gs True (status_args gs) e = (Inr out, g)" "changed \<longleftrightarrow> trim_space out \<noteq> []"
    using status by (auto simp: has_changes_def bindS_Inr action_Inr)
  then have out: "gt_command gt (gr_asked e) (status_args gs) (gr_place e) = (GitDone out, gr_place g)"
    by (auto simp: run_output_Inr)
  have after: "gp_head (gr_place g) = ?h" "gp_work (gr_place g) = work'"
      "\<not> changed \<Longrightarrow> same_files work' (tree ?h)"
    using out asked(2) f(2) git unfolding git_documented_def commit_documented_def
    by (fastforce simp: same_files_def)+
  have grown: "suffix (gp_remote (gr_place d)) (gp_remote (gr_place g))"
    using growsD [OF grows_output asked(1)] f(2) git by (simp add: git_documented_def)
  show ?thesis
  proof (cases changed)
    case False
    then have "t = g" using finish by (simp add: action_Inr)
    then show ?thesis using h f after(3) False suffix_order.trans [OF h(2) grown] by blast
  next
    case True
    then have "publish_changes gt gs msg g = (Inr (), t)" using finish by (auto simp: bindS_Inr action_Inr)
    from publish_changes_remote [OF git this] show ?thesis using h f after(1,2) by metis
  qed
qed

section \<open>A plain git\<close>

text \<open>A git that does what is documented at once; it may refuse every push.\<close>

definition equal_files :: "repo \<Rightarrow> repo \<Rightarrow> bool" where
  "equal_files a b \<longleftrightarrow> list_all (\<lambda>x. fs_read a x = fs_read b x) (map fst a @ map fst b)"

lemma equal_files_same: "equal_files a b \<Longrightarrow> same_files a b"
  unfolding same_files_def
proof
  fix x
  assume eq: "equal_files a b"
  show "fs_read a x = fs_read b x"
  proof (cases "x \<in> set (map fst a @ map fst b)")
    case True
    then show ?thesis using eq by (simp only: equal_files_def list_all_iff)
  next
    case False
    then have "fs_read a x = None" "fs_read b x = None" by (auto simp: fs_read_def map_of_eq_None_iff)
    then show ?thesis by simp
  qed
qed

definition plain_git :: "bool \<Rightarrow> nat \<Rightarrow> string list \<Rightarrow> git_place \<Rightarrow> git_answer \<times> git_place" where
  "plain_git refuses n args p =
    (let verb = (if hd args = ''-C'' then args ! 2 else hd args) in
     if verb = ''clone'' then (GitDone [], p\<lparr>gp_cloned := True, gp_tracking := gp_remote p, gp_head := gp_remote p\<rparr>)
     else if verb = ''fetch'' then (GitDone [], p\<lparr>gp_tracking := gp_remote p\<rparr>)
     else if verb = ''checkout'' then (GitDone [], p\<lparr>gp_head := gp_tracking p\<rparr>)
     else if verb = ''reset'' then
       (GitDone [], p\<lparr>gp_head := gp_tracking p, gp_index := tree (gp_tracking p), gp_work := tree (gp_tracking p) @ gp_work p\<rparr>)
     else if verb = ''clean'' then
       (GitDone [], p\<lparr>gp_work := filter (\<lambda>e. fs_read (gp_index p) (fst e) \<noteq> None) (gp_work p)\<rparr>)
     else if verb = ''status'' then
       (GitDone (if equal_files (gp_work p) (gp_index p) \<and> equal_files (gp_index p) (tree (gp_head p)) then [] else ''?? new''), p)
     else if verb = ''add'' then (GitDone [], p\<lparr>gp_index := gp_work p\<rparr>)
     else if verb = ''-c'' then (GitDone [], p\<lparr>gp_head := (last args, gp_index p) # gp_head p\<rparr>)
     else if verb = ''push'' then
       (if refuses \<or> \<not> suffix (gp_remote p) (gp_head p) then (GitFailed [] ''remote rejected'' ''exit status 1'', p)
        else (GitDone [], p\<lparr>gp_remote := gp_head p\<rparr>))
     else (GitDone [], p))"

lemma map_of_filter_known:
  "map_of (filter (\<lambda>e. \<exists>y. map_of i (fst e) = Some y) xs) x = (if map_of i x = None then None else map_of xs x)"
  by (induction xs) auto

lemmas git_args_defs = in_dir_def set_url_args_def fetch_args_def checkout_args_def reset_args_def clean_args_def
  status_args_def add_args_def commit_args_def push_args_def

definition demo_git :: "bool \<Rightarrow> git_outside" where
  "demo_git refuses = \<lparr>gt_command = plain_git refuses, gt_context = (\<lambda>_. None), gt_lock_file = (\<lambda>_ _. LockOpened),
     gt_flock = (\<lambda>_. ([FlockTaken], ErrCanceled)), gt_mutex = (\<lambda>_. ([True], ErrCanceled)), gt_clear_dir = (\<lambda>_. None),
     gt_make_parent = (\<lambda>_. None), gt_clock = (\<lambda>n. 1000 + int n), gt_nonblocking = False, gt_temp_dir = ''/tmp''\<rparr>"

lemma plain_remote_grows: "remote_grows (demo_git refuses)"
  by (simp add: remote_grows_def demo_git_def plain_git_def Let_def)

lemma plain_fetch: "fetch_documented (demo_git refuses) gs"
  by (simp add: fetch_documented_def demo_git_def plain_git_def git_args_defs)

lemma plain_refresh: "refresh_documented (demo_git refuses) gs"
  by (auto simp: refresh_documented_def demo_git_def plain_git_def git_args_defs same_files_def fs_read_def
      map_of_filter_known map_add_def split: option.splits)

lemma plain_commit: "commit_documented (demo_git refuses) gs"
proof -
  have "trim_space ''?? new'' \<noteq> []" by code_simp
  then show ?thesis
    by (auto simp: commit_documented_def demo_git_def plain_git_def git_args_defs same_files_def
        dest!: equal_files_same [unfolded same_files_def] split: if_splits)
qed

lemma plain_git_documented: "git_documented (demo_git refuses) gs"
  by (simp add: git_documented_def plain_remote_grows plain_fetch plain_refresh plain_commit)

definition demo_settings :: git_settings where
  "demo_settings = \<lparr>gs_dir = ''/srv/gitops'', gs_remote = ''https://git.example/gitops.git'', gs_branch = ''main'',
     gs_author_name = ''aods'', gs_author_email = ''aods@example'', gs_timeout = 0, gs_ttl = 60000000000\<rparr>"

definition demo_checkout :: git_state where
  "demo_checkout = \<lparr>gr_place = \<lparr>gp_cloned = False, gp_work = [], gp_index = [], gp_head = [], gp_tracking = [],
     gp_remote = [(''seed'', [])]\<rparr>, gr_synced_at = 0, gr_synced_key = [], gr_sync_error = None, gr_in_flight = False,
     gr_asked = 0\<rparr>"

definition demo_edit :: "(repo, go_error, unit) action" where
  "demo_edit r = (Inr (), fs_write [''platform'', ''projects.yaml''] (CCatalog []) r)"

lemma demo_write: "isOk (fst (with_write (demo_git False) demo_settings True ''feat: seed'' demo_edit demo_checkout))"
  by code_simp

theorem write_published_witness:
  "\<exists>t. with_write (demo_git False) demo_settings True ''feat: seed'' demo_edit demo_checkout = (Inr (), t) \<and>
    (\<exists>h work work'. suffix [(''seed'', [])] h \<and> same_files work (tree h) \<and> demo_edit work = (Inr (), work') \<and>
      (same_files work' (tree h) \<and> suffix h (gp_remote (gr_place t)) \<or>
       (\<exists>files. same_files files work' \<and> suffix ((''feat: seed'', files) # h) (gp_remote (gr_place t)))))"
proof -
  obtain t where run: "with_write (demo_git False) demo_settings True ''feat: seed'' demo_edit demo_checkout = (Inr (), t)"
    using isOk_run [OF demo_write] by auto
  have "gp_remote (gr_place demo_checkout) = [(''seed'', [])]" by (simp add: demo_checkout_def)
  with write_published [OF plain_git_documented run] run show ?thesis by auto
qed

text \<open>
  A write that git refuses to push fails, and the remote does not have it; but the work tree keeps it, and as
  the synchronisation before the write counts as fresh, the next read serves it.
\<close>

lemma refused_write_seen:
  "case with_write (demo_git True) demo_settings True ''feat: seed'' demo_edit demo_checkout of (r, t) \<Rightarrow>
    \<not> isOk r \<and> gp_remote (gr_place t) = [(''seed'', [])] \<and>
    fst (with_read (demo_git True) demo_settings True (\<lambda>repo. Inr (fs_read repo [''platform'', ''projects.yaml''])) t) =
      Inr (Some (CCatalog []))"
  by code_simp

end
