(* ===== verification/ClusterCatalog.thy ===== *)
theory ClusterCatalog
  imports RepoState ProjectDefaults Messages
begin

text \<open>
  Package cluster: the cluster catalog platform/clusters.yaml (cluster/source_local.go) and the
  handlers List and Create (cluster/service.go). The lemmas show that a catalog that is written has
  one default cluster and is read as it is, what appending a cluster makes of it, that creating a
  cluster keeps the stored ones and writes its Flux scaffold, and that only platform administrators do.
\<close>

section \<open>The catalog\<close>

definition builtin_cluster :: cluster where
  "builtin_cluster =
    \<lparr>cl_id = ''default'', cl_name = ''Default Cluster'', cl_description = msg_default_cluster, cl_default = True\<rparr>"

definition clusters_path :: path where
  "clusters_path = [''platform'', ''clusters.yaml'']"

text \<open>None: the file does not exist.\<close>

definition read_cluster_catalog :: "repo \<Rightarrow> (go_error, cluster list option) result" where
  "read_cluster_catalog repo =
    (case fs_read repo clusters_path of
       None \<Rightarrow> Inr None
     | Some (CClusters cs) \<Rightarrow> Inr (Some cs)
     | Some _ \<Rightarrow> Inl (OtherError ''decode cluster catalog''))"

text \<open>The loop of normalizeCatalogClusters: the index of the first default, and the items so far.\<close>

fun normalize_clusters_loop :: "nat option \<Rightarrow> cluster list \<Rightarrow> cluster list \<Rightarrow> nat option \<times> cluster list" where
  "normalize_clusters_loop d items [] = (d, items)"
| "normalize_clusters_loop d items (c # cs) =
    (let cid = trim_space (cl_id c); name = trim_space (cl_name c);
         first = cl_default c \<and> d = None
     in if cid = [] then normalize_clusters_loop d items cs
        else normalize_clusters_loop (if first then Some (length items) else d)
          (items @ [\<lparr>cl_id = cid, cl_name = (if name = [] then cid else name),
             cl_description = trim_space (cl_description c), cl_default = first\<rparr>]) cs)"

definition normalize_catalog_clusters :: "cluster list \<Rightarrow> cluster list" where
  "normalize_catalog_clusters clusters =
    (case normalize_clusters_loop None [] clusters of
       (None, []) \<Rightarrow> []
     | (None, x # xs) \<Rightarrow> x\<lparr>cl_default := True\<rparr> # xs
     | (Some k, items) \<Rightarrow> map (\<lambda>(i, x). x\<lparr>cl_default := (i = k)\<rparr>) (enumerate 0 items))"

definition cluster_summaries :: "cluster list \<Rightarrow> cluster list" where
  "cluster_summaries clusters =
    map (\<lambda>c. if cl_name c = [] then c\<lparr>cl_name := cl_id c\<rparr> else c) (filter (\<lambda>c. cl_id c \<noteq> []) clusters)"

definition source_list_clusters :: "repo \<Rightarrow> (go_error, cluster list) result" where
  "source_list_clusters repo =
    bindR (read_cluster_catalog repo) (\<lambda>f.
      case f of None \<Rightarrow> Inr [builtin_cluster]
      | Some cs \<Rightarrow> (let items = cluster_summaries (normalize_catalog_clusters cs) in
          Inr (if items = [] then [builtin_cluster] else items)))"

definition source_create_cluster :: "flux_config \<Rightarrow> cluster \<Rightarrow> (repo, go_error, cluster) action" where
  "source_create_cluster cfg input repo =
    (case read_cluster_catalog repo of
       Inl e \<Rightarrow> (Inl e, repo)
     | Inr f \<Rightarrow>
         let clusters = (case f of None \<Rightarrow> [] | Some cs \<Rightarrow> cs); cid = trim_space (cl_id input)
         in if list_ex (\<lambda>c. trim_space (cl_id c) = cid) clusters then (Inl ErrClusterConflict, repo)
            else
              let others = (if cl_default input then map (cl_default_update (\<lambda>_. False)) clusters else clusters);
                  entry = \<lparr>cl_id = cid, cl_name = trim_space (cl_name input),
                    cl_description = trim_space (cl_description input), cl_default = cl_default input\<rparr>;
                  written = normalize_catalog_clusters (others @ [entry]);
                  repo1 = ensure_cluster cfg cid (fs_write clusters_path (CClusters written) repo)
              in (case find (\<lambda>c. cl_id c = cid) (cluster_summaries written) of
                    Some c \<Rightarrow> (Inr c, repo1)
                  | None \<Rightarrow> (Inl (OtherError (''created cluster '' @ cid @ '' could not be loaded'')), repo1)))"

section \<open>Handlers\<close>

definition cluster_service_list :: "repo \<Rightarrow> (go_error, cluster list) result" where
  "cluster_service_list repo =
    bindR (source_list_clusters repo) (\<lambda>items. Inr (if items = [] then [builtin_cluster] else items))"

definition cluster_validate_create :: "cluster \<Rightarrow> (go_error, unit) result" where
  "cluster_validate_create input =
    (if \<not> slug_pattern (trim_space (cl_id input)) then
       Inl (ClusterValidationError ''cluster id must be a lowercase slug'' (field_detail ''id''))
     else if trim_space (cl_name input) = [] then
       Inl (ClusterValidationError ''cluster name is required'' (field_detail ''name''))
     else Inr ())"

definition cluster_service_create ::
  "flux_config \<Rightarrow> string list \<Rightarrow> user \<Rightarrow> cluster \<Rightarrow> (repo, go_error, cluster) action" where
  "cluster_service_create cfg authorities u input =
    (if \<not> has_any_group (user_groups u) (effective_platform_admin_authorities authorities) then
       failS ErrClusterForbidden
     else bindS (liftR (cluster_validate_create input)) (\<lambda>_. source_create_cluster cfg input))"

section \<open>Lemmas\<close>

lemma clusters_loop_inv:
  assumes "normalize_clusters_loop d items cs = (d', items')"
    and "case d of None \<Rightarrow> list_all (\<lambda>c. \<not> cl_default c) items | Some k \<Rightarrow> k < length items"
  shows "(case d' of None \<Rightarrow> list_all (\<lambda>c. \<not> cl_default c) items' | Some k \<Rightarrow> k < length items') \<and>
    map cl_id items' = map cl_id items @ filter (\<lambda>x. x \<noteq> []) (map (trim_space \<circ> cl_id) cs)"
  using assms
proof (induction d items cs rule: normalize_clusters_loop.induct)
  case (2 d items c cs)
  show ?case
  proof (cases "trim_space (cl_id c) = []")
    case True
    with 2 show ?thesis by (simp add: Let_def)
  next
    case False
    with 2 show ?thesis by (auto simp: Let_def split: option.splits if_splits)
  qed
qed simp

lemma one_at: "length (filter (\<lambda>(i, x). i = (k::nat)) (enumerate n xs)) = (if n \<le> k \<and> k < n + length xs then 1 else 0)"
  by (induction xs arbitrary: n) (simp_all flip: length_0_conv)

text \<open>A catalog that has clusters has one default cluster, and the clusters keep their order.\<close>

lemma normalize_clusters_ok:
  "map cl_id (normalize_catalog_clusters cs) = filter (\<lambda>x. x \<noteq> []) (map (trim_space \<circ> cl_id) cs)"
  "normalize_catalog_clusters cs \<noteq> [] \<Longrightarrow> length (filter cl_default (normalize_catalog_clusters cs)) = 1"
proof -
  obtain d items where l: "normalize_clusters_loop None [] cs = (d, items)" by force
  from clusters_loop_inv [OF l]
  have inv: "case d of None \<Rightarrow> list_all (\<lambda>c. \<not> cl_default c) items | Some k \<Rightarrow> k < length items"
    and ids: "map cl_id items = filter (\<lambda>x. x \<noteq> []) (map (trim_space \<circ> cl_id) cs)" by simp_all
  have "map cl_id (normalize_catalog_clusters cs) = map cl_id items \<and>
    (normalize_catalog_clusters cs \<noteq> [] \<longrightarrow> length (filter cl_default (normalize_catalog_clusters cs)) = 1)"
  proof (cases d)
    case None
    with inv l show ?thesis
      by (cases items) (auto simp: normalize_catalog_clusters_def list_all_iff filter_empty_conv)
  next
    case (Some k)
    have n: "normalize_catalog_clusters cs = map (\<lambda>(i, x). x\<lparr>cl_default := (i = k)\<rparr>) (enumerate 0 items)"
      using l Some by (cases items) (simp_all add: normalize_catalog_clusters_def)
    have p: "cl_default \<circ> (\<lambda>(i, x). x\<lparr>cl_default := (i = k)\<rparr>) = (\<lambda>(i, x). i = k)" by (auto simp: fun_eq_iff)
    have q: "cl_id \<circ> (\<lambda>(i, x). x\<lparr>cl_default := (i = k)\<rparr>) = cl_id \<circ> snd" by (auto simp: fun_eq_iff)
    have "map cl_id (normalize_catalog_clusters cs) = map cl_id items"
      unfolding n map_map q by (simp flip: map_map)
    moreover have "length (filter cl_default (normalize_catalog_clusters cs)) = 1"
      using inv Some one_at [of k 0 items] unfolding n filter_map length_map p by simp
    ultimately show ?thesis by simp
  qed
  with ids show "map cl_id (normalize_catalog_clusters cs) = filter (\<lambda>x. x \<noteq> []) (map (trim_space \<circ> cl_id) cs)"
    "normalize_catalog_clusters cs \<noteq> [] \<Longrightarrow> length (filter cl_default (normalize_catalog_clusters cs)) = 1"
    by simp_all
qed

lemma catalog_after_ensure:
  assumes "cluster_name c"
  shows "fs_read (ensure_cluster cfg c (fs_write clusters_path y repo)) clusters_path = Some y"
  using assms by (simp add: ensure_cluster_def rewrite_cluster_root_def tree.read_write cluster_dir_plain
    bootstrap_dir_plain clusters_path_def clusters_root_def)

text \<open>A catalog that was written is read as it is: the normalisation is idempotent.\<close>

definition clean_cluster :: "cluster \<Rightarrow> bool" where
  "clean_cluster c \<longleftrightarrow> cl_id c \<noteq> [] \<and> cl_name c \<noteq> [] \<and> trim_space (cl_id c) = cl_id c \<and>
    trim_space (cl_name c) = cl_name c \<and> trim_space (cl_description c) = cl_description c"

lemma clean_update [simp]: "clean_cluster (c\<lparr>cl_default := b\<rparr>) = clean_cluster c"
  by (simp add: clean_cluster_def)

lemma clusters_loop_clean:
  "normalize_clusters_loop d items cs = (d', items') \<Longrightarrow> list_all clean_cluster items \<Longrightarrow> list_all clean_cluster items'"
proof (induction d items cs rule: normalize_clusters_loop.induct)
  case (2 d items c cs)
  show ?case
  proof (cases "trim_space (cl_id c) = []")
    case False
    with 2 show ?thesis by (simp add: Let_def clean_cluster_def split: if_splits)
  qed (use 2 in \<open>simp add: Let_def\<close>)
qed simp

lemma all_enumerate: "list_all P xs \<Longrightarrow> list_all (\<lambda>(i, x). P x) (enumerate n xs)"
  by (induction xs arbitrary: n) simp_all

lemma normalize_clusters_clean: "list_all clean_cluster (normalize_catalog_clusters cs)"
proof -
  obtain d items where l: "normalize_clusters_loop None [] cs = (d, items)" by force
  from clusters_loop_clean [OF l] have "list_all clean_cluster items" by simp
  moreover from this have "list_all (\<lambda>(i, x). clean_cluster x) (enumerate 0 items)" by (rule all_enumerate)
  moreover have "normalize_catalog_clusters cs =
      (case d of None \<Rightarrow> (case items of [] \<Rightarrow> [] | x # xs \<Rightarrow> x\<lparr>cl_default := True\<rparr> # xs)
       | Some k \<Rightarrow> map (\<lambda>(i, x). x\<lparr>cl_default := (i = k)\<rparr>) (enumerate 0 items))"
    by (simp add: normalize_catalog_clusters_def l split: option.splits list.splits)
  ultimately show ?thesis by (auto simp: list_all_iff split: option.splits list.splits)
qed

lemma default_self: "cl_default c = b \<Longrightarrow> c\<lparr>cl_default := b\<rparr> = c"
  by (cases c) simp

lemma clean_skip:
  "clean_cluster c \<Longrightarrow> \<not> cl_default c \<Longrightarrow>
    normalize_clusters_loop d items (c # cs) = normalize_clusters_loop d (items @ [c]) cs"
  by (cases c) (simp add: Let_def clean_cluster_def)

lemma clean_hit:
  "clean_cluster c \<Longrightarrow> cl_default c \<Longrightarrow>
    normalize_clusters_loop None items (c # cs) = normalize_clusters_loop (Some (length items)) (items @ [c]) cs"
  by (cases c) (simp add: Let_def clean_cluster_def)

lemma clusters_loop_skip:
  "list_all clean_cluster cs \<Longrightarrow> list_all (\<lambda>c. \<not> cl_default c) cs \<Longrightarrow>
    normalize_clusters_loop d items (cs @ rest) = normalize_clusters_loop d (items @ cs) rest"
  by (induction cs arbitrary: items) (simp_all add: clean_skip del: normalize_clusters_loop.simps)

lemma normalize_clusters_id:
  assumes "list_all clean_cluster cs" and "length (filter cl_default cs) = 1"
  shows "normalize_catalog_clusters cs = cs"
proof -
  from assms(2) obtain x where "filter cl_default cs = [x]" by (auto simp: length_Suc_conv)
  then obtain pre post where cs: "cs = pre @ x # post" and pre: "\<forall>c \<in> set pre. \<not> cl_default c" and x: "cl_default x"
    and post: "filter cl_default post = []"
    by (auto simp: filter_eq_Cons_iff)
  have cl: "clean_cluster x" "list_all clean_cluster pre" "list_all clean_cluster post" using assms(1) cs by simp_all
  have nd: "list_all (\<lambda>c. \<not> cl_default c) pre" "list_all (\<lambda>c. \<not> cl_default c) post"
    using pre post by (auto simp: list_all_iff filter_empty_conv)
  have "normalize_clusters_loop None [] cs = normalize_clusters_loop (Some (length pre)) (pre @ [x]) post"
    unfolding cs clusters_loop_skip [OF cl(2) nd(1)] using clean_hit [OF cl(1) x] by simp
  also have "\<dots> = (Some (length pre), cs)"
    using clusters_loop_skip [OF cl(3) nd(2), of _ _ "[]"] by (simp add: cs)
  finally have l: "normalize_clusters_loop None [] cs = (Some (length pre), cs)" .
  have "map (\<lambda>(i, x). x\<lparr>cl_default := (i = length pre)\<rparr>) (enumerate 0 cs) = cs"
  proof (rule nth_equalityI)
    fix i assume "i < length (map (\<lambda>(i, x). x\<lparr>cl_default := (i = length pre)\<rparr>) (enumerate 0 cs))"
    then have i: "i < length cs" by simp
    have "cl_default (cs ! i) = (i = length pre)"
      using i x pre nd(2) by (auto simp: cs nth_append nth_Cons list_all_iff split: nat.splits)
    then have "(cs ! i)\<lparr>cl_default := (i = length pre)\<rparr> = cs ! i" by (rule default_self)
    with i show "map (\<lambda>(i, x). x\<lparr>cl_default := (i = length pre)\<rparr>) (enumerate 0 cs) ! i = cs ! i"
      by (simp add: nth_enumerate_eq)
  qed simp
  then show ?thesis using l by (simp add: normalize_catalog_clusters_def)
qed

lemma normalize_clusters_idem [simp]:
  "normalize_catalog_clusters (normalize_catalog_clusters cs) = normalize_catalog_clusters cs"
proof (cases "normalize_catalog_clusters cs = []")
  case True
  show ?thesis unfolding True by (simp add: normalize_catalog_clusters_def)
next
  case False
  show ?thesis by (rule normalize_clusters_id [OF normalize_clusters_clean normalize_clusters_ok(2) [OF False]])
qed

lemma slug_nonempty_id: "slug_pattern s \<Longrightarrow> s \<noteq> []"
  by (auto dest: slug_ends)

section \<open>Appending a cluster\<close>

definition undefaulted :: "cluster \<Rightarrow> cluster" where
  "undefaulted c = c\<lparr>cl_default := False\<rparr>"

lemma clusters_loop_append:
  "normalize_clusters_loop d items (xs @ ys) =
    (case normalize_clusters_loop d items xs of (d', items') \<Rightarrow> normalize_clusters_loop d' items' ys)"
  by (induction d items xs rule: normalize_clusters_loop.induct) (simp_all add: Let_def)

text \<open>The entries that the loop keeps, as they are stored but for the default.\<close>

definition tidied :: "cluster list \<Rightarrow> cluster list" where
  "tidied cs = map (\<lambda>c. \<lparr>cl_id = trim_space (cl_id c),
      cl_name = (if trim_space (cl_name c) = [] then trim_space (cl_id c) else trim_space (cl_name c)),
      cl_description = trim_space (cl_description c), cl_default = False\<rparr>)
    (filter (\<lambda>c. trim_space (cl_id c) \<noteq> []) cs)"

lemma clusters_loop_tidied:
  "map undefaulted (snd (normalize_clusters_loop d items cs)) = map undefaulted items @ tidied cs"
  by (induction cs arbitrary: d items) (simp_all add: Let_def tidied_def undefaulted_def)

lemma clusters_loop_undefaulted:
  "normalize_clusters_loop None items (map undefaulted cs) = (None, items @ tidied cs)"
  by (induction cs arbitrary: items) (simp_all add: Let_def tidied_def undefaulted_def)

lemma map_enumerate_fresh:
  "n + length xs \<le> k \<Longrightarrow> map (\<lambda>(i, x). x\<lparr>cl_default := (i = k)\<rparr>) (enumerate n xs) = map undefaulted xs"
  by (induction xs arbitrary: n) (simp_all add: undefaulted_def)

lemma undefaulted_enumerate:
  "map undefaulted (map (\<lambda>(i, x). x\<lparr>cl_default := (i = k)\<rparr>) (enumerate n xs)) = map undefaulted xs"
  by (induction xs arbitrary: n) (simp_all add: undefaulted_def)

text \<open>The normalisation of a catalog to which one clean entry was appended.\<close>

lemma normalize_append_plain:
  assumes "clean_cluster e" and "\<not> cl_default e"
  shows "normalize_catalog_clusters (cs @ [e]) = normalize_catalog_clusters cs @
    [e\<lparr>cl_default := (normalize_catalog_clusters cs = [])\<rparr>]"
proof -
  obtain d items where l: "normalize_clusters_loop None [] cs = (d, items)" by force
  have a: "normalize_clusters_loop None [] (cs @ [e]) = (d, items @ [e])"
    unfolding clusters_loop_append l by (simp add: clean_skip [OF assms] del: normalize_clusters_loop.simps(2))
  have e: "e\<lparr>cl_default := False\<rparr> = e" using assms(2) by (cases e) simp
  show ?thesis
  proof (cases d)
    case None
    with a l e show ?thesis by (cases items) (simp_all add: normalize_catalog_clusters_def)
  next
    case (Some k)
    with clusters_loop_inv [OF l] have "k < length items" by simp
    then have "items \<noteq> []" "length items \<noteq> k" by auto
    with Some a l e show ?thesis
      by (cases items) (simp_all add: normalize_catalog_clusters_def enumerate_append_eq)
  qed
qed

lemma normalize_undefaulted: "map undefaulted (normalize_catalog_clusters cs) = map undefaulted (snd (normalize_clusters_loop None [] cs))"
proof -
  obtain d items where l: "normalize_clusters_loop None [] cs = (d, items)" by force
  show ?thesis
  proof (cases d)
    case None
    with l show ?thesis by (cases items) (simp_all add: normalize_catalog_clusters_def undefaulted_def)
  next
    case (Some k)
    with l show ?thesis by (cases items) (simp_all only: normalize_catalog_clusters_def undefaulted_enumerate prod.case option.case snd_conv)
  qed
qed

lemma normalize_append_default:
  assumes "clean_cluster e" and "cl_default e"
  shows "normalize_catalog_clusters (map undefaulted cs @ [e]) = map undefaulted (normalize_catalog_clusters cs) @ [e]"
proof -
  let ?items = "map undefaulted (normalize_catalog_clusters cs)"
  have l: "normalize_clusters_loop None [] (map undefaulted cs) = (None, ?items)"
    by (simp add: normalize_undefaulted clusters_loop_undefaulted clusters_loop_tidied)
  have a: "normalize_clusters_loop None [] (map undefaulted cs @ [e]) = (Some (length ?items), ?items @ [e])"
    unfolding clusters_loop_append l by (simp add: clean_hit [OF assms] del: normalize_clusters_loop.simps(2))
  have e: "e\<lparr>cl_default := True\<rparr> = e" using assms(2) by (cases e) simp
  have "map (\<lambda>(i, x). x\<lparr>cl_default := (i = length ?items)\<rparr>) (enumerate 0 ?items) = map undefaulted ?items"
    by (rule map_enumerate_fresh) simp
  also have "\<dots> = ?items" by (simp add: undefaulted_def)
  finally show ?thesis
    using a e by (simp add: normalize_catalog_clusters_def enumerate_append_eq)
qed

lemma summaries_clean: "list_all clean_cluster cs \<Longrightarrow> cluster_summaries cs = cs"
  by (induction cs) (simp_all add: cluster_summaries_def clean_cluster_def)

text \<open>The clusters that a repository stores: none without a catalog file.\<close>

definition stored_clusters :: "repo \<Rightarrow> cluster list" where
  "stored_clusters repo =
    (case fs_read repo clusters_path of
       Some (CClusters cs) \<Rightarrow> normalize_catalog_clusters cs
     | _ \<Rightarrow> [])"

lemma listed_clusters:
  assumes "read_cluster_catalog repo = Inr f"
  shows "cluster_service_list repo = Inr (if stored_clusters repo = [] then [builtin_cluster] else stored_clusters repo)"
  using assms summaries_clean [OF normalize_clusters_clean]
  by (auto simp: cluster_service_list_def source_list_clusters_def stored_clusters_def read_cluster_catalog_def Let_def
    split: option.splits content.splits)

lemma source_create_run:
  assumes "source_create_cluster cfg input repo = (Inr c, t)" and "trim_space (cl_id input) \<noteq> []"
    and "trim_space (cl_name input) \<noteq> []"
  shows "\<exists>f. read_cluster_catalog repo = Inr f"
    and "trim_space (cl_id input) \<notin> cl_id ` set (stored_clusters repo)"
    and "c = \<lparr>cl_id = trim_space (cl_id input), cl_name = trim_space (cl_name input),
      cl_description = trim_space (cl_description input), cl_default = (cl_default input \<or> stored_clusters repo = [])\<rparr>"
    and "t = ensure_cluster cfg (trim_space (cl_id input)) (fs_write clusters_path
      (CClusters ((if cl_default input then map undefaulted (stored_clusters repo) else stored_clusters repo) @ [c])) repo)"
proof -
  let ?id = "trim_space (cl_id input)"
  let ?e = "\<lparr>cl_id = ?id, cl_name = trim_space (cl_name input),
      cl_description = trim_space (cl_description input), cl_default = cl_default input\<rparr>"
  from assms(1) obtain f where f: "read_cluster_catalog repo = Inr f"
    by (auto simp: source_create_cluster_def split: sum.splits)
  then show "\<exists>f. read_cluster_catalog repo = Inr f" by blast
  define cs where "cs = (case f of None \<Rightarrow> [] | Some cs \<Rightarrow> cs)"
  define w where "w = normalize_catalog_clusters ((if cl_default input then map undefaulted cs else cs) @ [?e])"
  have stored: "stored_clusters repo = normalize_catalog_clusters cs"
    using f by (auto simp: stored_clusters_def read_cluster_catalog_def cs_def normalize_catalog_clusters_def
      split: option.splits content.splits)
  have u: "undefaulted = cl_default_update (\<lambda>_. False)" by (simp add: undefaulted_def fun_eq_iff)
  have new: "\<not> list_ex (\<lambda>c. trim_space (cl_id c) = ?id) cs"
    using assms(1) f by (auto simp: source_create_cluster_def Let_def cs_def split: if_splits)
  with assms(1) f have t: "t = ensure_cluster cfg ?id (fs_write clusters_path (CClusters w) repo)"
    and c: "find (\<lambda>c. cl_id c = ?id) (cluster_summaries w) = Some c"
    by (auto simp: source_create_cluster_def Let_def cs_def w_def u split: option.splits)
  have "cl_id ` set (stored_clusters repo) = set (map cl_id (normalize_catalog_clusters cs))" by (simp add: stored)
  also have "\<dots> \<subseteq> (trim_space \<circ> cl_id) ` set cs" unfolding normalize_clusters_ok by auto
  finally show fresh: "?id \<notin> cl_id ` set (stored_clusters repo)" using new by (auto simp: list_ex_iff)
  have clean: "clean_cluster ?e" using assms(2,3) by (simp add: clean_cluster_def)
  have w': "w = (if cl_default input then map undefaulted (stored_clusters repo) else stored_clusters repo) @
      [?e\<lparr>cl_default := (cl_default input \<or> stored_clusters repo = [])\<rparr>]"
    using normalize_append_default [OF clean] normalize_append_plain [OF clean] by (simp add: w_def stored)
  let ?e' = "?e\<lparr>cl_default := (cl_default input \<or> stored_clusters repo = [])\<rparr>"
  have last: "find (\<lambda>c. cl_id c = ?id) (xs @ [x]) = Some x" if "?id \<notin> cl_id ` set xs" "cl_id x = ?id" for xs x
    using that by (induction xs) auto
  have "?id \<notin> cl_id ` set (if cl_default input then map undefaulted (stored_clusters repo) else stored_clusters repo)"
    using fresh by (auto simp: undefaulted_def)
  then have "find (\<lambda>c. cl_id c = ?id) w = Some ?e'" unfolding w' by (rule last) simp
  with c have "c = ?e'" using summaries_clean [OF normalize_clusters_clean] by (simp add: w_def)
  then show c': "c = \<lparr>cl_id = ?id, cl_name = trim_space (cl_name input),
      cl_description = trim_space (cl_description input), cl_default = (cl_default input \<or> stored_clusters repo = [])\<rparr>"
    by simp
  show "t = ensure_cluster cfg ?id (fs_write clusters_path
      (CClusters ((if cl_default input then map undefaulted (stored_clusters repo) else stored_clusters repo) @ [c])) repo)"
    using t w' c' by simp
qed

text \<open>The stored clusters, and what appending a cluster to them keeps.\<close>

lemma stored_tidied: "fs_read repo clusters_path = Some (CClusters cs) \<Longrightarrow> map undefaulted (stored_clusters repo) = tidied cs"
  by (simp add: stored_clusters_def normalize_undefaulted clusters_loop_tidied)

lemma stored_appended:
  assumes "clean_cluster c" and "cl_default c = (d \<or> stored_clusters repo = [])"
  shows "list_all clean_cluster ((if d then map undefaulted (stored_clusters repo) else stored_clusters repo) @ [c])"
    and "length (filter cl_default ((if d then map undefaulted (stored_clusters repo) else stored_clusters repo) @ [c])) = 1"
proof -
  have "list_all clean_cluster (stored_clusters repo)"
    by (simp add: stored_clusters_def normalize_clusters_clean split: option.splits content.splits)
  with assms(1) show "list_all clean_cluster ((if d then map undefaulted (stored_clusters repo) else stored_clusters repo) @ [c])"
    by (auto simp: list_all_iff undefaulted_def)
  have "length (filter cl_default (stored_clusters repo)) = 1" if "stored_clusters repo \<noteq> []"
    using that normalize_clusters_ok(2) by (auto simp: stored_clusters_def split: option.splits content.splits)
  with assms(2) show "length (filter cl_default ((if d then map undefaulted (stored_clusters repo) else stored_clusters repo) @ [c])) = 1"
    by (cases d) (auto simp: undefaulted_def filter_empty_conv)
qed

section \<open>Properties\<close>

text \<open>
  C8: when the handler creates a cluster, the caller is a platform administrator, the identifier is a
  slug that no stored cluster has and the name is not empty. The stored clusters are the entries of the
  catalog file, trimmed. The list of clusters is then what was stored, in its order and unchanged but for the default, followed by the new cluster, and has one
  default: the new cluster when it asks to be or is the first that is stored, and otherwise the one
  that was. (The built-in default cluster is listed only while none is stored.) The three files of the
  Flux scaffold of the new cluster are written, its root in step with its applications, and every other
  file but the catalog stays.
\<close>

theorem cluster_created:
  assumes "cluster_service_create cfg authorities u input repo = (Inr c, t)"
  shows "is_platform_admin u authorities \<and> slug_pattern (cl_id c) \<and> cl_name c \<noteq> [] \<and>
    cl_id c \<notin> cl_id ` set (stored_clusters repo) \<and>
    c = \<lparr>cl_id = trim_space (cl_id input), cl_name = trim_space (cl_name input),
      cl_description = trim_space (cl_description input), cl_default = (cl_default input \<or> stored_clusters repo = [])\<rparr> \<and>
    (\<forall>cs. fs_read repo clusters_path = Some (CClusters cs) \<longrightarrow> map undefaulted (stored_clusters repo) = tidied cs) \<and>
    cluster_service_list repo = Inr (if stored_clusters repo = [] then [builtin_cluster] else stored_clusters repo) \<and>
    (\<exists>items. cluster_service_list t = Inr items \<and>
      items = map (\<lambda>x. if cl_default input then x\<lparr>cl_default := False\<rparr> else x) (stored_clusters repo) @ [c] \<and>
      length (filter cl_default items) = 1) \<and>
    fs_read t (bootstrap_dir (cl_id c) @ [''kustomization.yaml'']) = Some (CYaml render_bootstrap_kustomization) \<and>
    fs_read t (bootstrap_dir (cl_id c) @ [bootstrap_root_file_name]) =
      Some (CYaml (render_flux_bootstrap_root (cl_id c) (flux_namespace cfg) (flux_source_name cfg))) \<and>
    root_in_step (cl_id c) t \<and>
    (\<forall>q. q \<notin> {clusters_path, bootstrap_dir (cl_id c) @ [''kustomization.yaml''],
        bootstrap_dir (cl_id c) @ [bootstrap_root_file_name], cluster_dir (cl_id c) @ [''kustomization.yaml'']} \<longrightarrow>
      fs_read t q = fs_read repo q)"
proof -
  from assms have admin: "is_platform_admin u authorities" and valid: "cluster_validate_create input = Inr ()"
    and create: "source_create_cluster cfg input repo = (Inr c, t)"
    by (auto simp: cluster_service_create_def is_platform_admin_def bindS_Inr action_Inr split: if_splits)
  have slug: "slug_pattern (trim_space (cl_id input))" and named: "trim_space (cl_name input) \<noteq> []"
    using valid by (simp_all add: cluster_validate_create_def split: if_splits)
  note run = source_create_run [OF create slug_nonempty_id [OF slug] named]
  note name = slug_cluster_name [OF slug]
  define items where "items = (if cl_default input then map undefaulted (stored_clusters repo) else stored_clusters repo) @ [c]"
  have id: "cl_id c = trim_space (cl_id input)" using run(3) by simp
  have catalog: "fs_read t clusters_path = Some (CClusters items)"
    using run(4) catalog_after_ensure name unfolding items_def by blast
  have clean: "list_all clean_cluster items" and one: "length (filter cl_default items) = 1"
    using stored_appended [of c "cl_default input" repo] run(3) slug_nonempty_id [OF slug] named
    by (simp_all add: items_def clean_cluster_def)
  have "cluster_service_list t = Inr items"
  proof -
    have "read_cluster_catalog t = Inr (Some items)" using catalog by (simp add: read_cluster_catalog_def)
    moreover have "stored_clusters t = items" using catalog normalize_clusters_id [OF clean one] by (simp add: stored_clusters_def)
    ultimately show ?thesis using listed_clusters by (auto simp: items_def)
  qed
  moreover have "items = map (\<lambda>x. if cl_default input then x\<lparr>cl_default := False\<rparr> else x) (stored_clusters repo) @ [c]"
    by (simp add: items_def undefaulted_def)
  moreover have "root_in_step (cl_id c) t"
    unfolding run(4) id using ensure_in_step name by blast
  moreover have "fs_read t (bootstrap_dir (cl_id c) @ [''kustomization.yaml'']) = Some (CYaml render_bootstrap_kustomization)"
    "fs_read t (bootstrap_dir (cl_id c) @ [bootstrap_root_file_name]) =
      Some (CYaml (render_flux_bootstrap_root (cl_id c) (flux_namespace cfg) (flux_source_name cfg)))"
    unfolding run(4) id using name
    by (simp_all add: ensure_cluster_def rewrite_cluster_root_def tree.read_write cluster_dir_plain bootstrap_dir_plain
      clusters_root_def bootstrap_root_file_name_def)
  moreover have "\<forall>q. q \<notin> {clusters_path, bootstrap_dir (cl_id c) @ [''kustomization.yaml''],
      bootstrap_dir (cl_id c) @ [bootstrap_root_file_name], cluster_dir (cl_id c) @ [''kustomization.yaml'']} \<longrightarrow>
      fs_read t q = fs_read repo q"
    unfolding run(4) id by (simp add: ensure_cluster_def rewrite_cluster_root_def tree.read_write)
  ultimately show ?thesis
    using admin slug named one run(2,3) id listed_clusters run(1) stored_tidied by auto
qed

definition demo_cluster :: cluster where
  "demo_cluster = \<lparr>cl_id = '' edge '', cl_name = ''Edge'', cl_description = [], cl_default = False\<rparr>"

definition demo_clusters_repo :: repo where
  "demo_clusters_repo =
    [(clusters_path, CClusters [\<lparr>cl_id = ''main'', cl_name = [], cl_description = [], cl_default = False\<rparr>])]"

definition demo_cluster_admin :: user where
  "demo_cluster_admin = \<lparr>user_id = ''u'', user_name = ''u'', user_display = ''u'', user_groups = [platform_admin_group]\<rparr>"

text \<open>With a stored cluster, and in a repository without a catalog, where the built-in cluster is no longer listed.\<close>

theorem cluster_created_witness:
  "(\<exists>c t. cluster_service_create \<lparr>fc_namespace = [], fc_source = []\<rparr> [] demo_cluster_admin demo_cluster demo_clusters_repo = (Inr c, t) \<and>
      cluster_service_list t = Inr
        [\<lparr>cl_id = ''main'', cl_name = ''main'', cl_description = [], cl_default = True\<rparr>,
         \<lparr>cl_id = ''edge'', cl_name = ''Edge'', cl_description = [], cl_default = False\<rparr>]) \<and>
   (\<exists>c t. cluster_service_create \<lparr>fc_namespace = [], fc_source = []\<rparr> [] demo_cluster_admin demo_cluster [] = (Inr c, t) \<and>
      cluster_service_list [] = Inr [builtin_cluster] \<and>
      cluster_service_list t = Inr [\<lparr>cl_id = ''edge'', cl_name = ''Edge'', cl_description = [], cl_default = True\<rparr>])"
proof (intro conjI)
  let ?cfg = "\<lparr>fc_namespace = [], fc_source = []\<rparr>"
  have trims: "trim_space '' edge '' = ''edge''" "trim_space ''Edge'' = ''Edge''" "trim_space [] = []" by code_simp+
  have "isOk (fst (cluster_service_create ?cfg [] demo_cluster_admin demo_cluster demo_clusters_repo))" by code_simp
  from isOk_run [OF this] obtain c t where
    ct: "cluster_service_create ?cfg [] demo_cluster_admin demo_cluster demo_clusters_repo = (Inr c, t)" by blast
  have stored: "stored_clusters demo_clusters_repo =
    [\<lparr>cl_id = ''main'', cl_name = ''main'', cl_description = [], cl_default = True\<rparr>]" by code_simp
  show "\<exists>c t. cluster_service_create ?cfg [] demo_cluster_admin demo_cluster demo_clusters_repo = (Inr c, t) \<and>
      cluster_service_list t = Inr
        [\<lparr>cl_id = ''main'', cl_name = ''main'', cl_description = [], cl_default = True\<rparr>,
         \<lparr>cl_id = ''edge'', cl_name = ''Edge'', cl_description = [], cl_default = False\<rparr>]"
    using ct cluster_created [OF ct] unfolding stored by (intro exI [of _ c] exI [of _ t]) (auto simp: demo_cluster_def trims)
  have "isOk (fst (cluster_service_create ?cfg [] demo_cluster_admin demo_cluster []))" by code_simp
  from isOk_run [OF this] obtain d r where
    dr: "cluster_service_create ?cfg [] demo_cluster_admin demo_cluster [] = (Inr d, r)" by blast
  have none: "stored_clusters [] = []" by (simp add: stored_clusters_def fs_read_def)
  show "\<exists>c t. cluster_service_create ?cfg [] demo_cluster_admin demo_cluster [] = (Inr c, t) \<and>
      cluster_service_list [] = Inr [builtin_cluster] \<and>
      cluster_service_list t = Inr [\<lparr>cl_id = ''edge'', cl_name = ''Edge'', cl_description = [], cl_default = True\<rparr>]"
    using dr cluster_created [OF dr] unfolding none by (intro exI [of _ d] exI [of _ r]) (auto simp: demo_cluster_def trims)
qed

end
