(* ===== verification/ProjectLaws.thy ===== *)
theory ProjectLaws
  imports ProjectPolicy
begin

text \<open>
  What a normalised create request of package project satisfies: slug identifiers without
  repetition, one default environment, policies that name existing environments; and that such a
  project is a fixed point of the defaults applied whenever the catalog is read.
\<close>

lemma environments_loop_step:
  assumes "normalize_create_environments_loop seen (e # es) = Inr xs"
  obtains x rest where "xs = x # rest" "normalize_create_environments_loop (env_id x # seen) es = Inr rest"
    "slug_pattern (env_id x)" "env_id x \<notin> set seen" "env_id x = trim_space (env_id e)"
    "env_write_mode x \<in> {[], write_mode_direct, write_mode_pull_request}"
    "env_cluster x = [] \<or> slug_pattern (env_cluster x)"
proof -
  from assms obtain rest where rest:
    "normalize_create_environments_loop (trim_space (env_id e) # seen) es = Inr rest"
    "xs = \<lparr>env_id = trim_space (env_id e), env_name = trim_space (env_name e),
      env_cluster = trim_space (env_cluster e), env_write_mode = env_write_mode e,
      env_default = env_default e\<rparr> # rest"
    "slug_pattern (trim_space (env_id e))" "trim_space (env_id e) \<notin> set seen"
    "env_write_mode e \<in> {[], write_mode_direct, write_mode_pull_request}"
    "trim_space (env_cluster e) = [] \<or> slug_pattern (trim_space (env_cluster e))"
    by (simp only: normalize_create_environments_loop.simps Let_def bindR_eq_Inr sum.inject
        sum.distinct split: if_splits) blast
  show ?thesis by (rule that [OF rest(2)]) (simp_all add: rest [simplified])
qed

lemma repositories_loop_step:
  assumes "normalize_create_repositories_loop seen (r # rs) = Inr xs"
  obtains x rest where "xs = x # rest" "normalize_create_repositories_loop (repo_id x # seen) rs = Inr rest"
    "slug_pattern (repo_id x)" "repo_id x \<notin> set seen" "repo_name x \<noteq> []" "repo_url x \<noteq> []"
  using assms by (auto simp: Let_def bindR_eq_Inr split: if_splits)

lemma environments_loop_ok:
  "normalize_create_environments_loop seen es = Inr xs \<Longrightarrow>
    distinct (map env_id xs) \<and> list_all slug_pattern (map env_id xs) \<and>
    set (map env_id xs) \<inter> set seen = {}"
proof (induction es arbitrary: seen xs)
  case (Cons e es)
  from Cons.prems show ?case
  proof (rule environments_loop_step)
    fix x rest
    assume x: "xs = x # rest" "slug_pattern (env_id x)" "env_id x \<notin> set seen"
      and rest: "normalize_create_environments_loop (env_id x # seen) es = Inr rest"
    from x Cons.IH [OF rest] show ?thesis by auto
  qed
qed simp

lemma repositories_loop_ok:
  "normalize_create_repositories_loop seen rs = Inr xs \<Longrightarrow>
    distinct (map repo_id xs) \<and> list_all slug_pattern (map repo_id xs) \<and>
    set (map repo_id xs) \<inter> set seen = {}"
proof (induction rs arbitrary: seen xs)
  case (Cons r rs)
  from Cons.prems show ?case
  proof (rule repositories_loop_step)
    fix x rest
    assume x: "xs = x # rest" "slug_pattern (repo_id x)" "repo_id x \<notin> set seen"
      and rest: "normalize_create_repositories_loop (repo_id x # seen) rs = Inr rest"
    from x Cons.IH [OF rest] show ?thesis by auto
  qed
qed simp

lemmas create_loops = environments_loop_ok repositories_loop_ok

lemma slug_nonempty: "slug_pattern s \<Longrightarrow> s \<noteq> []"
  by (auto dest: slug_ends)

lemma filter_slugs: "list_all slug_pattern xs \<Longrightarrow> filter (\<lambda>x. x \<noteq> []) xs = xs"
  by (induction xs) (auto dest: slug_nonempty)

text \<open>The environments of a normalised request, after the defaults.\<close>

lemma normalised_environments:
  assumes "normalize_create_environments es = Inr xs"
  defines "envs \<equiv> apply_environment_defaults xs"
  shows "envs \<noteq> []" and "distinct (map env_id envs)" and "list_all slug_pattern (map env_id envs)"
    and "length (filter env_default envs) = 1"
proof -
  from assms(1) environments_loop_ok [of "[]" es xs]
  have xs: "distinct (map env_id xs)" "list_all slug_pattern (map env_id xs)"
    by (auto simp: normalize_create_environments_def)
  have shared: "slug_pattern ''shared''" by (simp add: slug_pattern_def slug_alnum_def)
  have ids: "map env_id envs = (if xs = [] then [''shared''] else map env_id xs)"
    using apply_environment_defaults_ids [of xs] filter_slugs [OF xs(2)]
    by (auto simp: envs_def apply_environment_defaults_def)
  show "distinct (map env_id envs)" "list_all slug_pattern (map env_id envs)"
    using xs shared by (simp_all add: ids)
  show "envs \<noteq> []" using ids by (cases envs) (auto split: if_splits)
  then show "length (filter env_default envs) = 1"
    unfolding envs_def by (rule one_default_environment)
qed

definition well_formed_project :: "catalog_project \<Rightarrow> bool" where
  "well_formed_project p \<longleftrightarrow>
    slug_pattern (cp_id p) \<and> cp_name p = cp_id p \<and> cp_namespace p = cp_id p \<and>
    distinct (map env_id (cp_environments p)) \<and> list_all slug_pattern (map env_id (cp_environments p)) \<and>
    length (filter env_default (cp_environments p)) = 1 \<and>
    distinct (map repo_id (cp_repositories p)) \<and> list_all slug_pattern (map repo_id (cp_repositories p)) \<and>
    set (pol_environments (cp_policies p)) \<subseteq> set (map env_id (cp_environments p)) \<and>
    pol_strategies (cp_policies p) \<noteq> [] \<and> set (pol_strategies (cp_policies p)) \<subseteq> {''Rollout'', ''Canary''} \<and>
    1 \<le> pol_min_replicas (cp_policies p) \<and> pol_clusters (cp_policies p) \<noteq> []"

lemma normalize_create_request_unfold:
  assumes "normalize_create_request clusters authorities input = Inr p"
  obtains xs rs q where
    "normalize_create_environments (cp_environments input) = Inr xs"
    "normalize_create_repositories (cp_repositories input) = Inr rs"
    "slug_pattern (cp_id p)" "cp_name p = cp_id p" "cp_namespace p = cp_id p"
    "cp_id p = trim_space (cp_id input)"
    "cp_environments p = apply_environment_defaults xs" "cp_repositories p = rs"
    "cp_policies p = apply_policy_defaults q (apply_environment_defaults xs)"
    "cp_access p = normalize_access_with_platform_admins (cp_access input) (cp_id p)
      (effective_platform_admin_authorities authorities)"
    "validate_cluster_targets clusters (cp_environments p) (cp_policies p) = Inr ()"
    "validate_create_policy_targets (cp_policies p) (cp_environments p) = Inr ()"
  using assms
  by (auto simp: normalize_create_request_def Let_def bindR_eq_Inr split: if_splits)

lemma policy_targets_ok:
  "validate_create_policy_targets q es = Inr () \<Longrightarrow> set (pol_environments q) \<subseteq> set (map env_id es)"
  by (auto simp: validate_create_policy_targets_def find_None_iff split: option.splits)

lemma cluster_targets_ok:
  assumes "validate_cluster_targets (Some (Inr ids)) es q = Inr ()" and "e \<in> set es"
    and "trim_space (env_cluster e) = env_cluster e"
  shows "env_cluster e \<in> {[], ''default''} \<union> set ids"
  using assms
  by (auto simp: validate_cluster_targets_def Let_def find_None_iff split: option.splits if_splits)

lemma normalised_well_formed:
  assumes "normalize_create_request clusters authorities input = Inr p"
  shows "well_formed_project p"
proof -
  from assms obtain xs rs q where
    xs: "normalize_create_environments (cp_environments input) = Inr xs"
    and rs: "normalize_create_repositories (cp_repositories input) = Inr rs"
    and p: "slug_pattern (cp_id p)" "cp_name p = cp_id p" "cp_namespace p = cp_id p"
      "cp_environments p = apply_environment_defaults xs" "cp_repositories p = rs"
      "cp_policies p = apply_policy_defaults q (apply_environment_defaults xs)"
    and t: "validate_create_policy_targets (cp_policies p) (cp_environments p) = Inr ()"
    by (rule normalize_create_request_unfold)
  note env = normalised_environments [OF xs]
  from rs repositories_loop_ok [of "[]"] have "distinct (map repo_id rs)" "list_all slug_pattern (map repo_id rs)"
    by (auto simp: normalize_create_repositories_def)
  moreover have "set (pol_environments (cp_policies p)) \<subseteq> set (map env_id (cp_environments p))"
    by (rule policy_targets_ok [OF t])
  moreover note apply_policy_defaults_fields [of q "apply_environment_defaults xs"]
  ultimately show ?thesis
    using p env by (auto simp: well_formed_project_def)
qed

lemma normalised_fixpoint:
  assumes "normalize_create_request clusters authorities input = Inr p"
  shows "apply_project_defaults p = p"
proof -
  from assms obtain xs q where
    xs: "normalize_create_environments (cp_environments input) = Inr xs"
    and p: "slug_pattern (cp_id p)" "cp_namespace p = cp_id p"
      "cp_environments p = apply_environment_defaults xs"
      "cp_policies p = apply_policy_defaults q (apply_environment_defaults xs)"
    by (rule normalize_create_request_unfold)
  have e: "apply_environment_defaults (cp_environments p) = cp_environments p"
    unfolding p(3) by (rule apply_environment_defaults_idem [OF normalised_environments(1) [OF xs]])
  have q: "apply_policy_defaults (cp_policies p) (cp_environments p) = cp_policies p"
    unfolding p(3,4) by (rule apply_policy_defaults_idem)
  have n: "trim_space (cp_namespace p) \<noteq> []"
    using p(1,2) slug_trim [of "cp_id p"] slug_nonempty [of "cp_id p"] by simp
  show ?thesis
    using n by (simp add: apply_project_defaults_def Let_def e q)
qed

text \<open>A project always keeps an administrator group of the platform.\<close>

lemma fold_add_missing:
  "set (fold (\<lambda>g acc. if contains_string acc g then acc else acc @ [g]) gs acc) = set acc \<union> set gs"
  by (induction gs arbitrary: acc) (auto simp: contains_string_def)

lemma platform_admins_kept:
  "set (effective_platform_admin_authorities auth)
    \<subseteq> set (admin_groups (normalize_access_with_platform_admins a pid auth))"
  by (auto simp: normalize_access_with_platform_admins_def Let_def fold_add_missing)

section \<open>Properties\<close>

text \<open>
  C1: a project that passes the checks of a create request is well formed (slug identifiers without
  repetition, exactly one default environment, policies that name its environments), keeps every
  platform administrator authority among its admin groups, and is a fixed point of the defaults
  that are applied each time the catalog is read.
\<close>

theorem created_project_well_formed:
  assumes "normalize_create_request clusters authorities input = Inr p"
  shows "well_formed_project p \<and> apply_project_defaults p = p \<and>
    set (effective_platform_admin_authorities authorities) \<subseteq> set (admin_groups (cp_access p))"
proof -
  from assms have "cp_access p = normalize_access_with_platform_admins (cp_access input) (cp_id p)
      (effective_platform_admin_authorities authorities)"
    by (rule normalize_create_request_unfold)
  then show ?thesis
    using normalised_well_formed [OF assms] normalised_fixpoint [OF assms]
      platform_admins_kept [of "effective_platform_admin_authorities authorities"]
    by simp
qed

definition demo_project_input :: catalog_project where
  "demo_project_input =
    \<lparr>cp_id = ''demo'', cp_name = '' demo '', cp_description = ''x'', cp_namespace = [],
     cp_access = \<lparr>viewer_groups = [], deployer_groups = [''dev''], admin_groups = []\<rparr>,
     cp_environments =
       [\<lparr>env_id = ''dev'', env_name = [], env_cluster = [], env_write_mode = [], env_default = False\<rparr>,
        \<lparr>env_id = ''prod'', env_name = [], env_cluster = [], env_write_mode = write_mode_pull_request,
         env_default = True\<rparr>],
     cp_repositories =
       [\<lparr>repo_id = ''web'', repo_name = ''web'', repo_url = ''https://git/web'', repo_description = [],
         repo_branch = [], repo_auth_path = [], repo_config_file = []\<rparr>],
     cp_policies =
       \<lparr>pol_min_replicas = 0, pol_environments = [''prod''], pol_strategies = [''Standard''],
        pol_clusters = [], pol_prod_pr = True, pol_auto_rollback = False, pol_required_probes = False\<rparr>\<rparr>"

theorem created_project_well_formed_witness:
  "well_formed_project (projr (normalize_create_request None [] demo_project_input)) \<and>
   length (cp_environments (projr (normalize_create_request None [] demo_project_input))) = 2"
proof -
  have ok: "normalize_create_request None [] demo_project_input =
      Inr (projr (normalize_create_request None [] demo_project_input))"
    by code_simp
  have "length (cp_environments (projr (normalize_create_request None [] demo_project_input))) = 2"
    by code_simp
  with created_project_well_formed [OF ok] show ?thesis by simp
qed

end
