(* ===== verification/ProjectCatalog.thy ===== *)
theory ProjectCatalog
  imports ClusterCatalog ProjectLaws
begin

text \<open>
  The project catalog platform/projects.yaml of the local source (project/source_local.go): reading,
  creating, deleting a project with its applications and Flux children, and replacing its policies.
  The lemmas describe the catalog after each operation and where it writes.
\<close>

section \<open>Reading\<close>

definition catalog_path :: path where
  "catalog_path = [''platform'', ''projects.yaml'']"

text \<open>None: the file does not exist. The error names the file as the git source does.\<close>

definition read_catalog :: "repo \<Rightarrow> (go_error, catalog_project list option) result" where
  "read_catalog repo =
    (case fs_read repo catalog_path of
       None \<Rightarrow> Inr None
     | Some (CCatalog ps) \<Rightarrow> Inr (Some ps)
     | Some _ \<Rightarrow> Inl (OtherError ''decode project catalog''))"

definition existing_catalog :: "repo \<Rightarrow> (go_error, catalog_project list) result" where
  "existing_catalog repo =
    bindR (read_catalog repo) (\<lambda>f.
      case f of None \<Rightarrow> Inl (CatalogNotFoundError ''platform/projects.yaml'') | Some ps \<Rightarrow> Inr ps)"

definition list_projects :: "repo \<Rightarrow> (go_error, catalog_project list) result" where
  "list_projects repo = bindR (existing_catalog repo) (\<lambda>ps. Inr (map apply_project_defaults ps))"

section \<open>Creating\<close>

fun project_cluster_ids_loop :: "string list \<Rightarrow> environment list \<Rightarrow> string list" where
  "project_cluster_ids_loop items [] = items"
| "project_cluster_ids_loop items (e # es) =
    (let t = trim_space (env_cluster e); c = (if t = [] then ''default'' else t)
     in project_cluster_ids_loop (if c \<in> set items then items else items @ [c]) es)"

definition project_cluster_ids :: "catalog_project \<Rightarrow> string list" where
  "project_cluster_ids p =
    (let items = project_cluster_ids_loop [] (cp_environments p) in
     if items = [] then [''default''] else items)"

definition source_create_project :: "flux_config \<Rightarrow> catalog_project \<Rightarrow> (repo, go_error, catalog_project) action" where
  "source_create_project cfg input repo =
    (case read_catalog repo of
       Inl e \<Rightarrow> (Inl e, repo)
     | Inr f \<Rightarrow>
         let projects = (case f of None \<Rightarrow> [] | Some ps \<Rightarrow> ps)
         in if list_ex (\<lambda>p. trim_space (cp_id p) = cp_id input) projects then (Inl ErrProjectConflict, repo)
            else (Inr (apply_project_defaults input),
              fold (ensure_cluster cfg) (project_cluster_ids input)
                (fs_write catalog_path (CCatalog (projects @ [input])) repo)))"

section \<open>Deleting\<close>

record project_lifecycle =
  pl_project_id :: string
  pl_name :: string
  pl_namespace :: string
  pl_status :: string
  pl_deleted_at :: "int option"
  pl_secret_paths :: "string list"

definition project_apps_dir :: "string \<Rightarrow> path" where
  "project_apps_dir pid = join_path [''apps'', pid]"

fun collect_secrets_loop :: "path \<Rightarrow> repo \<Rightarrow> string list \<Rightarrow> string list \<Rightarrow> (go_error, string list) result" where
  "collect_secrets_loop root repo paths [] = Inr paths"
| "collect_secrets_loop root repo paths (n # ns) =
    (case fs_read repo (root @ [n, ''.aods'', ''metadata.yaml'']) of
       None \<Rightarrow> collect_secrets_loop root repo paths ns
     | Some (CMetadata m) \<Rightarrow>
         (let p = trim_space (am_secret_path m)
          in collect_secrets_loop root repo (if p \<noteq> [] then paths @ [p] else paths) ns)
     | Some _ \<Rightarrow> Inl (OtherError ''decode application metadata''))"

definition collect_project_secret_paths :: "string \<Rightarrow> repo \<Rightarrow> (go_error, string list) result" where
  "collect_project_secret_paths pid repo =
    bindR (collect_secrets_loop (project_apps_dir pid) repo [] (fs_subdirs (project_apps_dir pid) repo))
      (\<lambda>paths. Inr (sort paths))"

definition child_dir :: "string \<Rightarrow> path" where
  "child_dir c = clusters_root @ [c, ''applications'']"

definition project_children :: "string \<Rightarrow> string \<Rightarrow> repo \<Rightarrow> string list" where
  "project_children pid c repo =
    filter (\<lambda>n. prefix (pid @ ''-'') n \<and> suffix ''.yaml'' n) (fs_files_in (child_dir c) repo)"

definition remove_cluster_children :: "string \<Rightarrow> string \<Rightarrow> repo \<Rightarrow> repo" where
  "remove_cluster_children pid c repo =
    (let children = project_children pid c repo;
         repo1 = fold (\<lambda>n. fs_remove (child_dir c @ [n])) children repo
     in if children \<noteq> [] then rewrite_cluster_root c repo1 else repo1)"

definition remove_project_flux_children :: "string \<Rightarrow> repo \<Rightarrow> repo" where
  "remove_project_flux_children pid repo =
    fold (remove_cluster_children pid) (fs_subdirs clusters_root repo) repo"

fun remove_first :: "('a \<Rightarrow> bool) \<Rightarrow> 'a list \<Rightarrow> 'a list" where
  "remove_first P [] = []"
| "remove_first P (x # xs) = (if P x then xs else x # remove_first P xs)"

definition source_delete_project :: "int \<Rightarrow> string \<Rightarrow> (repo, go_error, project_lifecycle) action" where
  "source_delete_project now pid repo =
    (case bindR (existing_catalog repo) (\<lambda>ps.
        case find (\<lambda>p. cp_id p = pid) ps of
          None \<Rightarrow> Inl ErrProjectNotFound
        | Some p \<Rightarrow> bindR (collect_project_secret_paths pid repo) (\<lambda>secrets. Inr (ps, p, secrets))) of
       Inl e \<Rightarrow> (Inl e, repo)
     | Inr (ps, p, secrets) \<Rightarrow>
         (Inr \<lparr>pl_project_id = cp_id p, pl_name = cp_name p, pl_namespace = cp_namespace p,
            pl_status = ''deleted'', pl_deleted_at = Some now, pl_secret_paths = secrets\<rparr>,
          fs_write catalog_path (CCatalog (remove_first (\<lambda>p. cp_id p = pid) ps))
            (fs_remove_all (project_apps_dir pid) (remove_project_flux_children pid repo))))"

section \<open>Policies\<close>

fun replace_policies :: "string \<Rightarrow> policy_set \<Rightarrow> catalog_project list \<Rightarrow> catalog_project list option" where
  "replace_policies pid q [] = None"
| "replace_policies pid q (p # ps) =
    (if cp_id p = pid then Some (p\<lparr>cp_policies := q\<rparr> # ps)
     else map_option (Cons p) (replace_policies pid q ps))"

definition source_update_policies :: "string \<Rightarrow> policy_set \<Rightarrow> (repo, go_error, catalog_project) action" where
  "source_update_policies pid q repo =
    (case existing_catalog repo of
       Inl e \<Rightarrow> (Inl e, repo)
     | Inr ps \<Rightarrow>
         (case replace_policies pid q ps of
            None \<Rightarrow> (Inl ErrProjectNotFound, repo)
          | Some ps' \<Rightarrow>
              let repo1 = fs_write catalog_path (CCatalog ps') repo
              in (bindR (list_projects repo1) (\<lambda>items.
                    case find (\<lambda>p. cp_id p = pid) items of Some p \<Rightarrow> Inr p | None \<Rightarrow> Inl ErrProjectNotFound),
                  repo1)))"

section \<open>The catalog after each operation\<close>

lemma existing_catalog_iff: "existing_catalog repo = Inr ps \<longleftrightarrow> fs_read repo catalog_path = Some (CCatalog ps)"
  by (auto simp: existing_catalog_def read_catalog_def bindR_eq_Inr split: option.splits content.splits)

lemma list_projects_iff:
  "list_projects repo = Inr items \<longleftrightarrow>
    (\<exists>ps. fs_read repo catalog_path = Some (CCatalog ps) \<and> items = map apply_project_defaults ps)"
  by (auto simp: list_projects_def bindR_eq_Inr existing_catalog_iff)

lemma list_projects_cong: "fs_read t catalog_path = fs_read repo catalog_path \<Longrightarrow> list_projects t = list_projects repo"
  by (simp add: list_projects_def existing_catalog_def read_catalog_def)

lemma catalog_not_flux: "\<not> prefix clusters_root catalog_path" "\<not> prefix [''platform'', ''flux''] catalog_path"
  by (simp_all add: catalog_path_def clusters_root_def)

lemma project_cluster_ids_names:
  assumes "\<forall>e \<in> set (cp_environments p). cluster_name (env_cluster e)" and "c \<in> set (project_cluster_ids p)"
  shows "cluster_name c"
proof -
  have d: "cluster_name ''default''" using slug_cluster_name [of "''default''"] by (simp add: slug_pattern_def slug_alnum_def)
  have t: "cluster_name (trim_space x) = cluster_name x" for x
    by (simp add: cluster_name_def normalize_cluster_id_def)
  have "\<forall>e \<in> set es. cluster_name (env_cluster e) \<Longrightarrow> \<forall>c \<in> set items. cluster_name c \<Longrightarrow>
      \<forall>c \<in> set (project_cluster_ids_loop items es). cluster_name c" for items es
  proof (induction es arbitrary: items)
    case (Cons e es)
    let ?c = "if trim_space (env_cluster e) = [] then ''default'' else trim_space (env_cluster e)"
    have "cluster_name ?c" using Cons.prems(1) d by (auto simp: t)
    with Cons.prems have "\<forall>c \<in> set (if ?c \<in> set items then items else items @ [?c]). cluster_name c" by auto
    from Cons.IH [OF _ this] Cons.prems(1) show ?case by (simp add: Let_def)
  qed simp
  from this [of "cp_environments p" "[]"] assms d show ?thesis
    by (auto simp: project_cluster_ids_def Let_def split: if_splits)
qed

lemma ensure_frame_outside:
  "cluster_name c \<Longrightarrow> \<not> prefix [''platform'', ''flux''] q \<Longrightarrow> fs_read (ensure_cluster cfg c repo) q = fs_read repo q"
  by (auto simp: ensure_cluster_def rewrite_cluster_root_def tree.read_write cluster_dir_plain
    bootstrap_dir_plain clusters_root_def)

lemma fold_ensure_outside:
  "\<forall>c \<in> set cs. cluster_name c \<Longrightarrow> \<not> prefix [''platform'', ''flux''] q \<Longrightarrow>
    fs_read (fold (ensure_cluster cfg) cs repo) q = fs_read repo q"
  by (induction cs arbitrary: repo) (simp_all add: ensure_frame_outside)

lemma source_create_project_ok:
  assumes "source_create_project cfg input repo = (Inr p, t)"
    and "\<forall>e \<in> set (cp_environments input). cluster_name (env_cluster e)"
    and "list_projects repo = Inr items"
  shows "p = apply_project_defaults input" "list_projects t = Inr (items @ [p])"
    "\<forall>q. \<not> prefix [''platform'', ''flux''] q \<longrightarrow> q \<noteq> catalog_path \<longrightarrow> fs_read t q = fs_read repo q"
proof -
  from assms(3) obtain ps where ps: "fs_read repo catalog_path = Some (CCatalog ps)" "items = map apply_project_defaults ps"
    unfolding list_projects_iff by blast
  from assms(1) ps show p: "p = apply_project_defaults input"
    by (auto simp: source_create_project_def read_catalog_def Let_def split: if_splits)
  from assms(1) ps have t: "t = fold (ensure_cluster cfg) (project_cluster_ids input)
      (fs_write catalog_path (CCatalog (ps @ [input])) repo)"
    by (auto simp: source_create_project_def read_catalog_def Let_def split: if_splits)
  have names: "\<forall>c \<in> set (project_cluster_ids input). cluster_name c"
    using project_cluster_ids_names [OF assms(2)] by blast
  note f = fold_ensure_outside [OF names]
  show "list_projects t = Inr (items @ [p])"
    unfolding list_projects_iff t f [OF catalog_not_flux(2)] using ps p by (simp add: tree.read_write)
  show "\<forall>q. \<not> prefix [''platform'', ''flux''] q \<longrightarrow> q \<noteq> catalog_path \<longrightarrow> fs_read t q = fs_read repo q"
    unfolding t by (simp add: f tree.read_write)
qed

lemma replace_policies_ok:
  "replace_policies pid q ps = Some ps' \<Longrightarrow>
    map cp_id ps' = map cp_id ps \<and>
    (\<exists>a p b. ps = a @ p # b \<and> cp_id p = pid \<and> pid \<notin> cp_id ` set a \<and> ps' = a @ p\<lparr>cp_policies := q\<rparr> # b)"
proof (induction pid q ps arbitrary: ps' rule: replace_policies.induct)
  case (2 pid q p ps)
  show ?case
  proof (cases "cp_id p = pid")
    case True
    with 2(2) show ?thesis by (auto intro!: exI [of _ "[]"])
  next
    case False
    with 2(2) obtain xs where xs: "replace_policies pid q ps = Some xs" "ps' = p # xs" by auto
    from 2(1) [OF False xs(1)] obtain a x b where
      "map cp_id xs = map cp_id ps" "ps = a @ x # b" "cp_id x = pid" "pid \<notin> cp_id ` set a"
      "xs = a @ x\<lparr>cp_policies := q\<rparr> # b" by blast
    with False xs show ?thesis by (auto intro!: exI [of _ "p # a"])
  qed
qed simp

lemma remove_first_split:
  "(\<exists>x \<in> set xs. P x) \<Longrightarrow> \<exists>a x b. xs = a @ x # b \<and> P x \<and> (\<forall>y \<in> set a. \<not> P y) \<and> remove_first P xs = a @ b"
proof (induction xs)
  case (Cons x xs)
  show ?case
  proof (cases "P x")
    case True
    then show ?thesis by (auto intro!: exI [of _ "[]"])
  next
    case False
    with Cons obtain a y b where "xs = a @ y # b" "P y" "\<forall>z \<in> set a. \<not> P z" "remove_first P xs = a @ b" by auto
    with False show ?thesis by (auto intro!: exI [of _ "x # a"])
  qed
qed simp

section \<open>The Flux children of a deleted project\<close>

lemma child_dir_cluster: "cluster_name c \<Longrightarrow> normalize_cluster_id c = c \<Longrightarrow> cluster_dir c @ [''applications''] = child_dir c"
  by (simp add: cluster_dir_plain child_dir_def)

lemma remove_cluster_children_read:
  assumes "cluster_name c" and "q \<noteq> cluster_dir c @ [''kustomization.yaml'']"
  shows "fs_read (remove_cluster_children pid c repo) q =
    (if \<exists>n. q = child_dir c @ [n] \<and> prefix (pid @ ''-'') n \<and> suffix ''.yaml'' n then None else fs_read repo q)"
proof -
  let ?ch = "project_children pid c repo"
  have f: "fs_read (fold (\<lambda>n. fs_remove (child_dir c @ [n])) ns r) q =
      (if q \<in> (\<lambda>n. child_dir c @ [n]) ` set ns then None else fs_read r q)" for ns r
    by (induction ns arbitrary: r) (auto simp: tree.read_remove)
  have m: "q \<in> (\<lambda>n. child_dir c @ [n]) ` set ?ch \<longleftrightarrow>
      (\<exists>n. q = child_dir c @ [n] \<and> prefix (pid @ ''-'') n \<and> suffix ''.yaml'' n \<and> fs_read repo q \<noteq> None)"
    by (auto simp: project_children_def fs_files_in_iff)
  have r: "fs_read (remove_cluster_children pid c repo) q =
      fs_read (fold (\<lambda>n. fs_remove (child_dir c @ [n])) ?ch repo) q"
    using assms(2) by (simp add: remove_cluster_children_def Let_def rewrite_cluster_root_def tree.read_write)
  show ?thesis unfolding r f m by auto
qed

text \<open>Directory names of clusters that the scaffold wrote.\<close>

definition plain_clusters :: "repo \<Rightarrow> bool" where
  "plain_clusters repo \<longleftrightarrow>
    (\<forall>c \<in> set (fs_subdirs clusters_root repo). cluster_name c \<and> normalize_cluster_id c = c)"

text \<open>
  The manifests that the deletion of a project recognises, by their file name alone. The children of the
  project's own applications are among them, and so are those of a project whose identifier continues
  the prefix, and of an application whose name makes its own manifest start with it.
\<close>

definition prefixed_child :: "string \<Rightarrow> path \<Rightarrow> bool" where
  "prefixed_child pid q \<longleftrightarrow>
    (\<exists>c n. q = child_dir c @ [n] \<and> prefix (pid @ ''-'') n \<and> suffix ''.yaml'' n)"

lemma child_not_root: "child_dir c @ [n] \<noteq> clusters_root @ [d, m]"
  by (simp add: child_dir_def)

lemma remove_children_fold_read:
  assumes "\<forall>c \<in> set cs. cluster_name c \<and> normalize_cluster_id c = c"
    and "\<forall>c. q \<noteq> clusters_root @ [c, ''kustomization.yaml'']"
  shows "fs_read (fold (remove_cluster_children pid) cs repo) q =
    (if \<exists>c \<in> set cs. \<exists>n. q = child_dir c @ [n] \<and> prefix (pid @ ''-'') n \<and> suffix ''.yaml'' n
     then None else fs_read repo q)"
  using assms(1)
proof (induction cs arbitrary: repo)
  case (Cons c cs)
  then have c: "cluster_name c" "q \<noteq> cluster_dir c @ [''kustomization.yaml'']"
    using assms(2) by (auto simp: cluster_dir_plain)
  have "fs_read (fold (remove_cluster_children pid) (c # cs) repo) q =
    (if \<exists>c \<in> set cs. \<exists>n. q = child_dir c @ [n] \<and> prefix (pid @ ''-'') n \<and> suffix ''.yaml'' n
     then None else fs_read (remove_cluster_children pid c repo) q)"
    using Cons by simp
  then show ?case unfolding remove_cluster_children_read [OF c] by auto
qed simp

lemma remove_project_children_read:
  assumes "plain_clusters repo" and "\<forall>c. q \<noteq> clusters_root @ [c, ''kustomization.yaml'']"
  shows "fs_read (remove_project_flux_children pid repo) q = (if prefixed_child pid q then None else fs_read repo q)"
proof -
  have "fs_read repo q = None" if "prefixed_child pid q"
    "\<not> (\<exists>c \<in> set (fs_subdirs clusters_root repo). \<exists>n. q = child_dir c @ [n] \<and> prefix (pid @ ''-'') n \<and> suffix ''.yaml'' n)"
  proof (rule ccontr)
    from that(1) obtain c n where q: "q = child_dir c @ [n]" "prefix (pid @ ''-'') n" "suffix ''.yaml'' n"
      by (auto simp: prefixed_child_def)
    assume "fs_read repo q \<noteq> None"
    then have "c \<in> set (fs_subdirs clusters_root repo)"
      unfolding fs_subdirs_iff q(1) child_dir_def by (intro exI [of _ "[''applications'', n]"]) simp
    with that(2) q show False by blast
  qed
  moreover have "prefixed_child pid q" if "\<exists>c \<in> set (fs_subdirs clusters_root repo). \<exists>n. q = child_dir c @ [n] \<and>
      prefix (pid @ ''-'') n \<and> suffix ''.yaml'' n"
    using that by (auto simp: prefixed_child_def)
  ultimately show ?thesis
    unfolding remove_project_flux_children_def
      remove_children_fold_read [OF assms(1) [unfolded plain_clusters_def] assms(2)] by auto
qed

text \<open>The roots stay in step.\<close>

lemma remove_cluster_children_in_step:
  assumes "cluster_name c" "cluster_name d" "normalize_cluster_id c = c" "normalize_cluster_id d = d" "root_in_step d repo"
  shows "root_in_step d (remove_cluster_children pid c repo)"
proof -
  let ?ns = "project_children pid c repo"
  let ?removed = "fold (\<lambda>n. fs_remove (child_dir c @ [n])) ?ns repo"
  have f: "fs_read (fold (\<lambda>n. fs_remove (child_dir c @ [n])) ns r) q =
      (if q \<in> (\<lambda>n. child_dir c @ [n]) ` set ns then None else fs_read r q)" for ns r q
    by (induction ns arbitrary: r) (auto simp: tree.read_remove)
  show ?thesis
  proof (cases "?ns = []")
    case True
    then show ?thesis using assms(5) by (simp add: remove_cluster_children_def)
  next
    case False
    then have r: "remove_cluster_children pid c repo = rewrite_cluster_root c ?removed"
      by (simp add: remove_cluster_children_def Let_def)
    show ?thesis
    proof (cases "c = d")
      case True
      with r rewrite_in_step [OF assms(1)] show ?thesis by simp
    next
      case False
      have "root_in_step d ?removed"
      proof -
        have out: "fs_read ?removed (clusters_root @ d # rest) = fs_read repo (clusters_root @ d # rest)" for rest
          unfolding f using False by (auto simp: child_dir_def)
        have "cluster_resources d ?removed = cluster_resources d repo"
          by (intro cluster_resources_cong) (simp add: out cluster_dir_plain [OF assms(2)] assms(4))
        then show ?thesis
          using assms(5) by (simp add: root_in_step_def out cluster_dir_plain [OF assms(2)] assms(4))
      qed
      with r rewrite_keeps_in_step [OF assms(2,1)] show ?thesis by simp
    qed
  qed
qed

lemma remove_project_children_in_step:
  assumes "plain_clusters repo" "cluster_name d" "normalize_cluster_id d = d" "root_in_step d repo"
  shows "root_in_step d (remove_project_flux_children pid repo)"
proof -
  have "\<forall>c \<in> set cs. cluster_name c \<and> normalize_cluster_id c = c \<Longrightarrow> root_in_step d r \<Longrightarrow>
      root_in_step d (fold (remove_cluster_children pid) cs r)" for cs r
    by (induction cs arbitrary: r) (simp_all add: remove_cluster_children_in_step assms(2,3))
  with assms(1,4) show ?thesis by (simp add: remove_project_flux_children_def plain_clusters_def)
qed

lemma outside_in_step:
  assumes "\<And>q. prefix (cluster_dir d) q \<Longrightarrow> fs_read t q = fs_read repo q" and "root_in_step d repo"
  shows "root_in_step d t"
proof -
  have "cluster_resources d t = cluster_resources d repo" by (rule cluster_resources_cong) (simp add: assms(1))
  with assms show ?thesis by (simp add: root_in_step_def)
qed

section \<open>Properties\<close>

lemma apps_dir_plain: "plain_component pid \<Longrightarrow> project_apps_dir pid = [''apps'', pid]"
  by (simp add: project_apps_dir_def join_path_plain plain_component_def)

lemma deleted_project_state:
  assumes "source_delete_project now pid repo = (Inr r, t)" and "plain_component pid" and "plain_clusters repo"
  obtains a p b where "fs_read repo catalog_path = Some (CCatalog (a @ p # b))" "cp_id p = pid"
    "\<forall>y \<in> set a. cp_id y \<noteq> pid" "fs_read t catalog_path = Some (CCatalog (a @ b))"
    "\<And>q. q \<noteq> catalog_path \<Longrightarrow> fs_read t q =
      (if prefix [''apps'', pid] q then None else fs_read (remove_project_flux_children pid repo) q)"
    "\<And>q. \<forall>c. q \<noteq> clusters_root @ [c, ''kustomization.yaml''] \<Longrightarrow> q \<noteq> catalog_path \<Longrightarrow>
      fs_read t q = (if prefix [''apps'', pid] q \<or> prefixed_child pid q then None else fs_read repo q)"
proof -
  from assms(1) obtain ps where ps: "fs_read repo catalog_path = Some (CCatalog ps)"
    and f: "find (\<lambda>p. cp_id p = pid) ps \<noteq> None"
    and t: "t = fs_write catalog_path (CCatalog (remove_first (\<lambda>p. cp_id p = pid) ps))
      (fs_remove_all (project_apps_dir pid) (remove_project_flux_children pid repo))"
    by (auto simp: source_delete_project_def bindR_eq_Inr existing_catalog_iff split: sum.splits option.splits)
  from f have "\<exists>x \<in> set ps. cp_id x = pid" by (auto simp: find_None_iff)
  from remove_first_split [OF this] obtain a p b where
    s: "ps = a @ p # b" "cp_id p = pid" "\<forall>y \<in> set a. cp_id y \<noteq> pid"
      "remove_first (\<lambda>p. cp_id p = pid) ps = a @ b" by blast
  have r: "fs_read t q = (if q = catalog_path then Some (CCatalog (a @ b)) else if prefix [''apps'', pid] q then None
      else fs_read (remove_project_flux_children pid repo) q)" for q
    by (simp add: t tree.read_write tree.read_remove_all apps_dir_plain [OF assms(2)] s(4))
  show ?thesis
    by (rule that [of a p b]) (use ps s r in \<open>simp_all add: remove_project_children_read [OF assms(3)]\<close>)
qed

text \<open>
  The children are recognised by the prefix of their file name, so deleting a project also removes
  the Flux children of every project whose identifier extends it by a dash, whose files stay.
\<close>

lemma namesake_children_removed:
  assumes "source_delete_project now pid repo = (Inr r, t)" and "plain_component pid" and "plain_clusters repo"
    and "ar_project_id q = pid @ ''-'' @ x" and "plain_component (flux_child_name q @ ''.yaml'')" and "cluster_name c"
  shows "fs_read t (flux_child_path q c) = None"
    and "fs_read t ([''apps'', ar_project_id q] @ rest) = fs_read repo ([''apps'', ar_project_id q] @ rest)"
proof -
  from deleted_project_state [OF assms(1-3)]
  have r: "\<forall>c. p \<noteq> clusters_root @ [c, ''kustomization.yaml''] \<Longrightarrow> p \<noteq> catalog_path \<Longrightarrow>
      fs_read t p = (if prefix [''apps'', pid] p \<or> prefixed_child pid p then None else fs_read repo p)" for p
    by metis
  let ?n = "flux_child_name q @ ''.yaml''"
  have "prefix (pid @ ''-'') ?n \<and> suffix ''.yaml'' ?n" by (simp add: flux_child_name_def assms(4) suffix_def)
  then have "prefixed_child pid (child_dir (normalize_cluster_id c) @ [?n])" unfolding prefixed_child_def by blast
  then show "fs_read t (flux_child_path q c) = None"
    by (subst r) (simp_all add: flux_child_path_plain [OF assms(6,5)] child_dir_def clusters_root_def catalog_path_def)
  show "fs_read t ([''apps'', ar_project_id q] @ rest) = fs_read repo ([''apps'', ar_project_id q] @ rest)"
    by (subst r) (auto simp: assms(4) prefixed_child_def child_dir_def clusters_root_def catalog_path_def)
qed

lemma prefixed_flux_child:
  assumes "cluster_name c" and "plain_component (flux_child_name q @ ''.yaml'')"
  shows "prefixed_child pid (flux_child_path q c) \<longleftrightarrow> prefix (pid @ ''-'') (flux_child_name q @ ''.yaml'')"
  unfolding prefixed_child_def flux_child_path_plain [OF assms] by (auto simp: child_dir_def suffix_def)

text \<open>
  C9: deleting a project, for an identifier that is a plain file name and cluster directories named by
  cluster ids. The first entry with the identifier leaves the catalog. The files below the applications
  directory of the project go, and in every cluster the Flux children whose file name starts with the
  identifier and a dash: the children of the project, and with them those of every project whose
  identifier continues it by a dash. Every other file stays but the catalog and the cluster roots, and
  a root that was in step with the children of its cluster is in step afterwards. The fourth part names
  the children that go and stay by their applications.
\<close>

theorem project_deleted:
  assumes "source_delete_project now pid repo = (Inr r, t)" and "plain_component pid" and "plain_clusters repo"
  shows "(\<exists>a p b. list_projects repo = Inr (a @ p # b) \<and> cp_id p = pid \<and> pid \<notin> cp_id ` set a \<and>
      list_projects t = Inr (a @ b)) \<and>
    (\<forall>q. (\<forall>c. q \<noteq> clusters_root @ [c, ''kustomization.yaml'']) \<longrightarrow> q \<noteq> catalog_path \<longrightarrow>
      fs_read t q = (if prefix [''apps'', pid] q \<or> prefixed_child pid q then None else fs_read repo q)) \<and>
    (\<forall>d. cluster_name d \<longrightarrow> normalize_cluster_id d = d \<longrightarrow> root_in_step d repo \<longrightarrow> root_in_step d t) \<and>
    (\<forall>a c. cluster_name c \<longrightarrow> plain_component (flux_child_name a @ ''.yaml'') \<longrightarrow>
      ((ar_project_id a = pid \<or> prefix (pid @ ''-'') (ar_project_id a)) \<longrightarrow> fs_read t (flux_child_path a c) = None) \<and>
      (\<not> prefix (pid @ ''-'') (flux_child_name a @ ''.yaml'') \<longrightarrow>
        fs_read t (flux_child_path a c) = fs_read repo (flux_child_path a c)))"
proof -
  obtain a p b where
    s: "fs_read repo catalog_path = Some (CCatalog (a @ p # b))" "cp_id p = pid"
      "\<forall>y \<in> set a. cp_id y \<noteq> pid" "fs_read t catalog_path = Some (CCatalog (a @ b))"
    and r: "\<And>q. q \<noteq> catalog_path \<Longrightarrow> fs_read t q =
      (if prefix [''apps'', pid] q then None else fs_read (remove_project_flux_children pid repo) q)"
    and out: "\<And>q. \<forall>c. q \<noteq> clusters_root @ [c, ''kustomization.yaml''] \<Longrightarrow> q \<noteq> catalog_path \<Longrightarrow>
      fs_read t q = (if prefix [''apps'', pid] q \<or> prefixed_child pid q then None else fs_read repo q)"
    by (rule deleted_project_state [OF assms]) blast
  have "list_projects repo = Inr (map apply_project_defaults a @ apply_project_defaults p # map apply_project_defaults b)"
    "list_projects t = Inr (map apply_project_defaults a @ map apply_project_defaults b)"
    using s by (simp_all add: list_projects_iff)
  moreover have "pid \<notin> cp_id ` set (map apply_project_defaults a)" using s(3) by auto
  moreover have "cp_id (apply_project_defaults p) = pid" using s(2) by simp
  ultimately have c: "\<exists>a p b. list_projects repo = Inr (a @ p # b) \<and> cp_id p = pid \<and> pid \<notin> cp_id ` set a \<and>
      list_projects t = Inr (a @ b)" by blast
  have i: "root_in_step d t" if d: "cluster_name d" "normalize_cluster_id d = d" and step: "root_in_step d repo" for d
  proof (rule outside_in_step)
    show "root_in_step d (remove_project_flux_children pid repo)"
      by (rule remove_project_children_in_step [OF assms(3) d step])
    show "fs_read t q = fs_read (remove_project_flux_children pid repo) q" if "prefix (cluster_dir d) q" for q
      using that r [of q] by (auto simp: cluster_dir_plain [OF d(1)] clusters_root_def catalog_path_def prefix_def)
  qed
  have k: "fs_read t (flux_child_path a c) =
      (if prefix (pid @ ''-'') (flux_child_name a @ ''.yaml'') then None else fs_read repo (flux_child_path a c))"
    if "cluster_name c" "plain_component (flux_child_name a @ ''.yaml'')" for a c
  proof -
    note path = flux_child_path_plain [OF that]
    have "\<forall>d. flux_child_path a c \<noteq> clusters_root @ [d, ''kustomization.yaml'']" "flux_child_path a c \<noteq> catalog_path"
      "\<not> prefix [''apps'', pid] (flux_child_path a c)"
      unfolding path by (simp_all add: clusters_root_def catalog_path_def)
    with out [of "flux_child_path a c"] show ?thesis by (simp add: prefixed_flux_child [OF that])
  qed
  have own: "prefix (pid @ ''-'') (flux_child_name a @ ''.yaml'')"
    if "ar_project_id a = pid \<or> prefix (pid @ ''-'') (ar_project_id a)" for a
    using that by (auto simp: flux_child_name_def prefix_def)
  show ?thesis using c i out k own by simp
qed

definition doomed_catalog :: "catalog_project list" where
  "doomed_catalog = [demo_project_input\<lparr>cp_id := ''a''\<rparr>, demo_project_input\<lparr>cp_id := ''a-b''\<rparr>]"

definition doomed_repo :: repo where
  "doomed_repo =
    [(catalog_path, CCatalog doomed_catalog),
     ([''apps'', ''a'', ''web'', ''base'', ''service.yaml''], CYaml (YMap [])),
     (clusters_root @ [''default'', ''applications'', ''a-web.yaml''], CYaml (YMap [])),
     (clusters_root @ [''default'', ''applications'', ''a-b-web.yaml''], CYaml (YMap [])),
     (clusters_root @ [''default'', ''applications'', ''b-web.yaml''], CYaml (YMap [])),
     ([''apps'', ''a-b'', ''web'', ''base'', ''service.yaml''], CYaml (YMap []))]"

lemma doomed_clusters: "plain_clusters doomed_repo"
proof -
  have "fs_subdirs clusters_root doomed_repo = [''default'']" by code_simp
  moreover have "slug_pattern ''default''" by code_simp
  ultimately show ?thesis using slug_cluster_name by (simp add: plain_clusters_def)
qed

text \<open>The child of \<open>a-b\<close> goes with the child of \<open>a\<close>; the files of \<open>a-b\<close> and the child of \<open>b\<close> stay.\<close>

theorem project_deleted_witness:
  "\<exists>r t. source_delete_project 5 ''a'' doomed_repo = (Inr r, t) \<and>
    fs_read t [''apps'', ''a'', ''web'', ''base'', ''service.yaml''] = None \<and>
    fs_read t (child_dir ''default'' @ [''a-web.yaml'']) = None \<and>
    fs_read t (child_dir ''default'' @ [''a-b-web.yaml'']) = None \<and>
    fs_read t (child_dir ''default'' @ [''b-web.yaml'']) \<noteq> None \<and>
    fs_read t [''apps'', ''a-b'', ''web'', ''base'', ''service.yaml''] \<noteq> None"
proof -
  have "isOk (fst (source_delete_project 5 ''a'' doomed_repo))" by code_simp
  from isOk_run [OF this] obtain r t where rt: "source_delete_project 5 ''a'' doomed_repo = (Inr r, t)" by blast
  have "plain_component ''a''" by (simp add: plain_component_def)
  note plain = this
  have files: "fs_read t q = (if prefix [''apps'', ''a''] q \<or> prefixed_child ''a'' q then None else fs_read doomed_repo q)"
    if "last q \<noteq> ''kustomization.yaml''" "q \<noteq> catalog_path" for q
  proof -
    have "\<forall>c. q \<noteq> clusters_root @ [c, ''kustomization.yaml'']" using that(1) by auto
    with project_deleted [OF rt plain doomed_clusters] that(2) show ?thesis by blast
  qed
  have child: "prefixed_child ''a'' (child_dir ''default'' @ [n]) \<longleftrightarrow> prefix ''a-'' n \<and> suffix ''.yaml'' n" for n
    by (auto simp: prefixed_child_def child_dir_def)
  have names: "suffix ''.yaml'' ''a-web.yaml''" "suffix ''.yaml'' ''a-b-web.yaml''" by code_simp+
  have there: "fs_read doomed_repo (child_dir ''default'' @ [''b-web.yaml'']) \<noteq> None"
    "fs_read doomed_repo [''apps'', ''a-b'', ''web'', ''base'', ''service.yaml''] \<noteq> None" by code_simp+
  have no: "\<not> prefixed_child ''a'' ([''apps'', ''a-b'', ''web'', ''base'', ''service.yaml''] )"
    by (simp add: prefixed_child_def child_dir_def clusters_root_def)
  have ne: "child_dir ''default'' @ [n] \<noteq> catalog_path" "\<not> prefix [''apps'', ''a''] (child_dir ''default'' @ [n])"
    "\<not> prefix [''apps'', ''a''] (child_dir ''default'')" for n
    by (simp_all add: child_dir_def clusters_root_def catalog_path_def)
  have "fs_read t [''apps'', ''a'', ''web'', ''base'', ''service.yaml''] = None"
    "fs_read t [''apps'', ''a-b'', ''web'', ''base'', ''service.yaml''] \<noteq> None"
    "fs_read t (child_dir ''default'' @ [''a-web.yaml'']) = None"
    "fs_read t (child_dir ''default'' @ [''a-b-web.yaml'']) = None"
    "fs_read t (child_dir ''default'' @ [''b-web.yaml'']) \<noteq> None"
    using there no names by (subst files; simp add: child ne catalog_path_def)+
  with rt show ?thesis by blast
qed

end
