(* ===== verification/ManifestStore.thy ===== *)
theory ManifestStore
  imports RepoState
begin

text \<open>
  The local manifest store (application/store_local.go, store_support.go): where an application's
  files lie, its metadata, deployments, events and rollback policy, and the store's operations. An
  operation is an action on the repository; the time of the call is its argument. Directory listings
  are sorted, as os.ReadDir returns them; sort.Slice is the stable sort on the same key.
\<close>

record store_config =
  sc_flux :: flux_config
  sc_float :: float_unit

section \<open>Paths\<close>

definition app_dir :: "string \<Rightarrow> string \<Rightarrow> path" where
  "app_dir project_id app = join_path [''apps'', project_id, app]"

definition app_file :: "string \<Rightarrow> string \<Rightarrow> string list \<Rightarrow> path" where
  "app_file project_id app rest = join_path ([''apps'', project_id, app] @ rest)"

definition metadata_path :: "string \<Rightarrow> string \<Rightarrow> path" where
  "metadata_path project_id app = app_file project_id app [''.aods'', ''metadata.yaml'']"

definition deployment_history_dir :: "string \<Rightarrow> string \<Rightarrow> path" where
  "deployment_history_dir project_id app = app_file project_id app [''.aods'', ''deployments'']"

definition deployment_path :: "string \<Rightarrow> string \<Rightarrow> string \<Rightarrow> path" where
  "deployment_path project_id app deployment_id =
    app_file project_id app [''.aods'', ''deployments'', deployment_id @ ''.yaml'']"

definition rollback_policy_path :: "string \<Rightarrow> string \<Rightarrow> path" where
  "rollback_policy_path project_id app = app_file project_id app [''.aods'', ''rollback-policy.yaml'']"

definition events_dir :: "string \<Rightarrow> string \<Rightarrow> path" where
  "events_dir project_id app = app_file project_id app [''.aods'', ''events'']"

definition event_path :: "string \<Rightarrow> string \<Rightarrow> string \<Rightarrow> path" where
  "event_path project_id app event_id = app_file project_id app [''.aods'', ''events'', event_id @ ''.yaml'']"

section \<open>Metadata\<close>

definition metadata_from_record :: "app_record \<Rightarrow> string list \<Rightarrow> app_metadata" where
  "metadata_from_record r environments =
    \<lparr>am_id = ar_id r, am_project_id = ar_project_id r, am_namespace = ar_namespace r, am_name = ar_name r,
     am_description = ar_description r, am_image = ar_image r, am_service_port = ar_service_port r,
     am_replicas = ar_replicas r, am_required_probes = Some (ar_required_probes r),
     am_strategy = normalize_strategy (ar_strategy r), am_environment = ar_environment r,
     am_created_at = ar_created_at r, am_updated_at = ar_updated_at r, am_secret_path = ar_secret_path r,
     am_archived_at = None, am_archived_by = [], am_environments = environments,
     am_repository_id = ar_repository_id r, am_repository_url = ar_repository_url r,
     am_repository_branch = ar_repository_branch r, am_repository_service_id = ar_repository_service_id r,
     am_config_path = ar_config_path r, am_repository_token_path = ar_repository_token_path r,
     am_registry_secret_path = ar_registry_secret_path r, am_poll_interval = ar_poll_interval r,
     am_resources = ar_resources r, am_mesh = Some (ar_mesh r), am_load_balancer = Some (ar_load_balancer r)\<rparr>"

definition metadata_to_record :: "app_metadata \<Rightarrow> app_record" where
  "metadata_to_record m =
    \<lparr>ar_id = am_id m, ar_project_id = am_project_id m, ar_namespace = am_namespace m, ar_name = am_name m,
     ar_description = am_description m, ar_image = am_image m, ar_service_port = am_service_port m,
     ar_replicas = am_replicas m,
     ar_required_probes = (case am_required_probes m of None \<Rightarrow> True | Some b \<Rightarrow> b),
     ar_strategy = normalize_strategy (am_strategy m), ar_environment = am_environment m,
     ar_created_at = am_created_at m, ar_updated_at = am_updated_at m, ar_secret_path = am_secret_path m,
     ar_repository_id = am_repository_id m, ar_repository_url = am_repository_url m,
     ar_repository_branch = am_repository_branch m, ar_repository_service_id = am_repository_service_id m,
     ar_config_path = am_config_path m, ar_repository_token_path = am_repository_token_path m,
     ar_registry_secret_path = am_registry_secret_path m, ar_poll_interval = am_poll_interval m,
     ar_resources = am_resources m,
     ar_mesh = (case am_mesh m of None \<Rightarrow> True | Some b \<Rightarrow> b),
     ar_load_balancer = (case am_load_balancer m of None \<Rightarrow> False | Some b \<Rightarrow> b)\<rparr>"

definition is_archived :: "app_metadata \<Rightarrow> bool" where
  "is_archived m = (case am_archived_at m of None \<Rightarrow> False | Some t \<Rightarrow> t \<noteq> 0)"

text \<open>\<open>Inr None\<close> is os.ErrNotExist; a file of another kind does not decode.\<close>

definition read_metadata :: "repo \<Rightarrow> string \<Rightarrow> string \<Rightarrow> (go_error, app_metadata option) result" where
  "read_metadata repo project_id app =
    (case fs_read repo (metadata_path project_id app) of
       None \<Rightarrow> Inr None
     | Some (CMetadata m) \<Rightarrow> Inr (Some m)
     | Some _ \<Rightarrow> Inl (OtherError ''decode application metadata''))"

definition write_app_metadata :: "string \<Rightarrow> string \<Rightarrow> app_metadata \<Rightarrow> repo \<Rightarrow> repo" where
  "write_app_metadata project_id app m repo = fs_write (metadata_path project_id app) (CMetadata m) repo"

definition write_metadata :: "app_record \<Rightarrow> string list \<Rightarrow> repo \<Rightarrow> repo" where
  "write_metadata r environments repo =
    write_app_metadata (ar_project_id r) (ar_name r) (metadata_from_record r environments) repo"

section \<open>Reading a record\<close>

definition infer_strategy :: "bool \<Rightarrow> string \<Rightarrow> string" where
  "infer_strategy use_rollout annotation =
    (if use_rollout then strategy_canary
     else if trim_space annotation = [] then strategy_rollout
     else normalize_strategy annotation)"

definition container_has_probes :: "yaml \<Rightarrow> bool" where
  "container_has_probes c \<longleftrightarrow>
    (case yget [''readinessProbe''] c of Some (YMap kvs) \<Rightarrow> kvs \<noteq> [] | _ \<Rightarrow> False) \<or>
    (case yget [''livenessProbe''] c of Some (YMap kvs) \<Rightarrow> kvs \<noteq> [] | _ \<Rightarrow> False)"

definition resources_from_containers :: "yaml list \<Rightarrow> resource_requirements" where
  "resources_from_containers cs =
    (case cs of
       [] \<Rightarrow> \<lparr>rr_requests = \<lparr>rq_cpu = [], rq_memory = []\<rparr>, rr_limits = \<lparr>rq_cpu = [], rq_memory = []\<rparr>\<rparr>
     | c # _ \<Rightarrow>
        \<lparr>rr_requests = \<lparr>rq_cpu = trim_space (ystring [''resources'', ''requests'', ''cpu''] c),
            rq_memory = trim_space (ystring [''resources'', ''requests'', ''memory''] c)\<rparr>,
         rr_limits = \<lparr>rq_cpu = trim_space (ystring [''resources'', ''limits'', ''cpu''] c),
            rq_memory = trim_space (ystring [''resources'', ''limits'', ''memory''] c)\<rparr>\<rparr>)"

definition read_yaml :: "repo \<Rightarrow> path \<Rightarrow> yaml option" where
  "read_yaml repo p = (case fs_read repo p of Some (CYaml y) \<Rightarrow> Some y | _ \<Rightarrow> None)"

text \<open>The record that the manifests of an application without metadata describe.\<close>

definition record_from_manifests :: "repo \<Rightarrow> string \<Rightarrow> string \<Rightarrow> bool \<Rightarrow> yaml \<Rightarrow> yaml \<Rightarrow> app_record" where
  "record_from_manifests repo project_id app use_rollout workload service =
    (let base = (\<lambda>f. app_file project_id app [''base'', f]);
         annotation = (\<lambda>k. ystring [''metadata'', ''annotations'', k] workload);
         secret = (case read_yaml repo (base ''externalsecret.yaml'') of
             None \<Rightarrow> []
           | Some y \<Rightarrow>
               let p = ystring [''metadata'', ''annotations'', ''aods.io/iiv-path''] y in
               if p = [] then ystring [''metadata'', ''annotations'', ''aods.io/vault-path''] y else p);
         containers = yitems [''spec'', ''template'', ''spec'', ''containers''] workload;
         replicas = yint [''spec'', ''replicas''] workload
     in \<lparr>ar_id = build_application_id project_id app, ar_project_id = project_id,
         ar_namespace = ystring [''metadata'', ''namespace''] workload,
         ar_name = ystring [''metadata'', ''name''] workload,
         ar_description = annotation ''aods.io/application-description'',
         ar_image = (case containers of [] \<Rightarrow> [] | c # _ \<Rightarrow> ystring [''image''] c),
         ar_service_port = (case yitems [''spec'', ''ports''] service of [] \<Rightarrow> 0 | p # _ \<Rightarrow> yint [''port''] p),
         ar_replicas = max replicas 1,
         ar_required_probes = (case containers of [] \<Rightarrow> True | c # _ \<Rightarrow> container_has_probes c),
         ar_strategy = normalize_strategy (infer_strategy use_rollout (annotation ''aods.io/deployment-strategy'')),
         ar_environment = ''shared'',
         ar_created_at = ytime [''metadata'', ''annotations'', ''aods.io/created-at''] workload,
         ar_updated_at = ytime [''metadata'', ''annotations'', ''aods.io/updated-at''] workload,
         ar_secret_path = secret,
         ar_repository_id = annotation ''aods.io/repository-id'',
         ar_repository_url = annotation ''aods.io/repository-url'',
         ar_repository_branch = annotation ''aods.io/repository-branch'',
         ar_repository_service_id = annotation ''aods.io/repository-service-id'',
         ar_config_path = annotation ''aods.io/config-path'',
         ar_repository_token_path = [], ar_registry_secret_path = [],
         ar_poll_interval = (case atoi (trim_space (annotation ''aods.io/repository-poll-interval-seconds'')) of
             Some i \<Rightarrow> i | None \<Rightarrow> 0),
         ar_resources = resources_from_containers containers,
         ar_mesh =
           (if annotation ''aods.io/mesh-enabled'' = ''true'' then True
            else if annotation ''aods.io/mesh-enabled'' = ''false'' then False
            else use_rollout \<or> fs_exists (base ''virtualservice.yaml'') repo),
         ar_load_balancer = equal_fold (trim_space (ystring [''spec'', ''type''] service)) ''LoadBalancer''\<rparr>)"

definition load_record :: "repo \<Rightarrow> string \<Rightarrow> string \<Rightarrow> (go_error, app_record) result" where
  "load_record repo project_id app =
    (case read_metadata repo project_id app of
       Inl e \<Rightarrow> Inl e
     | Inr (Some m) \<Rightarrow>
         if is_archived m then Inl ErrArchived
         else let r = metadata_to_record m in
           Inr (r\<lparr>ar_replicas := (if ar_replicas r \<le> 0 then 1 else ar_replicas r),
                  ar_environment := (if ar_environment r = [] then ''shared'' else ar_environment r),
                  ar_strategy := normalize_strategy (ar_strategy r)\<rparr>)
     | Inr None \<Rightarrow>
         (let base = (\<lambda>f. app_file project_id app [''base'', f]);
              found = (case fs_read repo (base ''deployment.yaml'') of
                  Some c \<Rightarrow> Some (False, c)
                | None \<Rightarrow> map_option (\<lambda>c. (True, c)) (fs_read repo (base ''rollout.yaml'')))
          in case found of
               None \<Rightarrow> Inl ErrNotFound
             | Some (use_rollout, c) \<Rightarrow>
                 (case fs_read repo (base ''service.yaml'') of
                    None \<Rightarrow> Inl (OtherError ''read service manifest'')
                  | Some s \<Rightarrow>
                      (case (c, s) of
                         (CYaml workload, CYaml service) \<Rightarrow>
                           Inr (record_from_manifests repo project_id app use_rollout workload service)
                       | _ \<Rightarrow> Inl (OtherError ''decode workload manifest'')))))"

definition get_application :: "string \<Rightarrow> repo \<Rightarrow> (go_error, app_record) result" where
  "get_application application_id repo =
    bindR (split_application_id application_id) (\<lambda>(project_id, app). load_record repo project_id app)"

fun load_records :: "repo \<Rightarrow> string \<Rightarrow> string list \<Rightarrow> (go_error, app_record list) result" where
  "load_records repo project_id [] = Inr []"
| "load_records repo project_id (app # apps) =
    (case load_record repo project_id app of
       Inl e \<Rightarrow> if errors_is e ErrArchived then load_records repo project_id apps else Inl e
     | Inr r \<Rightarrow> bindR (load_records repo project_id apps) (\<lambda>rs. Inr (r # rs)))"

definition list_applications :: "string \<Rightarrow> repo \<Rightarrow> (go_error, app_record list) result" where
  "list_applications project_id repo =
    load_records repo project_id (fs_subdirs (join_path [''apps'', project_id]) repo)"

section \<open>Writing the files of a record\<close>

fun normalized_environments_loop :: "string list \<Rightarrow> string list \<Rightarrow> string list" where
  "normalized_environments_loop items [] = items"
| "normalized_environments_loop items (e # es) =
    normalized_environments_loop (if trim_space e = [] \<or> e \<in> set items then items else items @ [e]) es"

definition normalized_environments :: "string list \<Rightarrow> string \<Rightarrow> string list" where
  "normalized_environments environments default_environment =
    (let items = normalized_environments_loop [] environments in
     sort (if default_environment \<in> set items then items else items @ [default_environment]))"

definition record_environments :: "repo \<Rightarrow> app_record \<Rightarrow> string list" where
  "record_environments repo r =
    (case read_metadata repo (ar_project_id r) (ar_name r) of
       Inr (Some m) \<Rightarrow>
         if am_environments m = [] then [ar_environment r]
         else normalized_environments (am_environments m) (ar_environment r)
     | _ \<Rightarrow> [ar_environment r])"

definition application_files :: "store_config \<Rightarrow> app_record \<Rightarrow> string list \<Rightarrow> (path \<times> content) list" where
  "application_files cfg r environments =
    (let base = (\<lambda>f y. (app_file (ar_project_id r) (ar_name r) [''base'', f], CYaml y)) in
     [base ''kustomization.yaml'' (render_base_kustomization r),
      base (workload_file_name r) (render_workload (sc_float cfg) r),
      base ''service.yaml'' (render_service r),
      base ''servicemonitor.yaml'' (render_service_monitor r),
      base ''prometheusrule.yaml'' (render_prometheus_rule r (flux_namespace (sc_flux cfg)))] @
     (if ar_mesh r then
        [base ''virtualservice.yaml'' (render_virtual_service r),
         base ''destinationrule.yaml'' (render_destination_rule r)] else []) @
     (if is_canary (ar_strategy r) then [base ''canary-service.yaml'' (render_canary_service r)] else []) @
     (if ar_secret_path r \<noteq> [] then [base ''externalsecret.yaml'' (render_external_secret r)] else []) @
     (if ar_registry_secret_path r \<noteq> [] then
        [base ''registry-externalsecret.yaml'' (render_registry_external_secret r)] else []) @
     map (\<lambda>e. (app_file (ar_project_id r) (ar_name r) [''overlays'', e, ''kustomization.yaml''],
         CYaml (render_overlay_kustomization e)))
       (normalized_environments environments (ar_environment r)))"

definition stale_names :: "app_record \<Rightarrow> string list" where
  "stale_names r =
    [if is_canary (ar_strategy r) then ''deployment.yaml'' else ''rollout.yaml''] @
    (if \<not> is_canary (ar_strategy r) then [''canary-service.yaml''] else []) @
    (if \<not> ar_mesh r then [''virtualservice.yaml'', ''destinationrule.yaml''] else []) @
    (if ar_secret_path r = [] then [''externalsecret.yaml''] else []) @
    (if ar_registry_secret_path r = [] then [''registry-externalsecret.yaml''] else [])"

definition write_application_files :: "store_config \<Rightarrow> app_record \<Rightarrow> string list \<Rightarrow> repo \<Rightarrow> repo" where
  "write_application_files cfg r environments repo =
    fold fs_remove (map (\<lambda>f. app_file (ar_project_id r) (ar_name r) [''base'', f]) (stale_names r))
      (fold (\<lambda>(p, c). fs_write p c) (application_files cfg r environments) repo)"

text \<open>The three writes that every change of a record ends with.\<close>

definition persist_record ::
  "store_config \<Rightarrow> app_record \<Rightarrow> project_context \<Rightarrow> string \<Rightarrow> string list \<Rightarrow> repo \<Rightarrow> repo" where
  "persist_record cfg r pc previous environments repo =
    write_metadata r environments
      (sync_flux_wiring (sc_flux cfg) r pc previous (write_application_files cfg r environments repo))"

section \<open>Deployments, events and rollback policies\<close>

definition write_deployment_record :: "deployment_record \<Rightarrow> repo \<Rightarrow> repo" where
  "write_deployment_record d repo =
    fs_write (deployment_path (dr_project_id d) (dr_application_name d) (dr_id d))
      (CDeployment (d\<lparr>dr_strategy := normalize_strategy (dr_strategy d)\<rparr>)) repo"

definition read_deployment_record :: "repo \<Rightarrow> string \<Rightarrow> string \<Rightarrow> string \<Rightarrow> (go_error, deployment_record) result" where
  "read_deployment_record repo project_id app deployment_id =
    (case fs_read repo (deployment_path project_id app deployment_id) of
       None \<Rightarrow> Inl ErrDeploymentNotFound
     | Some (CDeployment d) \<Rightarrow> Inr (d\<lparr>dr_strategy := normalize_strategy (dr_strategy d)\<rparr>)
     | Some _ \<Rightarrow> Inl (OtherError ''decode deployment history''))"

fun collect_results :: "('e, 'a) result list \<Rightarrow> ('e, 'a list) result" where
  "collect_results [] = Inr []"
| "collect_results (r # rs) = bindR r (\<lambda>x. bindR (collect_results rs) (\<lambda>xs. Inr (x # xs)))"

definition list_deployment_records :: "repo \<Rightarrow> string \<Rightarrow> string \<Rightarrow> (go_error, deployment_record list) result" where
  "list_deployment_records repo project_id app =
    bindR (collect_results (map (\<lambda>n. read_deployment_record repo project_id app (trim_suffix ''.yaml'' n))
        (filter (suffix ''.yaml'') (fs_files_in (deployment_history_dir project_id app) repo))))
      (\<lambda>ds. Inr (sort_key (\<lambda>d. - dr_created_at d) ds))"

definition read_rollback_policy :: "repo \<Rightarrow> string \<Rightarrow> string \<Rightarrow> (go_error, rollback_policy) result" where
  "read_rollback_policy repo project_id app =
    (case fs_read repo (rollback_policy_path project_id app) of
       None \<Rightarrow> Inr \<lparr>rp_enabled = False, rp_max_error_rate = None, rp_max_latency = None, rp_min_request_rate = None\<rparr>
     | Some (CRollbackPolicy p) \<Rightarrow> Inr p
     | Some _ \<Rightarrow> Inl (OtherError ''decode rollback policy''))"

definition write_event_record :: "string \<Rightarrow> string \<Rightarrow> app_event \<Rightarrow> repo \<Rightarrow> repo" where
  "write_event_record project_id app e repo = fs_write (event_path project_id app (ev_id e)) (CEvent e) repo"

definition list_event_records :: "repo \<Rightarrow> string \<Rightarrow> string \<Rightarrow> (go_error, app_event list) result" where
  "list_event_records repo project_id app =
    bindR (collect_results (map (\<lambda>n.
        case fs_read repo (events_dir project_id app @ [n]) of
          Some (CEvent e) \<Rightarrow> Inr e | _ \<Rightarrow> Inl (OtherError ''decode event''))
        (filter (suffix ''.yaml'') (fs_files_in (events_dir project_id app) repo))))
      (\<lambda>es. Inr (sort_key (\<lambda>e. - ev_created_at e) es))"

section \<open>Operations\<close>

definition desired_replicas :: "int \<Rightarrow> int \<Rightarrow> int" where
  "desired_replicas v minimum = (if 0 < v then v else max minimum 1)"

text \<open>Seconds since 1970 of a time in nanoseconds since year 1.\<close>

definition unix_seconds :: "int \<Rightarrow> int" where
  "unix_seconds t = t div 1000000000 - 62135596800"

definition initial_deployment_id :: "app_record \<Rightarrow> string" where
  "initial_deployment_id r = ''dep_init_'' @ show_int (unix_seconds (ar_created_at r))"

definition deployment_of :: "app_record \<Rightarrow> string \<Rightarrow> string \<Rightarrow> int \<Rightarrow> deployment_record" where
  "deployment_of r deployment_id status now =
    \<lparr>dr_id = deployment_id, dr_application_id = ar_id r, dr_project_id = ar_project_id r,
     dr_application_name = ar_name r, dr_environment = ar_environment r, dr_image = ar_image r,
     dr_image_tag = extract_image_tag (ar_image r), dr_strategy = ar_strategy r, dr_status = status,
     dr_sync_status = None, dr_rollout_phase = [], dr_current_step = None, dr_canary_weight = None,
     dr_stable_revision = [], dr_canary_revision = [], dr_message = [], dr_commit_sha = [],
     dr_created_at = now, dr_updated_at = now\<rparr>"

definition record_of_create :: "int \<Rightarrow> project_context \<Rightarrow> create_request \<Rightarrow> string \<Rightarrow> app_record" where
  "record_of_create now pc input secret =
    (let environment = (let e = trim_space (cr_environment input) in
           if e \<noteq> [] then e else (case pc_environments pc of x # _ \<Rightarrow> x | [] \<Rightarrow> ''shared''))
     in \<lparr>ar_id = build_application_id (pc_id pc) (cr_name input), ar_project_id = pc_id pc,
         ar_namespace = pc_namespace pc, ar_name = cr_name input, ar_description = cr_description input,
         ar_image = cr_image input, ar_service_port = cr_service_port input,
         ar_replicas = desired_replicas (cr_replicas input) (pol_min_replicas (pc_policies pc)),
         ar_required_probes = pol_required_probes (pc_policies pc),
         ar_strategy = normalize_strategy (cr_strategy input), ar_environment = environment,
         ar_created_at = now, ar_updated_at = now, ar_secret_path = secret,
         ar_repository_id = cr_repository_id input, ar_repository_url = cr_repository_url input,
         ar_repository_branch = cr_repository_branch input,
         ar_repository_service_id = cr_repository_service_id input,
         ar_config_path = (if cr_config_path input = [] then default_repository_config_path else cr_config_path input),
         ar_repository_token_path = cr_repository_token_path input,
         ar_registry_secret_path = cr_registry_secret_path input,
         ar_poll_interval = cr_poll_interval input, ar_resources = default_resource_requirements,
         ar_mesh = cr_mesh input, ar_load_balancer = cr_load_balancer input\<rparr>)"

definition store_create ::
  "store_config \<Rightarrow> int \<Rightarrow> project_context \<Rightarrow> create_request \<Rightarrow> string \<Rightarrow> (repo, go_error, app_record) action" where
  "store_create cfg now pc input secret repo =
    (if fs_exists (app_dir (pc_id pc) (cr_name input)) repo then (Inl ErrConflict, repo)
     else
       let r = record_of_create now pc input secret;
           environments = normalized_environments (pc_environments pc) (ar_environment r);
           d = (deployment_of r (initial_deployment_id r) ''Created'' now)
       in (Inr r, write_deployment_record d (persist_record cfg r pc [] environments repo)))"

definition store_update_image ::
  "store_config \<Rightarrow> int \<Rightarrow> project_context \<Rightarrow> string \<Rightarrow> string \<Rightarrow> string \<Rightarrow> (repo, go_error, app_record) action" where
  "store_update_image cfg now pc application_id image_tag deployment_id repo =
    (case get_application application_id repo of
       Inl e \<Rightarrow> (Inl e, repo)
     | Inr r0 \<Rightarrow>
         let r = r0\<lparr>ar_image := replace_image_tag (ar_image r0) image_tag, ar_updated_at := now\<rparr>;
             environments = record_environments repo r
         in (Inr r, write_deployment_record (deployment_of r deployment_id ''Syncing'' now)
               (persist_record cfg r pc (ar_environment r) environments repo)))"

definition or_keep :: "'a option \<Rightarrow> 'a \<Rightarrow> 'a" where
  "or_keep x d = (case x of Some v \<Rightarrow> v | None \<Rightarrow> d)"

definition patch_record :: "int \<Rightarrow> update_request \<Rightarrow> app_record \<Rightarrow> app_record" where
  "patch_record now input r =
    r\<lparr>ar_description := or_keep (map_option trim_space (up_description input)) (ar_description r),
      ar_image := or_keep (map_option trim_space (up_image input)) (ar_image r),
      ar_service_port := or_keep (up_service_port input) (ar_service_port r),
      ar_replicas := or_keep (up_replicas input) (ar_replicas r),
      ar_strategy := or_keep (map_option normalize_strategy (up_strategy input)) (ar_strategy r),
      ar_environment := (case up_environment input of
          Some e \<Rightarrow> if trim_space e \<noteq> [] then trim_space e else ar_environment r
        | None \<Rightarrow> ar_environment r),
      ar_repository_id := or_keep (up_repository_id input) (ar_repository_id r),
      ar_repository_url := or_keep (up_repository_url input) (ar_repository_url r),
      ar_repository_branch := or_keep (up_repository_branch input) (ar_repository_branch r),
      ar_repository_service_id := or_keep (up_repository_service_id input) (ar_repository_service_id r),
      ar_config_path := or_keep (up_config_path input) (ar_config_path r),
      ar_poll_interval := or_keep (up_poll_interval input) (ar_poll_interval r),
      ar_resources := or_keep (up_resources input) (ar_resources r),
      ar_mesh := or_keep (up_mesh input) (ar_mesh r),
      ar_load_balancer := or_keep (up_load_balancer input) (ar_load_balancer r),
      ar_updated_at := now\<rparr>"

definition store_patch ::
  "store_config \<Rightarrow> int \<Rightarrow> project_context \<Rightarrow> string \<Rightarrow> update_request \<Rightarrow> (repo, go_error, app_record) action" where
  "store_patch cfg now pc application_id input repo =
    (case get_application application_id repo of
       Inl e \<Rightarrow> (Inl e, repo)
     | Inr r0 \<Rightarrow>
         let r = patch_record now input r0;
             known = record_environments repo r;
             environments = (if ar_environment r \<in> set known then known else sort (known @ [ar_environment r]))
         in (Inr r, persist_record cfg r pc (ar_environment r0) environments repo))"

definition store_save_secret_path ::
  "store_config \<Rightarrow> int \<Rightarrow> project_context \<Rightarrow> string \<Rightarrow> string \<Rightarrow> (repo, go_error, app_record) action" where
  "store_save_secret_path cfg now pc application_id secret repo =
    (case get_application application_id repo of
       Inl e \<Rightarrow> (Inl e, repo)
     | Inr r0 \<Rightarrow>
         let r = r0\<lparr>ar_secret_path := trim_space secret, ar_updated_at := now\<rparr>
         in (Inr r, persist_record cfg r pc (ar_environment r0) (record_environments repo r) repo))"

definition load_lifecycle_metadata :: "repo \<Rightarrow> string \<Rightarrow> string \<Rightarrow> (go_error, app_metadata) result" where
  "load_lifecycle_metadata repo project_id app =
    (case read_metadata repo project_id app of
       Inl e \<Rightarrow> Inl e
     | Inr (Some m) \<Rightarrow>
         Inr (m\<lparr>am_id := (if am_id m = [] then build_application_id project_id app else am_id m),
                am_project_id := (if am_project_id m = [] then project_id else am_project_id m),
                am_name := (if am_name m = [] then app else am_name m),
                am_environments := (if am_environments m = [] then [am_environment m] else am_environments m)\<rparr>)
     | Inr None \<Rightarrow>
         bindR (load_record repo project_id app) (\<lambda>r. Inr (metadata_from_record r (record_environments repo r))))"

definition collect_secret_paths :: "app_metadata \<Rightarrow> string list" where
  "collect_secret_paths m =
    filter (\<lambda>p. p \<noteq> []) (map trim_space [am_secret_path m, am_repository_token_path m, am_registry_secret_path m])"

text \<open>Everything below the application's directory goes, but for what lies in \<open>.aods\<close>.\<close>

definition strip_desired_state :: "string \<Rightarrow> string \<Rightarrow> repo \<Rightarrow> repo" where
  "strip_desired_state project_id app repo =
    (let d = app_dir project_id app in
     fold (\<lambda>n. if n = ''.aods'' then id else fs_remove_all (d @ [n]))
       (fs_subdirs d repo @ fs_files_in d repo) repo)"

record lifecycle_response =
  lc_application_id :: string
  lc_project_id :: string
  lc_name :: string
  lc_status :: string
  lc_archived_at :: "int option"
  lc_deleted_at :: "int option"
  lc_secret_paths :: "string list"

definition store_archive :: "int \<Rightarrow> string \<Rightarrow> string \<Rightarrow> (repo, go_error, lifecycle_response) action" where
  "store_archive now application_id archived_by repo =
    (case bindR (split_application_id application_id) (\<lambda>(project_id, app).
        bindR (load_lifecycle_metadata repo project_id app) (\<lambda>m.
          if is_archived m then Inl ErrAlreadyArchived else Inr (project_id, app, m))) of
       Inl e \<Rightarrow> (Inl e, repo)
     | Inr (project_id, app, m) \<Rightarrow>
         let m' = m\<lparr>am_updated_at := now, am_archived_at := Some now, am_archived_by := trim_space archived_by\<rparr>
         in (Inr \<lparr>lc_application_id = application_id, lc_project_id = project_id, lc_name = app,
               lc_status = ''archived'', lc_archived_at = Some now, lc_deleted_at = None,
               lc_secret_paths = collect_secret_paths m'\<rparr>,
             write_app_metadata project_id app m'
               (strip_desired_state project_id app (remove_flux_children (metadata_to_record m) repo))))"

definition store_delete :: "int \<Rightarrow> string \<Rightarrow> (repo, go_error, lifecycle_response) action" where
  "store_delete now application_id repo =
    (case bindR (split_application_id application_id) (\<lambda>(project_id, app).
        bindR (load_lifecycle_metadata repo project_id app) (\<lambda>m. Inr (project_id, app, m))) of
       Inl e \<Rightarrow> (Inl e, repo)
     | Inr (project_id, app, m) \<Rightarrow>
         (Inr \<lparr>lc_application_id = application_id, lc_project_id = project_id, lc_name = app,
            lc_status = ''deleted'', lc_archived_at = None, lc_deleted_at = Some now,
            lc_secret_paths = collect_secret_paths m\<rparr>,
          fs_remove_all (app_dir project_id app) (remove_flux_children (metadata_to_record m) repo)))"

definition store_list_deployments :: "string \<Rightarrow> repo \<Rightarrow> (go_error, deployment_record list) result" where
  "store_list_deployments application_id repo =
    bindR (split_application_id application_id) (\<lambda>(project_id, app). list_deployment_records repo project_id app)"

definition store_get_deployment :: "string \<Rightarrow> string \<Rightarrow> repo \<Rightarrow> (go_error, deployment_record) result" where
  "store_get_deployment application_id deployment_id repo =
    bindR (split_application_id application_id) (\<lambda>(project_id, app).
      read_deployment_record repo project_id app deployment_id)"

definition store_update_deployment ::
  "string \<Rightarrow> deployment_record \<Rightarrow> (repo, go_error, deployment_record) action" where
  "store_update_deployment application_id d repo =
    (let d1 = (if dr_application_id d = [] then d\<lparr>dr_application_id := application_id\<rparr> else d) in
     case (if dr_project_id d1 = [] \<or> dr_application_name d1 = [] then
             bindR (split_application_id application_id) (\<lambda>(project_id, app).
               Inr (d1\<lparr>dr_project_id := project_id, dr_application_name := app\<rparr>))
           else Inr d1) of
       Inl e \<Rightarrow> (Inl e, repo)
     | Inr d2 \<Rightarrow> (Inr d2, write_deployment_record d2 repo))"

definition store_get_rollback_policy :: "string \<Rightarrow> repo \<Rightarrow> (go_error, rollback_policy) result" where
  "store_get_rollback_policy application_id repo =
    bindR (split_application_id application_id) (\<lambda>(project_id, app). read_rollback_policy repo project_id app)"

definition store_save_rollback_policy ::
  "string \<Rightarrow> rollback_policy \<Rightarrow> (repo, go_error, rollback_policy) action" where
  "store_save_rollback_policy application_id policy repo =
    (case get_application application_id repo of
       Inl e \<Rightarrow> (Inl e, repo)
     | Inr r \<Rightarrow> (Inr policy,
         fs_write (rollback_policy_path (ar_project_id r) (ar_name r)) (CRollbackPolicy policy) repo))"

definition store_list_events :: "string \<Rightarrow> repo \<Rightarrow> (go_error, app_event list) result" where
  "store_list_events application_id repo =
    bindR (split_application_id application_id) (\<lambda>(project_id, app). list_event_records repo project_id app)"

definition store_append_event :: "string \<Rightarrow> app_event \<Rightarrow> (repo, go_error, unit) action" where
  "store_append_event application_id e repo =
    (case split_application_id application_id of
       Inl err \<Rightarrow> (Inl err, repo)
     | Inr (project_id, app) \<Rightarrow> (Inr (), write_event_record project_id app e repo))"

end
