(* ===== verification/StoreContract.thy ===== *)
theory StoreContract
  imports StoreLaws
begin

text \<open>
  The contract of the manifest store: the interface locale \<open>app_store\<close> that states what reading an
  application returns after each operation, its client lemmas, the well-formedness invariant of the
  repository that every operation keeps, and the interpretation on the local manifest store.
\<close>

section \<open>Identifiers\<close>

definition valid_id :: "string \<Rightarrow> bool" where
  "valid_id i \<longleftrightarrow> (case split_application_id i of Inr (pid, app) \<Rightarrow> plain_app pid app | Inl _ \<Rightarrow> False)"

definition plain_create :: "project_context \<Rightarrow> create_request \<Rightarrow> bool" where
  "plain_create pc req \<longleftrightarrow> plain_context pc \<and> CHR ''_'' \<notin> set (pc_id pc) \<and>
    plain_app (pc_id pc) (cr_name req) \<and> plain_environments (pc_environments pc) \<and>
    (trim_space (cr_environment req) = [] \<or> plain_component (trim_space (cr_environment req)))"

definition plain_patch :: "update_request \<Rightarrow> bool" where
  "plain_patch u \<longleftrightarrow> (case up_environment u of None \<Rightarrow> True
     | Some e \<Rightarrow> trim_space e = [] \<or> plain_component (trim_space e))"

lemma valid_idE:
  assumes "valid_id i"
  obtains pid app where "split_application_id i = Inr (pid, app)" "plain_app pid app"
  using assms by (auto simp: valid_id_def split: sum.splits)

lemma build_valid:
  assumes "CHR ''_'' \<notin> set pid" and "plain_app pid app"
  shows "split_application_id (build_application_id pid app) = Inr (pid, app)"
    and "valid_id (build_application_id pid app)"
proof -
  from assms(2) have "pid \<noteq> []" "app \<noteq> []" by (auto simp: plain_app_def plain_component_def)
  with assms(1) show s: "split_application_id (build_application_id pid app) = Inr (pid, app)"
    by (intro split_build)
  with assms(2) show "valid_id (build_application_id pid app)" by (simp add: valid_id_def)
qed

lemma show_nat_bytes: "c \<in> set (show_nat n) \<Longrightarrow> c \<noteq> CHR ''/''"
proof (induction n rule: show_nat.induct)
  case (1 n)
  have d: "char_of (48 + m) \<noteq> CHR ''/''" if "m < 10" for m :: nat
  proof
    assume "char_of (48 + m) = CHR ''/''"
    then have "of_char (char_of (48 + m) :: char) = (47 :: nat)" by simp
    with that show False by simp
  qed
  from "1.prems" consider "c = char_of (48 + n)" "n < 10" | "\<not> n < 10" "c \<in> set (show_nat (n div 10))"
    | "c = char_of (48 + n mod 10)" "\<not> n < 10"
    by (subst (asm) show_nat.simps) (auto split: if_splits)
  then show ?case using d "1.IH" by cases auto
qed

lemma initial_id_plain: "CHR ''/'' \<notin> set (initial_deployment_id r)"
  by (auto simp: initial_deployment_id_def show_int_def dest: show_nat_bytes)

section \<open>The interface\<close>

locale app_store =
  fixes get_op :: "string \<Rightarrow> 's \<Rightarrow> (go_error, app_record) result"
    and create_op :: "int \<Rightarrow> project_context \<Rightarrow> create_request \<Rightarrow> string \<Rightarrow> ('s, go_error, app_record) action"
    and patch_op :: "int \<Rightarrow> project_context \<Rightarrow> string \<Rightarrow> update_request \<Rightarrow> ('s, go_error, app_record) action"
    and image_op :: "int \<Rightarrow> project_context \<Rightarrow> string \<Rightarrow> string \<Rightarrow> string \<Rightarrow> ('s, go_error, app_record) action"
    and archive_op :: "int \<Rightarrow> string \<Rightarrow> string \<Rightarrow> ('s, go_error, lifecycle_response) action"
    and delete_op :: "int \<Rightarrow> string \<Rightarrow> ('s, go_error, lifecycle_response) action"
    and good :: "'s \<Rightarrow> bool"
  assumes create_conflict: "get_op (build_application_id (pc_id pc) (cr_name req)) s = Inr r \<Longrightarrow>
      plain_create pc req \<Longrightarrow> create_op now pc req sec s = (Inl ErrConflict, s)"
    and create_get: "good s \<Longrightarrow> plain_create pc req \<Longrightarrow> create_op now pc req sec s = (Inr r, t) \<Longrightarrow>
      ar_id r = build_application_id (pc_id pc) (cr_name req) \<and> get_op (ar_id r) t = Inr r \<and> good t"
    and create_frame: "good s \<Longrightarrow> plain_create pc req \<Longrightarrow> create_op now pc req sec s = (res, t) \<Longrightarrow> valid_id j \<Longrightarrow>
      j \<noteq> build_application_id (pc_id pc) (cr_name req) \<Longrightarrow> get_op j t = get_op j s"
    and patch_fails: "get_op i s = Inl e \<Longrightarrow> patch_op now pc i u s = (Inl e, s)"
    and patch_get: "good s \<Longrightarrow> plain_context pc \<Longrightarrow> plain_patch u \<Longrightarrow> valid_id i \<Longrightarrow> get_op i s = Inr r \<Longrightarrow>
      (\<exists>t. patch_op now pc i u s = (Inr (patch_record now u r), t) \<and>
         get_op i t = Inr (loaded (patch_record now u r)) \<and> good t \<and>
         (\<forall>j. valid_id j \<longrightarrow> j \<noteq> i \<longrightarrow> get_op j t = get_op j s))"
    and image_fails: "get_op i s = Inl e \<Longrightarrow> image_op now pc i tag dep s = (Inl e, s)"
    and image_get: "good s \<Longrightarrow> plain_context pc \<Longrightarrow> CHR ''/'' \<notin> set dep \<Longrightarrow> valid_id i \<Longrightarrow> get_op i s = Inr r \<Longrightarrow>
      (\<exists>t. image_op now pc i tag dep s =
           (Inr (r\<lparr>ar_image := replace_image_tag (ar_image r) tag, ar_updated_at := now\<rparr>), t) \<and>
         get_op i t = Inr (r\<lparr>ar_image := replace_image_tag (ar_image r) tag, ar_updated_at := now\<rparr>) \<and> good t \<and>
         (\<forall>j. valid_id j \<longrightarrow> j \<noteq> i \<longrightarrow> get_op j t = get_op j s))"
    and archive_get: "good s \<Longrightarrow> valid_id i \<Longrightarrow> get_op i s = Inr r \<Longrightarrow> now \<noteq> 0 \<Longrightarrow>
      (\<exists>x t. archive_op now i who s = (Inr x, t) \<and> get_op i t = Inl ErrArchived \<and> good t \<and>
         (\<forall>j. valid_id j \<longrightarrow> j \<noteq> i \<longrightarrow> get_op j t = get_op j s))"
    and delete_get: "good s \<Longrightarrow> valid_id i \<Longrightarrow> delete_op now i s = (Inr x, t) \<Longrightarrow>
      get_op i t = Inl ErrNotFound \<and> good t \<and> (\<forall>j. valid_id j \<longrightarrow> j \<noteq> i \<longrightarrow> get_op j t = get_op j s)"
begin

text \<open>An archived application takes no update: it stays archived, and so does the whole store.\<close>

lemma archived_frozen:
  assumes "good s" and "valid_id i" and "get_op i s = Inr r" and "now \<noteq> 0"
    and "archive_op now i who s = (Inr x, t)"
  shows "patch_op now' pc i u t = (Inl ErrArchived, t)"
    and "image_op now' pc i tag dep t = (Inl ErrArchived, t)"
  using archive_get [OF assms(1-4), of who] assms(5) patch_fails image_fails by auto

text \<open>Two updates of different applications commute for every reader.\<close>

lemma updates_independent:
  assumes "good s" "plain_context pc" "plain_context pc'" "plain_patch u" "plain_patch u'"
    and "valid_id i" "valid_id j" "i \<noteq> j" "get_op i s = Inr r" "get_op j s = Inr q"
  shows "get_op i (snd (patch_op n' pc' j u' (snd (patch_op n pc i u s)))) = Inr (loaded (patch_record n u r))"
    and "get_op j (snd (patch_op n' pc' j u' (snd (patch_op n pc i u s)))) = Inr (loaded (patch_record n' u' q))"
proof -
  from patch_get [OF assms(1,2,4,6,9)] obtain t where
    t: "patch_op n pc i u s = (Inr (patch_record n u r), t)" "get_op i t = Inr (loaded (patch_record n u r))"
      "good t" "get_op j t = Inr q"
    using assms(7,8,10) by metis
  from patch_get [OF t(3) assms(3,5,7) t(4)] obtain w where
    w: "patch_op n' pc' j u' t = (Inr (patch_record n' u' q), w)" "get_op j w = Inr (loaded (patch_record n' u' q))"
      "get_op i w = get_op i t"
    using assms(6,8) by metis
  show "get_op i (snd (patch_op n' pc' j u' (snd (patch_op n pc i u s)))) = Inr (loaded (patch_record n u r))"
    "get_op j (snd (patch_op n' pc' j u' (snd (patch_op n pc i u s)))) = Inr (loaded (patch_record n' u' q))"
    using t w by simp_all
qed

end

section \<open>The invariant of the repository\<close>

definition metadata_ok :: "string \<Rightarrow> string \<Rightarrow> app_metadata \<Rightarrow> bool" where
  "metadata_ok pid app m \<longleftrightarrow> am_id m = build_application_id pid app \<and> am_project_id m = pid \<and> am_name m = app \<and>
    (am_environment m = [] \<or> plain_component (am_environment m)) \<and>
    list_all (\<lambda>e. trim_space e = [] \<or> plain_component e) (am_environments m)"

definition app_ok :: "repo \<Rightarrow> string \<Rightarrow> string \<Rightarrow> bool" where
  "app_ok repo pid app \<longleftrightarrow>
    (case read_metadata repo pid app of
       Inl _ \<Rightarrow> True
     | Inr (Some m) \<Rightarrow> metadata_ok pid app m
     | Inr None \<Rightarrow> (case load_record repo pid app of Inl _ \<Rightarrow> True | Inr r \<Rightarrow> ar_name r = app))"

definition clusters_ok :: "repo \<Rightarrow> bool" where
  "clusters_ok repo \<longleftrightarrow> (\<forall>c rest. rest \<noteq> [] \<longrightarrow> fs_read repo (clusters_root @ c # rest) \<noteq> None \<longrightarrow> cluster_name c)"

definition wf_repo :: "repo \<Rightarrow> bool" where
  "wf_repo repo \<longleftrightarrow> (\<forall>pid app. plain_app pid app \<longrightarrow> app_ok repo pid app) \<and> clusters_ok repo"

lemma clusters_ok_subdirs: "clusters_ok repo \<Longrightarrow> \<forall>c \<in> set (fs_subdirs clusters_root repo). cluster_name c"
proof
  fix c assume ok: "clusters_ok repo" and "c \<in> set (fs_subdirs clusters_root repo)"
  then obtain rest where "rest \<noteq> []" "fs_read repo (clusters_root @ c # rest) \<noteq> None"
    unfolding fs_subdirs_iff by auto
  with ok show "cluster_name c" unfolding clusters_ok_def by blast
qed

lemma app_ok_cong:
  assumes "plain_app pid app" and "tree.same_below (app_dir pid app) a b"
  shows "app_ok a pid app = app_ok b pid app"
  unfolding app_ok_def read_metadata_cong [OF assms] load_record_cong [OF assms] by (rule refl)

lemma shared_plain: "plain_component ''shared''"
  by (simp add: plain_component_def)

lemma wf_load:
  assumes "wf_repo repo" and "plain_app pid app" and "load_record repo pid app = Inr r"
  shows "ar_id r = build_application_id pid app" "ar_project_id r = pid" "ar_name r = app"
    "plain_component (ar_environment r)" "plain_environments (record_environments repo r)" "loaded r = r"
proof -
  from assms(1,2) have ok: "app_ok repo pid app" by (simp add: wf_repo_def)
  have "ar_id r = build_application_id pid app \<and> ar_project_id r = pid \<and> ar_name r = app \<and>
      plain_component (ar_environment r) \<and> plain_environments (record_environments repo r) \<and> loaded r = r"
  proof (cases "read_metadata repo pid app")
    case (Inl e)
    with assms(3) show ?thesis by (simp add: load_record_def)
  next
    case (Inr x)
    show ?thesis
    proof (cases x)
      case (Some m)
      with Inr ok have m: "metadata_ok pid app m" by (simp add: app_ok_def)
      from Inr Some assms(3) have r: "r = loaded (metadata_to_record m)"
        by (auto simp: load_record_def loaded_def Let_def split: if_splits)
      have i: "ar_id r = build_application_id pid app" "ar_project_id r = pid" "ar_name r = app"
        using m by (simp_all add: r loaded_def metadata_to_record_def metadata_ok_def)
      have e: "plain_component (ar_environment r)"
        using m shared_plain by (auto simp: r loaded_def metadata_to_record_def metadata_ok_def)
      have "plain_environments (record_environments repo r)"
        using m e Inr Some i
        by (auto simp: record_environments_def metadata_ok_def plain_environments_def list_all_iff
          normalized_environments_set)
      with i e r show ?thesis by simp
    next
      case None
      with Inr assms(3) ok have n: "ar_name r = app" by (simp add: app_ok_def)
      from Inr None assms(3) obtain u w s where r: "r = record_from_manifests repo pid app u w s"
        by (auto simp: load_record_def Let_def split: option.splits prod.splits content.splits)
      have f: "ar_id r = build_application_id pid app" "ar_project_id r = pid" "ar_environment r = ''shared''"
        "1 \<le> ar_replicas r" "normalize_strategy (ar_strategy r) = ar_strategy r"
        by (simp_all add: r record_from_manifests_def Let_def)
      then have "loaded r = r" by (simp add: loaded_def)
      with f n None Inr shared_plain show ?thesis
        by (simp add: record_environments_def plain_environments_def)
    qed
  qed
  then show "ar_id r = build_application_id pid app" "ar_project_id r = pid" "ar_name r = app"
    "plain_component (ar_environment r)" "plain_environments (record_environments repo r)" "loaded r = r"
    by simp_all
qed

text \<open>The writes of a record keep the invariant.\<close>

lemma cluster_name_normalize: "cluster_name c \<Longrightarrow> cluster_name (normalize_cluster_id c)"
  using default_cluster by (auto simp: cluster_name_def normalize_cluster_id_def Let_def split: if_splits)

lemma write_clusters_ok:
  "clusters_ok repo \<Longrightarrow> (\<And>c rest. rest \<noteq> [] \<Longrightarrow> p = clusters_root @ c # rest \<Longrightarrow> cluster_name c) \<Longrightarrow>
    clusters_ok (fs_write p y repo)"
  by (auto simp: clusters_ok_def tree.read_write)

lemma remove_clusters_ok: "clusters_ok repo \<Longrightarrow> clusters_ok (fs_remove p repo)"
  by (auto simp: clusters_ok_def tree.read_remove)

lemma rewrite_clusters_ok: "cluster_name c \<Longrightarrow> clusters_ok repo \<Longrightarrow> clusters_ok (rewrite_cluster_root c repo)"
  unfolding rewrite_cluster_root_def
  by (rule write_clusters_ok) (auto simp: cluster_dir_plain cluster_name_normalize)

lemma ensure_clusters_ok: "cluster_name c \<Longrightarrow> clusters_ok repo \<Longrightarrow> clusters_ok (ensure_cluster cfg c repo)"
  unfolding ensure_cluster_def
  by (intro rewrite_clusters_ok write_clusters_ok) (auto simp: bootstrap_dir_plain clusters_root_def)

lemma fold_ensure_clusters_ok:
  "\<forall>c \<in> set cs. cluster_name c \<Longrightarrow> clusters_ok repo \<Longrightarrow> clusters_ok (fold (ensure_cluster cfg) cs repo)"
  by (induction cs arbitrary: repo) (simp_all add: ensure_clusters_ok)

lemma child_clusters_ok:
  "cluster_name c \<Longrightarrow> plain_app (ar_project_id r) (ar_name r) \<Longrightarrow> clusters_ok repo \<Longrightarrow>
    clusters_ok (write_flux_child cfg r c repo)"
  unfolding write_flux_child_def
  by (rule write_clusters_ok) (auto simp: flux_child_path_plain flux_child_plain cluster_name_normalize)

lemma wiring_clusters_ok:
  assumes "plain_context pc" and "plain_app (ar_project_id r) (ar_name r)" and "clusters_ok repo"
  shows "clusters_ok (sync_flux_wiring cfg r pc prev repo)"
proof -
  have "\<forall>c \<in> set (cluster_ids pc). cluster_name c" using cluster_ids_plain [OF assms(1)] by blast
  then show ?thesis
    using assms cluster_id_plain(1) [OF assms(1)]
    by (simp add: sync_flux_wiring_def Let_def remove_flux_child_def rewrite_clusters_ok remove_clusters_ok
      child_clusters_ok fold_ensure_clusters_ok)
qed

lemma outside_clusters_ok:
  "clusters_ok repo \<Longrightarrow> (\<And>q. prefix clusters_root q \<Longrightarrow> fs_read t q = fs_read repo q) \<Longrightarrow> clusters_ok t"
  by (simp add: clusters_ok_def)

lemma app_not_clusters:
  "plain_app pid app \<Longrightarrow> prefix clusters_root q \<Longrightarrow> \<not> prefix (app_dir pid app) q"
  by (auto simp: app_dir_plain clusters_root_def prefix_def)

lemma persist_clusters_ok:
  assumes "plain_context pc" and "plain_app (ar_project_id r) (ar_name r)" and "plain_environments es"
    and "plain_component (ar_environment r)" and "clusters_ok repo"
  shows "clusters_ok (persist_record cfg r pc prev es repo)"
  unfolding persist_record_def write_metadata_def write_app_metadata_def
proof (intro write_clusters_ok wiring_clusters_ok assms(1,2))
  show "clusters_ok (write_application_files cfg r es repo)"
  proof (rule outside_clusters_ok [OF assms(5)])
    fix q assume "prefix clusters_root q"
    then have n: "\<not> prefix (app_dir (ar_project_id r) (ar_name r) @ [x]) q" for x
      using app_not_clusters [OF assms(2)] by (metis append_prefixD)
    show "fs_read (write_application_files cfg r es repo) q = fs_read repo q"
      by (rule write_files_frame [OF assms(2-4) n n])
  qed
qed (use assms(2) in \<open>auto simp: metadata_path_plain app_dir_plain clusters_root_def\<close>)

lemma deployment_clusters_ok:
  assumes "plain_app (dr_project_id d) (dr_application_name d)" and "CHR ''/'' \<notin> set (dr_id d)" and "clusters_ok repo"
  shows "clusters_ok (write_deployment_record d repo)"
  unfolding write_deployment_record_def
  by (rule write_clusters_ok [OF assms(3)])
     (use assms(1,2) in \<open>auto simp: deployment_path_plain app_dir_plain clusters_root_def\<close>)

lemma wf_from_parts:
  assumes "wf_repo repo" and "plain_app pid app" and "clusters_ok t" and "app_ok t pid app"
    and "\<And>p2 a2. plain_app p2 a2 \<Longrightarrow> (pid, app) \<noteq> (p2, a2) \<Longrightarrow> tree.same_below (app_dir p2 a2) t repo"
  shows "wf_repo t"
  unfolding wf_repo_def
proof (intro conjI allI impI assms(3))
  fix p2 a2 assume p: "plain_app p2 a2"
  show "app_ok t p2 a2"
  proof (cases "(pid, app) = (p2, a2)")
    case False
    with p assms(1) app_ok_cong [OF p assms(5) [OF p False]] show ?thesis by (simp add: wf_repo_def)
  qed (use assms(4) in auto)
qed

lemma app_ok_metadata: "read_metadata t pid app = Inr (Some m) \<Longrightarrow> metadata_ok pid app m \<Longrightarrow> app_ok t pid app"
  by (simp add: app_ok_def)

lemma get_frame:
  assumes "valid_id j" and "split_application_id i = Inr (pid, app)" and "j \<noteq> i"
    and "\<And>p2 a2. plain_app p2 a2 \<Longrightarrow> (pid, app) \<noteq> (p2, a2) \<Longrightarrow> tree.same_below (app_dir p2 a2) t repo"
  shows "get_application j t = get_application j repo"
proof -
  from assms(1) obtain p2 a2 where j: "split_application_id j = Inr (p2, a2)" "plain_app p2 a2"
    by (rule valid_idE)
  have "(pid, app) \<noteq> (p2, a2)"
    using split_inverse(1) [OF assms(2)] split_inverse(1) [OF j(1)] assms(3) by auto
  from load_record_cong [OF j(2) assms(4) [OF j(2) this]] j(1) show ?thesis
    by (simp add: get_application_def)
qed

end
