(* ===== verification/StoreProvides.thy ===== *)
theory StoreProvides
  imports StoreContract
begin

text \<open>
  The local manifest store provides the interface \<open>app_store\<close>: one lemma per operation, then the
  interpretation.
\<close>

section \<open>Writing a well-formed record\<close>

text \<open>The common end of create, patch and image update.\<close>

lemma persist_provides:
  fixes cfg :: store_config and prev :: string
  assumes wf: "wf_repo repo" and pc: "plain_context pc" and app: "plain_app (ar_project_id r) (ar_name r)"
    and id: "ar_id r = build_application_id (ar_project_id r) (ar_name r)"
    and es: "plain_environments es" and env: "plain_component (ar_environment r)"
  defines "t \<equiv> persist_record cfg r pc prev es repo"
  shows "wf_repo t" and "load_record t (ar_project_id r) (ar_name r) = Inr (loaded r)"
    and "plain_app p2 a2 \<Longrightarrow> (ar_project_id r, ar_name r) \<noteq> (p2, a2) \<Longrightarrow>
      tree.same_below (app_dir p2 a2) t repo"
proof -
  show sb: "tree.same_below (app_dir p2 a2) t repo"
    if "plain_app p2 a2" and "(ar_project_id r, ar_name r) \<noteq> (p2, a2)" for p2 a2
    unfolding t_def by (rule persist_same_below [OF pc app es env that])
  show "load_record t (ar_project_id r) (ar_name r) = Inr (loaded r)"
    unfolding t_def by (rule load_persisted)
  show "wf_repo t"
  proof (rule wf_from_parts [OF wf app])
    show "clusters_ok t"
      unfolding t_def using wf by (intro persist_clusters_ok [OF pc app es env]) (simp add: wf_repo_def)
    show "app_ok t (ar_project_id r) (ar_name r)"
      unfolding t_def
      by (rule app_ok_metadata [OF persist_metadata])
         (use id es env in \<open>auto simp: metadata_ok_def metadata_from_record_def plain_environments_def list_all_iff\<close>)
  qed (rule sb)
qed

text \<open>Writing a deployment of an application changes nothing that reading it looks at.\<close>

lemma deployment_provides:
  assumes wf: "wf_repo repo" and app: "plain_app (dr_project_id d) (dr_application_name d)"
    and id: "CHR ''/'' \<notin> set (dr_id d)" and m: "read_metadata repo (dr_project_id d) (dr_application_name d) = Inr (Some m)"
  defines "t \<equiv> write_deployment_record d repo"
  shows "wf_repo t" and "load_record t (dr_project_id d) (dr_application_name d) =
      load_record repo (dr_project_id d) (dr_application_name d)"
    and "plain_app p2 a2 \<Longrightarrow> (dr_project_id d, dr_application_name d) \<noteq> (p2, a2) \<Longrightarrow>
      tree.same_below (app_dir p2 a2) t repo"
proof -
  have tm: "read_metadata t (dr_project_id d) (dr_application_name d) = Inr (Some m)"
    unfolding t_def deployment_keeps_metadata [OF app id] by (rule m)
  show "load_record t (dr_project_id d) (dr_application_name d) =
      load_record repo (dr_project_id d) (dr_application_name d)"
    unfolding load_record_def tm m by simp
  show sb: "tree.same_below (app_dir p2 a2) t repo"
    if "plain_app p2 a2" and "(dr_project_id d, dr_application_name d) \<noteq> (p2, a2)" for p2 a2
    unfolding t_def by (rule deployment_same_below [OF app id that])
  show "wf_repo t"
  proof (rule wf_from_parts [OF wf app])
    show "clusters_ok t"
      unfolding t_def using wf by (intro deployment_clusters_ok [OF app id]) (simp add: wf_repo_def)
    from wf app have "app_ok repo (dr_project_id d) (dr_application_name d)" by (simp add: wf_repo_def)
    with m have "metadata_ok (dr_project_id d) (dr_application_name d) m" by (simp add: app_ok_def)
    with tm show "app_ok t (dr_project_id d) (dr_application_name d)" by (rule app_ok_metadata)
  qed (rule sb)
qed

lemma sorted_environments_plain:
  "plain_environments es \<Longrightarrow> plain_component d \<Longrightarrow> plain_environments (normalized_environments es d)"
  by (auto simp: plain_environments_def list_all_iff normalized_environments_set)

section \<open>Create\<close>

lemma record_of_create_fields [simp]:
  "ar_id (record_of_create now pc req sec) = build_application_id (pc_id pc) (cr_name req)"
  "ar_project_id (record_of_create now pc req sec) = pc_id pc"
  "ar_name (record_of_create now pc req sec) = cr_name req"
  by (simp_all add: record_of_create_def)

lemma record_of_create_environment:
  "plain_create pc req \<Longrightarrow> plain_component (ar_environment (record_of_create now pc req sec))"
  using shared_plain
  by (auto simp: record_of_create_def plain_create_def plain_environments_def Let_def split: list.splits)

lemma record_of_create_loaded:
  assumes "plain_create pc req"
  shows "loaded (record_of_create now pc req sec) = record_of_create now pc req sec"
proof -
  have "ar_environment (record_of_create now pc req sec) \<noteq> []"
    using record_of_create_environment [OF assms] by (auto simp: plain_component_def)
  moreover have "0 < ar_replicas (record_of_create now pc req sec)"
    by (simp add: record_of_create_def desired_replicas_def max_def)
  moreover have "normalize_strategy (ar_strategy (record_of_create now pc req sec)) =
      ar_strategy (record_of_create now pc req sec)"
    by (simp add: record_of_create_def)
  ultimately show ?thesis by (simp add: loaded_def)
qed

lemma deployment_of_fields [simp]:
  "dr_project_id (deployment_of r i s n) = ar_project_id r" "dr_application_name (deployment_of r i s n) = ar_name r"
  "dr_id (deployment_of r i s n) = i"
  by (simp_all add: deployment_of_def)

lemma store_create_provides:
  assumes wf: "wf_repo repo" and pl: "plain_create pc req" and c: "store_create cfg now pc req sec repo = (Inr r, t)"
  shows "r = record_of_create now pc req sec" and "get_application (ar_id r) t = Inr r" and "wf_repo t"
    and "plain_app p2 a2 \<Longrightarrow> (pc_id pc, cr_name req) \<noteq> (p2, a2) \<Longrightarrow> tree.same_below (app_dir p2 a2) t repo"
proof -
  let ?r = "record_of_create now pc req sec"
  let ?es = "normalized_environments (pc_environments pc) (ar_environment ?r)"
  let ?d = "deployment_of ?r (initial_deployment_id ?r) ''Created'' now"
  let ?u = "persist_record cfg ?r pc [] ?es repo"
  from c show r: "r = ?r" by (auto simp: store_create_def Let_def split: if_splits)
  from c have t: "t = write_deployment_record ?d ?u"
    by (auto simp: store_create_def Let_def split: if_splits)
  have app: "plain_app (pc_id pc) (cr_name req)" and pc: "plain_context pc" and us: "CHR ''_'' \<notin> set (pc_id pc)"
    using pl by (simp_all add: plain_create_def)
  have env: "plain_component (ar_environment ?r)" by (rule record_of_create_environment [OF pl])
  have es: "plain_environments ?es"
    using pl env by (intro sorted_environments_plain) (simp_all add: plain_create_def)
  note u = persist_provides [where cfg = cfg and prev = "[]", OF wf pc _ _ es env, simplified, OF app]
  have m: "read_metadata ?u (dr_project_id ?d) (dr_application_name ?d) = Inr (Some (metadata_from_record ?r ?es))"
    using persist_metadata [of cfg ?r] by simp
  note d = deployment_provides [OF u(1) _ _ m, simplified, OF app initial_id_plain]
  show "get_application (ar_id r) t = Inr r"
    using d(2) u(2) by (simp add: r t get_application_def build_valid(1) [OF us app] record_of_create_loaded [OF pl])
  show "wf_repo t" unfolding t by (rule d(1))
  show "tree.same_below (app_dir p2 a2) t repo" if "plain_app p2 a2" "(pc_id pc, cr_name req) \<noteq> (p2, a2)"
    unfolding t using tree.same_below_trans [OF d(3) u(3)] that by simp
qed

lemma store_create_conflict:
  assumes "get_application (build_application_id (pc_id pc) (cr_name req)) repo = Inr r" and "plain_create pc req"
  shows "store_create cfg now pc req sec repo = (Inl ErrConflict, repo)"
proof -
  have app: "plain_app (pc_id pc) (cr_name req)" and us: "CHR ''_'' \<notin> set (pc_id pc)"
    using assms(2) by (simp_all add: plain_create_def)
  from assms(1) have l: "load_record repo (pc_id pc) (cr_name req) = Inr r"
    by (simp add: get_application_def build_valid(1) [OF us app])
  have "\<exists>n rest. fs_read repo (app_dir (pc_id pc) (cr_name req) @ n # rest) \<noteq> None"
  proof (rule ccontr)
    assume "\<nexists>n rest. fs_read repo (app_dir (pc_id pc) (cr_name req) @ n # rest) \<noteq> None"
    then have "fs_read repo (app_dir (pc_id pc) (cr_name req) @ n # rest) = None" for n rest by blast
    then have "load_record repo (pc_id pc) (cr_name req) = Inl ErrNotFound"
      using app by (simp add: load_record_def read_metadata_def metadata_path_plain app_file_plain apps_plain
        manifest_names_plain Let_def)
    with l show False by simp
  qed
  then have "fs_exists (app_dir (pc_id pc) (cr_name req)) repo"
    by (auto simp: fs_exists_def fs_dir_exists_iff)
  then show ?thesis by (simp add: store_create_def)
qed

section \<open>Patch and image update\<close>

lemma patch_record_fields [simp]:
  "ar_id (patch_record now u r) = ar_id r" "ar_project_id (patch_record now u r) = ar_project_id r"
  "ar_name (patch_record now u r) = ar_name r"
  by (simp_all add: patch_record_def)

lemma record_environments_cong:
  "ar_project_id q = ar_project_id r \<Longrightarrow> ar_name q = ar_name r \<Longrightarrow> plain_environments (record_environments repo r) \<Longrightarrow>
    plain_component (ar_environment q) \<Longrightarrow> plain_environments (record_environments repo q)"
  by (auto simp: record_environments_def plain_environments_def list_all_iff normalized_environments_set
    split: sum.splits option.splits if_splits)

lemma record_update_provides:
  fixes cfg :: store_config and prev :: string
  assumes wf: "wf_repo repo" and pc: "plain_context pc" and s: "split_application_id i = Inr (pid, app)"
    and app: "plain_app pid app" and g: "get_application i repo = Inr r"
    and q: "ar_id q = ar_id r" "ar_project_id q = ar_project_id r" "ar_name q = ar_name r"
    and env: "plain_component (ar_environment q)" and es: "plain_environments es"
  defines "t \<equiv> persist_record cfg q pc prev es repo"
  shows "get_application i t = Inr (loaded q)" and "wf_repo t"
    and "ar_project_id q = pid" and "ar_name q = app"
    and "plain_app p2 a2 \<Longrightarrow> (pid, app) \<noteq> (p2, a2) \<Longrightarrow> tree.same_below (app_dir p2 a2) t repo"
    and "read_metadata t pid app = Inr (Some (metadata_from_record q es))"
proof -
  from g s have l: "load_record repo pid app = Inr r" by (simp add: get_application_def)
  note w = wf_load [OF wf app l]
  show n: "ar_project_id q = pid" "ar_name q = app" using q w by simp_all
  have qa: "plain_app (ar_project_id q) (ar_name q)" using n app by simp
  have qi: "ar_id q = build_application_id (ar_project_id q) (ar_name q)" using q w by simp
  note p = persist_provides [where cfg = cfg and prev = prev, OF wf pc qa qi es env, folded t_def]
  show "get_application i t = Inr (loaded q)" using p(2) n s by (simp add: get_application_def)
  show "wf_repo t" by (rule p(1))
  show "tree.same_below (app_dir p2 a2) t repo" if "plain_app p2 a2" "(pid, app) \<noteq> (p2, a2)"
    using p(3) that n by simp
  show "read_metadata t pid app = Inr (Some (metadata_from_record q es))"
    using persist_metadata [of cfg q] n by (simp add: t_def)
qed

lemma patch_environment_plain:
  "plain_patch u \<Longrightarrow> plain_component (ar_environment r) \<Longrightarrow> plain_component (ar_environment (patch_record now u r))"
  by (auto simp: patch_record_def plain_patch_def split: option.splits)

lemma store_patch_provides:
  assumes wf: "wf_repo repo" and pc: "plain_context pc" and u: "plain_patch u" and v: "valid_id i"
    and g: "get_application i repo = Inr r"
  shows "\<exists>t. store_patch cfg now pc i u repo = (Inr (patch_record now u r), t) \<and>
    get_application i t = Inr (loaded (patch_record now u r)) \<and> wf_repo t \<and>
    (\<forall>j. valid_id j \<longrightarrow> j \<noteq> i \<longrightarrow> get_application j t = get_application j repo)"
proof -
  from v obtain pid app where s: "split_application_id i = Inr (pid, app)" and app: "plain_app pid app"
    by (rule valid_idE)
  from g s have l: "load_record repo pid app = Inr r" by (simp add: get_application_def)
  note w = wf_load [OF wf app l]
  let ?q = "patch_record now u r"
  let ?known = "record_environments repo ?q"
  let ?es = "if ar_environment ?q \<in> set ?known then ?known else sort (?known @ [ar_environment ?q])"
  let ?t = "persist_record cfg ?q pc (ar_environment r) ?es repo"
  have env: "plain_component (ar_environment ?q)" by (rule patch_environment_plain [OF u w(4)])
  have "plain_environments ?known" by (rule record_environments_cong [OF _ _ w(5) env]) simp_all
  with env have es: "plain_environments ?es" by (auto simp: plain_environments_def list_all_iff)
  note p = record_update_provides(1,2,5) [where cfg = cfg and prev = "ar_environment r",
      OF wf pc s app g patch_record_fields env es]
  have "store_patch cfg now pc i u repo = (Inr ?q, ?t)" using g by (simp add: store_patch_def Let_def)
  moreover have "\<forall>j. valid_id j \<longrightarrow> j \<noteq> i \<longrightarrow> get_application j ?t = get_application j repo"
    using get_frame [OF _ s _ p(3)] by blast
  ultimately show ?thesis using p(1,2) by blast
qed

lemma store_image_provides:
  fixes tag :: string and now :: int
  assumes wf: "wf_repo repo" and pc: "plain_context pc" and dep: "CHR ''/'' \<notin> set dep" and v: "valid_id i"
    and g: "get_application i repo = Inr r"
  defines "q \<equiv> r\<lparr>ar_image := replace_image_tag (ar_image r) tag, ar_updated_at := now\<rparr>"
  shows "\<exists>t. store_update_image cfg now pc i tag dep repo = (Inr q, t) \<and>
    get_application i t = Inr q \<and> wf_repo t \<and>
    (\<forall>j. valid_id j \<longrightarrow> j \<noteq> i \<longrightarrow> get_application j t = get_application j repo)"
proof -
  from v obtain pid app where s: "split_application_id i = Inr (pid, app)" and app: "plain_app pid app"
    by (rule valid_idE)
  from g s have l: "load_record repo pid app = Inr r" by (simp add: get_application_def)
  note w = wf_load [OF wf app l]
  let ?es = "record_environments repo q"
  let ?u = "persist_record cfg q pc (ar_environment q) ?es repo"
  let ?d = "deployment_of q dep ''Syncing'' now"
  have qf: "ar_id q = ar_id r" "ar_project_id q = ar_project_id r" "ar_name q = ar_name r" by (simp_all add: q_def)
  have env: "plain_component (ar_environment q)" using w(4) by (simp add: q_def)
  have es: "plain_environments ?es" by (rule record_environments_cong [OF qf(2,3) w(5) env])
  note p = record_update_provides(1,2,5,6) [where cfg = cfg and prev = "ar_environment q",
      OF wf pc s app g qf env es]
  note n = record_update_provides(3,4) [OF wf pc s app g qf env es]
  have lq: "loaded q = q" using w(6) by (simp add: loaded_iff q_def)
  have m: "read_metadata ?u (dr_project_id ?d) (dr_application_name ?d) = Inr (Some (metadata_from_record q ?es))"
    using p(4) n by simp
  note d = deployment_provides [OF p(2) _ _ m, simplified n deployment_of_fields, OF app dep]
  have "store_update_image cfg now pc i tag dep repo = (Inr q, write_deployment_record ?d ?u)"
    using g by (simp add: store_update_image_def Let_def q_def)
  moreover have "get_application i (write_deployment_record ?d ?u) = Inr q"
    using p(1) d(2) s lq by (simp add: get_application_def)
  moreover have "\<forall>j. valid_id j \<longrightarrow> j \<noteq> i \<longrightarrow>
      get_application j (write_deployment_record ?d ?u) = get_application j repo"
    using get_frame [OF _ s _ tree.same_below_trans [OF d(3) p(3)]] by blast
  ultimately show ?thesis using d(1) by blast
qed

section \<open>Archive and delete\<close>

lemma strip_fold_read:
  "fs_read (fold (\<lambda>n. if n = ''.aods'' then id else fs_remove_all (d @ [n])) ns repo) q =
    (if \<exists>n \<in> set ns. n \<noteq> ''.aods'' \<and> prefix (d @ [n]) q then None else fs_read repo q)"
  by (induction ns arbitrary: repo) (auto simp: tree.read_back)

lemma strip_read:
  "fs_read (strip_desired_state pid app repo) q =
    (if \<exists>n rest. q = app_dir pid app @ n # rest \<and> n \<noteq> ''.aods'' then None else fs_read repo q)"
proof -
  let ?d = "app_dir pid app"
  let ?ns = "fs_subdirs ?d repo @ fs_files_in ?d repo"
  let ?hit = "\<exists>n \<in> set ?ns. n \<noteq> ''.aods'' \<and> prefix (?d @ [n]) q"
  have e: "fs_read (strip_desired_state pid app repo) q = (if ?hit then None else fs_read repo q)"
    unfolding strip_desired_state_def Let_def by (rule strip_fold_read)
  show ?thesis
  proof (cases "\<exists>n rest. q = ?d @ n # rest \<and> n \<noteq> ''.aods''")
    case True
    then obtain n rest where q: "q = ?d @ n # rest" "n \<noteq> ''.aods''" by blast
    then have p: "prefix (?d @ [n]) q" by simp
    have "n \<in> set ?ns" if "fs_read repo q \<noteq> None"
      using q(1) that by (cases "rest = []") (auto simp: fs_subdirs_iff fs_files_in_iff)
    with q(2) p have "fs_read repo q = None \<or> ?hit" by blast
    then have "fs_read (strip_desired_state pid app repo) q = None" unfolding e by presburger
    with True show ?thesis by simp
  next
    case False
    then have "\<not> ?hit" by (auto simp: prefix_def)
    with False show ?thesis unfolding e by (simp only: if_False)
  qed
qed

lemma remove_children_clusters_ok:
  assumes "clusters_ok repo"
  shows "clusters_ok (remove_flux_children r repo)"
proof -
  have "\<forall>c \<in> set cs. cluster_name c \<Longrightarrow> clusters_ok rp \<Longrightarrow>
      clusters_ok (fold (\<lambda>c repo. if fs_exists (flux_child_path r c) repo
        then rewrite_cluster_root c (fs_remove (flux_child_path r c) repo) else repo) cs rp)" for cs rp
    by (induction cs arbitrary: rp) (simp_all add: rewrite_clusters_ok remove_clusters_ok)
  with clusters_ok_subdirs [OF assms] assms show ?thesis by (simp add: remove_flux_children_def)
qed

lemma lifecycle_metadata_ok:
  assumes wf: "wf_repo repo" and app: "plain_app pid app" and l: "load_lifecycle_metadata repo pid app = Inr m"
  shows "metadata_ok pid app m"
proof (cases "read_metadata repo pid app")
  case (Inl e)
  with l show ?thesis by (simp add: load_lifecycle_metadata_def)
next
  case (Inr x)
  from wf app have ok: "app_ok repo pid app" by (simp add: wf_repo_def)
  have ne: "build_application_id pid app \<noteq> []" "pid \<noteq> []" "app \<noteq> []"
    using app by (auto simp: plain_app_def plain_component_def build_application_id_def)
  show ?thesis
  proof (cases x)
    case (Some k)
    with Inr ok have k: "metadata_ok pid app k" by (simp add: app_ok_def)
    from Inr Some l have m: "m = k\<lparr>am_id := (if am_id k = [] then build_application_id pid app else am_id k),
        am_project_id := (if am_project_id k = [] then pid else am_project_id k),
        am_name := (if am_name k = [] then app else am_name k),
        am_environments := (if am_environments k = [] then [am_environment k] else am_environments k)\<rparr>"
      by (simp add: load_lifecycle_metadata_def)
    show ?thesis using k ne by (auto simp: m metadata_ok_def)
  next
    case None
    with Inr l obtain r where r: "load_record repo pid app = Inr r"
      "m = metadata_from_record r (record_environments repo r)"
      by (auto simp: load_lifecycle_metadata_def bindR_eq_Inr)
    from wf_load [OF wf app r(1)] r(2) show ?thesis
      by (auto simp: metadata_ok_def metadata_from_record_def plain_environments_def list_all_iff)
  qed
qed

lemma metadata_record_plain:
  "metadata_ok pid app m \<Longrightarrow> plain_app pid app \<Longrightarrow> plain_app (ar_project_id (metadata_to_record m)) (ar_name (metadata_to_record m))"
  by (simp add: metadata_ok_def metadata_to_record_def)

lemma not_flux: "plain_app pid app \<Longrightarrow> prefix (app_dir pid app) q \<Longrightarrow> \<not> prefix flux_root q"
  by (auto simp: app_dir_plain flux_root_def prefix_def)

text \<open>Removing the Flux children of an application is invisible to every application.\<close>

lemma children_same_below:
  assumes "wf_repo repo" and "plain_app pid app" and "metadata_ok pid app m" and "plain_app p2 a2"
  shows "tree.same_below (app_dir p2 a2) (remove_flux_children (metadata_to_record m) repo) repo"
  unfolding tree.same_below_def
proof (intro allI impI)
  fix q assume "prefix (app_dir p2 a2) q"
  with assms(4) have "\<not> prefix flux_root q" by (rule not_flux)
  moreover have "\<forall>c \<in> set (fs_subdirs clusters_root repo). cluster_name c"
    using assms(1) by (intro clusters_ok_subdirs) (simp add: wf_repo_def)
  ultimately show "fs_read (remove_flux_children (metadata_to_record m) repo) q = fs_read repo q"
    using metadata_record_plain [OF assms(3,2)] by (intro remove_children_frame)
qed

lemma store_archive_provides:
  assumes wf: "wf_repo repo" and v: "valid_id i" and g: "get_application i repo = Inr r" and now: "now \<noteq> 0"
  shows "\<exists>x t. store_archive now i who repo = (Inr x, t) \<and> get_application i t = Inl ErrArchived \<and> wf_repo t \<and>
    (\<forall>j. valid_id j \<longrightarrow> j \<noteq> i \<longrightarrow> get_application j t = get_application j repo)"
proof -
  from v obtain pid app where s: "split_application_id i = Inr (pid, app)" and app: "plain_app pid app"
    by (rule valid_idE)
  from g s have l: "load_record repo pid app = Inr r" by (simp add: get_application_def)
  have "\<exists>m. load_lifecycle_metadata repo pid app = Inr m \<and> \<not> is_archived m"
  proof (cases "read_metadata repo pid app")
    case (Inl e)
    with l show ?thesis by (simp add: load_record_def)
  next
    case (Inr y)
    show ?thesis
    proof (cases y)
      case (Some k)
      with Inr l have "\<not> is_archived k" by (auto simp: load_record_def split: if_splits)
      with Inr Some show ?thesis by (simp add: load_lifecycle_metadata_def is_archived_def)
    next
      case None
      with Inr l show ?thesis
        by (simp add: load_lifecycle_metadata_def is_archived_def metadata_from_record_def)
    qed
  qed
  then obtain m where m: "load_lifecycle_metadata repo pid app = Inr m" "\<not> is_archived m" by blast
  note mo = lifecycle_metadata_ok [OF wf app m(1)]
  let ?m = "m\<lparr>am_updated_at := now, am_archived_at := Some now, am_archived_by := trim_space who\<rparr>"
  let ?u = "remove_flux_children (metadata_to_record m) repo"
  let ?t = "write_app_metadata pid app ?m (strip_desired_state pid app ?u)"
  have "\<exists>x. store_archive now i who repo = (Inr x, ?t)"
    using m by (simp add: store_archive_def s Let_def)
  moreover have tm: "read_metadata ?t pid app = Inr (Some ?m)" by (rule read_written_metadata)
  then have "get_application i ?t = Inl ErrArchived"
    using now by (simp add: get_application_def s load_record_def is_archived_def)
  moreover have sb: "tree.same_below (app_dir p2 a2) ?t repo" if p: "plain_app p2 a2" "(pid, app) \<noteq> (p2, a2)" for p2 a2
  proof -
    have "fs_read ?t q = fs_read ?u q" if "prefix (app_dir p2 a2) q" for q
    proof -
      have "\<not> prefix (app_dir pid app) q" by (rule app_dirs_apart(1) [OF app p that])
      then show ?thesis using metadata_below [OF app] by (auto simp: write_app_metadata_def tree.read_write strip_read)
    qed
    with children_same_below [OF wf app mo p(1)] show ?thesis by (simp add: tree.same_below_def)
  qed
  moreover have "wf_repo ?t"
  proof (rule wf_from_parts [OF wf app _ _ sb])
    have "clusters_ok ?u" using wf by (intro remove_children_clusters_ok) (simp add: wf_repo_def)
    then show "clusters_ok ?t"
    proof (rule outside_clusters_ok)
      fix q assume "prefix clusters_root q"
      then have "\<not> prefix (app_dir pid app) q" by (rule app_not_clusters [OF app])
      then show "fs_read ?t q = fs_read ?u q"
        using metadata_below [OF app] by (auto simp: write_app_metadata_def tree.read_write strip_read)
    qed
    show "app_ok ?t pid app"
      by (rule app_ok_metadata [OF tm]) (use mo in \<open>simp add: metadata_ok_def\<close>)
  qed
  moreover have "\<forall>j. valid_id j \<longrightarrow> j \<noteq> i \<longrightarrow> get_application j ?t = get_application j repo"
    using get_frame [OF _ s _ sb] by blast
  ultimately show ?thesis by blast
qed

lemma store_delete_provides:
  assumes wf: "wf_repo repo" and v: "valid_id i" and d: "store_delete now i repo = (Inr x, t)"
  shows "get_application i t = Inl ErrNotFound" and "wf_repo t"
    and "\<forall>j. valid_id j \<longrightarrow> j \<noteq> i \<longrightarrow> get_application j t = get_application j repo"
proof -
  from v obtain pid app where s: "split_application_id i = Inr (pid, app)" and app: "plain_app pid app"
    by (rule valid_idE)
  from d s obtain m where m: "load_lifecycle_metadata repo pid app = Inr m"
    and t: "t = fs_remove_all (app_dir pid app) (remove_flux_children (metadata_to_record m) repo)"
    by (auto simp: store_delete_def bindR_def split: sum.splits)
  note mo = lifecycle_metadata_ok [OF wf app m]
  let ?u = "remove_flux_children (metadata_to_record m) repo"
  have gone: "fs_read t (app_dir pid app @ rest) = None" for rest
    by (simp add: t tree.read_back)
  have tm: "read_metadata t pid app = Inr None"
    by (simp add: read_metadata_def metadata_path_plain [OF app] gone)
  have tl: "load_record t pid app = Inl ErrNotFound"
    using app by (simp add: load_record_def tm Let_def app_file_plain apps_plain manifest_names_plain gone)
  then show "get_application i t = Inl ErrNotFound" by (simp add: get_application_def s)
  have sb: "tree.same_below (app_dir p2 a2) t repo" if p: "plain_app p2 a2" "(pid, app) \<noteq> (p2, a2)" for p2 a2
    using children_same_below [OF wf app mo p(1)] app_dirs_apart(1) [OF app p]
    by (simp add: tree.same_below_def t tree.read_back)
  show "wf_repo t"
  proof (rule wf_from_parts [OF wf app _ _ sb])
    have "clusters_ok ?u" using wf by (intro remove_children_clusters_ok) (simp add: wf_repo_def)
    then show "clusters_ok t"
      by (rule outside_clusters_ok) (simp add: t tree.read_back app_not_clusters [OF app])
    show "app_ok t pid app" using tm tl by (simp add: app_ok_def)
  qed
  show "\<forall>j. valid_id j \<longrightarrow> j \<noteq> i \<longrightarrow> get_application j t = get_application j repo"
    using get_frame [OF _ s _ sb] by blast
qed

section \<open>The interpretation\<close>

interpretation local_store: app_store get_application "store_create cfg" "store_patch cfg" "store_update_image cfg"
    store_archive store_delete wf_repo
  for cfg
proof
  fix s :: repo and pc req r sec and now :: int
  assume "get_application (build_application_id (pc_id pc) (cr_name req)) s = Inr r" "plain_create pc req"
  then show "store_create cfg now pc req sec s = (Inl ErrConflict, s)" by (rule store_create_conflict)
next
  fix s :: repo and pc req sec r t and now :: int
  assume a: "wf_repo s" "plain_create pc req" "store_create cfg now pc req sec s = (Inr r, t)"
  from store_create_provides(1-3) [OF a]
  show "ar_id r = build_application_id (pc_id pc) (cr_name req) \<and> get_application (ar_id r) t = Inr r \<and> wf_repo t"
    by simp
next
  fix s :: repo and pc req sec res t j and now :: int
  assume a: "wf_repo s" "plain_create pc req" and c: "store_create cfg now pc req sec s = (res, t)"
    and j: "valid_id j" "j \<noteq> build_application_id (pc_id pc) (cr_name req)"
  show "get_application j t = get_application j s"
  proof (cases res)
    case (Inl e)
    with c show ?thesis by (auto simp: store_create_def Let_def split: if_splits)
  next
    case (Inr r)
    have us: "CHR ''_'' \<notin> set (pc_id pc)" "plain_app (pc_id pc) (cr_name req)"
      using a(2) by (simp_all add: plain_create_def)
    show ?thesis
      by (rule get_frame [OF j(1) build_valid(1) [OF us] j(2) store_create_provides(4) [OF a c [unfolded Inr]]])
  qed
next
  fix s :: repo and i e pc u and now :: int
  assume "get_application i s = Inl e"
  then show "store_patch cfg now pc i u s = (Inl e, s)" by (simp add: store_patch_def)
next
  fix s :: repo and pc u i r and now :: int
  assume "wf_repo s" "plain_context pc" "plain_patch u" "valid_id i" "get_application i s = Inr r"
  then show "\<exists>t. store_patch cfg now pc i u s = (Inr (patch_record now u r), t) \<and>
      get_application i t = Inr (loaded (patch_record now u r)) \<and> wf_repo t \<and>
      (\<forall>j. valid_id j \<longrightarrow> j \<noteq> i \<longrightarrow> get_application j t = get_application j s)"
    by (rule store_patch_provides)
next
  fix s :: repo and i e pc tag dep and now :: int
  assume "get_application i s = Inl e"
  then show "store_update_image cfg now pc i tag dep s = (Inl e, s)" by (simp add: store_update_image_def)
next
  fix s :: repo and pc dep i r tag and now :: int
  assume "wf_repo s" "plain_context pc" "CHR ''/'' \<notin> set dep" "valid_id i" "get_application i s = Inr r"
  then show "\<exists>t. store_update_image cfg now pc i tag dep s =
        (Inr (r\<lparr>ar_image := replace_image_tag (ar_image r) tag, ar_updated_at := now\<rparr>), t) \<and>
      get_application i t = Inr (r\<lparr>ar_image := replace_image_tag (ar_image r) tag, ar_updated_at := now\<rparr>) \<and> wf_repo t \<and>
      (\<forall>j. valid_id j \<longrightarrow> j \<noteq> i \<longrightarrow> get_application j t = get_application j s)"
    by (rule store_image_provides)
next
  fix s :: repo and i r who and now :: int
  assume "wf_repo s" "valid_id i" "get_application i s = Inr r" "now \<noteq> 0"
  then show "\<exists>x t. store_archive now i who s = (Inr x, t) \<and> get_application i t = Inl ErrArchived \<and> wf_repo t \<and>
      (\<forall>j. valid_id j \<longrightarrow> j \<noteq> i \<longrightarrow> get_application j t = get_application j s)"
    by (rule store_archive_provides)
next
  fix s :: repo and i x t and now :: int
  assume "wf_repo s" "valid_id i" "store_delete now i s = (Inr x, t)"
  then show "get_application i t = Inl ErrNotFound \<and> wf_repo t \<and>
      (\<forall>j. valid_id j \<longrightarrow> j \<noteq> i \<longrightarrow> get_application j t = get_application j s)"
    using store_delete_provides by blast
qed

end
