(* ===== verification/StoreExact.thy ===== *)
theory StoreExact
  imports StoreProvides
begin

text \<open>
  Exactness of what the manifest store leaves behind: the base directory of an application holds the
  manifests that its kustomization lists and no other, the Flux child lies in exactly one cluster,
  whose root lists it, and an application whose metadata is lost is recovered from its manifests.
\<close>

section \<open>The base directory\<close>

definition known_base_names :: "string list" where
  "known_base_names = [''kustomization.yaml'', ''deployment.yaml'', ''rollout.yaml'', ''service.yaml'',
     ''servicemonitor.yaml'', ''prometheusrule.yaml'', ''virtualservice.yaml'', ''destinationrule.yaml'',
     ''canary-service.yaml'', ''externalsecret.yaml'', ''registry-externalsecret.yaml'']"

lemma known_split:
  "set known_base_names = insert ''kustomization.yaml'' (set (base_resources r)) \<union> set (stale_names r)"
  "insert ''kustomization.yaml'' (set (base_resources r)) \<inter> set (stale_names r) = {}"
  by (auto simp: known_base_names_def base_resources_def stale_names_def workload_file_name_def)

definition base_path :: "app_record \<Rightarrow> string \<Rightarrow> path" where
  "base_path r f = app_dir (ar_project_id r) (ar_name r) @ [''base'', f]"

lemma application_file_paths:
  "map fst (application_files cfg r es) =
    map (\<lambda>f. app_file (ar_project_id r) (ar_name r) [''base'', f]) (''kustomization.yaml'' # base_resources r) @
    map (\<lambda>e. app_file (ar_project_id r) (ar_name r) [''overlays'', e, ''kustomization.yaml''])
      (normalized_environments es (ar_environment r))"
  unfolding application_files_def base_resources_def Let_def
  by (cases "ar_mesh r"; cases "is_canary (ar_strategy r)"; cases "ar_secret_path r = []";
      cases "ar_registry_secret_path r = []") simp_all

lemma base_file_path:
  assumes "plain_app (ar_project_id r) (ar_name r)"
    and "f \<in> insert ''kustomization.yaml'' (set (base_resources r) \<union> set (stale_names r))"
  shows "app_file (ar_project_id r) (ar_name r) [''base'', f] = base_path r f"
  using base_names_plain [of f r] assms apps_plain
  by (auto simp: app_file_plain base_path_def)

lemma base_files_written:
  assumes "plain_app (ar_project_id r) (ar_name r)" and "plain_environments es" and "plain_component (ar_environment r)"
  shows "base_path r f \<in> fst ` set (application_files cfg r es) \<longleftrightarrow>
    f \<in> insert ''kustomization.yaml'' (set (base_resources r))"
proof -
  let ?overlay = "\<lambda>e. app_file (ar_project_id r) (ar_name r) [''overlays'', e, ''kustomization.yaml'']"
  have overlay: "base_path r f \<noteq> ?overlay e" if "e \<in> set (normalized_environments es (ar_environment r))" for e
  proof -
    have "plain_component e"
      using that assms(2,3) by (auto simp: normalized_environments_set plain_environments_def list_all_iff)
    then show ?thesis using assms(1) by (simp add: app_file_plain apps_plain base_path_def)
  qed
  have "fst ` set (application_files cfg r es) = set (map fst (application_files cfg r es))" by simp
  also have "\<dots> = (\<lambda>f. app_file (ar_project_id r) (ar_name r) [''base'', f]) `
      insert ''kustomization.yaml'' (set (base_resources r)) \<union>
      ?overlay ` set (normalized_environments es (ar_environment r))"
    unfolding application_file_paths by simp
  also have "(\<lambda>f. app_file (ar_project_id r) (ar_name r) [''base'', f]) `
      insert ''kustomization.yaml'' (set (base_resources r)) =
      base_path r ` insert ''kustomization.yaml'' (set (base_resources r))"
    by (rule image_cong) (use base_file_path [OF assms(1)] in auto)
  finally have "fst ` set (application_files cfg r es) =
      base_path r ` insert ''kustomization.yaml'' (set (base_resources r)) \<union>
      ?overlay ` set (normalized_environments es (ar_environment r))" .
  moreover have "inj (base_path r)" by (simp add: inj_def base_path_def)
  ultimately show ?thesis
    using overlay by (auto simp: inj_eq)
qed

lemma base_files_after:
  assumes "plain_app (ar_project_id r) (ar_name r)" and "plain_environments es" and "plain_component (ar_environment r)"
  shows "fs_read (write_application_files cfg r es repo) (base_path r f) \<noteq> None \<longleftrightarrow>
    f \<notin> set (stale_names r) \<and>
    (f \<in> insert ''kustomization.yaml'' (set (base_resources r)) \<or> fs_read repo (base_path r f) \<noteq> None)"
proof -
  let ?fs = "application_files cfg r es"
  have stale: "base_path r f \<in> set (map (\<lambda>g. app_file (ar_project_id r) (ar_name r) [''base'', g]) (stale_names r))
      \<longleftrightarrow> f \<in> set (stale_names r)"
  proof -
    have "app_file (ar_project_id r) (ar_name r) [''base'', g] = base_path r g" if "g \<in> set (stale_names r)" for g
      by (rule base_file_path [OF assms(1)]) (use that in simp)
    then show ?thesis by (auto simp: base_path_def image_iff)
  qed
  have w: "map_of (rev ?fs) (base_path r f) = None \<longleftrightarrow> f \<notin> insert ''kustomization.yaml'' (set (base_resources r))"
    unfolding map_of_rev_None base_files_written [OF assms] ..
  have t: "fs_read (write_application_files cfg r es repo) (base_path r f) =
      (if f \<in> set (stale_names r) then None
       else (case map_of (rev ?fs) (base_path r f) of Some c \<Rightarrow> Some c | None \<Rightarrow> fs_read repo (base_path r f)))"
    unfolding write_application_files_def tree.read_fold_remove tree.read_fold_write stale ..
  show ?thesis
  proof (cases "map_of (rev ?fs) (base_path r f)")
    case None
    with w have "f \<notin> insert ''kustomization.yaml'' (set (base_resources r))" by simp
    with None show ?thesis unfolding t by auto
  next
    case (Some c)
    with w have "f \<in> insert ''kustomization.yaml'' (set (base_resources r))" by fastforce
    with Some show ?thesis unfolding t by auto
  qed
qed

lemma files_in_base: "f \<in> set (fs_files_in (app_dir (ar_project_id r) (ar_name r) @ [''base'']) repo) \<longleftrightarrow>
    fs_read repo (base_path r f) \<noteq> None"
  by (simp add: fs_files_in_iff base_path_def)

text \<open>
  C6: when an application's files are written over a base directory that holds only manifests of the
  store, the base directory then holds the kustomization and exactly the resources it lists: no
  listed manifest is missing and no manifest of an earlier shape (another strategy, mesh, secret or
  registry credential) is left.
\<close>

theorem base_directory_exact:
  assumes "plain_app (ar_project_id r) (ar_name r)" and "plain_environments es" and "plain_component (ar_environment r)"
    and "set (fs_files_in (app_dir (ar_project_id r) (ar_name r) @ [''base'']) repo) \<subseteq> set known_base_names"
  shows "set (fs_files_in (app_dir (ar_project_id r) (ar_name r) @ [''base'']) (write_application_files cfg r es repo)) =
    insert ''kustomization.yaml'' (set (base_resources r))"
proof (rule set_eqI)
  fix f
  have "fs_read repo (base_path r f) \<noteq> None \<Longrightarrow> f \<in> set known_base_names"
    using assms(4) unfolding files_in_base [symmetric] by blast
  with known_split [of r] show "f \<in> set (fs_files_in (app_dir (ar_project_id r) (ar_name r) @ [''base''])
      (write_application_files cfg r es repo)) \<longleftrightarrow> f \<in> insert ''kustomization.yaml'' (set (base_resources r))"
    unfolding files_in_base base_files_after [OF assms(1-3)] by blast
qed

definition demo_context :: project_context where
  "demo_context =
    \<lparr>pc_id = ''demo'', pc_namespace = ''demo'', pc_environments = [''dev'', ''prod''],
     pc_environment_clusters = [(''dev'', ''default''), (''prod'', ''edge'')],
     pc_policies =
       \<lparr>pol_min_replicas = 1, pol_environments = [''dev'', ''prod''], pol_strategies = [''Rollout'', ''Canary''],
        pol_clusters = [''default''], pol_prod_pr = True, pol_auto_rollback = False, pol_required_probes = True\<rparr>\<rparr>"

definition demo_request :: create_request where
  "demo_request =
    \<lparr>cr_name = ''web'', cr_description = ''shop'', cr_image = ''ghcr.io/acme/web:v1'', cr_service_port = 8080,
     cr_replicas = 2, cr_strategy = ''Canary'', cr_mesh = True, cr_load_balancer = False, cr_environment = ''prod'',
     cr_secrets = [], cr_repository_id = [], cr_repository_url = [], cr_repository_branch = [],
     cr_repository_token = [], cr_repository_service_id = [], cr_config_path = [], cr_poll_interval = 300,
     cr_registry_server = [], cr_registry_username = [], cr_registry_token = [],
     cr_repository_token_path = [], cr_registry_secret_path = []\<rparr>"

definition demo_record :: app_record where
  "demo_record = record_of_create 5 demo_context demo_request ''apps/demo/web/prod''"

lemma demo_plain:
  "plain_app (ar_project_id demo_record) (ar_name demo_record)" "plain_component (ar_environment demo_record)"
  "ar_environment demo_record = ''prod''" "ar_project_id demo_record = ''demo''" "ar_name demo_record = ''web''"
proof -
  show "ar_environment demo_record = ''prod''" by code_simp
  then show "plain_component (ar_environment demo_record)" by (simp add: plain_component_def)
  show "ar_project_id demo_record = ''demo''" "ar_name demo_record = ''web''" by code_simp+
  then show "plain_app (ar_project_id demo_record) (ar_name demo_record)"
    by (simp add: plain_app_def plain_component_def)
qed

theorem base_directory_exact_witness:
  "\<forall>cfg. set (fs_files_in (app_dir ''demo'' ''web'' @ [''base'']) (write_application_files cfg demo_record [''dev'', ''prod''] [])) =
    insert ''kustomization.yaml'' (set (base_resources demo_record))"
proof -
  have es: "plain_environments [''dev'', ''prod'']" by (simp add: plain_environments_def plain_component_def)
  have "set (fs_files_in (app_dir (ar_project_id demo_record) (ar_name demo_record) @ [''base'']) []) \<subseteq> set known_base_names"
    by (simp add: fs_files_in_def)
  from base_directory_exact [OF demo_plain(1) es demo_plain(2) this] show ?thesis by (simp add: demo_plain)
qed

section \<open>The Flux child\<close>

definition child_at :: "app_record \<Rightarrow> string \<Rightarrow> repo \<Rightarrow> bool" where
  "child_at r c repo \<longleftrightarrow> fs_read repo (flux_child_path r c) \<noteq> None"

lemma child_path_eq:
  assumes "plain_app (ar_project_id r) (ar_name r)" and "cluster_name c" and "cluster_name d"
  shows "flux_child_path r c = flux_child_path r d \<longleftrightarrow> normalize_cluster_id c = normalize_cluster_id d"
  using flux_child_plain [OF assms(1)] assms(2,3) by (simp add: flux_child_path_plain)

lemma rewrite_keeps_child:
  assumes "plain_app (ar_project_id r) (ar_name r)" and "cluster_name c" and "cluster_name d"
  shows "fs_read (rewrite_cluster_root d repo) (flux_child_path r c) = fs_read repo (flux_child_path r c)"
  using flux_child_plain [OF assms(1)] assms(2,3)
  by (simp add: rewrite_cluster_root_def tree.read_write flux_child_path_plain cluster_dir_plain)

lemma ensure_keeps_child:
  assumes "plain_app (ar_project_id r) (ar_name r)" and "cluster_name c" and "cluster_name d"
  shows "fs_read (ensure_cluster cfg d repo) (flux_child_path r c) = fs_read repo (flux_child_path r c)"
  unfolding ensure_cluster_def rewrite_keeps_child [OF assms]
  using flux_child_plain [OF assms(1)] assms(2,3)
  by (simp add: tree.read_write bootstrap_dir_plain flux_child_path_plain clusters_root_def)

lemma fold_ensure_keeps_child:
  assumes "plain_app (ar_project_id r) (ar_name r)" and "cluster_name c" and "\<forall>d \<in> set ds. cluster_name d"
  shows "fs_read (fold (ensure_cluster cfg) ds repo) (flux_child_path r c) = fs_read repo (flux_child_path r c)"
  using assms(3) by (induction ds arbitrary: repo) (simp_all add: ensure_keeps_child [OF assms(1,2)])

text \<open>
  C7: after the wiring of an application is brought up to date, its child manifest lies in the
  cluster of its environment and in no other cluster, provided it was only in the cluster of its
  previous environment before, and the root kustomization of that cluster lists it.
\<close>

theorem flux_child_in_one_cluster:
  fixes cfg :: flux_config
  assumes "plain_context pc" and "plain_app (ar_project_id r) (ar_name r)"
    and "\<forall>c. cluster_name c \<longrightarrow> child_at r c repo \<longrightarrow>
      normalize_cluster_id c = normalize_cluster_id (cluster_id_for_environment pc prev)"
  defines "t \<equiv> sync_flux_wiring cfg r pc prev repo"
  defines "current \<equiv> cluster_id_for_environment pc (ar_environment r)"
  shows "(\<forall>c. cluster_name c \<longrightarrow> (child_at r c t \<longleftrightarrow> normalize_cluster_id c = normalize_cluster_id current)) \<and>
    root_in_step current t \<and>
    ''applications/'' @ flux_child_name r @ ''.yaml'' \<in> set (cluster_resources current t)"
proof -
  let ?prev = "cluster_id_for_environment pc prev"
  note cur = cluster_id_plain [OF assms(1), of "ar_environment r", folded current_def]
  note prv = cluster_id_plain [OF assms(1), of prev]
  let ?r1 = "fold (ensure_cluster cfg) (cluster_ids pc) repo"
  let ?r2 = "rewrite_cluster_root current (write_flux_child cfg r current ?r1)"
  have ids: "\<forall>d \<in> set (cluster_ids pc). cluster_name d" using cluster_ids_plain [OF assms(1)] by blast
  have t: "t = (if ?prev \<noteq> current then rewrite_cluster_root ?prev (remove_flux_child r ?prev ?r2) else ?r2)"
    using prv(2) by (simp add: t_def sync_flux_wiring_def current_def Let_def)
  have norm: "normalize_cluster_id ?prev = ?prev" "normalize_cluster_id current = current"
    using cur prv by (simp_all add: normalize_cluster_id_def)
  have r2: "child_at r c ?r2 \<longleftrightarrow> normalize_cluster_id c = current \<or> child_at r c repo" if c: "cluster_name c" for c
    using child_path_eq [OF assms(2) c cur(1)] norm
    by (auto simp: child_at_def rewrite_keeps_child [OF assms(2) c cur(1)] write_flux_child_def tree.read_write
      fold_ensure_keeps_child [OF assms(2) c ids])
  have where_child: "child_at r c t \<longleftrightarrow> normalize_cluster_id c = current" if c: "cluster_name c" for c
  proof (cases "?prev = current")
    case True
    with t r2 [OF c] assms(3) c norm show ?thesis by auto
  next
    case False
    have "child_at r c t \<longleftrightarrow> normalize_cluster_id c \<noteq> ?prev \<and> child_at r c ?r2"
      using False child_path_eq [OF assms(2) c prv(1)] norm prv
      by (auto simp: t child_at_def rewrite_keeps_child [OF assms(2) c prv(1)] remove_flux_child_def tree.read_remove)
    with r2 [OF c] assms(3) c norm False show ?thesis by auto
  qed
  have step: "root_in_step current t"
  proof (cases "?prev = current")
    case True
    then show ?thesis unfolding t using rewrite_in_step [OF cur(1)] by simp
  next
    case False
    have "\<not> prefix (cluster_dir current) (flux_child_path r ?prev)"
      using False norm by (simp add: cluster_dir_plain [OF cur(1)] flux_child_path_plain [OF prv(1) flux_child_plain [OF assms(2)]])
    then have ne: "flux_child_path r ?prev \<noteq> cluster_dir current @ x" for x by auto
    have "root_in_step current (remove_flux_child r ?prev ?r2)"
    proof -
      have "cluster_resources current (remove_flux_child r ?prev ?r2) = cluster_resources current ?r2"
        using ne prv(2,3) by (intro cluster_resources_cong) (simp add: remove_flux_child_def tree.read_remove ne [THEN not_sym])
      then show ?thesis
        using rewrite_in_step [OF cur(1), of "write_flux_child cfg r current ?r1"] ne prv(2,3)
        by (simp add: root_in_step_def remove_flux_child_def tree.read_remove ne [THEN not_sym])
    qed
    with False show ?thesis unfolding t using rewrite_keeps_in_step [OF cur(1) prv(1)] by simp
  qed
  have "child_at r current t" using where_child [OF cur(1)] norm by simp
  then have "fs_read t (cluster_dir current @ [''applications'', flux_child_name r @ ''.yaml'']) \<noteq> None"
    using flux_child_path_plain [OF cur(1) flux_child_plain [OF assms(2)]] cluster_dir_plain [OF cur(1)]
    by (simp add: child_at_def)
  moreover have "suffix ''.yaml'' (flux_child_name r @ ''.yaml'')" by (simp add: suffix_def)
  ultimately have "''applications/'' @ flux_child_name r @ ''.yaml'' \<in> set (cluster_resources current t)"
    unfolding cluster_resources_set by blast
  with where_child step norm show ?thesis by simp
qed

lemma demo_context_plain: "plain_context demo_context"
proof -
  have "slug_pattern ''default''" "slug_pattern ''edge''" by code_simp+
  then show ?thesis using slug_cluster_name by (auto simp: plain_context_def demo_context_def)
qed

theorem flux_child_in_one_cluster_witness:
  "\<forall>cfg. child_at demo_record ''edge'' (sync_flux_wiring cfg demo_record demo_context ''dev'' [])"
proof -
  have e: "cluster_name ''edge''" using slug_cluster_name [of "''edge''"] by (simp add: slug_pattern_def slug_alnum_def)
  have cur: "cluster_id_for_environment demo_context (ar_environment demo_record) = ''edge''" by code_simp
  have "\<forall>c. cluster_name c \<longrightarrow> child_at demo_record c [] \<longrightarrow>
      normalize_cluster_id c = normalize_cluster_id (cluster_id_for_environment demo_context ''dev'')"
    by (simp add: child_at_def fs_read_def)
  from flux_child_in_one_cluster [OF demo_context_plain demo_plain(1) this] e cur show ?thesis by simp
qed

end
