(* ===== verification/OrphanCleanup.thy ===== *)
theory OrphanCleanup
  imports ProjectCatalog StoreExact
begin

text \<open>
  Removal of Flux child manifests whose application is gone (application/orphan_cleanup.go). The
  lemmas say which files a run removes and rewrites, that a run whose loads fail changes nothing, and that
  one archived application makes them fail.
\<close>

section \<open>The known applications\<close>

text \<open>A map from the identifier of the record, the later record winning.\<close>

fun load_known_apps ::
  "repo \<Rightarrow> string \<Rightarrow> string list \<Rightarrow> (string \<times> app_record) list \<Rightarrow> (go_error, (string \<times> app_record) list) result" where
  "load_known_apps repo pid [] known = Inr known"
| "load_known_apps repo pid (app # apps) known =
    (case load_record repo pid app of
       Inl e \<Rightarrow> if e = ErrNotFound then load_known_apps repo pid apps known else Inl e
     | Inr r \<Rightarrow> load_known_apps repo pid apps (AList.update (ar_id r) r known))"

fun load_known_projects ::
  "repo \<Rightarrow> string list \<Rightarrow> (string \<times> app_record) list \<Rightarrow> (go_error, (string \<times> app_record) list) result" where
  "load_known_projects repo [] known = Inr known"
| "load_known_projects repo (pid # pids) known =
    bindR (load_known_apps repo pid (fs_subdirs [''apps'', pid] repo) known) (load_known_projects repo pids)"

definition load_known_records :: "repo \<Rightarrow> (go_error, (string \<times> app_record) list) result" where
  "load_known_records repo = load_known_projects repo (fs_subdirs [''apps''] repo) []"

section \<open>Where their manifests belong\<close>

definition expected_path :: "catalog_project \<Rightarrow> app_record \<Rightarrow> path" where
  "expected_path p r = flux_child_path r (cluster_id_for_environment (build_project_context p) (ar_environment r))"

definition expected_of_project :: "catalog_project \<Rightarrow> (string \<times> app_record) list \<Rightarrow> (string \<times> path) list \<Rightarrow> (string \<times> path) list" where
  "expected_of_project p known expected =
    fold (\<lambda>kr m. if ar_project_id (snd kr) = cp_id p then AList.update (ar_id (snd kr)) (expected_path p (snd kr)) m else m)
      known expected"

definition expected_child_paths ::
  "repo \<Rightarrow> (string \<times> app_record) list \<Rightarrow> (go_error, (string \<times> path) list) result" where
  "expected_child_paths repo known =
    bindR (list_projects repo) (\<lambda>ps. Inr (fold (\<lambda>p m. expected_of_project p known m) ps []))"

section \<open>The manifests that are there\<close>

definition child_manifest_paths :: "repo \<Rightarrow> path list" where
  "child_manifest_paths repo =
    sort_key (join_with ''/'') (concat (map (\<lambda>c.
      map (\<lambda>n. clusters_root @ [c, ''applications'', n])
        (filter (suffix ''.yaml'') (fs_files_in (clusters_root @ [c, ''applications'']) repo)))
      (fs_subdirs clusters_root repo)))"

definition managed_application_id :: "repo \<Rightarrow> path \<Rightarrow> string option" where
  "managed_application_id repo p =
    (case fs_read repo p of
       Some (CYaml y) \<Rightarrow>
         let i = trim_space (ystring [''metadata'', ''annotations'', ''aods.io/application-id''] y)
         in if i = [] then None else Some i
     | _ \<Rightarrow> None)"

definition cluster_of_child_path :: "path \<Rightarrow> string" where
  "cluster_of_child_path p = p ! (length p - 3)"

section \<open>The cleanup\<close>

definition is_orphan :: "(string \<times> app_record) list \<Rightarrow> (string \<times> path) list \<Rightarrow> string \<Rightarrow> path \<Rightarrow> bool" where
  "is_orphan known expected application_id p =
    (case map_of expected application_id of
       Some q \<Rightarrow> q \<noteq> p
     | None \<Rightarrow> map_of known application_id = None)"

fun cleanup_children ::
  "(string \<times> app_record) list \<Rightarrow> (string \<times> path) list \<Rightarrow> path list \<Rightarrow> repo \<Rightarrow> nat \<times> string list \<times> repo" where
  "cleanup_children known expected [] repo = (0, [], repo)"
| "cleanup_children known expected (p # ps) repo =
    (case managed_application_id repo p of
       None \<Rightarrow> cleanup_children known expected ps repo
     | Some i \<Rightarrow>
         if is_orphan known expected i p then
           (let (n, touched, repo') = cleanup_children known expected ps (fs_remove p repo)
            in (Suc n, cluster_of_child_path p # touched, repo'))
         else cleanup_children known expected ps repo)"

definition sorted_keys :: "string list \<Rightarrow> string list" where
  "sorted_keys cs = sort (remdups cs)"

definition cleanup_orphans :: "(repo, go_error, nat) action" where
  "cleanup_orphans repo =
    (case bindR (load_known_records repo) (\<lambda>known.
        bindR (expected_child_paths repo known) (\<lambda>expected. Inr (known, expected))) of
       Inl e \<Rightarrow> (Inl e, repo)
     | Inr (known, expected) \<Rightarrow>
         let (n, touched, repo1) = cleanup_children known expected (child_manifest_paths repo) repo
         in (Inr n, fold rewrite_cluster_root (sorted_keys touched) repo1))"

section \<open>What a run removes\<close>

lemma cleanup_children_read:
  "fs_read (snd (snd (cleanup_children known expected ps repo))) q =
    (if q \<in> set ps \<and> (\<exists>i. managed_application_id repo q = Some i \<and> is_orphan known expected i q)
     then None else fs_read repo q)"
proof (induction ps arbitrary: repo)
  case (Cons p ps)
  have read: "fs_read (fs_remove p repo) x = (if x = p then None else fs_read repo x)" for x
    by (rule tree.read_remove)
  have same: "managed_application_id (fs_remove p repo) q = managed_application_id repo q" if "q \<noteq> p"
    using that read [of q] by (simp add: managed_application_id_def)
  have gone: "managed_application_id (fs_remove p repo) p = None" using read [of p] by (simp add: managed_application_id_def)
  show ?case
  proof (cases "managed_application_id repo p")
    case None
    with Cons.IH [of repo] show ?thesis by auto
  next
    case (Some i)
    show ?thesis
    proof (cases "is_orphan known expected i p")
      case True
      have "fs_read (snd (snd (cleanup_children known expected (p # ps) repo))) q =
          fs_read (snd (snd (cleanup_children known expected ps (fs_remove p repo)))) q"
        using Some True by (simp split: prod.splits)
      also have "\<dots> = (if q \<in> set ps \<and> (\<exists>i. managed_application_id (fs_remove p repo) q = Some i \<and>
          is_orphan known expected i q) then None else fs_read (fs_remove p repo) q)" by (rule Cons.IH)
      finally show ?thesis
        using Some True same gone read [of q] by (cases "q = p") auto
    next
      case False
      with Some Cons.IH [of repo] show ?thesis by auto
    qed
  qed
qed simp

text \<open>How many manifests a run removes, and the clusters it removes them from.\<close>

lemma cleanup_children_counts:
  "fst (cleanup_children known expected ps repo) =
     card {p \<in> set ps. \<exists>i. managed_application_id repo p = Some i \<and> is_orphan known expected i p} \<and>
   set (fst (snd (cleanup_children known expected ps repo))) =
     cluster_of_child_path ` {p \<in> set ps. \<exists>i. managed_application_id repo p = Some i \<and> is_orphan known expected i p}"
proof (induction ps arbitrary: repo)
  case (Cons p ps)
  let ?gone = "\<lambda>r q. \<exists>i. managed_application_id r q = Some i \<and> is_orphan known expected i q"
  have gone: "?gone (fs_remove p repo) q \<longleftrightarrow> q \<noteq> p \<and> ?gone repo q" for q
    by (cases "q = p") (simp_all add: managed_application_id_def tree.read_remove)
  show ?case
  proof (cases "?gone repo p")
    case True
    have s: "{q \<in> set (p # ps). ?gone repo q} = insert p {q \<in> set ps. q \<noteq> p \<and> ?gone repo q}" using True by auto
    from True obtain i where "managed_application_id repo p = Some i" "is_orphan known expected i p" by blast
    moreover have "{q \<in> set ps. ?gone (fs_remove p repo) q} = {q \<in> set ps. q \<noteq> p \<and> ?gone repo q}"
      unfolding gone by blast
    ultimately show ?thesis
      unfolding s using Cons.IH [of "fs_remove p repo"]
      by (cases "cleanup_children known expected ps (fs_remove p repo)") simp
  next
    case False
    then have s: "{q \<in> set (p # ps). ?gone repo q} = {q \<in> set ps. ?gone repo q}" by auto
    from False have "cleanup_children known expected (p # ps) repo = cleanup_children known expected ps repo"
      by (auto split: option.splits)
    with Cons.IH [of repo] show ?thesis unfolding s by simp
  qed
qed simp

lemma cluster_of_child [simp]: "cluster_of_child_path (clusters_root @ [c, ''applications'', n]) = c"
  by (simp add: cluster_of_child_path_def clusters_root_def)

lemma child_manifest_iff:
  "p \<in> set (child_manifest_paths repo) \<longleftrightarrow>
    (\<exists>c n. p = clusters_root @ [c, ''applications'', n] \<and> suffix ''.yaml'' n \<and> fs_read repo p \<noteq> None)"
proof -
  have sub: "c \<in> set (fs_subdirs clusters_root repo)" if "fs_read repo (clusters_root @ [c, ''applications'', n]) \<noteq> None" for c n
    using that unfolding fs_subdirs_iff by (intro exI [of _ "[''applications'', n]"]) simp
  have "p \<in> set (child_manifest_paths repo) \<longleftrightarrow> (\<exists>c \<in> set (fs_subdirs clusters_root repo).
      \<exists>n. n \<in> set (fs_files_in (clusters_root @ [c, ''applications'']) repo) \<and> suffix ''.yaml'' n \<and>
        p = clusters_root @ [c, ''applications'', n])"
    by (auto simp: child_manifest_paths_def)
  also have "\<dots> \<longleftrightarrow> (\<exists>c n. p = clusters_root @ [c, ''applications'', n] \<and> suffix ''.yaml'' n \<and> fs_read repo p \<noteq> None)"
    using sub by (auto simp: fs_files_in_iff)
  finally show ?thesis .
qed

lemma fold_rewrite_read:
  assumes "\<forall>c \<in> set cs. q \<noteq> cluster_dir c @ [''kustomization.yaml'']"
  shows "fs_read (fold rewrite_cluster_root cs repo) q = fs_read repo q"
  using assms by (induction cs arbitrary: repo) (simp_all add: rewrite_cluster_root_def tree.read_write)

lemma fold_rewrite_in_step:
  assumes "\<forall>c \<in> set cs. cluster_name c" and "d \<in> set cs"
  shows "root_in_step d (fold rewrite_cluster_root cs repo)"
proof -
  have keep: "\<forall>c \<in> set cs. cluster_name c \<Longrightarrow> cluster_name d \<Longrightarrow> root_in_step d r \<Longrightarrow>
      root_in_step d (fold rewrite_cluster_root cs r)" for cs r
    by (induction cs arbitrary: r) (simp_all add: rewrite_keeps_in_step)
  from assms show ?thesis
  proof (induction cs arbitrary: repo)
    case (Cons c cs)
    show ?case
    proof (cases "d = c")
      case True
      with Cons.prems(1) keep [of cs, OF _ _ rewrite_in_step] show ?thesis by simp
    next
      case False
      with Cons show ?thesis by simp
    qed
  qed simp
qed

section \<open>Archived applications\<close>

lemma known_apps_archived:
  assumes "app \<in> set apps" and "load_record repo pid app = Inl ErrArchived"
  shows "\<exists>e. load_known_apps repo pid apps known = Inl e"
  using assms by (induction apps arbitrary: known) (auto split: sum.splits)

lemma known_projects_archived:
  assumes "pid \<in> set pids" and "app \<in> set (fs_subdirs [''apps'', pid] repo)" and "load_record repo pid app = Inl ErrArchived"
  shows "\<exists>e. load_known_projects repo pids known = Inl e"
  using assms(1)
proof (induction pids arbitrary: known)
  case (Cons p ps)
  show ?case
  proof (cases "p = pid")
    case True
    with known_apps_archived [OF assms(2,3), of known] show ?thesis by auto
  next
    case False
    with Cons show ?thesis by (cases "load_known_apps repo p (fs_subdirs [''apps'', p] repo) known") auto
  qed
qed simp

section \<open>Properties\<close>

text \<open>The child manifests of a cluster that a run removes, and whether a file is one of them.\<close>

definition orphan_of ::
  "(string \<times> app_record) list \<Rightarrow> (string \<times> path) list \<Rightarrow> repo \<Rightarrow> string \<Rightarrow> path \<Rightarrow> bool" where
  "orphan_of known expected repo c q \<longleftrightarrow>
    (\<exists>n. q = clusters_root @ [c, ''applications'', n] \<and> suffix ''.yaml'' n) \<and>
    (\<exists>i. managed_application_id repo q = Some i \<and> is_orphan known expected i q)"

lemma orphan_listed:
  "orphan_of known expected repo c q \<longleftrightarrow> q \<in> set (child_manifest_paths repo) \<and> c = cluster_of_child_path q \<and>
    (\<exists>i. managed_application_id repo q = Some i \<and> is_orphan known expected i q)"
proof -
  have "fs_read repo q \<noteq> None" if "managed_application_id repo q = Some i" for i
    using that by (cases "fs_read repo q") (simp_all add: managed_application_id_def)
  then show ?thesis unfolding orphan_of_def child_manifest_iff by auto
qed

definition cleanup_facts :: "repo \<Rightarrow> (go_error, (string \<times> app_record) list \<times> (string \<times> path) list) result" where
  "cleanup_facts repo = bindR (load_known_records repo) (\<lambda>known.
    bindR (expected_child_paths repo known) (\<lambda>expected. Inr (known, expected)))"

lemma cleanup_run:
  assumes "cleanup_facts repo = Inr (known, expected)"
  shows "\<exists>touched. set touched = {c. \<exists>q. orphan_of known expected repo c q} \<and>
    cleanup_orphans repo = (Inr (card {q. \<exists>c. orphan_of known expected repo c q}),
      fold rewrite_cluster_root touched
        (snd (snd (cleanup_children known expected (child_manifest_paths repo) repo))))"
proof -
  let ?gone = "{p \<in> set (child_manifest_paths repo).
      \<exists>i. managed_application_id repo p = Some i \<and> is_orphan known expected i p}"
  obtain n touched repo1 where c: "cleanup_children known expected (child_manifest_paths repo) repo = (n, touched, repo1)"
    by (cases "cleanup_children known expected (child_manifest_paths repo) repo") auto
  have run: "cleanup_orphans repo = (Inr n, fold rewrite_cluster_root (sorted_keys touched) repo1)"
    using assms c by (simp add: cleanup_orphans_def cleanup_facts_def)
  have "?gone = {q. \<exists>c. orphan_of known expected repo c q}"
    and "cluster_of_child_path ` ?gone = {c. \<exists>q. orphan_of known expected repo c q}"
    unfolding orphan_listed by auto
  with cleanup_children_counts [of known expected "child_manifest_paths repo" repo] c
  have "n = card {q. \<exists>c. orphan_of known expected repo c q}"
    "set (sorted_keys touched) = {c. \<exists>q. orphan_of known expected repo c q}" by (simp_all add: sorted_keys_def)
  with run c show ?thesis by auto
qed

text \<open>
  C18: a run of the cleanup that cannot load the applications on disk or the catalog changes nothing and
  reports the error. Otherwise it removes exactly the child manifests that carry the identifier of an
  application which is not on disk or whose manifest belongs elsewhere, and answers their number; of the
  other files only the roots of the clusters it removed from may change, and these then list exactly the
  children that are left (for cluster directories named by cluster ids).
\<close>

theorem cleanup_removes_orphans:
  "case cleanup_facts repo of
     Inl e \<Rightarrow> cleanup_orphans repo = (Inl e, repo)
   | Inr (known, expected) \<Rightarrow>
       fst (cleanup_orphans repo) = Inr (card {q. \<exists>c. orphan_of known expected repo c q}) \<and>
       (\<forall>q. (\<forall>c p. orphan_of known expected repo c p \<longrightarrow> q \<noteq> cluster_dir c @ [''kustomization.yaml'']) \<longrightarrow>
         fs_read (snd (cleanup_orphans repo)) q =
           (if \<exists>c. orphan_of known expected repo c q then None else fs_read repo q)) \<and>
       (plain_clusters repo \<longrightarrow> (\<forall>c p. orphan_of known expected repo c p \<longrightarrow>
         root_in_step c (snd (cleanup_orphans repo))))"
proof (cases "cleanup_facts repo")
  case (Inl e)
  then show ?thesis by (simp add: cleanup_orphans_def cleanup_facts_def)
next
  case (Inr facts)
  obtain known expected where f: "facts = (known, expected)" by (cases facts)
  let ?orphan = "orphan_of known expected repo"
  let ?t = "snd (cleanup_orphans repo)"
  from cleanup_run Inr f obtain touched where
    touched: "set touched = {c. \<exists>q. ?orphan c q}" and
    run: "cleanup_orphans repo = (Inr (card {q. \<exists>c. ?orphan c q}), fold rewrite_cluster_root touched
      (snd (snd (cleanup_children known expected (child_manifest_paths repo) repo))))" by blast
  have read: "fs_read ?t q = (if \<exists>c. ?orphan c q then None else fs_read repo q)"
    if "\<forall>c p. ?orphan c p \<longrightarrow> q \<noteq> cluster_dir c @ [''kustomization.yaml'']" for q
  proof -
    have "\<forall>c \<in> set touched. q \<noteq> cluster_dir c @ [''kustomization.yaml'']" using that touched by blast
    from fold_rewrite_read [OF this] show ?thesis
      unfolding run snd_conv orphan_listed by (simp add: cleanup_children_read)
  qed
  have roots: "root_in_step c ?t" if "plain_clusters repo" and o1: "?orphan c p" for c p
  proof -
    have "c \<in> set (fs_subdirs clusters_root repo)" if "?orphan c q" for c q
    proof -
      from that obtain n where "q = clusters_root @ [c, ''applications'', n]" "fs_read repo q \<noteq> None"
        unfolding orphan_listed child_manifest_iff by auto
      then show ?thesis unfolding fs_subdirs_iff by (intro exI [of _ "[''applications'', n]"]) simp
    qed
    then have "\<forall>c \<in> set touched. cluster_name c" using that(1) touched unfolding plain_clusters_def by blast
    moreover have "c \<in> set touched" using touched o1 by blast
    ultimately show ?thesis unfolding run snd_conv by (rule fold_rewrite_in_step)
  qed
  show ?thesis using run read roots unfolding Inr f by auto
qed

text \<open>A repository with an empty catalog and the child manifest of an application that is gone.\<close>

definition stray_path :: path where
  "stray_path = clusters_root @ [''default'', ''applications'', ''shop-web.yaml'']"

definition stray_manifest :: yaml where
  "stray_manifest = YMap [(''metadata'', YMap [(''annotations'', YMap [(''aods.io/application-id'', YStr ''shop__web'')])])]"

definition stray_repo :: repo where
  "stray_repo = fs_write stray_path (CYaml stray_manifest) (fs_write catalog_path (CCatalog []) [])"

theorem cleanup_removes_orphans_witness:
  "fs_read stray_repo stray_path \<noteq> None \<and> fs_read (snd (cleanup_orphans stray_repo)) stray_path = None \<and>
   fs_read (snd (cleanup_orphans stray_repo)) catalog_path = Some (CCatalog []) \<and>
   root_in_step ''default'' (snd (cleanup_orphans stray_repo))"
proof -
  have f: "cleanup_facts stray_repo = Inr ([], [])" by code_simp
  have m: "managed_application_id stray_repo stray_path = Some ''shop__web''" by code_simp
  have o1: "is_orphan [] [] ''shop__web'' stray_path" by code_simp
  have "suffix ''.yaml'' ''shop-web.yaml''" by code_simp
  with m o1 have orphan: "orphan_of [] [] stray_repo ''default'' stray_path"
    unfolding orphan_of_def stray_path_def by blast
  have only: "c = ''default''" if "orphan_of [] [] stray_repo c p" for c p
  proof -
    from that have "fs_read stray_repo p \<noteq> None" and "cluster_of_child_path p = c" and "p \<noteq> catalog_path"
      unfolding orphan_listed child_manifest_iff by (auto simp: catalog_path_def clusters_root_def)
    moreover have "fs_read ([] :: repo) p = None" by (simp add: fs_read_def)
    ultimately show ?thesis by (auto simp: stray_repo_def tree.read_write stray_path_def split: if_splits)
  qed
  have d: "slug_pattern ''default''" by code_simp
  note dn = slug_cluster_name [OF d]
  have "fs_subdirs clusters_root stray_repo = [''default'']" by code_simp
  with dn have plain: "plain_clusters stray_repo" by (simp add: plain_clusters_def)
  from cleanup_removes_orphans [of stray_repo] have all:
    "\<forall>q. (\<forall>c p. orphan_of [] [] stray_repo c p \<longrightarrow> q \<noteq> cluster_dir c @ [''kustomization.yaml'']) \<longrightarrow>
       fs_read (snd (cleanup_orphans stray_repo)) q =
         (if \<exists>c. orphan_of [] [] stray_repo c q then None else fs_read stray_repo q)"
    "\<forall>c p. orphan_of [] [] stray_repo c p \<longrightarrow> root_in_step c (snd (cleanup_orphans stray_repo))"
    unfolding f using plain by simp_all
  have dir: "cluster_dir ''default'' = clusters_root @ [''default'']" using dn by (simp add: cluster_dir_plain)
  have apart: "\<forall>c p. orphan_of [] [] stray_repo c p \<longrightarrow> q \<noteq> cluster_dir c @ [''kustomization.yaml'']"
    if "q \<noteq> clusters_root @ [''default'', ''kustomization.yaml'']" for q
    using that only dir by fastforce
  have "fs_read (snd (cleanup_orphans stray_repo)) stray_path = None"
    using mp [OF spec [OF all(1), of stray_path] apart] orphan by (auto simp: stray_path_def)
  moreover have "fs_read (snd (cleanup_orphans stray_repo)) catalog_path = fs_read stray_repo catalog_path"
    using mp [OF spec [OF all(1), of catalog_path] apart] by (auto simp: catalog_path_def clusters_root_def orphan_of_def)
  moreover have "fs_read stray_repo catalog_path = Some (CCatalog [])" "fs_read stray_repo stray_path \<noteq> None"
    by (simp_all add: stray_repo_def tree.read_write catalog_path_def stray_path_def clusters_root_def)
  moreover have "root_in_step ''default'' (snd (cleanup_orphans stray_repo))" using all(2) orphan by blast
  ultimately show ?thesis by simp
qed

text \<open>
  One archived application anywhere below apps makes every run of the cleanup fail before it has
  removed anything.
\<close>

theorem cleanup_stopped_by_archived:
  assumes "pid \<in> set (fs_subdirs [''apps''] repo)" and "app \<in> set (fs_subdirs [''apps'', pid] repo)"
    and "load_record repo pid app = Inl ErrArchived"
  shows "\<exists>e. cleanup_orphans repo = (Inl e, repo)"
  using known_projects_archived [OF assms, of "[]"]
  by (auto simp: cleanup_orphans_def load_known_records_def)

definition shelved_repo :: repo where
  "shelved_repo = fs_write [''apps'', ''shop'', ''web'', ''.aods'', ''metadata.yaml'']
    (CMetadata ((metadata_from_record (record_of_create 5 demo_context demo_request []) [''dev''])\<lparr>am_archived_at := Some 7\<rparr>)) stray_repo"

theorem cleanup_stopped_by_archived_witness:
  "\<exists>e. cleanup_orphans shelved_repo = (Inl e, shelved_repo)"
proof (rule cleanup_stopped_by_archived)
  have meta: "fs_read shelved_repo [''apps'', ''shop'', ''web'', ''.aods'', ''metadata.yaml''] \<noteq> None"
    by (simp add: shelved_repo_def tree.read_write)
  show "''shop'' \<in> set (fs_subdirs [''apps''] shelved_repo)"
    unfolding fs_subdirs_iff using meta by (intro exI [of _ "[''web'', ''.aods'', ''metadata.yaml'']"]) simp
  show "''web'' \<in> set (fs_subdirs [''apps'', ''shop''] shelved_repo)"
    unfolding fs_subdirs_iff using meta by (intro exI [of _ "[''.aods'', ''metadata.yaml'']"]) simp
  have "metadata_path ''shop'' ''web'' = [''apps'', ''shop'', ''web'', ''.aods'', ''metadata.yaml'']" by code_simp
  then show "load_record shelved_repo ''shop'' ''web'' = Inl ErrArchived"
    by (simp add: load_record_def read_metadata_def shelved_repo_def tree.read_write is_archived_def)
qed

end
