(* ===== verification/VaultLaws.thy ===== *)
theory VaultLaws
  imports Vault
begin

text \<open>
  What the local secret store promises: the interface locale \<open>secret_store\<close> with its client lemmas
  (staging and then finalising publishes exactly one secret), its interpretation on the local store,
  the version-history invariant of documents, the separation of the paths the services use, and the
  exactness of the staging cleanup.
\<close>

section \<open>The interface of a secret store\<close>

locale secret_store =
  fixes stage_op :: "string \<Rightarrow> string \<Rightarrow> (string \<times> string) list \<Rightarrow> secret_data \<Rightarrow> ('v, go_error, staged_secret) action"
    and finalize_op :: "staged_secret \<Rightarrow> secret_data \<Rightarrow> ('v, go_error, unit) action"
    and get_op :: "string \<Rightarrow> 'v \<Rightarrow> (go_error, secret_data) result"
    and delete_op :: "string \<Rightarrow> ('v, go_error, unit) action"
    and ready :: "'v \<Rightarrow> bool"
    and slot :: "string \<Rightarrow> 'k"
  assumes stage_result: "fst (stage_op rid p m d v) = Inr \<lparr>staging_path = build_vault_staging_path rid, final_path = p\<rparr>"
    and stage_frame: "slot q \<noteq> slot (build_vault_staging_path rid) \<Longrightarrow> get_op q (snd (stage_op rid p m d v)) = get_op q v"
    and stage_ready: "ready (snd (stage_op rid p m d v)) = ready v"
    and finalize_result: "fst (finalize_op st d v) = Inr ()"
    and finalize_get: "ready v \<Longrightarrow> slot (staging_path st) \<noteq> slot (final_path st) \<Longrightarrow>
      get_op (final_path st) (snd (finalize_op st d v)) = Inr d"
    and finalize_frame: "slot q \<noteq> slot (staging_path st) \<Longrightarrow> slot q \<noteq> slot (final_path st) \<Longrightarrow>
      get_op q (snd (finalize_op st d v)) = get_op q v"
    and finalize_ready: "ready (snd (finalize_op st d v)) = ready v"
    and delete_result: "ready v \<Longrightarrow> fst (delete_op p v) = Inr ()"
    and delete_get: "ready v \<Longrightarrow> get_op p (snd (delete_op p v)) = Inr []"
    and delete_frame: "slot q \<noteq> slot p \<Longrightarrow> get_op q (snd (delete_op p v)) = get_op q v"
    and delete_ready: "ready (snd (delete_op p v)) = ready v"
begin

text \<open>Stage a secret and finalise it at once, as the update of application secrets does.\<close>

definition publish :: "string \<Rightarrow> string \<Rightarrow> (string \<times> string) list \<Rightarrow> secret_data \<Rightarrow> ('v, go_error, unit) action" where
  "publish rid p m d = bindS (stage_op rid p m d) (\<lambda>st. finalize_op st d)"

lemma publish_run:
  "publish rid p m d v =
    finalize_op \<lparr>staging_path = build_vault_staging_path rid, final_path = p\<rparr> d (snd (stage_op rid p m d v))"
  using stage_result [of rid p m d v]
  by (cases "stage_op rid p m d v") (simp add: publish_def bindS_def)

lemma publish_ok: "fst (publish rid p m d v) = Inr ()"
  by (simp add: publish_run finalize_result)

lemma publish_get:
  assumes "ready v" and "slot (build_vault_staging_path rid) \<noteq> slot p"
  shows "get_op p (snd (publish rid p m d v)) = Inr d"
  using finalize_get [of "snd (stage_op rid p m d v)"
      "\<lparr>staging_path = build_vault_staging_path rid, final_path = p\<rparr>" d] assms
  by (simp add: publish_run stage_ready)

lemma publish_frame:
  assumes "slot q \<noteq> slot (build_vault_staging_path rid)" and "slot q \<noteq> slot p"
  shows "get_op q (snd (publish rid p m d v)) = get_op q v"
  using assms by (simp add: publish_run finalize_frame stage_frame)

lemma publish_ready: "ready (snd (publish rid p m d v)) = ready v"
  by (simp add: publish_run finalize_ready stage_ready)

text \<open>Deleting secrets one after the other leaves none of them and touches no other.\<close>

definition delete_each :: "string list \<Rightarrow> 'v \<Rightarrow> 'v" where
  "delete_each ps v = fold (\<lambda>p v. snd (delete_op p v)) ps v"

lemma delete_each_ready: "ready (delete_each ps v) = ready v"
  by (induction ps arbitrary: v) (auto simp: delete_each_def delete_ready)

lemma delete_each_frame: "slot q \<notin> slot ` set ps \<Longrightarrow> get_op q (delete_each ps v) = get_op q v"
  by (induction ps arbitrary: v) (auto simp: delete_each_def delete_frame)

lemma delete_each_keeps_empty:
  assumes "ready v" and "get_op q v = Inr []" and "\<forall>p \<in> set ps. slot p = slot q \<longrightarrow> p = q"
  shows "get_op q (delete_each ps v) = Inr []"
  using assms
proof (induction ps arbitrary: v)
  case (Cons p ps)
  have "get_op q (snd (delete_op p v)) = Inr []"
  proof (cases "slot p = slot q")
    case True
    with Cons.prems show ?thesis by (simp add: delete_get)
  next
    case False
    with Cons.prems show ?thesis by (simp add: delete_frame)
  qed
  with Cons show ?case by (simp add: delete_each_def delete_ready)
qed (simp add: delete_each_def)

lemma delete_each_gone:
  assumes "ready v" and "q \<in> set ps" and "\<forall>p \<in> set ps. slot p = slot q \<longrightarrow> p = q"
  shows "get_op q (delete_each ps v) = Inr []"
  using assms
proof (induction ps arbitrary: v)
  case (Cons p ps)
  show ?case
  proof (cases "p = q")
    case True
    then show ?thesis
      using Cons.prems delete_each_keeps_empty [of "snd (delete_op q v)" q ps]
      by (simp add: delete_each_def delete_ready delete_get)
  next
    case False
    with Cons show ?thesis by (simp add: delete_each_def delete_ready)
  qed
qed simp

lemmas delete_each_laws = delete_each_ready delete_each_frame delete_each_gone

lemmas publish_laws = publish_ok publish_get publish_frame publish_ready

end

text \<open>The local store provides the interface.\<close>

definition vault_ready :: "vault \<Rightarrow> bool" where
  "vault_ready v \<longleftrightarrow> trim_space (vault_root v) \<noteq> []"

lemma local_document_laws:
  "read_local_document (write_local_document p d v) q =
     (if path_to_file q = path_to_file p then Some d else read_local_document v q)"
  "read_local_document (remove_local_document p v) q =
     (if path_to_file q = path_to_file p then None else read_local_document v q)"
  "vault_root (write_local_document p d v) = vault_root v"
  "vault_root (remove_local_document p v) = vault_root v"
  by (simp_all add: read_local_document_def write_local_document_def remove_local_document_def
    tree.read_back)

interpretation local_vault: secret_store "vault_stage_at now" "vault_finalize now" vault_get vault_delete
    vault_ready path_to_file
  for now
  by unfold_locales
     (auto simp: vault_stage_at_def vault_finalize_def vault_get_def vault_delete_def vault_ready_def
       finalize_document_def Let_def local_document_laws)

section \<open>Version history\<close>

text \<open>
  A document is well formed when its version numbers are distinct, positive and at most the current
  one, and the current version holds the document's data.
\<close>

definition wf_document :: "vault_document \<Rightarrow> bool" where
  "wf_document d \<longleftrightarrow> distinct (map fst (vd_versions d)) \<and>
     (\<forall>k \<in> fst ` set (vd_versions d). 1 \<le> k \<and> k \<le> local_current_version d) \<and>
     (vd_versions d \<noteq> [] \<longrightarrow>
        map_option vv_data (map_of (vd_versions d) (local_current_version d)) = Some (vd_data d))"

lemma local_current_version_meta:
  "0 < metadata_int (vd_metadata d) ''currentVersion'' \<Longrightarrow>
    local_current_version d = metadata_int (vd_metadata d) ''currentVersion''"
  by (simp add: local_current_version_def)

lemma local_current_version_nonneg: "0 \<le> local_current_version d"
proof -
  have "0 \<le> c \<Longrightarrow> 0 \<le> fold (\<lambda>kv current. if current < fst kv then fst kv else current) kvs c"
    for c :: int and kvs :: "(int \<times> vault_version) list"
    by (induction kvs arbitrary: c) auto
  then show ?thesis by (simp add: local_current_version_def)
qed

lemma finalized_current:
  "local_current_version (finalize_document now p sm data prev) =
    local_current_version (seed_versions now prev) + 1"
proof -
  have "metadata_int (vd_metadata (finalize_document now p sm data prev)) ''currentVersion'' =
      local_current_version (seed_versions now prev) + 1"
    by (simp add: finalize_document_def Let_def metadata_int_def update_conv')
  then show ?thesis
    using local_current_version_nonneg [of "seed_versions now prev"]
    by (simp add: local_current_version_meta)
qed

lemma seed_versions_wf: "wf_document d \<Longrightarrow> wf_document (seed_versions now d)"
  by (auto simp: seed_versions_def wf_document_def local_current_version_def metadata_int_def update_conv')

lemma finalize_document_wf:
  assumes "wf_document prev"
  shows "wf_document (finalize_document now p sm data prev)"
proof -
  let ?d = "seed_versions now prev"
  have wf: "wf_document ?d" by (rule seed_versions_wf [OF assms])
  have keys: "fst ` set (vd_versions (finalize_document now p sm data prev)) =
      insert (local_current_version ?d + 1) (fst ` set (vd_versions ?d))"
    by (simp add: finalize_document_def Let_def dom_update)
  show ?thesis
    unfolding wf_document_def finalized_current keys
    using wf local_current_version_nonneg [of ?d]
    by (auto simp: wf_document_def finalize_document_def Let_def distinct_update update_conv')
qed

text \<open>Finalising keeps the data of every version the document has, seeded or stored.\<close>

lemma finalize_keeps_history:
  assumes "wf_document prev" and "map_of (implied_versions prev) k = Some item"
  shows "\<exists>item'. map_of (vd_versions (finalize_document now p sm data prev)) k = Some item' \<and>
    vv_data item' = vv_data item"
proof -
  let ?d = "seed_versions now prev"
  from assms(2) obtain item' where i: "map_of (vd_versions ?d) k = Some item'" "vv_data item' = vv_data item"
    by (auto simp: implied_versions_def seed_versions_def split: if_splits)
  then have "k \<in> fst ` set (vd_versions ?d)" by (force dest: map_of_SomeD)
  with seed_versions_wf [OF assms(1)] have "k \<noteq> local_current_version ?d + 1"
    by (fastforce simp: wf_document_def)
  with i show ?thesis by (simp add: finalize_document_def Let_def update_conv')
qed

section \<open>Path separation\<close>

lemma split_vault_path:
  assumes "CHR ''/'' \<notin> set a" and "CHR ''/'' \<notin> set b"
  shows "split_on CHR ''/'' (a @ ''/'' @ b) = [a, b]"
  using split_on_append [OF assms(1), of b] split_on_single [OF assms(2)] by simp

lemma split_components:
  "list_all (\<lambda>c. CHR ''/'' \<notin> set c) (c # cs) \<Longrightarrow> split_on CHR ''/'' (join_with ''/'' (c # cs)) = c # cs"
  by (induction cs arbitrary: c) (auto simp: split_on_single split_on_append)

lemma path_to_file_components:
  assumes "list_all plain_component (c # cs)"
  shows "path_to_file (''secret/'' @ join_with ''/'' (c # cs)) =
    butlast (c # cs) @ [last (c # cs) @ ''.json'']"
proof -
  have "list_all (\<lambda>c. CHR ''/'' \<notin> set c) (c # cs)"
    using assms by (auto simp: plain_component_def list_all_iff)
  then have "join_path [join_with ''/'' (c # cs)] = c # cs"
    using assms clean_into_plain [of "c # cs" "[]"] by (simp add: join_path_def split_components)
  then show ?thesis
    by (simp add: path_to_file_def trim_prefix_def Let_def)
qed

lemma plain_literals: "plain_component ''aods''" "plain_component ''apps''" "plain_component ''staging''"
  "plain_component ''prod''" "plain_component ''repository''" "plain_component ''registry''"
  by (simp_all add: plain_component_def)

lemma staging_file:
  "plain_component rid \<Longrightarrow>
    path_to_file (build_vault_staging_path rid) = [''aods'', ''staging'', rid @ ''.json'']"
  using path_to_file_components [of "''aods''" "[''staging'', rid]"]
  by (simp add: build_vault_staging_path_def vault_staging_root_path_def plain_literals)

lemma secret_file:
  assumes "plain_component pid" and "plain_component app"
  shows "path_to_file (build_vault_final_path pid app) = [''aods'', ''apps'', pid, app, ''prod.json'']"
    and "path_to_file (build_vault_repository_token_path pid app) =
      [''aods'', ''apps'', pid, app, ''repository.json'']"
    and "path_to_file (build_vault_registry_credential_path pid app) =
      [''aods'', ''apps'', pid, app, ''registry.json'']"
  using assms path_to_file_components [of "''aods''" "[''apps'', pid, app, ''prod'']"]
    path_to_file_components [of "''aods''" "[''apps'', pid, app, ''repository'']"]
    path_to_file_components [of "''aods''" "[''apps'', pid, app, ''registry'']"]
  by (simp_all add: build_vault_final_path_def build_vault_repository_token_path_def
    build_vault_registry_credential_path_def plain_literals)

section \<open>Staging cleanup\<close>

lemma cleanup_loop_read:
  assumes "distinct ns"
  shows "fs_read (snd (cleanup_loop mtime cutoff ns fs)) q =
    (case fs_read fs q of None \<Rightarrow> None
     | Some d \<Rightarrow> if (\<exists>n \<in> set ns. q = staging_dir @ [n] \<and> suffix ''.json'' n) \<and> is_staging_stale mtime q d cutoff
         then None else Some d)"
  using assms
proof (induction mtime cutoff ns fs rule: cleanup_loop.induct)
  case (1 mtime cutoff fs)
  then show ?case by (auto split: option.splits)
next
  case (2 mtime cutoff n ns fs)
  show ?case
  proof (cases "fs_read fs (staging_dir @ [n])")
    case None
    with 2 show ?thesis by (auto simp: Let_def split: option.splits)
  next
    case (Some d)
    with 2 show ?thesis
      by (auto simp: Let_def tree.read_back split: option.splits prod.splits)
  qed
qed

section \<open>Properties\<close>

text \<open>
  C2: staging a secret under a request identifier and finalising it publishes the data at the
  application's secret path, leaves nothing at the staging path, and changes what no other secret
  path reads.
\<close>

theorem secret_update_publishes:
  fixes now :: int and m :: "(string \<times> string) list" and d :: secret_data and v :: vault
  assumes "plain_component rid" and "plain_component pid" and "plain_component app"
    and "trim_space (vault_root v) \<noteq> []"
  defines "p \<equiv> build_vault_final_path pid app"
  defines "v' \<equiv> snd (bindS (vault_stage_at now rid p m d) (\<lambda>st. vault_finalize now st d) v)"
  shows "vault_get p v' = Inr d \<and> vault_get (build_vault_staging_path rid) v' = Inr [] \<and>
    (\<forall>q. path_to_file q = path_to_file p \<or> path_to_file q = path_to_file (build_vault_staging_path rid) \<or>
      vault_get q v' = vault_get q v)"
proof -
  have pub: "v' = snd (local_vault.publish now rid p m d v)"
    by (simp add: v'_def local_vault.publish_def)
  have ne: "path_to_file (build_vault_staging_path rid) \<noteq> path_to_file p"
    using assms by (simp add: staging_file secret_file(1))
  have ready: "vault_ready v" using assms(4) by (simp add: vault_ready_def)
  have "vault_get (build_vault_staging_path rid) v' = Inr []"
    using ready ne unfolding v'_def
    by (simp add: bindS_def vault_stage_at_def vault_finalize_def vault_get_def vault_ready_def Let_def
        local_document_laws)
  then show ?thesis
    using local_vault.publish_get [OF ready ne] local_vault.publish_frame unfolding pub by metis
qed

theorem secret_update_publishes_witness:
  "vault_get ''secret/aods/apps/a/b/prod''
     (snd (bindS (vault_stage_at 7 ''r1'' (build_vault_final_path ''a'' ''b'') [] [(''K'', ''v'')])
       (\<lambda>st. vault_finalize 7 st [(''K'', ''v'')]) \<lparr>vault_root = ''/v'', vault_files = []\<rparr>)) =
   Inr [(''K'', ''v'')]"
proof -
  have r: "trim_space (vault_root \<lparr>vault_root = ''/v'', vault_files = []\<rparr>) \<noteq> []" by code_simp
  have "plain_component ''r1''" "plain_component ''a''" "plain_component ''b''"
    by (simp_all add: plain_component_def)
  from secret_update_publishes [OF this r, of 7 "[]" "[(''K'', ''v'')]"] show ?thesis
    by (simp add: build_vault_final_path_def)
qed

text \<open>
  C4: finalising a staged secret at a path that holds a well-formed document adds the next version
  number with the new data, keeps the data of every version that could be read before, and leaves a
  well-formed document.
\<close>

theorem secret_history_grows:
  fixes now :: int and d :: secret_data and v :: vault
  assumes "read_local_document v (final_path st) = Some prev" and "wf_document prev"
    and "path_to_file (staging_path st) \<noteq> path_to_file (final_path st)"
  defines "v' \<equiv> snd (vault_finalize now st d v)"
  shows "(\<exists>doc. read_local_document v' (final_path st) = Some doc \<and> wf_document doc \<and> vd_data doc = d \<and>
      local_current_version doc = local_current_version (seed_versions now prev) + 1) \<and>
    (\<forall>k data s. vault_get_version (final_path st) k v = Inr (data, s) \<longrightarrow>
      (\<exists>s'. vault_get_version (final_path st) k v' = Inr (data, s')))"
proof -
  obtain sm where doc: "read_local_document v' (final_path st) =
      Some (finalize_document now (final_path st) sm d prev)" (is "_ = Some ?doc")
    using assms(1,3) unfolding v'_def by (auto simp: vault_finalize_def Let_def local_document_laws)
  have seeded: "implied_versions ?doc = vd_versions ?doc"
    by (auto simp: implied_versions_def finalize_document_def Let_def update_conv')
  have kept: "\<exists>s'. vault_get_version (final_path st) k v' = Inr (data, s')"
    if "vault_get_version (final_path st) k v = Inr (data, s)" for k data s
  proof -
    from that assms(1) obtain item where k: "0 < k" "map_of (implied_versions prev) k = Some item"
      "data = vv_data item"
      by (auto simp: vault_get_version_def split: if_splits option.splits)
    from finalize_keeps_history [OF assms(2) k(2)] obtain item' where
      "map_of (vd_versions ?doc) k = Some item'" "vv_data item' = vv_data item" by blast
    with k doc seeded show ?thesis by (simp add: vault_get_version_def)
  qed
  have "vd_data ?doc = d" by (simp add: finalize_document_def Let_def)
  with doc finalize_document_wf [OF assms(2)] finalized_current kept show ?thesis by blast
qed

theorem secret_history_grows_witness:
  "\<exists>s'. vault_get_version ''secret/a/b'' 1
     (snd (vault_finalize 9 \<lparr>staging_path = ''secret/aods/staging/r'', final_path = ''secret/a/b''\<rparr> [(''K'', ''w'')]
       \<lparr>vault_root = ''/v'', vault_files = [([''a'', ''b.json''],
         \<lparr>vd_path = ''secret/a/b'', vd_data = [(''K'', ''v'')], vd_metadata = [], vd_versions = []\<rparr>)]\<rparr>)) =
   Inr ([(''K'', ''v'')], s')"
proof -
  let ?prev = "\<lparr>vd_path = ''secret/a/b'', vd_data = [(''K'', ''v'')], vd_metadata = [], vd_versions = []\<rparr>"
  let ?v = "\<lparr>vault_root = ''/v'', vault_files = [([''a'', ''b.json''], ?prev)]\<rparr>"
  let ?st = "\<lparr>staging_path = ''secret/aods/staging/r'', final_path = ''secret/a/b''\<rparr>"
  have 1: "read_local_document ?v (final_path ?st) = Some ?prev" by code_simp
  have 2: "wf_document ?prev" by (simp add: wf_document_def)
  have 3: "path_to_file (staging_path ?st) \<noteq> path_to_file (final_path ?st)" by code_simp
  have 4: "vault_get_version (final_path ?st) 1 ?v =
      Inr ([(''K'', ''v'')], snd (projr (vault_get_version (final_path ?st) 1 ?v)))" by code_simp
  from secret_history_grows [OF 1 2 3, of 9 "[(''K'', ''w'')]"] 4 show ?thesis by fastforce
qed

text \<open>
  C5: the staging cleanup removes exactly the JSON files of the staging directory whose document is
  a pending commit created no later than the cutoff; every other file of the store keeps its
  content.
\<close>

theorem staging_cleanup_exact:
  fixes mtime :: "path \<Rightarrow> int" and cutoff :: int and v :: vault
  assumes "trim_space (vault_root v) \<noteq> []"
  defines "v' \<equiv> snd (vault_cleanup_stale mtime cutoff v)"
  shows "fs_read (vault_files v') q =
    (case fs_read (vault_files v) q of None \<Rightarrow> None
     | Some d \<Rightarrow> if (\<exists>n. q = staging_dir @ [n] \<and> suffix ''.json'' n) \<and> is_staging_stale mtime q d cutoff
         then None else Some d)"
proof -
  let ?ns = "fs_files_in staging_dir (vault_files v)"
  have "distinct ?ns" by (simp add: fs_files_in_def)
  from cleanup_loop_read [OF this, of mtime cutoff "vault_files v" q]
  show ?thesis
    using assms(1) unfolding v'_def
    by (auto simp: vault_cleanup_stale_def fs_files_in_iff split: prod.splits option.splits)
qed

theorem staging_cleanup_exact_witness:
  "fs_read (vault_files (snd (vault_cleanup_stale (\<lambda>_. 0) 10
      \<lparr>vault_root = ''/v'', vault_files = [([''aods'', ''staging'', ''r.json''],
         \<lparr>vd_path = [], vd_data = [], vd_metadata = [(''createdAt'', JTime 10)], vd_versions = []\<rparr>)]\<rparr>)))
    [''aods'', ''staging'', ''r.json''] = None"
proof -
  let ?v = "\<lparr>vault_root = ''/v'', vault_files = [([''aods'', ''staging'', ''r.json''],
         \<lparr>vd_path = [], vd_data = [], vd_metadata = [(''createdAt'', JTime 10)], vd_versions = []\<rparr>)]\<rparr>"
  have r: "trim_space (vault_root ?v) \<noteq> []" by code_simp
  have d: "staging_dir = [''aods'', ''staging'']" by code_simp
  have s: "is_staging_stale (\<lambda>_. 0) [''aods'', ''staging'', ''r.json'']
     \<lparr>vd_path = [], vd_data = [], vd_metadata = [(''createdAt'', JTime 10)], vd_versions = []\<rparr> 10" by code_simp
  have "suffix ''.json'' ''r.json''" by code_simp
  with staging_cleanup_exact [OF r, of "\<lambda>_. 0" 10 "[''aods'', ''staging'', ''r.json'']"] d s
  show ?thesis by (simp add: fs_read_def)
qed

end
