(* ===== verification/RepoSource.thy ===== *)
theory RepoSource
  imports PollTracker
begin

text \<open>
  The pure part of the repository poller (application/poller.go): which repository an application
  follows, where the descriptor lies on GitHub, the checks of a descriptor, the choice of a service,
  and the decision to roll back. The JSON and YAML decoders are parameters of the definitions that
  use them.
\<close>

section \<open>The repository of an application\<close>

definition repository_for_app :: "app_record \<Rightarrow> repository list \<Rightarrow> repository option" where
  "repository_for_app app repos =
    (if trim_space (ar_repository_url app) \<noteq> [] then
       Some \<lparr>repo_id = ar_repository_id app, repo_name = ar_name app, repo_url = ar_repository_url app,
         repo_description = [], repo_branch = ar_repository_branch app,
         repo_auth_path = ar_repository_token_path app, repo_config_file = ar_config_path app\<rparr>
     else if trim_space (ar_repository_id app) = [] then None
     else find (\<lambda>r. repo_id r = ar_repository_id app) (rev repos))"

definition parse_github_repository :: "string \<Rightarrow> (string \<times> string) option" where
  "parse_github_repository url =
    (let t = trim_suffix ''.git'' (trim_prefix ''git@'' (trim_prefix ''http://'' (trim_prefix ''https://'' (trim_space url))));
         parts = split_on CHR ''/'' (map (\<lambda>c. if c = CHR '':'' then CHR ''/'' else c) t)
     in if length parts < 3 \<or> parts ! 0 \<noteq> ''github.com'' then None else Some (parts ! 1, parts ! 2))"

text \<open>url.QueryEscape.\<close>

definition upper_hex :: "nat \<Rightarrow> char" where
  "upper_hex n = (if n < 10 then char_of (48 + n) else char_of (55 + n))"

definition query_plain :: "char \<Rightarrow> bool" where
  "query_plain c \<longleftrightarrow> in_range 0x61 0x7A c \<or> in_range 0x41 0x5A c \<or> in_range 0x30 0x39 c \<or>
    c \<in> {CHR ''-'', CHR ''_'', CHR ''.'', CHR ''~''}"

definition query_escape :: "string \<Rightarrow> string" where
  "query_escape s = concat (map (\<lambda>c.
     if query_plain c then [c] else if c = CHR '' '' then ''+''
     else [CHR ''%'', upper_hex (of_char c div 16), upper_hex (of_char c mod 16)]) s)"

record file_target =
  ft_url :: string
  ft_contents :: bool

definition resolve_file_target ::
  "repository \<Rightarrow> string \<Rightarrow> string \<Rightarrow> string \<Rightarrow> (go_error, file_target) result" where
  "resolve_file_target r relative_path default_path token =
    (case parse_github_repository (repo_url r) of
       None \<Rightarrow> Inl (OtherError (''could not determine repository location for '' @ repo_url r))
     | Some (owner, name) \<Rightarrow>
         let given = trim_prefix ''/'' (trim_space relative_path);
             path = (if given = [] then trim_prefix ''/'' (trim_space default_path) else given);
             branch = (if trim_space (repo_branch r) = [] then ''main'' else trim_space (repo_branch r))
         in if path = [] then Inl (OtherError (''repository path is required for '' @ repo_url r))
            else if trim_space token \<noteq> [] then
              Inr \<lparr>ft_url = ''https://api.github.com/repos/'' @ owner @ ''/'' @ name @ ''/contents/'' @ path @
                ''?ref='' @ query_escape branch, ft_contents = True\<rparr>
            else Inr \<lparr>ft_url = ''https://raw.githubusercontent.com/'' @ owner @ ''/'' @ name @ ''/'' @ branch @ ''/'' @ path,
                ft_contents = False\<rparr>)"

text \<open>
  The request of fetchRemoteFile: the answer of the HTTP client to the target and the token is a
  parameter, the status and the body of the response.
\<close>

definition fetch_remote_file ::
  "(file_target \<Rightarrow> string \<Rightarrow> (string, int \<times> string) result) \<Rightarrow> file_target \<Rightarrow> string \<Rightarrow> (go_error, string) result" where
  "fetch_remote_file client target token =
    (case client target (if trim_space token = [] then [] else token) of
       Inl e \<Rightarrow> Inl (OtherError e)
     | Inr (status, body) \<Rightarrow> if status \<noteq> 200 then Inl (OtherError (''HTTP status '' @ show_int status)) else Inr body)"

definition token_keys :: "string list" where
  "token_keys = [''token'', ''pat'', ''github_pat'', ''githubPat'', ''github_token'', ''githubToken'',
    ''access_token'', ''accessToken'']"

definition resolve_repository_token :: "(string \<times> string) list \<Rightarrow> string" where
  "resolve_repository_token values =
    (let value = (\<lambda>k. trim_space (case map_of values k of Some v \<Rightarrow> v | None \<Rightarrow> [])) in
     case find (\<lambda>k. value k \<noteq> []) token_keys of Some k \<Rightarrow> value k | None \<Rightarrow> [])"

section \<open>Descriptors\<close>

record descriptor_service =
  ds_id :: string
  ds_image :: string
  ds_port :: int
  ds_replicas :: int
  ds_strategy :: string

definition check_service :: "descriptor_service \<Rightarrow> (go_error, unit) result" where
  "check_service d =
    (if \<not> slug_pattern (trim_space (ds_id d)) then Inl (OtherError ''serviceId must be a DNS-1123 style slug'')
     else if trim_space (ds_image d) = [] then Inl (OtherError (''image is required for service '' @ ds_id d))
     else if ds_port d < 1 \<or> 65535 < ds_port d then
       Inl (OtherError (''port must be between 1 and 65535 for service '' @ ds_id d))
     else if ds_replicas d < 1 then Inl (OtherError (''replicas must be at least 1 for service '' @ ds_id d))
     else Inr ())"

fun check_services :: "descriptor_service list \<Rightarrow> (go_error, unit) result" where
  "check_services [] = Inr ()"
| "check_services (d # ds) = bindR (check_service d) (\<lambda>_. check_services ds)"

definition parse_repository_descriptor ::
  "(string \<Rightarrow> (string, descriptor_service list) result) \<Rightarrow> string \<Rightarrow> (go_error, descriptor_service list) result" where
  "parse_repository_descriptor decode body =
    (case decode body of
       Inl e \<Rightarrow> Inl (OtherError e)
     | Inr ds \<Rightarrow>
         if ds = [] then Inl (OtherError ''services is required'')
         else bindR (check_services ds) (\<lambda>_. Inr ds))"

text \<open>The service that the application names, else the one with its name, else the only one.\<close>

definition resolve_service :: "string \<Rightarrow> string \<Rightarrow> descriptor_service list \<Rightarrow> descriptor_service option" where
  "resolve_service name service_id ds =
    (let target = (if trim_space service_id = [] then trim_space name else trim_space service_id);
         only = (case ds of [d] \<Rightarrow> Some d | _ \<Rightarrow> None)
     in if target = [] then only
        else (case find (\<lambda>d. ds_id d = target) ds of Some d \<Rightarrow> Some d | None \<Rightarrow> only))"

record desired_state =
  de_service :: string
  de_image :: string
  de_port :: int
  de_replicas :: int

section \<open>Metrics\<close>

record metric_point =
  mp_timestamp :: int
  mp_value :: "f64 option"

record metric_series =
  ms_key :: string
  ms_label :: string
  ms_unit :: string
  ms_points :: "metric_point list"

fun latest_metric_value :: "metric_series list \<Rightarrow> string \<Rightarrow> f64 option" where
  "latest_metric_value [] key = None"
| "latest_metric_value (m # ms) key =
    (if ms_key m \<noteq> key then latest_metric_value ms key
     else (case find (\<lambda>p. mp_value p \<noteq> None) (rev (ms_points m)) of
         Some p \<Rightarrow> mp_value p
       | None \<Rightarrow> latest_metric_value ms key))"

text \<open>The verb \<open>%.<d>f\<close> of fmt: the exact value, rounded half to even at \<open>d\<close> decimals.\<close>

definition round_div :: "nat \<Rightarrow> nat \<Rightarrow> nat" where
  "round_div p q =
    (let k = p div q; r = p mod q in
     if 2 * r < q \<or> (2 * r = q \<and> even k) then k else k + 1)"

definition scaled_abs :: "nat \<Rightarrow> int \<Rightarrow> int \<Rightarrow> nat" where
  "scaled_abs d m e =
    (let p = nat \<bar>m\<bar> * 10 ^ d in
     if 0 \<le> e then p * 2 ^ nat e else round_div p (2 ^ nat (- e)))"

definition pad_zeros :: "nat \<Rightarrow> string \<Rightarrow> string" where
  "pad_zeros n s = replicate (n - length s) CHR ''0'' @ s"

definition show_fixed :: "nat \<Rightarrow> f64 \<Rightarrow> string" where
  "show_fixed d x =
    (case x of NaN \<Rightarrow> ''NaN'' | NegInf \<Rightarrow> ''-Inf'' | PosInf \<Rightarrow> ''+Inf''
     | Finite m e \<Rightarrow>
         let k = scaled_abs d m e;
             body = show_nat (k div 10 ^ d) @
               (if d = 0 then [] else ''.'' @ pad_zeros d (show_nat (k mod 10 ^ d)))
         in if m < 0 then ''-'' @ body else body)"

section \<open>Automatic rollback\<close>

record rollback_decision =
  rb_message :: string
  rb_metadata :: jmap

definition some_entry :: "string \<Rightarrow> f64 option \<Rightarrow> jmap" where
  "some_entry k v = (case v of Some x \<Rightarrow> [(k, JFloat x)] | None \<Rightarrow> [])"

definition exceeds :: "f64 option \<Rightarrow> f64 option \<Rightarrow> bool" where
  "exceeds v limit \<longleftrightarrow> (case (v, limit) of (Some x, Some l) \<Rightarrow> f64_less l x | _ \<Rightarrow> False)"

definition latency_limit :: "rollback_policy \<Rightarrow> f64 option" where
  "latency_limit p = map_option (\<lambda>i. Finite i 0) (rp_max_latency p)"

definition error_rate_message :: "f64 \<Rightarrow> f64 \<Rightarrow> string" where
  "error_rate_message v limit =
    msg_error_rate_a @ show_fixed 2 v @ ''%'' @ msg_error_rate_b @ show_fixed 2 limit @ ''%'' @ msg_exceeded"

definition latency_message :: "f64 \<Rightarrow> int \<Rightarrow> string" where
  "latency_message v limit =
    msg_latency @ show_fixed 0 v @ ''ms'' @ msg_error_rate_b @ show_int limit @ ''ms'' @ msg_exceeded"

definition evaluate_auto_rollback :: "rollback_policy \<Rightarrow> metric_series list \<Rightarrow> rollback_decision option" where
  "evaluate_auto_rollback p metrics =
    (let request_rate = latest_metric_value metrics ''request_rate'';
         error_rate = latest_metric_value metrics ''error_rate'';
         latency = latest_metric_value metrics ''latency_p95'';
         quiet = (case rp_min_request_rate p of
             Some m \<Rightarrow> (case request_rate of None \<Rightarrow> True | Some r \<Rightarrow> f64_less r m) | None \<Rightarrow> False);
         errors = exceeds error_rate (rp_max_error_rate p);
         slow = exceeds latency (latency_limit p);
         breaches = (if errors then [error_rate_message (the error_rate) (the (rp_max_error_rate p))] else []) @
           (if slow then [latency_message (the latency) (the (rp_max_latency p))] else [])
     in if \<not> rp_enabled p \<or> quiet \<or> breaches = [] then None
        else Some \<lparr>rb_message = join_with '' '' breaches,
          rb_metadata = some_entry ''requestRate'' request_rate @ some_entry ''errorRate'' error_rate @
            some_entry ''latencyP95Ms'' latency @
            (if errors then some_entry ''maxErrorRate'' (rp_max_error_rate p) else []) @
            (if slow then [(''maxLatencyP95Ms'', JInt (the (rp_max_latency p)))] else [])\<rparr>)"

text \<open>The newest deployment and the newest older one of its environment with another tag.\<close>

definition select_rollback_target ::
  "deployment_record list \<Rightarrow> string \<Rightarrow> (deployment_record \<times> deployment_record) option" where
  "select_rollback_target ds fallback_environment =
    (case ds of
       latest # c # cs \<Rightarrow>
         let environment = (if trim_space (dr_environment latest) = [] then trim_space fallback_environment
               else trim_space (dr_environment latest));
             fits = (\<lambda>d. \<not> (environment \<noteq> [] \<and> trim_space (dr_environment d) \<noteq> [] \<and>
                 trim_space (dr_environment d) \<noteq> environment) \<and>
               dr_image_tag d \<noteq> [] \<and> dr_image_tag d \<noteq> dr_image_tag latest)
         in map_option (\<lambda>d. (latest, d)) (find fits (c # cs))
     | _ \<Rightarrow> None)"

definition rollback_already_triggered :: "app_event list \<Rightarrow> string \<Rightarrow> bool" where
  "rollback_already_triggered events deployment_id \<longleftrightarrow>
    list_ex (\<lambda>e. ev_type e = ''AutoRollbackTriggered'' \<and> ev_metadata e \<noteq> [] \<and>
      (case map_of (ev_metadata e) ''sourceDeploymentId'' of Some (JStr s) \<Rightarrow> s | _ \<Rightarrow> []) = deployment_id) events"

end
