(* ===== verification/ServiceTypes.thy ===== *)
theory ServiceTypes
  imports ProjectService DeployQueue RepoSource ManifestStore
begin

text \<open>
  The application service (application/service.go): its fields, its state and the values it returns.
  The state is what the service itself changes: the manifest repository, the secret store, the
  deployment queue and the poll tracker. Everything it asks from outside (the clock, the cluster, the
  metrics server, the image registry, GitHub) is a function of the number of questions asked so far,
  so that every question may be answered differently. A field that may be nil is an option or a
  boolean.
\<close>

section \<open>Values\<close>

record rollout_info =
  ri_phase :: string
  ri_step :: "int option"
  ri_weight :: "int option"
  ri_stable :: string
  ri_canary :: string
  ri_message :: string

record app_summary =
  as_id :: string
  as_name :: string
  as_image :: string
  as_strategy :: string
  as_sync :: sync_status
  as_resources :: resource_requirements
  as_mesh :: bool
  as_load_balancer :: bool

record application =
  ap_id :: string
  ap_project_id :: string
  ap_name :: string
  ap_description :: string
  ap_image :: string
  ap_service_port :: int
  ap_replicas :: int
  ap_strategy :: string
  ap_environment :: string
  ap_sync :: sync_status
  ap_created_at :: int
  ap_updated_at :: int
  ap_repository_id :: string
  ap_repository_url :: string
  ap_repository_branch :: string
  ap_repository_service_id :: string
  ap_config_path :: string
  ap_poll_interval :: int
  ap_resources :: resource_requirements
  ap_mesh :: bool
  ap_load_balancer :: bool

record deployment_response =
  dp_id :: string
  dp_application_id :: string
  dp_image_tag :: string
  dp_environment :: string
  dp_status :: string

record exposure_port =
  xp_name :: string
  xp_protocol :: string
  xp_port :: int
  xp_target_port :: string
  xp_node_port :: int

record exposure_event =
  xe_type :: string
  xe_reason :: string
  xe_message :: string
  xe_observed_at :: int

datatype exposure_status = ExposureInternal | ExposurePending | ExposureProvisioning | ExposureReady | ExposureError

record exposure_info =
  xi_status :: exposure_status
  xi_message :: string
  xi_service_type :: string
  xi_addresses :: "string list"
  xi_ports :: "exposure_port list"
  xi_last_event :: "exposure_event option"
  xi_observed_at :: int

record resource_status =
  rt_cpu_usage :: "f64 option"
  rt_cpu_request :: "f64 option"
  rt_cpu_limit :: "f64 option"
  rt_cpu_request_use :: "f64 option"
  rt_cpu_limit_use :: "f64 option"
  rt_memory_usage :: "f64 option"
  rt_memory_request :: "f64 option"
  rt_memory_limit :: "f64 option"
  rt_memory_request_use :: "f64 option"
  rt_memory_limit_use :: "f64 option"

record log_container =
  lo_name :: string
  lo_ready :: bool
  lo_restarts :: int
  lo_default :: bool
  lo_resources :: "resource_status option"

record log_target =
  lt_pod :: string
  lt_phase :: string
  lt_containers :: "log_container list"

record log_stream =
  ls_pod :: string
  ls_container :: string
  ls_phase :: string
  ls_ready :: bool
  ls_restarts :: int
  ls_content :: string

text \<open>A failed batch read of metrics names the applications that failed, or none.\<close>

record batch_error =
  be_error :: go_error
  be_failed :: "string list"

section \<open>The service and its state\<close>

record status_reader =
  st_read :: "nat \<Rightarrow> app_record \<Rightarrow> (go_error, sync_info) result"
  st_many :: "(nat \<Rightarrow> app_record list \<Rightarrow> (go_error, (string \<times> sync_info) list) result) option"

record metrics_reader =
  mr_read :: "nat \<Rightarrow> app_record \<Rightarrow> int \<Rightarrow> int \<Rightarrow> (go_error, metric_series list) result"
  mr_many :: "(nat \<Rightarrow> app_record list \<Rightarrow> int \<Rightarrow> int \<Rightarrow>
    batch_error option \<times> (string \<times> metric_series list) list) option"

record logs_reader =
  lr_targets :: "nat \<Rightarrow> app_record \<Rightarrow> (go_error, log_target list) result"
  lr_read :: "nat \<Rightarrow> app_record \<Rightarrow> int \<Rightarrow> (go_error, log_stream list) result"
  lr_stream :: "nat \<Rightarrow> app_record \<Rightarrow> string \<Rightarrow> string \<Rightarrow> int \<Rightarrow> (go_error, unit) result"

record rollout_controller =
  rc_get :: "nat \<Rightarrow> app_record \<Rightarrow> (go_error, rollout_info) result"
  rc_promote :: "nat \<Rightarrow> app_record \<Rightarrow> bool \<Rightarrow> (go_error, rollout_info) result"
  rc_abort :: "nat \<Rightarrow> app_record \<Rightarrow> (go_error, rollout_info) result"

record app_service =
  fs_projects :: project_service
  fs_store :: store_config
  fs_clock :: "nat \<Rightarrow> int"
  fs_secrets :: bool
  fs_queue :: bool
  fs_lock_key :: string
  fs_max_attempts :: int
  fs_tracker :: bool
  fs_images :: "(nat \<Rightarrow> registry_client) option"
  fs_status :: "status_reader option"
  fs_metrics :: "metrics_reader option"
  fs_network :: "(nat \<Rightarrow> app_record \<Rightarrow> (go_error, exposure_info) result) option"
  fs_logs :: "logs_reader option"
  fs_rollouts :: "rollout_controller option"
  fs_http :: "nat \<Rightarrow> file_target \<Rightarrow> string \<Rightarrow> (string, int \<times> string) result"
  fs_json :: "string \<Rightarrow> (string, descriptor_service list) result"
  fs_yaml :: "string \<Rightarrow> (string, string) result"

record server = platform +
  sr_queue :: queue
  sr_polls :: poll_tracker
  sr_asked :: nat

type_synonym 'a handler = "(server, go_error, 'a) action"

definition ask :: "(nat \<Rightarrow> 'a) \<Rightarrow> 'a handler" where
  "ask f s = (Inr (f (sr_asked s)), s\<lparr>sr_asked := Suc (sr_asked s)\<rparr>)"

definition now_utc :: "app_service \<Rightarrow> int handler" where
  "now_utc sv = ask (fs_clock sv)"

definition on_queue :: "(queue, go_error, 'a) action \<Rightarrow> 'a handler" where
  "on_queue m s = (let (r, q) = m (sr_queue s) in (r, s\<lparr>sr_queue := q\<rparr>))"

definition on_polls :: "app_service \<Rightarrow> (poll_tracker \<Rightarrow> poll_tracker) \<Rightarrow> unit handler" where
  "on_polls sv f s = (Inr (), if fs_tracker sv then s\<lparr>sr_polls := f (sr_polls s)\<rparr> else s)"

text \<open>The blank identifier: the error of an action is dropped, its effect stays.\<close>

definition ignoring :: "'a handler \<Rightarrow> unit handler" where
  "ignoring m s = (Inr (), snd (m s))"

text \<open>A result of a call with its error in hand.\<close>

definition tryS :: "'a handler \<Rightarrow> (go_error, 'a) result handler" where
  "tryS m s = (let (r, s') = m s in (Inr r, s'))"

section \<open>What a handler leaves unchanged\<close>

text \<open>
  A handler keeps a part of the state when no run of it changes that part. These are the invariants
  that the lemmas on handlers are composed of.
\<close>

definition keeps :: "(server \<Rightarrow> 'p) \<Rightarrow> 'a handler \<Rightarrow> bool" where
  "keeps part m \<longleftrightarrow> (\<forall>s. part (snd (m s)) = part s)"

named_theorems keeps_intros \<open>handlers that keep a part of the state\<close>

lemma keepsD: "keeps part m \<Longrightarrow> part (snd (m s)) = part s"
  by (simp add: keeps_def)

lemma keeps_bindS [keeps_intros]:
  assumes "keeps part m" and "\<And>x. keeps part (f x)"
  shows "keeps part (bindS m f)"
  unfolding keeps_def
proof
  fix s
  obtain r s' where m: "m s = (r, s')" by (cases "m s")
  then have "part s' = part s" using keepsD [OF assms(1), of s] by simp
  then show "part (snd (bindS m f s)) = part s"
    using m keepsD [OF assms(2)] by (cases r) (simp_all add: bindS_def)
qed

lemma keeps_basic [keeps_intros]:
  "keeps part (returnS x)" "keeps part (failS e)" "keeps part (liftR r)" "keeps part (readS g)"
  by (simp_all add: keeps_def action_defs)

lemma keeps_if [keeps_intros]: "keeps part m \<Longrightarrow> keeps part n \<Longrightarrow> keeps part (if b then m else n)"
  by simp

lemma keeps_option [keeps_intros]:
  "keeps part m \<Longrightarrow> (\<And>x. keeps part (f x)) \<Longrightarrow> keeps part (case x of None \<Rightarrow> m | Some y \<Rightarrow> f y)"
  by (cases x) simp_all

lemma keeps_sum [keeps_intros]:
  "(\<And>e. keeps part (g e)) \<Longrightarrow> (\<And>x. keeps part (f x)) \<Longrightarrow> keeps part (case r of Inl e \<Rightarrow> g e | Inr y \<Rightarrow> f y)"
  by (cases r) simp_all

lemma keeps_prod [keeps_intros]:
  "(\<And>x y. keeps part (f x y)) \<Longrightarrow> keeps part (case p of (x, y) \<Rightarrow> f x y)"
  by (cases p) simp

lemma keeps_ignoring [keeps_intros]: "keeps part m \<Longrightarrow> keeps part (ignoring m)"
  by (simp add: keeps_def ignoring_def)

lemma keeps_tryS [keeps_intros]: "keeps part m \<Longrightarrow> keeps part (tryS m)"
  by (simp add: keeps_def tryS_def split: prod.splits) (metis snd_conv)

lemma keeps_ask [keeps_intros]:
  "keeps pf_repo (ask f)" "keeps pf_vault (ask f)" "keeps sr_queue (ask f)" "keeps sr_polls (ask f)"
  "keeps pf_repo (now_utc sv)" "keeps pf_vault (now_utc sv)" "keeps sr_queue (now_utc sv)" "keeps sr_polls (now_utc sv)"
  by (simp_all add: keeps_def ask_def now_utc_def)

lemma keeps_on_repo [keeps_intros]:
  "keeps pf_vault (on_repo m)" "keeps sr_queue (on_repo m)" "keeps sr_polls (on_repo m)"
  by (simp_all add: keeps_def on_repo_def split: prod.splits)

lemma keeps_on_vault [keeps_intros]:
  "keeps pf_repo (on_vault m)" "keeps sr_queue (on_vault m)" "keeps sr_polls (on_vault m)"
  by (simp_all add: keeps_def on_vault_def split: prod.splits)

lemma keeps_on_queue [keeps_intros]:
  "keeps pf_repo (on_queue m)" "keeps pf_vault (on_queue m)" "keeps sr_polls (on_queue m)"
  by (simp_all add: keeps_def on_queue_def split: prod.splits)

lemma keeps_on_polls [keeps_intros]:
  "keeps pf_repo (on_polls sv f)" "keeps pf_vault (on_polls sv f)" "keeps sr_queue (on_polls sv f)"
  by (simp_all add: keeps_def on_polls_def)

lemma try_run: "tryS m s = (Inr (fst (m s)), snd (m s))"
  by (simp add: tryS_def split: prod.splits)

lemma ignoring_run: "ignoring m s = (Inr (), snd (m s))"
  by (simp add: ignoring_def)

end
