(* ===== verification/AppService.thy ===== *)
theory AppService
  imports ServiceTypes
begin

text \<open>
  The handlers of the application service that create and change applications and start deployments
  (application/service.go). The flag \<open>bypass\<close> says that the context carries the change guard bypass.
\<close>

section \<open>Access\<close>

definition require_application ::
  "app_service \<Rightarrow> user \<Rightarrow> string \<Rightarrow> bool \<Rightarrow> server \<Rightarrow> (go_error, app_record) result" where
  "require_application sv u application_id deploy s =
    bindR (split_application_id application_id) (\<lambda>(pid, app).
    bindR (get_authorized (fs_projects sv) u pid (pf_repo s)) (\<lambda>a.
      if deploy \<and> \<not> can_deploy (ap_role a) then Inl ErrRequiresDeployer
      else get_application application_id (pf_repo s)))"

definition require_project_admin ::
  "app_service \<Rightarrow> user \<Rightarrow> string \<Rightarrow> server \<Rightarrow> (go_error, string \<times> authorized_project) result" where
  "require_project_admin sv u application_id s =
    bindR (split_application_id application_id) (\<lambda>(pid, app).
    bindR (get_authorized (fs_projects sv) u pid (pf_repo s)) (\<lambda>a.
      if \<not> can_admin (ap_role a) then Inl ErrRequiresAdmin else Inr (pid, a)))"

definition authorized :: "app_service \<Rightarrow> user \<Rightarrow> string \<Rightarrow> authorized_project handler" where
  "authorized sv u pid = readS (\<lambda>s. get_authorized (fs_projects sv) u pid (pf_repo s))"

section \<open>Events and sync status\<close>

definition event_id :: "int \<Rightarrow> string" where
  "event_id now = filter (\<lambda>c. c \<noteq> CHR ''-'') (''evt_'' @ show_int (now - unix_epoch))"

definition append_event :: "app_service \<Rightarrow> string \<Rightarrow> string \<Rightarrow> string \<Rightarrow> jmap \<Rightarrow> unit handler" where
  "append_event sv application_id event_type message metadata =
    bindS (now_utc sv) (\<lambda>t1. bindS (now_utc sv) (\<lambda>t2.
      on_repo (store_append_event application_id
        \<lparr>ev_id = event_id t1, ev_type = event_type, ev_message = message, ev_created_at = t2, ev_metadata = metadata\<rparr>)))"

definition note_event :: "app_service \<Rightarrow> string \<Rightarrow> string \<Rightarrow> string \<Rightarrow> jmap \<Rightarrow> unit handler" where
  "note_event sv application_id event_type message metadata =
    ignoring (append_event sv application_id event_type message metadata)"

definition unavailable_sync_info :: "app_service \<Rightarrow> go_error option \<Rightarrow> sync_info handler" where
  "unavailable_sync_info sv err =
    bindS (now_utc sv) (\<lambda>t. returnS \<lparr>si_status = SyncUnknown,
      si_message = (case err of None \<Rightarrow> ''Sync status was not read.''
        | Some e \<Rightarrow> ''Sync status is temporarily unavailable: '' @ error_text e), si_observed_at = t\<rparr>)"

definition read_sync_info_or_unknown :: "app_service \<Rightarrow> app_record \<Rightarrow> sync_info handler" where
  "read_sync_info_or_unknown sv r =
    (case fs_status sv of
       None \<Rightarrow> unavailable_sync_info sv (Some (OtherError ''sync status reader is not configured''))
     | Some reader \<Rightarrow>
         bindS (ask (\<lambda>n. st_read reader n r)) (\<lambda>answer.
           case answer of Inl e \<Rightarrow> unavailable_sync_info sv (Some e) | Inr info \<Rightarrow> returnS info))"

definition to_application :: "app_record \<Rightarrow> sync_info \<Rightarrow> application" where
  "to_application r info =
    \<lparr>ap_id = ar_id r, ap_project_id = ar_project_id r, ap_name = ar_name r, ap_description = ar_description r,
     ap_image = ar_image r, ap_service_port = ar_service_port r, ap_replicas = ar_replicas r,
     ap_strategy = normalize_strategy (ar_strategy r), ap_environment = ar_environment r,
     ap_sync = si_status info, ap_created_at = ar_created_at r, ap_updated_at = ar_updated_at r,
     ap_repository_id = ar_repository_id r, ap_repository_url = ar_repository_url r,
     ap_repository_branch = ar_repository_branch r, ap_repository_service_id = ar_repository_service_id r,
     ap_config_path = ar_config_path r, ap_poll_interval = ar_poll_interval r, ap_resources = ar_resources r,
     ap_mesh = ar_mesh r, ap_load_balancer = ar_load_balancer r\<rparr>"

section \<open>Listing\<close>

definition app_summary_of :: "app_record \<Rightarrow> sync_info \<Rightarrow> app_summary" where
  "app_summary_of r info =
    \<lparr>as_id = ar_id r, as_name = ar_name r, as_image = ar_image r,
     as_strategy = normalize_strategy (ar_strategy r), as_sync = si_status info,
     as_resources = ar_resources r, as_mesh = ar_mesh r, as_load_balancer = ar_load_balancer r\<rparr>"

fun summarize_applications ::
  "app_service \<Rightarrow> (go_error, (string \<times> sync_info) list) result \<Rightarrow> app_record list \<Rightarrow> app_summary list handler" where
  "summarize_applications sv known [] = returnS []"
| "summarize_applications sv known (r # rs) =
    bindS (unavailable_sync_info sv (case known of Inl e \<Rightarrow> Some e | Inr _ \<Rightarrow> None)) (\<lambda>unread.
    bindS (case known of
        Inl e \<Rightarrow> returnS unread
      | Inr m \<Rightarrow> (case map_of m (ar_id r) of Some info \<Rightarrow> returnS info | None \<Rightarrow> read_sync_info_or_unknown sv r))
      (\<lambda>info. bindS (summarize_applications sv known rs) (\<lambda>items. returnS (app_summary_of r info # items))))"

definition list_app_summaries :: "app_service \<Rightarrow> user \<Rightarrow> string \<Rightarrow> app_summary list handler" where
  "list_app_summaries sv u pid =
    bindS (authorized sv u pid) (\<lambda>_.
    bindS (readS (\<lambda>s. list_applications pid (pf_repo s))) (\<lambda>records.
    bindS (case fs_status sv of
        None \<Rightarrow> returnS (Inr [])
      | Some reader \<Rightarrow> (case st_many reader of None \<Rightarrow> returnS (Inr []) | Some many \<Rightarrow> ask (\<lambda>n. many n records)))
      (\<lambda>known. summarize_applications sv known records)))"

section \<open>Images\<close>

definition verify_image_reference :: "app_service \<Rightarrow> string \<Rightarrow> registry_credential option \<Rightarrow> unit handler" where
  "verify_image_reference sv img credential =
    (case fs_images sv of
       None \<Rightarrow> returnS ()
     | Some client \<Rightarrow> bindS (ask (\<lambda>n. registry_verify (client n) img credential)) liftR)"

definition resolve_record_registry_credential :: "app_service \<Rightarrow> app_record \<Rightarrow> registry_credential option handler" where
  "resolve_record_registry_credential sv r =
    (let path = trim_space (ar_registry_secret_path r) in
     if path = [] \<or> \<not> fs_secrets sv then returnS None
     else readS (\<lambda>s.
       case vault_get path (pf_vault s) of
         Inl e \<Rightarrow> Inl (Wrapped ''read registry credential'' e)
       | Inr values \<Rightarrow>
           (case registry_credential_from_secret values of
              Inl e \<Rightarrow> Inl (ValidationError ''stored registry credential is invalid''
                [(''field'', JStr ''registryToken''), (''path'', JStr path), (''error'', JStr e)])
            | Inr c \<Rightarrow> Inr c)))"

definition verify_deployment_image ::
  "app_service \<Rightarrow> app_record \<Rightarrow> string \<Rightarrow> string \<Rightarrow> string \<Rightarrow> unit handler" where
  "verify_deployment_image sv r img image_tag environment =
    bindS (resolve_record_registry_credential sv r) (\<lambda>credential.
    bindS (tryS (verify_image_reference sv img credential)) (\<lambda>verified.
      case verified of
        Inl e \<Rightarrow>
          bindS (case as_image_validation e of
              None \<Rightarrow> returnS ()
            | Some (code, message) \<Rightarrow> note_event sv (ar_id r) ''DeploymentPreflightFailed'' message
                [(''environment'', JStr environment), (''image'', JStr img), (''imageTag'', JStr image_tag),
                 (''code'', JStr code)]) (\<lambda>_. failS e)
      | Inr _ \<Rightarrow> note_event sv (ar_id r) ''DeploymentPreflightSucceeded'' (msg_image_word @ img @ msg_image_verified)
          [(''environment'', JStr environment), (''image'', JStr img), (''imageTag'', JStr image_tag)]))"

section \<open>Repository source\<close>

definition read_repository_descriptor :: "app_service \<Rightarrow> create_request \<Rightarrow> descriptor_service list handler" where
  "read_repository_descriptor sv input =
    (let r = \<lparr>repo_id = [], repo_name = [], repo_url = trim_space (cr_repository_url input), repo_description = [],
           repo_branch = trim_space (cr_repository_branch input), repo_auth_path = [],
           repo_config_file = trim_space (cr_config_path input)\<rparr>;
         token = trim_space (cr_repository_token input)
     in case resolve_file_target r (repo_config_file r) default_repository_config_path token of
          Inl _ \<Rightarrow> failS (app_invalid ''repositoryUrl must point to a GitHub repository'' ''repositoryUrl'')
        | Inr target \<Rightarrow>
            bindS (ask (\<lambda>n. fetch_remote_file (fs_http sv n) target token)) (\<lambda>answer.
              case answer of
                Inl e \<Rightarrow> failS (ValidationError (default_repository_config_path @ '' could not be read from the repository'')
                  [(''field'', JStr ''repositoryUrl''), (''repositoryUrl'', JStr (cr_repository_url input)),
                   (''repositoryPath'', JStr (repo_config_file r)), (''error'', JStr (error_text e))])
              | Inr body \<Rightarrow>
                  (case parse_repository_descriptor (fs_json sv) body of
                     Inl e \<Rightarrow> failS (ValidationError (default_repository_config_path @ '' format is invalid'')
                       [(''field'', JStr ''configPath''), (''error'', JStr (error_text e))])
                   | Inr ds \<Rightarrow> returnS ds)))"

text \<open>The request completed with what the descriptor says of the chosen service.\<close>

definition complete_request :: "descriptor_service \<Rightarrow> create_request \<Rightarrow> create_request" where
  "complete_request d input =
    input\<lparr>cr_name := (if trim_space (cr_name input) = [] then ds_id d else cr_name input),
      cr_image := (if cr_image input = [] then ds_image d else cr_image input),
      cr_service_port := (if cr_service_port input = 0 then ds_port d else cr_service_port input),
      cr_replicas := (if cr_replicas input = 0 then ds_replicas d else cr_replicas input),
      cr_repository_service_id := ds_id d,
      cr_strategy := (if trim_space (cr_strategy input) = [] then
          (if normalize_strategy (ds_strategy d) \<noteq> [] then normalize_strategy (ds_strategy d) else strategy_rollout)
        else cr_strategy input)\<rparr>"

definition hydrate_repository_source :: "app_service \<Rightarrow> create_request \<Rightarrow> create_request handler" where
  "hydrate_repository_source sv input0 =
    (if trim_space (cr_repository_url input0) = [] then returnS input0
     else
       let input = input0\<lparr>cr_repository_url := trim_space (cr_repository_url input0),
             cr_repository_branch := trim_space (cr_repository_branch input0),
             cr_repository_service_id := trim_space (cr_repository_service_id input0),
             cr_config_path := (if trim_space (cr_config_path input0) = [] then default_repository_config_path
               else trim_space (cr_config_path input0)),
             cr_repository_token := trim_space (cr_repository_token input0)\<rparr>
       in bindS (read_repository_descriptor sv input) (\<lambda>ds.
            case resolve_service (trim_space (cr_name input)) (cr_repository_service_id input) ds of
              None \<Rightarrow> failS (app_invalid ''repositoryServiceId is required when the descriptor defines multiple services''
                ''repositoryServiceId'')
            | Some d \<Rightarrow> returnS (complete_request d input)))"

section \<open>CreateApplication\<close>

text \<open>The checks before anything is written: the request as it is used, its secrets, the credential.\<close>

definition with_registry :: "(registry_credential \<times> string) option \<Rightarrow> create_request \<Rightarrow> create_request" where
  "with_registry registry q =
    (case registry of
       None \<Rightarrow> q
     | Some (c, _) \<Rightarrow> q\<lparr>cr_registry_server := rc_server c, cr_registry_username := rc_username c\<rparr>)"

definition normalized_network :: "create_request \<Rightarrow> create_request" where
  "normalized_network q = normalize_create_network_profile (q\<lparr>cr_strategy := normalize_strategy (cr_strategy q)\<rparr>)"

definition with_environment :: "catalog_project \<Rightarrow> create_request \<Rightarrow> create_request" where
  "with_environment p q = q\<lparr>cr_environment := resolve_environment p (cr_environment q)\<rparr>"

definition check_create ::
  "app_service \<Rightarrow> bool \<Rightarrow> catalog_project \<Rightarrow> create_request \<Rightarrow>
   (create_request \<times> (registry_credential \<times> string) option \<times> (string \<times> string) list) handler" where
  "check_create sv bypass p input0 =
    bindS (hydrate_repository_source sv input0) (\<lambda>input1.
    bindS (liftR (validate_create_request input1)) (\<lambda>_.
    bindS (liftR (normalize_repository_metadata p input1)) (\<lambda>input2.
    let input3 = normalized_network input2 in
    bindS (liftR (validate_network_profile (cr_strategy input3) (cr_mesh input3) (cr_load_balancer input3))) (\<lambda>_.
    bindS (liftR (normalize_registry_credential_input (trim_space (cr_image input3)) (cr_registry_server input3)
        (cr_registry_username input3) (cr_registry_token input3))) (\<lambda>registry.
    let input4 = with_registry registry input3 in
    bindS (verify_image_reference sv (trim_space (cr_image input4)) (map_option fst registry)) (\<lambda>_.
    let input5 = with_environment p input4 in
    bindS (liftR (validate_project_policies p (cr_environment input5) (cr_strategy input5))) (\<lambda>_.
    if \<not> bypass \<and> requires_change_flow p (cr_environment input5) then failS ErrChangeRequired
    else
      bindS (liftR (normalize_secrets (cr_secrets input5))) (\<lambda>secrets.
        returnS (input5, registry, secrets)))))))))"

definition registry_payload :: "registry_credential \<Rightarrow> string \<Rightarrow> (string \<times> string) list" where
  "registry_payload c docker_config =
    [(''server'', rc_server c), (''username'', rc_username c), (''password'', rc_password c),
     (''dockerconfigjson'', docker_config)]"

definition stage_at ::
  "app_service \<Rightarrow> string \<Rightarrow> string \<Rightarrow> (string \<times> string) list \<Rightarrow> (string \<times> string) list \<Rightarrow> staged_secret handler" where
  "stage_at sv request_id final metadata values =
    bindS (now_utc sv) (\<lambda>t. on_vault (vault_stage_at t request_id final metadata values))"

definition stage_metadata :: "string \<Rightarrow> string \<Rightarrow> user \<Rightarrow> string \<Rightarrow> (string \<times> string) list" where
  "stage_metadata pid app u kind =
    [(''projectId'', pid), (''appName'', app), (''createdBy'', user_name u), (''kind'', kind)]"

text \<open>Staging of up to three secrets; the path of the environment and the completed request are returned.\<close>

definition stage_secrets ::
  "app_service \<Rightarrow> user \<Rightarrow> string \<Rightarrow> create_request \<Rightarrow> (registry_credential \<times> string) option \<Rightarrow>
   (string \<times> string) list \<Rightarrow> string \<Rightarrow> (string \<times> create_request \<times> staged_secret list) handler" where
  "stage_secrets sv u pid input registry secrets request_id =
    (let token = trim_space (cr_repository_token input) in
    bindS (if secrets \<noteq> [] \<and> fs_secrets sv then
        bindS (now_utc sv) (\<lambda>t.
        bindS (on_vault (vault_stage t request_id pid (cr_name input) (user_name u) secrets)) (\<lambda>staged.
          returnS (final_path staged, [staged])))
      else returnS ([], [])) (\<lambda>(secret_path, staged1).
    bindS (if token \<noteq> [] \<and> fs_secrets sv then
        bindS (stage_at sv (request_id @ ''_repository'') (build_vault_repository_token_path pid (cr_name input))
            (stage_metadata pid (cr_name input) u ''repository-token'') [(''token'', token)]) (\<lambda>staged.
          returnS (input\<lparr>cr_repository_token_path := final_path staged\<rparr>, staged1 @ [staged]))
      else returnS (input, staged1)) (\<lambda>(input1, staged2).
    case registry of
      Some (c, docker_config) \<Rightarrow>
        if fs_secrets sv then
          bindS (stage_at sv (request_id @ ''_registry'') (build_vault_registry_credential_path pid (cr_name input1))
              (stage_metadata pid (cr_name input1) u ''registry-credential'') (registry_payload c docker_config)) (\<lambda>staged.
            returnS (secret_path, input1\<lparr>cr_registry_secret_path := final_path staged\<rparr>, staged2 @ [staged]))
        else returnS (secret_path, input1, staged2)
    | None \<Rightarrow> returnS (secret_path, input1, staged2))))"

definition staged_payload ::
  "create_request \<Rightarrow> (registry_credential \<times> string) option \<Rightarrow> (string \<times> string) list \<Rightarrow> staged_secret \<Rightarrow>
   (string \<times> string) list" where
  "staged_payload input registry secrets staged =
    (if final_path staged = cr_registry_secret_path input then
       (case registry of Some (c, docker_config) \<Rightarrow> registry_payload c docker_config | None \<Rightarrow> [])
     else if final_path staged = cr_repository_token_path input then
       [(''token'', trim_space (cr_repository_token input))]
     else secrets)"

fun finalize_secrets ::
  "app_service \<Rightarrow> create_request \<Rightarrow> (registry_credential \<times> string) option \<Rightarrow> (string \<times> string) list \<Rightarrow>
   staged_secret list \<Rightarrow> unit handler" where
  "finalize_secrets sv input registry secrets [] = returnS ()"
| "finalize_secrets sv input registry secrets (staged # rest) =
    bindS (now_utc sv) (\<lambda>t.
    bindS (on_vault (vault_finalize t staged (staged_payload input registry secrets staged))) (\<lambda>_.
      finalize_secrets sv input registry secrets rest))"

text \<open>What follows the checks: the secrets, the files, the secrets made final, the event.\<close>

definition write_application ::
  "app_service \<Rightarrow> user \<Rightarrow> string \<Rightarrow> catalog_project \<Rightarrow> create_request \<Rightarrow>
   (registry_credential \<times> string) option \<Rightarrow> (string \<times> string) list \<Rightarrow> string \<Rightarrow> application handler" where
  "write_application sv u pid p input1 registry secrets request_id =
    bindS (stage_secrets sv u pid input1 registry secrets request_id) (\<lambda>(secret_path, input, staged).
    bindS (now_utc sv) (\<lambda>now.
    bindS (on_repo (store_create (fs_store sv) now (build_project_context p) input secret_path)) (\<lambda>r0.
    let r = r0\<lparr>ar_repository_id := cr_repository_id input, ar_repository_url := cr_repository_url input,
          ar_repository_branch := cr_repository_branch input,
          ar_repository_service_id := cr_repository_service_id input, ar_config_path := cr_config_path input,
          ar_repository_token_path := cr_repository_token_path input,
          ar_registry_secret_path := cr_registry_secret_path input\<rparr> in
    bindS (finalize_secrets sv input registry secrets staged) (\<lambda>_.
    bindS (read_sync_info_or_unknown sv r) (\<lambda>info.
    bindS (note_event sv (ar_id r) ''ApplicationCreated'' (msg_application @ ar_name r @ msg_created)
        [(''environment'', JStr (ar_environment r)), (''strategy'', JStr (ar_strategy r))]) (\<lambda>_.
      returnS (to_application r info)))))))"

definition create_application ::
  "app_service \<Rightarrow> bool \<Rightarrow> user \<Rightarrow> string \<Rightarrow> create_request \<Rightarrow> string \<Rightarrow> application handler" where
  "create_application sv bypass u pid input request_id =
    bindS (authorized sv u pid) (\<lambda>a.
    if \<not> can_deploy (ap_role a) then failS ErrRequiresDeployer
    else
      bindS (check_create sv bypass (ap_project a) input) (\<lambda>(checked, registry, secrets).
        write_application sv u pid (ap_project a) checked registry secrets request_id))"

end
