(* ===== verification/AppDeploy.thy ===== *)
theory AppDeploy
  imports AppService
begin

text \<open>
  Deployments and changes of applications (application/service.go): CreateDeployment with the durable
  queue and without it, the worker of deployment_operations.go, PatchApplication, and the checks of
  images and repositories that the user asks for.
\<close>

section \<open>Preparing and executing a deployment\<close>

definition image_tag_required :: go_error where
  "image_tag_required = app_invalid ''imageTag is required'' ''imageTag''"

definition deployment_id_of :: "string \<Rightarrow> string" where
  "deployment_id_of request_id = replace_first request_id ''req_'' ''dep_''"

definition operation_lock_key :: "app_service \<Rightarrow> app_record \<Rightarrow> string \<Rightarrow> string" where
  "operation_lock_key sv r environment =
    (let key = trim_space (fs_lock_key sv) in
     if key = [] then ''application:'' @ ar_id r @ '':'' @ environment else key)"

definition new_operation ::
  "app_service \<Rightarrow> user \<Rightarrow> app_record \<Rightarrow> string \<Rightarrow> string \<Rightarrow> string \<Rightarrow> int \<Rightarrow> operation" where
  "new_operation sv u r image_tag environment request_id now =
    \<lparr>op_id = deployment_id_of request_id, op_application_id = ar_id r, op_project_id = ar_project_id r,
     op_application_name = ar_name r, op_environment = environment, op_image_tag = image_tag,
     op_desired_image = replace_image_tag (ar_image r) image_tag, op_strategy = ar_strategy r,
     op_requested_by = user_name u, op_request_id = request_id,
     op_lock_key = operation_lock_key sv r environment, op_status = OpQueued, op_message = msg_queued,
     op_attempts = 0, op_max_attempts = (if fs_max_attempts sv \<le> 0 then 5 else fs_max_attempts sv),
     op_last_error = [], op_next_attempt_at = now, op_lease_owner = [], op_lease_until = 0, op_version = 0,
     op_created_at = now, op_updated_at = now, op_completed_at = None\<rparr>"

definition prepare_deployment_operation ::
  "app_service \<Rightarrow> bool \<Rightarrow> user \<Rightarrow> string \<Rightarrow> string \<Rightarrow> string \<Rightarrow> string \<Rightarrow> operation handler" where
  "prepare_deployment_operation sv bypass u application_id image_tag environment request_id =
    bindS (readS (require_application sv u application_id True)) (\<lambda>r.
    bindS (authorized sv u (ar_project_id r)) (\<lambda>a.
    if trim_space image_tag = [] then failS image_tag_required
    else
      let target = (if trim_space environment \<noteq> [] then resolve_environment (ap_project a) environment
            else ar_environment r) in
      bindS (liftR (validate_project_policies (ap_project a) target (ar_strategy r))) (\<lambda>_.
      if \<not> bypass \<and> requires_change_flow (ap_project a) target then failS ErrChangeRequired
      else bindS (now_utc sv) (\<lambda>now. returnS (new_operation sv u r image_tag target request_id now)))))"

definition empty_patch :: update_request where
  "empty_patch = \<lparr>up_description = None, up_image = None, up_service_port = None, up_replicas = None,
    up_strategy = None, up_mesh = None, up_load_balancer = None, up_environment = None,
    up_repository_id = None, up_repository_url = None, up_repository_branch = None,
    up_repository_service_id = None, up_config_path = None, up_poll_interval = None, up_resources = None\<rparr>"

definition execute_deployment_operation :: "app_service \<Rightarrow> operation \<Rightarrow> deployment_response handler" where
  "execute_deployment_operation sv o1 =
    bindS (readS (\<lambda>s. get_application (op_application_id o1) (pf_repo s))) (\<lambda>r0.
    bindS (readS (\<lambda>s. get_project (op_project_id o1) (pf_repo s))) (\<lambda>p.
    let target = (if trim_space (op_environment o1) = [] then ar_environment r0 else op_environment o1);
        next = replace_image_tag (ar_image r0) (op_image_tag o1) in
    bindS (liftR (validate_project_policies p target (ar_strategy r0))) (\<lambda>_.
    bindS (verify_deployment_image sv r0 next (op_image_tag o1) target) (\<lambda>_.
    bindS (if target \<noteq> ar_environment r0 then
        bindS (now_utc sv) (\<lambda>now. on_repo (store_patch (fs_store sv) now (build_project_context p) (ar_id r0)
          (empty_patch\<lparr>up_environment := Some target\<rparr>)))
      else returnS r0) (\<lambda>r.
    bindS (now_utc sv) (\<lambda>now.
    bindS (on_repo (store_update_image (fs_store sv) now (build_project_context p) (ar_id r) (op_image_tag o1) (op_id o1)))
      (\<lambda>updated.
    bindS (note_event sv (ar_id r) ''DesiredStateCommitted'' (msg_desired_image @ next @ msg_applied)
        [(''environment'', JStr (ar_environment updated)), (''image'', JStr next)]) (\<lambda>_.
    bindS (note_event sv (ar_id r) ''DeploymentTriggered'' (msg_new_tag @ op_image_tag o1 @ msg_redeploy)
        [(''environment'', JStr (ar_environment updated)), (''imageTag'', JStr (op_image_tag o1))]) (\<lambda>_.
      returnS \<lparr>dp_id = op_id o1, dp_application_id = ar_id updated, dp_image_tag = op_image_tag o1,
        dp_environment = target, dp_status = ''Syncing''\<rparr>)))))))))"

definition create_deployment ::
  "app_service \<Rightarrow> bool \<Rightarrow> user \<Rightarrow> string \<Rightarrow> string \<Rightarrow> string \<Rightarrow> string \<Rightarrow> deployment_response handler" where
  "create_deployment sv bypass u application_id image_tag environment request_id =
    bindS (prepare_deployment_operation sv bypass u application_id image_tag environment request_id) (\<lambda>o1.
    if fs_queue sv then
      bindS (now_utc sv) (\<lambda>now.
      bindS (on_queue (enqueue_operation now o1)) (\<lambda>q.
        returnS \<lparr>dp_id = op_id q, dp_application_id = op_application_id q, dp_image_tag = op_image_tag q,
          dp_environment = op_environment q, dp_status = status_text OpQueued\<rparr>))
    else execute_deployment_operation sv o1)"

section \<open>The worker\<close>

text \<open>One round of processOnce: whether an operation was handled.\<close>

definition process_once :: "app_service \<Rightarrow> string \<Rightarrow> int \<Rightarrow> bool handler" where
  "process_once sv worker lease =
    bindS (now_utc sv) (\<lambda>now.
    bindS (on_queue (claim_next now worker lease)) (\<lambda>claimed.
      case claimed of
        None \<Rightarrow> returnS False
      | Some o1 \<Rightarrow>
          bindS (tryS (execute_deployment_operation sv o1)) (\<lambda>run.
            case run of
              Inr _ \<Rightarrow>
                bindS (now_utc sv) (\<lambda>t. bindS (on_queue (mark_succeeded t o1)) (\<lambda>_. returnS True))
            | Inl e \<Rightarrow>
                if \<not> retryable_error e \<or> max_deployment_attempts o1 \<le> op_attempts o1 then
                  bindS (now_utc sv) (\<lambda>t. bindS (on_queue (mark_failed t o1 (error_text e))) (\<lambda>_. returnS True))
                else
                  bindS (now_utc sv) (\<lambda>t0. bindS (now_utc sv) (\<lambda>t.
                  bindS (on_queue (mark_retry t o1 (error_text e) (t0 + deployment_backoff (op_attempts o1)))) (\<lambda>_.
                    returnS True))))))"

section \<open>PatchApplication\<close>

text \<open>The request with its strategy and resources normalised, and the network profile it leads to.\<close>

definition patch_network :: "update_request \<Rightarrow> app_record \<Rightarrow> (go_error, unit) result" where
  "patch_network input r =
    validate_network_profile (or_keep (map_option normalize_strategy (up_strategy input)) (ar_strategy r))
      (or_keep (up_mesh input) (ar_mesh r)) (or_keep (up_load_balancer input) (ar_load_balancer r))"

definition check_patch_image :: "app_service \<Rightarrow> update_request \<Rightarrow> app_record \<Rightarrow> unit handler" where
  "check_patch_image sv input r =
    (case up_image input of
       None \<Rightarrow> returnS ()
     | Some img \<Rightarrow>
         if trim_space img = [] then failS (app_invalid ''image is required'' ''image'')
         else bindS (resolve_record_registry_credential sv r) (\<lambda>c. verify_image_reference sv (trim_space img) c))"

definition check_patch_numbers :: "update_request \<Rightarrow> app_record \<Rightarrow> (go_error, unit) result" where
  "check_patch_numbers input r =
    (if (case up_replicas input of Some n \<Rightarrow> n < 1 | None \<Rightarrow> False) then
       Inl (app_invalid ''replicas must be at least 1'' ''replicas'')
     else (case up_poll_interval input of
         None \<Rightarrow> Inr ()
       | Some i \<Rightarrow>
           if \<not> app_has_repository_source r then
             Inl (app_invalid ''repositoryPollIntervalSeconds requires a repository-backed application''
               ''repositoryPollIntervalSeconds'')
           else validate_poll_interval i))"

definition patch_application ::
  "app_service \<Rightarrow> bool \<Rightarrow> user \<Rightarrow> string \<Rightarrow> update_request \<Rightarrow> application handler" where
  "patch_application sv bypass u application_id input0 =
    bindS (readS (require_application sv u application_id True)) (\<lambda>r.
    bindS (if up_resources input0 \<noteq> None \<or> up_mesh input0 \<noteq> None \<or> up_load_balancer input0 \<noteq> None then
        bindS (readS (require_project_admin sv u application_id)) (\<lambda>_. returnS ())
      else returnS ()) (\<lambda>_.
    bindS (case up_resources input0 of
        None \<Rightarrow> returnS input0
      | Some q \<Rightarrow> bindS (liftR (normalize_resource_requirements (sc_float (fs_store sv)) q False)) (\<lambda>n.
          returnS (input0\<lparr>up_resources := Some n\<rparr>))) (\<lambda>input1.
    let input = input1\<lparr>up_strategy := map_option normalize_strategy (up_strategy input1)\<rparr> in
    bindS (liftR (patch_network input r)) (\<lambda>_.
    bindS (authorized sv u (ar_project_id r)) (\<lambda>a.
    let environment = (case up_environment input of Some e \<Rightarrow> resolve_environment (ap_project a) e
          | None \<Rightarrow> ar_environment r) in
    bindS (liftR (validate_project_policies (ap_project a) environment (or_keep (up_strategy input) (ar_strategy r)))) (\<lambda>_.
    if \<not> bypass \<and> requires_change_flow (ap_project a) environment then failS ErrChangeRequired
    else
      bindS (check_patch_image sv input r) (\<lambda>_.
      bindS (liftR (check_patch_numbers input r)) (\<lambda>_.
      bindS (now_utc sv) (\<lambda>now.
      bindS (on_repo (store_patch (fs_store sv) now (build_project_context (ap_project a)) application_id input)) (\<lambda>updated.
      bindS (if fs_tracker sv \<and> up_poll_interval input \<noteq> None then
          bindS (now_utc sv) (\<lambda>t. on_polls sv (reschedule updated t))
        else returnS ()) (\<lambda>_.
      bindS (read_sync_info_or_unknown sv updated) (\<lambda>info.
      bindS (note_event sv (ar_id updated) ''ApplicationUpdated'' msg_settings_updated
          [(''environment'', JStr (ar_environment updated)), (''strategy'', JStr (ar_strategy updated))]) (\<lambda>_.
        returnS (to_application updated info))))))))))))))"

section \<open>Checks on request\<close>

definition validate_deployment_image :: "app_service \<Rightarrow> user \<Rightarrow> string \<Rightarrow> string \<Rightarrow> unit handler" where
  "validate_deployment_image sv u application_id image_tag =
    bindS (readS (require_application sv u application_id True)) (\<lambda>r.
    if trim_space image_tag = [] then failS image_tag_required
    else verify_deployment_image sv r (replace_image_tag (ar_image r) image_tag) image_tag (ar_environment r))"

definition validate_image_with_credential ::
  "app_service \<Rightarrow> string \<Rightarrow> string \<Rightarrow> string \<Rightarrow> string \<Rightarrow> unit handler" where
  "validate_image_with_credential sv img server username token =
    bindS (liftR (normalize_registry_credential_input img server username token)) (\<lambda>c.
      verify_image_reference sv (trim_space img) (map_option fst c))"

record image_access =
  ia_image :: string
  ia_registry :: string
  ia_accessible :: bool
  ia_message :: string

definition verify_image_access ::
  "app_service \<Rightarrow> user \<Rightarrow> string \<Rightarrow> string \<Rightarrow> string \<Rightarrow> string \<Rightarrow> string \<Rightarrow> image_access handler" where
  "verify_image_access sv u pid img0 server username token =
    bindS (authorized sv u pid) (\<lambda>a.
    if \<not> can_deploy (ap_role a) then failS ErrRequiresDeployer
    else
      let img = trim_space img0 in
      if img = [] then failS (app_invalid ''image is required'' ''image'')
      else (case parse_image_reference img of
          Inl _ \<Rightarrow> failS (ImageValidationError ''INVALID_IMAGE_REFERENCE'' msg_invalid_image img [])
        | Inr ref \<Rightarrow>
            bindS (liftR (normalize_registry_credential_input img server username token)) (\<lambda>c.
            bindS (verify_image_reference sv img (map_option fst c)) (\<lambda>_.
              returnS \<lparr>ia_image = img, ia_registry = ir_registry ref, ia_accessible = True,
                ia_message = msg_image_accessible\<rparr>))))"

record repository_preview =
  rv_config_path :: string
  rv_services :: "descriptor_service list"
  rv_selected :: string
  rv_requires_selection :: bool

definition blank_request :: create_request where
  "blank_request = \<lparr>cr_name = [], cr_description = [], cr_image = [], cr_service_port = 0, cr_replicas = 0,
    cr_strategy = [], cr_mesh = False, cr_load_balancer = False, cr_environment = [], cr_secrets = [],
    cr_repository_id = [], cr_repository_url = [], cr_repository_branch = [], cr_repository_token = [],
    cr_repository_service_id = [], cr_config_path = [], cr_poll_interval = 0, cr_registry_server = [],
    cr_registry_username = [], cr_registry_token = [], cr_repository_token_path = [], cr_registry_secret_path = []\<rparr>"

definition preview_repository_source ::
  "app_service \<Rightarrow> user \<Rightarrow> string \<Rightarrow> create_request \<Rightarrow> repository_preview handler" where
  "preview_repository_source sv u pid given =
    bindS (authorized sv u pid) (\<lambda>a.
    if \<not> can_deploy (ap_role a) then failS ErrRequiresDeployer
    else
      bindS (liftR (normalize_repository_metadata (ap_project a) (blank_request\<lparr>
          cr_name := trim_space (cr_name given), cr_repository_url := trim_space (cr_repository_url given),
          cr_repository_branch := trim_space (cr_repository_branch given),
          cr_repository_token := trim_space (cr_repository_token given),
          cr_repository_service_id := trim_space (cr_repository_service_id given),
          cr_config_path := trim_space (cr_config_path given)\<rparr>))) (\<lambda>input.
      bindS (read_repository_descriptor sv input) (\<lambda>ds.
        let selected = (case resolve_service (cr_name input) (cr_repository_service_id input) ds of
              Some d \<Rightarrow> ds_id d | None \<Rightarrow> [])
        in returnS \<lparr>rv_config_path = cr_config_path input,
             rv_services = map (\<lambda>d. d\<lparr>ds_strategy := normalize_strategy (ds_strategy d)\<rparr>) ds,
             rv_selected = selected, rv_requires_selection = (1 < length ds \<and> selected = [])\<rparr>)))"

end
