(* ===== verification/ChangeFlow.thy ===== *)
theory ChangeFlow
  imports AppDeploy
begin

text \<open>
  Changes under review (change/service.go and the store of change/store_local.go): a change is created
  as a draft, submitted, approved by an administrator and merged, and merging applies it to the
  application or the project with the change guard bypassed. The state of the service is the
  \<open>server\<close> of the application service; a change lies in platform/changes of its repository.
\<close>

section \<open>The store\<close>

definition change_path :: "string \<Rightarrow> path" where
  "change_path change_id = join_path [''platform'', ''changes'', change_id @ ''.yaml'']"

definition stored_change :: "string \<Rightarrow> repo \<Rightarrow> (go_error, change_record) result" where
  "stored_change change_id repo =
    (case fs_read repo (change_path change_id) of
       None \<Rightarrow> Inl ErrChangeNotFound
     | Some (CChange c) \<Rightarrow> Inr c
     | Some _ \<Rightarrow> Inl (OtherError ''decode change''))"

definition store_change :: "change_record \<Rightarrow> (repo, go_error, change_record) action" where
  "store_change c repo = (Inr c, fs_write (change_path (ch_id c)) (CChange c) repo)"

section \<open>The record of a new change\<close>

definition op_create_application :: string where "op_create_application = ''CreateApplication''"
definition op_update_application :: string where "op_update_application = ''UpdateApplication''"
definition op_redeploy :: string where "op_redeploy = ''Redeploy''"
definition op_update_policies :: string where "op_update_policies = ''UpdatePolicies''"

definition is_supported_operation :: "string \<Rightarrow> bool" where
  "is_supported_operation op \<longleftrightarrow>
    op \<in> {op_create_application, op_update_application, op_redeploy, op_update_policies}"

definition resolve_write_mode :: "catalog_project \<Rightarrow> string \<Rightarrow> string" where
  "resolve_write_mode p environment =
    (case find (\<lambda>e. env_id e = environment) (cp_environments p) of
       Some e \<Rightarrow> if env_write_mode e \<noteq> [] then env_write_mode e
         else if environment = ''prod'' \<and> pol_prod_pr (cp_policies p) then write_mode_pull_request
         else write_mode_direct
     | None \<Rightarrow> if environment = ''prod'' \<and> pol_prod_pr (cp_policies p) then write_mode_pull_request
         else write_mode_direct)"

definition resolve_summary :: "change_request \<Rightarrow> string" where
  "resolve_summary q =
    (if trim_space (cq_summary q) \<noteq> [] then trim_space (cq_summary q)
     else if cq_operation q = op_create_application then msg_application @ cq_name q @ msg_created
     else if cq_operation q = op_update_application then msg_application @ cq_application_id q @ msg_change_settings
     else if cq_operation q = op_redeploy then msg_application @ cq_application_id q @ msg_redeploy
     else if cq_operation q = op_update_policies then msg_change_policies
     else msg_change_request)"

definition change_workload_file :: "string \<Rightarrow> string" where
  "change_workload_file strategy = (if strategy = strategy_canary then ''rollout.yaml'' else ''deployment.yaml'')"

definition build_diff_preview :: "string \<Rightarrow> string \<Rightarrow> change_request \<Rightarrow> string list" where
  "build_diff_preview pid environment q =
    (if cq_operation q = op_create_application then
       [''apps/'' @ pid @ ''/'' @ cq_name q @ ''/base/'' @ change_workload_file (cq_strategy q) @ msg_created,
        ''apps/'' @ pid @ ''/'' @ cq_name q @ ''/overlays/'' @ environment @ msg_created]
     else if cq_operation q = op_update_application then
       [cq_application_id q @ msg_strategy_a @ cq_strategy q @ msg_strategy_b,
        cq_application_id q @ msg_env_a @ environment @ msg_env_b]
     else if cq_operation q = op_redeploy then [cq_application_id q @ msg_image_a @ cq_image_tag q @ msg_image_b]
     else if cq_operation q = op_update_policies then [pid @ msg_project_policies]
     else [msg_no_preview])"

definition new_change :: "user \<Rightarrow> catalog_project \<Rightarrow> string \<Rightarrow> change_request \<Rightarrow> string \<Rightarrow> int \<Rightarrow> change_record" where
  "new_change u p pid q request_id now =
    (let environment = resolve_environment p (cq_environment q)
     in \<lparr>ch_id = replace_first request_id ''req_'' ''chg_'', ch_project_id = pid,
         ch_application_id = trim_space (cq_application_id q), ch_operation = cq_operation q,
         ch_environment = environment, ch_write_mode = resolve_write_mode p environment, ch_status = Draft,
         ch_summary = resolve_summary q, ch_diff_preview = build_diff_preview pid environment q, ch_request = q,
         ch_created_by = user_name u, ch_approved_by = [], ch_merged_by = [], ch_created_at = now,
         ch_updated_at = now\<rparr>)"

section \<open>Create, get, submit, approve\<close>

definition check_change :: "app_service \<Rightarrow> user \<Rightarrow> change_record \<Rightarrow> change_request \<Rightarrow> unit handler" where
  "check_change sv u c q =
    (if ch_operation c = op_create_application then
       (if trim_space (cq_image q) \<noteq> [] then
          validate_image_with_credential sv (trim_space (cq_image q)) (cq_registry_server q)
            (cq_registry_username q) (cq_registry_token q)
        else if trim_space (cq_repository_url q) = [] then
          failS (app_invalid ''image is required when repositoryUrl is not provided'' ''image'')
        else returnS ())
     else if ch_operation c = op_redeploy then
       validate_deployment_image sv u (ch_application_id c) (trim_space (cq_image_tag q))
     else returnS ())"

definition create_change :: "app_service \<Rightarrow> user \<Rightarrow> string \<Rightarrow> change_request \<Rightarrow> string \<Rightarrow> change_record handler" where
  "create_change sv u pid q request_id =
    bindS (authorized sv u pid) (\<lambda>a.
    if \<not> can_deploy (ap_role a) then failS ErrRequiresDeployer
    else
      bindS (now_utc sv) (\<lambda>now.
      let c = new_change u (ap_project a) pid q request_id now in
      if \<not> is_supported_operation (ch_operation c) then failS ErrInvalidOperation
      else bindS (check_change sv u c q) (\<lambda>_. on_repo (store_change c))))"

definition get_change :: "app_service \<Rightarrow> user \<Rightarrow> string \<Rightarrow> server \<Rightarrow> (go_error, change_record \<times> authorized_project) result" where
  "get_change sv u change_id s =
    bindR (stored_change change_id (pf_repo s)) (\<lambda>c.
    bindR (get_authorized (fs_projects sv) u (ch_project_id c) (pf_repo s)) (\<lambda>a. Inr (c, a)))"

definition submit_change :: "app_service \<Rightarrow> user \<Rightarrow> string \<Rightarrow> change_record handler" where
  "submit_change sv u change_id =
    bindS (readS (get_change sv u change_id)) (\<lambda>(c, a).
    if \<not> can_deploy (ap_role a) then failS ErrRequiresDeployer
    else if ch_status c \<noteq> Draft then failS ErrStateConflict
    else bindS (now_utc sv) (\<lambda>now.
      on_repo (store_change (c\<lparr>ch_status := Submitted, ch_updated_at := now\<rparr>))))"

definition approve_change :: "app_service \<Rightarrow> user \<Rightarrow> string \<Rightarrow> change_record handler" where
  "approve_change sv u change_id =
    bindS (readS (get_change sv u change_id)) (\<lambda>(c, a).
    if \<not> can_admin (ap_role a) then failS ErrRequiresAdmin
    else (case ch_status c of
        Draft \<Rightarrow> failS ErrSubmissionRequired
      | Submitted \<Rightarrow> bindS (now_utc sv) (\<lambda>now.
          on_repo (store_change (c\<lparr>ch_status := Approved, ch_approved_by := user_name u, ch_updated_at := now\<rparr>)))
      | _ \<Rightarrow> failS ErrStateConflict))"

section \<open>Merge\<close>

definition merge_allowed :: "change_record \<Rightarrow> (go_error, unit) result" where
  "merge_allowed c =
    (if ch_write_mode c = write_mode_pull_request then
       (if ch_status c \<noteq> Approved then
          (if ch_status c = Merged then Inl ErrStateConflict else Inl ErrApprovalRequired)
        else Inr ())
     else if ch_status c = Draft then Inl ErrSubmissionRequired
     else if ch_status c \<noteq> Submitted \<and> ch_status c \<noteq> Approved then Inl ErrStateConflict
     else Inr ())"

definition optional_string :: "string \<Rightarrow> string option" where
  "optional_string v = (if trim_space v = [] then None else Some (trim_space v))"

definition optional_int :: "int \<Rightarrow> int option" where
  "optional_int v = (if v \<le> 0 then None else Some v)"

definition optional_strategy :: "string \<Rightarrow> string option" where
  "optional_strategy v = (if v = [] then None else Some v)"

definition create_request_of_change :: "change_request \<Rightarrow> create_request" where
  "create_request_of_change q = blank_request\<lparr>cr_name := cq_name q, cr_description := cq_description q,
     cr_image := cq_image q, cr_service_port := cq_service_port q, cr_strategy := cq_strategy q,
     cr_environment := cq_environment q, cr_secrets := cq_secrets q, cr_repository_url := cq_repository_url q,
     cr_repository_branch := cq_repository_branch q, cr_repository_token := cq_repository_token q,
     cr_repository_service_id := cq_repository_service_id q, cr_config_path := cq_config_path q,
     cr_registry_server := cq_registry_server q, cr_registry_username := cq_registry_username q,
     cr_registry_token := cq_registry_token q\<rparr>"

definition patch_of_change :: "change_request \<Rightarrow> update_request" where
  "patch_of_change q = empty_patch\<lparr>up_description := optional_string (cq_description q),
     up_service_port := optional_int (cq_service_port q), up_strategy := optional_strategy (cq_strategy q),
     up_environment := optional_string (cq_environment q)\<rparr>"

definition apply_change :: "app_service \<Rightarrow> user \<Rightarrow> change_record \<Rightarrow> unit handler" where
  "apply_change sv u c =
    (let q = ch_request c in
     if ch_operation c = op_create_application then
       bindS (create_application sv True u (ch_project_id c) (create_request_of_change q) (ch_id c)) (\<lambda>_. returnS ())
     else if ch_operation c = op_update_application then
       bindS (patch_application sv True u (cq_application_id q) (patch_of_change q)) (\<lambda>_. returnS ())
     else if ch_operation c = op_redeploy then
       bindS (create_deployment sv True u (cq_application_id q) (cq_image_tag q) (cq_environment q) (ch_id c)) (\<lambda>_. returnS ())
     else if ch_operation c = op_update_policies then
       (case cq_policies q of
          None \<Rightarrow> failS ErrInvalidOperation
        | Some policies \<Rightarrow> bindS (update_policies (fs_projects sv) u (ch_project_id c) policies) (\<lambda>_. returnS ()))
     else failS ErrInvalidOperation)"

definition merge_change :: "app_service \<Rightarrow> user \<Rightarrow> string \<Rightarrow> change_record handler" where
  "merge_change sv u change_id =
    bindS (readS (get_change sv u change_id)) (\<lambda>(c, a).
    if \<not> can_deploy (ap_role a) then failS ErrRequiresDeployer
    else
      bindS (liftR (merge_allowed c)) (\<lambda>_.
      bindS (apply_change sv u c) (\<lambda>_.
      bindS (now_utc sv) (\<lambda>now.
        on_repo (store_change (c\<lparr>ch_status := Merged, ch_merged_by := user_name u, ch_updated_at := now\<rparr>))))))"

end
