(* ===== verification/GitStores.thy ===== *)
theory GitStores
  imports GitRepo ClusterCatalog ProjectCatalog OrphanCleanup ChangeFlow
begin

text \<open>
  The stores over the managed checkout (application/store_git.go, project/source_git.go,
  cluster/source_git.go, change/store_git.go): every operation of a local store, inside WithRead or WithWrite
  with its commit message. A store without a repository fails. Below them the background workers that skip a
  turn when the checkout is locked (application/poller.go, application/orphan_cleanup.go, vault/cleanup.go).
\<close>

section \<open>The manifest store\<close>

definition git_read ::
  "string \<Rightarrow> git_outside \<Rightarrow> git_settings option \<Rightarrow> (repo \<Rightarrow> (go_error, 'a) result) \<Rightarrow> 'a git" where
  "git_read what gt gs f =
    (case gs of
       None \<Rightarrow> failS (OtherError (''git '' @ what @ '' repository is not configured''))
     | Some x \<Rightarrow> with_read gt x True f)"

definition git_write ::
  "string \<Rightarrow> git_outside \<Rightarrow> git_settings option \<Rightarrow> string \<Rightarrow> (repo, go_error, 'a) action \<Rightarrow> 'a git" where
  "git_write what gt gs msg f =
    (case gs of
       None \<Rightarrow> failS (OtherError (''git '' @ what @ '' repository is not configured''))
     | Some x \<Rightarrow> with_write gt x True msg f)"

abbreviation manifest_read :: "git_outside \<Rightarrow> git_settings option \<Rightarrow> (repo \<Rightarrow> (go_error, 'a) result) \<Rightarrow> 'a git" where
  "manifest_read \<equiv> git_read ''manifest''"

abbreviation manifest_write ::
  "git_outside \<Rightarrow> git_settings option \<Rightarrow> string \<Rightarrow> (repo, go_error, 'a) action \<Rightarrow> 'a git" where
  "manifest_write \<equiv> git_write ''manifest''"

definition git_list_applications ::
  "git_outside \<Rightarrow> git_settings option \<Rightarrow> string \<Rightarrow> app_record list git" where
  "git_list_applications gt gs pid =
    manifest_read gt gs (list_applications pid)"

definition git_get_application ::
  "git_outside \<Rightarrow> git_settings option \<Rightarrow> string \<Rightarrow> app_record git" where
  "git_get_application gt gs aid =
    manifest_read gt gs (get_application aid)"

definition git_create_application ::
  "git_outside \<Rightarrow> git_settings option \<Rightarrow> store_config \<Rightarrow> int \<Rightarrow> project_context \<Rightarrow> create_request \<Rightarrow> string \<Rightarrow> app_record git" where
  "git_create_application gt gs cfg now pc req path =
    manifest_write gt gs (''feat: create application '' @ cr_name req @ '' in '' @ pc_id pc) (store_create cfg now pc req path)"

definition git_archive_application ::
  "git_outside \<Rightarrow> git_settings option \<Rightarrow> int \<Rightarrow> string \<Rightarrow> string \<Rightarrow> lifecycle_response git" where
  "git_archive_application gt gs now aid by =
    manifest_write gt gs (''feat: archive application '' @ aid) (store_archive now aid by)"

definition git_delete_application ::
  "git_outside \<Rightarrow> git_settings option \<Rightarrow> int \<Rightarrow> string \<Rightarrow> lifecycle_response git" where
  "git_delete_application gt gs now aid =
    manifest_write gt gs (''feat: delete application '' @ aid) (store_delete now aid)"

definition git_update_image ::
  "git_outside \<Rightarrow> git_settings option \<Rightarrow> store_config \<Rightarrow> int \<Rightarrow> project_context \<Rightarrow> string \<Rightarrow> string \<Rightarrow> string \<Rightarrow> app_record git" where
  "git_update_image gt gs cfg now pc aid tag did =
    manifest_write gt gs (''feat: redeploy '' @ aid @ '' with image tag '' @ tag) (store_update_image cfg now pc aid tag did)"

definition git_patch_application ::
  "git_outside \<Rightarrow> git_settings option \<Rightarrow> store_config \<Rightarrow> int \<Rightarrow> project_context \<Rightarrow> string \<Rightarrow> update_request \<Rightarrow> app_record git" where
  "git_patch_application gt gs cfg now pc aid req =
    manifest_write gt gs (''feat: update application '' @ aid) (store_patch cfg now pc aid req)"

definition git_save_secret_path ::
  "git_outside \<Rightarrow> git_settings option \<Rightarrow> store_config \<Rightarrow> int \<Rightarrow> project_context \<Rightarrow> string \<Rightarrow> string \<Rightarrow> app_record git" where
  "git_save_secret_path gt gs cfg now pc aid path =
    manifest_write gt gs (''feat: update application secrets for '' @ aid) (store_save_secret_path cfg now pc aid path)"

definition git_list_deployments ::
  "git_outside \<Rightarrow> git_settings option \<Rightarrow> string \<Rightarrow> deployment_record list git" where
  "git_list_deployments gt gs aid =
    manifest_read gt gs (store_list_deployments aid)"

definition git_get_deployment ::
  "git_outside \<Rightarrow> git_settings option \<Rightarrow> string \<Rightarrow> string \<Rightarrow> deployment_record git" where
  "git_get_deployment gt gs aid did =
    manifest_read gt gs (store_get_deployment aid did)"

definition git_update_deployment ::
  "git_outside \<Rightarrow> git_settings option \<Rightarrow> string \<Rightarrow> deployment_record \<Rightarrow> deployment_record git" where
  "git_update_deployment gt gs aid d =
    manifest_write gt gs (''feat: update deployment '' @ dr_id d) (store_update_deployment aid d)"

definition git_get_rollback_policy ::
  "git_outside \<Rightarrow> git_settings option \<Rightarrow> string \<Rightarrow> rollback_policy git" where
  "git_get_rollback_policy gt gs aid =
    manifest_read gt gs (store_get_rollback_policy aid)"

definition git_save_rollback_policy ::
  "git_outside \<Rightarrow> git_settings option \<Rightarrow> string \<Rightarrow> rollback_policy \<Rightarrow> rollback_policy git" where
  "git_save_rollback_policy gt gs aid p =
    manifest_write gt gs (''feat: update rollback policy for '' @ aid) (store_save_rollback_policy aid p)"

definition git_list_events ::
  "git_outside \<Rightarrow> git_settings option \<Rightarrow> string \<Rightarrow> app_event list git" where
  "git_list_events gt gs aid =
    manifest_read gt gs (store_list_events aid)"

definition git_append_event ::
  "git_outside \<Rightarrow> git_settings option \<Rightarrow> string \<Rightarrow> app_event \<Rightarrow> unit git" where
  "git_append_event gt gs aid e =
    manifest_write gt gs (''feat: append application event '' @ ev_id e) (store_append_event aid e)"

text \<open>The cleanup does not wait for a lock.\<close>

definition git_cleanup_orphans :: "git_outside \<Rightarrow> git_settings option \<Rightarrow> nat git" where
  "git_cleanup_orphans gt gs =
    (case gs of
       None \<Rightarrow> failS (OtherError ''git manifest repository is not configured'')
     | Some x \<Rightarrow> with_write gt x False ''chore: cleanup orphan flux manifests'' cleanup_orphans)"

section \<open>The catalogs and the changes\<close>

definition catalog_missing :: "go_error \<Rightarrow> go_error" where
  "catalog_missing e =
    (case root_cause e of CatalogNotFoundError _ \<Rightarrow> CatalogNotFoundError ''platform/projects.yaml'' | _ \<Rightarrow> e)"

definition naming_catalog :: "(repo, go_error, 'a) action \<Rightarrow> (repo, go_error, 'a) action" where
  "naming_catalog f r =
    (case f r of (Inl e, t) \<Rightarrow> (Inl (catalog_missing e), t) | (Inr x, t) \<Rightarrow> (Inr x, t))"

definition git_list_projects :: "git_outside \<Rightarrow> git_settings option \<Rightarrow> catalog_project list git" where
  "git_list_projects gt gs =
    git_read ''catalog'' gt gs (\<lambda>r. fst (naming_catalog (readS list_projects) r))"

definition git_create_project ::
  "git_outside \<Rightarrow> git_settings option \<Rightarrow> flux_config \<Rightarrow> catalog_project \<Rightarrow> catalog_project git" where
  "git_create_project gt gs cfg input =
    git_write ''catalog'' gt gs (''feat: bootstrap project '' @ cp_id input) (source_create_project cfg input)"

definition git_delete_project ::
  "git_outside \<Rightarrow> git_settings option \<Rightarrow> int \<Rightarrow> string \<Rightarrow> project_lifecycle git" where
  "git_delete_project gt gs now pid =
    git_write ''catalog'' gt gs (''feat: delete project '' @ pid) (naming_catalog (source_delete_project now pid))"

definition git_update_policies ::
  "git_outside \<Rightarrow> git_settings option \<Rightarrow> string \<Rightarrow> policy_set \<Rightarrow> catalog_project git" where
  "git_update_policies gt gs pid q =
    git_write ''catalog'' gt gs (''feat: update policies for '' @ pid) (naming_catalog (source_update_policies pid q))"

definition git_list_clusters :: "git_outside \<Rightarrow> git_settings option \<Rightarrow> cluster list git" where
  "git_list_clusters gt gs = git_read ''cluster'' gt gs source_list_clusters"

definition git_create_cluster ::
  "git_outside \<Rightarrow> git_settings option \<Rightarrow> flux_config \<Rightarrow> cluster \<Rightarrow> cluster git" where
  "git_create_cluster gt gs cfg input =
    git_write ''cluster'' gt gs (''feat: bootstrap cluster '' @ cl_id input) (source_create_cluster cfg input)"

definition git_create_change :: "git_outside \<Rightarrow> git_settings option \<Rightarrow> change_record \<Rightarrow> change_record git" where
  "git_create_change gt gs c = git_write ''change'' gt gs (''feat: create change '' @ ch_id c) (store_change c)"

definition git_get_change :: "git_outside \<Rightarrow> git_settings option \<Rightarrow> string \<Rightarrow> change_record git" where
  "git_get_change gt gs change_id = git_read ''change'' gt gs (stored_change change_id)"

definition git_update_change :: "git_outside \<Rightarrow> git_settings option \<Rightarrow> change_record \<Rightarrow> change_record git" where
  "git_update_change gt gs c = git_write ''change'' gt gs (''feat: update change '' @ ch_id c) (store_change c)"

section \<open>Background workers\<close>

text \<open>The reason for which a worker skips a turn; an empty text is an error worth a report.\<close>

definition background_skip_reason :: "go_error option \<Rightarrow> string" where
  "background_skip_reason e =
    (case e of
       None \<Rightarrow> []
     | Some x \<Rightarrow>
         if errors_is x ErrRepositoryLockBusy then ''git_lock_busy''
         else if errors_is x ErrDeadlineExceeded then ''timeout''
         else if errors_is x ErrCanceled then ''context_canceled''
         else [])"

text \<open>The time limit of a turn; none is 0.\<close>

definition background_timeout :: "int \<Rightarrow> int \<Rightarrow> int" where
  "background_timeout configured fallback =
    (let t = (if configured \<le> 0 then fallback else configured) in if t \<le> 0 then 0 else t)"

datatype turn = TurnSkipped string | TurnFailed go_error | TurnCleaned nat | TurnIdle

definition orphan_cleanup_turn :: "git_outside \<Rightarrow> git_settings option \<Rightarrow> git_state \<Rightarrow> turn \<times> git_state" where
  "orphan_cleanup_turn gt gs s =
    (case git_cleanup_orphans (gt\<lparr>gt_nonblocking := True\<rparr>) gs s of
       (Inl e, t) \<Rightarrow>
         (let reason = background_skip_reason (Some e) in
          (if reason \<noteq> [] then TurnSkipped reason else TurnFailed e, t))
     | (Inr n, t) \<Rightarrow> (if 0 < n then TurnCleaned n else TurnIdle, t))"

text \<open>Whether a worker starts at all, by its interval and, for staged secrets, their greatest age.\<close>

definition orphan_worker_starts :: "int \<Rightarrow> bool" where
  "orphan_worker_starts interval \<longleftrightarrow> 0 < interval"

definition staging_worker_starts :: "int \<Rightarrow> int \<Rightarrow> bool" where
  "staging_worker_starts interval max_age \<longleftrightarrow> 0 < interval \<and> 0 < max_age"

text \<open>Secrets staged longer than the greatest age before now go in one turn.\<close>

definition staging_cleanup_turn ::
  "(path \<Rightarrow> int) \<Rightarrow> int \<Rightarrow> int \<Rightarrow> vault \<Rightarrow> turn \<times> vault" where
  "staging_cleanup_turn mtime now max_age v =
    (case vault_cleanup_stale mtime (now - max_age) v of
       (Inl e, t) \<Rightarrow> (TurnFailed e, t)
     | (Inr n, t) \<Rightarrow> (if 0 < n then TurnCleaned n else TurnIdle, t))"

end
