(* ===== verification/KubeClient.thy ===== *)
theory KubeClient
  imports Config GoUrl ServiceTypes
begin

text \<open>
  The client of the Kubernetes API (kubernetes/real.go): how it is built from the configuration or a
  kubeconfig file, how it finds its bearer token, and how it reads JSON, text and streams of lines. The
  transport, files, commands, certificates and decoders are parameters, asked with a running number.
\<close>

section \<open>Outside\<close>

datatype http_answer =
    RequestRefused string
  | NotSent string
  | NotRead string
  | Answered int string string

record kube_exec =
  kx_command :: string
  kx_args :: "string list"
  kx_env :: "(string \<times> string) list"

record kube_user =
  ku_token :: string
  ku_token_file :: string
  ku_certificate :: string
  ku_certificate_data :: string
  ku_key :: string
  ku_key_data :: string
  ku_exec :: "kube_exec option"

record kube_cluster =
  kl_server :: string
  kl_authority :: string
  kl_authority_data :: string
  kl_insecure :: bool

record kubeconfig =
  kd_current :: string
  kd_clusters :: "(string \<times> kube_cluster) list"
  kd_contexts :: "(string \<times> string \<times> string) list"
  kd_users :: "(string \<times> kube_user) list"

text \<open>A command answers with its output and the error of running it, if any.\<close>

record kube_outside =
  ko_call :: "nat \<Rightarrow> string \<Rightarrow> string \<Rightarrow> string \<Rightarrow> string \<Rightarrow> http_answer"
  ko_stream :: "nat \<Rightarrow> string \<Rightarrow> string \<Rightarrow> http_answer \<times> string option"
  ko_file :: "nat \<Rightarrow> string \<Rightarrow> (string, string) result"
  ko_command :: "nat \<Rightarrow> string \<Rightarrow> string list \<Rightarrow> string list \<Rightarrow> string \<times> string option"
  ko_environ :: "string list"
  ko_clock :: "nat \<Rightarrow> int"
  ko_base64 :: "string \<Rightarrow> (string, string) result"
  ko_certificates :: "string \<Rightarrow> bool"
  ko_key_pair :: "string \<Rightarrow> string \<Rightarrow> string option"
  ko_kubeconfig :: "string \<Rightarrow> (string, kubeconfig) result"
  ko_exec_token :: "string \<Rightarrow> (string, string) result"

section \<open>State and questions\<close>

record kube_state =
  ks_asked :: nat

type_synonym ('x, 'a) kube = "('x kube_state_scheme, go_error, 'a) action"

definition ask_kube :: "(nat \<Rightarrow> 'a) \<Rightarrow> ('x, 'a) kube" where
  "ask_kube f s = (Inr (f (ks_asked s)), s\<lparr>ks_asked := Suc (ks_asked s)\<rparr>)"

definition wrapping :: "string \<Rightarrow> (string, 'a) result \<Rightarrow> (go_error, 'a) result" where
  "wrapping what r = (case r of Inl e \<Rightarrow> Inl (Wrapped what (OtherError e)) | Inr x \<Rightarrow> Inr x)"

section \<open>Bearer tokens\<close>

datatype token_source =
    FixedToken string
  | TokenFile string
  | TokenCommand kube_exec string

record kube_client =
  kc_base :: string
  kc_token :: "token_source option"
  kc_timeout :: int
  kc_insecure :: bool

definition is_abs :: "string \<Rightarrow> bool" where
  "is_abs p \<longleftrightarrow> prefix ''/'' p"

definition resolve_kubeconfig_path :: "string \<Rightarrow> string \<Rightarrow> string" where
  "resolve_kubeconfig_path base_dir value =
    (let v = trim_space value in
     if v = [] \<or> is_abs v \<or> prefix ''~'' v then v else path_join [base_dir, v])"

definition resolve_exec_command :: "string \<Rightarrow> string \<Rightarrow> string" where
  "resolve_exec_command base_dir command =
    (let c = trim_space command in
     if c = [] \<or> is_abs c \<or> CHR ''/'' \<notin> set c then c else path_join [base_dir, c])"

definition render_exec_env :: "(string \<times> string) list \<Rightarrow> string list" where
  "render_exec_env values = map (\<lambda>(n, v). n @ ''='' @ v) (filter (\<lambda>(n, v). trim_space n \<noteq> []) values)"

definition resolve_token :: "kube_outside \<Rightarrow> kube_exec \<Rightarrow> string \<Rightarrow> ('x, string) kube" where
  "resolve_token ko e base_dir =
    (if trim_space (kx_command e) = [] then failS (OtherError ''kubeconfig exec command is empty'')
     else
       bindS (ask_kube (\<lambda>n. ko_command ko n (resolve_exec_command base_dir (kx_command e)) (kx_args e)
         (ko_environ ko @ render_exec_env (kx_env e)))) (\<lambda>(output, failure).
         case failure of
           Some err \<Rightarrow> failS (OtherError (''execute kubeconfig auth command: '' @ err @ '': '' @ trim_space output))
         | None \<Rightarrow> (case ko_exec_token ko output of
             Inl err \<Rightarrow> failS (Wrapped ''decode kubeconfig exec credential'' (OtherError err))
           | Inr token \<Rightarrow>
               if trim_space token = [] then
                 failS (OtherError ''kubeconfig exec credential did not include a token'')
               else returnS (trim_space token))))"

definition resolve_bearer_token_provider :: "kube_user \<Rightarrow> string \<Rightarrow> token_source option" where
  "resolve_bearer_token_provider u base_dir =
    (if trim_space (ku_token u) \<noteq> [] then Some (FixedToken (trim_space (ku_token u)))
     else if trim_space (ku_token_file u) \<noteq> [] then
       Some (TokenFile (resolve_kubeconfig_path base_dir (ku_token_file u)))
     else map_option (\<lambda>e. TokenCommand e base_dir) (ku_exec u))"

fun provide_token :: "kube_outside \<Rightarrow> token_source \<Rightarrow> ('x, string) kube" where
  "provide_token ko (FixedToken t) = returnS t"
| "provide_token ko (TokenFile f) =
    bindS (ask_kube (\<lambda>n. ko_file ko n f)) (\<lambda>r.
      liftR (bindR (wrapping ''read kubeconfig token file'' r) (\<lambda>data. Inr (trim_space data))))"
| "provide_token ko (TokenCommand e base_dir) = resolve_token ko e base_dir"

section \<open>Building the client\<close>

fun named :: "string \<Rightarrow> (string \<times> 'a) list \<Rightarrow> 'a option" where
  "named name [] = None"
| "named name ((n, x) # rest) = (if n = name then Some x else named name rest)"

definition by_name :: "string \<Rightarrow> string \<Rightarrow> (string \<times> 'a) list \<Rightarrow> (go_error, 'a) result" where
  "by_name kind name items =
    (case named name items of
       Some x \<Rightarrow> Inr x
     | None \<Rightarrow> Inl (OtherError (''kubeconfig '' @ kind @ '' '' @ go_quote name @ '' was not found'')))"

text \<open>Inline data win over a file; neither gives no certificate.\<close>

definition read_pem ::
  "kube_outside \<Rightarrow> string \<Rightarrow> string \<Rightarrow> string \<Rightarrow> string \<Rightarrow> ('x, string) kube" where
  "read_pem ko base_dir what data file =
    (if trim_space data \<noteq> [] then
       liftR (wrapping (''decode kubeconfig '' @ what @ ''-data'') (ko_base64 ko (trim_space data)))
     else if trim_space file \<noteq> [] then
       bindS (ask_kube (\<lambda>n. ko_file ko n (resolve_kubeconfig_path base_dir file))) (\<lambda>r.
         liftR (wrapping (''read kubeconfig '' @ what) r))
     else returnS [])"

definition resolve_client_certificate :: "kube_outside \<Rightarrow> kube_user \<Rightarrow> string \<Rightarrow> ('x, bool) kube" where
  "resolve_client_certificate ko u base_dir =
    bindS (read_pem ko base_dir ''client-certificate'' (ku_certificate_data u) (ku_certificate u)) (\<lambda>certificate.
    bindS (read_pem ko base_dir ''client-key'' (ku_key_data u) (ku_key u)) (\<lambda>key.
      if certificate = [] \<or> key = [] then returnS False
      else case ko_key_pair ko certificate key of
        Some err \<Rightarrow> failS (Wrapped ''load kubeconfig client certificate'' (OtherError err))
      | None \<Rightarrow> returnS True))"

definition check_authority :: "kube_outside \<Rightarrow> string \<Rightarrow> (string, string) result \<Rightarrow> string \<Rightarrow> (go_error, unit) result" where
  "check_authority ko failing r what =
    bindR (wrapping failing r) (\<lambda>pem.
      if ko_certificates ko pem then Inr () else Inl (OtherError (what @ '': no certificates found'')))"

definition new_http_client :: "kube_outside \<Rightarrow> string \<Rightarrow> string \<Rightarrow> bool \<Rightarrow> ('x, unit) kube" where
  "new_http_client ko ca_file ca_data insecure =
    (if insecure then returnS ()
     else
       bindS (if trim_space ca_file = [] then returnS ()
         else bindS (ask_kube (\<lambda>n. ko_file ko n ca_file)) (\<lambda>r.
           liftR (check_authority ko ''read kubernetes CA file'' r ''append kubernetes CA file''))) (\<lambda>_.
       if trim_space ca_data = [] then returnS ()
       else liftR (check_authority ko ''decode kubernetes CA data'' (ko_base64 ko ca_data)
         ''append kubernetes CA data'')))"

fun trim_right_slash_rev :: "string \<Rightarrow> string" where
  "trim_right_slash_rev [] = []"
| "trim_right_slash_rev (c # cs) = (if c = CHR ''/'' then trim_right_slash_rev cs else c # cs)"

definition trim_right_slash :: "string \<Rightarrow> string" where
  "trim_right_slash s = rev (trim_right_slash_rev (rev s))"

definition new_token_client :: "kube_outside \<Rightarrow> config \<Rightarrow> ('x, kube_client) kube" where
  "new_token_client ko c =
    (if trim_space (c_kubernetes_api_url c) = [] then
       failS (OtherError ''AODS_K8S_API_URL is required when AODS_K8S_MODE=token'')
     else if trim_space (c_kubernetes_bearer_token c) = [] then
       failS (OtherError ''AODS_K8S_BEARER_TOKEN is required when AODS_K8S_MODE=token'')
     else
       bindS (new_http_client ko (c_kubernetes_ca_file c) (c_kubernetes_ca_data c) False) (\<lambda>_.
         returnS \<lparr>kc_base = trim_right_slash (trim_space (c_kubernetes_api_url c)),
           kc_token = Some (FixedToken (trim_space (c_kubernetes_bearer_token c))),
           kc_timeout = c_kubernetes_request_timeout c, kc_insecure = False\<rparr>))"

definition selected_context :: "config \<Rightarrow> kubeconfig \<Rightarrow> (go_error, string) result" where
  "selected_context c k =
    (let chosen = (if trim_space (c_kubernetes_context c) \<noteq> [] then trim_space (c_kubernetes_context c)
       else trim_space (kd_current k))
     in if chosen = [] then Inl (OtherError ''kubeconfig current-context is empty'') else Inr chosen)"

definition new_kubeconfig_client :: "kube_outside \<Rightarrow> config \<Rightarrow> ('x, kube_client) kube" where
  "new_kubeconfig_client ko c =
    (if trim_space (c_kubernetes_kubeconfig_path c) = [] then
       failS (OtherError ''AODS_K8S_KUBECONFIG is required when AODS_K8S_MODE=kubeconfig'')
     else
       let config_path = path_clean (trim_space (c_kubernetes_kubeconfig_path c)); dir = path_dir config_path in
       bindS (ask_kube (\<lambda>n. ko_file ko n config_path)) (\<lambda>r.
       bindS (liftR (wrapping ''read kubeconfig'' r)) (\<lambda>data.
       bindS (liftR (wrapping ''decode kubeconfig'' (ko_kubeconfig ko data))) (\<lambda>k.
       bindS (liftR (selected_context c k)) (\<lambda>name.
       bindS (liftR (by_name ''context'' name (kd_contexts k))) (\<lambda>(cluster_name, user_name).
       bindS (liftR (by_name ''cluster'' cluster_name (kd_clusters k))) (\<lambda>cluster.
       bindS (liftR (by_name ''user'' user_name (kd_users k))) (\<lambda>u.
       bindS (resolve_client_certificate ko u dir) (\<lambda>certified.
         let provider = resolve_bearer_token_provider u dir in
         if provider = None \<and> \<not> certified then
           failS (OtherError ''kubeconfig user does not provide exec, token, token-file, or client certificate credentials'')
         else
           bindS (new_http_client ko (resolve_kubeconfig_path dir (kl_authority cluster)) (kl_authority_data cluster)
             (kl_insecure cluster)) (\<lambda>_.
             returnS \<lparr>kc_base = trim_right_slash (kl_server cluster), kc_token = provider,
               kc_timeout = c_kubernetes_request_timeout c, kc_insecure = kl_insecure cluster\<rparr>))))))))))"

definition new_api_client :: "kube_outside \<Rightarrow> config \<Rightarrow> ('x, kube_client) kube" where
  "new_api_client ko c =
    (let mode = to_lower (trim_space (c_kubernetes_mode c)) in
     if mode = [] \<or> mode = ''local'' then failS (OtherError ''kubernetes api mode is local'')
     else if mode = ''token'' then new_token_client ko c
     else if mode = ''kubeconfig'' then new_kubeconfig_client ko c
     else failS (OtherError (''unsupported kubernetes mode '' @ go_quote (c_kubernetes_mode c))))"

section \<open>Calling the API\<close>

definition not_configured :: go_error where
  "not_configured = OtherError ''kubernetes api client is not configured''"

definition bearer_of :: "kube_outside \<Rightarrow> kube_client \<Rightarrow> ('x, string) kube" where
  "bearer_of ko c =
    (case kc_token c of
       None \<Rightarrow> returnS []
     | Some source \<Rightarrow> (\<lambda>s. case provide_token ko source s of
         (Inl e, t) \<Rightarrow> (Inl (Wrapped ''resolve kubernetes api bearer token'' e), t)
       | (Inr token, t) \<Rightarrow> (Inr token, t)))"

definition api_failure :: "string \<Rightarrow> int \<Rightarrow> string \<Rightarrow> string \<Rightarrow> go_error" where
  "api_failure resource_path code body status =
    ApiRequestError resource_path code (if trim_space body = [] then status else trim_space body)"

definition answer_body :: "string \<Rightarrow> http_answer \<Rightarrow> (go_error, string) result" where
  "answer_body resource_path answer =
    (case answer of
       RequestRefused e \<Rightarrow> Inl (Wrapped ''create kubernetes api request'' (OtherError e))
     | NotSent e \<Rightarrow> Inl (Wrapped ''perform kubernetes api request'' (OtherError e))
     | NotRead e \<Rightarrow> Inl (Wrapped ''read kubernetes api response'' (OtherError e))
     | Answered code body status \<Rightarrow>
         if code < 200 \<or> 300 \<le> code then Inl (api_failure resource_path code body status) else Inr body)"

definition call_api ::
  "kube_outside \<Rightarrow> kube_client option \<Rightarrow> string \<Rightarrow> string \<Rightarrow> string \<Rightarrow> ('x, string) kube" where
  "call_api ko client verb resource_path body =
    (case client of
       None \<Rightarrow> failS not_configured
     | Some c \<Rightarrow>
         bindS (bearer_of ko c) (\<lambda>token.
         bindS (ask_kube (\<lambda>n. ko_call ko n verb (kc_base c @ resource_path) token body)) (\<lambda>answer.
           liftR (answer_body resource_path answer))))"

text \<open>An empty body leaves the zero value.\<close>

definition get_json ::
  "kube_outside \<Rightarrow> kube_client option \<Rightarrow> (string \<Rightarrow> (string, 'a) result) \<Rightarrow> 'a \<Rightarrow> string \<Rightarrow> ('x, 'a) kube" where
  "get_json ko client decode zero resource_path =
    bindS (call_api ko client ''GET'' resource_path []) (\<lambda>body.
      if body = [] then returnS zero
      else liftR (wrapping ''decode kubernetes api response'' (decode body)))"

definition get_text :: "kube_outside \<Rightarrow> kube_client option \<Rightarrow> string \<Rightarrow> ('x, string) kube" where
  "get_text ko client resource_path = call_api ko client ''GET'' resource_path []"

definition patch_json :: "kube_outside \<Rightarrow> kube_client option \<Rightarrow> string \<Rightarrow> string \<Rightarrow> ('x, unit) kube" where
  "patch_json ko client resource_path body =
    bindS (call_api ko client ''PATCH'' resource_path body) (\<lambda>_. returnS ())"

text \<open>
  bufio.ScanLines over the body: lines without their ends; a line of 1 MiB or more is too long for the
  buffer. The lines before an error are delivered.
\<close>

definition drop_cr :: "string \<Rightarrow> string" where
  "drop_cr l = (if l \<noteq> [] \<and> last l = CHR 0x0D then butlast l else l)"

definition scan_lines :: "string \<Rightarrow> string list" where
  "scan_lines body =
    (let parts = split_on (CHR 0x0A) body in if last parts = [] then butlast parts else parts)"

definition stream_lines ::
  "kube_outside \<Rightarrow> kube_client option \<Rightarrow> string \<Rightarrow> ('x, string list \<times> go_error option) kube" where
  "stream_lines ko client resource_path =
    (case client of
       None \<Rightarrow> failS not_configured
     | Some c \<Rightarrow>
         bindS (bearer_of ko c) (\<lambda>token.
         bindS (ask_kube (\<lambda>n. ko_stream ko n (kc_base c @ resource_path) token)) (\<lambda>(answer, broken).
         bindS (liftR (answer_body resource_path answer)) (\<lambda>body.
           let raw = scan_lines body; fitting = takeWhile (\<lambda>l. length l < 1048576) raw in
           returnS (map drop_cr fitting,
             if length fitting < length raw then
               Some (Wrapped ''read kubernetes api stream'' (OtherError ''bufio.Scanner: token too long''))
             else map_option (\<lambda>e. Wrapped ''read kubernetes api stream'' (OtherError e)) broken)))))"

end
