(* ===== verification/VaultHttp.thy ===== *)
theory VaultHttp
  imports Vault KubeClient
begin

text \<open>
  The secret store over the HTTP API of a Vault server with a key-value engine of version 2
  (vault/real.go). The server is a parameter: it answers a request and changes its own state, the type
  \<open>'v\<close>. JSON codecs and the texts of times are parameters too. The reason that an error of
  url.Parse gives is left out of its text.
\<close>

section \<open>The server and what is asked of it\<close>

record vault_call =
  vr_method :: string
  vr_url :: string
  vr_token :: string
  vr_namespace :: "string option"
  vr_body :: "string option"

datatype vault_answer = VaultRefused string | VaultNotSent string | VaultAnswered int string string

record kv_version =
  kv_created_time :: string
  kv_deletion_time :: string
  kv_destroyed :: bool
  kv_version_number :: int

record kv_metadata =
  km_current :: int
  km_created_time :: string
  km_updated_time :: string
  km_custom :: secret_data
  km_versions :: "(string \<times> kv_version) list"

record 'v vault_outside =
  vo_call :: "vault_call \<Rightarrow> 'v \<Rightarrow> vault_answer \<times> 'v"
  vo_context :: "nat \<Rightarrow> go_error option"
  vo_clock :: "nat \<Rightarrow> int"
  vo_show_time :: "int \<Rightarrow> string"
  vo_parse_time :: "string \<Rightarrow> int option"
  vo_encode_data :: "secret_data \<Rightarrow> string"
  vo_encode_metadata :: "secret_data \<Rightarrow> string"
  vo_decode_data :: "string \<Rightarrow> (string, secret_data) result"
  vo_decode_version :: "string \<Rightarrow> (string, secret_data \<times> kv_version) result"
  vo_decode_metadata :: "string \<Rightarrow> (string, kv_metadata) result"
  vo_decode_keys :: "string \<Rightarrow> (string, string list) result"

record vault_client =
  vc_address :: string
  vc_token :: string
  vc_namespace :: string

record 'v vault_session =
  vx_server :: 'v
  vx_asked :: nat

type_synonym ('v, 'a) vault_http = "('v vault_session, go_error, 'a) action"

definition ask_vault :: "(nat \<Rightarrow> 'a) \<Rightarrow> ('v, 'a) vault_http" where
  "ask_vault f s = (Inr (f (vx_asked s)), s\<lparr>vx_asked := Suc (vx_asked s)\<rparr>)"

definition vault_context :: "'v vault_outside \<Rightarrow> ('v, unit) vault_http" where
  "vault_context vo =
    bindS (ask_vault (vo_context vo)) (\<lambda>e. case e of None \<Rightarrow> returnS () | Some x \<Rightarrow> failS x)"

section \<open>Addresses\<close>

definition url_userinfo :: "string \<times> string option \<Rightarrow> string" where
  "url_userinfo u =
    url_escape InUser (fst u) @ (case snd u of None \<Rightarrow> [] | Some p \<Rightarrow> CHR '':'' # url_escape InUser p)"

text \<open>URL.String where the path is escaped anew.\<close>

definition url_text :: "url \<Rightarrow> string" where
  "url_text u =
    (let scheme = (if url_scheme u = [] then [] else url_scheme u @ '':'');
         path = url_escape InPath (url_path u);
         authority = (if url_host u \<noteq> [] \<or> url_user u \<noteq> None then
             ''//'' @ (case url_user u of None \<Rightarrow> [] | Some x \<Rightarrow> url_userinfo x @ ''@'') @ url_escape InHost (url_host u)
           else if url_scheme u \<noteq> [] \<and> path \<noteq> [] then ''//'' else []);
         slash = (if path \<noteq> [] \<and> hd path \<noteq> CHR ''/'' \<and> url_host u \<noteq> [] then ''/'' else []);
         dot = (if scheme = [] \<and> authority = [] \<and> CHR '':'' \<in> set (takeWhile (\<lambda>c. c \<noteq> CHR ''/'') path) then ''./'' else [])
     in scheme @ (if url_opaque u \<noteq> [] then url_opaque u else authority @ slash @ dot @ path) @
        (if url_query u = [] then [] else CHR ''?'' # url_query u) @
        (if url_fragment u = [] then [] else CHR ''#'' # url_escape InFragment (url_fragment u)))"

definition trim_slashes :: "string \<Rightarrow> string" where
  "trim_slashes s = dropWhile (\<lambda>c. c = CHR ''/'') (trim_right_slash s)"

definition kv_endpoint :: "vault_client \<Rightarrow> string \<Rightarrow> string \<Rightarrow> (go_error, string) result" where
  "kv_endpoint vc logical part =
    (let base = trim_space (vc_address vc) in
     if base = [] then Inl (OtherError ''vault address is required'')
     else if trim_space logical = [] then Inl (OtherError ''vault logical path is required'')
     else case split_on (CHR ''/'') (trim_slashes logical) of
       mount # k # ks \<Rightarrow>
         (case url_parse (trim_right_slash base) of
            None \<Rightarrow> Inl (Wrapped ''parse vault address'' (OtherError (''parse '' @ go_quote (trim_right_slash base))))
          | Some u \<Rightarrow> Inr (url_text (u\<lparr>url_path := trim_right_slash (url_path u) @ ''/v1/'' @ mount @ ''/'' @ part @
              ''/'' @ join_with ''/'' (k # ks)\<rparr>)))
     | _ \<Rightarrow> Inl (OtherError (''vault logical path '' @ go_quote logical @ '' must include mount and key'')))"

text \<open>
  url.Values: the pairs of a query, those with a semicolon or a bad escape left out. Setting a key and
  encoding sorts by key.
\<close>

definition query_pairs :: "string \<Rightarrow> (string \<times> string) list" where
  "query_pairs q =
    List.map_filter (\<lambda>part.
      if part = [] \<or> CHR '';'' \<in> set part then None
      else case (url_unescape InQuery (fst (cut_at (CHR ''='') part)), url_unescape InQuery (snd (cut_at (CHR ''='') part))) of
        (Some k, Some v) \<Rightarrow> Some (k, v) | _ \<Rightarrow> None) (split_on (CHR ''&'') q)"

definition with_parameter :: "string \<Rightarrow> string \<Rightarrow> string \<Rightarrow> (go_error, string) result" where
  "with_parameter key value endpoint =
    (case url_parse endpoint of
       None \<Rightarrow> Inl (Wrapped ''parse vault endpoint'' (OtherError (''parse '' @ go_quote endpoint)))
     | Some u \<Rightarrow>
         let pairs = filter (\<lambda>kv. fst kv \<noteq> key) (query_pairs (url_query u)) @ [(key, value)] in
         Inr (url_text (u\<lparr>url_query := join_with ''&'' (map (\<lambda>kv. url_query_escape (fst kv) @ ''='' @ url_query_escape (snd kv))
           (sort_key fst pairs))\<rparr>)))"

section \<open>Requests\<close>

definition send_vault ::
  "'v vault_outside \<Rightarrow> vault_client \<Rightarrow> string \<Rightarrow> string \<Rightarrow> string option \<Rightarrow> ('v, int \<times> string \<times> string) vault_http" where
  "send_vault vo vc verb endpoint body s =
    (case vo_call vo \<lparr>vr_method = verb, vr_url = endpoint, vr_token = vc_token vc,
         vr_namespace = (if trim_space (vc_namespace vc) = [] then None else Some (vc_namespace vc)),
         vr_body = body\<rparr> (vx_server s) of
       (answer, server) \<Rightarrow>
         ((case answer of
             VaultRefused e \<Rightarrow> Inl (Wrapped ''build vault request'' (OtherError e))
           | VaultNotSent e \<Rightarrow> Inl (Wrapped ''send vault request'' (OtherError e))
           | VaultAnswered code text status \<Rightarrow> Inr (code, text, status)),
          s\<lparr>vx_server := server\<rparr>))"

definition vault_succeeded :: "int \<Rightarrow> bool" where
  "vault_succeeded code \<longleftrightarrow> 200 \<le> code \<and> code < 300"

definition do_vault_json ::
  "'v vault_outside \<Rightarrow> vault_client \<Rightarrow> string \<Rightarrow> string \<Rightarrow> string option \<Rightarrow> ('v, unit) vault_http" where
  "do_vault_json vo vc verb endpoint body =
    bindS (send_vault vo vc verb endpoint body) (\<lambda>(code, text, status).
      if vault_succeeded code then returnS ()
      else let said = trim_space (take 4096 text) in
        failS (OtherError (''vault API returned '' @ (if said = [] then status else said))))"

text \<open>A request whose answer is decoded; what stands for an answer 404 is given.\<close>

definition ask_vault_json ::
  "'v vault_outside \<Rightarrow> vault_client \<Rightarrow> string \<Rightarrow> string \<Rightarrow> 'a option \<Rightarrow> string \<Rightarrow> (string \<Rightarrow> (string, 'a) result) \<Rightarrow>
    ('v, 'a) vault_http" where
  "ask_vault_json vo vc verb endpoint missing what decode =
    bindS (send_vault vo vc verb endpoint None) (\<lambda>(code, text, status).
      case (if code = 404 then missing else None) of
        Some x \<Rightarrow> returnS x
      | None \<Rightarrow>
          if \<not> vault_succeeded code then
            failS (OtherError (''vault API returned '' @ status @ '': '' @ take 4096 text))
          else case decode text of
            Inl e \<Rightarrow> failS (Wrapped what (OtherError e)) | Inr x \<Rightarrow> returnS x)"

definition naming :: "string \<Rightarrow> ('v, 'a) vault_http \<Rightarrow> ('v, 'a) vault_http" where
  "naming what m s = (case m s of (Inl e, t) \<Rightarrow> (Inl (Wrapped what e), t) | (Inr x, t) \<Rightarrow> (Inr x, t))"

definition write_kv :: "'v vault_outside \<Rightarrow> vault_client \<Rightarrow> string \<Rightarrow> secret_data \<Rightarrow> ('v, unit) vault_http" where
  "write_kv vo vc logical data =
    bindS (liftR (kv_endpoint vc logical ''data'')) (\<lambda>endpoint.
      naming (''write vault secret '' @ logical) (do_vault_json vo vc ''POST'' endpoint (Some (vo_encode_data vo data))))"

definition write_kv_metadata :: "'v vault_outside \<Rightarrow> vault_client \<Rightarrow> string \<Rightarrow> secret_data \<Rightarrow> ('v, unit) vault_http" where
  "write_kv_metadata vo vc logical metadata =
    bindS (liftR (kv_endpoint vc logical ''metadata'')) (\<lambda>endpoint.
      naming (''write vault metadata '' @ logical)
        (do_vault_json vo vc ''POST'' endpoint (Some (vo_encode_metadata vo metadata))))"

definition delete_kv_metadata :: "'v vault_outside \<Rightarrow> vault_client \<Rightarrow> string \<Rightarrow> ('v, unit) vault_http" where
  "delete_kv_metadata vo vc logical =
    bindS (liftR (kv_endpoint vc logical ''metadata'')) (\<lambda>endpoint.
      naming (''delete vault metadata '' @ logical) (do_vault_json vo vc ''DELETE'' endpoint None))"

definition read_kv_metadata :: "'v vault_outside \<Rightarrow> vault_client \<Rightarrow> string \<Rightarrow> ('v, kv_metadata option) vault_http" where
  "read_kv_metadata vo vc logical =
    bindS (liftR (kv_endpoint vc logical ''metadata'')) (\<lambda>endpoint.
      ask_vault_json vo vc ''GET'' endpoint (Some None) ''decode vault metadata response''
        (\<lambda>text. case vo_decode_metadata vo text of Inl e \<Rightarrow> Inl e | Inr m \<Rightarrow> Inr (Some m)))"

definition list_metadata_keys :: "'v vault_outside \<Rightarrow> vault_client \<Rightarrow> string \<Rightarrow> ('v, string list) vault_http" where
  "list_metadata_keys vo vc logical =
    bindS (liftR (bindR (kv_endpoint vc logical ''metadata'') (with_parameter ''exclude_deleted'' ''true''))) (\<lambda>endpoint.
      ask_vault_json vo vc ''LIST'' endpoint (Some []) ''decode vault metadata list response'' (vo_decode_keys vo))"

section \<open>Operations of the store\<close>

definition http_stage_at ::
  "'v vault_outside \<Rightarrow> vault_client \<Rightarrow> string \<Rightarrow> string \<Rightarrow> (string \<times> string) list \<Rightarrow> secret_data \<Rightarrow>
    ('v, staged_secret) vault_http" where
  "http_stage_at vo vc request_id final metadata data =
    bindS (vault_context vo) (\<lambda>_.
      if trim_space (vc_address vc) = [] then failS (OtherError ''vault address is required'')
      else if trim_space (vc_token vc) = [] then failS (OtherError ''vault token is required'')
      else
        let staging = build_vault_staging_path request_id in
        bindS (write_kv vo vc staging data) (\<lambda>_.
        bindS (ask_vault (vo_clock vo)) (\<lambda>now.
        bindS (write_kv_metadata vo vc staging (fold (\<lambda>kv m. AList.update (fst kv) (snd kv) m) metadata
            [(''status'', ''pending_commit''), (''createdAt'', vo_show_time vo now)])) (\<lambda>_.
          returnS \<lparr>staging_path = staging, final_path = final\<rparr>))))"

definition http_stage ::
  "'v vault_outside \<Rightarrow> vault_client \<Rightarrow> string \<Rightarrow> string \<Rightarrow> string \<Rightarrow> string \<Rightarrow> secret_data \<Rightarrow>
    ('v, staged_secret) vault_http" where
  "http_stage vo vc request_id project_id app created_by data =
    http_stage_at vo vc request_id (build_vault_final_path project_id app)
      [(''projectId'', project_id), (''appName'', app), (''createdBy'', created_by)] data"

definition http_finalize ::
  "'v vault_outside \<Rightarrow> vault_client \<Rightarrow> staged_secret \<Rightarrow> secret_data \<Rightarrow> ('v, unit) vault_http" where
  "http_finalize vo vc staged data =
    bindS (vault_context vo) (\<lambda>_.
    bindS (read_kv_metadata vo vc (staging_path staged)) (\<lambda>found.
    bindS (write_kv vo vc (final_path staged) data) (\<lambda>_.
    bindS (case found of
        None \<Rightarrow> returnS ()
      | Some m \<Rightarrow>
          if km_custom m = [] then returnS ()
          else bindS (ask_vault (vo_clock vo)) (\<lambda>now.
            write_kv_metadata vo vc (final_path staged)
              (AList.update ''updatedAt'' (vo_show_time vo now) (AList.update ''status'' ''finalized'' (km_custom m))))) (\<lambda>_.
      delete_kv_metadata vo vc (staging_path staged)))))"

definition http_get :: "'v vault_outside \<Rightarrow> vault_client \<Rightarrow> string \<Rightarrow> ('v, secret_data) vault_http" where
  "http_get vo vc logical =
    bindS (liftR (kv_endpoint vc logical ''data'')) (\<lambda>endpoint.
      ask_vault_json vo vc ''GET'' endpoint (Some []) ''decode vault response'' (vo_decode_data vo))"

definition version_summary :: "'v vault_outside \<Rightarrow> kv_version \<Rightarrow> int \<Rightarrow> int \<Rightarrow> secret_version_summary" where
  "version_summary vo m asked current =
    (let version = (if 0 < kv_version_number m then kv_version_number m else asked) in
     \<lparr>sv_version = version, sv_created_at = vo_parse_time vo (trim_space (kv_created_time m)), sv_updated_by = [],
      sv_current = (0 < current \<and> version = current), sv_deleted = trim_space (kv_deletion_time m) \<noteq> [],
      sv_destroyed = kv_destroyed m, sv_key_count = 0\<rparr>)"

definition http_get_version ::
  "'v vault_outside \<Rightarrow> vault_client \<Rightarrow> string \<Rightarrow> int \<Rightarrow> ('v, secret_data \<times> secret_version_summary) vault_http" where
  "http_get_version vo vc logical version =
    (if version \<le> 0 then failS (OtherError ''vault secret version must be positive'')
     else
       bindS (liftR (bindR (kv_endpoint vc logical ''data'') (with_parameter ''version'' (show_int version)))) (\<lambda>endpoint.
       bindS (ask_vault_json vo vc ''GET'' endpoint None ''decode vault response'' (vo_decode_version vo)) (\<lambda>(data, m).
         returnS (data, (version_summary vo m version 0)\<lparr>sv_key_count := length data\<rparr>))))"

definition custom_text :: "secret_data \<Rightarrow> string \<Rightarrow> string" where
  "custom_text m key = trim_space (case map_of m key of Some t \<Rightarrow> t | None \<Rightarrow> [])"

definition zero_version :: kv_version where
  "zero_version = \<lparr>kv_created_time = [], kv_deletion_time = [], kv_destroyed = False, kv_version_number = 0\<rparr>"

definition listed_version :: "'v vault_outside \<Rightarrow> kv_metadata \<Rightarrow> int \<Rightarrow> secret_version_summary" where
  "listed_version vo m version =
    (let v = (case map_of (km_versions m) (show_int version) of Some x \<Rightarrow> x | None \<Rightarrow> zero_version);
         item = version_summary vo v version (km_current m);
         by = custom_text (km_custom m) ''updatedBy''
     in if sv_current item
        then item\<lparr>sv_updated_by := (if by = [] then custom_text (km_custom m) ''createdBy'' else by)\<rparr> else item)"

definition http_list_versions :: "'v vault_outside \<Rightarrow> vault_client \<Rightarrow> string \<Rightarrow> ('v, secret_versions) vault_http" where
  "http_list_versions vo vc logical =
    bindS (read_kv_metadata vo vc logical) (\<lambda>found.
      returnS (case found of
          None \<Rightarrow> \<lparr>svs_secret_path = logical, svs_current_version = 0, svs_items = []\<rparr>
        | Some m \<Rightarrow> \<lparr>svs_secret_path = logical, svs_current_version = km_current m,
            svs_items = map (listed_version vo m) (rev (sort (List.map_filter (\<lambda>kv. atoi (fst kv)) (km_versions m))))\<rparr>))"

definition http_delete :: "'v vault_outside \<Rightarrow> vault_client \<Rightarrow> string \<Rightarrow> ('v, unit) vault_http" where
  "http_delete vo vc logical =
    bindS (vault_context vo) (\<lambda>_.
      if trim_space logical = [] then failS (OtherError ''vault logical path is required'')
      else delete_kv_metadata vo vc logical)"

section \<open>Cleaning up\<close>

definition metadata_created_at :: "'v vault_outside \<Rightarrow> kv_metadata \<Rightarrow> int option" where
  "metadata_created_at vo m =
    (case List.map_filter (\<lambda>t. if trim_space t = [] then None else vo_parse_time vo (trim_space t))
        [custom_text (km_custom m) ''createdAt'', km_created_time m, km_updated_time m] of
       [] \<Rightarrow> None | t # _ \<Rightarrow> Some t)"

definition stale_pending_commit :: "'v vault_outside \<Rightarrow> kv_metadata \<Rightarrow> int \<Rightarrow> bool" where
  "stale_pending_commit vo m cutoff \<longleftrightarrow>
    (let status = custom_text (km_custom m) ''status'' in
     (status = [] \<or> status = ''pending_commit'') \<and>
     (case metadata_created_at vo m of None \<Rightarrow> False | Some t \<Rightarrow> t \<le> cutoff))"

text \<open>
  The directories below a path are those the server names; a tree deeper than the fuel has no result. The
  count stands beside an error.
\<close>

type_synonym 'v cleanup = "'v vault_session \<Rightarrow> (nat \<times> go_error option \<times> 'v vault_session) option"

definition clean_leaf :: "'v vault_outside \<Rightarrow> vault_client \<Rightarrow> int \<Rightarrow> string \<Rightarrow> ('v, nat) vault_http" where
  "clean_leaf vo vc cutoff path =
    bindS (read_kv_metadata vo vc path) (\<lambda>found.
      case found of
        None \<Rightarrow> returnS 0
      | Some m \<Rightarrow>
          if stale_pending_commit vo m cutoff then bindS (delete_kv_metadata vo vc path) (\<lambda>_. returnS 1) else returnS 0)"

fun clean_keys ::
  "'v vault_outside \<Rightarrow> vault_client \<Rightarrow> int \<Rightarrow> (string \<Rightarrow> 'v cleanup) \<Rightarrow> string \<Rightarrow> string list \<Rightarrow> 'v cleanup" where
  "clean_keys vo vc cutoff below path [] s = Some (0, None, s)"
| "clean_keys vo vc cutoff below path (raw # keys) s =
    (case vault_context vo s of
       (Inl e, t) \<Rightarrow> Some (0, Some e, t)
     | (Inr _, t) \<Rightarrow>
         let key = trim_space raw; child = path @ ''/'' @ trim_suffix ''/'' key in
         if key = [] then clean_keys vo vc cutoff below path keys t
         else
           (case (if suffix ''/'' key then below child t
               else case clean_leaf vo vc cutoff child t of
                 (Inl e, u) \<Rightarrow> Some (0, Some e, u) | (Inr n, u) \<Rightarrow> Some (n, None, u)) of
              None \<Rightarrow> None
            | Some (n, Some e, u) \<Rightarrow> Some (n, Some e, u)
            | Some (n, None, u) \<Rightarrow>
                map_option (\<lambda>(k, e, w). (n + k, e, w)) (clean_keys vo vc cutoff below path keys u)))"

fun clean_under :: "'v vault_outside \<Rightarrow> vault_client \<Rightarrow> int \<Rightarrow> nat \<Rightarrow> string \<Rightarrow> 'v cleanup" where
  "clean_under vo vc cutoff 0 path s = None"
| "clean_under vo vc cutoff (Suc fuel) path s =
    (case list_metadata_keys vo vc path s of
       (Inl e, t) \<Rightarrow> Some (0, Some e, t)
     | (Inr keys, t) \<Rightarrow> clean_keys vo vc cutoff (clean_under vo vc cutoff fuel) path keys t)"

definition http_cleanup_stale :: "'v vault_outside \<Rightarrow> vault_client \<Rightarrow> nat \<Rightarrow> int \<Rightarrow> 'v cleanup" where
  "http_cleanup_stale vo vc fuel cutoff s =
    (case vault_context vo s of
       (Inl e, t) \<Rightarrow> Some (0, Some e, t)
     | (Inr _, t) \<Rightarrow>
         if trim_space (vc_token vc) = [] then Some (0, Some (OtherError ''vault token is required''), t)
         else clean_under vo vc cutoff fuel vault_staging_root_path t)"

end
