(* ===== verification/VaultHttpLaws.thy ===== *)
theory VaultHttpLaws
  imports VaultHttp
begin

text \<open>
  What the HTTP secret store does to a server that keeps its documented behaviour: a secret that is staged
  and finalised stands at its path, its staging is gone, and no other secret changes. The cleanup
  deletes a leaf only after it has read that it is stale, and it ends when the tree that the server names is
  not endless.
\<close>

section \<open>What Vault documents\<close>

text \<open>
  \<open>held\<close> is the current secret at a data endpoint. The laws are those of the requests the store sends for
  the paths in question: writing sets the secret, deleting the metadata removes it with all versions, and
  nothing else changes any secret.
\<close>

definition writing_sets :: "'v vault_outside \<Rightarrow> ('v \<Rightarrow> string \<Rightarrow> secret_data option) \<Rightarrow> string \<Rightarrow> bool" where
  "writing_sets vo held dest \<longleftrightarrow>
    (\<forall>r v d code said status w. vr_method r = ''POST'' \<and> vr_url r = dest \<and> vr_body r = Some (vo_encode_data vo d) \<and>
      vo_call vo r v = (VaultAnswered code said status, w) \<and> vault_succeeded code \<longrightarrow> held w = (held v)(dest := Some d))"

definition metadata_keeps :: "'v vault_outside \<Rightarrow> ('v \<Rightarrow> string \<Rightarrow> secret_data option) \<Rightarrow> string \<Rightarrow> bool" where
  "metadata_keeps vo held meta \<longleftrightarrow>
    (\<forall>r v. vr_url r = meta \<and> (vr_method r = ''GET'' \<or> vr_method r = ''POST'') \<longrightarrow> held (snd (vo_call vo r v)) = held v)"

definition deleting_clears ::
  "'v vault_outside \<Rightarrow> ('v \<Rightarrow> string \<Rightarrow> secret_data option) \<Rightarrow> string \<Rightarrow> string \<Rightarrow> bool" where
  "deleting_clears vo held meta dest \<longleftrightarrow>
    (\<forall>r v code said status w. vr_method r = ''DELETE'' \<and> vr_url r = meta \<and>
      vo_call vo r v = (VaultAnswered code said status, w) \<and> vault_succeeded code \<longrightarrow> held w = (held v)(dest := None))"

definition kv_documented ::
  "'v vault_outside \<Rightarrow> vault_client \<Rightarrow> ('v \<Rightarrow> string \<Rightarrow> secret_data option) \<Rightarrow> string list \<Rightarrow> bool" where
  "kv_documented vo vc held paths \<longleftrightarrow>
    (\<forall>p dest meta. p \<in> set paths \<and> kv_endpoint vc p ''data'' = Inr dest \<and> kv_endpoint vc p ''metadata'' = Inr meta \<longrightarrow>
      writing_sets vo held dest \<and> metadata_keeps vo held meta \<and> deleting_clears vo held meta dest)"

definition data_key :: "vault_client \<Rightarrow> string \<Rightarrow> string" where
  "data_key vc p = (case kv_endpoint vc p ''data'' of Inr e \<Rightarrow> e | Inl _ \<Rightarrow> [])"

section \<open>Requests in a run\<close>

lemma endpoint_other: "kv_endpoint vc p part = Inr e \<Longrightarrow> \<exists>e'. kv_endpoint vc p other = Inr e'"
  by (auto simp: kv_endpoint_def Let_def split: if_splits list.splits option.splits)

lemma naming_Inr: "naming what m s = (Inr x, t) \<longleftrightarrow> m s = (Inr x, t)"
  by (auto simp: naming_def split: prod.splits sum.splits)

lemma kv_documentedD:
  assumes "kv_documented vo vc held paths" and "p \<in> set paths" and "kv_endpoint vc p part = Inr e"
    and "part = ''data'' \<or> part = ''metadata''"
  obtains meta where "kv_endpoint vc p ''data'' = Inr (data_key vc p)" "kv_endpoint vc p ''metadata'' = Inr meta"
    "writing_sets vo held (data_key vc p)" "metadata_keeps vo held meta" "deleting_clears vo held meta (data_key vc p)"
proof -
  obtain dest where dest: "kv_endpoint vc p ''data'' = Inr dest" using endpoint_other [OF assms(3)] by blast
  obtain meta where meta: "kv_endpoint vc p ''metadata'' = Inr meta" using endpoint_other [OF assms(3)] by blast
  have "data_key vc p = dest" by (simp add: data_key_def dest)
  with dest meta assms(1,2) that show ?thesis unfolding kv_documented_def by blast
qed

lemma do_json_Inr:
  assumes "do_vault_json vo vc verb endpoint body s = (Inr u, t)"
  obtains code said status r where
    "vo_call vo r (vx_server s) = (VaultAnswered code said status, vx_server t)" "vault_succeeded code"
    "vr_method r = verb" "vr_url r = endpoint" "vr_body r = body"
proof -
  obtain code said status where "send_vault vo vc verb endpoint body s = (Inr (code, said, status), t)" "vault_succeeded code"
    using assms by (auto simp: do_vault_json_def bindS_Inr action_Inr Let_def split: if_splits)
  then show ?thesis
    using that by (auto simp: send_vault_def split: prod.splits vault_answer.splits)
qed

lemma write_kv_held:
  assumes "kv_documented vo vc held paths" and "p \<in> set paths" and "write_kv vo vc p d s = (Inr u, t)"
  shows "held (vx_server t) = (held (vx_server s))(data_key vc p := Some d)"
proof -
  obtain dest where dest: "kv_endpoint vc p ''data'' = Inr dest"
      and run: "do_vault_json vo vc ''POST'' dest (Some (vo_encode_data vo d)) s = (Inr u, t)"
    using assms(3) by (auto simp: write_kv_def bindS_Inr action_Inr naming_Inr)
  obtain meta where "writing_sets vo held (data_key vc p)" "dest = data_key vc p"
    using kv_documentedD [OF assms(1,2) dest] dest by (metis sum.inject(2))
  with run show ?thesis by (elim do_json_Inr) (auto simp: writing_sets_def)
qed

lemma delete_kv_metadata_held:
  assumes "kv_documented vo vc held paths" and "p \<in> set paths" and "delete_kv_metadata vo vc p s = (Inr u, t)"
  shows "held (vx_server t) = (held (vx_server s))(data_key vc p := None)"
proof -
  obtain meta where meta: "kv_endpoint vc p ''metadata'' = Inr meta"
      and run: "do_vault_json vo vc ''DELETE'' meta None s = (Inr u, t)"
    using assms(3) by (auto simp: delete_kv_metadata_def bindS_Inr action_Inr naming_Inr)
  have "deleting_clears vo held meta (data_key vc p)"
    using kv_documentedD [OF assms(1,2) meta] meta by (metis sum.inject(2))
  with run show ?thesis by (elim do_json_Inr) (auto simp: deleting_clears_def)
qed

lemma metadata_request_held:
  assumes "kv_documented vo vc held paths" and "p \<in> set paths" and "kv_endpoint vc p ''metadata'' = Inr meta"
    and "verb = ''GET'' \<or> verb = ''POST''" and "send_vault vo vc verb meta body s = (answer, t)"
  shows "held (vx_server t) = held (vx_server s)"
proof -
  have "metadata_keeps vo held meta"
    using kv_documentedD [OF assms(1-3)] assms(3) by (metis sum.inject(2))
  then have "held (snd (vo_call vo \<lparr>vr_method = verb, vr_url = meta, vr_token = vc_token vc,
      vr_namespace = (if trim_space (vc_namespace vc) = [] then None else Some (vc_namespace vc)), vr_body = body\<rparr>
      (vx_server s))) = held (vx_server s)"
    using assms(4) by (simp add: metadata_keeps_def)
  then show ?thesis using assms(5) by (auto simp: send_vault_def split: prod.splits)
qed

lemma write_kv_metadata_held:
  assumes "kv_documented vo vc held paths" and "p \<in> set paths" and "write_kv_metadata vo vc p m s = (Inr u, t)"
  shows "held (vx_server t) = held (vx_server s)"
proof -
  obtain meta where meta: "kv_endpoint vc p ''metadata'' = Inr meta"
      and run: "do_vault_json vo vc ''POST'' meta (Some (vo_encode_metadata vo m)) s = (Inr u, t)"
    using assms(3) by (auto simp: write_kv_metadata_def bindS_Inr action_Inr naming_Inr)
  obtain answer where "send_vault vo vc ''POST'' meta (Some (vo_encode_metadata vo m)) s = (Inr answer, t)"
    using run by (auto simp: do_vault_json_def bindS_Inr action_Inr Let_def split: if_splits)
  then show ?thesis using metadata_request_held [OF assms(1,2) meta] by blast
qed

lemma read_kv_metadata_held:
  assumes "kv_documented vo vc held paths" and "p \<in> set paths" and "read_kv_metadata vo vc p s = (Inr found, t)"
  shows "held (vx_server t) = held (vx_server s)"
proof -
  obtain meta answer where meta: "kv_endpoint vc p ''metadata'' = Inr meta"
      and run: "send_vault vo vc ''GET'' meta None s = (Inr answer, t)"
    using assms(3)
    by (auto simp: read_kv_metadata_def ask_vault_json_def bindS_Inr action_Inr split: option.splits if_splits sum.splits)
  then show ?thesis using metadata_request_held [OF assms(1,2) meta _ run] by simp
qed

lemma ask_vault_Inr: "ask_vault f s = (Inr x, t) \<longleftrightarrow> x = f (vx_asked s) \<and> t = s\<lparr>vx_asked := Suc (vx_asked s)\<rparr>"
  by (auto simp: ask_vault_def)

lemma vault_context_server: "vault_context vo s = (Inr u, t) \<Longrightarrow> vx_server t = vx_server s"
  by (auto simp: vault_context_def bindS_Inr ask_vault_Inr action_Inr split: option.splits)

section \<open>A secret from staging to its path\<close>

lemma http_stage_held:
  assumes "kv_documented vo vc held paths" and "build_vault_staging_path rid \<in> set paths"
    and "http_stage_at vo vc rid final metadata d s = (Inr st, t)"
  shows "st = \<lparr>staging_path = build_vault_staging_path rid, final_path = final\<rparr> \<and>
    held (vx_server t) = (held (vx_server s))(data_key vc (build_vault_staging_path rid) := Some d)"
proof -
  obtain a b m w where start: "vault_context vo s = (Inr (), a)" and written: "write_kv vo vc (build_vault_staging_path rid) d a = (Inr (), b)"
      and named: "write_kv_metadata vo vc (build_vault_staging_path rid) m (b\<lparr>vx_asked := Suc (vx_asked b)\<rparr>) = (Inr (), w)"
      and st: "returnS \<lparr>staging_path = build_vault_staging_path rid, final_path = final\<rparr> w = (Inr st, t)"
    using assms(3)
    by (auto simp: http_stage_at_def Let_def bindS_Inr ask_vault_Inr action_Inr split: if_splits)
  then show ?thesis
    using write_kv_held [OF assms(1,2) written] write_kv_metadata_held [OF assms(1,2) named] vault_context_server [OF start]
    by (simp add: action_Inr)
qed

lemma http_finalize_held:
  assumes "kv_documented vo vc held paths" and "{staging_path st, final_path st} \<subseteq> set paths"
    and "http_finalize vo vc st d s = (Inr u, t)"
  shows "held (vx_server t) =
    (held (vx_server s))(data_key vc (final_path st) := Some d, data_key vc (staging_path st) := None)"
proof -
  have paths: "staging_path st \<in> set paths" "final_path st \<in> set paths" using assms(2) by auto
  obtain a found b c e where start: "vault_context vo s = (Inr (), a)"
      and asked: "read_kv_metadata vo vc (staging_path st) a = (Inr found, b)"
      and written: "write_kv vo vc (final_path st) d b = (Inr (), c)"
      and named: "(case found of
        None \<Rightarrow> returnS ()
      | Some m \<Rightarrow>
          if km_custom m = [] then returnS ()
          else bindS (ask_vault (vo_clock vo)) (\<lambda>now.
            write_kv_metadata vo vc (final_path st)
              (AList.update ''updatedAt'' (vo_show_time vo now) (AList.update ''status'' ''finalized'' (km_custom m))))) c =
        (Inr (), e)"
      and removed: "delete_kv_metadata vo vc (staging_path st) e = (Inr u, t)"
    using assms(3) unfolding http_finalize_def bindS_unit bindS_Inr by blast
  have "held (vx_server e) = held (vx_server c)"
    using named write_kv_metadata_held [OF assms(1) paths(2)]
    by (cases found) (auto simp: bindS_Inr ask_vault_Inr action_Inr split: if_splits)
  then show ?thesis
    using vault_context_server [OF start] read_kv_metadata_held [OF assms(1) paths(1) asked]
      write_kv_held [OF assms(1) paths(2) written] delete_kv_metadata_held [OF assms(1) paths(1) removed] by simp
qed

text \<open>
  C3: A secret that is staged and then finalised over the HTTP API of a server that keeps its documented
  behaviour stands at its path with the finalised data, its staging is gone, and every other secret of the
  server is what it was.
\<close>

theorem http_secret_published:
  assumes documented: "kv_documented vo vc held [build_vault_staging_path rid, final]"
    and apart: "data_key vc final \<noteq> data_key vc (build_vault_staging_path rid)"
    and stage: "http_stage_at vo vc rid final metadata d s = (Inr st, t)"
    and finalize: "http_finalize vo vc st d' t = (Inr (), u)"
  shows "held (vx_server u) = (held (vx_server s))
    (data_key vc (build_vault_staging_path rid) := None, data_key vc final := Some d')"
proof -
  have st: "st = \<lparr>staging_path = build_vault_staging_path rid, final_path = final\<rparr>"
      "held (vx_server t) = (held (vx_server s))(data_key vc (build_vault_staging_path rid) := Some d)"
    using http_stage_held [OF documented _ stage] by simp_all
  then have "{staging_path st, final_path st} \<subseteq> set [build_vault_staging_path rid, final]" by simp
  from http_finalize_held [OF documented this finalize] st apart show ?thesis
    by (simp add: fun_upd_twist)
qed

section \<open>A plain server\<close>

text \<open>A server for one staging and one path that keeps its word and forgets the rest.\<close>

definition plain_client :: vault_client where
  "plain_client = \<lparr>vc_address = ''http://vault:8200'', vc_token = ''t'', vc_namespace = []\<rparr>"

definition plain_call :: "vault_call \<Rightarrow> (string \<times> string) list \<Rightarrow> vault_answer \<times> (string \<times> string) list" where
  "plain_call r v =
    (case (str_cut ''/data/'' (vr_url r), str_cut ''/metadata/'' (vr_url r)) of
       (Some (a, b), _) \<Rightarrow>
         (if vr_method r = ''POST'' then (VaultAnswered 200 [] ''200 OK'',
            (case vr_body r of None \<Rightarrow> v | Some text \<Rightarrow> AList.update (vr_url r) text v))
          else (VaultAnswered 404 [] ''404 Not Found'', v))
     | (None, Some (a, b)) \<Rightarrow>
         (if vr_method r = ''DELETE'' then (VaultAnswered 204 [] ''204 No Content'', AList.delete (a @ ''/data/'' @ b) v)
          else if vr_method r = ''POST'' then (VaultAnswered 204 [] ''204 No Content'', v)
          else (VaultAnswered 404 [] ''404 Not Found'', v))
     | (None, None) \<Rightarrow> (VaultAnswered 404 [] ''404 Not Found'', v))"

text \<open>A plain encoding of secrets: every byte marked, every text ended.\<close>

definition pack :: "string \<Rightarrow> string" where
  "pack t = concat (map (\<lambda>c. [CHR ''+'', c]) t) @ ''.''"

fun unpack :: "string \<Rightarrow> string \<Rightarrow> string list" where
  "unpack acc (m # s) =
    (if m = CHR ''.'' then acc # unpack [] s else case s of [] \<Rightarrow> [] | c # cs \<Rightarrow> unpack (acc @ [c]) cs)"
| "unpack acc [] = []"

fun pair_up :: "string list \<Rightarrow> secret_data" where
  "pair_up (k # v # rest) = (k, v) # pair_up rest"
| "pair_up _ = []"

definition pack_all :: "secret_data \<Rightarrow> string" where
  "pack_all d = concat (map (\<lambda>kv. pack (fst kv) @ pack (snd kv)) d)"

lemma unpack_pack: "unpack acc (pack t @ s) = (acc @ t) # unpack [] s"
  by (induction t arbitrary: acc) (simp_all add: pack_def)

lemma unpack_all: "pair_up (unpack [] (pack_all d)) = d"
  by (induction d) (simp_all add: pack_all_def unpack_pack)

definition plain_held :: "(string \<times> string) list \<Rightarrow> string \<Rightarrow> secret_data option" where
  "plain_held v key = map_option (\<lambda>t. pair_up (unpack [] t)) (map_of v key)"

definition plain_outside :: "(string \<times> string) list vault_outside" where
  "plain_outside = \<lparr>vo_call = plain_call, vo_context = (\<lambda>_. None), vo_clock = (\<lambda>n. int n), vo_show_time = show_int,
     vo_parse_time = atoi, vo_encode_data = pack_all, vo_encode_metadata = (\<lambda>_. ''{}''),
     vo_decode_data = (\<lambda>t. Inr (pair_up (unpack [] t))), vo_decode_version = (\<lambda>_. Inl ''none''),
     vo_decode_metadata = (\<lambda>_. Inl ''none''), vo_decode_keys = (\<lambda>_. Inl ''none'')\<rparr>"

definition plain_paths :: "string list" where
  "plain_paths = [build_vault_staging_path ''req_1'', ''secret/aods/apps/shop/web/prod'']"

lemma plain_endpoints:
  "kv_endpoint plain_client (build_vault_staging_path ''req_1'') ''data'' = Inr ''http://vault:8200/v1/secret/data/aods/staging/req_1''"
  "kv_endpoint plain_client (build_vault_staging_path ''req_1'') ''metadata'' =
    Inr ''http://vault:8200/v1/secret/metadata/aods/staging/req_1''"
  "kv_endpoint plain_client ''secret/aods/apps/shop/web/prod'' ''data'' =
    Inr ''http://vault:8200/v1/secret/data/aods/apps/shop/web/prod''"
  "kv_endpoint plain_client ''secret/aods/apps/shop/web/prod'' ''metadata'' =
    Inr ''http://vault:8200/v1/secret/metadata/aods/apps/shop/web/prod''"
  by code_simp+

lemma plain_cuts:
  "str_cut ''/data/'' ''http://vault:8200/v1/secret/data/aods/staging/req_1'' = Some (''http://vault:8200/v1/secret'', ''aods/staging/req_1'')"
  "str_cut ''/data/'' ''http://vault:8200/v1/secret/data/aods/apps/shop/web/prod'' =
    Some (''http://vault:8200/v1/secret'', ''aods/apps/shop/web/prod'')"
  "str_cut ''/data/'' ''http://vault:8200/v1/secret/metadata/aods/staging/req_1'' = None"
  "str_cut ''/data/'' ''http://vault:8200/v1/secret/metadata/aods/apps/shop/web/prod'' = None"
  "str_cut ''/metadata/'' ''http://vault:8200/v1/secret/metadata/aods/staging/req_1'' =
    Some (''http://vault:8200/v1/secret'', ''aods/staging/req_1'')"
  "str_cut ''/metadata/'' ''http://vault:8200/v1/secret/metadata/aods/apps/shop/web/prod'' =
    Some (''http://vault:8200/v1/secret'', ''aods/apps/shop/web/prod'')"
  by code_simp+

lemma plain_writing: "str_cut ''/data/'' dest = Some (a, b) \<Longrightarrow> writing_sets plain_outside plain_held dest"
  by (auto simp: writing_sets_def plain_outside_def plain_call_def plain_held_def fun_eq_iff update_conv' unpack_all)

lemma plain_keeping:
  "str_cut ''/data/'' meta = None \<Longrightarrow> metadata_keeps plain_outside plain_held meta"
  by (auto simp: metadata_keeps_def plain_outside_def plain_call_def split: option.splits)

lemma plain_deleting:
  assumes "str_cut ''/data/'' meta = None" and "str_cut ''/metadata/'' meta = Some (a, b)" and "dest = a @ ''/data/'' @ b"
  shows "deleting_clears plain_outside plain_held meta dest"
proof -
  have call: "vo_call plain_outside r v = (VaultAnswered 204 [] ''204 No Content'', AList.delete dest v)"
    if "vr_method r = ''DELETE''" "vr_url r = meta" for r v
    using assms that by (simp add: plain_outside_def plain_call_def)
  have "plain_held (AList.delete dest v) = (plain_held v)(dest := None)" for v
    by (simp add: plain_held_def fun_eq_iff delete_conv')
  then show ?thesis unfolding deleting_clears_def using call by (metis snd_conv prod.inject)
qed

lemma plain_documented: "kv_documented plain_outside plain_client plain_held plain_paths"
  unfolding kv_documented_def
proof (intro allI impI)
  fix p dest meta
  assume asked: "p \<in> set plain_paths \<and> kv_endpoint plain_client p ''data'' = Inr dest \<and>
    kv_endpoint plain_client p ''metadata'' = Inr meta"
  then consider "p = build_vault_staging_path ''req_1''" | "p = ''secret/aods/apps/shop/web/prod''"
    by (auto simp: plain_paths_def)
  then show "writing_sets plain_outside plain_held dest \<and> metadata_keeps plain_outside plain_held meta \<and>
    deleting_clears plain_outside plain_held meta dest"
  proof cases
    case 1
    with asked have "dest = ''http://vault:8200/v1/secret/data/aods/staging/req_1''"
        "meta = ''http://vault:8200/v1/secret/metadata/aods/staging/req_1''"
      by (simp_all only: plain_endpoints sum.inject)
    then show ?thesis
      using plain_writing [OF plain_cuts(1)] plain_keeping [OF plain_cuts(3)] plain_deleting [OF plain_cuts(3,5)] by simp
  next
    case 2
    with asked have "dest = ''http://vault:8200/v1/secret/data/aods/apps/shop/web/prod''"
        "meta = ''http://vault:8200/v1/secret/metadata/aods/apps/shop/web/prod''"
      by (simp_all only: plain_endpoints sum.inject)
    then show ?thesis
      using plain_writing [OF plain_cuts(2)] plain_keeping [OF plain_cuts(4)] plain_deleting [OF plain_cuts(4,6)] by simp
  qed
qed

definition plain_start :: "(string \<times> string) list vault_session" where
  "plain_start = \<lparr>vx_server = [], vx_asked = 0\<rparr>"

lemma plain_run:
  "isOk (fst (bindS (http_stage_at plain_outside plain_client ''req_1'' ''secret/aods/apps/shop/web/prod'' [] [(''k'', ''old'')])
    (\<lambda>st. http_finalize plain_outside plain_client st [(''k'', ''new'')]) plain_start))"
  by code_simp

theorem http_secret_published_witness:
  "\<exists>st t u. http_stage_at plain_outside plain_client ''req_1'' ''secret/aods/apps/shop/web/prod'' [] [(''k'', ''old'')] plain_start =
      (Inr st, t) \<and> http_finalize plain_outside plain_client st [(''k'', ''new'')] t = (Inr (), u) \<and>
    plain_held (vx_server u) ''http://vault:8200/v1/secret/data/aods/apps/shop/web/prod'' = Some [(''k'', ''new'')] \<and>
    plain_held (vx_server u) ''http://vault:8200/v1/secret/data/aods/staging/req_1'' = None"
proof -
  obtain u where "bindS (http_stage_at plain_outside plain_client ''req_1'' ''secret/aods/apps/shop/web/prod'' [] [(''k'', ''old'')])
    (\<lambda>st. http_finalize plain_outside plain_client st [(''k'', ''new'')]) plain_start = (Inr (), u)"
    using isOk_run [OF plain_run] by auto
  then obtain st t where runs: "http_stage_at plain_outside plain_client ''req_1'' ''secret/aods/apps/shop/web/prod'' [] [(''k'', ''old'')]
      plain_start = (Inr st, t)" "http_finalize plain_outside plain_client st [(''k'', ''new'')] t = (Inr (), u)"
    by (auto simp: bindS_Inr)
  have keys: "data_key plain_client ''secret/aods/apps/shop/web/prod'' = ''http://vault:8200/v1/secret/data/aods/apps/shop/web/prod''"
      "data_key plain_client (build_vault_staging_path ''req_1'') = ''http://vault:8200/v1/secret/data/aods/staging/req_1''"
    by (simp_all add: data_key_def plain_endpoints)
  have "plain_held (vx_server u) = (plain_held (vx_server plain_start))
      (data_key plain_client (build_vault_staging_path ''req_1'') := None,
       data_key plain_client ''secret/aods/apps/shop/web/prod'' := Some [(''k'', ''new'')])"
    by (rule http_secret_published [OF plain_documented [unfolded plain_paths_def] _ runs]) (simp add: keys)
  then show ?thesis using runs by (auto simp: keys)
qed

section \<open>The cleanup\<close>

lemma leaf_cleaned:
  assumes "kv_documented vo vc held paths" and "p \<in> set paths" and "clean_leaf vo vc cutoff p s = (Inr n, t)"
  shows "n = 0 \<and> held (vx_server t) = held (vx_server s) \<or>
    n = 1 \<and> held (vx_server t) = (held (vx_server s))(data_key vc p := None) \<and>
      (\<exists>m u. read_kv_metadata vo vc p s = (Inr (Some m), u) \<and> stale_pending_commit vo m cutoff)"
proof -
  obtain found u where asked: "read_kv_metadata vo vc p s = (Inr found, u)"
      and rest: "(case found of None \<Rightarrow> returnS 0 | Some m \<Rightarrow> if stale_pending_commit vo m cutoff
        then bindS (delete_kv_metadata vo vc p) (\<lambda>_. returnS 1) else returnS 0) u = (Inr n, t)"
    using assms(3) by (auto simp: clean_leaf_def bindS_Inr)
  note same = read_kv_metadata_held [OF assms(1,2) asked]
  show ?thesis
  proof (cases "\<exists>m. found = Some m \<and> stale_pending_commit vo m cutoff")
    case True
    then have "n = 1" and "delete_kv_metadata vo vc p u = (Inr (), t)"
      using rest by (auto simp: bindS_Inr action_Inr)
    then show ?thesis using True asked same delete_kv_metadata_held [OF assms(1,2)] by auto
  next
    case False
    then have "n = 0 \<and> t = u" using rest by (auto simp: action_Inr split: option.splits if_splits)
    then show ?thesis using same by simp
  qed
qed

text \<open>More fuel gives the same result.\<close>

lemma clean_keys_mono:
  assumes "\<And>p s r. below p s = Some r \<Longrightarrow> below' p s = Some r"
  shows "clean_keys vo vc cutoff below path keys s = Some r \<Longrightarrow> clean_keys vo vc cutoff below' path keys s = Some r"
proof (induction keys arbitrary: s r)
  case (Cons raw keys)
  let ?key = "trim_space raw"
  let ?child = "path @ ''/'' @ trim_suffix ''/'' ?key"
  obtain c t where start: "vault_context vo s = (c, t)" by (cases "vault_context vo s")
  show ?case
  proof (cases "isOk c \<and> ?key \<noteq> [] \<and> suffix ''/'' ?key")
    case True
    obtain n e u where first: "below ?child t = Some (n, e, u)"
      using Cons.prems start True by (cases "below ?child t"; cases c) (auto simp: Let_def)
    show ?thesis
      using Cons.prems start True first assms [OF first] Cons.IH
      by (cases c; cases e) (auto simp: Let_def)
  next
    case False
    then show ?thesis
      using Cons.prems start Cons.IH
      by (cases c) (auto simp: Let_def split: if_splits prod.splits option.splits sum.splits)
  qed
qed simp

lemma clean_under_mono:
  "clean_under vo vc cutoff n path s = Some r \<Longrightarrow> clean_under vo vc cutoff (Suc n) path s = Some r"
proof (induction n arbitrary: path s r)
  case (Suc n)
  then show ?case
    using clean_keys_mono [of "clean_under vo vc cutoff n" "clean_under vo vc cutoff (Suc n)"]
    by (auto simp del: clean_under.simps(2) simp: clean_under.simps(2) [of vo vc cutoff "Suc n"]
        clean_under.simps(2) [of vo vc cutoff n] split: prod.splits sum.splits)
qed simp

text \<open>A server whose tree is not deeper than a number of slashes: no directory is named that deep.\<close>

definition slashes :: "string \<Rightarrow> nat" where
  "slashes path = length (filter (\<lambda>c. c = CHR ''/'') path)"

definition shallow :: "'v vault_outside \<Rightarrow> vault_client \<Rightarrow> nat \<Rightarrow> bool" where
  "shallow vo vc d \<longleftrightarrow> (\<forall>path s keys t. list_metadata_keys vo vc path s = (Inr keys, t) \<and> d \<le> slashes path \<longrightarrow>
    (\<forall>k \<in> set keys. \<not> suffix ''/'' (trim_space k)))"

lemma clean_keys_ends:
  assumes "\<And>k t. k \<in> set keys \<Longrightarrow> suffix ''/'' (trim_space k) \<Longrightarrow>
    below (path @ ''/'' @ trim_suffix ''/'' (trim_space k)) t \<noteq> None"
  shows "clean_keys vo vc cutoff below path keys s \<noteq> None"
  using assms
proof (induction keys arbitrary: s)
  case (Cons raw keys)
  have rest: "\<And>s. clean_keys vo vc cutoff below path keys s \<noteq> None" using Cons by simp
  obtain c t where start: "vault_context vo s = (c, t)" by (cases "vault_context vo s")
  show ?case
    using start rest Cons.prems [of raw t]
    by (cases c) (auto simp: Let_def rest simp del: not_None_eq split: prod.splits option.split sum.splits)
qed simp

lemma clean_under_ends:
  assumes "shallow vo vc d"
  shows "d \<le> slashes path + n \<Longrightarrow> clean_under vo vc cutoff (Suc n) path s \<noteq> None"
proof (induction n arbitrary: path s)
  case 0
  obtain r t where listed: "list_metadata_keys vo vc path s = (r, t)" by (cases "list_metadata_keys vo vc path s")
  have "clean_keys vo vc cutoff (clean_under vo vc cutoff 0) path keys t \<noteq> None" if "r = Inr keys" for keys
    by (rule clean_keys_ends) (use assms 0 that listed in \<open>auto simp: shallow_def\<close>)
  then show ?case using listed by (cases r) (simp_all del: clean_keys.simps not_None_eq)
next
  case (Suc n)
  obtain r t where listed: "list_metadata_keys vo vc path s = (r, t)" by (cases "list_metadata_keys vo vc path s")
  have "clean_under vo vc cutoff (Suc n) (path @ ''/'' @ rest) u \<noteq> None" for rest u
    using Suc by (simp add: slashes_def del: clean_under.simps)
  then show ?case
    using listed clean_keys_ends [where below = "clean_under vo vc cutoff (Suc n)"]
    by (cases r)
      (simp_all add: clean_under.simps(2) [of vo vc cutoff "Suc n"] del: clean_keys.simps clean_under.simps not_None_eq)
qed

lemma http_cleanup_ends:
  assumes "shallow vo vc d"
  shows "\<exists>r. http_cleanup_stale vo vc (Suc d) cutoff s = Some r"
  using clean_under_ends [OF assms, of vault_staging_root_path d]
  by (auto simp: http_cleanup_stale_def simp del: clean_under.simps split: prod.splits sum.splits)

end
