(* ===== verification/ProjectServiceLaws.thy ===== *)
theory ProjectServiceLaws
  imports ProjectService
begin

text \<open>
  What the handlers of package project guarantee: only authorised users change the catalog, a created
  project is read back as it was normalised with its creator as administrator, and an update of
  policies changes one project's policies and no other file.
\<close>

lemma bindS_readS_state:
  "snd (bindS (readS g) f s) \<noteq> s \<Longrightarrow> \<exists>x. g s = Inr x \<and> snd (f x s) \<noteq> s"
  by (auto simp: bindS_run split: sum.splits)

lemma find_split: "find P xs = Some x \<Longrightarrow> \<exists>a b. xs = a @ x # b \<and> P x \<and> (\<forall>y \<in> set a. \<not> P y)"
proof (induction xs)
  case (Cons y ys)
  show ?case
  proof (cases "P y")
    case True
    with Cons.prems show ?thesis by (intro exI [of _ "[]"] exI [of _ ys]) simp
  next
    case False
    with Cons obtain a b where "ys = a @ x # b" "P x" "\<forall>z \<in> set a. \<not> P z" by auto
    with False show ?thesis by (intro exI [of _ "y # a"] exI [of _ b]) auto
  qed
qed simp

lemma find_middle: "P x \<Longrightarrow> \<forall>y \<in> set a. \<not> P y \<Longrightarrow> find P (a @ x # b) = Some x"
  by (induction a) auto

lemma get_authorized_Inr:
  "get_authorized sv u pid repo = Inr z \<longleftrightarrow>
    (\<exists>items. list_projects repo = Inr items \<and> find (\<lambda>p. cp_id p = pid) items = Some (ap_project z) \<and>
      resolve_role_with_platform_admins (user_groups u) (cp_access (ap_project z))
        (effective_platform_admin_authorities (sv_admins sv)) = Some (ap_role z))"
  by (cases z) (auto simp: get_authorized_def bindR_eq_Inr split: option.splits)

lemma admin_idem [simp]:
  "is_platform_admin u (effective_platform_admin_authorities a) = is_platform_admin u a"
  "resolve_role_with_platform_admins gs acc (effective_platform_admin_authorities a) =
    resolve_role_with_platform_admins gs acc a"
  by (simp_all add: is_platform_admin_def resolve_role_with_platform_admins_def)

lemma admin_role: "is_platform_admin u a \<Longrightarrow> resolve_role_with_platform_admins (user_groups u) acc a = Some RoleAdmin"
  by (simp add: is_platform_admin_def resolve_role_with_platform_admins_def)

section \<open>Created projects\<close>

lemma normalised_clusters:
  assumes "normalize_create_environments es = Inr xs" and "e \<in> set (apply_environment_defaults xs)"
  shows "cluster_name (env_cluster e)"
proof -
  have loop: "normalize_create_environments_loop seen es = Inr xs \<Longrightarrow>
      list_all (\<lambda>c. c = [] \<or> slug_pattern c) (map env_cluster xs)" for seen es xs
  proof (induction es arbitrary: seen xs)
    case (Cons e es)
    from Cons.prems show ?case by (rule environments_loop_step) (use Cons.IH in auto)
  qed simp
  have d: "slug_pattern ''default''" by (simp add: slug_pattern_def slug_alnum_def)
  have items: "list_all (\<lambda>c. c = [] \<or> slug_pattern c) (map env_cluster xs) \<Longrightarrow>
      list_all slug_pattern (map env_cluster (environment_items k i xs))" for k i xs
    by (induction k i xs rule: environment_items.induct) (auto simp: d)
  have "list_all (\<lambda>c. c = [] \<or> slug_pattern c) (map env_cluster xs)"
    using assms(1) loop by (auto simp: normalize_create_environments_def)
  from items [OF this] have "list_all slug_pattern (map env_cluster (apply_environment_defaults xs))"
    using d by (auto simp: apply_environment_defaults_def Let_def list_all_iff split: list.splits)
      (metis list.set_intros)+
  with assms(2) slug_cluster_name show ?thesis by (auto simp: list_all_iff)
qed

text \<open>
  When a project is created, the caller is a platform administrator, the project is well formed,
  the catalog lists the old projects and then it, the caller reads it back with the administrator
  role, and no file outside the catalog and platform/flux changes.
\<close>

theorem created_project_listed:
  assumes "create_project sv u input s = (Inr y, t)" and "list_projects (pf_repo s) = Inr items"
  shows "is_platform_admin u (sv_admins sv) \<and> pf_vault t = pf_vault s \<and>
    (\<exists>p. well_formed_project p \<and> y = summary_of p RoleAdmin \<and> cp_id p \<notin> cp_id ` set items \<and>
      list_projects (pf_repo t) = Inr (items @ [p]) \<and>
      get_authorized sv u (cp_id p) (pf_repo t) = Inr \<lparr>ap_project = p, ap_role = RoleAdmin\<rparr>) \<and>
    (\<forall>q. \<not> prefix [''platform'', ''flux''] q \<longrightarrow> q \<noteq> catalog_path \<longrightarrow> fs_read (pf_repo t) q = fs_read (pf_repo s) q)"
proof -
  from assms(1) have adm: "is_platform_admin u (sv_admins sv)"
    by (auto simp: create_project_def failS_def split: if_splits)
  with assms(1) obtain n c repo where
    n: "normalize_create_request (cluster_catalog_ids sv (pf_repo s)) (sv_admins sv) input = Inr n"
    and c: "source_create_project (sv_flux sv) n (pf_repo s) = (Inr c, repo)"
    and t: "t = s\<lparr>pf_repo := repo\<rparr>" and y: "y = summary_of c RoleAdmin"
    by (auto simp: create_project_def bindS_Inr action_Inr on_repo_Inr admin_role)
  from n obtain xs where xs: "normalize_create_environments (cp_environments input) = Inr xs"
    and e: "cp_environments n = apply_environment_defaults xs" and slug: "slug_pattern (cp_id n)"
    by (rule normalize_create_request_unfold)
  have names: "\<forall>e \<in> set (cp_environments n). cluster_name (env_cluster e)"
    using normalised_clusters [OF xs] e by simp
  note ok = source_create_project_ok [OF c names assms(2)]
  have cn: "c = n" using ok(1) normalised_fixpoint [OF n] by simp
  have fresh: "cp_id n \<notin> cp_id ` set items"
  proof
    assume "cp_id n \<in> cp_id ` set items"
    moreover obtain ps where ps: "fs_read (pf_repo s) catalog_path = Some (CCatalog ps)"
        "items = map apply_project_defaults ps"
      using assms(2) unfolding list_projects_iff by blast
    ultimately have "list_ex (\<lambda>p. trim_space (cp_id p) = cp_id n) ps"
      using slug_trim [OF slug] by (auto simp: list_ex_iff)
    with c ps show False by (simp add: source_create_project_def read_catalog_def)
  qed
  have "find (\<lambda>p. cp_id p = cp_id n) (items @ [n]) = Some n" 
    by (rule find_middle) (use fresh in \<open>simp_all add: image_iff\<close>, metis)
  then have "get_authorized sv u (cp_id n) repo = Inr \<lparr>ap_project = n, ap_role = RoleAdmin\<rparr>"
    using ok(2) admin_role [OF adm] by (simp add: get_authorized_Inr cn)
  then show ?thesis
    using adm normalised_well_formed [OF n] y fresh ok(2,3) by (auto simp: t cn)
qed

section \<open>Updated policies\<close>

text \<open>
  An update of policies by an administrator of the project stores the policies with their
  defaults and returns them; the other projects, the rest of the entry and every other file are
  unchanged.
\<close>

theorem policies_updated:
  assumes "update_policies sv u pid q s = (Inr r, t)"
  shows "\<exists>a p b. list_projects (pf_repo s) = Inr (a @ p # b) \<and> cp_id p = pid \<and> pid \<notin> cp_id ` set a \<and>
    resolve_role_with_platform_admins (user_groups u) (cp_access p) (sv_admins sv) = Some RoleAdmin \<and>
    r = apply_policy_defaults q (cp_environments p) \<and>
    list_projects (pf_repo t) = Inr (a @ p\<lparr>cp_policies := r\<rparr> # b) \<and> pf_vault t = pf_vault s \<and>
    (\<forall>x. x \<noteq> catalog_path \<longrightarrow> fs_read (pf_repo t) x = fs_read (pf_repo s) x)"
proof -
  from assms obtain z c repo where
    z: "get_authorized sv u pid (pf_repo s) = Inr z" and adm: "can_admin (ap_role z)"
    and c: "source_update_policies pid (apply_policy_defaults q (cp_environments (ap_project z))) (pf_repo s) = (Inr c, repo)"
    and t: "t = s\<lparr>pf_repo := repo\<rparr>" and r: "r = cp_policies c"
    by (auto simp: update_policies_def bindS_Inr action_Inr on_repo_Inr split: if_splits)
  let ?q = "apply_policy_defaults q (cp_environments (ap_project z))"
  from z obtain items where items: "list_projects (pf_repo s) = Inr items"
    "find (\<lambda>p. cp_id p = pid) items = Some (ap_project z)"
    "resolve_role_with_platform_admins (user_groups u) (cp_access (ap_project z)) (sv_admins sv) = Some RoleAdmin"
    using adm by (auto simp: get_authorized_Inr can_admin_def)
  then obtain ps where ps: "fs_read (pf_repo s) catalog_path = Some (CCatalog ps)" "items = map apply_project_defaults ps"
    unfolding list_projects_iff by blast
  from c ps obtain ps' where ps': "replace_policies pid ?q ps = Some ps'"
      "repo = fs_write catalog_path (CCatalog ps') (pf_repo s)"
    and found: "bindR (list_projects repo) (\<lambda>items. case find (\<lambda>p. cp_id p = pid) items of
        Some p \<Rightarrow> Inr p | None \<Rightarrow> Inl ErrProjectNotFound) = Inr c"
    by (auto simp: source_update_policies_def existing_catalog_iff [THEN iffD2] Let_def split: option.splits)
  from replace_policies_ok [OF ps'(1)] obtain a p b where
    s: "ps = a @ p # b" "cp_id p = pid" "pid \<notin> cp_id ` set a" "ps' = a @ p\<lparr>cp_policies := ?q\<rparr> # b" by blast
  have na: "\<forall>y \<in> set (map apply_project_defaults a). cp_id y \<noteq> pid" using s(3) by auto
  have "find (\<lambda>p. cp_id p = pid) items = Some (apply_project_defaults p)"
    unfolding ps(2) s(1) map_append list.map by (rule find_middle) (use s(2) na in simp_all)
  with items(2) have zp: "ap_project z = apply_project_defaults p" by simp
  have new: "apply_project_defaults (p\<lparr>cp_policies := ?q\<rparr>) = (apply_project_defaults p)\<lparr>cp_policies := ?q\<rparr>"
    unfolding zp by (cases p) (simp add: apply_project_defaults_def Let_def apply_policy_defaults_idem)
  have listed: "list_projects repo = Inr (map apply_project_defaults a @
      (apply_project_defaults p)\<lparr>cp_policies := ?q\<rparr> # map apply_project_defaults b)"
    unfolding list_projects_iff using ps'(2) new by (auto simp: tree.read_write s(4))
  have "find (\<lambda>p. cp_id p = pid) (map apply_project_defaults a @
      (apply_project_defaults p)\<lparr>cp_policies := ?q\<rparr> # map apply_project_defaults b) =
      Some ((apply_project_defaults p)\<lparr>cp_policies := ?q\<rparr>)"
    by (rule find_middle) (use s(2) na in simp_all)
  with found listed have "c = (apply_project_defaults p)\<lparr>cp_policies := ?q\<rparr>" by simp
  with r have r': "r = ?q" by simp
  show ?thesis
    by (intro exI [of _ "map apply_project_defaults a"] exI [of _ "apply_project_defaults p"]
        exI [of _ "map apply_project_defaults b"])
       (use items(1,3) ps(2) s(1,2,3) zp r' listed in \<open>auto simp: t ps'(2) tree.read_write\<close>)
qed

section \<open>Authorisation\<close>

text \<open>
  C10: a handler of package project that changes the state was called by an authorised user: a
  platform administrator for creating and deleting (and the deleted project is not protected), an
  administrator of the project for updating policies.
\<close>

theorem project_writes_authorised:
  fixes s :: "'b platform_scheme"
  shows "(snd (create_project sv u input s) \<noteq> s \<longrightarrow> is_platform_admin u (sv_admins sv)) \<and>
    (snd (delete_project sv now u pid s) \<noteq> s \<longrightarrow> is_platform_admin u (sv_admins sv) \<and>
      (\<exists>p. get_project pid (pf_repo s) = Inr p \<and> \<not> is_protected_project p)) \<and>
    (snd (update_policies sv u pid q s) \<noteq> s \<longrightarrow>
      (\<exists>z. get_authorized sv u pid (pf_repo s) = Inr z \<and> ap_role z = RoleAdmin))"
proof (intro conjI impI)
  assume "snd (create_project sv u input s) \<noteq> s"
  then show "is_platform_admin u (sv_admins sv)" by (auto simp: create_project_def failS_def split: if_splits)
next
  assume d: "snd (delete_project sv now u pid s) \<noteq> s"
  then show adm: "is_platform_admin u (sv_admins sv)" by (auto simp: delete_project_def failS_def split: if_splits)
  with d show "\<exists>p. get_project pid (pf_repo s) = Inr p \<and> \<not> is_protected_project p"
    by (auto simp: delete_project_def failS_def dest!: bindS_readS_state split: if_splits)
next
  assume "snd (update_policies sv u pid q s) \<noteq> s"
  then show "\<exists>z. get_authorized sv u pid (pf_repo s) = Inr z \<and> ap_role z = RoleAdmin"
    by (auto simp: update_policies_def failS_def can_admin_def dest!: bindS_readS_state split: if_splits)
qed

section \<open>Witnesses\<close>

definition demo_admin :: user where
  "demo_admin = \<lparr>user_id = ''1'', user_name = ''root'', user_display = ''root'', user_groups = [platform_admin_group]\<rparr>"

definition demo_service :: project_service where
  "demo_service = \<lparr>sv_flux = \<lparr>fc_namespace = [], fc_source = []\<rparr>, sv_admins = [], sv_clusters = True\<rparr>"

definition demo_platform :: platform where
  "demo_platform = \<lparr>pf_repo = [(catalog_path, CCatalog [demo_project_input])],
     pf_vault = \<lparr>vault_root = ''/v'', vault_files = []\<rparr>\<rparr>"

definition shop_input :: catalog_project where
  "shop_input = demo_project_input\<lparr>cp_id := ''shop'', cp_name := ''shop''\<rparr>"

lemma demo_catalog: "list_projects (pf_repo demo_platform) = Inr [apply_project_defaults demo_project_input]"
  by (simp add: list_projects_def existing_catalog_def read_catalog_def demo_platform_def fs_read_def)

theorem created_project_listed_witness:
  "\<exists>y t. create_project demo_service demo_admin shop_input demo_platform = (Inr y, t) \<and>
    (\<exists>p. list_projects (pf_repo t) = Inr [apply_project_defaults demo_project_input, p])"
proof -
  have "isOk (fst (create_project demo_service demo_admin shop_input demo_platform))" by code_simp
  from isOk_run [OF this] obtain y t
    where yt: "create_project demo_service demo_admin shop_input demo_platform = (Inr y, t)" by blast
  from created_project_listed [OF yt demo_catalog] yt show ?thesis by fastforce
qed

theorem policies_updated_witness:
  "\<exists>r t. update_policies demo_service demo_admin ''demo'' (cp_policies demo_project_input) demo_platform = (Inr r, t) \<and>
    pf_vault t = pf_vault demo_platform"
proof -
  have "isOk (fst (update_policies demo_service demo_admin ''demo'' (cp_policies demo_project_input) demo_platform))"
    by code_simp
  from isOk_run [OF this] obtain r t where rt:
    "update_policies demo_service demo_admin ''demo'' (cp_policies demo_project_input) demo_platform = (Inr r, t)" by blast
  from policies_updated [OF rt] rt show ?thesis by blast
qed

theorem project_writes_authorised_witness: "is_platform_admin demo_admin (sv_admins demo_service)"
proof -
  have "length (pf_repo (snd (create_project demo_service demo_admin shop_input demo_platform))) \<noteq>
      length (pf_repo demo_platform)" by code_simp
  then have "snd (create_project demo_service demo_admin shop_input demo_platform) \<noteq> demo_platform" by metis
  with project_writes_authorised [of demo_service demo_admin shop_input demo_platform] show ?thesis by blast
qed

end
