(* ===== verification/DeployQueueLaws.thy ===== *)
theory DeployQueueLaws
  imports DeployQueue
begin

text \<open>
  The queue as a state machine: the steps of the service and of the workers, the invariant of every
  reachable state (an operation is never tried more often than its limit, and a running row is leased),
  and what follows: a finished operation is never touched again, and two workers never have operations
  of one lock key in hand while the leases last. A worker that lost track of a running row (a failed
  update, a restart under the same id) may claim again, also on the same key: the steps allow it.
\<close>

section \<open>Steps\<close>

text \<open>A new operation as the service prepares it, and the copy of a row that a worker works on.\<close>

definition fresh_operation :: "operation \<Rightarrow> bool" where
  "fresh_operation o1 \<longleftrightarrow> op_status o1 = OpQueued \<and> op_attempts o1 = 0 \<and> op_lease_owner o1 = []"

definition running :: "operation \<Rightarrow> bool" where
  "running r \<longleftrightarrow> op_status r = OpRunning"

definition copy_of :: "operation \<Rightarrow> operation \<Rightarrow> bool" where
  "copy_of r o1 \<longleftrightarrow> op_id o1 = op_id r \<and> op_lock_key o1 = op_lock_key r \<and> op_lease_owner o1 = op_lease_owner r \<and>
    op_attempts o1 = op_attempts r \<and> op_max_attempts o1 = op_max_attempts r"

inductive queue_step :: "int \<Rightarrow> queue \<Rightarrow> int \<Rightarrow> queue \<Rightarrow> bool" where
  step_enqueue: "t \<le> now \<Longrightarrow> fresh_operation o1 \<Longrightarrow> queue_step t q now (snd (enqueue_operation now o1 q))"
| step_claim: "t \<le> now \<Longrightarrow> trim_space w \<noteq> [] \<Longrightarrow> queue_step t q now (snd (claim_next now w lease q))"
| step_succeed: "t \<le> now \<Longrightarrow> r \<in> set (q_ops q) \<Longrightarrow> running r \<Longrightarrow> copy_of r o1 \<Longrightarrow>
    queue_step t q now (snd (mark_succeeded now o1 q))"
| step_retry: "t \<le> now \<Longrightarrow> r \<in> set (q_ops q) \<Longrightarrow> running r \<Longrightarrow> copy_of r o1 \<Longrightarrow>
    queue_step t q now (snd (mark_retry now o1 message next q))"
| step_fail: "t \<le> now \<Longrightarrow> r \<in> set (q_ops q) \<Longrightarrow> running r \<Longrightarrow> copy_of r o1 \<Longrightarrow>
    queue_step t q now (snd (mark_failed now o1 message q))"

inductive_cases queue_stepE: "queue_step t q now q'"

inductive queue_reach :: "int \<Rightarrow> queue \<Rightarrow> bool" where
  reach_start: "queue_reach t \<lparr>q_ops = [], q_locks = []\<rparr>"
| reach_step: "queue_reach t q \<Longrightarrow> queue_step t q now q' \<Longrightarrow> queue_reach now q'"

section \<open>The invariant\<close>

definition row_ok :: "operation \<Rightarrow> bool" where
  "row_ok r \<longleftrightarrow> (if running r then trim_space (op_lease_owner r) \<noteq> [] else op_lease_owner r = []) \<and>
    1 \<le> op_max_attempts r \<and> 0 \<le> op_attempts r \<and> op_attempts r \<le> op_max_attempts r \<and>
    (op_status r \<in> {OpQueued, OpRetrying} \<longrightarrow> op_attempts r < op_max_attempts r)"

definition queue_inv :: "queue \<Rightarrow> bool" where
  "queue_inv q \<longleftrightarrow> distinct (map op_id (q_ops q)) \<and> distinct (map lk_key (q_locks q)) \<and>
    (\<forall>r \<in> set (q_ops q). row_ok r)"

lemma queue_invI:
  assumes "distinct (map op_id (q_ops q))" and "distinct (map lk_key (q_locks q))"
    and "\<And>r. r \<in> set (q_ops q) \<Longrightarrow> row_ok r"
  shows "queue_inv q"
  using assms unfolding queue_inv_def by blast

lemma queue_invD:
  assumes "queue_inv q"
  shows "distinct (map op_id (q_ops q))" and "distinct (map lk_key (q_locks q))"
    and "r \<in> set (q_ops q) \<Longrightarrow> row_ok r"
  using assms unfolding queue_inv_def by blast+

lemma distinct_id_eq: "distinct (map f xs) \<Longrightarrow> x \<in> set xs \<Longrightarrow> y \<in> set xs \<Longrightarrow> f x = f y \<Longrightarrow> x = y"
  by (auto simp: distinct_map dest: inj_onD)

lemma map_if_id: "(\<And>x. f (g x) = f x) \<Longrightarrow> map f (map (\<lambda>x. if P x then g x else x) xs) = map f xs"
  by (induction xs) auto

section \<open>Finishing an operation\<close>

text \<open>What an update of the leased row does in a state of the invariant.\<close>

lemma update_leased_run:
  assumes inv: "queue_inv q" and r: "r \<in> set (q_ops q)" "running r" "copy_of r o1"
  shows "update_leased o1 lost f q = (Inr (),
    \<lparr>q_ops = map (\<lambda>x. if op_id x = op_id r then f x else x) (q_ops q),
     q_locks = release_operation_lock (op_lock_key r) (op_lease_owner r) (q_locks q)\<rparr>)"
proof -
  have ok: "row_ok r" and d: "distinct (map op_id (q_ops q))" using inv r(1) by (simp_all add: queue_inv_def)
  then have own: "op_lease_owner r \<noteq> []" using r(2) by (auto simp: row_ok_def)
  let ?mine = "\<lambda>x. op_id x = op_id o1 \<and> op_lease_owner x = op_lease_owner o1 \<and> op_lease_owner x \<noteq> []"
  have mine: "?mine x \<longleftrightarrow> op_id x = op_id r" if "x \<in> set (q_ops q)" for x
    using distinct_id_eq [OF d that r(1)] r(3) own by (auto simp: copy_of_def)
  then have "map (\<lambda>x. if ?mine x then f x else x) (q_ops q) = map (\<lambda>x. if op_id x = op_id r then f x else x) (q_ops q)"
    by simp
  moreover have "list_ex ?mine (q_ops q)" using r mine by (auto simp: list_ex_iff)
  ultimately show ?thesis using r(3) by (simp add: update_leased_def copy_of_def)
qed

lemma release_keys [simp]: "map lk_key (release_operation_lock key w locks) = map lk_key locks"
  by (simp add: release_operation_lock_def map_if_id [of lk_key])

lemma release_keeps: "l \<in> set locks \<Longrightarrow> lk_owner l \<noteq> w \<Longrightarrow> l \<in> set (release_operation_lock key w locks)"
  by (auto simp: release_operation_lock_def image_iff)

lemma finish_inv:
  assumes inv: "queue_inv q" and r: "r \<in> set (q_ops q)" "running r" "copy_of r o1"
    and f: "op_id (f r) = op_id r" "\<not> running (f r)" "row_ok (f r)"
  shows "queue_inv (snd (update_leased o1 lost f q))"
proof -
  let ?ops = "map (\<lambda>x. if op_id x = op_id r then f x else x) (q_ops q)"
  let ?locks = "release_operation_lock (op_lock_key r) (op_lease_owner r) (q_locks q)"
  have d: "distinct (map op_id (q_ops q))" using inv by (simp add: queue_inv_def)
  have only: "x = r" if "x \<in> set (q_ops q)" "op_id x = op_id r" for x
    using distinct_id_eq [OF d that(1) r(1) that(2)] .
  have ids: "map op_id ?ops = map op_id (q_ops q)" using only f(1) by (auto cong: map_cong)
  have mem: "x \<in> set ?ops \<longleftrightarrow> x = f r \<or> (x \<in> set (q_ops q) \<and> op_id x \<noteq> op_id r)" for x
    using only r(1) by auto
  show ?thesis
    unfolding update_leased_run [OF inv r] snd_conv
  proof (rule queue_invI, unfold queue.select_convs)
    show "distinct (map op_id ?ops)" unfolding ids by (rule d)
    show "distinct (map lk_key ?locks)" using queue_invD(2) [OF inv] by simp
    show "row_ok x" if "x \<in> set ?ops" for x
      using that queue_invD(3) [OF inv] f(3) unfolding mem by blast
  qed
qed

lemma mark_terminal_inv:
  assumes inv: "queue_inv q" and r: "r \<in> set (q_ops q)" "running r" "copy_of r o1"
    and s: "status \<in> {OpCompleted, OpFailed}"
  shows "queue_inv (snd (mark_terminal now o1 status m e q))"
  unfolding mark_terminal_def
proof (rule finish_inv [OF inv r])
  have "row_ok r" using inv r by (simp add: queue_inv_def)
  with s r(2) show "row_ok (r\<lparr>op_status := status, op_message := m, op_last_error := nullable_string e,
        op_lease_owner := [], op_lease_until := 0, op_updated_at := db_time now,
        op_completed_at := Some (db_time now), op_version := op_version r + 1\<rparr>)"
    by (auto simp: row_ok_def running_def)
qed (use s in \<open>auto simp: running_def\<close>)

lemma mark_retry_inv:
  assumes inv: "queue_inv q" and r: "r \<in> set (q_ops q)" "running r" "copy_of r o1"
  shows "queue_inv (snd (mark_retry now o1 m next q))"
proof (cases "max_deployment_attempts o1 \<le> op_attempts o1")
  case True
  then show ?thesis
    using mark_terminal_inv [OF inv r, of OpFailed] by (simp add: mark_retry_def mark_failed_def)
next
  case False
  have ok: "row_ok r" using inv r by (simp add: queue_inv_def)
  with False r(3) have lt: "op_attempts r < op_max_attempts r"
    by (auto simp: max_deployment_attempts_def copy_of_def row_ok_def split: if_splits)
  have "queue_inv (snd (update_leased o1 '' lease was lost before retry state update''
       (\<lambda>r. r\<lparr>op_status := OpRetrying, op_message := msg_op_retrying, op_last_error := trim_space m,
         op_next_attempt_at := db_time next, op_lease_owner := [], op_lease_until := 0,
         op_updated_at := db_time now, op_version := op_version r + 1\<rparr>) q))"
    by (rule finish_inv [OF inv r]) (use ok lt r(2) in \<open>auto simp: running_def row_ok_def\<close>)
  with False show ?thesis by (simp add: mark_retry_def)
qed

section \<open>Enqueue\<close>

lemma enqueue_state:
  "snd (enqueue_operation now o1 q) = (if taken o1 q then q else q\<lparr>q_ops := q_ops q @ [enqueue_row now o1]\<rparr>)"
  unfolding enqueue_operation_def Let_def by (simp only: snd_conv split: option.split) blast

lemma enqueue_row_simps [simp]:
  "op_id (enqueue_row now o1) = op_id o1" "op_request_id (enqueue_row now o1) = op_request_id o1"
  "op_status (enqueue_row now o1) = op_status o1" "op_attempts (enqueue_row now o1) = op_attempts o1"
  "op_lock_key (enqueue_row now o1) = op_lock_key o1"
  "op_max_attempts (enqueue_row now o1) = (if op_max_attempts o1 \<le> 0 then 5 else op_max_attempts o1)"
  "op_lease_owner (enqueue_row now o1) = nullable_string (op_lease_owner o1)"
  by (simp_all add: enqueue_row_def)

lemma enqueue_inv:
  assumes inv: "queue_inv q" and o1: "fresh_operation o1"
  shows "queue_inv (snd (enqueue_operation now o1 q))"
proof (cases "taken o1 q")
  case True
  with inv show ?thesis by (simp add: enqueue_state)
next
  case False
  let ?row = "enqueue_row now o1"
  from False have new: "op_id ?row \<notin> op_id ` set (q_ops q)" by (auto simp: taken_def list_ex_iff)
  have q': "snd (enqueue_operation now o1 q) = q\<lparr>q_ops := q_ops q @ [?row]\<rparr>"
    using False by (simp add: enqueue_state)
  have n: "\<not> running ?row" "row_ok ?row"
    using o1 by (auto simp: fresh_operation_def running_def row_ok_def nullable_string_def)
  show ?thesis
    unfolding q'
  proof (rule queue_invI)
    show "row_ok x" if "x \<in> set (q_ops (q\<lparr>q_ops := q_ops q @ [?row]\<rparr>))" for x
      using that n(2) queue_invD(3) [OF inv] by auto
  qed (use queue_invD(1,2) [OF inv] new in simp_all)
qed

section \<open>Claim\<close>

lemma replace_lock_keys [simp]: "map lk_key (replace_lock l ls) = map lk_key ls"
  by (simp add: replace_lock_def)

lemma replace_lock_mem: "l \<in> set ls \<Longrightarrow> lk_key m = lk_key l \<Longrightarrow> m \<in> set (replace_lock m ls)"
  by (force simp: replace_lock_def image_iff)

lemma acquire_cases:
  assumes "acquire_operation_lock key w now until ls = Inr (got, ls')" and "distinct (map lk_key ls)"
  shows "distinct (map lk_key ls')"
    and "\<not> got \<Longrightarrow> set ls \<subseteq> set ls'"
    and "got \<Longrightarrow> (\<forall>l \<in> set ls. lk_key l \<noteq> key \<longrightarrow> l \<in> set ls')"
    and "got \<Longrightarrow> (\<forall>l \<in> set ls. lk_key l = key \<longrightarrow> lk_until l \<le> now \<or> lk_owner l = w)"
    and "got \<Longrightarrow> (\<exists>l \<in> set ls'. lk_key l = key \<and> lk_owner l = w \<and> lk_until l = db_time until)"
proof -
  let ?ls1 = "if list_ex (\<lambda>l. lk_key l = key) ls then ls
      else ls @ [\<lparr>lk_key = key, lk_owner = [], lk_until = unix_epoch, lk_version = 1\<rparr>]"
  have d: "distinct (map lk_key ?ls1)" using assms(2) by (auto simp: list_ex_iff)
  have sub: "set ls \<subseteq> set ?ls1" by auto
  from assms(1) obtain l where l: "find (\<lambda>l. lk_key l = key) ?ls1 = Some l"
    and r: "(if now < lk_until l \<and> lk_owner l \<noteq> w then Inr (False, ?ls1)
      else Inr (True, replace_lock (l\<lparr>lk_owner := w, lk_until := db_time until, lk_version := lk_version l + 1\<rparr>) ?ls1))
      = (Inr (got, ls') :: go_error + bool \<times> lock_row list)"
    by (simp add: acquire_operation_lock_def Let_def split: if_splits option.splits)
  from find_SomeD [OF l] have lk: "lk_key l = key" "l \<in> set ?ls1" by blast+
  have uniq: "x = l" if "x \<in> set ?ls1" "lk_key x = key" for x
    using distinct_id_eq [OF d that(1) lk(2)] that(2) lk(1) by simp
  show "distinct (map lk_key ls')" using r d by (auto split: if_splits)
  show "\<not> got \<Longrightarrow> set ls \<subseteq> set ls'" using r sub by (auto split: if_splits)
  show "got \<Longrightarrow> (\<forall>l \<in> set ls. lk_key l \<noteq> key \<longrightarrow> l \<in> set ls')"
    using r sub lk(1) by (auto simp: replace_lock_def image_iff split: if_splits)
  show "got \<Longrightarrow> (\<forall>l \<in> set ls. lk_key l = key \<longrightarrow> lk_until l \<le> now \<or> lk_owner l = w)"
  proof -
    assume got
    with r have "\<not> (now < lk_until l \<and> lk_owner l \<noteq> w)" by (auto split: if_splits)
    with uniq sub show ?thesis by (auto simp: not_less)
  qed
  show "got \<Longrightarrow> (\<exists>l \<in> set ls'. lk_key l = key \<and> lk_owner l = w \<and> lk_until l = db_time until)"
  proof -
    assume got
    let ?m = "l\<lparr>lk_owner := w, lk_until := db_time until, lk_version := lk_version l + 1\<rparr>"
    from \<open>got\<close> r have "ls' = replace_lock ?m ?ls1" by (auto split: if_splits)
    with replace_lock_mem [OF lk(2), of ?m] have "?m \<in> set ls'" by simp
    with lk(1) show ?thesis by (intro bexI [of _ ?m]) simp_all
  qed
qed

lemma inv_more_locks:
  assumes "queue_inv q" and "distinct (map lk_key locks)"
  shows "queue_inv (q\<lparr>q_locks := locks\<rparr>)"
  by (rule queue_invI) (use queue_invD [OF assms(1)] assms(2) in simp_all)

text \<open>One claimed row.\<close>

lemma claim_row_inv:
  assumes inv: "queue_inv q" and r: "r \<in> set (q_ops q)" "op_status r \<in> {OpQueued, OpRetrying}"
    and w: "trim_space w \<noteq> []"
    and a: "acquire_operation_lock (op_lock_key r) w now (now + lease) (q_locks q) = Inr (True, locks)"
  shows "queue_inv \<lparr>q_ops = map (\<lambda>x. if op_id x = op_id r \<and> op_version x = op_version r
      then claimed_row (claimed w now lease r) x else x) (q_ops q), q_locks = locks\<rparr>"
proof -
  let ?f = "\<lambda>x. if op_id x = op_id r \<and> op_version x = op_version r then claimed_row (claimed w now lease r) x else x"
  let ?c = "claimed_row (claimed w now lease r) r"
  note d = queue_invD(1) [OF inv] and ac = acquire_cases [OF a queue_invD(2) [OF inv], simplified]
  have only: "x = r" if "x \<in> set (q_ops q)" "op_id x = op_id r" for x
    using distinct_id_eq [OF d that(1) r(1) that(2)] .
  have mem: "x \<in> set (map ?f (q_ops q)) \<longleftrightarrow> x = ?c \<or> (x \<in> set (q_ops q) \<and> op_id x \<noteq> op_id r)" for x
    using only r(1) by auto
  have c: "op_id ?c = op_id r" "running ?c" "op_lease_owner ?c = w" "op_lock_key ?c = op_lock_key r"
    "op_lease_until ?c = db_time (now + lease)" "op_attempts ?c = op_attempts r + 1" "op_max_attempts ?c = op_max_attempts r"
    by (simp_all add: claimed_row_def claimed_def running_def scan_operation_def)
  have ok: "row_ok r" by (rule queue_invD(3) [OF inv r(1)])
  show ?thesis
  proof (rule queue_invI, unfold queue.select_convs)
    have ids: "map op_id (map ?f (q_ops q)) = map op_id (q_ops q)" by (simp add: claimed_row_def)
    show "distinct (map op_id (map ?f (q_ops q)))" unfolding ids by (rule d)
    show "distinct (map lk_key locks)" by (rule ac(1))
    have "row_ok ?c"
      using ok r(2) c w by (auto simp: row_ok_def running_def claimed_row_def claimed_def)
    then show "row_ok x" if "x \<in> set (map ?f (q_ops q))" for x
      using that queue_invD(3) [OF inv] unfolding mem by blast
  qed
qed

lemma claim_loop_inv:
  assumes "claim_loop w now lease rs q = Inr (res, q')" and "queue_inv q" and "trim_space w \<noteq> []"
    and "\<forall>r \<in> set rs. r \<in> set (q_ops q) \<and> op_status r \<in> {OpQueued, OpRetrying}"
  shows "queue_inv q'"
  using assms
proof (induction rs arbitrary: q)
  case (Cons r rs)
  from Cons.prems(1) obtain got locks where
    a: "acquire_operation_lock (op_lock_key r) w now (now + lease) (q_locks q) = Inr (got, locks)"
    by (auto split: sum.splits)
  note ac = acquire_cases [OF a queue_invD(2) [OF Cons.prems(2)]]
  show ?case
  proof (cases got)
    case False
    with a Cons.prems(1) have run: "claim_loop w now lease rs (q\<lparr>q_locks := locks\<rparr>) = Inr (res, q')" by simp
    show ?thesis
      by (rule Cons.IH [OF run inv_more_locks [OF Cons.prems(2) ac(1)]])
         (use Cons.prems(3,4) in simp_all)
  next
    case True
    have r: "r \<in> set (q_ops q)" "op_status r \<in> {OpQueued, OpRetrying}" using Cons.prems(4) by auto
    then have "list_ex (\<lambda>x. op_id x = op_id r \<and> op_version x = op_version r) (q_ops q)" by (auto simp: list_ex_iff)
    with True a Cons.prems(1) have "q' = \<lparr>q_ops = map (\<lambda>x. if op_id x = op_id r \<and> op_version x = op_version r
      then claimed_row (claimed w now lease r) x else x) (q_ops q), q_locks = locks\<rparr>" by (cases q) simp
    with claim_row_inv [OF Cons.prems(2) r Cons.prems(3)] a True show ?thesis by simp
  qed
qed simp

lemma claim_inv:
  assumes "queue_inv q" and "trim_space w \<noteq> []"
  shows "queue_inv (snd (claim_next now w lease q))"
proof (cases "claim_loop w now (effective_lease lease) (claim_candidates now q) q")
  case (Inl e)
  with assms show ?thesis by (simp add: claim_next_def)
next
  case (Inr x)
  obtain res q' where x: "x = (res, q')" by (cases x)
  have "\<forall>r \<in> set (claim_candidates now q). r \<in> set (q_ops q) \<and> op_status r \<in> {OpQueued, OpRetrying}"
    using set_take_subset [of 10] by (force simp: claim_candidates_def)
  from claim_loop_inv [OF _ assms this] Inr x show ?thesis by (simp add: claim_next_def)
qed

section \<open>Every reachable state\<close>

lemma step_inv: "queue_step t q now q' \<Longrightarrow> queue_inv q \<Longrightarrow> queue_inv q'"
  by (erule queue_stepE)
     (simp_all add: enqueue_inv claim_inv mark_succeeded_def mark_failed_def mark_terminal_inv mark_retry_inv)

lemma reach_inv: "queue_reach t q \<Longrightarrow> queue_inv q"
proof (induction rule: queue_reach.induct)
  case (reach_start t)
  show ?case by (simp add: queue_inv_def)
next
  case (reach_step t q now q')
  then show ?case by (blast intro: step_inv)
qed

section \<open>Oldest first, and progress\<close>

definition locked_by_other :: "string \<Rightarrow> int \<Rightarrow> lock_row list \<Rightarrow> operation \<Rightarrow> bool" where
  "locked_by_other w now locks r \<longleftrightarrow>
    (\<exists>l \<in> set locks. lk_key l = op_lock_key r \<and> now < lk_until l \<and> lk_owner l \<noteq> w)"

text \<open>Taking a lock whose row is there, and one whose row the insert has just made.\<close>

lemma acquire_present:
  assumes "find (\<lambda>l. lk_key l = key) ls = Some l" and "trim_space key \<noteq> []"
  shows "acquire_operation_lock key w now until ls =
    (if now < lk_until l \<and> lk_owner l \<noteq> w then Inr (False, ls)
     else Inr (True, replace_lock (l\<lparr>lk_owner := w, lk_until := db_time until, lk_version := lk_version l + 1\<rparr>) ls))"
proof -
  have "list_ex (\<lambda>l. lk_key l = key) ls" using find_SomeD [OF assms(1)] by (auto simp: list_ex_iff)
  with assms show ?thesis unfolding acquire_operation_lock_def Let_def by (simp only: if_False if_True option.case)
qed

lemma find_append_none: "find P xs = None \<Longrightarrow> P y \<Longrightarrow> find P (xs @ [y]) = Some y"
  by (induction xs) (auto split: if_splits)

lemma acquire_absent:
  assumes "find (\<lambda>l. lk_key l = key) ls = None" and "trim_space key \<noteq> []" and "unix_epoch \<le> now"
  shows "\<exists>ls'. acquire_operation_lock key w now until ls = Inr (True, ls')"
proof -
  let ?l = "\<lparr>lk_key = key, lk_owner = [], lk_until = unix_epoch, lk_version = 1\<rparr>"
  have "\<not> list_ex (\<lambda>l. lk_key l = key) ls" using assms(1) by (auto simp: list_ex_iff find_None_iff)
  moreover have "find (\<lambda>l. lk_key l = key) (ls @ [?l]) = Some ?l"
    by (rule find_append_none [OF assms(1)]) simp
  moreover have "\<not> now < lk_until ?l" using assms(3) by simp
  ultimately show ?thesis
    using assms(2) unfolding acquire_operation_lock_def Let_def by (simp only: if_False option.case simp_thms) blast
qed

lemma acquire_result:
  assumes "distinct (map lk_key ls)" and "unix_epoch \<le> now" and "trim_space (op_lock_key r) \<noteq> []"
  shows "\<exists>ls'. acquire_operation_lock (op_lock_key r) w now until ls =
    Inr (\<not> locked_by_other w now ls r, if locked_by_other w now ls r then ls else ls')"
proof (cases "find (\<lambda>l. lk_key l = op_lock_key r) ls")
  case None
  then have "\<not> locked_by_other w now ls r" by (auto simp: locked_by_other_def find_None_iff)
  with acquire_absent [OF None assms(3,2)] show ?thesis by simp
next
  case (Some l)
  have lk: "lk_key l = op_lock_key r" "l \<in> set ls" using find_SomeD [OF Some] by blast+
  have "x = l" if "x \<in> set ls" "lk_key x = op_lock_key r" for x
    using distinct_id_eq [OF assms(1) that(1) lk(2)] that(2) lk(1) by simp
  then have "locked_by_other w now ls r \<longleftrightarrow> now < lk_until l \<and> lk_owner l \<noteq> w"
    using lk unfolding locked_by_other_def by blast
  then show ?thesis unfolding acquire_present [OF Some assms(3)] by (cases "now < lk_until l \<and> lk_owner l \<noteq> w") simp_all
qed

lemma claim_loop_first:
  assumes "distinct (map lk_key (q_locks q))" and "unix_epoch \<le> now"
    and "\<forall>r \<in> set rs. r \<in> set (q_ops q) \<and> trim_space (op_lock_key r) \<noteq> []"
  shows "\<exists>q'. claim_loop w now lease rs q =
    Inr (map_option (claimed w now lease) (find (\<lambda>r. \<not> locked_by_other w now (q_locks q) r) rs), q')"
  using assms(3)
proof (induction rs)
  case (Cons r rs)
  then have r: "r \<in> set (q_ops q)" "trim_space (op_lock_key r) \<noteq> []" by simp_all
  from acquire_result [OF assms(1,2) r(2), of w "now + lease"] obtain locks where
    a: "acquire_operation_lock (op_lock_key r) w now (now + lease) (q_locks q) = Inr
      (\<not> locked_by_other w now (q_locks q) r, if locked_by_other w now (q_locks q) r then q_locks q else locks)" ..
  show ?case
  proof (cases "locked_by_other w now (q_locks q) r")
    case False
    have "list_ex (\<lambda>x. op_id x = op_id r \<and> op_version x = op_version r) (q_ops q)"
      using r(1) by (auto simp: list_ex_iff)
    with False a show ?thesis by simp
  next
    case True
    then have "q\<lparr>q_locks := q_locks q\<rparr> = q" by simp
    with True a Cons show ?thesis by simp
  qed
qed simp

section \<open>Finished rows\<close>

lemma waiting_kept:
  assumes "claim_loop w now lease rs q = Inr (res, q')" and "distinct (map op_id (q_ops q))"
    and "r \<in> set (q_ops q)" and "\<forall>s \<in> set rs. s \<in> set (q_ops q) \<and> s \<noteq> r"
  shows "r \<in> set (q_ops q')"
  using assms
proof (induction rs arbitrary: q)
  case (Cons s rs)
  from Cons.prems(1) obtain got locks where
    a: "acquire_operation_lock (op_lock_key s) w now (now + lease) (q_locks q) = Inr (got, locks)"
    by (auto split: sum.splits)
  have s: "s \<in> set (q_ops q)" "s \<noteq> r" using Cons.prems(4) by auto
  show ?case
  proof (cases got)
    case False
    with a Cons.prems(1) have run: "claim_loop w now lease rs (q\<lparr>q_locks := locks\<rparr>) = Inr (res, q')" by simp
    show ?thesis by (rule Cons.IH [OF run]) (use Cons.prems(2-4) in simp_all)
  next
    case True
    have "list_ex (\<lambda>x. op_id x = op_id s \<and> op_version x = op_version s) (q_ops q)"
      using s(1) by (auto simp: list_ex_iff)
    with True a Cons.prems(1) have q': "q_ops q' = map (\<lambda>x. if op_id x = op_id s \<and> op_version x = op_version s
      then claimed_row (claimed w now lease s) x else x) (q_ops q)" by auto
    have "op_id r \<noteq> op_id s" using distinct_id_eq [OF Cons.prems(2) Cons.prems(3) s(1)] s(2) by blast
    with Cons.prems(3) show ?thesis unfolding q' by (auto simp: image_iff)
  qed
qed simp

lemma claim_keeps:
  assumes "queue_inv q" and "r \<in> set (q_ops q)" and "op_status r \<notin> {OpQueued, OpRetrying}"
  shows "r \<in> set (q_ops (snd (claim_next now w lease q)))"
proof (cases "claim_loop w now (effective_lease lease) (claim_candidates now q) q")
  case (Inl e)
  with assms show ?thesis by (simp add: claim_next_def)
next
  case (Inr x)
  obtain res q' where x: "x = (res, q')" by (cases x)
  have "\<forall>s \<in> set (claim_candidates now q). s \<in> set (q_ops q) \<and> s \<noteq> r"
    using set_take_subset [of 10] assms(3) by (force simp: claim_candidates_def)
  from waiting_kept [OF _ queue_invD(1) [OF assms(1)] assms(2) this] Inr x show ?thesis by (simp add: claim_next_def)
qed

lemma update_leased_keeps:
  assumes "r \<in> set (q_ops q)" and "op_lease_owner r = [] \<or> op_lease_owner r \<noteq> op_lease_owner o1"
  shows "r \<in> set (q_ops (snd (update_leased o1 lost f q)))"
  using assms by (auto simp: update_leased_def Let_def image_iff)

lemma enqueue_keeps: "r \<in> set (q_ops q) \<Longrightarrow> r \<in> set (q_ops (snd (enqueue_operation now o1 q)))"
  by (simp add: enqueue_state)

lemma finished_owner:
  "queue_inv q \<Longrightarrow> r \<in> set (q_ops q) \<Longrightarrow> op_status r \<in> {OpCompleted, OpFailed} \<Longrightarrow> op_lease_owner r = []"
  using queue_invD(3) by (fastforce simp: row_ok_def running_def)

section \<open>Workers and the operations they have in hand\<close>

text \<open>
  processOnce keeps the claimed operation in a local variable: a worker has at most one operation in
  hand, and claims when it has none. A worker that cannot store the outcome, and one that is restarted,
  forgets its operation (\<open>pool_drop\<close>) while the row stays running; it may then claim another operation,
  even of the key whose lock it still owns. There is one clock, and one process per worker id.
\<close>

record pool =
  p_queue :: queue
  p_hands :: "string \<rightharpoonup> operation"

inductive pool_step :: "int \<Rightarrow> pool \<Rightarrow> int \<Rightarrow> pool \<Rightarrow> bool" where
  pool_enqueue: "t \<le> now \<Longrightarrow> fresh_operation o1 \<Longrightarrow>
    pool_step t p now (p\<lparr>p_queue := snd (enqueue_operation now o1 (p_queue p))\<rparr>)"
| pool_claim: "t \<le> now \<Longrightarrow> trim_space w \<noteq> [] \<Longrightarrow> p_hands p w = None \<Longrightarrow>
    claim_next now w lease (p_queue p) = (Inr res, q) \<Longrightarrow>
    pool_step t p now \<lparr>p_queue = q, p_hands = (p_hands p)(w := res)\<rparr>"
| pool_claim_fails: "t \<le> now \<Longrightarrow> trim_space w \<noteq> [] \<Longrightarrow> p_hands p w = None \<Longrightarrow>
    claim_next now w lease (p_queue p) = (Inl e, q) \<Longrightarrow> pool_step t p now (p\<lparr>p_queue := q\<rparr>)"
| pool_succeed: "t \<le> now \<Longrightarrow> p_hands p w = Some o1 \<Longrightarrow> pool_step t p now
    \<lparr>p_queue = snd (mark_succeeded now o1 (p_queue p)), p_hands = (p_hands p)(w := None)\<rparr>"
| pool_retry: "t \<le> now \<Longrightarrow> p_hands p w = Some o1 \<Longrightarrow> pool_step t p now
    \<lparr>p_queue = snd (mark_retry now o1 message next (p_queue p)), p_hands = (p_hands p)(w := None)\<rparr>"
| pool_fail: "t \<le> now \<Longrightarrow> p_hands p w = Some o1 \<Longrightarrow> pool_step t p now
    \<lparr>p_queue = snd (mark_failed now o1 message (p_queue p)), p_hands = (p_hands p)(w := None)\<rparr>"
| pool_drop: "t \<le> now \<Longrightarrow> pool_step t p now (p\<lparr>p_hands := (p_hands p)(w := None)\<rparr>)"

inductive_cases pool_stepE: "pool_step t p now p'"

inductive pool_reach :: "int \<Rightarrow> pool \<Rightarrow> bool" where
  pool_start: "pool_reach t \<lparr>p_queue = \<lparr>q_ops = [], q_locks = []\<rparr>, p_hands = Map.empty\<rparr>"
| pool_next: "pool_reach t p \<Longrightarrow> pool_step t p now p' \<Longrightarrow> pool_reach now p'"

text \<open>An operation in hand is a running row leased to its worker, and the lock of its key backs the lease.\<close>

definition backed :: "lock_row list \<Rightarrow> operation \<Rightarrow> bool" where
  "backed locks o1 \<longleftrightarrow> (\<exists>l \<in> set locks. lk_key l = op_lock_key o1 \<and> lk_owner l = op_lease_owner o1 \<and>
    db_time (op_lease_until o1) \<le> lk_until l)"

definition in_hand :: "int \<Rightarrow> queue \<Rightarrow> string \<Rightarrow> operation \<Rightarrow> bool" where
  "in_hand now q w o1 \<longleftrightarrow> op_lease_owner o1 = w \<and> (\<exists>r \<in> set (q_ops q). running r \<and> copy_of r o1) \<and>
    (now < db_time (op_lease_until o1) \<longrightarrow> backed (q_locks q) o1)"

definition pool_inv :: "int \<Rightarrow> pool \<Rightarrow> bool" where
  "pool_inv now p \<longleftrightarrow> queue_inv (p_queue p) \<and> (\<forall>w o1. p_hands p w = Some o1 \<longrightarrow> in_hand now (p_queue p) w o1)"

lemma in_hand_later: "in_hand t q w o1 \<Longrightarrow> t \<le> now \<Longrightarrow> in_hand now q w o1"
  unfolding in_hand_def by force

text \<open>What is in hand stays in hand when the rows leased to its worker and the locks of its worker stay.\<close>

lemma in_hand_kept:
  assumes "in_hand t q w o1" and "t \<le> now"
    and "\<And>r. r \<in> set (q_ops q) \<Longrightarrow> running r \<Longrightarrow> op_lease_owner r = w \<Longrightarrow> r \<in> set (q_ops q')"
    and "\<And>l. l \<in> set (q_locks q) \<Longrightarrow> lk_owner l = w \<Longrightarrow> now < lk_until l \<Longrightarrow> l \<in> set (q_locks q')"
  shows "in_hand now q' w o1"
  using in_hand_later [OF assms(1,2)] assms(3,4) unfolding in_hand_def backed_def copy_of_def by fastforce

lemma claim_loop_others:
  assumes "claim_loop w now lease rs q = Inr (res, q')" and "distinct (map lk_key (q_locks q))"
    and "l \<in> set (q_locks q)" and "lk_owner l \<noteq> w" and "now < lk_until l"
  shows "l \<in> set (q_locks q')"
  using assms(1-3)
proof (induction rs arbitrary: q)
  case (Cons r rs)
  from Cons.prems(1) obtain got locks where
    a: "acquire_operation_lock (op_lock_key r) w now (now + lease) (q_locks q) = Inr (got, locks)"
    by (auto split: sum.splits)
  note ac = acquire_cases [OF a Cons.prems(2)]
  have l: "l \<in> set locks"
    using ac(2-4) Cons.prems(3) assms(4,5) by (cases got) (auto simp: not_le)
  have run: "claim_loop w now lease rs (q\<lparr>q_locks := locks\<rparr>) = Inr (res, q') \<or> q_locks q' = locks"
    using a Cons.prems(1) by (auto split: if_splits simp: Let_def)
  have "l \<in> set (q_locks q')" if "claim_loop w now lease rs (q\<lparr>q_locks := locks\<rparr>) = Inr (res, q')"
    by (rule Cons.IH [OF that]) (use ac(1) l in simp_all)
  with run l show ?case by blast
qed simp

lemma claim_loop_taken:
  assumes "claim_loop w now lease rs q = Inr (Some o1, q')" and "distinct (map lk_key (q_locks q))"
    and "\<forall>r \<in> set rs. r \<in> set (q_ops q)"
  shows "\<exists>r. o1 = claimed w now lease r \<and> claimed_row o1 r \<in> set (q_ops q') \<and>
    (\<exists>l \<in> set (q_locks q'). lk_key l = op_lock_key r \<and> lk_owner l = w \<and> lk_until l = db_time (now + lease))"
  using assms
proof (induction rs arbitrary: q)
  case (Cons r rs)
  from Cons.prems(1) obtain got locks where
    a: "acquire_operation_lock (op_lock_key r) w now (now + lease) (q_locks q) = Inr (got, locks)"
    by (auto split: sum.splits)
  note ac = acquire_cases [OF a Cons.prems(2)]
  have r: "r \<in> set (q_ops q)" using Cons.prems(3) by simp
  then have ex: "list_ex (\<lambda>x. op_id x = op_id r \<and> op_version x = op_version r) (q_ops q)" by (auto simp: list_ex_iff)
  show ?case
  proof (cases got)
    case False
    with a Cons.prems(1) have run: "claim_loop w now lease rs (q\<lparr>q_locks := locks\<rparr>) = Inr (Some o1, q')" by simp
    show ?thesis by (rule Cons.IH [OF run]) (use ac(1) Cons.prems(3) in simp_all)
  next
    case True
    with a ex Cons.prems(1) have o1: "o1 = claimed w now lease r"
      and q': "q_locks q' = locks" "q_ops q' = map (\<lambda>x. if op_id x = op_id r \<and> op_version x = op_version r
        then claimed_row (claimed w now lease r) x else x) (q_ops q)" by auto
    have "claimed_row o1 r \<in> set (q_ops q')" unfolding q' o1 using r by (auto simp: image_iff)
    with ac(5) [OF True] o1 q'(1) show ?thesis by blast
  qed
qed simp

section \<open>What a worker has in hand is leased to it\<close>

lemma pool_invD:
  assumes "pool_inv t p"
  shows "queue_inv (p_queue p)" and "p_hands p w = Some o1 \<Longrightarrow> in_hand t (p_queue p) w o1"
  using assms unfolding pool_inv_def by blast+

lemma enqueue_hand:
  assumes "in_hand t q w o1" and "t \<le> now"
  shows "in_hand now (snd (enqueue_operation now o2 q)) w o1"
  by (rule in_hand_kept [OF assms]) (simp_all add: enqueue_state)

lemma claim_hand:
  assumes h: "in_hand t q v o1" "t \<le> now" and q: "queue_inv q" and "v \<noteq> w"
  shows "in_hand now (snd (claim_next now w lease q)) v o1"
proof (rule in_hand_kept [OF h])
  show "r \<in> set (q_ops (snd (claim_next now w lease q)))" if "r \<in> set (q_ops q)" "running r" for r
    by (rule claim_keeps [OF q that(1)]) (use that(2) in \<open>auto simp: running_def\<close>)
  show "l \<in> set (q_locks (snd (claim_next now w lease q)))"
    if "l \<in> set (q_locks q)" "lk_owner l = v" "now < lk_until l" for l
  proof (cases "claim_loop w now (effective_lease lease) (claim_candidates now q) q")
    case (Inl e)
    with that show ?thesis by (simp add: claim_next_def)
  next
    case (Inr x)
    with claim_loop_others [OF _ queue_invD(2) [OF q] that(1) _ that(3)] that(2) \<open>v \<noteq> w\<close> show ?thesis
      by (cases x) (simp add: claim_next_def)
  qed
qed

lemma claimed_hand:
  assumes "claim_next now w lease q = (Inr (Some o1), q')" and "queue_inv q"
  shows "in_hand now q' w o1"
proof -
  let ?lease = "effective_lease lease"
  from assms(1) have run: "claim_loop w now ?lease (claim_candidates now q) q = Inr (Some o1, q')"
    by (auto simp: claim_next_def split: sum.splits)
  have "\<forall>r \<in> set (claim_candidates now q). r \<in> set (q_ops q)"
    using set_take_subset [of 10] by (force simp: claim_candidates_def)
  from claim_loop_taken [OF run queue_invD(2) [OF assms(2)] this] obtain r l where
    o1: "o1 = claimed w now ?lease r" and row: "claimed_row o1 r \<in> set (q_ops q')"
    and l: "l \<in> set (q_locks q')" "lk_key l = op_lock_key r" "lk_owner l = w" "lk_until l = db_time (now + ?lease)"
    by blast
  have "running (claimed_row o1 r)" "copy_of (claimed_row o1 r) o1"
    by (simp_all add: o1 claimed_row_def claimed_def running_def copy_of_def scan_operation_def)
  moreover have "backed (q_locks q') o1"
    unfolding backed_def by (rule bexI [OF _ l(1)]) (simp add: l o1 claimed_def scan_operation_def)
  ultimately show ?thesis using row by (auto simp: in_hand_def o1 claimed_def)
qed

lemma update_hand:
  assumes "in_hand t q v o1" "t \<le> now" and "op_lease_owner o2 \<noteq> v"
  shows "in_hand now (snd (update_leased o2 lost f q)) v o1"
proof (rule in_hand_kept [OF assms(1,2)])
  show "r \<in> set (q_ops (snd (update_leased o2 lost f q)))" if "r \<in> set (q_ops q)" "op_lease_owner r = v" for r
    by (rule update_leased_keeps [OF that(1)]) (use that(2) assms(3) in simp)
  show "l \<in> set (q_locks (snd (update_leased o2 lost f q)))" if "l \<in> set (q_locks q)" "lk_owner l = v" for l
    using that assms(3) release_keeps [OF that(1)] by (auto simp: update_leased_def Let_def)
qed

lemma pool_inv_kept:
  assumes "pool_inv t p" and "t \<le> now" and "p_queue p' = p_queue p" and "p_hands p' \<subseteq>\<^sub>m p_hands p"
  shows "pool_inv now p'"
proof -
  have "p_hands p w = Some o1" if "p_hands p' w = Some o1" for w o1
    using assms(4) that by (auto simp: map_le_def dom_def)
  with assms(1-3) in_hand_later show ?thesis unfolding pool_inv_def by metis
qed

lemma mark_retry_update: "\<exists>lost f. mark_retry now o1 m next q = update_leased o1 lost f q"
  unfolding mark_retry_def mark_failed_def mark_terminal_def by (simp split: if_splits) blast

lemma finished_hand:
  assumes p: "pool_inv t p" "p_hands p w = Some o1" and "t \<le> now"
    and q: "queue_inv q" "q = snd (update_leased o1 lost f (p_queue p))"
  shows "pool_inv now \<lparr>p_queue = q, p_hands = (p_hands p)(w := None)\<rparr>"
proof -
  have "in_hand now q v o2" if "p_hands p v = Some o2" "v \<noteq> w" for v o2
    unfolding q(2)
    by (rule update_hand [OF pool_invD(2) [OF p(1) that(1)] assms(3)])
       (use pool_invD(2) [OF p] that(2) in \<open>auto simp: in_hand_def\<close>)
  with q(1) show ?thesis by (simp add: pool_inv_def)
qed

lemma held_row: "pool_inv t p \<Longrightarrow> p_hands p w = Some o1 \<Longrightarrow> \<exists>r \<in> set (q_ops (p_queue p)). running r \<and> copy_of r o1"
  using pool_invD(2) unfolding in_hand_def by blast

lemma claim_step_inv:
  assumes p: "pool_inv t p" and w: "t \<le> now" "trim_space w \<noteq> []" "p_hands p w = None"
    and c: "claim_next now w lease (p_queue p) = (Inr res, q)"
  shows "pool_inv now \<lparr>p_queue = q, p_hands = (p_hands p)(w := res)\<rparr>"
proof -
  note inv = pool_invD(1) [OF p]
  have q: "q = snd (claim_next now w lease (p_queue p))" using c by simp
  have "in_hand now q v o1" if "((p_hands p)(w := res)) v = Some o1" for v o1
  proof (cases "v = w")
    case True
    with that c claimed_hand [OF _ inv] show ?thesis by simp
  next
    case False
    with that have "p_hands p v = Some o1" by simp
    from claim_hand [OF pool_invD(2) [OF p this] w(1) inv False] show ?thesis unfolding q .
  qed
  then show ?thesis using claim_inv [OF inv w(2)] by (simp add: pool_inv_def q)
qed

lemma pool_step_inv:
  assumes "pool_step t p now p'" and inv: "pool_inv t p"
  shows "pool_inv now p'"
  using assms(1)
proof (cases rule: pool_step.cases)
  case (pool_enqueue o1)
  with enqueue_inv [OF pool_invD(1) [OF inv]] enqueue_hand [OF pool_invD(2) [OF inv]] show ?thesis
    by (simp add: pool_inv_def)
next
  case (pool_claim w lease res q)
  with claim_step_inv [OF inv] show ?thesis by blast
next
  case (pool_claim_fails w lease e q)
  then have "q = p_queue p" by (auto simp: claim_next_def split: sum.splits)
  with pool_inv_kept [OF inv pool_claim_fails(2)] show ?thesis unfolding pool_claim_fails(1) by simp
next
  case (pool_succeed w o1)
  from held_row [OF inv pool_succeed(3)] have "queue_inv (snd (mark_succeeded now o1 (p_queue p)))"
    unfolding mark_succeeded_def using mark_terminal_inv [OF pool_invD(1) [OF inv]] by blast
  from finished_hand [OF inv pool_succeed(3,2) this] show ?thesis
    unfolding pool_succeed(1) mark_succeeded_def mark_terminal_def by blast
next
  case (pool_retry w o1 m n)
  obtain lost f where f: "mark_retry now o1 m n (p_queue p) = update_leased o1 lost f (p_queue p)"
    using mark_retry_update by blast
  from held_row [OF inv pool_retry(3)] have "queue_inv (snd (mark_retry now o1 m n (p_queue p)))"
    using mark_retry_inv [OF pool_invD(1) [OF inv]] by blast
  from finished_hand [OF inv pool_retry(3,2) this] f show ?thesis unfolding pool_retry(1) by metis
next
  case (pool_fail w o1 m)
  from held_row [OF inv pool_fail(3)] have "queue_inv (snd (mark_failed now o1 m (p_queue p)))"
    unfolding mark_failed_def using mark_terminal_inv [OF pool_invD(1) [OF inv]] by blast
  from finished_hand [OF inv pool_fail(3,2) this] show ?thesis
    unfolding pool_fail(1) mark_failed_def mark_terminal_def by blast
next
  case (pool_drop w)
  with pool_inv_kept [OF inv] show ?thesis by (simp add: map_le_def)
qed

lemma pool_reach_inv: "pool_reach t p \<Longrightarrow> pool_inv t p"
proof (induction rule: pool_reach.induct)
  case (pool_start t)
  show ?case by (simp add: pool_inv_def queue_inv_def)
next
  case (pool_next t p now p')
  then show ?case by (blast intro: pool_step_inv)
qed

text \<open>The queue under the pool moves by the steps of the queue.\<close>

lemma pool_queue_step:
  assumes "pool_step t p now p'" and inv: "pool_inv t p"
  shows "queue_step t (p_queue p) now (p_queue p') \<or> p_queue p' = p_queue p"
  using assms(1)
proof (cases rule: pool_step.cases)
  case (pool_claim w lease res q)
  with step_claim [OF pool_claim(2,3), of "p_queue p" lease] show ?thesis by simp
next
  case (pool_claim_fails w lease e q)
  then show ?thesis by (auto simp: claim_next_def split: sum.splits)
next
  case (pool_succeed w o1)
  with held_row [OF inv pool_succeed(3)] show ?thesis by (auto intro: step_succeed)
next
  case (pool_retry w o1 m n)
  with held_row [OF inv pool_retry(3)] show ?thesis by (auto intro: step_retry)
next
  case (pool_fail w o1 m)
  with held_row [OF inv pool_fail(3)] show ?thesis by (auto intro: step_fail)
qed (auto intro: step_enqueue)

section \<open>The retry delay\<close>

lemma backoff_min:
  assumes "0 < d" and "d \<le> 15 * minute"
  shows "backoff_loop n d = (if n = 0 then d else min (d * 2 ^ n) (15 * minute))"
  using assms
proof (induction n arbitrary: d)
  case (Suc n)
  show ?case
  proof (cases "15 * minute \<le> d * 2")
    case True
    have "d * 2 * 1 \<le> d * 2 * 2 ^ n" by (rule mult_left_mono) (use Suc.prems in simp_all)
    with True show ?thesis by (simp add: Let_def mult.assoc)
  next
    case False
    have "backoff_loop n (d * 2) = (if n = 0 then d * 2 else min (d * 2 * 2 ^ n) (15 * minute))"
      by (rule Suc.IH) (use Suc.prems False in simp_all)
    with False show ?thesis by (simp add: Let_def mult.assoc)
  qed
qed simp

section \<open>Properties\<close>

definition demo_operation :: operation where
  "demo_operation = \<lparr>op_id = ''dep_1'', op_application_id = ''shop__web'', op_project_id = ''shop'',
    op_application_name = ''web'', op_environment = ''prod'', op_image_tag = ''v2'', op_desired_image = ''repo/web:v2'',
    op_strategy = ''Rollout'', op_requested_by = ''ada'', op_request_id = ''req_1'', op_lock_key = ''shop__web'',
    op_status = OpQueued, op_message = [], op_attempts = 0, op_max_attempts = 0, op_last_error = [],
    op_next_attempt_at = 0, op_lease_owner = [], op_lease_until = 0, op_version = 0, op_created_at = 0,
    op_updated_at = 0, op_completed_at = None\<rparr>"

text \<open>One operation is stored, claimed by a worker, and finished.\<close>

definition demo_start :: int where
  "demo_start = unix_epoch + 1000000"

definition demo_queued :: queue where
  "demo_queued = snd (enqueue_operation demo_start demo_operation \<lparr>q_ops = [], q_locks = []\<rparr>)"

definition demo_claimed :: queue where
  "demo_claimed = snd (claim_next (demo_start + 1000) ''worker'' 5000000 demo_queued)"

definition demo_done :: queue where
  "demo_done = snd (mark_succeeded (demo_start + 2000) (hd (q_ops demo_claimed)) demo_claimed)"

lemma demo_queued_parts: "q_ops demo_queued = [enqueue_row demo_start demo_operation]" "q_locks demo_queued = []"
  by (simp_all add: demo_queued_def enqueue_state taken_def)

lemma demo_candidates:
  "claim_candidates (demo_start + 1000) demo_queued = [enqueue_row demo_start demo_operation]"
  by (simp add: claim_candidates_def demo_queued_parts enqueue_row_def demo_operation_def demo_start_def
    unix_epoch_def db_time_def)

lemma demo_queued_reach: "queue_reach demo_start demo_queued"
  unfolding demo_queued_def
  by (rule queue_reach.reach_step [OF queue_reach.reach_start [of demo_start]], rule queue_step.step_enqueue)
     (simp_all add: fresh_operation_def demo_operation_def)

lemma demo_claimed_reach: "queue_reach (demo_start + 1000) demo_claimed"
  unfolding demo_claimed_def
proof (rule queue_reach.reach_step [OF demo_queued_reach], rule queue_step.step_claim)
  show "trim_space ''worker'' \<noteq> []" by code_simp
qed simp

lemma demo_claimed_values:
  "map (\<lambda>r. (running r, op_attempts r, demo_start + 1000 < op_lease_until r)) (q_ops demo_claimed) = [(True, 1, True)]"
  by code_simp

lemma demo_claimed_row: "hd (q_ops demo_claimed) \<in> set (q_ops demo_claimed)"
  "running (hd (q_ops demo_claimed))" "demo_start + 1000 < op_lease_until (hd (q_ops demo_claimed))"
  "op_attempts (hd (q_ops demo_claimed)) = 1"
  using demo_claimed_values by auto

lemma demo_done_reach: "queue_reach (demo_start + 2000) demo_done"
  unfolding demo_done_def
proof (rule queue_reach.reach_step [OF demo_claimed_reach], rule queue_step.step_succeed)
  show "hd (q_ops demo_claimed) \<in> set (q_ops demo_claimed)" "running (hd (q_ops demo_claimed))"
    by (rule demo_claimed_row)+
qed (simp_all add: copy_of_def)

lemma demo_done_row: "\<exists>r \<in> set (q_ops demo_done). op_status r = OpCompleted"
  unfolding demo_done_def mark_succeeded_def mark_terminal_def
proof (subst update_leased_run [OF reach_inv [OF demo_claimed_reach] demo_claimed_row(1,2)])
  show "copy_of (hd (q_ops demo_claimed)) (hd (q_ops demo_claimed))" by (simp add: copy_of_def)
  have map_at: "x \<in> set xs \<Longrightarrow> P (f x) \<Longrightarrow> \<exists>y \<in> set (map (\<lambda>y. if op_id y = op_id x then f y else y) xs). P y"
    for P f x xs by (force simp: image_iff)
  show "\<exists>r \<in> set (q_ops (snd (Inr () :: go_error + unit, \<lparr>q_ops = map (\<lambda>x. if op_id x = op_id (hd (q_ops demo_claimed))
      then x\<lparr>op_status := OpCompleted, op_message := msg_op_completed, op_last_error := nullable_string [],
        op_lease_owner := [], op_lease_until := 0, op_updated_at := db_time (demo_start + 2000),
        op_completed_at := Some (db_time (demo_start + 2000)), op_version := op_version x + 1\<rparr> else x) (q_ops demo_claimed),
      q_locks = release_operation_lock (op_lock_key (hd (q_ops demo_claimed)))
        (op_lease_owner (hd (q_ops demo_claimed))) (q_locks demo_claimed)\<rparr>))). op_status r = OpCompleted"
    unfolding snd_conv queue.select_convs by (rule map_at [OF demo_claimed_row(1)]) simp
qed

section \<open>Two workers\<close>

text \<open>Two operations of two applications wait, and two workers take one each.\<close>

definition second_operation :: operation where
  "second_operation = demo_operation\<lparr>op_id := ''dep_2'', op_request_id := ''req_2'', op_lock_key := ''shop__api''\<rparr>"

definition two_queued :: queue where
  "two_queued = snd (enqueue_operation demo_start second_operation demo_queued)"

definition claim_a :: "(go_error, operation option) result \<times> queue" where
  "claim_a = claim_next (demo_start + 1000) ''worker'' 5000000 two_queued"

definition claim_b :: "(go_error, operation option) result \<times> queue" where
  "claim_b = claim_next (demo_start + 2000) ''backup'' 5000000 (snd claim_a)"

definition hand_of :: "(go_error, operation option) result \<times> queue \<Rightarrow> operation" where
  "hand_of c = (case fst c of Inr (Some o1) \<Rightarrow> o1 | _ \<Rightarrow> demo_operation)"

definition two_hands :: pool where
  "two_hands = \<lparr>p_queue = snd claim_b, p_hands = [''worker'' \<mapsto> hand_of claim_a, ''backup'' \<mapsto> hand_of claim_b]\<rparr>"

definition hand_values :: "(go_error, operation option) result \<times> queue \<Rightarrow> (string \<times> string \<times> bool) option" where
  "hand_values c = (case fst c of Inr (Some o1) \<Rightarrow>
    Some (op_id o1, op_lock_key o1, demo_start + 2000 < db_time (op_lease_until o1)) | _ \<Rightarrow> None)"

lemma claim_a_values: "hand_values claim_a = Some (''dep_1'', ''shop__web'', True)"
  by code_simp

lemma claim_b_values: "hand_values claim_b = Some (''dep_2'', ''shop__api'', True)"
  by code_simp

lemma hand_valuesD:
  assumes "hand_values c = Some (i, k, True)"
  shows "c = (Inr (Some (hand_of c)), snd c)" and "op_id (hand_of c) = i" and "op_lock_key (hand_of c) = k"
    and "demo_start + 2000 < db_time (op_lease_until (hand_of c))"
  using assms by (cases c; auto simp: hand_values_def hand_of_def split: sum.splits option.splits)+

lemma two_hands_reach: "pool_reach (demo_start + 2000) two_hands"
proof -
  let ?q0 = "\<lparr>q_ops = [], q_locks = []\<rparr>"
  have ids: "trim_space ''worker'' \<noteq> []" "trim_space ''backup'' \<noteq> []" by code_simp+
  have "pool_reach demo_start \<lparr>p_queue = demo_queued, p_hands = Map.empty\<rparr>"
    using pool_next [OF pool_start pool_enqueue [of demo_start demo_start demo_operation "\<lparr>p_queue = ?q0, p_hands = Map.empty\<rparr>"]]
    by (simp add: demo_queued_def fresh_operation_def demo_operation_def)
  from pool_next [OF this pool_enqueue [of demo_start demo_start second_operation]]
  have two: "pool_reach demo_start \<lparr>p_queue = two_queued, p_hands = Map.empty\<rparr>"
    by (simp add: two_queued_def second_operation_def fresh_operation_def demo_operation_def)
  have "claim_next (demo_start + 1000) ''worker'' 5000000 two_queued = (Inr (Some (hand_of claim_a)), snd claim_a)"
    using hand_valuesD(1) [OF claim_a_values] by (simp add: claim_a_def)
  with pool_next [OF two pool_claim [of demo_start "demo_start + 1000" "''worker''" "\<lparr>p_queue = two_queued, p_hands = Map.empty\<rparr>"]] ids
  have one: "pool_reach (demo_start + 1000) \<lparr>p_queue = snd claim_a, p_hands = [''worker'' \<mapsto> hand_of claim_a]\<rparr>"
    by fastforce
  have "claim_next (demo_start + 2000) ''backup'' 5000000 (snd claim_a) = (Inr (Some (hand_of claim_b)), snd claim_b)"
    using hand_valuesD(1) [OF claim_b_values] by (simp add: claim_b_def)
  with pool_next [OF one pool_claim [of "demo_start + 1000" "demo_start + 2000" "''backup''"
    "\<lparr>p_queue = snd claim_a, p_hands = [''worker'' \<mapsto> hand_of claim_a]\<rparr>"]] ids
  show ?thesis unfolding two_hands_def by fastforce
qed

text \<open>
  A worker that lost track of its operation takes the next one of the same key: the key has two running
  rows under unexpired leases, both of that worker, and another worker is still kept out.
\<close>

definition same_key_queued :: queue where
  "same_key_queued = snd (enqueue_operation demo_start (second_operation\<lparr>op_lock_key := ''shop__web''\<rparr>) demo_queued)"

lemma same_owner_retakes:
  "(let q1 = snd (claim_next (demo_start + 1000) ''worker'' 5000000 same_key_queued);
        q2 = snd (claim_next (demo_start + 2000) ''worker'' 5000000 q1)
    in map (\<lambda>r. (op_id r, op_lock_key r, running r, op_lease_owner r, demo_start + 2000 < op_lease_until r)) (q_ops q2) =
         [(''dep_1'', ''shop__web'', True, ''worker'', True), (''dep_2'', ''shop__web'', True, ''worker'', True)] \<and>
       hand_values (claim_next (demo_start + 2000) ''backup'' 5000000 q1) = None)"
  by code_simp

text \<open>
  C11: workers that each handle one claimed operation at a time, whatever updates fail and whoever is
  restarted in between: two different workers never have operations with one lock key in hand while both
  leases, as the database stores them, last; and what a worker has in hand is a running row leased to it.
  One clock and one process per worker id are part of the step relation.
\<close>

theorem lease_exclusion:
  assumes "pool_reach now p" and "v \<noteq> w" and "p_hands p v = Some a" and "p_hands p w = Some b"
    and "now < db_time (op_lease_until a)" and "now < db_time (op_lease_until b)"
  shows "op_lock_key a \<noteq> op_lock_key b \<and>
    (\<exists>r \<in> set (q_ops (p_queue p)). op_id r = op_id a \<and> running r \<and> op_lease_owner r = v)"
proof -
  note inv = pool_reach_inv [OF assms(1)]
  from pool_invD(2) [OF inv assms(3)] pool_invD(2) [OF inv assms(4)] assms(5,6)
  have own: "op_lease_owner a = v" "op_lease_owner b = w"
    and row: "\<exists>r \<in> set (q_ops (p_queue p)). running r \<and> copy_of r a"
    and locks: "backed (q_locks (p_queue p)) a" "backed (q_locks (p_queue p)) b" by (auto simp: in_hand_def)
  have "op_lock_key a \<noteq> op_lock_key b"
    using locks own assms(2) distinct_id_eq [OF queue_invD(2) [OF pool_invD(1) [OF inv]]] unfolding backed_def by metis
  with row own show ?thesis by (auto simp: copy_of_def)
qed

theorem lease_exclusion_witness:
  "pool_reach (demo_start + 2000) two_hands \<and> op_lock_key (hand_of claim_a) = ''shop__web'' \<and>
   op_lock_key (hand_of claim_b) = ''shop__api'' \<and> op_lock_key (hand_of claim_a) \<noteq> op_lock_key (hand_of claim_b) \<and>
   (\<exists>r \<in> set (q_ops (p_queue two_hands)). op_id r = op_id (hand_of claim_a) \<and> running r \<and> op_lease_owner r = ''worker'')"
proof -
  note a = hand_valuesD [OF claim_a_values] and b = hand_valuesD [OF claim_b_values]
  have hands: "p_hands two_hands ''worker'' = Some (hand_of claim_a)" "p_hands two_hands ''backup'' = Some (hand_of claim_b)"
    by (simp_all add: two_hands_def)
  have "''worker'' \<noteq> ''backup''" by simp
  from lease_exclusion [OF two_hands_reach this hands a(4) b(4)] two_hands_reach a(3) b(3) show ?thesis by blast
qed

text \<open>
  C12: in every reachable state an operation has been attempted at most its limit of times, and one
  that still waits for a worker has an attempt left.
\<close>

theorem attempts_bounded:
  assumes "queue_reach now q" and "r \<in> set (q_ops q)"
  shows "0 \<le> op_attempts r \<and> op_attempts r \<le> op_max_attempts r \<and>
    (op_status r = OpQueued \<or> op_status r = OpRetrying \<longrightarrow> op_attempts r < op_max_attempts r)"
  using queue_invD(3) [OF reach_inv [OF assms(1)] assms(2)] by (auto simp: row_ok_def)

theorem attempts_bounded_witness:
  "op_attempts (hd (q_ops demo_claimed)) = 1 \<and>
   0 \<le> op_attempts (hd (q_ops demo_claimed)) \<and> op_attempts (hd (q_ops demo_claimed)) \<le> op_max_attempts (hd (q_ops demo_claimed))"
proof -
  from demo_claimed_row(4) attempts_bounded [OF demo_claimed_reach demo_claimed_row(1)] show ?thesis by simp
qed

text \<open>
  C13: a completed or failed operation is never changed again: every step of the service and of the
  workers keeps its row as it is.
\<close>

theorem finished_frozen:
  assumes "queue_reach t q" and "queue_step t q now q'" and "r \<in> set (q_ops q)"
    and "op_status r \<in> {OpCompleted, OpFailed}"
  shows "r \<in> set (q_ops q')"
proof -
  note inv = reach_inv [OF assms(1)]
  have own: "op_lease_owner r = [] \<or> op_lease_owner r \<noteq> op_lease_owner o1" for o1
    using finished_owner [OF inv assms(3,4)] by simp
  have settled: "op_status r \<notin> {OpQueued, OpRetrying}" using assms(4) by auto
  from assms(2) show ?thesis
    by (rule queue_stepE)
       (simp_all add: mark_succeeded_def mark_failed_def mark_retry_def mark_terminal_def
         enqueue_keeps [OF assms(3)] claim_keeps [OF inv assms(3) settled] update_leased_keeps [OF assms(3) own])
qed

theorem finished_frozen_witness:
  "\<exists>r \<in> set (q_ops demo_done). op_status r = OpCompleted \<and>
    r \<in> set (q_ops (snd (enqueue_operation (demo_start + 3000) demo_operation demo_done)))"
proof -
  obtain r where r: "r \<in> set (q_ops demo_done)" "op_status r = OpCompleted" using demo_done_row by blast
  have "queue_step (demo_start + 2000) demo_done (demo_start + 3000)
      (snd (enqueue_operation (demo_start + 3000) demo_operation demo_done))"
    by (rule queue_step.step_enqueue) (simp_all add: fresh_operation_def demo_operation_def)
  from finished_frozen [OF demo_done_reach this r(1)] r show ?thesis by blast
qed

text \<open>
  C14: a claim takes the oldest due operation whose lock key is not leased to another worker, among
  the ten oldest due ones, and takes one whenever there is one.
\<close>

theorem claim_oldest_free:
  assumes "queue_reach t q" and "unix_epoch \<le> now"
    and "\<forall>r \<in> set (q_ops q). trim_space (op_lock_key r) \<noteq> []"
  shows "fst (claim_next now w lease q) = Inr (map_option (claimed w now (effective_lease lease))
    (find (\<lambda>r. \<not> locked_by_other w now (q_locks q) r) (claim_candidates now q)))"
proof -
  have "\<forall>r \<in> set (claim_candidates now q). r \<in> set (q_ops q) \<and> trim_space (op_lock_key r) \<noteq> []"
    using set_take_subset [of 10] assms(3) by (force simp: claim_candidates_def)
  from claim_loop_first [OF queue_invD(2) [OF reach_inv [OF assms(1)]] assms(2) this, of w "effective_lease lease"]
  show ?thesis by (auto simp: claim_next_def)
qed

theorem claim_oldest_free_witness:
  "\<exists>r. fst (claim_next (demo_start + 1000) ''worker'' 5000000 demo_queued) = Inr (Some r) \<and> op_id r = ''dep_1''"
proof -
  have "unix_epoch \<le> demo_start + 1000" by code_simp
  moreover have "\<forall>r \<in> set (q_ops demo_queued). trim_space (op_lock_key r) \<noteq> []"
    by (simp add: demo_queued_parts demo_operation_def) code_simp
  ultimately have "fst (claim_next (demo_start + 1000) ''worker'' 5000000 demo_queued) =
    Inr (map_option (claimed ''worker'' (demo_start + 1000) (effective_lease 5000000))
      (find (\<lambda>r. \<not> locked_by_other ''worker'' (demo_start + 1000) (q_locks demo_queued) r)
        (claim_candidates (demo_start + 1000) demo_queued)))"
    by (rule claim_oldest_free [OF demo_queued_reach])
  then show ?thesis
    unfolding demo_candidates
    by (simp add: locked_by_other_def demo_queued_parts claimed_def scan_operation_def demo_operation_def)
qed

text \<open>
  C16: the delay before the next attempt doubles from one minute and stays at fifteen minutes.
\<close>

theorem backoff_doubles_to_limit:
  "deployment_backoff attempt = min (minute * 2 ^ nat (attempt - 1)) (15 * minute)"
  by (simp add: deployment_backoff_def backoff_min minute_def)

end
