(* ===== verification/AppSecrets.thy ===== *)
theory AppSecrets
  imports AppService
begin

text \<open>
  The environment secrets of an application and the end of its life (application/service.go): reading,
  updating, listing and restoring versions of the secret, archiving and deleting the application. The
  secret store is the local one, which keeps versions.
\<close>

section \<open>Responses\<close>

record secrets_response =
  sx_application_id :: string
  sx_secret_path :: string
  sx_configured :: bool
  sx_versioning :: bool
  sx_current_version :: int
  sx_updated_at :: "int option"
  sx_keys :: "string list"

definition secrets_unconfigured :: "string \<Rightarrow> go_error" where
  "secrets_unconfigured application_id =
    ValidationError ''IIV secret store is not configured'' [(''applicationId'', JStr application_id)]"

definition build_secrets_response ::
  "app_service \<Rightarrow> string \<Rightarrow> string \<Rightarrow> bool \<Rightarrow> (string \<times> string) list \<Rightarrow> secrets_response handler" where
  "build_secrets_response sv application_id secret_path configured values =
    (let response = \<lparr>sx_application_id = application_id, sx_secret_path = secret_path, sx_configured = configured,
           sx_versioning = False, sx_current_version = 0, sx_updated_at = None, sx_keys = sort (map fst values)\<rparr>
     in if \<not> fs_secrets sv \<or> trim_space secret_path = [] \<or> \<not> configured then returnS response
        else readS (\<lambda>s.
          case vault_list_versions secret_path (pf_vault s) of
            Inl e \<Rightarrow> Inl (Wrapped ''read application secret versions'' e)
          | Inr versions \<Rightarrow> Inr (response\<lparr>sx_versioning := True, sx_current_version := svs_current_version versions,
              sx_updated_at := (case find sv_current (svs_items versions) of Some i \<Rightarrow> sv_created_at i | None \<Rightarrow> None)\<rparr>)))"

definition read_secret :: "string \<Rightarrow> (string \<times> string) list handler" where
  "read_secret path = readS (\<lambda>s.
    case vault_get path (pf_vault s) of
      Inl e \<Rightarrow> Inl (Wrapped ''read application secrets'' e) | Inr values \<Rightarrow> Inr values)"

definition secret_path_or_final :: "app_record \<Rightarrow> string" where
  "secret_path_or_final r =
    (if trim_space (ar_secret_path r) = [] then build_vault_final_path (ar_project_id r) (ar_name r)
     else trim_space (ar_secret_path r))"

section \<open>Reading\<close>

definition get_application_secrets :: "app_service \<Rightarrow> user \<Rightarrow> string \<Rightarrow> secrets_response handler" where
  "get_application_secrets sv u application_id =
    bindS (readS (require_application sv u application_id True)) (\<lambda>r.
    if \<not> fs_secrets sv then failS (secrets_unconfigured application_id)
    else
      let configured = (trim_space (ar_secret_path r) \<noteq> []) in
      bindS (if configured then read_secret (secret_path_or_final r) else returnS []) (\<lambda>values.
        build_secrets_response sv (ar_id r) (secret_path_or_final r) configured values))"

record secret_versions_response =
  sw_application_id :: string
  sw_secret_path :: string
  sw_current_version :: int
  sw_items :: "secret_version_summary list"

definition list_secret_versions :: "app_service \<Rightarrow> user \<Rightarrow> string \<Rightarrow> secret_versions_response handler" where
  "list_secret_versions sv u application_id =
    bindS (readS (require_application sv u application_id True)) (\<lambda>r.
    let path = trim_space (ar_secret_path r) in
    if path = [] then returnS \<lparr>sw_application_id = application_id, sw_secret_path = secret_path_or_final r,
        sw_current_version = 0, sw_items = []\<rparr>
    else if \<not> fs_secrets sv then
      returnS \<lparr>sw_application_id = application_id, sw_secret_path = path, sw_current_version = 0, sw_items = []\<rparr>
    else readS (\<lambda>s.
      case vault_list_versions path (pf_vault s) of
        Inl e \<Rightarrow> Inl (Wrapped ''read application secret versions'' e)
      | Inr versions \<Rightarrow> Inr \<lparr>sw_application_id = application_id, sw_secret_path = path,
          sw_current_version = svs_current_version versions, sw_items = svs_items versions\<rparr>))"

section \<open>Updating\<close>

definition merge_secret_values ::
  "(string \<times> string) list \<Rightarrow> string list \<Rightarrow> (string \<times> string) list \<Rightarrow> (string \<times> string) list" where
  "merge_secret_values current delete_keys set_values =
    fold (\<lambda>kv m. AList.update (fst kv) (snd kv) m) set_values (fold AList.delete delete_keys current)"

text \<open>Staging at a path and finalising there at once.\<close>

definition write_secret ::
  "app_service \<Rightarrow> string \<Rightarrow> string \<Rightarrow> (string \<times> string) list \<Rightarrow> (string \<times> string) list \<Rightarrow> unit handler" where
  "write_secret sv request_id path metadata values =
    bindS (stage_at sv request_id path metadata values) (\<lambda>staged.
    bindS (now_utc sv) (\<lambda>t. on_vault (vault_finalize t staged values)))"

definition update_application_secrets ::
  "app_service \<Rightarrow> bool \<Rightarrow> user \<Rightarrow> string \<Rightarrow> secret_entry list \<Rightarrow> string list \<Rightarrow> string \<Rightarrow> secrets_response handler" where
  "update_application_secrets sv bypass u application_id set_entries delete_entries request_id =
    bindS (readS (require_application sv u application_id True)) (\<lambda>r0.
    if \<not> fs_secrets sv then failS (secrets_unconfigured application_id)
    else
      bindS (authorized sv u (ar_project_id r0)) (\<lambda>a.
      if \<not> bypass \<and> requires_change_flow (ap_project a) (ar_environment r0) then failS ErrChangeRequired
      else
        bindS (liftR (normalize_secrets set_entries)) (\<lambda>set_values.
        bindS (liftR (normalize_secret_delete_keys delete_entries set_values)) (\<lambda>delete_keys.
        let current_path = trim_space (ar_secret_path r0); secret_path = secret_path_or_final r0 in
        bindS (if current_path \<noteq> [] then read_secret current_path else returnS []) (\<lambda>current.
        let next = merge_secret_values current delete_keys set_values;
            next_path = (if next \<noteq> [] then secret_path else []) in
        bindS (if next_path \<noteq> current_path then
            bindS (now_utc sv) (\<lambda>now. on_repo (store_save_secret_path (fs_store sv) now
              (build_project_context (ap_project a)) application_id next_path))
          else returnS r0) (\<lambda>r.
        bindS (if next \<noteq> [] then
            write_secret sv (request_id @ ''_env'') next_path
              [(''projectId'', ar_project_id r), (''appName'', ar_name r), (''updatedBy'', user_name u),
               (''kind'', ''application-env'')] next
          else if current_path \<noteq> [] then on_vault (vault_delete current_path)
          else returnS ()) (\<lambda>_.
        bindS (note_event sv (ar_id r) ''ApplicationSecretsUpdated'' msg_secrets_updated
            [(''secretPath'', JStr next_path), (''keyCount'', JInt (int (length next)))]) (\<lambda>_.
          build_secrets_response sv (ar_id r) secret_path (next_path \<noteq> []) next))))))))"

definition restore_secret_version ::
  "app_service \<Rightarrow> bool \<Rightarrow> user \<Rightarrow> string \<Rightarrow> int \<Rightarrow> string \<Rightarrow> secrets_response handler" where
  "restore_secret_version sv bypass u application_id version request_id =
    bindS (readS (require_application sv u application_id True)) (\<lambda>r.
    let path = trim_space (ar_secret_path r) in
    if version \<le> 0 then failS (app_invalid ''secret version must be a positive integer'' ''version'')
    else if path = [] then failS (ValidationError ''application has no configured environment secret''
      [(''applicationId'', JStr application_id)])
    else if \<not> fs_secrets sv then failS (ValidationError ''secret version history is not available''
      [(''applicationId'', JStr application_id)])
    else
      bindS (authorized sv u (ar_project_id r)) (\<lambda>a.
      if \<not> bypass \<and> requires_change_flow (ap_project a) (ar_environment r) then failS ErrChangeRequired
      else
        bindS (readS (\<lambda>s. case vault_get_version path version (pf_vault s) of
            Inl e \<Rightarrow> Inl (Wrapped ''read application secret version'' e) | Inr x \<Rightarrow> Inr x)) (\<lambda>(values, info).
        if sv_deleted info \<or> sv_destroyed info then
          failS (ValidationError ''secret version cannot be restored because it is deleted or destroyed''
            [(''version'', JInt version)])
        else
          bindS (write_secret sv (request_id @ ''_env_restore'') path
            [(''projectId'', ar_project_id r), (''appName'', ar_name r), (''updatedBy'', user_name u),
             (''kind'', ''application-env-restore''), (''restoredVersion'', show_int version)] values) (\<lambda>_.
          bindS (note_event sv (ar_id r) ''ApplicationSecretsRestored''
              (msg_secrets_restored_a @ show_int version @ msg_secrets_restored_b)
              [(''secretPath'', JStr path), (''restoredVersion'', JInt version),
               (''restoredKeyCount'', JInt (int (length values)))]) (\<lambda>_.
            build_secrets_response sv (ar_id r) path True values)))))"

section \<open>Archiving and deleting\<close>

definition archive_application :: "app_service \<Rightarrow> user \<Rightarrow> string \<Rightarrow> lifecycle_response handler" where
  "archive_application sv u application_id =
    bindS (readS (require_project_admin sv u application_id)) (\<lambda>_.
    bindS (now_utc sv) (\<lambda>now.
    bindS (on_repo (store_archive now application_id (user_name u))) (\<lambda>response.
    bindS (note_event sv application_id ''ApplicationArchived'' msg_archived
        [(''archivedAt'', case lc_archived_at response of Some t \<Rightarrow> JTime t | None \<Rightarrow> JStr [])]) (\<lambda>_.
      returnS response))))"

fun delete_secret_paths :: "string list \<Rightarrow> (vault, go_error, unit) action" where
  "delete_secret_paths [] v = (Inr (), v)"
| "delete_secret_paths (p # ps) v =
    (if trim_space p = [] then delete_secret_paths ps v
     else (case vault_delete p v of (Inl e, v1) \<Rightarrow> (Inl e, v1) | (Inr _, v1) \<Rightarrow> delete_secret_paths ps v1))"

definition delete_application :: "app_service \<Rightarrow> user \<Rightarrow> string \<Rightarrow> lifecycle_response handler" where
  "delete_application sv u application_id =
    bindS (readS (require_project_admin sv u application_id)) (\<lambda>_.
    bindS (now_utc sv) (\<lambda>now.
    bindS (on_repo (store_delete now application_id)) (\<lambda>response.
    bindS (if fs_secrets sv then on_vault (delete_secret_paths (lc_secret_paths response)) else returnS ()) (\<lambda>_.
      returnS response))))"

end
