(* ===== verification/AppReads.thy ===== *)
theory AppReads
  imports AppService
begin

text \<open>
  Deployments of an application as the user sees them, their promotion and abortion, the rollback
  policy, events, network exposure and logs (application/service.go).
\<close>

section \<open>Deployments\<close>

definition finished_text :: "string \<Rightarrow> bool" where
  "finished_text status \<longleftrightarrow> to_lower (trim_space status) \<in> {''created'', ''running'', ''syncing''}"

definition decorate_deployment_status :: "app_record \<Rightarrow> sync_info \<Rightarrow> deployment_record \<Rightarrow> deployment_record" where
  "decorate_deployment_status r info d =
    (let d1 = d\<lparr>dr_sync_status := Some (si_status info)\<rparr> in
     if si_status info \<noteq> SyncSynced \<or> is_canary (dr_strategy d1) then d1
     else if trim_space (dr_image d1) \<noteq> trim_space (ar_image r) then d1
     else if finished_text (dr_status d1) then
       d1\<lparr>dr_status := ''Completed'', dr_message := msg_rollout_done,
         dr_updated_at := (if si_observed_at info = 0 then dr_updated_at d1 else si_observed_at info)\<rparr>
     else d1)"

definition list_app_deployments ::
  "app_service \<Rightarrow> user \<Rightarrow> string \<Rightarrow> (string \<times> deployment_record list) handler" where
  "list_app_deployments sv u application_id =
    bindS (readS (require_application sv u application_id False)) (\<lambda>r.
    bindS (readS (\<lambda>s. store_list_deployments application_id (pf_repo s))) (\<lambda>stored.
    bindS (if fs_queue sv then
        readS (\<lambda>s. Inr (merge_deployment_records stored (list_operation_records application_id (sr_queue s))))
      else returnS stored) (\<lambda>items.
    if items = [] then returnS (ar_id r, items)
    else bindS (read_sync_info_or_unknown sv r) (\<lambda>info.
      returnS (ar_id r, map (decorate_deployment_status r info) items)))))"

text \<open>The rollout's state in the record of a deployment.\<close>

definition with_rollout :: "rollout_info \<Rightarrow> deployment_record \<Rightarrow> deployment_record" where
  "with_rollout i d = d\<lparr>dr_rollout_phase := ri_phase i, dr_current_step := ri_step i, dr_canary_weight := ri_weight i,
    dr_stable_revision := ri_stable i, dr_canary_revision := ri_canary i\<rparr>"

definition find_deployment :: "app_service \<Rightarrow> string \<Rightarrow> string \<Rightarrow> server \<Rightarrow> (go_error, deployment_record) result" where
  "find_deployment sv application_id deployment_id s =
    (case store_get_deployment application_id deployment_id (pf_repo s) of
       Inr d \<Rightarrow> Inr d
     | Inl e \<Rightarrow> if errors_is e ErrDeploymentNotFound \<and> fs_queue sv
         then get_operation_record application_id deployment_id (sr_queue s) else Inl e)"

definition get_app_deployment :: "app_service \<Rightarrow> user \<Rightarrow> string \<Rightarrow> string \<Rightarrow> deployment_record handler" where
  "get_app_deployment sv u application_id deployment_id =
    bindS (readS (require_application sv u application_id False)) (\<lambda>r.
    bindS (readS (find_deployment sv application_id deployment_id)) (\<lambda>d0.
    bindS (read_sync_info_or_unknown sv r) (\<lambda>info.
    let d = decorate_deployment_status r info d0 in
    case fs_rollouts sv of
      None \<Rightarrow> returnS d
    | Some controller \<Rightarrow>
        if \<not> is_canary (ar_strategy r) then returnS d
        else bindS (ask (\<lambda>n. rc_get controller n r)) (\<lambda>answer.
          case answer of
            Inl _ \<Rightarrow> returnS d
          | Inr i \<Rightarrow> returnS (if ri_message i \<noteq> [] then (with_rollout i d)\<lparr>dr_message := ri_message i\<rparr>
              else with_rollout i d)))))"

text \<open>Promote and abort differ in the call, the texts and the status they leave.\<close>

definition steer_rollout ::
  "app_service \<Rightarrow> (rollout_controller \<Rightarrow> nat \<Rightarrow> app_record \<Rightarrow> (go_error, rollout_info) result) \<Rightarrow> string \<Rightarrow>
   string \<Rightarrow> string \<Rightarrow> string \<Rightarrow> user \<Rightarrow> string \<Rightarrow> string \<Rightarrow> deployment_record handler" where
  "steer_rollout sv call verb status event_type event_suffix u application_id deployment_id =
    bindS (readS (require_application sv u application_id True)) (\<lambda>r.
    bindS (readS (\<lambda>s. store_get_deployment application_id deployment_id (pf_repo s))) (\<lambda>d0.
    if \<not> is_canary (ar_strategy r) then
      failS (ValidationError (''only Canary deployments can be '' @ verb) [(''applicationId'', JStr application_id)])
    else
      bindS (case fs_rollouts sv of
          None \<Rightarrow> returnS d0
        | Some controller \<Rightarrow>
            bindS (ask (\<lambda>n. call controller n r)) (\<lambda>answer.
            bindS (liftR answer) (\<lambda>i.
            bindS (now_utc sv) (\<lambda>t.
              on_repo (store_update_deployment application_id
                ((with_rollout i d0)\<lparr>dr_status := status, dr_message := ri_message i, dr_updated_at := t\<rparr>)))))) (\<lambda>d.
      bindS (note_event sv application_id event_type (msg_deployment @ deployment_id @ event_suffix) []) (\<lambda>_.
        returnS d))))"

definition promote_deployment :: "app_service \<Rightarrow> user \<Rightarrow> string \<Rightarrow> string \<Rightarrow> deployment_record handler" where
  "promote_deployment sv =
    steer_rollout sv (\<lambda>c n r. rc_promote c n r False) ''promoted'' ''Promoted'' ''RolloutPromoted'' msg_promoted"

definition abort_deployment :: "app_service \<Rightarrow> user \<Rightarrow> string \<Rightarrow> string \<Rightarrow> deployment_record handler" where
  "abort_deployment sv =
    steer_rollout sv rc_abort ''aborted'' ''Aborted'' ''RolloutAborted'' msg_aborted"

section \<open>Rollback policy and events\<close>

definition get_rollback_policy :: "app_service \<Rightarrow> user \<Rightarrow> string \<Rightarrow> rollback_policy handler" where
  "get_rollback_policy sv u application_id =
    bindS (readS (require_application sv u application_id False)) (\<lambda>_.
      readS (\<lambda>s. store_get_rollback_policy application_id (pf_repo s)))"

definition save_rollback_policy :: "app_service \<Rightarrow> user \<Rightarrow> string \<Rightarrow> rollback_policy \<Rightarrow> rollback_policy handler" where
  "save_rollback_policy sv u application_id policy =
    bindS (readS (require_application sv u application_id True)) (\<lambda>_.
    bindS (on_repo (store_save_rollback_policy application_id policy)) (\<lambda>saved.
    bindS (note_event sv application_id ''RollbackPolicyUpdated'' msg_rollback_policy []) (\<lambda>_.
      returnS saved)))"

definition get_events :: "app_service \<Rightarrow> user \<Rightarrow> string \<Rightarrow> (string \<times> app_event list) handler" where
  "get_events sv u application_id =
    bindS (readS (require_application sv u application_id False)) (\<lambda>_.
    bindS (readS (\<lambda>s. store_list_events application_id (pf_repo s))) (\<lambda>items.
      returnS (application_id, items)))"

section \<open>Sync status\<close>

record sync_status_response =
  sy_application_id :: string
  sy_status :: sync_status
  sy_message :: string
  sy_observed_at :: int
  sy_poll :: "poll_status option"

definition get_sync_status :: "app_service \<Rightarrow> user \<Rightarrow> string \<Rightarrow> sync_status_response handler" where
  "get_sync_status sv u application_id =
    bindS (readS (require_application sv u application_id False)) (\<lambda>r.
    bindS (read_sync_info_or_unknown sv r) (\<lambda>info.
      readS (\<lambda>s. Inr \<lparr>sy_application_id = ar_id r, sy_status = si_status info, sy_message = si_message info,
        sy_observed_at = si_observed_at info,
        sy_poll = (if fs_tracker sv then poll_snapshot r (sr_polls s) else None)\<rparr>)))"

section \<open>Network exposure\<close>

record exposure_response =
  er_application_id :: string
  er_enabled :: bool
  er_status :: exposure_status
  er_message :: string
  er_service_type :: string
  er_addresses :: "string list"
  er_ports :: "exposure_port list"
  er_last_event :: "exposure_event option"
  er_observed_at :: int

definition get_network_exposure :: "app_service \<Rightarrow> user \<Rightarrow> string \<Rightarrow> exposure_response handler" where
  "get_network_exposure sv u application_id =
    bindS (readS (require_application sv u application_id False)) (\<lambda>r.
      case fs_network sv of
        None \<Rightarrow> bindS (now_utc sv) (\<lambda>t. returnS \<lparr>er_application_id = ar_id r, er_enabled = ar_load_balancer r,
          er_status = ExposurePending, er_message = msg_no_exposure_reader, er_service_type = [], er_addresses = [],
          er_ports = [], er_last_event = None, er_observed_at = t\<rparr>)
      | Some reader \<Rightarrow>
          bindS (ask (\<lambda>n. reader n r)) (\<lambda>answer.
            case answer of
              Inl e \<Rightarrow> bindS (now_utc sv) (\<lambda>t. returnS \<lparr>er_application_id = ar_id r, er_enabled = ar_load_balancer r,
                er_status = ExposureError, er_message = error_text e, er_service_type = ''LoadBalancer'',
                er_addresses = [], er_ports = [], er_last_event = None, er_observed_at = t\<rparr>)
            | Inr i \<Rightarrow> returnS \<lparr>er_application_id = ar_id r, er_enabled = ar_load_balancer r, er_status = xi_status i,
                er_message = xi_message i, er_service_type = xi_service_type i, er_addresses = xi_addresses i,
                er_ports = xi_ports i, er_last_event = xi_last_event i, er_observed_at = xi_observed_at i\<rparr>))"

section \<open>Logs\<close>

definition clamp_tail_lines :: "int \<Rightarrow> int" where
  "clamp_tail_lines n = (let m = (if n \<le> 0 then 120 else n) in if 500 < m then 500 else m)"

record logs_response =
  lg_application_id :: string
  lg_collected_at :: int
  lg_tail_lines :: int
  lg_items :: "log_stream list"

definition logs_response_of :: "app_service \<Rightarrow> string \<Rightarrow> int \<Rightarrow> log_stream list \<Rightarrow> logs_response handler" where
  "logs_response_of sv application_id tail_lines items =
    bindS (now_utc sv) (\<lambda>t. returnS \<lparr>lg_application_id = application_id, lg_collected_at = t,
      lg_tail_lines = tail_lines, lg_items = items\<rparr>)"

definition get_container_logs :: "app_service \<Rightarrow> user \<Rightarrow> string \<Rightarrow> int \<Rightarrow> logs_response handler" where
  "get_container_logs sv u application_id tail_lines =
    bindS (readS (require_application sv u application_id False)) (\<lambda>r.
      case fs_logs sv of
        None \<Rightarrow> logs_response_of sv (ar_id r) (clamp_tail_lines tail_lines) []
      | Some reader \<Rightarrow>
          bindS (ask (\<lambda>n. lr_read reader n r (clamp_tail_lines tail_lines))) (\<lambda>answer.
            logs_response_of sv (ar_id r) (clamp_tail_lines tail_lines)
              (case answer of Inl _ \<Rightarrow> [] | Inr items \<Rightarrow> items)))"

definition get_container_log_targets ::
  "app_service \<Rightarrow> user \<Rightarrow> string \<Rightarrow> (string \<times> int \<times> log_target list) handler" where
  "get_container_log_targets sv u application_id =
    bindS (readS (require_application sv u application_id False)) (\<lambda>r.
      case fs_logs sv of
        None \<Rightarrow> bindS (now_utc sv) (\<lambda>t. returnS (ar_id r, t, []))
      | Some reader \<Rightarrow>
          bindS (ask (\<lambda>n. lr_targets reader n r)) (\<lambda>answer.
          bindS (now_utc sv) (\<lambda>t.
            returnS (ar_id r, t, case answer of Inl _ \<Rightarrow> [] | Inr items \<Rightarrow> items))))"

definition has_log_target :: "log_target list \<Rightarrow> string \<Rightarrow> string \<Rightarrow> bool" where
  "has_log_target targets pod container \<longleftrightarrow>
    list_ex (\<lambda>t. lt_pod t = pod \<and> list_ex (\<lambda>c. lo_name c = container) (lt_containers t)) targets"

definition stream_container_logs ::
  "app_service \<Rightarrow> user \<Rightarrow> string \<Rightarrow> string \<Rightarrow> string \<Rightarrow> int \<Rightarrow> unit handler" where
  "stream_container_logs sv u application_id pod container tail_lines =
    bindS (readS (require_application sv u application_id False)) (\<lambda>r.
      case fs_logs sv of
        None \<Rightarrow> failS (ValidationError ''container logs are unavailable because kubernetes api is not configured''
          [(''applicationId'', JStr application_id)])
      | Some reader \<Rightarrow>
          if trim_space pod = [] then failS (app_invalid ''podName is required to stream container logs'' ''podName'')
          else if trim_space container = [] then
            failS (app_invalid ''containerName is required to stream container logs'' ''containerName'')
          else bindS (ask (\<lambda>n. lr_targets reader n r)) (\<lambda>answer. bindS (liftR answer) (\<lambda>targets.
            if \<not> has_log_target targets pod container then
              failS (ValidationError ''selected pod or container was not found''
                [(''podName'', JStr pod), (''containerName'', JStr container)])
            else bindS (ask (\<lambda>n. lr_stream reader n r pod container (clamp_tail_lines tail_lines))) liftR)))"

end
