(* ===== verification/AppHealth.thy ===== *)
theory AppHealth
  imports AppReads
begin

text \<open>
  The health of a project (application/service.go): sync, metrics and deployment signals of every
  application and the status derived from them, and the diagnostics of metrics.
\<close>

section \<open>Signals\<close>

datatype health_status = Healthy | HealthWarning | HealthCritical | HealthUnknown

datatype signal_status = SignalOK | SignalWarning | SignalCritical | SignalUnknown | SignalUnavailable

record health_signal =
  hs_key :: string
  hs_status :: signal_status
  hs_message :: string
  hs_observed_at :: int
  hs_details :: jmap

fun sync_text :: "sync_status \<Rightarrow> string" where
  "sync_text SyncUnknown = ''Unknown''"
| "sync_text SyncSyncing = ''Syncing''"
| "sync_text SyncSynced = ''Synced''"
| "sync_text SyncDegraded = ''Degraded''"

fun sync_signal_status :: "sync_status \<Rightarrow> signal_status" where
  "sync_signal_status SyncSynced = SignalOK"
| "sync_signal_status SyncDegraded = SignalCritical"
| "sync_signal_status SyncSyncing = SignalWarning"
| "sync_signal_status SyncUnknown = SignalWarning"

definition sync_health_signal :: "sync_info \<Rightarrow> health_signal" where
  "sync_health_signal info =
    \<lparr>hs_key = ''sync'', hs_status = sync_signal_status (si_status info),
     hs_message = (if trim_space (si_message info) = [] then msg_sync_read else trim_space (si_message info)),
     hs_observed_at = si_observed_at info, hs_details = [(''syncStatus'', JStr (sync_text (si_status info)))]\<rparr>"

text \<open>The loop of deriveHealthStatus, with its two flags.\<close>

fun derive_health_loop :: "bool \<Rightarrow> bool \<Rightarrow> health_signal list \<Rightarrow> health_status" where
  "derive_health_loop warning unknown [] =
    (if warning then HealthWarning else if unknown then HealthUnknown else Healthy)"
| "derive_health_loop warning unknown (g # gs) =
    (case hs_status g of
       SignalCritical \<Rightarrow> HealthCritical
     | SignalWarning \<Rightarrow> derive_health_loop True unknown gs
     | SignalUnavailable \<Rightarrow> derive_health_loop True unknown gs
     | SignalUnknown \<Rightarrow> derive_health_loop warning True gs
     | SignalOK \<Rightarrow> derive_health_loop warning unknown gs)"

definition derive_health_status :: "health_signal list \<Rightarrow> health_status" where
  "derive_health_status gs = (if gs = [] then HealthUnknown else derive_health_loop False False gs)"

section \<open>Metrics\<close>

record series_diagnostic =
  sd_key :: string
  sd_label :: string
  sd_unit :: string
  sd_status :: signal_status
  sd_message :: string
  sd_point_count :: nat
  sd_value_count :: nat
  sd_latest :: "f64 option"

definition diagnose_series :: "metric_series \<Rightarrow> series_diagnostic" where
  "diagnose_series m =
    (let values = concat (map (\<lambda>p. case mp_value p of Some v \<Rightarrow> [v] | None \<Rightarrow> []) (ms_points m));
         (status, message) =
           (if ms_points m = [] then (SignalWarning, ''series has no sampled points'')
            else if values = [] then (SignalWarning, ''series is present but all sampled values are empty'')
            else (SignalOK, ''series has recent values''))
     in \<lparr>sd_key = ms_key m, sd_label = ms_label m, sd_unit = ms_unit m, sd_status = status, sd_message = message,
         sd_point_count = length (ms_points m), sd_value_count = length values,
         sd_latest = (if values = [] then None else Some (last values))\<rparr>)"

definition summarize_diagnostics :: "series_diagnostic list \<Rightarrow> signal_status \<times> string" where
  "summarize_diagnostics ds =
    (if ds = [] then (SignalUnavailable, msg_no_series)
     else if \<not> list_ex (\<lambda>d. 0 < sd_value_count d) ds then (SignalWarning, msg_empty_values)
     else if list_ex (\<lambda>d. sd_status d \<noteq> SignalOK) ds then (SignalWarning, msg_some_empty)
     else (SignalOK, msg_series_ok))"

record scrape_target =
  sk_name :: string
  sk_port :: string
  sk_path :: string
  sk_required :: bool

definition scrape_targets :: "app_record \<Rightarrow> scrape_target list" where
  "scrape_targets r =
    \<lparr>sk_name = ''application-http'', sk_port = ''http'', sk_path = default_metrics_path, sk_required = True\<rparr> #
    (if ar_mesh r then
       [\<lparr>sk_name = ''istio-envoy'', sk_port = ''envoy-metrics'', sk_path = default_envoy_metrics_path, sk_required = True\<rparr>]
     else [])"

record diagnostics_response =
  dg_application_id :: string
  dg_checked_at :: int
  dg_status :: signal_status
  dg_message :: string
  dg_mesh :: bool
  dg_targets :: "scrape_target list"
  dg_series :: "series_diagnostic list"

definition new_diagnostics :: "app_service \<Rightarrow> app_record \<Rightarrow> diagnostics_response handler" where
  "new_diagnostics sv r =
    bindS (now_utc sv) (\<lambda>t. returnS \<lparr>dg_application_id = ar_id r, dg_checked_at = t, dg_status = SignalUnavailable,
      dg_message = ''metrics reader is not configured'', dg_mesh = ar_mesh r, dg_targets = scrape_targets r,
      dg_series = []\<rparr>)"

definition with_series :: "metric_series list \<Rightarrow> diagnostics_response \<Rightarrow> diagnostics_response" where
  "with_series metrics d =
    (let series = map diagnose_series metrics; (status, message) = summarize_diagnostics series
     in d\<lparr>dg_series := series, dg_status := status, dg_message := message\<rparr>)"

definition diagnostics_unavailable ::
  "app_service \<Rightarrow> app_record \<Rightarrow> string \<Rightarrow> (diagnostics_response \<times> metric_series list) handler" where
  "diagnostics_unavailable sv r message =
    bindS (new_diagnostics sv r) (\<lambda>d. returnS (d\<lparr>dg_message := message\<rparr>, []))"

definition diagnostics_result ::
  "app_service \<Rightarrow> app_record \<Rightarrow> metric_series list \<Rightarrow> (diagnostics_response \<times> metric_series list) handler" where
  "diagnostics_result sv r metrics =
    bindS (new_diagnostics sv r) (\<lambda>d. returnS (with_series metrics d, metrics))"

definition read_metrics_diagnostics ::
  "app_service \<Rightarrow> app_record \<Rightarrow> int \<Rightarrow> int \<Rightarrow> (diagnostics_response \<times> metric_series list) handler" where
  "read_metrics_diagnostics sv r duration step =
    bindS (new_diagnostics sv r) (\<lambda>d.
      case fs_metrics sv of
        None \<Rightarrow> returnS (d, [])
      | Some reader \<Rightarrow>
          bindS (ask (\<lambda>n. mr_read reader n r duration step)) (\<lambda>answer.
            case answer of
              Inl e \<Rightarrow> returnS (d\<lparr>dg_message := error_text e\<rparr>, [])
            | Inr metrics \<Rightarrow> returnS (with_series metrics d, metrics)))"

definition series_of :: "(string \<times> metric_series list) list \<Rightarrow> app_record \<Rightarrow> metric_series list" where
  "series_of m r = (case map_of m (ar_id r) of Some x \<Rightarrow> x | None \<Rightarrow> [])"

text \<open>Running one action per application, the results in order.\<close>

fun for_each :: "('a \<Rightarrow> 'b handler) \<Rightarrow> 'a list \<Rightarrow> 'b list handler" where
  "for_each f [] = returnS []"
| "for_each f (x # xs) = bindS (f x) (\<lambda>y. bindS (for_each f xs) (\<lambda>ys. returnS (y # ys)))"

definition read_diagnostics_map ::
  "app_service \<Rightarrow> app_record list \<Rightarrow> int \<Rightarrow> int \<Rightarrow>
   (string \<times> diagnostics_response \<times> metric_series list) list handler" where
  "read_diagnostics_map sv records duration step =
    (let each = (\<lambda>f. for_each (\<lambda>r. bindS (f r) (\<lambda>x. returnS (ar_id r, x))) records) in
     if records = [] then returnS []
     else (case fs_metrics sv of
         None \<Rightarrow> each (\<lambda>r. diagnostics_unavailable sv r ''metrics reader is not configured'')
       | Some reader \<Rightarrow>
          (case mr_many reader of
             None \<Rightarrow> each (\<lambda>r. read_metrics_diagnostics sv r duration step)
           | Some many \<Rightarrow>
              bindS (ask (\<lambda>n. many n records duration step)) (\<lambda>(err, found).
                case err of
                  None \<Rightarrow> each (\<lambda>r. diagnostics_result sv r (series_of found r))
                | Some b \<Rightarrow>
                    if be_failed b \<noteq> [] then
                      each (\<lambda>r. if ar_id r \<in> set (be_failed b)
                        then diagnostics_unavailable sv r (error_text (be_error b))
                        else diagnostics_result sv r (series_of found r))
                    else each (\<lambda>r. diagnostics_unavailable sv r (error_text (be_error b)))))))"

definition get_metrics ::
  "app_service \<Rightarrow> user \<Rightarrow> string \<Rightarrow> int \<Rightarrow> int \<Rightarrow> (string \<times> metric_series list) handler" where
  "get_metrics sv u application_id duration step =
    bindS (readS (require_application sv u application_id False)) (\<lambda>r.
      case fs_metrics sv of
        None \<Rightarrow> failS (OtherError ''runtime error: invalid memory address or nil pointer dereference'')
      | Some reader \<Rightarrow>
          bindS (ask (\<lambda>n. mr_read reader n r duration step)) (\<lambda>answer. bindS (liftR answer) (\<lambda>metrics.
            returnS (ar_id r, metrics))))"

definition get_metrics_diagnostics ::
  "app_service \<Rightarrow> user \<Rightarrow> string \<Rightarrow> int \<Rightarrow> int \<Rightarrow> diagnostics_response handler" where
  "get_metrics_diagnostics sv u application_id duration step =
    bindS (readS (require_application sv u application_id False)) (\<lambda>r.
    bindS (read_metrics_diagnostics sv r duration step) (\<lambda>x. returnS (fst x)))"

section \<open>Project health\<close>

text \<open>Without a batch reader the first failing read ends the loop.\<close>

fun read_sync_each :: "status_reader \<Rightarrow> app_record list \<Rightarrow> (go_error, (string \<times> sync_info) list) result handler" where
  "read_sync_each reader [] = returnS (Inr [])"
| "read_sync_each reader (r # rs) =
    bindS (ask (\<lambda>n. st_read reader n r)) (\<lambda>answer.
      case answer of
        Inl e \<Rightarrow> returnS (Inl e)
      | Inr info \<Rightarrow> bindS (read_sync_each reader rs) (\<lambda>more.
          returnS (bindR more (\<lambda>m. Inr (if ar_id r \<in> fst ` set m then m else (ar_id r, info) # m)))))"

definition read_sync_info_map ::
  "app_service \<Rightarrow> app_record list \<Rightarrow> (go_error, (string \<times> sync_info) list) result handler" where
  "read_sync_info_map sv records =
    (if records = [] then returnS (Inr [])
     else (case fs_status sv of
         None \<Rightarrow> returnS (Inl (OtherError ''sync status reader is not configured''))
       | Some reader \<Rightarrow>
          (case st_many reader of Some many \<Rightarrow> ask (\<lambda>n. many n records) | None \<Rightarrow> read_sync_each reader records)))"

definition deployment_outcome :: "string \<Rightarrow> signal_status \<times> string" where
  "deployment_outcome status =
    (let t = to_lower (trim_space status) in
     if t \<in> {''failed'', ''degraded''} then (SignalCritical, msg_history_failed)
     else if t \<in> {''aborted'', ''autorollbacktriggered''} then (SignalWarning, msg_history_aborted)
     else (SignalOK, msg_history_read))"

definition latest_deployment_signal ::
  "repo \<Rightarrow> app_record \<Rightarrow> int \<Rightarrow> sync_info \<Rightarrow> deployment_record option \<times> health_signal" where
  "latest_deployment_signal repo r observed_at info =
    (case store_list_deployments (ar_id r) repo of
       Inl e \<Rightarrow> (None, \<lparr>hs_key = ''deployment'', hs_status = SignalUnavailable, hs_message = error_text e,
         hs_observed_at = observed_at, hs_details = []\<rparr>)
     | Inr [] \<Rightarrow> (None, \<lparr>hs_key = ''deployment'', hs_status = SignalOK, hs_message = msg_no_history,
         hs_observed_at = observed_at, hs_details = []\<rparr>)
     | Inr (d # ds) \<Rightarrow>
         let latest = decorate_deployment_status r info d; (status, message) = deployment_outcome (dr_status latest)
         in (Some latest, \<lparr>hs_key = ''deployment'', hs_status = status, hs_message = message,
           hs_observed_at = dr_updated_at latest,
           hs_details = [(''deploymentId'', JStr (dr_id latest)), (''status'', JStr (dr_status latest)),
             (''imageTag'', JStr (dr_image_tag latest))]\<rparr>))"

record health_snapshot =
  hn_application_id :: string
  hn_name :: string
  hn_namespace :: string
  hn_status :: health_status
  hn_sync :: sync_status
  hn_strategy :: string
  hn_metrics :: "metric_series list"
  hn_latest :: "deployment_record option"
  hn_signals :: "health_signal list"

definition unread_sync_info :: "int \<Rightarrow> sync_info" where
  "unread_sync_info t = \<lparr>si_status = SyncUnknown, si_message = msg_sync_unread, si_observed_at = t\<rparr>"

definition health_snapshot_of ::
  "app_service \<Rightarrow> int \<Rightarrow> (go_error, (string \<times> sync_info) list) result \<Rightarrow>
   (string \<times> diagnostics_response \<times> metric_series list) list \<Rightarrow> app_record \<Rightarrow> health_snapshot handler" where
  "health_snapshot_of sv observed_at syncs metrics r =
    (let found = (case syncs of Inl _ \<Rightarrow> None | Inr m \<Rightarrow> map_of m (ar_id r));
         info = (case found of Some i \<Rightarrow> i | None \<Rightarrow> unread_sync_info observed_at);
         sync_signal = (case syncs of
             Inl e \<Rightarrow> \<lparr>hs_key = ''sync'', hs_status = SignalUnavailable, hs_message = error_text e,
               hs_observed_at = observed_at, hs_details = []\<rparr>
           | Inr _ \<Rightarrow> sync_health_signal info)
     in bindS (case map_of metrics (ar_id r) of
           Some x \<Rightarrow> returnS x
         | None \<Rightarrow> diagnostics_unavailable sv r ''metrics reader did not return this application'') (\<lambda>(d, series).
        readS (\<lambda>s.
          let (latest, deployment_signal) = latest_deployment_signal (pf_repo s) r observed_at info;
              signals = [sync_signal,
                \<lparr>hs_key = ''metrics'', hs_status = dg_status d, hs_message = dg_message d,
                 hs_observed_at = dg_checked_at d,
                 hs_details = [(''series'', JInt (int (length (dg_series d)))),
                   (''scrapeTargets'', JInt (int (length (dg_targets d))))]\<rparr>,
                deployment_signal]
          in Inr \<lparr>hn_application_id = ar_id r, hn_name = ar_name r, hn_namespace = ar_namespace r,
               hn_status = derive_health_status signals,
               hn_sync = (case found of Some i \<Rightarrow> si_status i | None \<Rightarrow> SyncUnknown),
               hn_strategy = ar_strategy r, hn_metrics = series, hn_latest = latest, hn_signals = signals\<rparr>)))"

definition get_project_health :: "app_service \<Rightarrow> user \<Rightarrow> string \<Rightarrow> (string \<times> int \<times> health_snapshot list) handler" where
  "get_project_health sv u pid =
    bindS (authorized sv u pid) (\<lambda>_.
    bindS (readS (\<lambda>s. list_applications pid (pf_repo s))) (\<lambda>records.
    bindS (now_utc sv) (\<lambda>observed_at.
    bindS (read_sync_info_map sv records) (\<lambda>syncs.
    bindS (read_diagnostics_map sv records (15 * minute) minute) (\<lambda>metrics.
    bindS (for_each (health_snapshot_of sv observed_at syncs metrics) records) (\<lambda>items.
      returnS (pid, observed_at, items)))))))"

end
