(* ===== verification/Poller.thy ===== *)
theory Poller
  imports AppDeploy
begin

text \<open>
  The repository poller (application/poller.go): one synchronisation of an application with its
  repository, the automatic rollback of one application, and the cycle over all projects. Timeouts
  and cancellation of contexts are not modelled; log lines have no effect here.
\<close>

record poller =
  pl_interval :: int
  pl_rollback_delay :: int
  pl_metrics_range :: int
  pl_metrics_step :: int

definition rollback_evaluation_delay :: "poller \<Rightarrow> int" where
  "rollback_evaluation_delay p =
    (if 0 < pl_rollback_delay p then pl_rollback_delay p
     else if 0 < pl_interval p then pl_interval p else five_minutes)"

definition rollback_metric_range :: "poller \<Rightarrow> int" where
  "rollback_metric_range p = (if 0 < pl_metrics_range p then pl_metrics_range p else 15 * minute)"

definition rollback_metric_step :: "poller \<Rightarrow> int" where
  "rollback_metric_step p = (if 0 < pl_metrics_step p then pl_metrics_step p else minute)"

definition tick_interval :: "poller \<Rightarrow> int" where
  "tick_interval p = (if 0 < pl_interval p \<and> pl_interval p < minute then pl_interval p else minute)"

section \<open>The desired state of a repository\<close>

definition fetch_file :: "app_service \<Rightarrow> file_target \<Rightarrow> string \<Rightarrow> (go_error, string) result handler" where
  "fetch_file sv target token = ask (\<lambda>n. fetch_remote_file (fs_http sv n) target token)"

definition fetch_update_config :: "app_service \<Rightarrow> file_target \<Rightarrow> string \<Rightarrow> string handler" where
  "fetch_update_config sv target token =
    bindS (fetch_file sv target token) (\<lambda>answer. bindS (liftR answer) (\<lambda>body.
      case fs_yaml sv body of
        Inl e \<Rightarrow> failS (Wrapped ''parse YAML'' (OtherError e)) | Inr tag \<Rightarrow> returnS tag))"

definition desired_of_config ::
  "app_service \<Rightarrow> repository \<Rightarrow> app_record \<Rightarrow> string \<Rightarrow> (desired_state option \<times> string) handler" where
  "desired_of_config sv r app token =
    bindS (liftR (resolve_file_target r (ar_config_path app) default_repository_config_path token)) (\<lambda>target.
    bindS (fetch_update_config sv target token) (\<lambda>tag.
      if tag = [] then returnS (None, ar_config_path app)
      else returnS (Some \<lparr>de_service = [], de_image = replace_image_tag (ar_image app) tag, de_port = 0,
        de_replicas = 0\<rparr>, ar_config_path app)))"

definition resolve_desired_state ::
  "app_service \<Rightarrow> repository \<Rightarrow> app_record \<Rightarrow> string \<Rightarrow> (desired_state option \<times> string) handler" where
  "resolve_desired_state sv r app token =
    (if trim_space (repo_config_file r) = [] then desired_of_config sv r app token
     else
       bindS (liftR (resolve_file_target r (repo_config_file r) [] token)) (\<lambda>target.
       bindS (fetch_file sv target token) (\<lambda>answer.
         case answer of
           Inl e \<Rightarrow> if trim_space (ar_config_path app) = [] then failS e else desired_of_config sv r app token
         | Inr body \<Rightarrow>
             (case parse_repository_descriptor (fs_json sv) body of
                Inl e \<Rightarrow> failS (Wrapped ''parse repository descriptor'' e)
              | Inr ds \<Rightarrow>
                  (case resolve_service (ar_name app) (ar_repository_service_id app) ds of
                     None \<Rightarrow> failS (OtherError (''repository descriptor does not define service for app '' @ ar_id app))
                   | Some d \<Rightarrow> returnS (Some \<lparr>de_service = ds_id d, de_image = ds_image d, de_port = ds_port d,
                       de_replicas = ds_replicas d\<rparr>, repo_config_file r))))))"

section \<open>Reconciling\<close>

definition reconcile_patch :: "app_record \<Rightarrow> desired_state \<Rightarrow> update_request" where
  "reconcile_patch app d = empty_patch\<lparr>
     up_service_port := (if 0 < de_port d \<and> de_port d \<noteq> ar_service_port app then Some (de_port d) else None),
     up_replicas := (if 0 < de_replicas d \<and> de_replicas d \<noteq> ar_replicas app then Some (de_replicas d) else None),
     up_repository_service_id :=
       (if trim_space (de_service d) \<noteq> [] \<and> de_service d \<noteq> ar_repository_service_id app then Some (de_service d) else None),
     up_image := (if de_image d \<noteq> [] \<and> image_repository_ref (de_image d) \<noteq> image_repository_ref (ar_image app)
       then Some (de_image d) else None)\<rparr>"

definition reconcile_repository_state ::
  "app_service \<Rightarrow> bool \<Rightarrow> user \<Rightarrow> app_record \<Rightarrow> desired_state \<Rightarrow> (app_record \<times> bool) handler" where
  "reconcile_repository_state sv bypass u app d =
    (if reconcile_patch app d = empty_patch then returnS (app, False)
     else
       bindS (patch_application sv bypass u (ar_id app) (reconcile_patch app d)) (\<lambda>_.
       bindS (readS (\<lambda>s. get_application (ar_id app) (pf_repo s))) (\<lambda>updated. returnS (updated, True))))"

section \<open>SyncRepositoryNow\<close>

record repository_sync =
  rx_application_id :: string
  rx_checked_at :: int
  rx_message :: string
  rx_source :: string
  rx_settings_applied :: bool
  rx_deployment_triggered :: bool
  rx_poll :: "poll_status option"

definition snapshot_of :: "app_service \<Rightarrow> app_record \<Rightarrow> server \<Rightarrow> poll_status option" where
  "snapshot_of sv app s = (if fs_tracker sv then poll_snapshot app (sr_polls s) else None)"

definition failing_poll :: "app_service \<Rightarrow> app_record \<Rightarrow> repository \<Rightarrow> int \<Rightarrow> go_error \<Rightarrow> string \<Rightarrow> 'a handler" where
  "failing_poll sv app r checked_at e context =
    bindS (on_polls sv (mark_failure app r checked_at (Some (error_text e)))) (\<lambda>_. failS (Wrapped context e))"

definition repository_token :: "app_service \<Rightarrow> app_record \<Rightarrow> repository \<Rightarrow> server \<Rightarrow> (go_error, string) result" where
  "repository_token sv app r s =
    (let path = (if trim_space (ar_repository_token_path app) = [] then trim_space (repo_auth_path r)
           else trim_space (ar_repository_token_path app))
     in if path = [] \<or> \<not> fs_secrets sv then Inr []
        else bindR (vault_get path (pf_vault s)) (\<lambda>values. Inr (resolve_repository_token values)))"

definition sync_response ::
  "app_service \<Rightarrow> app_record \<Rightarrow> app_record \<Rightarrow> int \<Rightarrow> string \<Rightarrow> string \<Rightarrow> bool \<Rightarrow> bool \<Rightarrow> repository_sync handler" where
  "sync_response sv app updated checked_at source message applied triggered =
    readS (\<lambda>s. Inr \<lparr>rx_application_id = ar_id app, rx_checked_at = checked_at, rx_message = message,
      rx_source = source, rx_settings_applied = applied, rx_deployment_triggered = triggered,
      rx_poll = snapshot_of sv updated s\<rparr>)"

text \<open>The request id of an automatic update: the seconds since 1970.\<close>

definition auto_request_id :: "int \<Rightarrow> string" where
  "auto_request_id t = ''req_auto_'' @ show_int (unix_seconds t)"

definition sync_metadata :: "repository \<Rightarrow> desired_state \<Rightarrow> string \<Rightarrow> jmap" where
  "sync_metadata r d source =
    [(''repositoryId'', JStr (repo_id r)), (''repositoryServiceId'', JStr (de_service d)), (''source'', JStr source)]"

text \<open>What follows when the desired state is known: settings first, then a deployment of a new tag.\<close>

definition apply_desired_state ::
  "app_service \<Rightarrow> user \<Rightarrow> app_record \<Rightarrow> repository \<Rightarrow> int \<Rightarrow> string \<Rightarrow> string \<Rightarrow> desired_state \<Rightarrow> repository_sync handler" where
  "apply_desired_state sv u app r checked_at shown source d =
    bindS (tryS (reconcile_repository_state sv True u app d)) (\<lambda>reconciled.
    case reconciled of
      Inl e \<Rightarrow> failing_poll sv app r checked_at e ''reconcile repository desired state''
    | Inr (updated, changed) \<Rightarrow>
        let current = extract_image_tag (ar_image updated); tag = extract_image_tag (de_image d) in
        if tag = [] \<or> tag = current then
          bindS (on_polls sv (mark_success updated r checked_at)) (\<lambda>_.
          if changed then
            bindS (note_event sv (ar_id updated) ''RepositoryDescriptorApplied''
                (msg_repository @ repo_name r @ msg_service_settings) (sync_metadata r d source)) (\<lambda>_.
              sync_response sv app updated checked_at shown (shown @ msg_based_on @ msg_settings_applied) changed False)
          else sync_response sv app updated checked_at shown (shown @ msg_based_on @ msg_no_new_tag) changed False)
        else
          bindS (now_utc sv) (\<lambda>t.
          bindS (tryS (create_deployment sv True u (ar_id updated) tag (ar_environment updated) (auto_request_id t))) (\<lambda>started.
          case started of
            Inl e \<Rightarrow> failing_poll sv updated r checked_at e ''trigger deployment''
          | Inr _ \<Rightarrow>
              bindS (on_polls sv (mark_success updated r checked_at)) (\<lambda>_.
              bindS (note_event sv (ar_id updated) ''AutoUpdateTriggered''
                  (msg_repository @ repo_name r @ msg_change_detected_a @ tag @ '')'')
                  (sync_metadata r d source @ [(''newTag'', JStr tag)])) (\<lambda>_.
                sync_response sv app updated checked_at shown (shown @ msg_based_change @ tag @ msg_started) changed True)))))"

definition sync_repository_now ::
  "app_service \<Rightarrow> user \<Rightarrow> app_record \<Rightarrow> repository \<Rightarrow> repository_sync handler" where
  "sync_repository_now sv u app r =
    bindS (now_utc sv) (\<lambda>checked_at.
    bindS (on_polls sv (mark_attempt app r checked_at)) (\<lambda>_.
    bindS (readS (\<lambda>s. Inr (repository_token sv app r s))) (\<lambda>got.
    case got of
      Inl e \<Rightarrow> failing_poll sv app r checked_at e ''read repository secret''
    | Inr token \<Rightarrow>
        bindS (tryS (resolve_desired_state sv r app token)) (\<lambda>resolved.
        case resolved of
          Inl e \<Rightarrow> failing_poll sv app r checked_at e ''resolve repository desired state''
        | Inr (desired, source) \<Rightarrow>
            let shown = (if trim_space source \<noteq> [] then source else poll_source r app) in
            (case desired of
               None \<Rightarrow>
                 bindS (on_polls sv (mark_success app r checked_at)) (\<lambda>_.
                   sync_response sv app app checked_at shown (shown @ msg_based_on @ msg_nothing_new) False False)
             | Some d \<Rightarrow> apply_desired_state sv u app r checked_at shown source d)))))"

text \<open>Service.SyncRepositoryNow, on the request of a user.\<close>

definition sync_repository_on_request :: "app_service \<Rightarrow> user \<Rightarrow> string \<Rightarrow> repository_sync handler" where
  "sync_repository_on_request sv u application_id =
    bindS (readS (require_application sv u application_id True)) (\<lambda>app.
    bindS (authorized sv u (ar_project_id app)) (\<lambda>a.
      case repository_for_app app (cp_repositories (ap_project a)) of
        None \<Rightarrow> failS (ValidationError ''repository sync is only available for repository-backed applications''
          [(''applicationId'', JStr application_id)])
      | Some r \<Rightarrow> sync_repository_now sv u app r))"

section \<open>Automatic rollback\<close>

definition rollback_request_id :: "int \<Rightarrow> string" where
  "rollback_request_id t = ''req_rollback_'' @ show_int (t - unix_epoch)"

definition rollback_settled :: "deployment_record \<Rightarrow> bool" where
  "rollback_settled d \<longleftrightarrow> equal_fold (trim_space (dr_status d)) ''Aborted'' \<or>
    equal_fold (trim_space (dr_status d)) ''AutoRollbackTriggered''"

text \<open>The deployment of the older tag, and the record and event that it was done.\<close>

definition trigger_rollback ::
  "app_service \<Rightarrow> user \<Rightarrow> app_record \<Rightarrow> deployment_record \<Rightarrow> deployment_record \<Rightarrow> rollback_decision \<Rightarrow> unit handler" where
  "trigger_rollback sv u app latest target decision =
    bindS (now_utc sv) (\<lambda>t.
    bindS (tryS (create_deployment sv True u (ar_id app) (dr_image_tag target) (dr_environment latest)
        (rollback_request_id t))) (\<lambda>started.
    case started of
      Inl _ \<Rightarrow> note_event sv (ar_id app) ''AutoRollbackFailed'' msg_rollback_failed
        [(''sourceDeploymentId'', JStr (dr_id latest)), (''rollbackToDeploymentId'', JStr (dr_id target)),
         (''rollbackToImageTag'', JStr (dr_image_tag target)), (''reason'', JStr (rb_message decision))]
    | Inr _ \<Rightarrow>
        bindS (now_utc sv) (\<lambda>t2.
        bindS (ignoring (on_repo (store_update_deployment (ar_id app)
            (latest\<lparr>dr_status := ''AutoRollbackTriggered'', dr_message := rb_message decision, dr_updated_at := t2\<rparr>)))) (\<lambda>_.
          note_event sv (ar_id app) ''AutoRollbackTriggered'' (msg_rolled_back @ rb_message decision)
            (rb_metadata decision @
             [(''environment'', JStr (dr_environment latest)), (''sourceDeploymentId'', JStr (dr_id latest)),
              (''sourceImageTag'', JStr (dr_image_tag latest)), (''rollbackToDeploymentId'', JStr (dr_id target)),
              (''rollbackToImageTag'', JStr (dr_image_tag target))])))))"

text \<open>A failed read ends the evaluation; the errors are only logged.\<close>

definition poll_auto_rollback :: "app_service \<Rightarrow> poller \<Rightarrow> user \<Rightarrow> catalog_project \<Rightarrow> app_record \<Rightarrow> unit handler" where
  "poll_auto_rollback sv pl u p app =
    (case fs_metrics sv of
       None \<Rightarrow> returnS ()
     | Some reader \<Rightarrow>
         if \<not> pol_auto_rollback (cp_policies p) then returnS ()
         else
           bindS (readS (\<lambda>s. Inr (store_get_rollback_policy (ar_id app) (pf_repo s),
               store_list_deployments (ar_id app) (pf_repo s), store_list_events (ar_id app) (pf_repo s)))) (\<lambda>x.
           case x of
             (Inr policy, Inr deployments, events) \<Rightarrow>
               if \<not> rp_enabled policy then returnS ()
               else (case select_rollback_target deployments (ar_environment app) of
                   None \<Rightarrow> returnS ()
                 | Some (latest, target) \<Rightarrow>
                     if rollback_settled latest then returnS ()
                     else
                       bindS (if dr_created_at latest \<noteq> 0
                           then bindS (now_utc sv) (\<lambda>t. returnS (t - dr_created_at latest < rollback_evaluation_delay pl))
                           else returnS False) (\<lambda>young.
                       if young then returnS ()
                       else (case events of
                           Inl _ \<Rightarrow> returnS ()
                         | Inr es \<Rightarrow>
                             if rollback_already_triggered es (dr_id latest) then returnS ()
                             else
                               bindS (ask (\<lambda>n. mr_read reader n app (rollback_metric_range pl) (rollback_metric_step pl)))
                                 (\<lambda>answer.
                                 case answer of
                                   Inl _ \<Rightarrow> returnS ()
                                 | Inr metrics \<Rightarrow>
                                     (case evaluate_auto_rollback policy metrics of
                                        None \<Rightarrow> returnS ()
                                      | Some decision \<Rightarrow> trigger_rollback sv u app latest target decision)))))
           | _ \<Rightarrow> returnS ()))"

section \<open>The cycle\<close>

definition system_user :: "app_service \<Rightarrow> user" where
  "system_user sv = \<lparr>user_id = ''system-poller'', user_name = ''system.poller'', user_display = msg_poller_bot,
    user_groups = effective_platform_admin_authorities (sv_admins (fs_projects sv))\<rparr>"

definition poll_app :: "app_service \<Rightarrow> poller \<Rightarrow> catalog_project \<Rightarrow> int \<Rightarrow> app_record \<Rightarrow> unit handler" where
  "poll_app sv pl p now app =
    (let u = system_user sv in
     case repository_for_app app (cp_repositories p) of
       None \<Rightarrow> poll_auto_rollback sv pl u p app
     | Some r \<Rightarrow>
         bindS (readS (\<lambda>s. Inr (\<not> fs_tracker sv \<or> poll_due app now (sr_polls s)))) (\<lambda>due.
         if \<not> due then poll_auto_rollback sv pl u p app
         else
           bindS (ignoring (sync_repository_now sv u app r)) (\<lambda>_.
           bindS (readS (\<lambda>s. Inr (get_application (ar_id app) (pf_repo s)))) (\<lambda>refreshed.
             poll_auto_rollback sv pl u p (case refreshed of Inr updated \<Rightarrow> updated | Inl _ \<Rightarrow> app)))))"

fun poll_apps :: "app_service \<Rightarrow> poller \<Rightarrow> catalog_project \<Rightarrow> int \<Rightarrow> app_record list \<Rightarrow> unit handler" where
  "poll_apps sv pl p now [] = returnS ()"
| "poll_apps sv pl p now (app # apps) =
    bindS (ignoring (poll_app sv pl p now app)) (\<lambda>_. poll_apps sv pl p now apps)"

fun poll_projects :: "app_service \<Rightarrow> poller \<Rightarrow> catalog_project list \<Rightarrow> unit handler" where
  "poll_projects sv pl [] = returnS ()"
| "poll_projects sv pl (p # ps) =
    bindS (readS (\<lambda>s. Inr (list_applications (cp_id p) (pf_repo s)))) (\<lambda>found.
    bindS (case found of
        Inl _ \<Rightarrow> returnS ()
      | Inr apps \<Rightarrow> bindS (now_utc sv) (\<lambda>now. poll_apps sv pl p now apps)) (\<lambda>_.
      poll_projects sv pl ps))"

definition poll_all :: "app_service \<Rightarrow> poller \<Rightarrow> unit handler" where
  "poll_all sv pl =
    bindS (if fs_tracker sv then bindS (now_utc sv) (\<lambda>t. on_polls sv (begin_cycle t)) else returnS ()) (\<lambda>_.
    bindS (readS (\<lambda>s. Inr (list_projects (pf_repo s)))) (\<lambda>found.
      case found of Inl _ \<Rightarrow> returnS () | Inr ps \<Rightarrow> poll_projects sv pl ps))"

end
