(* ===== verification/StoreSpec.thy ===== *)
theory StoreSpec
  imports StoreExact
begin

text \<open>
  What the manifest store promises to its callers: the repository is a map from application
  identifiers to what a reader gets, and every write of the store is one update of that map. The laws
  come from the interpretation of the store's interface on the local manifest store.
\<close>

section \<open>The abstract store\<close>

type_synonym app_view = "string \<rightharpoonup> (go_error, app_record) result"

definition app_view :: "repo \<Rightarrow> app_view" where
  "app_view repo i = (if valid_id i then Some (get_application i repo) else None)"

definition view_update :: "(app_record \<Rightarrow> app_record) \<Rightarrow> string \<Rightarrow> app_view \<Rightarrow> app_view" where
  "view_update f i v = (case v i of Some (Inr r) \<Rightarrow> v(i \<mapsto> Inr (f r)) | _ \<Rightarrow> v)"

lemma app_viewI:
  assumes "valid_id i" and "get_application i t = x" and "\<forall>j. valid_id j \<longrightarrow> j \<noteq> i \<longrightarrow> get_application j t = get_application j repo"
  shows "app_view t = (app_view repo)(i \<mapsto> x)"
  using assms by (intro ext) (simp add: app_view_def)

lemma view_update_found:
  "valid_id i \<Longrightarrow> get_application i repo = Inr r \<Longrightarrow>
    view_update f i (app_view repo) = (app_view repo)(i \<mapsto> Inr (f r))"
  by (simp add: view_update_def app_view_def)

lemma view_update_missing: "get_application i repo = Inl e \<Longrightarrow> view_update f i (app_view repo) = app_view repo"
  by (simp add: view_update_def app_view_def)

section \<open>Sequences of updates\<close>

text \<open>The two writes that deployments and changes of settings consist of.\<close>

datatype app_write =
    PatchWrite int project_context string update_request
  | ImageWrite int project_context string string string

fun write_ok :: "app_write \<Rightarrow> bool" where
  "write_ok (PatchWrite now pc i u) \<longleftrightarrow> plain_context pc \<and> valid_id i \<and> plain_patch u"
| "write_ok (ImageWrite now pc i tag dep) \<longleftrightarrow> plain_context pc \<and> valid_id i \<and> CHR ''/'' \<notin> set dep"

fun run_write :: "store_config \<Rightarrow> app_write \<Rightarrow> repo \<Rightarrow> repo" where
  "run_write cfg (PatchWrite now pc i u) repo = snd (store_patch cfg now pc i u repo)"
| "run_write cfg (ImageWrite now pc i tag dep) repo = snd (store_update_image cfg now pc i tag dep repo)"

fun spec_write :: "app_write \<Rightarrow> app_view \<Rightarrow> app_view" where
  "spec_write (PatchWrite now pc i u) v = view_update (\<lambda>r. loaded (patch_record now u r)) i v"
| "spec_write (ImageWrite now pc i tag dep) v =
    view_update (\<lambda>r. r\<lparr>ar_image := replace_image_tag (ar_image r) tag, ar_updated_at := now\<rparr>) i v"

lemma write_simulated:
  assumes "wf_repo repo" and "write_ok w"
  shows "app_view (run_write cfg w repo) = spec_write w (app_view repo) \<and> wf_repo (run_write cfg w repo)"
proof (cases w)
  case (PatchWrite now pc i u)
  show ?thesis
  proof (cases "get_application i repo")
    case (Inl e)
    then show ?thesis
      using PatchWrite assms(1) local_store.patch_fails [OF Inl] by (simp add: view_update_missing)
  next
    case (Inr r)
    from PatchWrite assms(2) have ok: "plain_context pc" "plain_patch u" "valid_id i" by simp_all
    from local_store.patch_get [OF assms(1) ok Inr] obtain t where
      t: "store_patch cfg now pc i u repo = (Inr (patch_record now u r), t)"
        "get_application i t = Inr (loaded (patch_record now u r))" "wf_repo t"
        "\<forall>j. valid_id j \<longrightarrow> j \<noteq> i \<longrightarrow> get_application j t = get_application j repo" by blast
    then show ?thesis
      using PatchWrite view_update_found [OF ok(3) Inr] app_viewI [OF ok(3) t(2,4)] by simp
  qed
next
  case (ImageWrite now pc i tag dep)
  show ?thesis
  proof (cases "get_application i repo")
    case (Inl e)
    then show ?thesis
      using ImageWrite assms(1) local_store.image_fails [OF Inl] by (simp add: view_update_missing)
  next
    case (Inr r)
    let ?r = "r\<lparr>ar_image := replace_image_tag (ar_image r) tag, ar_updated_at := now\<rparr>"
    from ImageWrite assms(2) have ok: "plain_context pc" "CHR ''/'' \<notin> set dep" "valid_id i" by simp_all
    from local_store.image_get [OF assms(1) ok Inr] obtain t where
      t: "store_update_image cfg now pc i tag dep repo = (Inr ?r, t)"
        "get_application i t = Inr ?r" "wf_repo t"
        "\<forall>j. valid_id j \<longrightarrow> j \<noteq> i \<longrightarrow> get_application j t = get_application j repo" by blast
    then show ?thesis
      using ImageWrite view_update_found [OF ok(3) Inr] app_viewI [OF ok(3) t(2,4)] by simp
  qed
qed

text \<open>
  C19: for a reader of applications the manifest store is the map above: any sequence of patches and
  image updates, for whatever applications, acts on what readers get as the same sequence of point
  updates, failing writes included, and keeps the repository well formed.
\<close>

theorem store_refines_map:
  assumes "wf_repo repo" and "list_all write_ok ws"
  shows "app_view (fold (run_write cfg) ws repo) = fold spec_write ws (app_view repo) \<and>
    wf_repo (fold (run_write cfg) ws repo)"
  using assms
proof (induction ws arbitrary: repo)
  case (Cons w ws)
  from write_simulated [of repo w cfg] Cons.prems
  have "app_view (run_write cfg w repo) = spec_write w (app_view repo)" "wf_repo (run_write cfg w repo)" by simp_all
  with Cons.IH [of "run_write cfg w repo"] Cons.prems show ?case by simp
qed simp

section \<open>Creation and the end of an application\<close>

text \<open>
  C20: a successful create adds one application under its identifier and changes no other; a create
  under the identifier of an application that can be read fails and writes nothing.
\<close>

theorem create_extends_map:
  assumes "wf_repo repo" and "plain_create pc q"
  shows "(\<forall>r t. store_create cfg now pc q secret repo = (Inr r, t) \<longrightarrow>
      r = record_of_create now pc q secret \<and> app_view t = (app_view repo)(ar_id r \<mapsto> Inr r) \<and> wf_repo t) \<and>
    (\<forall>r. app_view repo (build_application_id (pc_id pc) (cr_name q)) = Some (Inr r) \<longrightarrow>
      store_create cfg now pc q secret repo = (Inl ErrConflict, repo))"
proof (intro conjI allI impI)
  fix r t assume run: "store_create cfg now pc q secret repo = (Inr r, t)"
  show "r = record_of_create now pc q secret" using store_create_provides(1) [OF assms run] .
  from local_store.create_get [OF assms run]
  have g: "ar_id r = build_application_id (pc_id pc) (cr_name q)" "get_application (ar_id r) t = Inr r" "wf_repo t"
    by blast+
  have "valid_id (ar_id r)" using build_valid(2) assms(2) g(1) by (simp add: plain_create_def)
  moreover have "\<forall>j. valid_id j \<longrightarrow> j \<noteq> ar_id r \<longrightarrow> get_application j t = get_application j repo"
    using local_store.create_frame [OF assms run] g(1) by simp
  ultimately show "app_view t = (app_view repo)(ar_id r \<mapsto> Inr r)" using g(2) by (intro app_viewI)
  show "wf_repo t" by (rule g(3))
next
  fix r assume "app_view repo (build_application_id (pc_id pc) (cr_name q)) = Some (Inr r)"
  then have "get_application (build_application_id (pc_id pc) (cr_name q)) repo = Inr r"
    by (simp add: app_view_def split: if_splits)
  from local_store.create_conflict [OF this assms(2)]
  show "store_create cfg now pc q secret repo = (Inl ErrConflict, repo)" .
qed

text \<open>
  C22: archiving and deleting change what readers get of that application only. An archived application
  is shown as archived and refuses every later patch and image update without a write; a deleted one is
  not found.
\<close>

theorem lifecycle_ends_application:
  assumes "wf_repo repo" and "valid_id i"
  shows "(\<forall>r. app_view repo i = Some (Inr r) \<longrightarrow> now \<noteq> 0 \<longrightarrow>
      (\<exists>x t. store_archive now i who repo = (Inr x, t) \<and> wf_repo t \<and>
        app_view t = (app_view repo)(i \<mapsto> Inl ErrArchived) \<and>
        (\<forall>cfg now' pc u. store_patch cfg now' pc i u t = (Inl ErrArchived, t)) \<and>
        (\<forall>cfg now' pc tag dep. store_update_image cfg now' pc i tag dep t = (Inl ErrArchived, t)))) \<and>
    (\<forall>x t. store_delete now i repo = (Inr x, t) \<longrightarrow>
      wf_repo t \<and> app_view t = (app_view repo)(i \<mapsto> Inl ErrNotFound))"
proof (intro conjI allI impI)
  fix r assume "app_view repo i = Some (Inr r)" and now: "now \<noteq> 0"
  with assms(2) have g: "get_application i repo = Inr r" by (simp add: app_view_def)
  from local_store.archive_get [OF assms g now, of who] obtain x t where
    t: "store_archive now i who repo = (Inr x, t)" "get_application i t = Inl ErrArchived" "wf_repo t"
      "\<forall>j. valid_id j \<longrightarrow> j \<noteq> i \<longrightarrow> get_application j t = get_application j repo" by blast
  show "\<exists>x t. store_archive now i who repo = (Inr x, t) \<and> wf_repo t \<and>
        app_view t = (app_view repo)(i \<mapsto> Inl ErrArchived) \<and>
        (\<forall>cfg now' pc u. store_patch cfg now' pc i u t = (Inl ErrArchived, t)) \<and>
        (\<forall>cfg now' pc tag dep. store_update_image cfg now' pc i tag dep t = (Inl ErrArchived, t))"
    using t(1,3) app_viewI [OF assms(2) t(2,4)] local_store.archived_frozen [OF assms g now t(1)] by blast
next
  fix x t assume "store_delete now i repo = (Inr x, t)"
  from local_store.delete_get [OF assms this]
  show "wf_repo t" and "app_view t = (app_view repo)(i \<mapsto> Inl ErrNotFound)"
    using app_viewI [OF assms(2)] by blast+
qed

section \<open>Examples\<close>

lemma demo_plain_create: "plain_create demo_context demo_request"
proof -
  have "plain_app (pc_id demo_context) (cr_name demo_request)"
    by (simp add: plain_app_def plain_component_def demo_context_def demo_request_def)
  moreover have "plain_environments (pc_environments demo_context)"
    by (simp add: plain_environments_def plain_component_def demo_context_def)
  moreover have "trim_space (cr_environment demo_request) = ''prod''" by code_simp
  ultimately show ?thesis
    using demo_context_plain by (simp add: plain_create_def plain_component_def) (simp add: demo_context_def)
qed

lemma empty_wf: "wf_repo []"
proof -
  have m: "read_metadata [] pid app = Inr None" for pid app by (simp add: read_metadata_def fs_read_def)
  have "\<exists>e. load_record [] pid app = Inl e" for pid app
    by (simp add: load_record_def m fs_read_def)
  then have "app_ok [] pid app" for pid app unfolding app_ok_def m by (auto split: sum.splits) (metis sum.distinct(1))
  then show ?thesis by (simp add: wf_repo_def clusters_ok_def fs_read_def)
qed

definition demo_created :: "store_config \<Rightarrow> repo" where
  "demo_created cfg = snd (store_create cfg 5 demo_context demo_request [] [])"

definition demo_id :: string where "demo_id = ''demo__web''"

lemma demo_id_build: "build_application_id (pc_id demo_context) (cr_name demo_request) = demo_id"
  by code_simp

lemma demo_created_run:
  "store_create cfg 5 demo_context demo_request [] [] = (Inr (record_of_create 5 demo_context demo_request []), demo_created cfg)"
  by (simp add: demo_created_def store_create_def fs_exists_def fs_read_def fs_dir_exists_def Let_def)

lemma demo_created_parts:
  "wf_repo (demo_created cfg)" "valid_id demo_id"
  "get_application demo_id (demo_created cfg) = Inr (record_of_create 5 demo_context demo_request [])"
  using local_store.create_get [OF empty_wf demo_plain_create demo_created_run [of cfg]]
    build_valid(2) [of "pc_id demo_context" "cr_name demo_request"] demo_plain_create demo_id_build
  by (simp_all add: plain_create_def)

theorem store_refines_map_witness:
  "\<forall>cfg. get_application demo_id (fold (run_write cfg)
      [ImageWrite 6 demo_context demo_id ''v2'' ''dep_1'', ImageWrite 7 demo_context demo_id ''v3'' ''dep_2''] (demo_created cfg)) =
    Inr ((record_of_create 5 demo_context demo_request [])\<lparr>ar_image := ''ghcr.io/acme/web:v3'', ar_updated_at := 7\<rparr>)"
proof
  fix cfg :: store_config
  let ?ws = "[ImageWrite 6 demo_context demo_id ''v2'' ''dep_1'', ImageWrite 7 demo_context demo_id ''v3'' ''dep_2'']"
  let ?r = "record_of_create 5 demo_context demo_request []"
  have ok: "list_all write_ok ?ws" using demo_context_plain demo_created_parts(2) by simp
  have v: "app_view (demo_created cfg) demo_id = Some (Inr ?r)" by (simp add: app_view_def demo_created_parts)
  have img: "replace_image_tag (replace_image_tag (ar_image ?r) ''v2'') ''v3'' = ''ghcr.io/acme/web:v3''" by code_simp
  have "fold spec_write ?ws (app_view (demo_created cfg)) demo_id =
      Some (Inr (?r\<lparr>ar_image := ''ghcr.io/acme/web:v3'', ar_updated_at := 7\<rparr>))"
    by (simp add: view_update_def v img)
  then have "app_view (fold (run_write cfg) ?ws (demo_created cfg)) demo_id =
      Some (Inr (?r\<lparr>ar_image := ''ghcr.io/acme/web:v3'', ar_updated_at := 7\<rparr>))"
    using store_refines_map [OF demo_created_parts(1) [of cfg] ok, of cfg] by simp
  then show "get_application demo_id (fold (run_write cfg) ?ws (demo_created cfg)) =
      Inr (?r\<lparr>ar_image := ''ghcr.io/acme/web:v3'', ar_updated_at := 7\<rparr>)"
    by (simp add: app_view_def demo_created_parts(2) del: fold_simps)
qed

theorem create_extends_map_witness:
  "\<forall>cfg. app_view (demo_created cfg) = (app_view [])(demo_id \<mapsto> Inr (record_of_create 5 demo_context demo_request []))"
proof
  fix cfg :: store_config
  have "ar_id (record_of_create 5 demo_context demo_request []) = demo_id" using demo_id_build by simp
  with conjunct1 [OF create_extends_map [OF empty_wf demo_plain_create], rule_format, OF demo_created_run [of cfg]]
  show "app_view (demo_created cfg) = (app_view [])(demo_id \<mapsto> Inr (record_of_create 5 demo_context demo_request []))"
    by metis
qed

theorem lifecycle_ends_application_witness:
  "\<forall>cfg. \<exists>x t. store_archive 9 demo_id ''root'' (demo_created cfg) = (Inr x, t) \<and>
    app_view t = (app_view (demo_created cfg))(demo_id \<mapsto> Inl ErrArchived)"
proof
  fix cfg :: store_config
  have "app_view (demo_created cfg) demo_id = Some (Inr (record_of_create 5 demo_context demo_request []))"
    by (simp add: app_view_def demo_created_parts)
  from conjunct1 [OF lifecycle_ends_application [OF demo_created_parts(1,2)], rule_format, OF this, of 9 "''root''"]
  show "\<exists>x t. store_archive 9 demo_id ''root'' (demo_created cfg) = (Inr x, t) \<and>
    app_view t = (app_view (demo_created cfg))(demo_id \<mapsto> Inl ErrArchived)" by auto
qed

end
