(* ===== verification/ServiceLaws.thy ===== *)
theory ServiceLaws
  imports AppSecrets AppDeploy StoreSpec ProjectServiceLaws DeployQueueLaws
begin

text \<open>
  Who may change what through the application service, and what an accepted request looks like. The
  state that counts is the repository, the secret store, the queue and the poll tracker; asking the
  clock or another service is not a change.
\<close>

section \<open>The lasting parts of the state\<close>

definition parts :: "server \<Rightarrow> repo \<times> vault \<times> queue \<times> poll_tracker" where
  "parts s = (pf_repo s, pf_vault s, sr_queue s, sr_polls s)"

lemma keeps_parts_ask [keeps_intros]: "keeps parts (ask f)" "keeps parts (now_utc sv)"
  by (simp_all add: keeps_def parts_def ask_def now_utc_def)

lemma keeps_parts_verify [keeps_intros]: "keeps parts (verify_image_reference sv img c)"
  unfolding verify_image_reference_def by (intro keeps_intros)

lemma keeps_parts_descriptor [keeps_intros]: "keeps parts (read_repository_descriptor sv q)"
  unfolding read_repository_descriptor_def Let_def by (intro keeps_intros)

lemma keeps_parts_hydrate [keeps_intros]: "keeps parts (hydrate_repository_source sv q)"
  unfolding hydrate_repository_source_def Let_def by (intro keeps_intros)

lemma keeps_parts_check_create [keeps_intros]: "keeps parts (check_create sv b p q)"
  unfolding check_create_def Let_def by (intro keeps_intros)

text \<open>A run that changes the lasting parts has passed every check that comes before the change.\<close>

lemma changed_bind:
  assumes "parts (snd (bindS m f s)) \<noteq> parts s" and "keeps parts m"
  obtains x t where "m s = (Inr x, t)" "parts t = parts s" "parts (snd (f x t)) \<noteq> parts t"
proof -
  obtain r t where m: "m s = (r, t)" by (cases "m s")
  then have t: "parts t = parts s" using keepsD [OF assms(2), of s] by simp
  show thesis
  proof (cases r)
    case (Inl e)
    with m t assms(1) show thesis by (simp add: bindS_def)
  next
    case (Inr x)
    with m t assms(1) show thesis by (intro that [of x t]) (simp_all add: bindS_def)
  qed
qed

lemma changed_read:
  assumes "parts (snd (bindS (readS g) f s)) \<noteq> parts s"
  obtains x where "g s = Inr x" "parts (snd (f x s)) \<noteq> parts s"
  using assms by (auto simp: bindS_run split: sum.splits)

lemma changed_lift:
  assumes "parts (snd (bindS (liftR r) f s)) \<noteq> parts s"
  obtains x where "r = Inr x" "parts (snd (f x s)) \<noteq> parts s"
  using assms by (auto simp: bindS_run split: sum.splits)

lemma unchanged_simps [simp]:
  "snd (failS e s) = s" "snd (returnS x s) = s"
  by (simp_all add: action_defs)

section \<open>The change guard\<close>

definition guard_open :: "bool \<Rightarrow> catalog_project \<Rightarrow> string \<Rightarrow> bool" where
  "guard_open bypass p environment \<longleftrightarrow> bypass \<or> \<not> requires_change_flow p environment"

lemma guard_branch:
  "parts (snd ((if \<not> b \<and> requires_change_flow p e then failS x else m) s)) \<noteq> parts s \<Longrightarrow>
    guard_open b p e \<and> parts (snd (m s)) \<noteq> parts s"
  by (auto simp: guard_open_def split: if_splits)

lemma same_repo: "parts t = parts s \<Longrightarrow> pf_repo t = pf_repo s"
  by (simp add: parts_def)

lemma authorized_eq: "authorized sv u pid = readS (\<lambda>s. get_authorized (fs_projects sv) u pid (pf_repo s))"
  by (simp add: authorized_def)

text \<open>The target of a direct change: who asks, and for which environment.\<close>

definition may_write ::
  "app_service \<Rightarrow> bool \<Rightarrow> user \<Rightarrow> string \<Rightarrow> (catalog_project \<Rightarrow> app_record \<Rightarrow> string) \<Rightarrow> server \<Rightarrow> bool" where
  "may_write sv bypass u i environment s \<longleftrightarrow>
    (\<exists>r a. require_application sv u i True s = Inr r \<and>
      get_authorized (fs_projects sv) u (ar_project_id r) (pf_repo s) = Inr a \<and>
      guard_open bypass (ap_project a) (environment (ap_project a) r))"

definition deployment_target :: "string \<Rightarrow> catalog_project \<Rightarrow> app_record \<Rightarrow> string" where
  "deployment_target environment p r =
    (if trim_space environment \<noteq> [] then resolve_environment p environment else ar_environment r)"

definition patch_target :: "update_request \<Rightarrow> catalog_project \<Rightarrow> app_record \<Rightarrow> string" where
  "patch_target input p r =
    (case up_environment input of Some e \<Rightarrow> resolve_environment p e | None \<Rightarrow> ar_environment r)"

lemma prepare_guarded:
  assumes "prepare_deployment_operation sv b u i tag environment rid s = (Inr o1, t)"
  shows "may_write sv b u i (deployment_target environment) s"
proof -
  from assms obtain r a where
    "require_application sv u i True s = Inr r"
    "get_authorized (fs_projects sv) u (ar_project_id r) (pf_repo s) = Inr a"
    "guard_open b (ap_project a) (deployment_target environment (ap_project a) r)"
    unfolding prepare_deployment_operation_def authorized_eq Let_def
    by (auto simp: bindS_Inr action_Inr guard_open_def deployment_target_def split: if_splits)
  then show ?thesis by (auto simp: may_write_def)
qed

lemma keeps_parts_prepare [keeps_intros]:
  "keeps parts (prepare_deployment_operation sv b u i tag environment rid)"
  unfolding prepare_deployment_operation_def authorized_eq Let_def by (intro keeps_intros)

lemma deployment_guarded:
  assumes "parts (snd (create_deployment sv b u i tag environment rid s)) \<noteq> parts s"
  shows "may_write sv b u i (deployment_target environment) s"
proof -
  from assms [unfolded create_deployment_def] obtain o1 t where
    "prepare_deployment_operation sv b u i tag environment rid s = (Inr o1, t)"
    by (rule changed_bind) (intro keeps_intros)
  then show ?thesis by (rule prepare_guarded)
qed

lemma complete_request_environment [simp]: "cr_environment (complete_request d q) = cr_environment q"
  by (simp add: complete_request_def)

lemma hydrated_environment:
  assumes "hydrate_repository_source sv q s = (Inr q', t)"
  shows "cr_environment q' = cr_environment q"
proof (cases "trim_space (cr_repository_url q) = []")
  case True
  with assms show ?thesis by (simp add: hydrate_repository_source_def action_Inr)
next
  case False
  note run = assms [unfolded hydrate_repository_source_def Let_def if_not_P [OF False] bindS_Inr]
  from run show ?thesis
    by (elim exE conjE) (simp add: action_Inr split: option.splits)
qed

lemma normalized_repository_environment:
  "normalize_repository_metadata p q = Inr q' \<Longrightarrow> cr_environment q' = cr_environment q"
  by (auto simp: normalize_repository_metadata_def Let_def split: if_splits option.splits)

lemma network_profile_fields [simp]:
  "cr_environment (normalize_create_network_profile q) = cr_environment q"
  "cr_strategy (normalize_create_network_profile q) = cr_strategy q"
  "cr_image (normalize_create_network_profile q) = cr_image q"
  "cr_name (normalize_create_network_profile q) = cr_name q"
  "cr_service_port (normalize_create_network_profile q) = cr_service_port q"
  "cr_replicas (normalize_create_network_profile q) = cr_replicas q"
  "cr_load_balancer (normalize_create_network_profile q) = cr_load_balancer q"
  "cr_poll_interval (normalize_create_network_profile q) = cr_poll_interval q"
  by (simp_all add: normalize_create_network_profile_def)

lemma with_registry_fields [simp]:
  "cr_environment (with_registry c q) = cr_environment q" "cr_strategy (with_registry c q) = cr_strategy q"
  "cr_secrets (with_registry c q) = cr_secrets q" "cr_image (with_registry c q) = cr_image q"
  "cr_name (with_registry c q) = cr_name q" "cr_service_port (with_registry c q) = cr_service_port q"
  "cr_replicas (with_registry c q) = cr_replicas q" "cr_mesh (with_registry c q) = cr_mesh q"
  "cr_load_balancer (with_registry c q) = cr_load_balancer q"
  "cr_poll_interval (with_registry c q) = cr_poll_interval q"
  by (auto simp: with_registry_def split: option.splits)

lemma with_environment_fields [simp]:
  "cr_environment (with_environment p q) = resolve_environment p (cr_environment q)"
  "cr_strategy (with_environment p q) = cr_strategy q" "cr_secrets (with_environment p q) = cr_secrets q"
  "cr_image (with_environment p q) = cr_image q" "cr_name (with_environment p q) = cr_name q"
  "cr_service_port (with_environment p q) = cr_service_port q" "cr_replicas (with_environment p q) = cr_replicas q"
  "cr_mesh (with_environment p q) = cr_mesh q" "cr_load_balancer (with_environment p q) = cr_load_balancer q"
  "cr_poll_interval (with_environment p q) = cr_poll_interval q"
  by (simp_all add: with_environment_def)

lemma guard_Inr:
  "(if \<not> b \<and> requires_change_flow p e then failS x else m) s = (Inr y, t) \<longleftrightarrow> guard_open b p e \<and> m s = (Inr y, t)"
  by (auto simp: guard_open_def action_Inr)

text \<open>The stages that an accepted create request has passed.\<close>

lemma check_createE:
  assumes "check_create sv b p q0 s = (Inr (q, registry, secrets), t)"
  obtains q1 q2 s1 where "hydrate_repository_source sv q0 s = (Inr q1, s1)" "validate_create_request q1 = Inr ()"
    "normalize_repository_metadata p q1 = Inr q2"
    "q = with_environment p (with_registry registry (normalized_network q2))"
    "validate_network_profile (cr_strategy q) (cr_mesh q) (cr_load_balancer q) = Inr ()"
    "validate_project_policies p (cr_environment q) (cr_strategy q) = Inr ()"
    "guard_open b p (cr_environment q)" "normalize_secrets (cr_secrets q) = Inr secrets"
  using assms [unfolded check_create_def Let_def guard_Inr bindS_Inr action_Inr]
  apply (elim exE conjE)
  apply (simp only: sum.inject prod.inject)
  apply (elim conjE, hypsubst)
  apply (simp only: with_environment_fields with_registry_fields)
  apply (rule that, assumption+)
  by simp_all

lemma checked_environment:
  assumes "check_create sv b p q0 s = (Inr (q, registry, secrets), t)"
  shows "cr_environment q = resolve_environment p (cr_environment q0) \<and> guard_open b p (cr_environment q)"
proof -
  from assms obtain q1 q2 s1 where "hydrate_repository_source sv q0 s = (Inr q1, s1)"
    "normalize_repository_metadata p q1 = Inr q2" "guard_open b p (cr_environment q)"
    "q = with_environment p (with_registry registry (normalized_network q2))"
    by (rule check_createE)
  then show ?thesis
    by (simp add: hydrated_environment normalized_repository_environment normalized_network_def)
qed

lemma create_guarded:
  assumes "parts (snd (create_application sv b u pid q rid s)) \<noteq> parts s"
  shows "\<exists>a. get_authorized (fs_projects sv) u pid (pf_repo s) = Inr a \<and> can_deploy (ap_role a) \<and>
    guard_open b (ap_project a) (resolve_environment (ap_project a) (cr_environment q))"
proof -
  from assms [unfolded create_application_def authorized_eq] obtain a where
    a: "get_authorized (fs_projects sv) u pid (pf_repo s) = Inr a" and
    run: "parts (snd ((if \<not> can_deploy (ap_role a) then failS ErrRequiresDeployer
      else bindS (check_create sv b (ap_project a) q) (\<lambda>(checked, registry, secrets).
        write_application sv u pid (ap_project a) checked registry secrets rid)) s)) \<noteq> parts s"
    by (rule changed_read)
  then have d: "can_deploy (ap_role a)" by (auto split: if_splits)
  with run have "parts (snd (bindS (check_create sv b (ap_project a) q) (\<lambda>(checked, registry, secrets).
        write_application sv u pid (ap_project a) checked registry secrets rid) s)) \<noteq> parts s" by simp
  then obtain x t where "check_create sv b (ap_project a) q s = (Inr x, t)"
    by (rule changed_bind) (intro keeps_intros)
  with a d checked_environment [of sv b "ap_project a" q s] show ?thesis by (cases x) auto
qed

section \<open>Changes of settings and of secrets\<close>

lemma keeps_parts_credential [keeps_intros]: "keeps parts (resolve_record_registry_credential sv r)"
  unfolding resolve_record_registry_credential_def Let_def by (intro keeps_intros)

lemma keeps_parts_patch_image [keeps_intros]: "keeps parts (check_patch_image sv input r)"
  unfolding check_patch_image_def by (intro keeps_intros)

lemma bindS_assoc: "bindS (bindS m f) g s = bindS m (\<lambda>x. bindS (f x) g) s"
  by (auto simp: bindS_def split: prod.splits sum.splits)

lemma bindS_if: "bindS (if c then m else n) g s = (if c then bindS m g s else bindS n g s)"
  by simp

lemma bindS_option:
  "bindS (case x of None \<Rightarrow> m | Some y \<Rightarrow> h y) g s = (case x of None \<Rightarrow> bindS m g s | Some y \<Rightarrow> bindS (h y) g s)"
  by (cases x) simp_all

lemmas bindS_nested = bindS_assoc bindS_if bindS_option

lemma patch_guarded:
  assumes "parts (snd (patch_application sv b u i input s)) \<noteq> parts s"
  shows "may_write sv b u i (patch_target input) s"
  using assms
  by (simp add: patch_application_def authorized_eq Let_def bindS_run bindS_nested may_write_def guard_open_def patch_target_def
    split: sum.splits if_splits option.splits)

lemma secrets_guarded:
  assumes "parts (snd (update_application_secrets sv b u i es ds rid s)) \<noteq> parts s"
  shows "may_write sv b u i (\<lambda>p r. ar_environment r) s"
  using assms
  apply (simp add: update_application_secrets_def authorized_eq Let_def bindS_run may_write_def guard_open_def split: sum.splits if_splits)
  done

lemma restore_guarded:
  assumes "parts (snd (restore_secret_version sv b u i version rid s)) \<noteq> parts s"
  shows "may_write sv b u i (\<lambda>p r. ar_environment r) s"
  using assms unfolding restore_secret_version_def authorized_eq Let_def may_write_def guard_open_def
  by (auto elim!: changed_read split: if_splits)

lemma archive_guarded:
  assumes "parts (snd (archive_application sv u i s)) \<noteq> parts s"
  shows "isOk (require_project_admin sv u i s)"
  using assms by (auto simp: archive_application_def bindS_run isOk_iff split: sum.splits)

lemma delete_guarded:
  assumes "parts (snd (delete_application sv u i s)) \<noteq> parts s"
  shows "isOk (require_project_admin sv u i s)"
  using assms by (auto simp: delete_application_def bindS_run isOk_iff split: sum.splits)

text \<open>
  C23: whatever a handler of the application service leaves changed, the caller was allowed to: creating
  an application takes a deployer of the project; a deployment, a change of settings and a change of
  secrets take a deployer of the application's project; all four take an environment that is open to
  direct changes, unless the caller applies an approved change; archiving and deleting take an
  administrator of the project.
\<close>

theorem application_writes_authorised:
  shows "(parts (snd (create_application sv b u pid q rid s)) \<noteq> parts s \<longrightarrow>
      (\<exists>a. get_authorized (fs_projects sv) u pid (pf_repo s) = Inr a \<and> can_deploy (ap_role a) \<and>
        guard_open b (ap_project a) (resolve_environment (ap_project a) (cr_environment q)))) \<and>
    (parts (snd (create_deployment sv b u i tag environment rid s)) \<noteq> parts s \<longrightarrow>
      may_write sv b u i (deployment_target environment) s) \<and>
    (parts (snd (patch_application sv b u i input s)) \<noteq> parts s \<longrightarrow> may_write sv b u i (patch_target input) s) \<and>
    (parts (snd (update_application_secrets sv b u i es ds rid s)) \<noteq> parts s \<longrightarrow>
      may_write sv b u i (\<lambda>p r. ar_environment r) s) \<and>
    (parts (snd (restore_secret_version sv b u i version rid s)) \<noteq> parts s \<longrightarrow>
      may_write sv b u i (\<lambda>p r. ar_environment r) s) \<and>
    (parts (snd (archive_application sv u i s)) \<noteq> parts s \<longrightarrow> isOk (require_project_admin sv u i s)) \<and>
    (parts (snd (delete_application sv u i s)) \<noteq> parts s \<longrightarrow> isOk (require_project_admin sv u i s))"
  by (intro conjI impI; rule create_guarded deployment_guarded patch_guarded secrets_guarded restore_guarded
    archive_guarded delete_guarded; assumption)

section \<open>What an accepted create request looks like\<close>

text \<open>A request as it reaches the store.\<close>

definition well_formed_request :: "catalog_project \<Rightarrow> create_request \<Rightarrow> bool" where
  "well_formed_request p q \<longleftrightarrow>
    slug_pattern (trim_space (cr_name q)) \<and> trim_space (cr_image q) \<noteq> [] \<and>
    1 \<le> cr_service_port q \<and> cr_service_port q \<le> 65535 \<and> 0 \<le> cr_replicas q \<and>
    cr_strategy q \<in> {strategy_rollout, strategy_canary} \<and> network_ok (cr_strategy q) (cr_mesh q) (cr_load_balancer q) \<and>
    cr_environment q \<in> set (pol_environments (cp_policies p)) \<and>
    contains_normalized_value (pol_strategies (cp_policies p)) (cr_strategy q) \<and>
    cr_poll_interval q \<in> {0, 60, 300, 600}"

lemma repository_metadata_fields:
  assumes "normalize_repository_metadata p q = Inr q'"
  shows "cr_name q' = cr_name q" "cr_image q' = cr_image q" "cr_service_port q' = cr_service_port q"
    "cr_replicas q' = cr_replicas q" "cr_strategy q' = cr_strategy q" "cr_poll_interval q' = cr_poll_interval q"
  using assms by (auto simp: normalize_repository_metadata_def Let_def split: if_splits option.splits)

lemma normalized_network_fields [simp]:
  "cr_name (normalized_network q) = cr_name q" "cr_image (normalized_network q) = cr_image q"
  "cr_service_port (normalized_network q) = cr_service_port q" "cr_replicas (normalized_network q) = cr_replicas q"
  "cr_strategy (normalized_network q) = normalize_strategy (cr_strategy q)"
  "cr_poll_interval (normalized_network q) = cr_poll_interval q"
  by (simp_all add: normalized_network_def)

lemma validate_project_policies_iff:
  "validate_project_policies p e strategy = Inr () \<longleftrightarrow> e \<in> set (pol_environments (cp_policies p)) \<and>
    contains_normalized_value (pol_strategies (cp_policies p)) (normalize_strategy strategy)"
  by (simp add: validate_project_policies_def)

lemma secret_keys_nonblank: "normalize_secrets_loop vs es = Inr xs \<Longrightarrow> [] \<notin> fst ` set vs \<Longrightarrow> [] \<notin> fst ` set xs"
  by (induction vs es rule: normalize_secrets_loop.induct) (auto simp: Let_def split: if_splits)

text \<open>
  C24: a create request that passes every check is well formed: its name is a slug, its port, replicas
  and poll interval are in range, its strategy is one of the two and allowed by the project together
  with its environment, and its network profile fits the strategy. Its secrets have distinct keys.
\<close>

theorem accepted_request_well_formed:
  assumes "check_create sv b p q0 s = (Inr (q, registry, secrets), t)"
  shows "well_formed_request p q \<and> distinct (map fst secrets) \<and> [] \<notin> fst ` set secrets"
proof -
  from assms obtain q1 q2 s1 where v: "validate_create_request q1 = Inr ()"
    and m: "normalize_repository_metadata p q1 = Inr q2"
    and q: "q = with_environment p (with_registry registry (normalized_network q2))"
    and n: "validate_network_profile (cr_strategy q) (cr_mesh q) (cr_load_balancer q) = Inr ()"
    and pol: "validate_project_policies p (cr_environment q) (cr_strategy q) = Inr ()"
    and sec: "normalize_secrets (cr_secrets q) = Inr secrets" by (rule check_createE)
  from q have f: "cr_name q = cr_name q2" "cr_image q = cr_image q2" "cr_service_port q = cr_service_port q2"
    "cr_replicas q = cr_replicas q2" "cr_strategy q = normalize_strategy (cr_strategy q2)"
    "cr_poll_interval q = cr_poll_interval q2" by simp_all
  have "well_formed_request p q"
    using validate_create_request_ok [OF v] n pol
    unfolding well_formed_request_def f repository_metadata_fields [OF m] validate_network_profile_iff
      validate_project_policies_iff by simp
  moreover have "distinct (map fst secrets)" by (rule normalize_secrets_ok(1) [OF sec])
  moreover have "[] \<notin> fst ` set secrets"
    using sec secret_keys_nonblank [of "[]"] by (simp add: normalize_secrets_def)
  ultimately show ?thesis by blast
qed

section \<open>Refusals and the durable queue\<close>

text \<open>
  C25: a direct deployment to an environment that takes pull requests, or a direct change of the secrets
  of an application there, is refused with the error that asks for a change, and leaves the whole state
  as it was, although everything else about the request is in order.
\<close>

theorem protected_environment_refused:
  assumes "require_application sv u i True s = Inr r"
    and "get_authorized (fs_projects sv) u (ar_project_id r) (pf_repo s) = Inr a"
    and "requires_change_flow (ap_project a) (deployment_target environment (ap_project a) r)"
    and "validate_project_policies (ap_project a) (deployment_target environment (ap_project a) r) (ar_strategy r) = Inr ()"
    and "trim_space tag \<noteq> []"
  shows "create_deployment sv False u i tag environment rid s = (Inl ErrChangeRequired, s) \<and>
    (requires_change_flow (ap_project a) (ar_environment r) \<longrightarrow> fs_secrets sv \<longrightarrow>
      update_application_secrets sv False u i es ds rid s = (Inl ErrChangeRequired, s))"
  using assms
  by (simp add: create_deployment_def prepare_deployment_operation_def update_application_secrets_def authorized_eq
    bindS_run bindS_assoc Let_def deployment_target_def failS_def)

lemma prepared_operation:
  assumes "prepare_deployment_operation sv b u i tag environment rid s = (Inr o1, t)"
  shows "\<exists>r a now. require_application sv u i True s = Inr r \<and>
    get_authorized (fs_projects sv) u (ar_project_id r) (pf_repo s) = Inr a \<and>
    o1 = new_operation sv u r tag (deployment_target environment (ap_project a) r) rid now"
  using assms unfolding prepare_deployment_operation_def authorized_eq Let_def deployment_target_def [symmetric]
  by (auto simp: bindS_Inr action_Inr split: if_splits)

lemma enqueue_result:
  "enqueue_operation now o1 q = (res, q') \<Longrightarrow>
    q' = (if taken o1 q then q else q\<lparr>q_ops := q_ops q @ [enqueue_row now o1]\<rparr>) \<and>
    (case res of Inl _ \<Rightarrow> taken o1 q | Inr r \<Rightarrow> op_id r = op_id o1)"
  by (auto simp: enqueue_operation_def Let_def scan_operation_def find_None_iff split: option.splits dest: find_SomeD)

text \<open>
  C26: with the durable queue a deployment request is taken in full or not at all. An accepted request
  leaves the repository, the secrets and the poll tracker as they are and adds one queued operation for
  the application, the target environment and the tag, unless an operation with this identifier is there
  already; a refused one leaves the queue as it is too.
\<close>

theorem deployment_enqueued:
  assumes "fs_queue sv" and "create_deployment sv b u i tag environment rid s = (res, t)"
  shows "pf_repo t = pf_repo s \<and> pf_vault t = pf_vault s \<and> sr_polls t = sr_polls s \<and>
    (case res of
       Inl _ \<Rightarrow> sr_queue t = sr_queue s
     | Inr d \<Rightarrow> dp_status d = ''Queued'' \<and> dp_id d = deployment_id_of rid \<and>
         (\<exists>r a now o1. require_application sv u i True s = Inr r \<and>
           get_authorized (fs_projects sv) u (ar_project_id r) (pf_repo s) = Inr a \<and>
           o1 = new_operation sv u r tag (deployment_target environment (ap_project a) r) rid now \<and>
           (if taken o1 (sr_queue s) then sr_queue t = sr_queue s
            else \<exists>now'. sr_queue t = (sr_queue s)\<lparr>q_ops := q_ops (sr_queue s) @ [enqueue_row now' o1]\<rparr>)))"
proof -
  obtain x s1 where p: "prepare_deployment_operation sv b u i tag environment rid s = (x, s1)"
    by (cases "prepare_deployment_operation sv b u i tag environment rid s")
  have "keeps parts (prepare_deployment_operation sv b u i tag environment rid)" by (intro keeps_intros)
  from keepsD [OF this, of s] p have s1: "pf_repo s1 = pf_repo s" "pf_vault s1 = pf_vault s"
    "sr_queue s1 = sr_queue s" "sr_polls s1 = sr_polls s" by (simp_all add: parts_def)
  show ?thesis
  proof (cases x)
    case (Inl e)
    with assms p s1 show ?thesis by (auto simp: create_deployment_def bindS_def)
  next
    case (Inr o1)
    from prepared_operation [of sv b u i tag environment rid s o1 s1] p Inr obtain r a now where
      o1: "require_application sv u i True s = Inr r"
      "get_authorized (fs_projects sv) u (ar_project_id r) (pf_repo s) = Inr a"
      "o1 = new_operation sv u r tag (deployment_target environment (ap_project a) r) rid now" by blast
    obtain y q' where e: "enqueue_operation (fs_clock sv (sr_asked s1)) o1 (sr_queue s1) = (y, q')"
      by (cases "enqueue_operation (fs_clock sv (sr_asked s1)) o1 (sr_queue s1)")
    from assms p Inr e have res: "res = map_sum id (\<lambda>q. \<lparr>dp_id = op_id q, dp_application_id = op_application_id q,
        dp_image_tag = op_image_tag q, dp_environment = op_environment q, dp_status = status_text OpQueued\<rparr>) y"
      "t = s1\<lparr>sr_asked := Suc (sr_asked s1), sr_queue := q'\<rparr>"
      by (cases y; auto simp: create_deployment_def bindS_def now_utc_def ask_def on_queue_def returnS_def)+
    have id: "op_id o1 = deployment_id_of rid" using o1(3) by (simp add: new_operation_def)
    have st: "status_text OpQueued = ''Queued''" by code_simp
    from enqueue_result [OF e] s1 have q: "if taken o1 (sr_queue s) then q' = sr_queue s
        else \<exists>now'. q' = (sr_queue s)\<lparr>q_ops := q_ops (sr_queue s) @ [enqueue_row now' o1]\<rparr>" by (simp only:) (metis (full_types))
    have t: "pf_repo t = pf_repo s" "pf_vault t = pf_vault s" "sr_polls t = sr_polls s" "sr_queue t = q'"
      using res(2) s1 by simp_all
    show ?thesis
    proof (cases y)
      case (Inl err)
      with enqueue_result [OF e] s1 res(1) t show ?thesis by simp
    next
      case (Inr d)
      with enqueue_result [OF e] id have "op_id d = deployment_id_of rid" by simp
      moreover have "\<exists>r a now o1. require_application sv u i True s = Inr r \<and>
           get_authorized (fs_projects sv) u (ar_project_id r) (pf_repo s) = Inr a \<and>
           o1 = new_operation sv u r tag (deployment_target environment (ap_project a) r) rid now \<and>
           (if taken o1 (sr_queue s) then sr_queue t = sr_queue s
            else \<exists>now'. sr_queue t = (sr_queue s)\<lparr>q_ops := q_ops (sr_queue s) @ [enqueue_row now' o1]\<rparr>)"
        using o1 q unfolding t by (intro exI conjI)
      ultimately show ?thesis unfolding t(1-3) using Inr res(1) st by simp
    qed
  qed
qed

definition demo_project :: catalog_project where
  "demo_project = demo_project_input\<lparr>cp_policies :=
     \<lparr>pol_min_replicas = 1, pol_environments = [''dev'', ''prod''], pol_strategies = [''Rollout'', ''Canary''],
      pol_clusters = [], pol_prod_pr = True, pol_auto_rollback = True, pol_required_probes = True\<rparr>\<rparr>"

definition demo_app :: app_record where
  "demo_app = record_of_create 5 demo_context (demo_request\<lparr>cr_environment := ''dev'', cr_strategy := ''Rollout''\<rparr>) []"

definition demo_server :: server where
  "demo_server = \<lparr>pf_repo = [(catalog_path, CCatalog [demo_project]),
      (metadata_path ''demo'' ''web'', CMetadata (metadata_from_record demo_app [''dev'', ''prod'']))],
    pf_vault = \<lparr>vault_root = ''/v'', vault_files = []\<rparr>, sr_queue = \<lparr>q_ops = [], q_locks = []\<rparr>,
    sr_polls = new_tracker 0 0, sr_asked = 0\<rparr>"

definition demo_handlers :: app_service where
  "demo_handlers = \<lparr>fs_projects = demo_service,
    fs_store = \<lparr>sc_flux = \<lparr>fc_namespace = [], fc_source = []\<rparr>,
      sc_float = \<lparr>fu_parse = (\<lambda>_. None), fu_times = (\<lambda>x _. x)\<rparr>\<rparr>,
    fs_clock = (\<lambda>n. unix_epoch + 1000000 * int n), fs_secrets = True, fs_queue = True, fs_lock_key = [],
    fs_max_attempts = 3, fs_tracker = True, fs_images = None, fs_status = None, fs_metrics = None,
    fs_network = None, fs_logs = None, fs_rollouts = None, fs_http = (\<lambda>_ _ _. Inl []), fs_json = (\<lambda>_. Inl []),
    fs_yaml = (\<lambda>_. Inl [])\<rparr>"


lemma bindS_step: "m s = (Inr x, t) \<Longrightarrow> bindS m f s = f x t"
  by (simp add: bindS_def)

lemma enqueue_new:
  assumes "\<not> taken o1 q"
  shows "\<exists>x. enqueue_operation now o1 q = (Inr x, q\<lparr>q_ops := q_ops q @ [enqueue_row now o1]\<rparr>)"
proof -
  obtain res q' where e: "enqueue_operation now o1 q = (res, q')" by (cases "enqueue_operation now o1 q")
  from enqueue_result [OF e] assms e show ?thesis by (cases res) auto
qed

lemma enqueue_row_target [simp]:
  "op_environment (enqueue_row now o1) = op_environment o1" "op_image_tag (enqueue_row now o1) = op_image_tag o1"
  by (simp_all add: enqueue_row_def)

lemma new_operation_simps [simp]:
  "op_environment (new_operation sv u r tag e rid now) = e" "op_image_tag (new_operation sv u r tag e rid now) = tag"
  "op_id (new_operation sv u r tag e rid now) = deployment_id_of rid"
  "op_request_id (new_operation sv u r tag e rid now) = rid"
  by (simp_all add: new_operation_def)

lemma bypassed_deployment:
  assumes "require_application sv u i True s = Inr r"
    and "get_authorized (fs_projects sv) u (ar_project_id r) (pf_repo s) = Inr a"
    and "validate_project_policies (ap_project a) (ar_environment r) (ar_strategy r) = Inr ()"
    and "trim_space tag \<noteq> []" and "trim_space e = []" and "fs_queue sv"
    and "\<forall>x \<in> set (q_ops (sr_queue s)). op_id x \<noteq> deployment_id_of rid \<and> op_request_id x \<noteq> rid"
  shows "\<exists>d t o1. create_deployment sv True u i tag e rid s = (Inr d, t) \<and>
    q_ops (sr_queue t) = q_ops (sr_queue s) @ [o1] \<and> op_environment o1 = ar_environment r \<and> op_image_tag o1 = tag"
proof -
  let ?o = "new_operation sv u r tag (ar_environment r) rid (fs_clock sv (sr_asked s))"
  let ?s = "s\<lparr>sr_asked := Suc (sr_asked s)\<rparr>"
  have p: "prepare_deployment_operation sv True u i tag e rid s = (Inr ?o, ?s)"
    using assms by (simp add: prepare_deployment_operation_def authorized_eq bindS_run Let_def)
      (simp add: bindS_def now_utc_def ask_def returnS_def)
  have "\<not> taken ?o (sr_queue s)" using assms(7) by (auto simp: taken_def list_ex_iff)
  from enqueue_new [OF this, of "fs_clock sv (Suc (sr_asked s))"] obtain x where
    e: "enqueue_operation (fs_clock sv (Suc (sr_asked s))) ?o (sr_queue s) =
      (Inr x, (sr_queue s)\<lparr>q_ops := q_ops (sr_queue s) @ [enqueue_row (fs_clock sv (Suc (sr_asked s))) ?o]\<rparr>)" by blast
  show ?thesis
    unfolding create_deployment_def bindS_step [of "prepare_deployment_operation sv True u i tag e rid" s, OF p]
    using assms(6) e by (simp add: bindS_def now_utc_def ask_def on_queue_def returnS_def)
qed

section \<open>Examples\<close>

definition demo_deployed :: "(go_error, deployment_response) result \<times> server" where
  "demo_deployed = create_deployment demo_handlers False demo_admin ''demo__web'' ''v2'' [] ''req_1'' demo_server"

lemma demo_deployed_queue: "length (q_ops (sr_queue (snd demo_deployed))) = 1"
  by code_simp

lemma demo_server_queue: "q_ops (sr_queue demo_server) = []"
  by (simp add: demo_server_def)

theorem application_writes_authorised_witness:
  "may_write demo_handlers False demo_admin ''demo__web'' (deployment_target []) demo_server"
proof -
  have "parts (snd demo_deployed) \<noteq> parts demo_server"
    using demo_deployed_queue demo_server_queue by (auto simp: parts_def)
  with application_writes_authorised [of demo_handlers False demo_admin _ _ _ demo_server "''demo__web''" "''v2''" "[]"]
  show ?thesis unfolding demo_deployed_def by blast
qed

theorem deployment_enqueued_witness:
  "pf_repo (snd demo_deployed) = pf_repo demo_server"
proof -
  have q: "fs_queue demo_handlers" by (simp add: demo_handlers_def)
  obtain res t where r: "demo_deployed = (res, t)" by (cases demo_deployed)
  from conjunct1 [OF deployment_enqueued [OF q r [unfolded demo_deployed_def]]] r show ?thesis by (metis snd_conv)
qed

lemma isOk_projr: "isOk x \<Longrightarrow> x = Inr (projr x)"
  by (auto simp: isOk_iff)

definition demo_found :: app_record where
  "demo_found = projr (require_application demo_handlers demo_admin ''demo__web'' True demo_server)"

definition demo_access :: authorized_project where
  "demo_access = projr (get_authorized (fs_projects demo_handlers) demo_admin (ar_project_id demo_found) (pf_repo demo_server))"

theorem protected_environment_refused_witness:
  "create_deployment demo_handlers False demo_admin ''demo__web'' ''v2'' ''prod'' ''req_1'' demo_server =
    (Inl ErrChangeRequired, demo_server)"
proof -
  have "isOk (require_application demo_handlers demo_admin ''demo__web'' True demo_server)" by code_simp
  note r = isOk_projr [OF this, folded demo_found_def]
  have "isOk (get_authorized (fs_projects demo_handlers) demo_admin (ar_project_id demo_found) (pf_repo demo_server))"
    by code_simp
  note a = isOk_projr [OF this, folded demo_access_def]
  have "requires_change_flow (ap_project demo_access) (deployment_target ''prod'' (ap_project demo_access) demo_found)"
    "isOk (validate_project_policies (ap_project demo_access)
      (deployment_target ''prod'' (ap_project demo_access) demo_found) (ar_strategy demo_found))"
    "trim_space ''v2'' \<noteq> []" by code_simp+
  with protected_environment_refused [OF r a, of "''prod''"] show ?thesis by (simp add: isOk_iff)
qed

definition demo_asked :: create_request where
  "demo_asked = demo_request\<lparr>cr_environment := ''dev''\<rparr>"

lemma check_createI:
  assumes "hydrate_repository_source sv q0 s = (Inr q1, s1)" and "validate_create_request q1 = Inr ()"
    and "normalize_repository_metadata p q1 = Inr q2" and "q = normalized_network q2"
    and "validate_network_profile (cr_strategy q) (cr_mesh q) (cr_load_balancer q) = Inr ()"
    and "normalize_registry_credential_input (trim_space (cr_image q)) (cr_registry_server q)
        (cr_registry_username q) (cr_registry_token q) = Inr registry"
    and "verify_image_reference sv (trim_space (cr_image q)) (map_option fst registry) s1 = (Inr (), t)"
    and "validate_project_policies p (resolve_environment p (cr_environment q)) (cr_strategy q) = Inr ()"
    and "guard_open b p (resolve_environment p (cr_environment q))" and "normalize_secrets (cr_secrets q) = Inr secrets"
  shows "check_create sv b p q0 s = (Inr (with_environment p (with_registry registry q), registry, secrets), t)"
proof -
  have "\<not> (\<not> b \<and> requires_change_flow p (resolve_environment p (cr_environment q)))"
    using assms(9) by (auto simp: guard_open_def)
  then show ?thesis
    unfolding check_create_def Let_def bindS_step [of "hydrate_repository_source sv q0" s, OF assms(1)] bindS_run assms(2,3) sum.case
      assms(4) [symmetric] assms(5,6) with_registry_fields with_environment_fields bindS_step [of "verify_image_reference sv (trim_space (cr_image q)) (map_option fst registry)" s1, OF assms(7)] assms(8,10)
    by (simp only: if_False returnS_def)
qed

definition demo_described :: create_request where
  "demo_described = projr (normalize_repository_metadata demo_project demo_asked)"

definition demo_wanted :: create_request where
  "demo_wanted = normalized_network demo_described"

lemma demo_checked: "check_create demo_handlers False demo_project demo_asked demo_server =
      (Inr (with_environment demo_project (with_registry None demo_wanted), None, []), demo_server)"
proof (rule check_createI)
  have "trim_space (cr_repository_url demo_asked) = []" by code_simp
  then show "hydrate_repository_source demo_handlers demo_asked demo_server = (Inr demo_asked, demo_server)"
    by (simp only: hydrate_repository_source_def if_True simp_thms returnS_def)
  show "validate_create_request demo_asked = Inr ()" by code_simp
  have "isOk (normalize_repository_metadata demo_project demo_asked)" by code_simp
  from isOk_projr [OF this] show "normalize_repository_metadata demo_project demo_asked = Inr demo_described"
    by (simp only: demo_described_def)
  show "demo_wanted = normalized_network demo_described" by (rule demo_wanted_def)
  have "fs_images demo_handlers = None" by (simp add: demo_handlers_def)
  then show "verify_image_reference demo_handlers (trim_space (cr_image demo_wanted)) (map_option fst None) demo_server =
      (Inr (), demo_server)" by (simp only: verify_image_reference_def option.case returnS_def)
qed (unfold guard_open_def, code_simp+)

theorem accepted_request_well_formed_witness:
  "well_formed_request demo_project (with_environment demo_project (with_registry None demo_wanted))"
  using accepted_request_well_formed [OF demo_checked] by blast

end
