(* ===== verification/ChangeLaws.thy ===== *)
theory ChangeLaws
  imports ChangeFlow ServiceLaws
begin

text \<open>
  The life of a change: the operations move a stored change along the edges of a small state machine,
  and a change that takes a pull request is merged only after an administrator approved it.
\<close>

section \<open>The state machine\<close>

text \<open>What happened to a change, by whom, and in which role of the project.\<close>

datatype change_event = Submit user role | Approve user role | Merge user role

text \<open>The edges: the record before, the event, the record after. Everything but the status, the names and
  the time stays as it is.\<close>

inductive change_edge :: "change_record \<Rightarrow> change_event \<Rightarrow> change_record \<Rightarrow> bool" where
  edge_submit: "ch_status c = Draft \<Longrightarrow> can_deploy role \<Longrightarrow>
    change_edge c (Submit u role) (c\<lparr>ch_status := Submitted, ch_updated_at := now\<rparr>)"
| edge_approve: "ch_status c = Submitted \<Longrightarrow> can_admin role \<Longrightarrow>
    change_edge c (Approve u role) (c\<lparr>ch_status := Approved, ch_approved_by := user_name u, ch_updated_at := now\<rparr>)"
| edge_merge: "ch_status c = Approved \<or> (ch_status c = Submitted \<and> ch_write_mode c \<noteq> write_mode_pull_request) \<Longrightarrow>
    can_deploy role \<Longrightarrow>
    change_edge c (Merge u role) (c\<lparr>ch_status := Merged, ch_merged_by := user_name u, ch_updated_at := now\<rparr>)"

inductive_cases change_edgeE: "change_edge c e d"

inductive change_history :: "change_record \<Rightarrow> change_event list \<Rightarrow> change_record \<Rightarrow> bool" where
  history_start: "change_history c [] c"
| history_edge: "change_history c es d \<Longrightarrow> change_edge d e d' \<Longrightarrow> change_history c (es @ [e]) d'"

lemma merge_allowed_iff:
  "merge_allowed c = Inr () \<longleftrightarrow>
    ch_status c = Approved \<or> (ch_status c = Submitted \<and> ch_write_mode c \<noteq> write_mode_pull_request)"
  by (cases "ch_status c") (simp_all add: merge_allowed_def)

lemma edge_keeps:
  "change_edge c e d \<Longrightarrow> ch_id d = ch_id c \<and> ch_write_mode d = ch_write_mode c \<and> ch_request d = ch_request c \<and>
    ch_operation d = ch_operation c \<and> ch_project_id d = ch_project_id c \<and> ch_environment d = ch_environment c"
  by (auto elim: change_edgeE)

lemma history_keeps:
  "change_history c es d \<Longrightarrow> ch_id d = ch_id c \<and> ch_write_mode d = ch_write_mode c \<and> ch_request d = ch_request c \<and>
    ch_operation d = ch_operation c \<and> ch_project_id d = ch_project_id c \<and> ch_environment d = ch_environment c"
  by (induction rule: change_history.induct) (auto dest: edge_keeps)

text \<open>Which histories lead where.\<close>

fun events_of :: "change_status \<Rightarrow> change_record \<Rightarrow> change_event list \<Rightarrow> bool" where
  "events_of Draft c es \<longleftrightarrow> es = []"
| "events_of Submitted c es \<longleftrightarrow> (\<exists>u r. es = [Submit u r] \<and> can_deploy r)"
| "events_of Approved c es \<longleftrightarrow> (\<exists>u r v q. es = [Submit u r, Approve v q] \<and> can_deploy r \<and> can_admin q \<and>
    ch_approved_by c = user_name v)"
| "events_of Merged c es \<longleftrightarrow>
    (\<exists>u r v q w m. es = [Submit u r, Approve v q, Merge w m] \<and> can_deploy r \<and> can_admin q \<and> can_deploy m \<and>
      ch_approved_by c = user_name v \<and> ch_merged_by c = user_name w) \<or>
    (\<exists>u r w m. es = [Submit u r, Merge w m] \<and> can_deploy r \<and> can_deploy m \<and>
      ch_write_mode c \<noteq> write_mode_pull_request \<and> ch_merged_by c = user_name w)"

lemma history_events:
  "change_history c es d \<Longrightarrow> ch_status c = Draft \<Longrightarrow> events_of (ch_status d) d es"
proof (induction rule: change_history.induct)
  case (history_edge c es d e d')
  from history_edge.hyps(2) history_edge.IH [OF history_edge.prems] show ?case
    by (cases rule: change_edge.cases) auto
qed simp

section \<open>The operations follow the edges\<close>

lemma get_changeE:
  assumes "get_change sv u i s = Inr (c, a)"
  obtains "stored_change i (pf_repo s) = Inr c" "get_authorized (fs_projects sv) u (ch_project_id c) (pf_repo s) = Inr a"
  using assms by (auto simp: get_change_def bindR_eq_Inr)

lemma stored_after: "stored_change i (fs_write (change_path i) (CChange c) repo) = Inr c"
  by (simp add: stored_change_def tree.read_write)

lemma now_run: "now_utc sv s = (Inr (fs_clock sv (sr_asked s)), s\<lparr>sr_asked := Suc (sr_asked s)\<rparr>)"
  by (simp add: now_utc_def ask_def)

lemma store_run: "on_repo (store_change c) s = (Inr c, s\<lparr>pf_repo := fs_write (change_path (ch_id c)) (CChange c) (pf_repo s)\<rparr>)"
  by (simp add: on_repo_def store_change_def)

text \<open>The file of a stored change and nothing else.\<close>

definition filed :: "change_record \<Rightarrow> server \<Rightarrow> server \<Rightarrow> bool" where
  "filed d s t \<longleftrightarrow> pf_repo t = fs_write (change_path (ch_id d)) (CChange d) (pf_repo s) \<and> pf_vault t = pf_vault s \<and>
    sr_queue t = sr_queue s \<and> sr_polls t = sr_polls s"

lemma filed_stored: "filed d s t \<Longrightarrow> change_path (ch_id d) = change_path i \<Longrightarrow> stored_change i (pf_repo t) = Inr d"
  by (simp add: filed_def stored_after)

lemma submit_run:
  assumes "submit_change sv u i s = (Inr d, t)"
  obtains c a where "get_change sv u i s = Inr (c, a)" "change_edge c (Submit u (ap_role a)) d" "filed d s t"
proof -
  from assms obtain c a where g: "get_change sv u i s = Inr (c, a)" and r: "can_deploy (ap_role a)" "ch_status c = Draft"
    and d: "d = c\<lparr>ch_status := Submitted, ch_updated_at := fs_clock sv (sr_asked s)\<rparr>"
    and t: "t = s\<lparr>sr_asked := Suc (sr_asked s), pf_repo := fs_write (change_path (ch_id c)) (CChange d) (pf_repo s)\<rparr>"
    by (auto simp: submit_change_def bindS_Inr action_Inr now_run store_run split: if_splits)
  then show thesis by (intro that [OF g]) (simp_all add: change_edge.edge_submit filed_def)
qed

lemma approve_run:
  assumes "approve_change sv u i s = (Inr d, t)"
  obtains c a where "get_change sv u i s = Inr (c, a)" "change_edge c (Approve u (ap_role a)) d" "filed d s t"
proof -
  from assms obtain c a where g: "get_change sv u i s = Inr (c, a)" and r: "can_admin (ap_role a)" "ch_status c = Submitted"
    and d: "d = c\<lparr>ch_status := Approved, ch_approved_by := user_name u, ch_updated_at := fs_clock sv (sr_asked s)\<rparr>"
    and t: "t = s\<lparr>sr_asked := Suc (sr_asked s), pf_repo := fs_write (change_path (ch_id c)) (CChange d) (pf_repo s)\<rparr>"
    by (auto simp: approve_change_def bindS_Inr action_Inr now_run store_run split: if_splits change_status.splits)
  then show thesis by (intro that [OF g]) (simp_all add: change_edge.edge_approve filed_def)
qed

lemma merge_run:
  assumes "merge_change sv u i s = (Inr d, t)"
  obtains c a s1 where "get_change sv u i s = Inr (c, a)" "change_edge c (Merge u (ap_role a)) d"
    "apply_change sv u c s = (Inr (), s1)" "filed d s1 t"
proof -
  from assms obtain c a s1 where g: "get_change sv u i s = Inr (c, a)" and r: "can_deploy (ap_role a)"
    and m: "merge_allowed c = Inr ()" and a: "apply_change sv u c s = (Inr (), s1)"
    and d: "d = c\<lparr>ch_status := Merged, ch_merged_by := user_name u, ch_updated_at := fs_clock sv (sr_asked s1)\<rparr>"
    and t: "t = s1\<lparr>sr_asked := Suc (sr_asked s1), pf_repo := fs_write (change_path (ch_id c)) (CChange d) (pf_repo s1)\<rparr>"
    by (auto simp: merge_change_def bindS_Inr action_Inr now_run store_run split: if_splits)
  then show thesis
    by (intro that [OF g _ a]) (simp_all add: change_edge.edge_merge merge_allowed_iff filed_def)
qed

text \<open>
  C27: a successful submit, approve or merge takes the stored change along one edge of the state machine,
  in the role that the caller has in the change's project, and files the result under the change's
  identifier. Submitting and approving change nothing else; merging applies exactly the request that was
  stored with the change, before it files the change as merged. A refused submit or approve changes
  nothing.
\<close>

theorem change_operations_follow_edges:
  assumes "\<And>c. stored_change i (pf_repo s) = Inr c \<Longrightarrow> change_path (ch_id c) = change_path i"
  shows "(\<forall>d t. submit_change sv u i s = (Inr d, t) \<longrightarrow>
      (\<exists>c a. get_change sv u i s = Inr (c, a) \<and> change_edge c (Submit u (ap_role a)) d \<and> filed d s t \<and>
        stored_change i (pf_repo t) = Inr d)) \<and>
    (\<forall>d t. approve_change sv u i s = (Inr d, t) \<longrightarrow>
      (\<exists>c a. get_change sv u i s = Inr (c, a) \<and> change_edge c (Approve u (ap_role a)) d \<and> filed d s t \<and>
        stored_change i (pf_repo t) = Inr d)) \<and>
    (\<forall>d t. merge_change sv u i s = (Inr d, t) \<longrightarrow>
      (\<exists>c a s1. get_change sv u i s = Inr (c, a) \<and> change_edge c (Merge u (ap_role a)) d \<and>
        apply_change sv u c s = (Inr (), s1) \<and> filed d s1 t \<and> stored_change i (pf_repo t) = Inr d)) \<and>
    (\<forall>e t. submit_change sv u i s = (Inl e, t) \<or> approve_change sv u i s = (Inl e, t) \<longrightarrow> t = s)"
proof (intro conjI allI impI)
  note own = filed_stored [of _ _ _ i]
  fix d t assume "submit_change sv u i s = (Inr d, t)"
  then obtain c a where c: "get_change sv u i s = Inr (c, a)" "change_edge c (Submit u (ap_role a)) d" "filed d s t"
    by (rule submit_run)
  then show "\<exists>c a. get_change sv u i s = Inr (c, a) \<and> change_edge c (Submit u (ap_role a)) d \<and> filed d s t \<and>
        stored_change i (pf_repo t) = Inr d"
    using own [OF c(3)] assms edge_keeps [OF c(2)] by (metis get_changeE)
next
  fix d t assume "approve_change sv u i s = (Inr d, t)"
  then obtain c a where c: "get_change sv u i s = Inr (c, a)" "change_edge c (Approve u (ap_role a)) d" "filed d s t"
    by (rule approve_run)
  then show "\<exists>c a. get_change sv u i s = Inr (c, a) \<and> change_edge c (Approve u (ap_role a)) d \<and> filed d s t \<and>
        stored_change i (pf_repo t) = Inr d"
    using filed_stored [OF c(3)] assms edge_keeps [OF c(2)] by (metis get_changeE)
next
  fix d t assume "merge_change sv u i s = (Inr d, t)"
  then obtain c a s1 where c: "get_change sv u i s = Inr (c, a)" "change_edge c (Merge u (ap_role a)) d"
    "apply_change sv u c s = (Inr (), s1)" "filed d s1 t" by (rule merge_run)
  then show "\<exists>c a s1. get_change sv u i s = Inr (c, a) \<and> change_edge c (Merge u (ap_role a)) d \<and>
        apply_change sv u c s = (Inr (), s1) \<and> filed d s1 t \<and> stored_change i (pf_repo t) = Inr d"
    using filed_stored [OF c(4)] assms edge_keeps [OF c(2)] by (metis get_changeE)
next
  fix e t assume "submit_change sv u i s = (Inl e, t) \<or> approve_change sv u i s = (Inl e, t)"
  then show "t = s"
    by (auto simp: submit_change_def approve_change_def bindS_Inl bindS_run now_run store_run failS_def
      split: sum.splits if_splits change_status.splits)
qed

section \<open>Runs of the service\<close>

text \<open>
  What may happen to one change: its own operations, with the role that the caller had at that moment, and
  anything else that leaves its file alone.
\<close>

inductive change_run :: "app_service \<Rightarrow> string \<Rightarrow> server \<Rightarrow> change_event list \<Rightarrow> server \<Rightarrow> bool"
  for sv :: app_service and i :: string where
  run_start: "change_run sv i s [] s"
| run_submit: "change_run sv i s es s1 \<Longrightarrow> get_change sv u i s1 = Inr (c, a) \<Longrightarrow>
    submit_change sv u i s1 = (Inr d, s2) \<Longrightarrow> change_run sv i s (es @ [Submit u (ap_role a)]) s2"
| run_approve: "change_run sv i s es s1 \<Longrightarrow> get_change sv u i s1 = Inr (c, a) \<Longrightarrow>
    approve_change sv u i s1 = (Inr d, s2) \<Longrightarrow> change_run sv i s (es @ [Approve u (ap_role a)]) s2"
| run_merge: "change_run sv i s es s1 \<Longrightarrow> get_change sv u i s1 = Inr (c, a) \<Longrightarrow>
    merge_change sv u i s1 = (Inr d, s2) \<Longrightarrow> change_run sv i s (es @ [Merge u (ap_role a)]) s2"
| run_other: "change_run sv i s es s1 \<Longrightarrow> stored_change i (pf_repo s2) = stored_change i (pf_repo s1) \<Longrightarrow>
    change_run sv i s es s2"

lemma run_history:
  assumes "change_run sv i s es t" and "stored_change i (pf_repo s) = Inr c0" and "change_path (ch_id c0) = change_path i"
  shows "\<exists>c. stored_change i (pf_repo t) = Inr c \<and> change_history c0 es c"
  using assms
proof (induction rule: change_run.induct)
  case (run_start s)
  then show ?case by (auto intro: history_start)
next
  case (run_submit s es s1 u c a d s2)
  from run_submit.IH run_submit.prems obtain c1 where c1: "stored_change i (pf_repo s1) = Inr c1" "change_history c0 es c1"
    by blast
  from run_submit.hyps(3) obtain c' a' where r: "get_change sv u i s1 = Inr (c', a')" "change_edge c' (Submit u (ap_role a')) d"
    "filed d s1 s2" by (rule submit_run)
  with run_submit.hyps(2) c1 have "c' = c1" "a' = a" by (auto elim: get_changeE)
  with r c1 filed_stored [OF r(3)] edge_keeps [OF r(2)] history_keeps [OF c1(2)] run_submit.prems(2) show ?case
    by (auto intro: history_edge)
next
  case (run_approve s es s1 u c a d s2)
  from run_approve.IH run_approve.prems obtain c1 where c1: "stored_change i (pf_repo s1) = Inr c1" "change_history c0 es c1"
    by blast
  from run_approve.hyps(3) obtain c' a' where r: "get_change sv u i s1 = Inr (c', a')" "change_edge c' (Approve u (ap_role a')) d"
    "filed d s1 s2" by (rule approve_run)
  with run_approve.hyps(2) c1 have "c' = c1" "a' = a" by (auto elim: get_changeE)
  with r c1 filed_stored [OF r(3)] edge_keeps [OF r(2)] history_keeps [OF c1(2)] run_approve.prems(2) show ?case
    by (auto intro: history_edge)
next
  case (run_merge s es s1 u c a d s2)
  from run_merge.IH run_merge.prems obtain c1 where c1: "stored_change i (pf_repo s1) = Inr c1" "change_history c0 es c1"
    by blast
  from run_merge.hyps(3) obtain c' a' s3 where r: "get_change sv u i s1 = Inr (c', a')" "change_edge c' (Merge u (ap_role a')) d"
    "filed d s3 s2" by (rule merge_run)
  with run_merge.hyps(2) c1 have "c' = c1" "a' = a" by (auto elim: get_changeE)
  with r c1 filed_stored [OF r(3)] edge_keeps [OF r(2)] history_keeps [OF c1(2)] run_merge.prems(2) show ?case
    by (auto intro: history_edge)
qed simp

text \<open>
  C28: a change of a pull request environment that ends up merged was submitted by a deployer, then
  approved by an administrator of the project, then merged by a deployer, in this order and each of it once,
  whatever else happened in between, and the request that was merged is the one that was drafted.
\<close>

theorem merged_after_review:
  assumes "change_run sv i s es t" and "stored_change i (pf_repo s) = Inr c0" and "change_path (ch_id c0) = change_path i"
    and "ch_status c0 = Draft" and "ch_write_mode c0 = write_mode_pull_request"
    and "stored_change i (pf_repo t) = Inr c" and "ch_status c = Merged"
  shows "\<exists>u r v q w m. es = [Submit u r, Approve v q, Merge w m] \<and> can_deploy r \<and> can_admin q \<and> can_deploy m \<and>
    ch_approved_by c = user_name v \<and> ch_merged_by c = user_name w \<and> ch_request c = ch_request c0"
proof -
  from run_history [OF assms(1-3)] assms(6) have h: "change_history c0 es c" by simp
  from history_events [OF h assms(4)] assms(7) have "events_of Merged c es" by simp
  moreover have "ch_write_mode c = write_mode_pull_request" "ch_request c = ch_request c0"
    using history_keeps [OF h] assms(5) by simp_all
  ultimately show ?thesis by auto
qed

section \<open>Examples\<close>

definition redeploy_request :: "string \<Rightarrow> change_request" where
  "redeploy_request environment = \<lparr>cq_operation = op_redeploy, cq_application_id = ''demo__web'', cq_name = [],
    cq_description = [], cq_image = [], cq_service_port = 0, cq_strategy = [], cq_environment = environment,
    cq_image_tag = ''v2'', cq_secrets = [], cq_repository_url = [], cq_repository_branch = [],
    cq_repository_token = [], cq_repository_service_id = [], cq_config_path = [], cq_registry_server = [],
    cq_registry_username = [], cq_registry_token = [], cq_policies = None, cq_summary = ''release''\<rparr>"

definition demo_change :: change_record where
  "demo_change = \<lparr>ch_id = ''chg_1'', ch_project_id = ''demo'', ch_application_id = ''demo__web'',
    ch_operation = op_redeploy, ch_environment = ''prod'', ch_write_mode = write_mode_pull_request, ch_status = Draft,
    ch_summary = ''release'', ch_diff_preview = [], ch_request = redeploy_request ''prod'', ch_created_by = ''ada'',
    ch_approved_by = [], ch_merged_by = [], ch_created_at = 0, ch_updated_at = 0\<rparr>"

definition drafted :: server where
  "drafted = demo_server\<lparr>pf_repo := fs_write (change_path ''chg_1'') (CChange demo_change) (pf_repo demo_server)\<rparr>"

definition submitted :: server where "submitted = snd (submit_change demo_handlers demo_admin ''chg_1'' drafted)"
definition approved :: server where "approved = snd (approve_change demo_handlers demo_admin ''chg_1'' submitted)"
definition merged :: server where "merged = snd (merge_change demo_handlers demo_admin ''chg_1'' approved)"

lemma demo_steps:
  "isOk (fst (submit_change demo_handlers demo_admin ''chg_1'' drafted))"
  "isOk (fst (approve_change demo_handlers demo_admin ''chg_1'' submitted))"
  "isOk (fst (merge_change demo_handlers demo_admin ''chg_1'' approved))"
  by code_simp+

lemma drafted_change: "stored_change ''chg_1'' (pf_repo drafted) = Inr demo_change"
  by (simp add: drafted_def stored_after)

lemma demo_change_fields: "ch_id demo_change = ''chg_1''" "ch_status demo_change = Draft"
  "ch_write_mode demo_change = write_mode_pull_request"
  by (simp_all add: demo_change_def)

theorem change_operations_follow_edges_witness:
  "\<exists>d t. submit_change demo_handlers demo_admin ''chg_1'' drafted = (Inr d, t) \<and> filed d drafted t"
proof -
  have own: "change_path (ch_id c) = change_path ''chg_1''" if "stored_change ''chg_1'' (pf_repo drafted) = Inr c" for c
    using that drafted_change by (simp add: demo_change_fields)
  from isOk_run [OF demo_steps(1)] obtain d t where
    "submit_change demo_handlers demo_admin ''chg_1'' drafted = (Inr d, t)" by blast
  with change_operations_follow_edges [of "''chg_1''" drafted demo_handlers demo_admin, OF own] show ?thesis by blast
qed

lemma demo_run: "\<exists>es. change_run demo_handlers ''chg_1'' drafted es merged"
proof -
  from isOk_run [OF demo_steps(1)] submit_run obtain d1 c1 a1 where
    s: "submit_change demo_handlers demo_admin ''chg_1'' drafted = (Inr d1, submitted)"
      "get_change demo_handlers demo_admin ''chg_1'' drafted = Inr (c1, a1)" unfolding submitted_def by (metis snd_conv)
  from isOk_run [OF demo_steps(2)] approve_run obtain d2 c2 a2 where
    a: "approve_change demo_handlers demo_admin ''chg_1'' submitted = (Inr d2, approved)"
      "get_change demo_handlers demo_admin ''chg_1'' submitted = Inr (c2, a2)" unfolding approved_def by (metis snd_conv)
  from isOk_run [OF demo_steps(3)] merge_run obtain d3 c3 a3 where
    m: "merge_change demo_handlers demo_admin ''chg_1'' approved = (Inr d3, merged)"
      "get_change demo_handlers demo_admin ''chg_1'' approved = Inr (c3, a3)" unfolding merged_def by (metis snd_conv)
  show ?thesis using run_merge [OF run_approve [OF run_submit [OF run_start s(2,1)] a(2,1)] m(2,1)] by blast
qed

lemma merged_status: "map_sum id ch_status (stored_change ''chg_1'' (pf_repo merged)) = Inr Merged"
  by code_simp

theorem merged_after_review_witness:
  "\<exists>es v q. change_run demo_handlers ''chg_1'' drafted es merged \<and> Approve v q \<in> set es \<and> can_admin q"
proof -
  from demo_run obtain es where r: "change_run demo_handlers ''chg_1'' drafted es merged" by blast
  from merged_status obtain c where c: "stored_change ''chg_1'' (pf_repo merged) = Inr c" "ch_status c = Merged"
    by (cases "stored_change ''chg_1'' (pf_repo merged)") auto
  from merged_after_review [OF r drafted_change _ demo_change_fields(2,3) c] r demo_change_fields(1) show ?thesis
    by fastforce
qed

section \<open>A way around the review\<close>

text \<open>
  A project whose default environment takes direct changes and whose production takes pull requests, with
  an application in production, and a deployer who is no administrator.
\<close>

definition lax_project :: catalog_project where
  "lax_project = demo_project\<lparr>cp_environments :=
     [\<lparr>env_id = ''dev'', env_name = [], env_cluster = [], env_write_mode = write_mode_direct, env_default = True\<rparr>,
      \<lparr>env_id = ''prod'', env_name = [], env_cluster = [], env_write_mode = write_mode_pull_request, env_default = False\<rparr>]\<rparr>"

definition lax_server :: server where
  "lax_server = demo_server\<lparr>pf_repo := [(catalog_path, CCatalog [lax_project]),
      (metadata_path ''demo'' ''web'', CMetadata (metadata_from_record (demo_app\<lparr>ar_environment := ''prod''\<rparr>) [''dev'', ''prod'']))]\<rparr>"

definition deployer :: user where
  "deployer = \<lparr>user_id = ''2'', user_name = ''ada'', user_display = ''ada'', user_groups = [''dev'']\<rparr>"

text \<open>
  C30: a redeployment that names no environment is filed as a change of the project's default environment,
  but it is applied to the environment of the application. When the default environment takes direct
  changes and the application runs where pull requests are required, a direct deployment is refused, yet
  the change needs no approval, and merging it enqueues the deployment to the protected environment.
\<close>

theorem review_avoided:
  assumes "cq_operation q = op_redeploy" and "trim_space (cq_environment q) = []"
    and "resolve_write_mode p (resolve_environment p []) \<noteq> write_mode_pull_request"
    and "c = (new_change u p pid q rid now)\<lparr>ch_status := Submitted\<rparr>"
    and "require_application sv u (cq_application_id q) True s = Inr r"
    and "get_authorized (fs_projects sv) u (ar_project_id r) (pf_repo s) = Inr a"
    and "validate_project_policies (ap_project a) (ar_environment r) (ar_strategy r) = Inr ()"
    and "requires_change_flow (ap_project a) (ar_environment r)"
    and "trim_space (cq_image_tag q) \<noteq> []" and "fs_queue sv"
    and "\<forall>x \<in> set (q_ops (sr_queue s)). op_id x \<noteq> deployment_id_of (ch_id c) \<and> op_request_id x \<noteq> ch_id c"
  shows "create_deployment sv False u (cq_application_id q) (cq_image_tag q) [] rid s = (Inl ErrChangeRequired, s) \<and>
    merge_allowed c = Inr () \<and>
    (\<exists>t o1. apply_change sv u c s = (Inr (), t) \<and> q_ops (sr_queue t) = q_ops (sr_queue s) @ [o1] \<and>
      op_environment o1 = ar_environment r \<and> op_image_tag o1 = cq_image_tag q)"
proof (intro conjI)
  have e: "trim_space [] = []" by code_simp
  show "create_deployment sv False u (cq_application_id q) (cq_image_tag q) [] rid s = (Inl ErrChangeRequired, s)"
    using assms(5-9) e
    by (simp add: create_deployment_def prepare_deployment_operation_def authorized_eq bindS_run bindS_assoc Let_def failS_def)
  have env: "resolve_environment p (cq_environment q) = resolve_environment p []"
    using assms(2) e by (simp add: resolve_environment_def)
  then show "merge_allowed c = Inr ()"
    using assms(3,4) by (simp add: merge_allowed_iff new_change_def Let_def)
  have c: "ch_request c = q" "ch_operation c = op_redeploy" using assms(1,4) by (simp_all add: new_change_def Let_def)
  have ops: "op_redeploy \<noteq> op_create_application" "op_redeploy \<noteq> op_update_application"
    by (simp_all add: op_redeploy_def op_create_application_def op_update_application_def)
  from bypassed_deployment [OF assms(5-7,9,2,10,11)] obtain d t o1 where
    "create_deployment sv True u (cq_application_id q) (cq_image_tag q) (cq_environment q) (ch_id c) s = (Inr d, t)"
    "q_ops (sr_queue t) = q_ops (sr_queue s) @ [o1]" "op_environment o1 = ar_environment r" "op_image_tag o1 = cq_image_tag q"
    by blast
  then show "\<exists>t o1. apply_change sv u c s = (Inr (), t) \<and> q_ops (sr_queue t) = q_ops (sr_queue s) @ [o1] \<and>
      op_environment o1 = ar_environment r \<and> op_image_tag o1 = cq_image_tag q"
    using ops by (simp add: apply_change_def Let_def c bindS_def returnS_def)
qed

definition lax_found :: app_record where
  "lax_found = projr (require_application demo_handlers deployer ''demo__web'' True lax_server)"

definition lax_access :: authorized_project where
  "lax_access = projr (get_authorized (fs_projects demo_handlers) deployer (ar_project_id lax_found) (pf_repo lax_server))"

definition lax_change :: change_record where
  "lax_change = (new_change deployer (ap_project lax_access) ''demo'' (redeploy_request []) ''req_9'' 0)\<lparr>ch_status := Submitted\<rparr>"

theorem review_avoided_witness:
  "ap_role lax_access = RoleDeployer \<and> requires_change_flow (ap_project lax_access) (ar_environment lax_found) \<and>
   (\<exists>t. apply_change demo_handlers deployer lax_change lax_server = (Inr (), t))"
proof -
  have "isOk (require_application demo_handlers deployer ''demo__web'' True lax_server)" by code_simp
  note r = isOk_projr [OF this, folded lax_found_def]
  have "isOk (get_authorized (fs_projects demo_handlers) deployer (ar_project_id lax_found) (pf_repo lax_server))"
    by code_simp
  note a = isOk_projr [OF this, folded lax_access_def]
  have f: "ap_role lax_access = RoleDeployer" "requires_change_flow (ap_project lax_access) (ar_environment lax_found)"
    "resolve_write_mode (ap_project lax_access) (resolve_environment (ap_project lax_access) []) \<noteq> write_mode_pull_request"
    "isOk (validate_project_policies (ap_project lax_access) (ar_environment lax_found) (ar_strategy lax_found))"
    "trim_space ''v2'' \<noteq> []" "trim_space [] = []" by code_simp+
  have q: "fs_queue demo_handlers" "q_ops (sr_queue lax_server) = []"
    by (simp_all add: demo_handlers_def lax_server_def demo_server_queue)
  have d: "cq_operation (redeploy_request []) = op_redeploy" "cq_environment (redeploy_request []) = []"
    "cq_image_tag (redeploy_request []) = ''v2''" "cq_application_id (redeploy_request []) = ''demo__web''"
    by (simp_all add: redeploy_request_def)
  have pol: "validate_project_policies (ap_project lax_access) (ar_environment lax_found) (ar_strategy lax_found) = Inr ()"
    using f(4) by (simp add: isOk_iff)
  from review_avoided [of "redeploy_request []", unfolded d, OF refl f(6,3) lax_change_def r a pol f(2,5) q(1)] f(1,2)
  show ?thesis using q(2) by (simp only: list.set ball_simps simp_thms) blast
qed

end
