(* ===== verification/IdentityLaws.thy ===== *)
theory IdentityLaws
  imports Identity
begin

text \<open>
  What a caller may rely on when the backend names a user: a token is read back as it was made, a user
  from a token has passed every check, the header provider names the user of the headers or the allowed
  development user, and the expansion of groups adds exactly the configured aliases.
\<close>

section \<open>Tokens are read as they were made\<close>

definition b64url_char :: "nat \<Rightarrow> char" where
  "b64url_char n =
    (if n < 26 then char_of (65 + n) else if n < 52 then char_of (71 + n)
     else if n < 62 then char_of (n - 4) else if n = 62 then CHR ''-'' else CHR ''_'')"

fun sextets :: "string \<Rightarrow> nat list" where
  "sextets [] = []"
| "sextets [a] = (let x = of_char a in [x div 4, x mod 4 * 16])"
| "sextets [a, b] = (let x = of_char a; y = of_char b in [x div 4, x mod 4 * 16 + y div 16, y mod 16 * 4])"
| "sextets (a # b # c # rest) =
    (let x = of_char a; y = of_char b; z = of_char c in
     x div 4 # (x mod 4 * 16 + y div 16) # (y mod 16 * 4 + z div 64) # (z mod 64) # sextets rest)"

definition b64url_encode :: "string \<Rightarrow> string" where
  "b64url_encode s = map b64url_char (sextets s)"

lemma b64url_value_char: "n < 64 \<Longrightarrow> b64url_value (b64url_char n) = Some n"
  by (auto simp: b64url_char_def b64url_value_def Let_def)

lemma sextets_bound: "n \<in> set (sextets s) \<Longrightarrow> n < 64"
proof (induction s rule: sextets.induct)
  case (2 a)
  then show ?case using group_bits(1,2) [of "of_char a" 0 0] by (auto simp: Let_def)
next
  case (3 a b)
  then show ?case using group_bits(1-3) [of "of_char a" "of_char b" 0] by (auto simp: Let_def)
next
  case (4 a b c rest)
  then show ?case using group_bits(1-4) [of "of_char a" "of_char b" "of_char c"] by (auto simp: Let_def)
qed simp

lemma groups_back: "b64url_groups (sextets s) = Some s"
proof (induction s rule: sextets.induct)
  case (2 a)
  show ?case using group_back(4) [of a] by (simp only: sextets.simps b64url_groups.simps Let_def)
next
  case (3 a b)
  show ?case using group_back(1,5) [of a b] by (simp only: sextets.simps b64url_groups.simps Let_def)
next
  case (4 a b c rest)
  then show ?case
    using group_back(1) [of a b] group_back(2) [of a b c] group_back(3) [of b c]
    by (simp only: sextets.simps b64url_groups.simps Let_def option.case)
qed simp

lemma values_back: "\<forall>n \<in> set ns. n < 64 \<Longrightarrow> b64url_values (map b64url_char ns) = Some ns"
  by (induction ns) (simp_all add: b64url_value_char)

lemma encoded_chars:
  assumes "n < 64"
  shows "b64url_char n \<noteq> CHR 0x0A" "b64url_char n \<noteq> CHR 0x0D" "b64url_char n \<noteq> CHR ''.''"
proof -
  have "b64url_value (CHR 0x0A) = None" "b64url_value (CHR 0x0D) = None" "b64url_value (CHR ''.'') = None"
    by code_simp+
  then show "b64url_char n \<noteq> CHR 0x0A" "b64url_char n \<noteq> CHR 0x0D" "b64url_char n \<noteq> CHR ''.''"
    using b64url_value_char [OF assms] by (metis option.distinct(1))+
qed

lemma b64url_back: "b64url_decode (b64url_encode s) = Some s"
proof -
  have "filter (\<lambda>c. c \<noteq> CHR 0x0A \<and> c \<noteq> CHR 0x0D) (b64url_encode s) = b64url_encode s"
    unfolding b64url_encode_def using sextets_bound encoded_chars(1,2) by (intro filter_True) auto
  then show ?thesis
    using values_back [of "sextets s"] sextets_bound [of _ s] groups_back [of s]
    by (simp add: b64url_decode_def b64url_encode_def)
qed

lemma encoded_no_dot: "CHR ''.'' \<notin> set (b64url_encode s)"
  using sextets_bound [of _ s] encoded_chars(3) by (force simp: b64url_encode_def)

text \<open>
  C31: a token made of the encodings of a header, of claims and of a signature is taken apart into
  exactly these: the signed text, the claims the decoder reads and the signature bytes, whatever bytes
  they are.
\<close>

theorem token_roundtrip:
  "parse_jwt it (b64url_encode h @ ''.'' @ b64url_encode c @ ''.'' @ b64url_encode g) =
    (case (it_header it h, it_claims it c) of
       (Some (algorithm, key_id), Some claims) \<Rightarrow>
         Some \<lparr>pk_input = b64url_encode h @ ''.'' @ b64url_encode c, pk_algorithm = algorithm, pk_key_id = key_id,
           pk_claims = claims, pk_signature = g\<rparr>
     | _ \<Rightarrow> None)"
proof -
  have "split_on (CHR ''.'') (b64url_encode h @ ''.'' @ b64url_encode c @ ''.'' @ b64url_encode g) =
      [b64url_encode h, b64url_encode c, b64url_encode g]"
    using encoded_no_dot by (simp add: split_on_append split_on_single)
  then show ?thesis by (simp add: parse_jwt_def b64url_back)
qed

section \<open>Verified users\<close>

lemma ask_identity_run [simp]: "ask_identity f s = (Inr (f (id_asked s)), s\<lparr>id_asked := Suc (id_asked s)\<rparr>)"
  by (simp add: ask_identity_def)

text \<open>The keys a provider may use: those it cached before, or those it reads from the issuer now.\<close>

definition issued_key :: "identity_tools \<Rightarrow> oidc_provider \<Rightarrow> identity_state \<Rightarrow> public_key \<Rightarrow> bool" where
  "issued_key it p s key \<longleftrightarrow> key \<in> snd ` set (id_keys s) \<or>
    (\<exists>n code body status items. it_get it n (oi_jwks_url p) = Inr (code, body, status) \<and> 200 \<le> code \<and> code < 300 \<and>
      it_jwks it body = Inr items \<and> key \<in> snd ` set (usable_keys it items))"

lemma identity_get_run:
  assumes "identity_get it url a b s = (Inr body, t)"
  shows "\<exists>code status. it_get it (id_asked s) url = Inr (code, body, status) \<and> 200 \<le> code \<and> code < 300"
    and "t = s\<lparr>id_asked := Suc (id_asked s)\<rparr>"
proof -
  have "(\<exists>code status. it_get it (id_asked s) url = Inr (code, body, status) \<and> 200 \<le> code \<and> code < 300) \<and>
      t = s\<lparr>id_asked := Suc (id_asked s)\<rparr>"
  proof (cases "it_get it (id_asked s) url")
    case (Inl e)
    with assms show ?thesis by (simp add: identity_get_def bindS_def failS_def)
  next
    case (Inr x)
    obtain code found status where x: "x = (code, found, status)" by (rule prod_cases3)
    with assms Inr show ?thesis
      by (cases "code < 200 \<or> 300 \<le> code") (simp_all add: identity_get_def bindS_def failS_def returnS_def)
  qed
  then show "\<exists>code status. it_get it (id_asked s) url = Inr (code, body, status) \<and> 200 \<le> code \<and> code < 300"
    "t = s\<lparr>id_asked := Suc (id_asked s)\<rparr>" by blast+
qed

lemma fetch_keys_run:
  assumes "fetch_keys it p s = (Inr keys, t)"
  shows "\<exists>n code body status items. it_get it n (oi_jwks_url p) = Inr (code, body, status) \<and> 200 \<le> code \<and> code < 300 \<and>
    it_jwks it body = Inr items \<and> keys = usable_keys it items"
proof -
  from assms [unfolded fetch_keys_def bindS_Inr] obtain body s1 where
    g: "identity_get it (oi_jwks_url p) ''request jwks: '' ''jwks'' s = (Inr body, s1)" and
    rest: "(case it_jwks it body of Inl e \<Rightarrow> failS (OtherError (''decode jwks: '' @ e))
      | Inr items \<Rightarrow> if usable_keys it items = [] then failS (OtherError ''jwks did not expose any usable public keys'')
          else returnS (usable_keys it items)) s1 = (Inr keys, t)" by blast
  from rest obtain items where "it_jwks it body = Inr items" "keys = usable_keys it items"
    by (cases "it_jwks it body") (auto simp: action_Inr split: if_splits)
  with identity_get_run(1) [OF g] show ?thesis by blast
qed

lemma keys_run:
  assumes run: "keys_for_verification it p force s = (Inr keys, t)"
  shows "\<forall>key \<in> snd ` set keys. issued_key it p s key" and "id_keys t = id_keys s \<or> id_keys t = keys"
proof -
  have c: "id_keys t' = id_keys s' \<and> (\<forall>ks. x = Some ks \<longrightarrow> ks = id_keys s')"
    if "cached_keys it p force s' = (Inr x, t')" for s' t' x
    using that
    by (cases "force \<or> id_keys s' = []") (auto simp: cached_keys_def bindS_def returnS_def split: if_splits)
  from run obtain x s1 where 1: "cached_keys it p force s = (Inr x, s1)"
    and rest: "(case x of Some keys \<Rightarrow> returnS keys
      | None \<Rightarrow> bindS (cached_keys it p force) (\<lambda>second. case second of
          Some keys \<Rightarrow> returnS keys
        | None \<Rightarrow> bindS (fetch_keys it p) (\<lambda>keys.
            bindS (ask_identity (it_clock it)) (\<lambda>now.
            bindS (modifyS (\<lambda>s. s\<lparr>id_keys := keys, id_fetched_at := now\<rparr>)) (\<lambda>_. returnS keys))))) s1 = (Inr keys, t)"
    unfolding keys_for_verification_def bindS_Inr by blast
  have "(\<forall>key \<in> snd ` set keys. issued_key it p s key) \<and> (id_keys t = id_keys s \<or> id_keys t = keys)"
  proof (cases x)
    case (Some ks)
    with rest c [OF 1] show ?thesis by (auto simp: action_Inr issued_key_def image_iff)
  next
    case None
    with rest obtain y s2 where 2: "cached_keys it p force s1 = (Inr y, s2)"
      and rest2: "(case y of Some keys \<Rightarrow> returnS keys
        | None \<Rightarrow> bindS (fetch_keys it p) (\<lambda>keys.
            bindS (ask_identity (it_clock it)) (\<lambda>now.
            bindS (modifyS (\<lambda>s. s\<lparr>id_keys := keys, id_fetched_at := now\<rparr>)) (\<lambda>_. returnS keys)))) s2 = (Inr keys, t)"
      by (auto simp: bindS_Inr)
    show ?thesis
    proof (cases y)
      case (Some ks)
      with rest2 c [OF 1] c [OF 2] show ?thesis by (auto simp: action_Inr issued_key_def image_iff)
    next
      case y: None
      with rest2 obtain s3 where f: "fetch_keys it p s2 = (Inr keys, s3)" and t: "id_keys t = keys"
        by (auto simp: bindS_Inr action_Inr modifyS_def)
      from fetch_keys_run [OF f] t show ?thesis unfolding issued_key_def by blast
    qed
  qed
  then show "\<forall>key \<in> snd ` set keys. issued_key it p s key" and "id_keys t = id_keys s \<or> id_keys t = keys" by blast+
qed

lemma pick_member: "pick_jwk keys k = Some key \<Longrightarrow> key \<in> snd ` set keys"
  by (force simp: pick_jwk_def split: if_splits list.splits dest: map_of_SomeD)

lemma public_key_run:
  assumes "oidc_public_key it p k s = (Inr key, t)"
  shows "issued_key it p s key"
proof -
  from assms [unfolded oidc_public_key_def bindS_Inr] obtain keys s1 where
    1: "keys_for_verification it p False s = (Inr keys, s1)" and
    rest: "(case pick_jwk keys k of Some key \<Rightarrow> returnS key
      | None \<Rightarrow> bindS (keys_for_verification it p True) (\<lambda>keys2. case pick_jwk keys2 k of
          Some key \<Rightarrow> returnS key
        | None \<Rightarrow> failS (OtherError (''oidc jwks does not contain key '' @ go_quote k)))) s1 = (Inr key, t)" by blast
  show ?thesis
  proof (cases "pick_jwk keys k")
    case (Some found)
    with rest have "pick_jwk keys k = Some key" by (simp add: action_Inr)
    with keys_run(1) [OF 1] pick_member show ?thesis by blast
  next
    case None
    with rest obtain keys2 where 2: "keys_for_verification it p True s1 = (Inr keys2, t)" "pick_jwk keys2 k = Some key"
      by (auto simp: bindS_Inr action_Inr split: option.splits)
    from keys_run(1) [OF 2(1)] pick_member [OF 2(2)] have "issued_key it p s1 key" by blast
    moreover from keys_run [OF 1] have "\<forall>x \<in> snd ` set (id_keys s1). issued_key it p s x"
      by (auto simp: issued_key_def)
    ultimately show ?thesis unfolding issued_key_def by blast
  qed
qed

text \<open>What it takes for a token in the request to vouch for a user.\<close>

definition token_vouches ::
  "identity_tools \<Rightarrow> oidc_provider \<Rightarrow> http_request \<Rightarrow> identity_state \<Rightarrow> user \<Rightarrow> bool" where
  "token_vouches it p r s u \<longleftrightarrow> (\<exists>token k key now. bearer_token_from_request r = Some token \<and> parse_jwt it token = Some k \<and>
    \<not> equal_fold (pk_algorithm k) ''none'' \<and> issued_key it p s key \<and>
    verify_jwt_signature it (pk_input k) (pk_signature k) (pk_algorithm k) key \<and>
    validate_claims p (pk_claims k) now \<and> now \<in> range (it_clock it) \<and>
    user_of_claims p (pk_claims k) = Inr u \<and> user_id u \<noteq> [] \<and> user_name u \<noteq> [])"

lemma oidc_user_vouched:
  assumes "oidc_current_user it p r s = (Inr u, t)"
  shows "token_vouches it p r s u"
proof -
  from assms obtain token claims s1 where tok: "bearer_token_from_request r = Some token"
    and v: "verify_token it p token s = (Inr claims, s1)" and u: "user_of_claims p claims = Inr u"
    by (auto simp: oidc_current_user_def bindS_Inr action_Inr split: option.splits)
  from v obtain k where k: "parse_jwt it token = Some k"
    by (auto simp: verify_token_def action_Inr split: option.splits)
  note run = v [unfolded verify_token_def k option.case]
  from run have alg: "\<not> equal_fold (pk_algorithm k) ''none''" "trim_space (pk_algorithm k) \<noteq> []"
    by (auto simp: action_Inr split: if_splits)
  with run obtain key s2 where key: "oidc_public_key it p (pk_key_id k) s = (Inr key, s2)"
    and rest: "(if \<not> verify_jwt_signature it (pk_input k) (pk_signature k) (pk_algorithm k) key then failS ErrUnauthorized
      else bindS (ask_identity (it_clock it)) (\<lambda>now.
        if \<not> validate_claims p (pk_claims k) now then failS ErrUnauthorized else returnS (pk_claims k))) s2 = (Inr claims, s1)"
    by (auto simp: bindS_Inr split: prod.splits sum.splits)
  from rest have sig: "verify_jwt_signature it (pk_input k) (pk_signature k) (pk_algorithm k) key"
    by (auto simp: action_Inr split: if_splits)
  with rest have c: "validate_claims p (pk_claims k) (it_clock it (id_asked s2))" "claims = pk_claims k"
    by (auto simp: bindS_Inr action_Inr split: if_splits)
  from u have "user_id u \<noteq> []" "user_name u \<noteq> []"
    by (auto simp: user_of_claims_def Let_def split: if_splits)
  with tok k alg(1) public_key_run [OF key] sig c u show ?thesis unfolding token_vouches_def by blast
qed

text \<open>
  C32: when the OIDC provider names a user, the request carried a bearer token of three well-formed parts;
  its signature verified, under an algorithm other than none, with a key of the issuer's key set; at
  that moment the token was issued by the configured issuer, had not expired, was valid already, and was
  meant for the configured audience if there is one; and the user's identifier and name are those of the
  claims and not blank.
\<close>

theorem oidc_user_verified:
  assumes "oidc_current_user it p r s = (Inr u, t)"
  shows "\<exists>token k key now. bearer_token_from_request r = Some token \<and> parse_jwt it token = Some k \<and>
    \<not> equal_fold (pk_algorithm k) ''none'' \<and> issued_key it p s key \<and>
    verify_jwt_signature it (pk_input k) (pk_signature k) (pk_algorithm k) key \<and>
    validate_claims p (pk_claims k) now \<and> now \<in> range (it_clock it) \<and>
    user_of_claims p (pk_claims k) = Inr u \<and> user_id u \<noteq> [] \<and> user_name u \<noteq> []"
  using oidc_user_vouched [OF assms] unfolding token_vouches_def .

section \<open>Examples of the provider\<close>

text \<open>
  An issuer with one RSA key, read at the first request, and a token for the user \<open>ada\<close>. The signature
  check of the example accepts one fixed signature.
\<close>

definition demo_claims :: "(string \<times> json) list" where
  "demo_claims = [(''iss'', JText ''https://id''), (''sub'', JText ''7''), (''preferred_username'', JText ''ada''),
    (''exp'', JNumber (Finite 2000 0)), (''groups'', JArray [JText ''dev''])]"

definition demo_jwk :: json_web_key where
  "demo_jwk = \<lparr>jk_id = ''k1'', jk_type = ''RSA'', jk_curve = [], jk_n = ''AQAB'', jk_e = ''AQAB'', jk_x = [], jk_y = []\<rparr>"

definition demo_tools :: identity_tools where
  "demo_tools = \<lparr>it_digest = (\<lambda>_ s. s), it_pkcs1 = (\<lambda>_ _ digest signature. signature = ''sig''), it_pss = (\<lambda>_ _ _ _. False),
    it_ecdsa = (\<lambda>_ _ _. False), it_on_curve = (\<lambda>_ _ _. False),
    it_header = (\<lambda>s. if s = ''h'' then Some (''RS256'', ''k1'') else None),
    it_claims = (\<lambda>s. if s = ''c'' then Some demo_claims else None), it_jwks = (\<lambda>_. Inr [demo_jwk]),
    it_discovery = (\<lambda>_. Inr ''https://id/keys''), it_get = (\<lambda>_ _. Inr (200, [], ''200 OK'')),
    it_clock = (\<lambda>n. unix_epoch + 1000000000000 + int n)\<rparr>"

definition demo_provider :: oidc_provider where
  "demo_provider = \<lparr>oi_issuer = ''https://id'', oi_audience = [], oi_user_id_claim = [], oi_username_claim = [],
    oi_display_claim = [], oi_groups_claim = [], oi_jwks_url = ''https://id/keys'', oi_cache_ttl = 0\<rparr>"

definition demo_http_request :: http_request where
  "demo_http_request = \<lparr>rq_method = ''GET'', rq_path = ''/'',
    rq_headers = (\<lambda>k. if k = ''Authorization'' then
      [''Bearer '' @ b64url_encode ''h'' @ ''.'' @ b64url_encode ''c'' @ ''.'' @ b64url_encode ''sig''] else [])\<rparr>"

definition demo_identity :: identity_state where
  "demo_identity = \<lparr>id_keys = [], id_fetched_at = 0, id_asked = 0\<rparr>"

theorem oidc_user_verified_witness:
  "\<exists>u t key. oidc_current_user demo_tools demo_provider demo_http_request demo_identity = (Inr u, t) \<and>
    issued_key demo_tools demo_provider demo_identity key \<and> user_name u \<noteq> []"
proof -
  have "isOk (fst (oidc_current_user demo_tools demo_provider demo_http_request demo_identity))" by code_simp
  from isOk_run [OF this] obtain u t where
    run: "oidc_current_user demo_tools demo_provider demo_http_request demo_identity = (Inr u, t)" by blast
  from oidc_user_verified [OF run] run show ?thesis by blast
qed

section \<open>Users from headers\<close>

text \<open>The user the header provider names is the one of the headers, or without any the development user.\<close>

lemma header_user_cases:
  assumes "header_current_user allow dev r = Inr u"
  shows "user_from_headers r = (True, Inr u) \<or> \<not> header_identity_provided r \<and> allow \<and> u = dev"
  using assms
  by (auto simp: header_current_user_def user_from_headers_def header_identity_provided_def Let_def split: if_splits)

section \<open>Groups\<close>

lemma add_authority_set: "set (add_authority v items) = (if trim_space v = [] then set items else insert (trim_space v) (set items))"
  by (auto simp: add_authority_def Let_def)

lemma add_authority_distinct: "distinct items \<Longrightarrow> distinct (add_authority v items)"
  by (simp add: add_authority_def Let_def)

lemma fold_authority_set: "set (fold add_authority vs items) = set items \<union> {trim_space v |v. v \<in> set vs \<and> trim_space v \<noteq> []}"
  by (induction vs arbitrary: items) (auto simp: add_authority_set)

lemma fold_authority_distinct: "distinct items \<Longrightarrow> distinct (fold add_authority vs items)"
  by (induction vs arbitrary: items) (simp_all add: add_authority_distinct)

definition aliases_of :: "(string \<times> string list) list \<Rightarrow> string \<Rightarrow> string set" where
  "aliases_of m g = {trim_space a |a. \<exists>as. map_of m (trim_space g) = Some as \<and> a \<in> set as \<and> trim_space a \<noteq> []}"

lemma expand_loop:
  fixes m :: "(string \<times> string list) list"
  defines "step \<equiv> \<lambda>g items. if trim_space g = [] then items
     else fold add_authority (case map_of m (trim_space g) of Some as \<Rightarrow> as | None \<Rightarrow> []) (add_authority g items)"
  shows "set (fold step gs items) =
      set items \<union> (\<Union>g \<in> {g \<in> set gs. trim_space g \<noteq> []}. insert (trim_space g) (aliases_of m g))"
    and "distinct items \<Longrightarrow> distinct (fold step gs items)"
proof (induction gs arbitrary: items)
  case (Cons g gs)
  {
    case 1
    have "set (step g items) = (if trim_space g = [] then set items else insert (trim_space g) (set items \<union> aliases_of m g))"
      by (cases "map_of m (trim_space g)")
        (auto simp: step_def fold_authority_set add_authority_set aliases_of_def)
    with Cons.IH(1) [of "step g items"] show ?case by (auto split: if_splits)
  next
    case 2
    then have "distinct (step g items)" by (simp add: step_def fold_authority_distinct add_authority_distinct)
    from Cons.IH(2) [OF this] show ?case by simp
  }
qed simp_all

text \<open>
  With mappings configured, a user's groups are expanded to exactly the trimmed groups of the user
  and the trimmed aliases of these, blank ones left out and each once; aliases of aliases are not followed.
\<close>

theorem groups_expanded_once:
  assumes "groups \<noteq> []" and "mappings \<noteq> []"
  shows "set (expand_authorities groups mappings) =
      (\<Union>g \<in> {g \<in> set groups. trim_space g \<noteq> []}. insert (trim_space g) (aliases_of mappings g)) \<and>
    distinct (expand_authorities groups mappings)"
  using assms expand_loop(1) [of mappings groups "[]"] expand_loop(2) [of "[]" mappings groups]
  by (simp add: expand_authorities_def)

theorem groups_expanded_once_witness:
  "set (expand_authorities ['' dev '', ''ops''] [(''dev'', [''aods:deploy'', ''ops''])]) = {''dev'', ''aods:deploy'', ''ops''}"
proof -
  have "expand_authorities ['' dev '', ''ops''] [(''dev'', [''aods:deploy'', ''ops''])] = [''dev'', ''aods:deploy'', ''ops'']"
    by code_simp
  moreover have "distinct (expand_authorities ['' dev '', ''ops''] [(''dev'', [''aods:deploy'', ''ops''])])"
    using groups_expanded_once [of "['' dev '', ''ops'']" "[(''dev'', [''aods:deploy'', ''ops''])]"] by blast
  ultimately show ?thesis by simp
qed

end
