(* ===== verification/ConfigLaws.thy ===== *)
theory ConfigLaws
  imports Config
begin

text \<open>
  Laws of the configuration: the search for the repository root ends at the nearest marked directory, an
  empty variable counts as unset, and durations stay within 64 bits.
\<close>

section \<open>The repository root\<close>

lemma climb_steps:
  assumes "climb_to_root pe dir = found"
  shows "case found of
      Some root \<Rightarrow> \<exists>n. n \<le> climb_measure dir \<and> root = (path_dir ^^ n) dir \<and> repo_marked pe root \<and>
        (\<forall>m < n. \<not> repo_marked pe ((path_dir ^^ m) dir))
    | None \<Rightarrow> \<forall>n. \<not> repo_marked pe ((path_dir ^^ n) dir)"
  using assms
proof (induction pe dir arbitrary: found rule: climb_to_root.induct)
  case (1 pe dir)
  consider (here) "repo_marked pe dir" | (top) "\<not> repo_marked pe dir" "path_dir dir = dir"
    | (up) "\<not> repo_marked pe dir" "path_dir dir \<noteq> dir" by blast
  then show ?case
  proof cases
    case here
    then show ?thesis using 1(2) by (auto simp: climb_to_root.simps [of pe dir] intro!: exI [of _ 0])
  next
    case top
    then have "(path_dir ^^ n) dir = dir" for n by (induction n) auto
    then show ?thesis using 1(2) top by (auto simp: climb_to_root.simps [of pe dir])
  next
    case up
    have step: "(path_dir ^^ Suc n) dir = (path_dir ^^ n) (path_dir dir)" for n
      by (simp add: funpow_swap1)
    have same: "climb_to_root pe (path_dir dir) = found"
      using 1(2) up by (simp add: climb_to_root.simps [of pe dir])
    note ih = 1(1) [OF up same]
    show ?thesis
    proof (cases found)
      case None
      then have "\<not> repo_marked pe ((path_dir ^^ n) dir)" for n
        using ih up(1) by (cases n) (auto simp: step simp del: funpow.simps(2))
      then show ?thesis using None by simp
    next
      case (Some root)
      then obtain n where n: "n \<le> climb_measure (path_dir dir)" "root = (path_dir ^^ n) (path_dir dir)"
          "repo_marked pe root" "\<forall>m < n. \<not> repo_marked pe ((path_dir ^^ m) (path_dir dir))"
        using ih by auto
      have "\<not> repo_marked pe ((path_dir ^^ m) dir)" if "m < Suc n" for m
        using that n(4) up(1) by (cases m) (auto simp: step simp del: funpow.simps(2))
      moreover have "Suc n \<le> climb_measure dir" using n(1) parent_shorter [OF up(2)] by simp
      ultimately show ?thesis using Some n(2, 3) step by (auto intro!: exI [of _ "Suc n"])
    qed
  qed
qed

text \<open>
  C40: without AODS_REPO_ROOT the search for the repository root always returns: it gives the nearest
  directory, at or above the working directory, that holds both files, after at most as many steps as the
  working directory has bytes and one more; and it fails only when no directory up to the top holds them.
\<close>

theorem repo_root_nearest:
  assumes "pe_cwd pe = Inr dir"
  shows "(\<exists>n \<le> Suc (length dir). resolve_repo_root pe [] = Inr ((path_dir ^^ n) dir) \<and>
      repo_marked pe ((path_dir ^^ n) dir) \<and> (\<forall>m < n. \<not> repo_marked pe ((path_dir ^^ m) dir))) \<or>
    (resolve_repo_root pe [] = Inl (OtherError (''could not resolve repository root from '' @ dir)) \<and>
      (\<forall>n. \<not> repo_marked pe ((path_dir ^^ n) dir)))"
proof (cases "climb_to_root pe dir")
  case None
  then show ?thesis using assms climb_steps [OF None] by (simp add: resolve_repo_root_def)
next
  case (Some root)
  have "climb_measure dir \<le> Suc (length dir)" by (simp add: climb_measure_def)
  moreover obtain n where "n \<le> climb_measure dir" "root = (path_dir ^^ n) dir" "repo_marked pe root"
      "\<forall>m < n. \<not> repo_marked pe ((path_dir ^^ m) dir)"
    using climb_steps [OF Some] by auto
  ultimately show ?thesis
    using assms Some by (intro disjI1 exI [of _ n]) (simp add: resolve_repo_root_def)
qed

definition demo_env :: process_env where
  "demo_env = \<lparr>pe_env = (\<lambda>k. if k = ''HOME'' then Some ''/root'' else if k = ''AODS_ADDR'' then Some [] else None),
    pe_cwd = Inr ''/srv/app/cmd'',
    pe_is_file = (\<lambda>p. p \<in> {''/srv/app/AGENTS.md'', ''/srv/app/docs/internal-platform/openapi.yaml''})\<rparr>"

theorem repo_root_nearest_witness:
  "pe_cwd demo_env = Inr ''/srv/app/cmd'' \<and> resolve_repo_root demo_env [] = Inr ''/srv/app''"
proof -
  have cwd: "pe_cwd demo_env = Inr ''/srv/app/cmd''" by (simp add: demo_env_def)
  have up: "path_dir ''/srv/app/cmd'' = ''/srv/app''" by code_simp
  have marks: "\<not> repo_marked demo_env ''/srv/app/cmd''" "repo_marked demo_env ''/srv/app''"
    by (code_simp, code_simp)
  from repo_root_nearest [OF cwd] consider
      (some) n where "resolve_repo_root demo_env [] = Inr ((path_dir ^^ n) ''/srv/app/cmd'')"
        "repo_marked demo_env ((path_dir ^^ n) ''/srv/app/cmd'')"
        "\<forall>m < n. \<not> repo_marked demo_env ((path_dir ^^ m) ''/srv/app/cmd'')"
    | (none) "\<forall>n. \<not> repo_marked demo_env ((path_dir ^^ n) ''/srv/app/cmd'')" by blast
  then have "resolve_repo_root demo_env [] = Inr ''/srv/app''"
  proof cases
    case some
    from some(2) marks(1) have "n \<noteq> 0" by (cases n) auto
    moreover have "\<not> 1 < n" using some(3) marks(2) up by force
    ultimately have "n = 1" by simp
    then show ?thesis using some(1) up by simp
  next
    case none
    then have "\<not> repo_marked demo_env ((path_dir ^^ 1) ''/srv/app/cmd'')" by blast
    then show ?thesis using marks(2) up by simp
  qed
  then show ?thesis using cwd by simp
qed

section \<open>Empty variables\<close>

definition without_empty :: "process_env \<Rightarrow> process_env" where
  "without_empty pe = pe\<lparr>pe_env := (\<lambda>k. if pe_env pe k = Some [] then None else pe_env pe k)\<rparr>"

lemma without_empty_reads:
  "getenv (without_empty pe) k = getenv pe k" "env_value (without_empty pe) k = env_value pe k"
  "pe_cwd (without_empty pe) = pe_cwd pe" "pe_is_file (without_empty pe) = pe_is_file pe"
  by (auto simp: without_empty_def getenv_def env_value_def split: option.splits)

lemma without_empty_helpers:
  "env_or_default (without_empty pe) k d = env_or_default pe k d"
  "env_bool (without_empty pe) k b = env_bool pe k b"
  "env_int (without_empty pe) k i = env_int pe k i"
  "env_duration (without_empty pe) k i = env_duration pe k i"
  "temp_dir (without_empty pe) = temp_dir pe"
  "default_kubeconfig_path (without_empty pe) = default_kubeconfig_path pe"
  by (simp_all add: env_or_default_def env_bool_def env_int_def env_duration_def temp_dir_def
      default_kubeconfig_path_def without_empty_reads)

lemma without_empty_any:
  "env_or_default_any (without_empty pe) ks d = env_or_default_any pe ks d"
  by (induction ks) (simp_all add: without_empty_reads split: option.split)

lemma without_empty_duration_any:
  "env_duration_any (without_empty pe) ks i = env_duration_any pe ks i"
  by (induction ks) (simp_all add: without_empty_reads split: option.split)

lemma without_empty_root:
  "resolve_repo_root (without_empty pe) e = resolve_repo_root pe e"
proof -
  have "repo_marked (without_empty pe) d = repo_marked pe d" for d
    by (simp add: repo_marked_def without_empty_reads)
  then have "climb_to_root (without_empty pe) d = climb_to_root pe d" for d
    by (induction pe d rule: climb_to_root.induct) (simp add: climb_to_root.simps)
  then show ?thesis by (simp add: resolve_repo_root_def without_empty_reads split: sum.split option.split)
qed

text \<open>
  A variable that is set to the empty text counts as unset: the configuration, or the error, is the one
  of the environment without the empty variables, whatever the variables are.
\<close>

theorem empty_variables_unset: "load_config (without_empty pe) = load_config pe"
  by (simp only: load_config_def without_empty_reads without_empty_helpers without_empty_any
      without_empty_duration_any without_empty_root dev_user_from_env_def secret_store_mode_from_env_def)

section \<open>Durations\<close>


lemma duration_parts_bound: "duration_parts orig d s = Inr n \<Longrightarrow> d \<le> 2 ^ 63 \<Longrightarrow> n \<le> 2 ^ 63"
  by (induction orig d s rule: duration_parts.induct)
    (auto simp: duration_parts.simps invalid_duration_def split: if_splits sum.splits)

lemma parse_duration_bounds: "parse_duration s = Inr d \<Longrightarrow> - (2 ^ 63) \<le> d \<and> d < 2 ^ 63"
  using duration_parts_bound [of s 0]
  by (auto simp: parse_duration_def Let_def invalid_duration_def split: if_splits sum.splits dest!: duration_parts_bound)

end
