(* ===== verification/GoFloat.thy ===== *)
theory GoFloat
  imports GoNumbers
begin

text \<open>
  Arithmetic on float64 values: the exact result rounded to the nearest value of 53 bits, ties to even,
  with the smallest exponent and the overflow to infinity. Zero has one sign.
\<close>

definition f64_of_ratio :: "int \<Rightarrow> nat \<Rightarrow> f64" where
  "f64_of_ratio n d =
    (if n = 0 then Finite 0 0
     else
       let a = nat \<bar>n\<bar>;
           e0 = int (bit_count a) - int (bit_count d) - 53;
           s0 = scaled (- e0) (a, d);
           e = max (if fst s0 < 2 ^ 53 * snd s0 then e0 else e0 + 1) (- 1074);
           s = scaled (- e) (a, d);
           m = half_even (fst s) (snd s)
       in if 0 \<le> e \<and> (2 :: nat) ^ 1024 \<le> m * 2 ^ nat e then (if 0 < n then PosInf else NegInf)
          else Finite (sgn n * int m) e)"

definition f64_of_int :: "int \<Rightarrow> f64" where
  "f64_of_int n = f64_of_ratio n 1"

fun f64_plus :: "f64 \<Rightarrow> f64 \<Rightarrow> f64" where
  "f64_plus NaN _ = NaN"
| "f64_plus _ NaN = NaN"
| "f64_plus PosInf b = (if b = NegInf then NaN else PosInf)"
| "f64_plus NegInf b = (if b = PosInf then NaN else NegInf)"
| "f64_plus (Finite _ _) PosInf = PosInf"
| "f64_plus (Finite _ _) NegInf = NegInf"
| "f64_plus (Finite m e) (Finite n f) =
    (let k = min e f; t = m * 2 ^ nat (e - k) + n * 2 ^ nat (f - k) in
     if 0 \<le> k then f64_of_ratio (t * 2 ^ nat k) 1 else f64_of_ratio t (2 ^ nat (- k)))"

fun f64_uminus :: "f64 \<Rightarrow> f64" where
  "f64_uminus NaN = NaN"
| "f64_uminus PosInf = NegInf"
| "f64_uminus NegInf = PosInf"
| "f64_uminus (Finite m e) = Finite (- m) e"

definition f64_minus :: "f64 \<Rightarrow> f64 \<Rightarrow> f64" where
  "f64_minus a b = f64_plus a (f64_uminus b)"

fun f64_times :: "f64 \<Rightarrow> f64 \<Rightarrow> f64" where
  "f64_times NaN _ = NaN"
| "f64_times _ NaN = NaN"
| "f64_times (Finite m e) (Finite n f) =
    (let k = e + f; t = m * n in
     if 0 \<le> k then f64_of_ratio (t * 2 ^ nat k) 1 else f64_of_ratio t (2 ^ nat (- k)))"
| "f64_times (Finite m _) PosInf = (if m = 0 then NaN else if 0 < m then PosInf else NegInf)"
| "f64_times (Finite m _) NegInf = (if m = 0 then NaN else if 0 < m then NegInf else PosInf)"
| "f64_times PosInf (Finite m _) = (if m = 0 then NaN else if 0 < m then PosInf else NegInf)"
| "f64_times NegInf (Finite m _) = (if m = 0 then NaN else if 0 < m then NegInf else PosInf)"
| "f64_times PosInf b = b"
| "f64_times NegInf b = (if b = PosInf then NegInf else PosInf)"

text \<open>Division by a number that is not zero, and by zero of the positive sign.\<close>

fun f64_divide :: "f64 \<Rightarrow> f64 \<Rightarrow> f64" where
  "f64_divide NaN _ = NaN"
| "f64_divide _ NaN = NaN"
| "f64_divide (Finite m e) (Finite n f) =
    (if n = 0 then (if m = 0 then NaN else if 0 < m then PosInf else NegInf)
     else
       let t = sgn n * m; d = nat \<bar>n\<bar>; k = e - f in
       if 0 \<le> k then f64_of_ratio (t * 2 ^ nat k) d else f64_of_ratio t (d * 2 ^ nat (- k)))"
| "f64_divide (Finite _ _) _ = Finite 0 0"
| "f64_divide PosInf (Finite n _) = (if n < 0 then NegInf else PosInf)"
| "f64_divide NegInf (Finite n _) = (if n < 0 then PosInf else NegInf)"
| "f64_divide _ _ = NaN"

end
