(* ===== verification/KubeReaders.thy ===== *)
theory KubeReaders
  imports KubeClient GoFloat RepoSource Messages
begin

text \<open>
  What the backend reads from a cluster (kubernetes/real.go, kubernetes/local.go): the sync status of Flux
  with its cache, the usage of pods as metric series, the exposure of a service, container logs, and the
  steering of Argo rollouts. Decoded answers of the API are records; decoders and time.Parse are parameters.
\<close>

section \<open>Answers of the API\<close>

record flux_condition =
  fx_type :: string
  fx_status :: string
  fx_reason :: string
  fx_message :: string
  fx_transition :: string

record flux_kustomization =
  fk_path :: string
  fk_target_namespace :: string
  fk_conditions :: "flux_condition list"

record pod_container =
  pk_name :: string
  pk_requests :: "(string \<times> string) list"
  pk_limits :: "(string \<times> string) list"

record pod_container_status =
  pz_name :: string
  pz_ready :: bool
  pz_restarts :: int

record pod =
  pd_name :: string
  pd_namespace :: string
  pd_labels :: "(string \<times> string) list"
  pd_created :: int
  pd_containers :: "pod_container list"
  pd_phase :: string
  pd_statuses :: "pod_container_status list"

record container_usage =
  cu_name :: string
  cu_cpu :: string
  cu_memory :: string

record pod_metrics =
  px_name :: string
  px_namespace :: string
  px_containers :: "container_usage list"

datatype target_port = PortText string | PortFloat int | PortOther

record service_port =
  sp_name :: string
  sp_protocol :: string
  sp_port :: int
  sp_target :: target_port
  sp_node_port :: int

record kube_service =
  kv_type :: string
  kv_ports :: "service_port list"
  kv_ingress :: "(string \<times> string) list"

record kube_event =
  kw_type :: string
  kw_reason :: string
  kw_message :: string
  kw_last :: string
  kw_event :: string
  kw_created :: string

record rollout =
  ro_paused :: bool
  ro_steps :: "nat option"
  ro_phase :: string
  ro_message :: string
  ro_step_index :: "int option"
  ro_pod_hash :: string
  ro_stable :: string
  ro_pause_reasons :: "string list"
  ro_weight :: "int option"

record kube_decoders =
  kz_kustomizations :: "string \<Rightarrow> (string, flux_kustomization list) result"
  kz_pods :: "string \<Rightarrow> (string, pod list) result"
  kz_pod_metrics :: "string \<Rightarrow> (string, pod_metrics list) result"
  kz_service :: "string \<Rightarrow> (string, kube_service) result"
  kz_events :: "string \<Rightarrow> (string, kube_event list) result"
  kz_rollout :: "string \<Rightarrow> (string, rollout) result"
  kz_nodes :: "string \<Rightarrow> (string, (string \<times> string) list list) result"
  kz_float :: "string \<Rightarrow> (string, f64) result"
  kz_time :: "string \<Rightarrow> int option"

text \<open>An error of the API with status 404.\<close>

definition api_not_found :: "go_error \<Rightarrow> bool" where
  "api_not_found e \<longleftrightarrow> (case root_cause e of ApiRequestError _ code _ \<Rightarrow> code = 404 | _ \<Rightarrow> False)"

definition try_kube :: "('x, 'a) kube \<Rightarrow> ('x, (go_error, 'a) result) kube" where
  "try_kube m s = (let (r, t) = m s in (Inr r, t))"

definition clock_now :: "kube_outside \<Rightarrow> ('x, int) kube" where
  "clock_now ko = ask_kube (ko_clock ko)"

section \<open>Sync status of Flux\<close>

record flux_state = kube_state +
  kf_cached :: "flux_kustomization list"
  kf_cached_at :: int

type_synonym 'a flux = "(flux_state, go_error, 'a) action"

record flux_reader =
  fr_client :: "kube_client option"
  fr_namespace :: string
  fr_ttl :: int

definition new_flux_reader :: "kube_outside \<Rightarrow> config \<Rightarrow> ('x, flux_reader) kube" where
  "new_flux_reader ko c =
    bindS (new_api_client ko c) (\<lambda>client.
      returnS \<lparr>fr_client = Some client, fr_namespace = trim_space (c_flux_kustomization_namespace c),
        fr_ttl = c_flux_status_cache_ttl c\<rparr>)"

definition max_stale_flux_cache :: int where
  "max_stale_flux_cache = minute"

definition cached_kustomizations :: "int \<Rightarrow> int \<Rightarrow> flux_state \<Rightarrow> flux_kustomization list option" where
  "cached_kustomizations now max_age s =
    (if max_age \<le> 0 \<or> kf_cached_at s = 0 \<or> max_age < now - kf_cached_at s then None else Some (kf_cached s))"

definition kustomizations_path :: "flux_reader \<Rightarrow> string" where
  "kustomizations_path r =
    (if trim_space (fr_namespace r) = [] then ''/apis/kustomize.toolkit.fluxcd.io/v1/kustomizations''
     else ''/apis/kustomize.toolkit.fluxcd.io/v1/namespaces/'' @ path_escape (trim_space (fr_namespace r)) @
       ''/kustomizations'')"

definition store_kustomizations ::
  "kube_outside \<Rightarrow> flux_reader \<Rightarrow> flux_kustomization list \<Rightarrow> unit flux" where
  "store_kustomizations ko r items =
    (if fr_ttl r \<le> 0 then returnS ()
     else bindS (clock_now ko) (\<lambda>now. modifyS (\<lambda>s. s\<lparr>kf_cached := items, kf_cached_at := now\<rparr>)))"

text \<open>A fresh copy needs no request; after a failed one a copy of at most a minute stands in.\<close>

definition stale_kustomizations :: "kube_outside \<Rightarrow> go_error \<Rightarrow> flux_kustomization list flux" where
  "stale_kustomizations ko e =
    bindS (clock_now ko) (\<lambda>now.
    bindS (readS (\<lambda>s. Inr (cached_kustomizations now max_stale_flux_cache s))) (\<lambda>stale.
      case stale of Some items \<Rightarrow> returnS items | None \<Rightarrow> failS e))"

definition ask_kustomizations ::
  "kube_outside \<Rightarrow> kube_decoders \<Rightarrow> flux_reader \<Rightarrow> flux_kustomization list flux" where
  "ask_kustomizations ko dz r =
    bindS (try_kube (get_json ko (fr_client r) (kz_kustomizations dz) [] (kustomizations_path r))) (\<lambda>answer.
      case answer of
        Inl e \<Rightarrow> stale_kustomizations ko e
      | Inr items \<Rightarrow> bindS (store_kustomizations ko r items) (\<lambda>_. returnS items))"

definition list_kustomizations ::
  "kube_outside \<Rightarrow> kube_decoders \<Rightarrow> flux_reader \<Rightarrow> flux_kustomization list flux" where
  "list_kustomizations ko dz r =
    (if fr_client r = None then failS not_configured
     else
       bindS (clock_now ko) (\<lambda>now.
       bindS (readS (\<lambda>s. Inr (cached_kustomizations now (fr_ttl r) s))) (\<lambda>fresh.
         case fresh of Some items \<Rightarrow> returnS items | None \<Rightarrow> ask_kustomizations ko dz r)))"

definition normalize_flux_path :: "string \<Rightarrow> string" where
  "normalize_flux_path value =
    (let p = path_clean (trim_prefix ''/'' (trim_prefix ''./'' (trim_space value))) in
     if p = ''.'' then [] else p)"

definition desired_flux_path :: "app_record \<Rightarrow> string" where
  "desired_flux_path a =
    (let environment = trim_space (ar_environment a) in
     normalize_flux_path (path_join [''apps'', ar_project_id a, ar_name a, ''overlays'',
       if environment = [] then ''shared'' else environment]))"

definition select_kustomization :: "flux_kustomization list \<Rightarrow> app_record \<Rightarrow> flux_kustomization option" where
  "select_kustomization items a =
    (let hits = filter (\<lambda>i. normalize_flux_path (fk_path i) = desired_flux_path a) items in
     case hits of
       [] \<Rightarrow> None
     | first # rest \<Rightarrow>
         if rest = [] then Some first
         else (case find (\<lambda>i. trim_space (fk_target_namespace i) = ar_namespace a) hits of
           Some i \<Rightarrow> Some i | None \<Rightarrow> Some first))"

definition find_condition :: "flux_condition list \<Rightarrow> string \<Rightarrow> flux_condition option" where
  "find_condition conditions kind = find (\<lambda>c. fx_type c = kind) conditions"

definition condition_is :: "flux_condition option \<Rightarrow> string \<Rightarrow> bool" where
  "condition_is condition expected \<longleftrightarrow>
    (case condition of None \<Rightarrow> False | Some c \<Rightarrow> equal_fold (trim_space (fx_status c)) expected)"

definition build_sync_info ::
  "kube_outside \<Rightarrow> kube_decoders \<Rightarrow> sync_status \<Rightarrow> flux_condition \<Rightarrow> ('x, sync_info) kube" where
  "build_sync_info ko dz status c =
    (let given = trim_space (fx_message c); reason = trim_space (fx_reason c);
         text = (if given \<noteq> [] then given else if reason \<noteq> [] then reason
           else ''Flux Kustomization status condition was read successfully.'')
     in case kz_time dz (fx_transition c) of
       Some t \<Rightarrow>
         if t \<noteq> 0 then returnS \<lparr>si_status = status, si_message = text, si_observed_at = t\<rparr>
         else bindS (clock_now ko) (\<lambda>now. returnS \<lparr>si_status = status, si_message = text, si_observed_at = now\<rparr>)
     | None \<Rightarrow> bindS (clock_now ko) (\<lambda>now. returnS \<lparr>si_status = status, si_message = text, si_observed_at = now\<rparr>))"

text \<open>Which condition decides, and the status it stands for.\<close>

definition deciding_condition :: "flux_condition list \<Rightarrow> (sync_status \<times> flux_condition) option" where
  "deciding_condition conditions =
    (let ready = find_condition conditions ''Ready''; reconciling = find_condition conditions ''Reconciling'';
         stalled = find_condition conditions ''Stalled'' in
     if condition_is ready ''True'' \<and> fx_reason (the ready) = ''ReconciliationSucceeded'' then Some (SyncSynced, the ready)
     else if condition_is ready ''False'' then Some (SyncDegraded, the ready)
     else if condition_is stalled ''True'' then Some (SyncDegraded, the stalled)
     else if condition_is reconciling ''True'' then Some (SyncSyncing, the reconciling)
     else if condition_is ready ''Unknown'' then Some (SyncSyncing, the ready)
     else case (ready, reconciling, stalled) of
       (Some c, _, _) \<Rightarrow> Some (SyncUnknown, c)
     | (None, Some c, _) \<Rightarrow> Some (SyncUnknown, c)
     | (None, None, Some c) \<Rightarrow> Some (SyncUnknown, c)
     | (None, None, None) \<Rightarrow> None)"

definition map_sync_info ::
  "kube_outside \<Rightarrow> kube_decoders \<Rightarrow> flux_kustomization \<Rightarrow> ('x, sync_info) kube" where
  "map_sync_info ko dz item =
    (case deciding_condition (fk_conditions item) of
       Some (status, c) \<Rightarrow> build_sync_info ko dz status c
     | None \<Rightarrow> bindS (clock_now ko) (\<lambda>now. returnS \<lparr>si_status = SyncUnknown,
         si_message = ''Flux Kustomization does not expose usable status conditions yet.'', si_observed_at = now\<rparr>))"

definition sync_info_for ::
  "kube_outside \<Rightarrow> kube_decoders \<Rightarrow> flux_kustomization list \<Rightarrow> app_record \<Rightarrow> ('x, sync_info) kube" where
  "sync_info_for ko dz items a =
    (case select_kustomization items a of
       None \<Rightarrow> bindS (clock_now ko) (\<lambda>now. returnS \<lparr>si_status = SyncUnknown,
         si_message = ''Flux Kustomization for '' @ desired_flux_path a @ '' was not found.'', si_observed_at = now\<rparr>)
     | Some item \<Rightarrow> map_sync_info ko dz item)"

definition flux_read :: "kube_outside \<Rightarrow> kube_decoders \<Rightarrow> flux_reader \<Rightarrow> app_record \<Rightarrow> sync_info flux" where
  "flux_read ko dz r a = bindS (list_kustomizations ko dz r) (\<lambda>items. sync_info_for ko dz items a)"

fun sync_infos_for ::
  "kube_outside \<Rightarrow> kube_decoders \<Rightarrow> flux_kustomization list \<Rightarrow> (string \<times> sync_info) list \<Rightarrow> app_record list \<Rightarrow>
    ('x, (string \<times> sync_info) list) kube" where
  "sync_infos_for ko dz items known [] = returnS known"
| "sync_infos_for ko dz items known (a # rest) =
    bindS (sync_info_for ko dz items a) (\<lambda>info. sync_infos_for ko dz items (AList.update (ar_id a) info known) rest)"

definition flux_read_many ::
  "kube_outside \<Rightarrow> kube_decoders \<Rightarrow> flux_reader \<Rightarrow> app_record list \<Rightarrow> (string \<times> sync_info) list flux" where
  "flux_read_many ko dz r records =
    (if records = [] then returnS []
     else bindS (list_kustomizations ko dz r) (\<lambda>items. sync_infos_for ko dz items [] records))"

end
