(* ===== verification/KubePods.thy ===== *)
theory KubePods
  imports KubeReaders
begin

text \<open>
  Pods, services and rollouts (kubernetes/real.go, kubernetes/local.go): quantities, the usage of pods as
  metric series, container logs and their targets, the exposure of a service, and Argo rollouts.
\<close>

section \<open>Quantities\<close>

definition float_of :: "kube_decoders \<Rightarrow> string \<Rightarrow> string \<Rightarrow> string \<Rightarrow> (go_error, f64) result" where
  "float_of dz kind raw text =
    (case kz_float dz text of
       Inl e \<Rightarrow> Inl (Wrapped (''parse kubernetes '' @ kind @ '' quantity '' @ go_quote raw) (OtherError e))
     | Inr x \<Rightarrow> Inr x)"

definition kube_cpu :: "kube_decoders \<Rightarrow> string \<Rightarrow> (go_error, f64) result" where
  "kube_cpu dz raw =
    (let v = trim_space raw in
     if v = [] then Inr f64_zero
     else case find (\<lambda>u. suffix (fst u) v) cpu_units of
       Some u \<Rightarrow> bindR (float_of dz ''cpu'' raw (trim_suffix (fst u) v)) (\<lambda>x. Inr (f64_times x (snd u)))
     | None \<Rightarrow> float_of dz ''cpu'' raw v)"

text \<open>A number without a unit counts bytes.\<close>

definition kube_memory :: "kube_decoders \<Rightarrow> string \<Rightarrow> (go_error, f64) result" where
  "kube_memory dz raw =
    (let v = trim_space raw in
     if v = [] then Inr f64_zero
     else case find (\<lambda>u. suffix (fst u) v) memory_units of
       Some u \<Rightarrow> bindR (float_of dz ''memory'' raw (trim_suffix (fst u) v)) (\<lambda>x. Inr (f64_times x (snd u)))
     | None \<Rightarrow> bindR (float_of dz ''memory'' raw v) (\<lambda>x. Inr (f64_divide x (Finite 1048576 0))))"

definition utilization :: "f64 option \<Rightarrow> f64 option \<Rightarrow> f64 option" where
  "utilization used allocated =
    (case (used, allocated) of
       (Some u, Some a) \<Rightarrow> if f64_le_zero a then None else Some (f64_times (f64_divide u a) (Finite 100 0))
     | _ \<Rightarrow> None)"

section \<open>Metric series of pods\<close>

record pod_metrics_reader =
  mr_client :: "kube_client option"
  mr_range :: int
  mr_step :: int

definition new_pod_metrics_reader :: "kube_outside \<Rightarrow> config \<Rightarrow> ('x, pod_metrics_reader) kube" where
  "new_pod_metrics_reader ko c =
    bindS (new_api_client ko c) (\<lambda>client.
      returnS \<lparr>mr_client = Some client, mr_range = c_prometheus_range c, mr_step = c_prometheus_step c\<rparr>)"

definition pod_suffix_byte :: "char \<Rightarrow> bool" where
  "pod_suffix_byte c \<longleftrightarrow> in_range 97 122 c \<or> in_range 48 57 c"

text \<open>The pattern of pod names: the application's name, then one or two parts of lower letters and digits.\<close>

definition pod_of_app :: "string \<Rightarrow> string \<Rightarrow> bool" where
  "pod_of_app app name \<longleftrightarrow>
    prefix (app @ ''-'') name \<and>
    (let parts = split_on (CHR ''-'') (drop (length app + 1) name) in
     length parts \<le> 2 \<and> list_all (\<lambda>p. p \<noteq> [] \<and> list_all pod_suffix_byte p) parts)"

fun sum_usage :: "kube_decoders \<Rightarrow> f64 \<times> f64 \<Rightarrow> container_usage list \<Rightarrow> (go_error, f64 \<times> f64) result" where
  "sum_usage dz (cpu, memory) [] = Inr (cpu, memory)"
| "sum_usage dz (cpu, memory) (c # cs) =
    bindR (kube_cpu dz (cu_cpu c)) (\<lambda>x.
    bindR (kube_memory dz (cu_memory c)) (\<lambda>y. sum_usage dz (f64_plus cpu x, f64_plus memory y) cs))"

fun collect_pod_usage ::
  "kube_decoders \<Rightarrow> string \<Rightarrow> (f64 \<times> f64) \<Rightarrow> bool \<Rightarrow> pod_metrics list \<Rightarrow> (go_error, (f64 \<times> f64) \<times> bool) result" where
  "collect_pod_usage dz app acc found [] = Inr (acc, found)"
| "collect_pod_usage dz app acc found (p # ps) =
    (if \<not> pod_of_app app (trim_space (px_name p)) then collect_pod_usage dz app acc found ps
     else bindR (sum_usage dz acc (px_containers p)) (\<lambda>t. collect_pod_usage dz app t True ps))"

text \<open>The times of a series; with a step that is not positive the loop has no end, and the caller passes none.\<close>

function series_times :: "int \<Rightarrow> int \<Rightarrow> int \<Rightarrow> int list" where
  "series_times current stop step =
    (if stop < current \<or> step \<le> 0 then [] else current # series_times (current + step) stop step)"
  by pat_completeness auto
termination by (relation "measure (\<lambda>(c, e, st). nat (e + 1 - c))") auto

declare series_times.simps [simp del]

definition kube_series :: "string \<Rightarrow> string \<Rightarrow> string \<Rightarrow> int \<times> int \<times> int \<Rightarrow> f64 option \<Rightarrow> metric_series" where
  "kube_series key label u window latest =
    (case window of (start, stop, step) \<Rightarrow>
       \<lparr>ms_key = key, ms_label = label, ms_unit = u,
        ms_points = map (\<lambda>t. \<lparr>mp_timestamp = t, mp_value = (if t = stop then latest else None)\<rparr>)
          (series_times start stop step)\<rparr>)"

definition query_step :: "pod_metrics_reader \<Rightarrow> int \<Rightarrow> int" where
  "query_step r step = (if 0 < step then step else if 0 < mr_step r then mr_step r else 5 * minute)"

definition query_span :: "pod_metrics_reader \<Rightarrow> int \<Rightarrow> int" where
  "query_span r duration = (if 0 < duration then duration else if 0 < mr_range r then mr_range r else hour)"

definition metric_window :: "pod_metrics_reader \<Rightarrow> int \<Rightarrow> int \<Rightarrow> int \<Rightarrow> int \<times> int \<times> int" where
  "metric_window r now duration step =
    (let st = query_step r step; stop = now - now mod st; start = stop - query_span r duration + st
     in (if stop < start then stop else start, stop, st))"

definition metrics_from_response ::
  "kube_outside \<Rightarrow> kube_decoders \<Rightarrow> pod_metrics_reader \<Rightarrow> pod_metrics list \<Rightarrow> app_record \<Rightarrow> int \<Rightarrow> int \<Rightarrow>
    ('x, metric_series list) kube" where
  "metrics_from_response ko dz r items a duration step =
    bindS (clock_now ko) (\<lambda>now. let window = metric_window r now duration step in
    bindS (liftR (collect_pod_usage dz (ar_name a) (f64_zero, f64_zero) False items)) (\<lambda>((cpu, memory), found).
      returnS
       [kube_series ''request_rate'' ''Requests'' ''rpm'' window None,
        kube_series ''error_rate'' ''Error Rate'' ''%'' window None,
        kube_series ''latency_p95'' ''P95 Latency'' ''ms'' window None,
        kube_series ''cpu_usage'' ''CPU Usage'' ''cores'' window (if found then Some cpu else None),
        kube_series ''memory_usage'' ''Memory Usage'' ''MiB'' window (if found then Some memory else None)]))"

definition pod_metrics_path :: "string \<Rightarrow> string" where
  "pod_metrics_path namespace =
    ''/apis/metrics.k8s.io/v1beta1/namespaces/'' @ path_escape namespace @ ''/pods''"

definition pod_metrics_read ::
  "kube_outside \<Rightarrow> kube_decoders \<Rightarrow> pod_metrics_reader \<Rightarrow> app_record \<Rightarrow> int \<Rightarrow> int \<Rightarrow> ('x, metric_series list) kube" where
  "pod_metrics_read ko dz r a duration step =
    bindS (get_json ko (mr_client r) (kz_pod_metrics dz) [] (pod_metrics_path (ar_namespace a))) (\<lambda>items.
      metrics_from_response ko dz r items a duration step)"

fun add_to_group :: "app_record \<Rightarrow> app_record list list \<Rightarrow> app_record list list" where
  "add_to_group a [] = [[a]]"
| "add_to_group a (g # gs) =
    (if trim_space (ar_namespace (hd g)) = trim_space (ar_namespace a) then (g @ [a]) # gs
     else g # add_to_group a gs)"

definition group_by_namespace :: "app_record list \<Rightarrow> app_record list list" where
  "group_by_namespace records = fold add_to_group records []"

text \<open>What a batch gathers: series by application, failed applications, texts of failures.\<close>

type_synonym batch = "(string \<times> metric_series list) list \<times> string list \<times> string list"

fun read_group ::
  "kube_outside \<Rightarrow> kube_decoders \<Rightarrow> pod_metrics_reader \<Rightarrow> pod_metrics list \<Rightarrow> int \<Rightarrow> int \<Rightarrow> batch \<Rightarrow>
    app_record list \<Rightarrow> ('x, batch) kube" where
  "read_group ko dz r items duration step b [] = returnS b"
| "read_group ko dz r items duration step (found, failed, texts) (a # rest) =
    bindS (try_kube (metrics_from_response ko dz r items a duration step)) (\<lambda>answer.
      read_group ko dz r items duration step (case answer of
          Inl e \<Rightarrow> (found, failed @ [ar_id a], texts @ [error_text e])
        | Inr series \<Rightarrow> (AList.update (ar_id a) series found, failed, texts)) rest)"

fun read_groups ::
  "kube_outside \<Rightarrow> kube_decoders \<Rightarrow> pod_metrics_reader \<Rightarrow> int \<Rightarrow> int \<Rightarrow> batch \<Rightarrow>
    app_record list list \<Rightarrow> ('x, batch) kube" where
  "read_groups ko dz r duration step b [] = returnS b"
| "read_groups ko dz r duration step (found, failed, texts) (g # gs) =
    bindS (try_kube (get_json ko (mr_client r) (kz_pod_metrics dz) []
        (pod_metrics_path (trim_space (ar_namespace (hd g)))))) (\<lambda>answer.
    bindS (case answer of
        Inl e \<Rightarrow> returnS (found, failed @ map ar_id g, texts @ [error_text e])
      | Inr items \<Rightarrow> read_group ko dz r items duration step (found, failed, texts) g) (\<lambda>b.
      read_groups ko dz r duration step b gs))"

definition pod_metrics_read_many ::
  "kube_outside \<Rightarrow> kube_decoders \<Rightarrow> pod_metrics_reader \<Rightarrow> app_record list \<Rightarrow> int \<Rightarrow> int \<Rightarrow>
    ('x, batch_error option \<times> (string \<times> metric_series list) list) kube" where
  "pod_metrics_read_many ko dz r records duration step =
    (if records = [] then returnS (None, [])
     else if mr_client r = None then returnS (Some \<lparr>be_error = not_configured, be_failed = []\<rparr>, [])
     else
       bindS (read_groups ko dz r duration step ([], [], []) (group_by_namespace records)) (\<lambda>(found, failed, texts).
         returnS (if texts = [] then None
           else Some \<lparr>be_error = OtherError (''kubernetes pod metrics batch read failed: '' @ join_with ''; '' texts),
             be_failed = failed\<rparr>, found)))"

section \<open>Container logs\<close>

definition is_sidecar :: "string \<Rightarrow> bool" where
  "is_sidecar name \<longleftrightarrow> trim_space name \<in> {''istio-proxy'', ''linkerd-proxy'', ''vault-agent''}"

definition container_status :: "pod \<Rightarrow> string \<Rightarrow> pod_container_status" where
  "container_status p name =
    (case map_of (rev (map (\<lambda>s. (pz_name s, s)) (pd_statuses p))) name of
       Some s \<Rightarrow> s | None \<Rightarrow> \<lparr>pz_name = [], pz_ready = False, pz_restarts = 0\<rparr>)"

text \<open>The first container that is no sidecar, or the first; no container has the empty name.\<close>

definition primary_container :: "pod \<Rightarrow> string" where
  "primary_container p =
    (case find (\<lambda>c. \<not> is_sidecar (pk_name c)) (pd_containers p) of
       Some c \<Rightarrow> pk_name c
     | None \<Rightarrow> (case pd_containers p of [] \<Rightarrow> [] | c # _ \<Rightarrow> pk_name c))"

text \<open>Running pods first, then the newest; the sort is stable.\<close>

definition application_pods :: "pod list \<Rightarrow> string \<Rightarrow> pod list" where
  "application_pods items app =
    sort_key (\<lambda>p. pd_phase p \<noteq> ''Running'')
      (sort_key (\<lambda>p. - pd_created p) (filter (\<lambda>p. pod_of_app app (trim_space (pd_name p))) items))"

definition list_application_pods ::
  "kube_outside \<Rightarrow> kube_decoders \<Rightarrow> kube_client option \<Rightarrow> app_record \<Rightarrow> ('x, pod list) kube" where
  "list_application_pods ko dz client a =
    bindS (get_json ko client (kz_pods dz) []
      (''/api/v1/namespaces/'' @ path_escape (ar_namespace a) @ ''/pods?labelSelector='' @
       url_query_escape (''app.kubernetes.io/name='' @ ar_name a))) (\<lambda>items.
      returnS (application_pods items (ar_name a)))"

definition pod_log_path :: "string \<Rightarrow> string \<Rightarrow> string \<Rightarrow> int \<Rightarrow> bool \<Rightarrow> string" where
  "pod_log_path namespace pod_name container tail_lines follow =
    ''/api/v1/namespaces/'' @ path_escape namespace @ ''/pods/'' @ path_escape pod_name @ ''/log?'' @
    ''container='' @ url_query_escape container @ (if follow then ''&follow=true'' else []) @
    ''&tailLines='' @ url_query_escape (show_int tail_lines) @ ''&timestamps=true''"

fun read_logs ::
  "kube_outside \<Rightarrow> kube_client option \<Rightarrow> app_record \<Rightarrow> int \<Rightarrow> pod list \<Rightarrow> ('x, log_stream list) kube" where
  "read_logs ko client a tail_lines [] = returnS []"
| "read_logs ko client a tail_lines (p # ps) =
    (let name = primary_container p in
     if name = [] then read_logs ko client a tail_lines ps
     else
       bindS (get_text ko client (pod_log_path (ar_namespace a) (pd_name p) name tail_lines False)) (\<lambda>content.
       bindS (read_logs ko client a tail_lines ps) (\<lambda>streams.
         returnS (\<lparr>ls_pod = pd_name p, ls_container = name, ls_phase = pd_phase p,
           ls_ready = pz_ready (container_status p name), ls_restarts = pz_restarts (container_status p name),
           ls_content = trim_space content\<rparr> # streams))))"

definition pod_logs_read ::
  "kube_outside \<Rightarrow> kube_decoders \<Rightarrow> kube_client option \<Rightarrow> app_record \<Rightarrow> int \<Rightarrow> ('x, log_stream list) kube" where
  "pod_logs_read ko dz client a tail_lines =
    bindS (list_application_pods ko dz client a) (\<lambda>pods. read_logs ko client a tail_lines (take 2 pods))"

fun usage_of_containers ::
  "kube_decoders \<Rightarrow> container_usage list \<Rightarrow> (go_error, (string \<times> f64 \<times> f64) list) result" where
  "usage_of_containers dz [] = Inr []"
| "usage_of_containers dz (c # cs) =
    bindR (kube_cpu dz (cu_cpu c)) (\<lambda>x. bindR (kube_memory dz (cu_memory c)) (\<lambda>y.
    bindR (usage_of_containers dz cs) (\<lambda>rest. Inr ((cu_name c, x, y) # rest))))"

fun usage_of_pods ::
  "kube_decoders \<Rightarrow> pod_metrics list \<Rightarrow> (go_error, (string \<times> (string \<times> f64 \<times> f64) list) list) result" where
  "usage_of_pods dz [] = Inr []"
| "usage_of_pods dz (p # ps) =
    bindR (usage_of_containers dz (px_containers p)) (\<lambda>u.
    bindR (usage_of_pods dz ps) (\<lambda>rest. Inr ((px_name p, u) # rest)))"

text \<open>Maps filled in order: the last entry of a name counts.\<close>

definition usage_for :: "(string \<times> (string \<times> f64 \<times> f64) list) list \<Rightarrow> string \<Rightarrow> string \<Rightarrow> (f64 \<times> f64) option" where
  "usage_for usage pod_name container =
    (case map_of (rev usage) pod_name of None \<Rightarrow> None | Some cs \<Rightarrow> map_of (rev cs) container)"

definition quantity_of ::
  "(string \<Rightarrow> (go_error, f64) result) \<Rightarrow> (string \<times> string) list \<Rightarrow> string \<Rightarrow> (go_error, f64 option) result" where
  "quantity_of parse quantities key =
    (case map_of quantities key of
       None \<Rightarrow> Inr None
     | Some v \<Rightarrow> if trim_space v = [] then Inr None else bindR (parse v) (\<lambda>x. Inr (Some x)))"

definition resource_status_of ::
  "kube_decoders \<Rightarrow> pod_container \<Rightarrow> (f64 \<times> f64) option \<Rightarrow> (go_error, resource_status option) result" where
  "resource_status_of dz c usage =
    bindR (quantity_of (kube_cpu dz) (pk_requests c) ''cpu'') (\<lambda>cpu_request.
    bindR (quantity_of (kube_cpu dz) (pk_limits c) ''cpu'') (\<lambda>cpu_limit.
    bindR (quantity_of (kube_memory dz) (pk_requests c) ''memory'') (\<lambda>memory_request.
    bindR (quantity_of (kube_memory dz) (pk_limits c) ''memory'') (\<lambda>memory_limit.
      let cpu = map_option fst usage; memory = map_option snd usage in
      Inr (if cpu = None \<and> cpu_request = None \<and> cpu_limit = None \<and> memory = None \<and> memory_request = None \<and>
          memory_limit = None then None
        else Some \<lparr>rt_cpu_usage = cpu, rt_cpu_request = cpu_request, rt_cpu_limit = cpu_limit,
          rt_cpu_request_use = utilization cpu cpu_request, rt_cpu_limit_use = utilization cpu cpu_limit,
          rt_memory_usage = memory, rt_memory_request = memory_request, rt_memory_limit = memory_limit,
          rt_memory_request_use = utilization memory memory_request,
          rt_memory_limit_use = utilization memory memory_limit\<rparr>)))))"

fun log_containers_of ::
  "kube_decoders \<Rightarrow> (string \<times> (string \<times> f64 \<times> f64) list) list \<Rightarrow> pod \<Rightarrow> pod_container list \<Rightarrow>
    (go_error, log_container list) result" where
  "log_containers_of dz usage p [] = Inr []"
| "log_containers_of dz usage p (c # cs) =
    bindR (resource_status_of dz c (usage_for usage (pd_name p) (pk_name c))) (\<lambda>resources.
    bindR (log_containers_of dz usage p cs) (\<lambda>rest.
      Inr (\<lparr>lo_name = pk_name c, lo_ready = pz_ready (container_status p (pk_name c)),
        lo_restarts = pz_restarts (container_status p (pk_name c)), lo_default = (pk_name c = primary_container p),
        lo_resources = resources\<rparr> # rest)))"

fun log_targets_of ::
  "kube_decoders \<Rightarrow> (string \<times> (string \<times> f64 \<times> f64) list) list \<Rightarrow> pod list \<Rightarrow> (go_error, log_target list) result" where
  "log_targets_of dz usage [] = Inr []"
| "log_targets_of dz usage (p # ps) =
    bindR (log_containers_of dz usage p (pd_containers p)) (\<lambda>containers.
    bindR (log_targets_of dz usage ps) (\<lambda>rest.
      Inr (if containers = [] then rest
        else \<lparr>lt_pod = pd_name p, lt_phase = pd_phase p, lt_containers = containers\<rparr> # rest)))"

definition pod_usage_in ::
  "kube_outside \<Rightarrow> kube_decoders \<Rightarrow> kube_client option \<Rightarrow> string \<Rightarrow>
    ('x, (string \<times> (string \<times> f64 \<times> f64) list) list) kube" where
  "pod_usage_in ko dz client namespace =
    bindS (get_json ko client (kz_pod_metrics dz) [] (pod_metrics_path namespace)) (\<lambda>items. liftR (usage_of_pods dz items))"

definition pod_log_targets ::
  "kube_outside \<Rightarrow> kube_decoders \<Rightarrow> kube_client option \<Rightarrow> app_record \<Rightarrow> ('x, log_target list) kube" where
  "pod_log_targets ko dz client a =
    bindS (list_application_pods ko dz client a) (\<lambda>pods.
    bindS (try_kube (pod_usage_in ko dz client (ar_namespace a))) (\<lambda>answer.
      liftR (log_targets_of dz (case answer of Inl _ \<Rightarrow> [] | Inr usage \<Rightarrow> usage) pods)))"

record log_event =
  le_pod :: string
  le_container :: string
  le_timestamp :: string
  le_message :: string
  le_raw :: string

fun trim_right_cr_rev :: "string \<Rightarrow> string" where
  "trim_right_cr_rev [] = []"
| "trim_right_cr_rev (c # cs) = (if c = CHR 0x0D then trim_right_cr_rev cs else c # cs)"

definition log_event_of :: "kube_decoders \<Rightarrow> string \<Rightarrow> string \<Rightarrow> string \<Rightarrow> log_event" where
  "log_event_of dz pod_name container raw =
    (let line = rev (trim_right_cr_rev (rev raw)) in
     case str_cut '' '' line of
       Some (first, rest) \<Rightarrow>
         if kz_time dz first \<noteq> None then
           \<lparr>le_pod = pod_name, le_container = container, le_timestamp = first, le_message = rest, le_raw = line\<rparr>
         else \<lparr>le_pod = pod_name, le_container = container, le_timestamp = [], le_message = line, le_raw = line\<rparr>
     | None \<Rightarrow> \<lparr>le_pod = pod_name, le_container = container, le_timestamp = [], le_message = line, le_raw = line\<rparr>)"

definition pod_logs_stream ::
  "kube_outside \<Rightarrow> kube_decoders \<Rightarrow> kube_client option \<Rightarrow> app_record \<Rightarrow> string \<Rightarrow> string \<Rightarrow> int \<Rightarrow>
    ('x, log_event list \<times> go_error option) kube" where
  "pod_logs_stream ko dz client a pod_name container tail_lines =
    bindS (stream_lines ko client (pod_log_path (ar_namespace a) pod_name container tail_lines True)) (\<lambda>(ls, broken).
      returnS (map (log_event_of dz pod_name container) ls, broken))"

end
