(* ===== verification/KubeServices.thy ===== *)
theory KubeServices
  imports KubePods
begin

text \<open>
  The exposure of services and the steering of Argo rollouts (kubernetes/real.go), with the readers that
  stand in when no cluster is configured (kubernetes/local.go) or its client could not be built.
\<close>

section \<open>Readers without a cluster\<close>

definition observed_at :: "kube_outside \<Rightarrow> app_record \<Rightarrow> ('x, int) kube" where
  "observed_at ko a = (if ar_updated_at a \<noteq> 0 then returnS (ar_updated_at a) else clock_now ko)"

definition local_sync_info :: "kube_outside \<Rightarrow> app_record \<Rightarrow> ('x, sync_info) kube" where
  "local_sync_info ko a =
    bindS (observed_at ko a) (\<lambda>t.
      returnS \<lparr>si_status = SyncUnknown, si_message = msg_local_sync, si_observed_at = t\<rparr>)"

fun local_sync_infos ::
  "kube_outside \<Rightarrow> (string \<times> sync_info) list \<Rightarrow> app_record list \<Rightarrow> ('x, (string \<times> sync_info) list) kube" where
  "local_sync_infos ko known [] = returnS known"
| "local_sync_infos ko known (a # rest) =
    bindS (local_sync_info ko a) (\<lambda>info. local_sync_infos ko (AList.update (ar_id a) info known) rest)"

definition plain_exposure :: "exposure_status \<Rightarrow> string \<Rightarrow> string \<Rightarrow> int \<Rightarrow> exposure_info" where
  "plain_exposure status text kind t =
    \<lparr>xi_status = status, xi_message = text, xi_service_type = kind, xi_addresses = [], xi_ports = [],
     xi_last_event = None, xi_observed_at = t\<rparr>"

definition local_exposure :: "kube_outside \<Rightarrow> app_record \<Rightarrow> ('x, exposure_info) kube" where
  "local_exposure ko a =
    bindS (observed_at ko a) (\<lambda>t. returnS
      (if \<not> ar_load_balancer a then plain_exposure ExposureInternal msg_internal_service ''ClusterIP'' t
       else plain_exposure ExposurePending msg_local_balancer ''LoadBalancer'' t))"

definition error_exposure :: "kube_outside \<Rightarrow> go_error option \<Rightarrow> app_record \<Rightarrow> ('x, exposure_info) kube" where
  "error_exposure ko err a =
    bindS (observed_at ko a) (\<lambda>t. returnS
      (if \<not> ar_load_balancer a then plain_exposure ExposureInternal msg_internal_service ''ClusterIP'' t
       else plain_exposure ExposureError (case err of None \<Rightarrow> msg_balancer_failed @ ''.''
           | Some e \<Rightarrow> msg_balancer_failed @ '': '' @ error_text e) ''LoadBalancer'' t))"

section \<open>Exposure of a service\<close>

fun first_time :: "kube_decoders \<Rightarrow> string list \<Rightarrow> int" where
  "first_time dz [] = 0"
| "first_time dz (raw # rest) =
    (case (if raw = [] then None else kz_time dz raw) of
       Some t \<Rightarrow> if t \<noteq> 0 then t else first_time dz rest
     | None \<Rightarrow> first_time dz rest)"

definition event_observed_at :: "kube_decoders \<Rightarrow> kube_event \<Rightarrow> int" where
  "event_observed_at dz e =
    first_time dz (map trim_space [kw_last e, kw_event e, kw_created e])"

definition service_addresses :: "(string \<times> string) list \<Rightarrow> string list" where
  "service_addresses items =
    fold (\<lambda>v acc. if v = [] \<or> v \<in> set acc then acc else acc @ [v])
      (concat (map (\<lambda>(ip, host). [trim_space ip, trim_space host]) items)) []"

definition target_port_text :: "target_port \<Rightarrow> string" where
  "target_port_text p =
    (case p of PortText s \<Rightarrow> trim_space s | PortFloat n \<Rightarrow> show_int n | PortOther \<Rightarrow> [])"

definition exposure_ports :: "service_port list \<Rightarrow> exposure_port list" where
  "exposure_ports items =
    map (\<lambda>p. \<lparr>xp_name = trim_space (sp_name p), xp_protocol = trim_space (sp_protocol p), xp_port = sp_port p,
        xp_target_port = target_port_text (sp_target p), xp_node_port = sp_node_port p\<rparr>)
      (filter (\<lambda>p. 0 < sp_port p) items)"

definition latest_service_event ::
  "kube_outside \<Rightarrow> kube_decoders \<Rightarrow> kube_client option \<Rightarrow> app_record \<Rightarrow> ('x, exposure_event option) kube" where
  "latest_service_event ko dz client a =
    bindS (try_kube (get_json ko client (kz_events dz) []
      (''/api/v1/namespaces/'' @ path_escape (ar_namespace a) @ ''/events?fieldSelector='' @
       url_query_escape (''involvedObject.kind=Service,involvedObject.name='' @ ar_name a)))) (\<lambda>answer.
      case answer of
        Inl e \<Rightarrow> if api_not_found e then returnS None else failS e
      | Inr items \<Rightarrow>
          (case sort_key (\<lambda>e. - event_observed_at dz e) items of
             [] \<Rightarrow> returnS None
           | e # _ \<Rightarrow> returnS (Some \<lparr>xe_type = trim_space (kw_type e), xe_reason = trim_space (kw_reason e),
               xe_message = trim_space (kw_message e), xe_observed_at = event_observed_at dz e\<rparr>)))"

definition with_recent_event :: "exposure_event option \<Rightarrow> string \<Rightarrow> string" where
  "with_recent_event event text =
    (case event of
       None \<Rightarrow> text
     | Some e \<Rightarrow> if trim_space (xe_message e) = [] then text
         else text @ msg_recent_event @ trim_space (xe_message e))"

text \<open>What a service that was read shows of its exposure.\<close>

definition exposure_of_service ::
  "kube_service \<Rightarrow> exposure_event option \<Rightarrow> int \<Rightarrow> exposure_info" where
  "exposure_of_service v event t =
    (let kind = (if trim_space (kv_type v) = [] then ''ClusterIP'' else trim_space (kv_type v));
         balancer = equal_fold kind ''LoadBalancer'';
         addresses = service_addresses (kv_ingress v); ports = exposure_ports (kv_ports v);
         info = \<lparr>xi_status = ExposureProvisioning, xi_message = with_recent_event event msg_no_address,
           xi_service_type = kind, xi_addresses = [], xi_ports = ports, xi_last_event = event, xi_observed_at = t\<rparr>
     in if balancer \<and> addresses \<noteq> [] then
          info\<lparr>xi_status := ExposureReady, xi_addresses := addresses,
            xi_message := with_recent_event event (msg_balancer_ready @ join_with '', '' addresses)\<rparr>
        else if event \<noteq> None \<and> equal_fold (trim_space (xe_type (the event))) ''Warning'' then
          info\<lparr>xi_status := ExposureError, xi_message := msg_balancer_warning @ trim_space (xe_message (the event))\<rparr>
        else if \<not> balancer then
          info\<lparr>xi_status := ExposurePending, xi_message := msg_service_type_a @ kind @ msg_service_type_b\<rparr>
        else info)"

definition zero_service :: kube_service where
  "zero_service = \<lparr>kv_type = [], kv_ports = [], kv_ingress = []\<rparr>"

definition service_exposure ::
  "kube_outside \<Rightarrow> kube_decoders \<Rightarrow> kube_client option \<Rightarrow> app_record \<Rightarrow> ('x, exposure_info) kube" where
  "service_exposure ko dz client a =
    bindS (clock_now ko) (\<lambda>now.
      if \<not> ar_load_balancer a then returnS (plain_exposure ExposureInternal msg_internal_service ''ClusterIP'' now)
      else if client = None then returnS (plain_exposure ExposureError msg_no_balancer_client ''LoadBalancer'' now)
      else
        bindS (try_kube (get_json ko client (kz_service dz) zero_service
          (''/api/v1/namespaces/'' @ path_escape (ar_namespace a) @ ''/services/'' @ path_escape (ar_name a))))
        (\<lambda>answer. case answer of
          Inl e \<Rightarrow>
            if api_not_found e then returnS (plain_exposure ExposurePending msg_service_missing ''LoadBalancer'' now)
            else failS e
        | Inr v \<Rightarrow>
            bindS (try_kube (latest_service_event ko dz client a)) (\<lambda>found.
              let event = (case found of Inl _ \<Rightarrow> None | Inr x \<Rightarrow> x);
                  t = (case event of None \<Rightarrow> now | Some x \<Rightarrow> if xe_observed_at x \<noteq> 0 then xe_observed_at x else now)
              in returnS (exposure_of_service v event t))))"

section \<open>Argo rollouts\<close>

definition rollout_path :: "app_record \<Rightarrow> string" where
  "rollout_path a =
    ''/apis/argoproj.io/v1alpha1/namespaces/'' @ path_escape (ar_namespace a) @ ''/rollouts/'' @ path_escape (ar_name a)"

definition zero_rollout :: rollout where
  "zero_rollout = \<lparr>ro_paused = False, ro_steps = None, ro_phase = [], ro_message = [], ro_step_index = None,
     ro_pod_hash = [], ro_stable = [], ro_pause_reasons = [], ro_weight = None\<rparr>"

definition map_rollout_info :: "rollout \<Rightarrow> rollout_info" where
  "map_rollout_info r =
    (let given = trim_space (ro_message r);
         reason = (if given = [] \<and> ro_pause_reasons r \<noteq> [] then hd (ro_pause_reasons r) else given)
     in \<lparr>ri_phase = (if trim_space (ro_phase r) = [] then ''Unknown'' else trim_space (ro_phase r)),
         ri_step = map_option (\<lambda>i. i + 1) (ro_step_index r), ri_weight = ro_weight r, ri_stable = ro_stable r,
         ri_canary = ro_pod_hash r, ri_message = (if reason = [] then msg_rollout_read else reason)\<rparr>)"

text \<open>JSON texts, written with back quotes for their quotation marks.\<close>

definition with_quotes :: "string \<Rightarrow> string" where
  "with_quotes s = map (\<lambda>c. if c = CHR 0x60 then CHR 0x22 else c) s"

definition unpause_patch :: string where
  "unpause_patch = with_quotes ''{`spec`:{`paused`:false}}''"

definition status_patch :: "bool \<Rightarrow> string \<Rightarrow> string" where
  "status_patch unpause part =
    with_quotes ((if unpause then ''{`spec`:{`paused`:false},'' else ''{'') @ ''`status`:{'' @ part @ ''}}'')"

definition step_fields :: "int \<Rightarrow> string" where
  "step_fields step = ''`pauseConditions`:null, `currentStepIndex`:'' @ show_int step"

text \<open>The step after the current one, at most the number of steps.\<close>

definition next_step :: "rollout \<Rightarrow> nat \<Rightarrow> int" where
  "next_step r n =
    (let current = (case ro_step_index r of None \<Rightarrow> 0 | Some i \<Rightarrow> i) in
     if current < int n then current + 1 else current)"

text \<open>The patches of the spec and of the status, if any, and the patch of both.\<close>

definition promote_patches :: "rollout \<Rightarrow> bool \<Rightarrow> string option \<times> string option \<times> string" where
  "promote_patches r full =
    (let spec = (if ro_paused r then Some unpause_patch else None) in
     if full then
       (spec, if ro_pod_hash r \<noteq> ro_stable r then Some (status_patch False ''`promoteFull`:true'') else None,
        status_patch True ''`promoteFull`:true'')
     else if ro_pause_reasons r \<noteq> [] then
       (spec, Some (status_patch False ''`pauseConditions`:null''), status_patch True ''`pauseConditions`:null'')
     else case ro_steps r of
       Some n \<Rightarrow>
         if 0 < n then (spec, Some (status_patch False (step_fields (next_step r n))),
           status_patch True (step_fields (next_step r n)))
         else (spec, None, status_patch True ''`pauseConditions`:null'')
     | None \<Rightarrow> (spec, None, status_patch True ''`pauseConditions`:null''))"

definition fetch_rollout ::
  "kube_outside \<Rightarrow> kube_decoders \<Rightarrow> kube_client option \<Rightarrow> app_record \<Rightarrow> ('x, rollout) kube" where
  "fetch_rollout ko dz client a = get_json ko client (kz_rollout dz) zero_rollout (rollout_path a)"

definition rollout_get ::
  "kube_outside \<Rightarrow> kube_decoders \<Rightarrow> kube_client option \<Rightarrow> app_record \<Rightarrow> ('x, rollout_info) kube" where
  "rollout_get ko dz client a = bindS (fetch_rollout ko dz client a) (\<lambda>r. returnS (map_rollout_info r))"

text \<open>Without a status subresource the patch of the status fails with 404 and the patch of both is sent.\<close>

definition rollout_promote ::
  "kube_outside \<Rightarrow> kube_decoders \<Rightarrow> kube_client option \<Rightarrow> app_record \<Rightarrow> bool \<Rightarrow> ('x, rollout_info) kube" where
  "rollout_promote ko dz client a full =
    bindS (fetch_rollout ko dz client a) (\<lambda>r.
      case promote_patches r full of (spec, status, both) \<Rightarrow>
        bindS (case status of
            None \<Rightarrow> returnS spec
          | Some body \<Rightarrow>
              bindS (try_kube (patch_json ko client (rollout_path a @ ''/status'') body)) (\<lambda>answer.
                case answer of
                  Inr _ \<Rightarrow> returnS spec
                | Inl e \<Rightarrow> if api_not_found e then returnS (Some both) else failS e)) (\<lambda>spec'.
        bindS (case spec' of None \<Rightarrow> returnS () | Some body \<Rightarrow> patch_json ko client (rollout_path a) body) (\<lambda>_.
          rollout_get ko dz client a)))"

definition rollout_abort ::
  "kube_outside \<Rightarrow> kube_decoders \<Rightarrow> kube_client option \<Rightarrow> app_record \<Rightarrow> ('x, rollout_info) kube" where
  "rollout_abort ko dz client a =
    (let body = with_quotes ''{`status`:{`abort`:true}}'' in
     bindS (try_kube (patch_json ko client (rollout_path a @ ''/status'') body)) (\<lambda>answer.
     bindS (case answer of
         Inr _ \<Rightarrow> returnS ()
       | Inl e \<Rightarrow> if api_not_found e then patch_json ko client (rollout_path a) body else failS e) (\<lambda>_.
       rollout_get ko dz client a)))"

definition local_rollout :: "app_record \<Rightarrow> go_error" where
  "local_rollout a = ValidationError ''rollout integration is not configured''
    [(''applicationId'', JStr (ar_id a)), (''mode'', JStr ''local'')]"

text \<open>Which controller a configuration gives.\<close>

datatype rollout_source = LocalRollouts | FailingRollouts "go_error option" | ArgoRollouts "kube_client option"

definition new_rollout_controller :: "kube_outside \<Rightarrow> config \<Rightarrow> ('x, rollout_source) kube" where
  "new_rollout_controller ko c =
    (if \<not> use_kubernetes_api c then returnS LocalRollouts
     else bindS (try_kube (new_api_client ko c)) (\<lambda>r. returnS (case r of
       Inl e \<Rightarrow> FailingRollouts (Some e) | Inr client \<Rightarrow> ArgoRollouts (Some client))))"

definition empty_rollout_info :: rollout_info where
  "empty_rollout_info = \<lparr>ri_phase = [], ri_step = None, ri_weight = None, ri_stable = [], ri_canary = [],
     ri_message = []\<rparr>"

definition without_argo :: "('x, rollout_info) kube \<Rightarrow> rollout_source \<Rightarrow> app_record \<Rightarrow> ('x, rollout_info) kube" where
  "without_argo argo source a =
    (case source of
       LocalRollouts \<Rightarrow> failS (local_rollout a)
     | FailingRollouts None \<Rightarrow> returnS empty_rollout_info
     | FailingRollouts (Some e) \<Rightarrow> failS e
     | ArgoRollouts _ \<Rightarrow> argo)"

datatype exposure_source = LocalExposure | FailingExposure "go_error option" | ServiceExposure "kube_client option"

definition new_exposure_reader :: "kube_outside \<Rightarrow> config \<Rightarrow> ('x, exposure_source) kube" where
  "new_exposure_reader ko c =
    (if \<not> use_kubernetes_api c then returnS LocalExposure
     else bindS (try_kube (new_api_client ko c)) (\<lambda>r. returnS (case r of
       Inl e \<Rightarrow> FailingExposure (Some e) | Inr client \<Rightarrow> ServiceExposure (Some client))))"

definition exposure_read ::
  "kube_outside \<Rightarrow> kube_decoders \<Rightarrow> exposure_source \<Rightarrow> app_record \<Rightarrow> ('x, exposure_info) kube" where
  "exposure_read ko dz source a =
    (case source of
       LocalExposure \<Rightarrow> local_exposure ko a
     | FailingExposure err \<Rightarrow> error_exposure ko err a
     | ServiceExposure client \<Rightarrow> service_exposure ko dz client a)"

text \<open>A failing reader of the sync status always has its error.\<close>

datatype sync_source = LocalSync | FailingSync go_error | FluxSync flux_reader

definition new_sync_reader :: "kube_outside \<Rightarrow> config \<Rightarrow> ('x, sync_source) kube" where
  "new_sync_reader ko c =
    (if \<not> use_kubernetes_api c then returnS LocalSync
     else bindS (try_kube (new_flux_reader ko c)) (\<lambda>r. returnS (case r of
       Inl e \<Rightarrow> FailingSync e | Inr reader \<Rightarrow> FluxSync reader)))"

definition sync_read :: "kube_outside \<Rightarrow> kube_decoders \<Rightarrow> sync_source \<Rightarrow> app_record \<Rightarrow> sync_info flux" where
  "sync_read ko dz source a =
    (case source of
       LocalSync \<Rightarrow> local_sync_info ko a
     | FailingSync e \<Rightarrow> failS e
     | FluxSync reader \<Rightarrow> flux_read ko dz reader a)"

definition sync_read_many ::
  "kube_outside \<Rightarrow> kube_decoders \<Rightarrow> sync_source \<Rightarrow> app_record list \<Rightarrow> (string \<times> sync_info) list flux" where
  "sync_read_many ko dz source records =
    (case source of
       LocalSync \<Rightarrow> local_sync_infos ko [] records
     | FailingSync e \<Rightarrow> failS e
     | FluxSync reader \<Rightarrow> flux_read_many ko dz reader records)"

end
