(* ===== verification/FleetOverview.thy ===== *)
theory FleetOverview
  imports KubePods ProjectService "HOL-Library.List_Lexorder"
begin

text \<open>
  The resources of the fleet (kubernetes/fleet.go) and the overview the administrators see
  (admin/service.go, admin/types.go): sums over nodes and pods, the utilisation of each service, its class,
  and the list in order of urgency. A sum is made in the order of the items, as the code adds.
\<close>

section \<open>Runtime of the fleet\<close>

record runtime_ref =
  rf_application :: string
  rf_project :: string
  rf_project_name :: string
  rf_cluster :: string
  rf_cluster_name :: string
  rf_namespace :: string
  rf_name :: string

record service_runtime =
  sn_pods :: int
  sn_ready :: int
  sn_cpu_request :: "f64 option"
  sn_cpu_limit :: "f64 option"
  sn_cpu_usage :: "f64 option"
  sn_cpu_request_use :: "f64 option"
  sn_cpu_limit_use :: "f64 option"
  sn_memory_request :: "f64 option"
  sn_memory_limit :: "f64 option"
  sn_memory_usage :: "f64 option"
  sn_memory_request_use :: "f64 option"
  sn_memory_limit_use :: "f64 option"

record capacity =
  cy_cpu :: "f64 option"
  cy_memory :: "f64 option"
  cy_requested_cpu :: "f64 option"
  cy_requested_memory :: "f64 option"
  cy_used_cpu :: "f64 option"
  cy_used_memory :: "f64 option"
  cy_available_cpu :: "f64 option"
  cy_available_memory :: "f64 option"
  cy_request_cpu_use :: "f64 option"
  cy_request_memory_use :: "f64 option"
  cy_usage_cpu_use :: "f64 option"
  cy_usage_memory_use :: "f64 option"

record fleet_snapshot =
  fl_generated_at :: int
  fl_connected :: bool
  fl_message :: string
  fl_capacity :: capacity
  fl_services :: "(string \<times> service_runtime) list"

definition no_capacity :: capacity where
  "no_capacity = \<lparr>cy_cpu = None, cy_memory = None, cy_requested_cpu = None, cy_requested_memory = None,
     cy_used_cpu = None, cy_used_memory = None, cy_available_cpu = None, cy_available_memory = None,
     cy_request_cpu_use = None, cy_request_memory_use = None, cy_usage_cpu_use = None, cy_usage_memory_use = None\<rparr>"

definition offline :: "int \<Rightarrow> string \<Rightarrow> fleet_snapshot" where
  "offline now text = \<lparr>fl_generated_at = now, fl_connected = False, fl_message = text, fl_capacity = no_capacity,
     fl_services = []\<rparr>"

definition is_terminal_pod :: "pod \<Rightarrow> bool" where
  "is_terminal_pod p \<longleftrightarrow> trim_space (pd_phase p) \<in> {''Succeeded'', ''Failed''}"

definition is_pod_ready :: "pod \<Rightarrow> bool" where
  "is_pod_ready p \<longleftrightarrow> trim_space (pd_phase p) = ''Running'' \<and> pd_statuses p \<noteq> [] \<and> list_all pz_ready (pd_statuses p)"

definition pod_key :: "string \<Rightarrow> string \<Rightarrow> string" where
  "pod_key namespace name = trim_space namespace @ ''/'' @ trim_space name"

definition label_of :: "pod \<Rightarrow> string \<Rightarrow> string" where
  "label_of p key = (case map_of (pd_labels p) key of None \<Rightarrow> [] | Some v \<Rightarrow> trim_space v)"

definition pod_matches_service :: "pod \<Rightarrow> runtime_ref \<Rightarrow> bool" where
  "pod_matches_service p r \<longleftrightarrow>
    trim_space (pd_namespace p) = trim_space (rf_namespace r) \<and>
    (if label_of p ''app.kubernetes.io/name'' \<noteq> [] then label_of p ''app.kubernetes.io/name'' = trim_space (rf_name r)
     else pod_of_app (trim_space (rf_name r)) (trim_space (pd_name p)))"

text \<open>A quantity that is absent or blank adds nothing; one that cannot be read is an error.\<close>

definition quantity_text :: "(string \<times> string) list \<Rightarrow> string \<Rightarrow> string" where
  "quantity_text quantities key = (case map_of quantities key of None \<Rightarrow> [] | Some v \<Rightarrow> trim_space v)"

definition add_quantity :: "(string \<Rightarrow> (go_error, f64) result) \<Rightarrow> string \<Rightarrow> f64 \<Rightarrow> (go_error, f64) result" where
  "add_quantity parse text acc =
    (if text = [] then Inr acc else bindR (parse text) (\<lambda>x. Inr (f64_plus acc x)))"

fun sum_quantities ::
  "kube_decoders \<Rightarrow> f64 \<times> f64 \<Rightarrow> (string \<times> string) list list \<Rightarrow> (go_error, f64 \<times> f64) result" where
  "sum_quantities dz acc [] = Inr acc"
| "sum_quantities dz (cpu, memory) (q # qs) =
    bindR (add_quantity (kube_cpu dz) (quantity_text q ''cpu'') cpu) (\<lambda>x.
    bindR (add_quantity (kube_memory dz) (quantity_text q ''memory'') memory) (\<lambda>y. sum_quantities dz (x, y) qs))"

definition sum_node_allocatable :: "kube_decoders \<Rightarrow> (string \<times> string) list list \<Rightarrow> (go_error, f64 \<times> f64) result" where
  "sum_node_allocatable dz nodes = sum_quantities dz (f64_zero, f64_zero) nodes"

definition sum_pod_requests :: "kube_decoders \<Rightarrow> pod list \<Rightarrow> (go_error, f64 \<times> f64) result" where
  "sum_pod_requests dz pods =
    sum_quantities dz (f64_zero, f64_zero)
      (concat (map (\<lambda>p. map pk_requests (pd_containers p)) (filter (\<lambda>p. \<not> is_terminal_pod p) pods)))"

fun pod_usage_by_key ::
  "kube_decoders \<Rightarrow> (string \<times> f64 \<times> f64) list \<Rightarrow> pod_metrics list \<Rightarrow> (go_error, (string \<times> f64 \<times> f64) list) result" where
  "pod_usage_by_key dz known [] = Inr known"
| "pod_usage_by_key dz known (p # ps) =
    bindR (sum_usage dz (f64_zero, f64_zero) (px_containers p)) (\<lambda>u.
      pod_usage_by_key dz (AList.update (pod_key (px_namespace p) (px_name p)) u known) ps)"

definition sum_pod_usage :: "(string \<times> f64 \<times> f64) list \<Rightarrow> f64 \<times> f64" where
  "sum_pod_usage usage =
    (foldl f64_plus f64_zero (map (\<lambda>(_, c, _). c) usage), foldl f64_plus f64_zero (map (\<lambda>(_, _, m). m) usage))"

definition sum_some :: "f64 list \<Rightarrow> f64 option" where
  "sum_some vs = (if vs = [] then None else Some (foldl f64_plus f64_zero vs))"

text \<open>The quantities of the containers that can be read.\<close>

definition readable ::
  "(string \<Rightarrow> (go_error, f64) result) \<Rightarrow> (pod_container \<Rightarrow> (string \<times> string) list) \<Rightarrow> string \<Rightarrow> pod list \<Rightarrow> f64 list" where
  "readable parse part key pods =
    concat (map (\<lambda>p. concat (map (\<lambda>c. let text = quantity_text (part c) key in
      if text = [] then [] else case parse text of Inl _ \<Rightarrow> [] | Inr x \<Rightarrow> [x]) (pd_containers p))) pods)"

definition measured :: "(string \<times> f64 \<times> f64) list \<Rightarrow> pod list \<Rightarrow> (f64 \<times> f64) list" where
  "measured usage pods =
    concat (map (\<lambda>p. case map_of usage (pod_key (pd_namespace p) (pd_name p)) of None \<Rightarrow> [] | Some u \<Rightarrow> [u]) pods)"

definition aggregate_service ::
  "kube_decoders \<Rightarrow> runtime_ref \<Rightarrow> pod list \<Rightarrow> (string \<times> f64 \<times> f64) list \<Rightarrow> service_runtime" where
  "aggregate_service dz r pods usage =
    (let mine = filter (\<lambda>p. pod_matches_service p r \<and> \<not> is_terminal_pod p) pods;
         cpu_request = sum_some (readable (kube_cpu dz) pk_requests ''cpu'' mine);
         cpu_limit = sum_some (readable (kube_cpu dz) pk_limits ''cpu'' mine);
         memory_request = sum_some (readable (kube_memory dz) pk_requests ''memory'' mine);
         memory_limit = sum_some (readable (kube_memory dz) pk_limits ''memory'' mine);
         cpu = sum_some (map fst (measured usage mine)); memory = sum_some (map snd (measured usage mine))
     in \<lparr>sn_pods = int (length mine), sn_ready = int (length (filter is_pod_ready mine)),
         sn_cpu_request = cpu_request, sn_cpu_limit = cpu_limit, sn_cpu_usage = cpu,
         sn_cpu_request_use = utilization cpu cpu_request, sn_cpu_limit_use = utilization cpu cpu_limit,
         sn_memory_request = memory_request, sn_memory_limit = memory_limit, sn_memory_usage = memory,
         sn_memory_request_use = utilization memory memory_request,
         sn_memory_limit_use = utilization memory memory_limit\<rparr>)"

definition capacity_of :: "f64 \<times> f64 \<Rightarrow> f64 \<times> f64 \<Rightarrow> (f64 \<times> f64) option \<Rightarrow> capacity" where
  "capacity_of allocatable requested used =
    (let cpu = map_option fst used; memory = map_option snd used in
     \<lparr>cy_cpu = Some (fst allocatable), cy_memory = Some (snd allocatable), cy_requested_cpu = Some (fst requested),
      cy_requested_memory = Some (snd requested), cy_used_cpu = cpu, cy_used_memory = memory,
      cy_available_cpu = Some (f64_minus (fst allocatable) (fst requested)),
      cy_available_memory = Some (f64_minus (snd allocatable) (snd requested)),
      cy_request_cpu_use = utilization (Some (fst requested)) (Some (fst allocatable)),
      cy_request_memory_use = utilization (Some (snd requested)) (Some (snd allocatable)),
      cy_usage_cpu_use = utilization cpu (Some (fst allocatable)), cy_usage_memory_use = utilization memory (Some (snd allocatable))\<rparr>)"

definition read_pod_usage ::
  "kube_outside \<Rightarrow> kube_decoders \<Rightarrow> kube_client option \<Rightarrow> ('x, (string \<times> f64 \<times> f64) list) kube" where
  "read_pod_usage ko dz client =
    bindS (get_json ko client (kz_pod_metrics dz) [] ''/apis/metrics.k8s.io/v1beta1/pods'') (\<lambda>items.
      liftR (pod_usage_by_key dz [] items))"

definition fleet_read ::
  "kube_outside \<Rightarrow> kube_decoders \<Rightarrow> kube_client option \<Rightarrow> runtime_ref list \<Rightarrow> ('x, fleet_snapshot) kube" where
  "fleet_read ko dz client services =
    (if client = None then bindS (clock_now ko) (\<lambda>now. returnS (offline now msg_no_fleet_client))
     else
       bindS (get_json ko client (kz_nodes dz) [] ''/api/v1/nodes'') (\<lambda>nodes.
       bindS (get_json ko client (kz_pods dz) [] ''/api/v1/pods'') (\<lambda>pods.
       bindS (try_kube (read_pod_usage ko dz client)) (\<lambda>measures.
       bindS (liftR (sum_node_allocatable dz nodes)) (\<lambda>allocatable.
       bindS (liftR (sum_pod_requests dz pods)) (\<lambda>requested.
       bindS (clock_now ko) (\<lambda>now.
         let usage = (case measures of Inl _ \<Rightarrow> [] | Inr u \<Rightarrow> u) in
         returnS \<lparr>fl_generated_at = now, fl_connected = True,
           fl_message = (case measures of Inl _ \<Rightarrow> msg_no_usage | Inr _ \<Rightarrow> []),
           fl_capacity = capacity_of allocatable requested
             (case measures of Inl _ \<Rightarrow> None | Inr u \<Rightarrow> Some (sum_pod_usage u)),
           fl_services = fold (\<lambda>r. AList.update (rf_application r) (aggregate_service dz r pods usage)) services []\<rparr>)))))))"

section \<open>The overview\<close>

datatype efficiency = Balanced | Underutilized | Overutilized | NoMetrics | UnknownUse

record service_efficiency =
  sy_ref :: runtime_ref
  sy_runtime :: service_runtime
  sy_status :: efficiency
  sy_summary :: string

record overview =
  ov_generated_at :: int
  ov_connected :: bool
  ov_message :: string
  ov_projects :: int
  ov_service_count :: int
  ov_capacity :: capacity
  ov_counts :: "efficiency \<Rightarrow> nat"
  ov_services :: "service_efficiency list"

definition collect_utilizations :: "f64 option list \<Rightarrow> f64 list" where
  "collect_utilizations values = List.map_filter id values"

definition greatest :: "f64 \<Rightarrow> f64 list \<Rightarrow> f64" where
  "greatest x xs = foldl (\<lambda>m v. if f64_less m v then v else m) x xs"

definition classify_service :: "bool \<Rightarrow> service_runtime \<Rightarrow> efficiency \<times> string" where
  "classify_service connected r =
    (if \<not> connected then (UnknownUse, msg_no_runtime)
     else if sn_pods r = 0 then (UnknownUse, msg_no_pods)
     else if sn_cpu_usage r = None \<and> sn_memory_usage r = None then (NoMetrics, msg_no_metrics)
     else case collect_utilizations [sn_cpu_request_use r, sn_memory_request_use r] of
       [] \<Rightarrow> (UnknownUse, msg_no_requests)
     | u # us \<Rightarrow>
         if f64_less (Finite 100 0) (greatest u us) then (Overutilized, msg_over_used)
         else if f64_less (greatest u us) (Finite 30 0) then (Underutilized, msg_under_used)
         else (Balanced, msg_balanced))"

definition severity :: "efficiency \<Rightarrow> nat" where
  "severity s = (case s of Overutilized \<Rightarrow> 0 | UnknownUse \<Rightarrow> 1 | NoMetrics \<Rightarrow> 2 | Underutilized \<Rightarrow> 3 | Balanced \<Rightarrow> 4)"

definition trimmed_authorities :: "string list \<Rightarrow> string list" where
  "trimmed_authorities authorities =
    fold (\<lambda>a acc. let t = trim_space a in if t = [] \<or> t \<in> set acc then acc else acc @ [t]) authorities []"

definition admin_allowed :: "user \<Rightarrow> string list \<Rightarrow> bool" where
  "admin_allowed u authorities \<longleftrightarrow>
    list_ex (\<lambda>a. trim_space a \<in> set (user_groups u))
      (if authorities = [] then [platform_admin_group] else authorities)"

definition trimmed_environment_clusters :: "environment list \<Rightarrow> (string \<times> string) list" where
  "trimmed_environment_clusters items =
    fold (\<lambda>e m. AList.update (trim_space (env_id e)) (trim_space (env_cluster e)) m) items []"

definition text_at :: "(string \<times> string) list \<Rightarrow> string \<Rightarrow> string" where
  "text_at m key = (case map_of m key of None \<Rightarrow> [] | Some v \<Rightarrow> trim_space v)"

definition service_refs :: "(string \<times> string) list \<Rightarrow> catalog_project \<Rightarrow> app_record list \<Rightarrow> runtime_ref list" where
  "service_refs names p records =
    map (\<lambda>a. let cluster = text_at (trimmed_environment_clusters (cp_environments p)) (trim_space (ar_environment a)) in
      \<lparr>rf_application = ar_id a, rf_project = cp_id p, rf_project_name = cp_name p, rf_cluster = cluster,
       rf_cluster_name = text_at names cluster, rf_namespace = ar_namespace a, rf_name = ar_name a\<rparr>) records"

fun all_service_refs ::
  "(string \<times> string) list \<Rightarrow> repo \<Rightarrow> catalog_project list \<Rightarrow> (go_error, runtime_ref list) result" where
  "all_service_refs names repo [] = Inr []"
| "all_service_refs names repo (p # ps) =
    bindR (list_applications (cp_id p) repo) (\<lambda>records.
    bindR (all_service_refs names repo ps) (\<lambda>rest. Inr (service_refs names p records @ rest)))"

definition no_runtime :: service_runtime where
  "no_runtime = \<lparr>sn_pods = 0, sn_ready = 0, sn_cpu_request = None, sn_cpu_limit = None, sn_cpu_usage = None,
     sn_cpu_request_use = None, sn_cpu_limit_use = None, sn_memory_request = None, sn_memory_limit = None,
     sn_memory_usage = None, sn_memory_request_use = None, sn_memory_limit_use = None\<rparr>"

definition classified :: "fleet_snapshot \<Rightarrow> runtime_ref \<Rightarrow> service_efficiency" where
  "classified snapshot r =
    (let runtime = (case map_of (fl_services snapshot) (rf_application r) of None \<Rightarrow> no_runtime | Some x \<Rightarrow> x);
         c = classify_service (fl_connected snapshot) runtime
     in \<lparr>sy_ref = r, sy_runtime = runtime, sy_status = fst c, sy_summary = snd c\<rparr>)"

definition by_urgency :: "service_efficiency list \<Rightarrow> service_efficiency list" where
  "by_urgency services =
    sort_key (\<lambda>s. severity (sy_status s))
      (sort_key (\<lambda>s. rf_project_name (sy_ref s)) (sort_key (\<lambda>s. rf_name (sy_ref s)) services))"

definition overview_of :: "nat \<Rightarrow> runtime_ref list \<Rightarrow> fleet_snapshot \<Rightarrow> overview" where
  "overview_of projects refs snapshot =
    (let services = map (classified snapshot) refs in
     \<lparr>ov_generated_at = fl_generated_at snapshot, ov_connected = fl_connected snapshot,
      ov_message = fl_message snapshot, ov_projects = int projects, ov_service_count = int (length services),
      ov_capacity = fl_capacity snapshot,
      ov_counts = (\<lambda>e. length (filter (\<lambda>s. sy_status s = e) services)), ov_services = by_urgency services\<rparr>)"

datatype overview_source = LocalOverview | FailingOverview "go_error option" | FleetOverviewOf "kube_client option"

definition read_overview ::
  "kube_outside \<Rightarrow> kube_decoders \<Rightarrow> overview_source \<Rightarrow> runtime_ref list \<Rightarrow> ('x, fleet_snapshot) kube" where
  "read_overview ko dz source refs =
    (case source of
       LocalOverview \<Rightarrow> bindS (clock_now ko) (\<lambda>now. returnS (offline now msg_local_overview))
     | FailingOverview err \<Rightarrow> bindS (clock_now ko) (\<lambda>now. returnS (offline now
         (case err of None \<Rightarrow> msg_overview_failed @ ''.'' | Some e \<Rightarrow> msg_overview_failed @ '': '' @ error_text e)))
     | FleetOverviewOf client \<Rightarrow> fleet_read ko dz client refs)"

definition snapshot_or_error ::
  "kube_outside \<Rightarrow> (go_error, fleet_snapshot) result \<Rightarrow> ('x, fleet_snapshot) kube" where
  "snapshot_or_error ko answer =
    (case answer of
       Inr snapshot \<Rightarrow> returnS snapshot
     | Inl e \<Rightarrow> bindS (clock_now ko) (\<lambda>now. returnS (offline now (error_text e))))"

definition cluster_names :: "repo \<Rightarrow> (string \<times> string) list" where
  "cluster_names repo =
    (case source_list_clusters repo of
       Inl _ \<Rightarrow> []
     | Inr clusters \<Rightarrow> fold (\<lambda>c. AList.update (cl_id c) (cl_name c)) clusters [])"

definition fleet_overview ::
  "kube_outside \<Rightarrow> kube_decoders \<Rightarrow> string list \<Rightarrow> overview_source option \<Rightarrow> user \<Rightarrow> repo \<Rightarrow> ('x, overview) kube" where
  "fleet_overview ko dz authorities source u repo =
    (if \<not> admin_allowed u (trimmed_authorities authorities) then failS ErrAdminForbidden
     else
       bindS (liftR (list_projects repo)) (\<lambda>projects.
       bindS (liftR (all_service_refs (cluster_names repo) repo projects)) (\<lambda>refs.
       bindS (clock_now ko) (\<lambda>now.
       bindS (case source of
           None \<Rightarrow> returnS (offline now msg_no_overview)
         | Some reader \<Rightarrow> bindS (try_kube (read_overview ko dz reader refs)) (snapshot_or_error ko)) (\<lambda>snapshot.
         returnS (overview_of (length projects) refs snapshot))))))"

end
