(* ===== verification/KubeLaws.thy ===== *)
theory KubeLaws
  imports KubeServices FleetOverview "HOL-Library.Multiset"
begin

text \<open>
  Laws of the cluster readers: when the usage of pods shows in a series, how old a status of Flux may be,
  what promoting a rollout sends, and which services the overview lists, in which order and counts.
\<close>

section \<open>Series\<close>

lemma series_times_set:
  "t \<in> set (series_times c e st) \<longleftrightarrow> 0 < st \<and> c \<le> t \<and> t \<le> e \<and> st dvd (t - c)"
proof (induction c e st rule: series_times.induct)
  case (1 c e st)
  show ?case
  proof (cases "e < c \<or> st \<le> 0")
    case True
    then show ?thesis by (auto simp: series_times.simps [of c e st])
  next
    case False
    have "t - c = (t - (c + st)) + st" by simp
    then have "st dvd (t - c) \<longleftrightarrow> st dvd (t - (c + st))"
      using dvd_add_triv_right_iff [of st "t - (c + st)"] by simp
    moreover have "c < t \<Longrightarrow> st dvd (t - c) \<Longrightarrow> c + st \<le> t"
      using zdvd_imp_le [of st "t - c"] by simp
    ultimately show ?thesis
      using False 1 [OF False] by (auto simp: series_times.simps [of c e st] simp del: minus_add_distrib)
  qed
qed

lemma window_parts:
  assumes "metric_window r now duration step = (start, stop, st)"
  shows "0 < st" "start \<le> stop" "st = query_step r step"
    "st dvd (stop - start) \<longleftrightarrow> query_span r duration < st \<or> st dvd query_span r duration"
proof -
  have pos: "0 < query_step r step" by (simp add: query_step_def minute_def)
  have shape: "stop = now - now mod st" "st = query_step r step"
      "start = (if stop < stop - query_span r duration + st then stop else stop - query_span r duration + st)"
    using assms by (auto simp: metric_window_def Let_def)
  show "0 < st" "start \<le> stop" "st = query_step r step" using pos shape by auto
  show "st dvd (stop - start) \<longleftrightarrow> query_span r duration < st \<or> st dvd query_span r duration"
  proof (cases "query_span r duration < st")
    case True
    then show ?thesis using shape(3) by simp
  next
    case False
    then have "stop - start = query_span r duration - st" using shape(3) by simp
    then show ?thesis using False dvd_add_triv_right_iff [of st "query_span r duration - st"] by simp
  qed
qed

lemma collect_found:
  "collect_pod_usage dz app acc found ps = Inr (u, f) \<Longrightarrow>
    f \<longleftrightarrow> found \<or> (\<exists>p \<in> set ps. pod_of_app app (trim_space (px_name p)))"
  by (induction ps arbitrary: acc found) (auto simp: bindR_eq_Inr split: if_splits)

lemma series_shows:
  assumes "0 < st" "start \<le> stop"
  shows "(\<exists>p \<in> set (ms_points (kube_series key label u (start, stop, st) v)). mp_value p \<noteq> None) \<longleftrightarrow>
    v \<noteq> None \<and> st dvd (stop - start)"
proof -
  have "(\<exists>t \<in> set (series_times start stop st). t = stop) \<longleftrightarrow> st dvd (stop - start)"
    using assms by (simp add: series_times_set)
  then show ?thesis by (auto simp: kube_series_def split: if_splits)
qed

text \<open>
  When the metrics of an application are read from its pods, the series of CPU usage holds a value if
  and only if a pod of the application was found and the query window is a multiple of the step or shorter
  than it; so with any other window the measured usage does not show in the series at all.
\<close>

theorem usage_shown_on_multiples:
  assumes "metrics_from_response ko dz r items a duration step s = (Inr series, t)"
  shows "\<exists>m \<in> set series. ms_key m = ''cpu_usage'' \<and>
    ((\<exists>p \<in> set (ms_points m). mp_value p \<noteq> None) \<longleftrightarrow>
      (\<exists>p \<in> set items. pod_of_app (ar_name a) (trim_space (px_name p))) \<and>
      (query_span r duration < query_step r step \<or> query_step r step dvd query_span r duration))"
proof -
  define now where "now = ko_clock ko (ks_asked s)"
  obtain start stop st where w: "metric_window r now duration step = (start, stop, st)"
    by (metis prod_cases3)
  obtain cpu memory found where c:
      "collect_pod_usage dz (ar_name a) (f64_zero, f64_zero) False items = Inr ((cpu, memory), found)"
    using assms
    by (auto simp: metrics_from_response_def clock_now_def ask_kube_def bindS_def liftR_def Let_def
        split: sum.splits prod.splits)
  then have series: "series =
      [kube_series ''request_rate'' ''Requests'' ''rpm'' (start, stop, st) None,
       kube_series ''error_rate'' ''Error Rate'' ''%'' (start, stop, st) None,
       kube_series ''latency_p95'' ''P95 Latency'' ''ms'' (start, stop, st) None,
       kube_series ''cpu_usage'' ''CPU Usage'' ''cores'' (start, stop, st) (if found then Some cpu else None),
       kube_series ''memory_usage'' ''Memory Usage'' ''MiB'' (start, stop, st) (if found then Some memory else None)]"
    using assms w
    by (simp add: metrics_from_response_def clock_now_def ask_kube_def bindS_def liftR_def returnS_def Let_def now_def)
  let ?m = "kube_series ''cpu_usage'' ''CPU Usage'' ''cores'' (start, stop, st) (if found then Some cpu else None)"
  have "?m \<in> set series" "ms_key ?m = ''cpu_usage''" by (simp_all add: series kube_series_def)
  moreover have "(\<exists>p \<in> set (ms_points ?m). mp_value p \<noteq> None) \<longleftrightarrow> found \<and> st dvd (stop - start)"
    using series_shows [OF window_parts(1, 2) [OF w]] by auto
  moreover have "found \<and> st dvd (stop - start) \<longleftrightarrow>
      (\<exists>p \<in> set items. pod_of_app (ar_name a) (trim_space (px_name p))) \<and>
      (query_span r duration < query_step r step \<or> query_step r step dvd query_span r duration)"
    using collect_found [OF c] window_parts(3, 4) [OF w] by simp
  ultimately show ?thesis by (intro bexI [of _ ?m]) simp_all
qed

definition demo_outside :: kube_outside where
  "demo_outside = \<lparr>ko_call = (\<lambda>_ _ _ _ _. NotSent ''offline''), ko_stream = (\<lambda>_ _ _. (NotSent ''offline'', None)),
     ko_file = (\<lambda>_ _. Inl ''no file''), ko_command = (\<lambda>_ _ _ _. ([], None)), ko_environ = [],
     ko_clock = (\<lambda>n. 1000 * minute + int n), ko_base64 = Inr, ko_certificates = (\<lambda>_. True),
     ko_key_pair = (\<lambda>_ _. None), ko_kubeconfig = (\<lambda>_. Inl ''no config''), ko_exec_token = (\<lambda>_. Inl ''no token'')\<rparr>"

definition demo_decoders :: kube_decoders where
  "demo_decoders = \<lparr>kz_kustomizations = (\<lambda>_. Inr []), kz_pods = (\<lambda>_. Inr []), kz_pod_metrics = (\<lambda>_. Inr []),
     kz_service = (\<lambda>_. Inl ''none''), kz_events = (\<lambda>_. Inr []), kz_rollout = (\<lambda>_. Inl ''none''),
     kz_nodes = (\<lambda>_. Inr []), kz_float = (\<lambda>s. if s = ''250'' then Inr (Finite 250 0) else Inl ''bad''),
     kz_time = (\<lambda>_. None)\<rparr>"

definition demo_pods :: "pod_metrics list" where
  "demo_pods = [\<lparr>px_name = ''web-7d9f-x2k'', px_namespace = ''shop'',
     px_containers = [\<lparr>cu_name = ''web'', cu_cpu = [], cu_memory = []\<rparr>]\<rparr>]"

definition demo_reader :: pod_metrics_reader where
  "demo_reader = \<lparr>mr_client = None, mr_range = 0, mr_step = 0\<rparr>"

definition demo_app :: app_record where
  "demo_app = \<lparr>ar_id = ''shop__web'', ar_project_id = ''shop'', ar_namespace = ''shop'', ar_name = ''web'',
     ar_description = [], ar_image = ''web:v1'', ar_service_port = 80, ar_replicas = 1, ar_required_probes = False,
     ar_strategy = ''Rollout'', ar_environment = ''shared'', ar_created_at = 0, ar_updated_at = 0, ar_secret_path = [],
     ar_repository_id = [], ar_repository_url = [], ar_repository_branch = [], ar_repository_service_id = [],
     ar_config_path = [], ar_repository_token_path = [], ar_registry_secret_path = [], ar_poll_interval = 0,
     ar_resources = \<lparr>rr_requests = \<lparr>rq_cpu = [], rq_memory = []\<rparr>, rr_limits = \<lparr>rq_cpu = [], rq_memory = []\<rparr>\<rparr>,
     ar_mesh = False, ar_load_balancer = False\<rparr>"

lemma demo_usage:
  "isOk (fst (metrics_from_response demo_outside demo_decoders demo_reader demo_pods demo_app (5 * minute) (2 * minute)
     \<lparr>ks_asked = 0\<rparr>))"
proof -
  have "collect_pod_usage demo_decoders ''web'' (f64_zero, f64_zero) False demo_pods = Inr ((Finite 0 0, Finite 0 0), True)"
    by code_simp
  then show ?thesis
    by (simp add: metrics_from_response_def clock_now_def ask_kube_def bindS_def liftR_def returnS_def Let_def
        demo_app_def)
qed

text \<open>A window of five minutes in steps of two shows nothing, although a pod was measured.\<close>

theorem usage_shown_on_multiples_witness:
  "\<exists>series t. metrics_from_response demo_outside demo_decoders demo_reader demo_pods demo_app (5 * minute) (2 * minute)
      \<lparr>ks_asked = 0\<rparr> = (Inr series, t) \<and>
    (\<exists>m \<in> set series. ms_key m = ''cpu_usage'' \<and> (\<forall>p \<in> set (ms_points m). mp_value p = None)) \<and>
    (\<exists>p \<in> set demo_pods. pod_of_app ''web'' (trim_space (px_name p)))"
proof -
  obtain series t where run: "metrics_from_response demo_outside demo_decoders demo_reader demo_pods demo_app
      (5 * minute) (2 * minute) \<lparr>ks_asked = 0\<rparr> = (Inr series, t)"
    using isOk_run [OF demo_usage] by blast
  have "query_span demo_reader (5 * minute) = 5 * minute" "query_step demo_reader (2 * minute) = 2 * minute"
    by (simp_all add: query_span_def query_step_def minute_def)
  then have "\<exists>m \<in> set series. ms_key m = ''cpu_usage'' \<and> (\<forall>p \<in> set (ms_points m). mp_value p = None)"
    using usage_shown_on_multiples [OF run] by (simp add: minute_def)
  moreover have "\<exists>p \<in> set demo_pods. pod_of_app ''web'' (trim_space (px_name p))" by code_simp
  ultimately show ?thesis using run by blast
qed

section \<open>The age of a status\<close>

text \<open>A call of the API changes nothing but the number of questions.\<close>

definition only_asks :: "('x, 'a) kube \<Rightarrow> bool" where
  "only_asks m \<longleftrightarrow> (\<forall>s. kube_state.more (snd (m s)) = kube_state.more s \<and> ks_asked s \<le> ks_asked (snd (m s)))"

lemma only_asksD:
  "only_asks m \<Longrightarrow> m s = (r, t) \<Longrightarrow> kube_state.more t = kube_state.more s \<and> ks_asked s \<le> ks_asked t"
  unfolding only_asks_def by (metis snd_conv)

lemma only_asks_bindS:
  assumes m: "only_asks m" and f: "\<And>x. only_asks (f x)"
  shows "only_asks (bindS m f)"
  unfolding only_asks_def
proof
  fix s
  obtain r t where run: "m s = (r, t)" by (cases "m s")
  show "kube_state.more (snd (bindS m f s)) = kube_state.more s \<and> ks_asked s \<le> ks_asked (snd (bindS m f s))"
  proof (cases r)
    case (Inl e)
    then show ?thesis using only_asksD [OF m run] by (simp add: bindS_def run)
  next
    case (Inr x)
    obtain q w where follow: "f x t = (q, w)" by (cases "f x t")
    show ?thesis using only_asksD [OF m run] only_asksD [OF f follow] Inr by (simp add: bindS_def run follow)
  qed
qed

lemma only_asks_basic:
  "only_asks (returnS x)" "only_asks (failS e)" "only_asks (liftR r)" "only_asks (ask_kube f)"
  by (simp_all add: only_asks_def returnS_def failS_def liftR_def ask_kube_def)

lemma only_asks_cases:
  "only_asks m \<Longrightarrow> only_asks n \<Longrightarrow> only_asks (if b then m else n)"
  "only_asks m \<Longrightarrow> (\<And>y. only_asks (f y)) \<Longrightarrow> only_asks (case x of None \<Rightarrow> m | Some y \<Rightarrow> f y)"
  "(\<And>e. only_asks (g e)) \<Longrightarrow> (\<And>y. only_asks (f y)) \<Longrightarrow> only_asks (case r of Inl e \<Rightarrow> g e | Inr y \<Rightarrow> f y)"
  "(\<And>x y. only_asks (h x y)) \<Longrightarrow> only_asks (case p of (x, y) \<Rightarrow> h x y)"
  by (simp_all split: option.split sum.split prod.split)

lemma only_asks_token: "only_asks (provide_token ko source)"
  by (cases source; simp only: provide_token.simps resolve_token_def)
    (intro only_asks_bindS only_asks_basic only_asks_cases)+

lemma only_asks_bearer: "only_asks (bearer_of ko c)"
proof (cases "kc_token c")
  case None
  then show ?thesis by (simp add: bearer_of_def only_asks_basic)
next
  case (Some source)
  show ?thesis
    unfolding only_asks_def
  proof
    fix s :: "'x kube_state_scheme"
    obtain r t where run: "provide_token ko source s = (r, t)" by (cases "provide_token ko source s")
    then show "kube_state.more (snd (bearer_of ko c s)) = kube_state.more s \<and> ks_asked s \<le> ks_asked (snd (bearer_of ko c s))"
      using only_asksD [OF only_asks_token run] Some by (cases r) (simp_all add: bearer_of_def)
  qed
qed

lemma only_asks_get: "only_asks (get_json ko client decode zero path)"
  by (auto simp: get_json_def call_api_def
      intro!: only_asks_bindS only_asks_basic only_asks_bearer split: option.split)

lemma same_cache:
  assumes "kube_state.more t = kube_state.more s"
  shows "kf_cached t = kf_cached s" "kf_cached_at t = kf_cached_at s"
  using assms by (cases s; cases t; simp)+

lemma clock_step: "bindS (clock_now ko) f s = f (ko_clock ko (ks_asked s)) (s\<lparr>ks_asked := Suc (ks_asked s)\<rparr>)"
  by (simp add: clock_now_def ask_kube_def bindS_def)

lemma read_step: "bindS (readS (\<lambda>s. Inr (g s))) f s = f (g s) s"
  by (simp add: readS_def bindS_def)

lemma cached_parts:
  "cached_kustomizations now age s = Some items \<longleftrightarrow>
    items = kf_cached s \<and> kf_cached_at s \<noteq> 0 \<and> now - kf_cached_at s \<le> age \<and> 0 < age"
  by (auto simp: cached_kustomizations_def)

definition ask_flux :: "kube_outside \<Rightarrow> kube_decoders \<Rightarrow> flux_reader \<Rightarrow> flux_kustomization list flux" where
  "ask_flux ko dz r = get_json ko (fr_client r) (kz_kustomizations dz) [] (kustomizations_path r)"

text \<open>What a call does: it uses the copy, it answers from a request and may keep the answer, or it fails.\<close>

lemma list_kustomizations_cases:
  assumes "list_kustomizations ko dz r s = (x, t)"
  obtains (copy) n where "x = Inr (kf_cached s)" "kf_cached t = kf_cached s" "kf_cached_at t = kf_cached_at s"
      "kf_cached_at s \<noteq> 0" "ks_asked s \<le> n" "n < ks_asked t" "ko_clock ko n - kf_cached_at s \<le> max (fr_ttl r) minute"
    | (asked) items u v where "x = Inr items" "ask_flux ko dz r u = (Inr items, v)" "ks_asked s < ks_asked u"
      "ks_asked v \<le> ks_asked t" "kf_cached t = kf_cached s \<and> kf_cached_at t = kf_cached_at s \<or>
        kf_cached t = items \<and> kf_cached_at t = ko_clock ko (ks_asked v) \<and> ks_asked v < ks_asked t"
    | (failed) e where "x = Inl e" "kf_cached t = kf_cached s" "kf_cached_at t = kf_cached_at s" "ks_asked s \<le> ks_asked t"
proof (cases "fr_client r = None")
  case True
  then show ?thesis using assms that(3) by (auto simp: list_kustomizations_def failS_def)
next
  case False
  let ?u = "s\<lparr>ks_asked := Suc (ks_asked s)\<rparr>"
  have run: "(case cached_kustomizations (ko_clock ko (ks_asked s)) (fr_ttl r) ?u of
      Some items \<Rightarrow> returnS items | None \<Rightarrow> ask_kustomizations ko dz r) ?u = (x, t)"
    using assms False by (simp add: list_kustomizations_def clock_step read_step)
  show ?thesis
  proof (cases "cached_kustomizations (ko_clock ko (ks_asked s)) (fr_ttl r) ?u")
    case (Some found)
    with run have "x = Inr (kf_cached s)" "t = ?u"
      by (auto simp: returnS_def cached_parts)
    then show ?thesis
      using that(1) [of "ks_asked s"] Some by (auto simp: cached_parts le_max_iff_disj)
  next
    case None
    obtain answer v where get: "ask_flux ko dz r ?u = (answer, v)" by (cases "ask_flux ko dz r ?u")
    have more: "kube_state.more v = kube_state.more ?u" and later: "ks_asked ?u \<le> ks_asked v"
      using only_asksD [OF only_asks_get get [unfolded ask_flux_def]] by auto
    have kept: "kf_cached v = kf_cached s" "kf_cached_at v = kf_cached_at s"
      using same_cache [OF more] by simp_all
    show ?thesis
    proof (cases answer)
      case (Inr found)
      then have "bindS (store_kustomizations ko r found) (\<lambda>_. returnS found) v = (x, t)"
        using run None get by (simp add: ask_kustomizations_def try_kube_def bindS_def ask_flux_def)
      then have "x = Inr found" "t = v \<or> t = v\<lparr>ks_asked := Suc (ks_asked v), kf_cached := found, kf_cached_at := ko_clock ko (ks_asked v)\<rparr>"
        by (auto simp: store_kustomizations_def bindS_def returnS_def clock_now_def ask_kube_def modifyS_def
            split: if_splits)
      then show ?thesis using that(2) [of found ?u v] get Inr kept by auto
    next
      case (Inl e)
      then have "stale_kustomizations ko e v = (x, t)"
        using run None get by (simp add: ask_kustomizations_def try_kube_def bindS_def ask_flux_def)
      then have out: "(case cached_kustomizations (ko_clock ko (ks_asked v)) minute (v\<lparr>ks_asked := Suc (ks_asked v)\<rparr>) of
          Some items \<Rightarrow> Inr items | None \<Rightarrow> Inl e) = x" "t = v\<lparr>ks_asked := Suc (ks_asked v)\<rparr>"
        by (auto simp: stale_kustomizations_def clock_step read_step max_stale_flux_cache_def failS_def returnS_def
            split: option.splits)
      show ?thesis
      proof (cases "cached_kustomizations (ko_clock ko (ks_asked v)) minute (v\<lparr>ks_asked := Suc (ks_asked v)\<rparr>)")
        case None
        then show ?thesis using that(3) [of e] out kept later by simp
      next
        case (Some items)
        then have "x = Inr items" using out(1) by simp
        with Some show ?thesis
          using that(1) [of "ks_asked v"] out(2) kept later by (auto simp: cached_parts le_max_iff_disj)
      qed
    qed
  qed
qed

text \<open>The states of a reader: an empty copy, then calls of it, and questions of others between them.\<close>

inductive flux_reach :: "kube_outside \<Rightarrow> kube_decoders \<Rightarrow> flux_reader \<Rightarrow> flux_state \<Rightarrow> bool" for ko dz r where
  start: "kf_cached_at s = 0 \<Longrightarrow> flux_reach ko dz r s"
| call: "flux_reach ko dz r s \<Longrightarrow> list_kustomizations ko dz r s = (x, t) \<Longrightarrow> flux_reach ko dz r t"
| others: "flux_reach ko dz r s \<Longrightarrow> ks_asked s \<le> n \<Longrightarrow> flux_reach ko dz r (s\<lparr>ks_asked := n\<rparr>)"

text \<open>The copy is an answer of the cluster, dated by the clock read right after it.\<close>

lemma flux_reach_copy:
  assumes "flux_reach ko dz r s" and "kf_cached_at s \<noteq> 0"
  shows "\<exists>u v. ask_flux ko dz r u = (Inr (kf_cached s), v) \<and> kf_cached_at s = ko_clock ko (ks_asked v) \<and>
    ks_asked v < ks_asked s"
  using assms
proof (induction rule: flux_reach.induct)
  case (call s x t)
  from call.hyps(2) show ?case
  proof (cases rule: list_kustomizations_cases)
    case (copy n)
    then obtain u v where "ask_flux ko dz r u = (Inr (kf_cached s), v)" "kf_cached_at s = ko_clock ko (ks_asked v)"
        "ks_asked v < ks_asked s"
      using call.IH by blast
    with copy show ?thesis by (intro exI [of _ u] exI [of _ v]) simp
  next
    case (asked items u v)
    from asked(5) show ?thesis
    proof
      assume kept: "kf_cached t = kf_cached s \<and> kf_cached_at t = kf_cached_at s"
      with call.prems obtain u' v' where "ask_flux ko dz r u' = (Inr (kf_cached s), v')"
          "kf_cached_at s = ko_clock ko (ks_asked v')" "ks_asked v' < ks_asked s"
        using call.IH by auto
      moreover have "ks_asked s \<le> ks_asked t"
        using asked(3,4) only_asksD [OF only_asks_get asked(2) [unfolded ask_flux_def]] by simp
      ultimately show ?thesis using kept by (intro exI [of _ u'] exI [of _ v']) simp
    next
      assume "kf_cached t = items \<and> kf_cached_at t = ko_clock ko (ks_asked v) \<and> ks_asked v < ks_asked t"
      with asked(2) show ?thesis by (intro exI [of _ u] exI [of _ v]) simp
    qed
  next
    case (failed e)
    with call.prems obtain u v where "ask_flux ko dz r u = (Inr (kf_cached s), v)"
        "kf_cached_at s = ko_clock ko (ks_asked v)" "ks_asked v < ks_asked s"
      using call.IH by auto
    with failed show ?thesis by (intro exI [of _ u] exI [of _ v]) simp
  qed
next
  case (others s n)
  then show ?case by (auto intro: less_le_trans)
qed simp

text \<open>
  C38: whatever a reader of Flux did before, the list of objects it gives is an answer of the cluster: to a
  request of this very call, or to an earlier one after which, when the call read the clock, no more time had
  passed than the configured lifetime of the copy or one minute, whichever is longer.
\<close>

theorem flux_status_age:
  assumes "flux_reach ko dz r s" and "list_kustomizations ko dz r s = (Inr items, t)"
  shows "\<exists>(u :: flux_state) v. get_json ko (fr_client r) (kz_kustomizations dz) [] (kustomizations_path r) u = (Inr items, v) \<and>
    (ks_asked s < ks_asked u \<and> ks_asked v \<le> ks_asked t \<or>
     (\<exists>n. ks_asked s \<le> n \<and> n < ks_asked t \<and>
       ko_clock ko n - ko_clock ko (ks_asked v) \<le> max (fr_ttl r) minute))"
  using assms(2)
proof (cases rule: list_kustomizations_cases)
  case (copy n)
  then obtain u v where "ask_flux ko dz r u = (Inr items, v)" "kf_cached_at s = ko_clock ko (ks_asked v)"
    using flux_reach_copy [OF assms(1)] by auto
  with copy show ?thesis
    unfolding ask_flux_def by (intro exI [of _ u] exI [of _ v]) auto
next
  case (asked found u v)
  then show ?thesis by (auto simp: ask_flux_def)
qed simp

definition demo_kept :: flux_state where
  "demo_kept = \<lparr>ks_asked = 0, kf_cached = [], kf_cached_at = 0\<rparr>"

definition demo_flux :: flux_reader where
  "demo_flux = \<lparr>fr_client = Some \<lparr>kc_base = ''https://cluster'', kc_token = None, kc_timeout = 0, kc_insecure = False\<rparr>,
     fr_namespace = ''flux-system'', fr_ttl = minute\<rparr>"

definition demo_online :: kube_outside where
  "demo_online = demo_outside\<lparr>ko_call := (\<lambda>_ _ _ _ _. Answered 200 ''{}'' ''200 OK'')\<rparr>"

lemma demo_kept_run: "isOk (fst (list_kustomizations demo_online demo_decoders demo_flux demo_kept))"
  by code_simp

text \<open>The first call of a reader in a cluster without Flux objects.\<close>

theorem flux_status_age_witness:
  "flux_reach demo_online demo_decoders demo_flux demo_kept \<and>
   (\<exists>items t. list_kustomizations demo_online demo_decoders demo_flux demo_kept = (Inr items, t) \<and>
    (\<exists>(u :: flux_state) v. get_json demo_online (fr_client demo_flux) (kz_kustomizations demo_decoders) []
        (kustomizations_path demo_flux) u = (Inr items, v)))"
proof -
  have start: "flux_reach demo_online demo_decoders demo_flux demo_kept"
    by (rule flux_reach.start) (simp add: demo_kept_def)
  obtain items t where run: "list_kustomizations demo_online demo_decoders demo_flux demo_kept = (Inr items, t)"
    using isOk_run [OF demo_kept_run] by blast
  from flux_status_age [OF start run] start run show ?thesis by blast
qed

section \<open>Promotion\<close>

lemma next_step_bounds:
  "0 \<le> (case ro_step_index r of None \<Rightarrow> 0 | Some i \<Rightarrow> i) \<Longrightarrow>
    (case ro_step_index r of None \<Rightarrow> 0 | Some i \<Rightarrow> i) \<le> int n \<Longrightarrow>
    next_step r n \<le> int n \<and> (case ro_step_index r of None \<Rightarrow> 0 | Some i \<Rightarrow> i) \<le> next_step r n"
  by (auto simp: next_step_def Let_def)

section \<open>The overview\<close>

lemma by_urgency_mset: "mset (by_urgency xs) = mset xs"
  by (simp add: by_urgency_def)

lemma by_urgency_sorted: "sorted (map (\<lambda>s. severity (sy_status s)) (by_urgency xs))"
  unfolding by_urgency_def by (rule sorted_sort_key)

text \<open>A stable sort keeps the order of entries with one key.\<close>

lemma insort_sorted_wrt:
  assumes "sorted_wrt (\<lambda>x y. f x < f y \<or> f x = f y \<and> R x y) ys" and "\<forall>y \<in> set ys. R x y"
  shows "sorted_wrt (\<lambda>x y. f x < f y \<or> f x = f y \<and> R x y) (insort_key f x ys)"
  using assms
proof (induction ys)
  case (Cons y ys)
  then show ?case
  proof (cases "f x \<le> f y")
    case True
    with Cons.prems show ?thesis by (auto simp: le_less)
  next
    case False
    then have "f y < f x" by simp
    with False Cons show ?thesis by (auto simp: set_insort_key)
  qed
qed simp

lemma sort_key_sorted_wrt:
  "sorted_wrt R xs \<Longrightarrow> sorted_wrt (\<lambda>x y. f x < f y \<or> f x = f y \<and> R x y) (sort_key f xs)"
  by (induction xs) (auto intro!: insort_sorted_wrt)

text \<open>Which of two services the overview lists first: by severity, then project name, then name.\<close>

definition listed_before :: "service_efficiency \<Rightarrow> service_efficiency \<Rightarrow> bool" where
  "listed_before x y \<longleftrightarrow> severity (sy_status x) < severity (sy_status y) \<or>
    severity (sy_status x) = severity (sy_status y) \<and>
      (rf_project_name (sy_ref x) < rf_project_name (sy_ref y) \<or>
       rf_project_name (sy_ref x) = rf_project_name (sy_ref y) \<and> rf_name (sy_ref x) \<le> rf_name (sy_ref y))"

lemma by_urgency_listed: "sorted_wrt listed_before (by_urgency xs)"
proof -
  have "sorted_wrt (\<lambda>x y. rf_name (sy_ref x) \<le> rf_name (sy_ref y)) (sort_key (\<lambda>s. rf_name (sy_ref s)) xs)"
    using sorted_sort_key [of "\<lambda>s. rf_name (sy_ref s)" xs] by (simp add: sorted_wrt_map)
  from sort_key_sorted_wrt [OF sort_key_sorted_wrt [OF this, of "\<lambda>s. rf_project_name (sy_ref s)"],
      of "\<lambda>s. severity (sy_status s)"]
  show ?thesis unfolding by_urgency_def listed_before_def .
qed

text \<open>The applications of the projects of a catalog, each with its project, in the order of the catalog.\<close>

definition records_of :: "repo \<Rightarrow> catalog_project \<Rightarrow> app_record list" where
  "records_of repo p = (case list_applications (cp_id p) repo of Inr rs \<Rightarrow> rs | Inl e \<Rightarrow> [])"

definition catalog_records :: "repo \<Rightarrow> catalog_project list \<Rightarrow> (catalog_project \<times> app_record) list" where
  "catalog_records repo ps = concat (map (\<lambda>p. map (Pair p) (records_of repo p)) ps)"

text \<open>What the overview says of where a service is, and what the catalog and its record say.\<close>

definition service_place :: "runtime_ref \<Rightarrow> string list" where
  "service_place r = [rf_project r, rf_project_name r, rf_application r, rf_name r, rf_namespace r, rf_cluster r]"

definition record_place :: "catalog_project \<Rightarrow> app_record \<Rightarrow> string list" where
  "record_place p a = [cp_id p, cp_name p, ar_id a, ar_name a, ar_namespace a,
    text_at (trimmed_environment_clusters (cp_environments p)) (trim_space (ar_environment a))]"

lemma all_service_refs_places:
  "all_service_refs names repo ps = Inr refs \<Longrightarrow>
    (\<forall>p \<in> set ps. list_applications (cp_id p) repo = Inr (records_of repo p)) \<and>
    map service_place refs = map (\<lambda>(p, a). record_place p a) (catalog_records repo ps)"
proof (induction ps arbitrary: refs)
  case (Cons p ps)
  then obtain rs rest where r: "list_applications (cp_id p) repo = Inr rs" "all_service_refs names repo ps = Inr rest"
    "refs = service_refs names p rs @ rest" by (auto simp: bindR_eq_Inr)
  then have "records_of repo p = rs" by (simp add: records_of_def)
  moreover have "map service_place (service_refs names p rs) = map (record_place p) rs"
    by (simp add: service_refs_def service_place_def record_place_def Let_def)
  ultimately show ?case using r Cons.IH [OF r(2)] by (auto simp: catalog_records_def comp_def)
qed (simp add: catalog_records_def)

lemma distinct_records:
  assumes "distinct (map cp_id ps)" and "\<forall>p \<in> set ps. distinct (map ar_id (records_of repo p))"
  shows "distinct (map (\<lambda>(p, a). (cp_id p, ar_id a)) (catalog_records repo ps))"
  using assms
proof (induction ps)
  case (Cons p ps)
  have "map (\<lambda>(p, a). (cp_id p, ar_id a)) (map (Pair p) (records_of repo p)) =
      map (Pair (cp_id p)) (map ar_id (records_of repo p))" by (simp add: comp_def)
  moreover have "distinct (map (Pair (cp_id p)) (map ar_id (records_of repo p)))"
    using Cons.prems(2) by (simp only: distinct_map) (auto simp: inj_on_def)
  ultimately have "distinct (map (\<lambda>(p, a). (cp_id p, ar_id a)) (map (Pair p) (records_of repo p)))" by metis
  then show ?case using Cons by (auto simp: catalog_records_def)
qed (simp add: catalog_records_def)

lemma classes_exhaust:
  "length xs = length (filter (\<lambda>s. sy_status s = Balanced) xs) + length (filter (\<lambda>s. sy_status s = Underutilized) xs) +
     length (filter (\<lambda>s. sy_status s = Overutilized) xs) + length (filter (\<lambda>s. sy_status s = NoMetrics) xs) +
     length (filter (\<lambda>s. sy_status s = UnknownUse) xs)"
proof (induction xs)
  case (Cons x xs)
  then show ?case by (cases "sy_status x") simp_all
qed simp

lemma fleet_overview_parts:
  assumes "fleet_overview ko dz authorities source u repo s = (Inr v, t)"
  shows "admin_allowed u (trimmed_authorities authorities) \<and> (\<exists>projects refs snapshot.
    list_projects repo = Inr projects \<and> all_service_refs (cluster_names repo) repo projects = Inr refs \<and>
    v = overview_of (length projects) refs snapshot)"
proof -
  have allowed: "admin_allowed u (trimmed_authorities authorities)"
    using assms by (simp add: fleet_overview_def failS_def split: if_splits)
  obtain projects where p: "list_projects repo = Inr projects"
    using assms allowed by (cases "list_projects repo") (auto simp: fleet_overview_def bindS_def liftR_def)
  obtain refs where r: "all_service_refs (cluster_names repo) repo projects = Inr refs"
    using assms allowed p
    by (cases "all_service_refs (cluster_names repo) repo projects") (auto simp: fleet_overview_def bindS_def liftR_def)
  have "bindS (clock_now ko) (\<lambda>now.
       bindS (case source of
           None \<Rightarrow> returnS (offline now msg_no_overview)
         | Some reader \<Rightarrow> bindS (try_kube (read_overview ko dz reader refs)) (snapshot_or_error ko)) (\<lambda>snapshot.
         returnS (overview_of (length projects) refs snapshot))) s = (Inr v, t)"
    using assms allowed p r by (simp add: fleet_overview_def bindS_def liftR_def)
  then have "\<exists>snapshot. v = overview_of (length projects) refs snapshot"
    unfolding clock_step by (auto simp: bindS_def returnS_def split: prod.splits sum.splits)
  then show ?thesis using allowed p r by blast
qed

text \<open>
  C36: the overview an administrator gets lists, for every entry of the catalog and every application
  that the store lists for it, one service with the names, the namespace and the cluster of that
  application; so when no two entries share an identifier and the store lists none twice, every
  application of every project exactly once. Each service has the class of its own numbers; the most
  urgent classes come first, and within a class projects and names in order. The counts of the five
  classes are those of the services and add up to the number of services it states.
\<close>

theorem overview_complete:
  assumes "fleet_overview ko dz authorities source u repo s = (Inr v, t)"
  shows "admin_allowed u (trimmed_authorities authorities) \<and> (\<exists>projects.
    list_projects repo = Inr projects \<and> ov_projects v = int (length projects) \<and>
    (\<forall>p \<in> set projects. list_applications (cp_id p) repo = Inr (records_of repo p)) \<and>
    mset (map (\<lambda>x. service_place (sy_ref x)) (ov_services v)) =
      mset (map (\<lambda>(p, a). record_place p a) (catalog_records repo projects)) \<and>
    (distinct (map cp_id projects) \<and> (\<forall>p \<in> set projects. distinct (map ar_id (records_of repo p))) \<longrightarrow>
      distinct (map (\<lambda>x. (rf_project (sy_ref x), rf_application (sy_ref x))) (ov_services v))) \<and>
    (\<forall>x \<in> set (ov_services v). (sy_status x, sy_summary x) = classify_service (ov_connected v) (sy_runtime x)) \<and>
    sorted_wrt listed_before (ov_services v) \<and>
    (\<forall>c. ov_counts v c = length (filter (\<lambda>x. sy_status x = c) (ov_services v))) \<and>
    ov_service_count v = int (length (ov_services v)) \<and>
    ov_service_count v = int (ov_counts v Balanced + ov_counts v Underutilized + ov_counts v Overutilized +
      ov_counts v NoMetrics + ov_counts v UnknownUse))"
proof -
  obtain projects refs snapshot where v: "admin_allowed u (trimmed_authorities authorities)"
      "list_projects repo = Inr projects" "all_service_refs (cluster_names repo) repo projects = Inr refs"
      "v = overview_of (length projects) refs snapshot"
    using fleet_overview_parts [OF assms] by blast
  let ?services = "map (classified snapshot) refs"
  have services: "ov_services v = by_urgency ?services" "ov_counts v = (\<lambda>e. length (filter (\<lambda>s. sy_status s = e) ?services))"
      "ov_service_count v = int (length ?services)" "ov_projects v = int (length projects)" "ov_connected v = fl_connected snapshot"
    by (simp_all add: v(4) overview_of_def Let_def)
  have m: "mset (ov_services v) = mset ?services" by (simp only: services(1) by_urgency_mset)
  have refs: "map (f \<circ> sy_ref) ?services = map f refs" for f :: "runtime_ref \<Rightarrow> 'z"
    by (simp add: classified_def Let_def comp_def)
  have of_refs: "mset (map (f \<circ> sy_ref) (ov_services v)) = mset (map f refs)" for f :: "runtime_ref \<Rightarrow> 'z"
    using m refs [of f] by (metis mset_map)
  note places = all_service_refs_places [OF v(3)]
  have "mset (map (\<lambda>x. service_place (sy_ref x)) (ov_services v)) =
      mset (map (\<lambda>(p, a). record_place p a) (catalog_records repo projects))"
    using of_refs [of service_place] places by (simp add: comp_def)
  moreover have "distinct (map (\<lambda>x. (rf_project (sy_ref x), rf_application (sy_ref x))) (ov_services v))"
    if "distinct (map cp_id projects)" "\<forall>p \<in> set projects. distinct (map ar_id (records_of repo p))"
  proof -
    have pair: "(\<lambda>r. (rf_project r, rf_application r)) = (\<lambda>l. (l ! 0, l ! 2)) \<circ> service_place"
      by (simp add: service_place_def fun_eq_iff)
    have "map (\<lambda>r. (rf_project r, rf_application r)) refs = map (\<lambda>l. (l ! 0, l ! 2)) (map service_place refs)"
      unfolding pair by simp
    also have "\<dots> = map (\<lambda>(p, a). (cp_id p, ar_id a)) (catalog_records repo projects)"
      using places by (simp add: record_place_def case_prod_unfold comp_def)
    finally have "distinct (map (\<lambda>r. (rf_project r, rf_application r)) refs)" using distinct_records [OF that] by simp
    then show ?thesis
      using of_refs [of "\<lambda>r. (rf_project r, rf_application r)"] by (metis (no_types, lifting) comp_def mset_eq_imp_distinct_iff map_eq_conv)
  qed
  moreover have "\<forall>x \<in> set (ov_services v). (sy_status x, sy_summary x) = classify_service (ov_connected v) (sy_runtime x)"
    using mset_eq_setD [OF m] by (auto simp: services(5) classified_def Let_def)
  moreover have "length (filter (\<lambda>x. sy_status x = c) (ov_services v)) = length (filter (\<lambda>x. sy_status x = c) ?services)" for c
    using m by (metis mset_filter size_mset)
  moreover have "sorted_wrt listed_before (ov_services v)" unfolding services(1) by (rule by_urgency_listed)
  moreover have "length (ov_services v) = length ?services" using m by (metis size_mset)
  ultimately show ?thesis
    using v(1, 2) services(2-4) places classes_exhaust [of ?services] by auto
qed

definition demo_root :: user where
  "demo_root = \<lparr>user_id = ''ops'', user_name = ''ops'', user_display = ''ops'', user_groups = [''aods:platform:admin'']\<rparr>"

text \<open>A catalog of two projects, of which one has two applications.\<close>

definition fleet_record :: "string \<Rightarrow> string \<Rightarrow> app_record" where
  "fleet_record aid name = \<lparr>ar_id = aid, ar_project_id = ''shop'', ar_namespace = ''shop'', ar_name = name,
    ar_description = [], ar_image = ''repo/web:v1'', ar_service_port = 80, ar_replicas = 1, ar_required_probes = True,
    ar_strategy = ''Rollout'', ar_environment = ''dev'', ar_created_at = 1, ar_updated_at = 1, ar_secret_path = [],
    ar_repository_id = [], ar_repository_url = [], ar_repository_branch = [], ar_repository_service_id = [],
    ar_config_path = [], ar_repository_token_path = [], ar_registry_secret_path = [], ar_poll_interval = 0,
    ar_resources = default_resource_requirements, ar_mesh = False, ar_load_balancer = False\<rparr>"

definition fleet_catalog :: "catalog_project list" where
  "fleet_catalog = [demo_project_input\<lparr>cp_id := ''shop'', cp_name := ''Shop''\<rparr>, demo_project_input\<lparr>cp_id := ''blog''\<rparr>]"

definition demo_catalog_repo :: repo where
  "demo_catalog_repo =
    [(catalog_path, CCatalog fleet_catalog),
     ([''apps'', ''shop'', ''api'', ''.aods'', ''metadata.yaml''],
       CMetadata (metadata_from_record (fleet_record ''shop__api'' ''api'') [''dev''])),
     ([''apps'', ''shop'', ''web'', ''.aods'', ''metadata.yaml''],
       CMetadata (metadata_from_record (fleet_record ''shop__web'' ''web'') [''dev'']))]"

lemma demo_fleet_places:
  "map_option (map (\<lambda>(p, a). record_place p a)) (case list_projects demo_catalog_repo of
      Inr ps \<Rightarrow> Some (catalog_records demo_catalog_repo ps) | Inl e \<Rightarrow> None) =
    Some [[''shop'', ''Shop'', ''shop__api'', ''api'', ''shop'', ''default''],
      [''shop'', ''Shop'', ''shop__web'', ''web'', ''shop'', ''default'']]"
  by code_simp

lemma demo_overview_run:
  "\<exists>v t. fleet_overview demo_outside demo_decoders [] None demo_root demo_catalog_repo \<lparr>ks_asked = 0\<rparr> = (Inr v, t)"
proof -
  have "admin_allowed demo_root (trimmed_authorities [])" by code_simp
  moreover have "isOk (list_projects demo_catalog_repo)" by code_simp
  then obtain ps where ps: "list_projects demo_catalog_repo = Inr ps" by (cases "list_projects demo_catalog_repo") auto
  moreover have "isOk (bindR (list_projects demo_catalog_repo)
      (all_service_refs (cluster_names demo_catalog_repo) demo_catalog_repo))" by code_simp
  with ps obtain refs where "all_service_refs (cluster_names demo_catalog_repo) demo_catalog_repo ps = Inr refs"
    by (cases "all_service_refs (cluster_names demo_catalog_repo) demo_catalog_repo ps") auto
  ultimately show ?thesis
    by (simp add: fleet_overview_def bindS_def liftR_def clock_now_def ask_kube_def returnS_def)
qed

theorem overview_complete_witness:
  "\<exists>v t. fleet_overview demo_outside demo_decoders [] None demo_root demo_catalog_repo \<lparr>ks_asked = 0\<rparr> = (Inr v, t) \<and>
    mset (map (\<lambda>x. service_place (sy_ref x)) (ov_services v)) =
      {# [''shop'', ''Shop'', ''shop__api'', ''api'', ''shop'', ''default''],
         [''shop'', ''Shop'', ''shop__web'', ''web'', ''shop'', ''default''] #} \<and>
    distinct (map (\<lambda>x. (rf_project (sy_ref x), rf_application (sy_ref x))) (ov_services v)) \<and>
    ov_service_count v = 2 \<and> ov_projects v = 2"
proof -
  obtain v t where run: "fleet_overview demo_outside demo_decoders [] None demo_root demo_catalog_repo \<lparr>ks_asked = 0\<rparr> = (Inr v, t)"
    using demo_overview_run by blast
  from overview_complete [OF run] obtain ps where ps: "list_projects demo_catalog_repo = Inr ps"
    and n: "ov_projects v = int (length ps)" "ov_service_count v = int (length (ov_services v))"
    and places: "mset (map (\<lambda>x. service_place (sy_ref x)) (ov_services v)) =
      mset (map (\<lambda>(p, a). record_place p a) (catalog_records demo_catalog_repo ps))"
    and once: "distinct (map cp_id ps) \<and> (\<forall>p \<in> set ps. distinct (map ar_id (records_of demo_catalog_repo p))) \<longrightarrow>
      distinct (map (\<lambda>x. (rf_project (sy_ref x), rf_application (sy_ref x))) (ov_services v))" by blast
  have two: "length ps = 2"
    using ps by (auto simp: list_projects_iff demo_catalog_repo_def fs_read_def fleet_catalog_def)
  have "(case list_projects demo_catalog_repo of Inl e \<Rightarrow> False | Inr ps \<Rightarrow>
      distinct (map cp_id ps) \<and> list_all (\<lambda>p. distinct (map ar_id (records_of demo_catalog_repo p))) ps)" by code_simp
  then have "distinct (map cp_id ps) \<and> (\<forall>p \<in> set ps. distinct (map ar_id (records_of demo_catalog_repo p)))"
    by (simp add: ps list_all_iff)
  with once have "distinct (map (\<lambda>x. (rf_project (sy_ref x), rf_application (sy_ref x))) (ov_services v))" by blast
  moreover have eq: "mset (map (\<lambda>x. service_place (sy_ref x)) (ov_services v)) =
      {# [''shop'', ''Shop'', ''shop__api'', ''api'', ''shop'', ''default''],
         [''shop'', ''Shop'', ''shop__web'', ''web'', ''shop'', ''default''] #}"
    unfolding places using demo_fleet_places by (simp add: ps)
  moreover have "length (ov_services v) = 2"
    using arg_cong [OF eq, of size] by simp
  ultimately show ?thesis using run n two by auto
qed

end
