(* ===== verification/GoRegex.thy ===== *)
theory GoRegex
  imports GoEncoding
begin

text \<open>
  Regular expressions of package regexp over bytes: the candidates of a match in the order of preference,
  of which the first is the leftmost-first match, and ReplaceAllString. The patterns met here exclude or
  admit only ASCII bytes, so matching bytes and matching runes agree.
\<close>

datatype regex =
    RByte "char \<Rightarrow> bool"
  | RSeq regex regex
  | RAlt regex regex
  | RStar regex
  | REmpty
  | RBoundary
  | RGroup nat regex

definition word_byte :: "char option \<Rightarrow> bool" where
  "word_byte c = (case c of None \<Rightarrow> False
     | Some x \<Rightarrow> in_range 48 57 x \<or> in_range 65 90 x \<or> in_range 97 122 x \<or> x = CHR ''_'')"

definition first_byte :: "string \<Rightarrow> char option" where
  "first_byte s = (case s of [] \<Rightarrow> None | c # _ \<Rightarrow> Some c)"

definition byte_before :: "char option \<Rightarrow> string \<Rightarrow> nat \<Rightarrow> char option" where
  "byte_before prev s n = (if n = 0 then prev else first_byte (drop (n - 1) s))"

text \<open>A candidate is the number of bytes read and the groups read on the way.\<close>

type_synonym candidate = "nat \<times> (nat \<times> string) list"

definition extend_all :: "candidate \<Rightarrow> candidate list \<Rightarrow> candidate list" where
  "extend_all c cs = map (\<lambda>d. (fst c + fst d, snd c @ snd d)) cs"

function matches :: "regex \<Rightarrow> char option \<Rightarrow> string \<Rightarrow> candidate list" where
  "matches (RByte P) prev s = (case s of [] \<Rightarrow> [] | c # _ \<Rightarrow> if P c then [(1, [])] else [])"
| "matches (RSeq a b) prev s =
    concat (map (\<lambda>c. extend_all c (matches b (byte_before prev s (fst c)) (drop (fst c) s))) (matches a prev s))"
| "matches (RAlt a b) prev s = matches a prev s @ matches b prev s"
| "matches (RStar a) prev s =
    concat (map (\<lambda>c. if fst c = 0 \<or> length s < fst c then []
       else extend_all c (matches (RStar a) (byte_before prev s (fst c)) (drop (fst c) s))) (matches a prev s))
    @ [(0, [])]"
| "matches REmpty prev s = [(0, [])]"
| "matches RBoundary prev s = (if word_byte prev \<noteq> word_byte (first_byte s) then [(0, [])] else [])"
| "matches (RGroup k a) prev s = map (\<lambda>c. (fst c, snd c @ [(k, take (fst c) s)])) (matches a prev s)"
  by pat_completeness auto
termination
  by (relation "(\<lambda>(r, p, s). length s) <*mlex*> (\<lambda>(r, p, s). size r) <*mlex*> {}")
    (auto simp: mlex_iff intro: wf_mlex)

function replace_all :: "regex \<Rightarrow> ((nat \<times> string) list \<Rightarrow> string) \<Rightarrow> char option \<Rightarrow> string \<Rightarrow> string" where
  "replace_all r out prev s =
    (case s of
       [] \<Rightarrow> []
     | x # rest \<Rightarrow>
         (case matches r prev s of
            [] \<Rightarrow> x # replace_all r out (Some x) rest
          | (n, groups) # _ \<Rightarrow>
              if n = 0 then x # replace_all r out (Some x) rest
              else out groups @ replace_all r out (byte_before prev s n) (drop n s)))"
  by pat_completeness auto
termination by (relation "measure (\<lambda>(r, out, p, s). length s)") auto

declare replace_all.simps [simp del]

definition group :: "(nat \<times> string) list \<Rightarrow> nat \<Rightarrow> string" where
  "group groups k = (case map_of groups k of None \<Rightarrow> [] | Some t \<Rightarrow> t)"

section \<open>Building patterns\<close>

fun rseq :: "regex list \<Rightarrow> regex" where
  "rseq [] = REmpty"
| "rseq [r] = r"
| "rseq (r # q # rs) = RSeq r (rseq (q # rs))"

fun ralt :: "regex list \<Rightarrow> regex" where
  "ralt [] = RByte (\<lambda>_. False)"
| "ralt [r] = r"
| "ralt (r # q # rs) = RAlt r (ralt (q # rs))"

definition rlit :: "string \<Rightarrow> regex" where
  "rlit s = rseq (map (\<lambda>c. RByte (\<lambda>x. x = c)) s)"

definition rplus :: "regex \<Rightarrow> regex" where
  "rplus r = RSeq r (RStar r)"

text \<open>Under \<open>(?i)\<close> the letters k and s also stand for the Kelvin sign and the long s.\<close>

definition kelvin_sign :: regex where
  "kelvin_sign = rlit [CHR 0xE2, CHR 0x84, CHR 0xAA]"

definition long_s :: regex where
  "long_s = rlit [CHR 0xC5, CHR 0xBF]"

definition fold_byte :: "char \<Rightarrow> regex" where
  "fold_byte c =
    (let same = RByte (\<lambda>x. lower_char x = lower_char c) in
     if lower_char c = CHR ''k'' then RAlt same kelvin_sign
     else if lower_char c = CHR ''s'' then RAlt same long_s else same)"

definition fold_lit :: "string \<Rightarrow> regex" where
  "fold_lit s = rseq (map fold_byte s)"

definition fold_class :: "(char \<Rightarrow> bool) \<Rightarrow> regex" where
  "fold_class P = ralt [RByte P, kelvin_sign, long_s]"

definition regex_space :: "char \<Rightarrow> bool" where
  "regex_space c \<longleftrightarrow> c \<in> {CHR 0x09, CHR 0x0A, CHR 0x0C, CHR 0x0D, CHR '' ''}"

definition letter :: "char \<Rightarrow> bool" where
  "letter c \<longleftrightarrow> in_range 65 90 c \<or> in_range 97 122 c"

definition digit_or_letter :: "char \<Rightarrow> bool" where
  "digit_or_letter c \<longleftrightarrow> letter c \<or> in_range 48 57 c"

end
