(* ===== verification/Web.thy ===== *)
theory Web
  imports GoRegex KubeClient
begin

text \<open>
  Requests and replies (core/http.go): the request identifier, cross-origin headers, JSON bodies, entity
  tags, error bodies and what the log keeps of an error. A handler is a function from the state of the
  server to a reply and the next state. Encoding and decoding of JSON and SHA-256 are parameters.
\<close>

section \<open>Requests, replies and state\<close>

text \<open>The path of a request is decoded; the routes see its escaped form.\<close>

record web_request = http_request +
  wq_escaped :: string
  wq_id :: string
  wq_value :: "string \<Rightarrow> string"
  wq_query :: "string \<Rightarrow> string"
  wq_body :: "string option"
  wq_remote :: string

record error_body =
  eb_code :: string
  eb_message :: string
  eb_details :: jmap
  eb_request_id :: string
  eb_retryable :: bool

text \<open>A reply: a status and a body, the body with its tag, not modified, an error, a redirect, chunks of a stream.\<close>

datatype 'p reply =
    Reply int 'p
  | Tagged int string 'p
  | Unmodified string
  | Failed int error_body
  | NoContent
  | Redirected string
  | Streamed "string list"

datatype log_level = LogWarn | LogError

record log_entry =
  lg_level :: log_level
  lg_text :: string
  lg_request_id :: string
  lg_method :: string
  lg_path :: string
  lg_status :: int
  lg_code :: string
  lg_message :: string
  lg_retryable :: bool
  lg_remote :: string
  lg_details :: jmap

record web_state =
  ws_identity :: identity_state
  ws_server :: server
  ws_kube :: kube_state
  ws_log :: "log_entry list"

type_synonym 'p web = "web_state \<Rightarrow> 'p reply \<times> web_state"

section \<open>What the log keeps\<close>

definition url_credential_pattern :: regex where
  "url_credential_pattern =
    rseq [RGroup 1 (rseq [fold_class letter, RStar (fold_class (\<lambda>c. digit_or_letter c \<or> c \<in> set ''+.-'')), rlit ''://'']),
      RGroup 2 (rplus (RByte (\<lambda>c. \<not> regex_space c \<and> c \<notin> set ''/:@''))), rlit '':'',
      RGroup 3 (rplus (RByte (\<lambda>c. \<not> regex_space c \<and> c \<notin> set ''@/''))), rlit ''@'']"

definition query_secret_pattern :: regex where
  "query_secret_pattern =
    rseq [RGroup 1 (rseq [RByte (\<lambda>c. c \<in> set ''?&''),
        ralt (map fold_lit [''access_token'', ''client_secret'', ''id_token'', ''password'', ''refresh_token'',
          ''secret'', ''token'']), rlit ''='']),
      rplus (RByte (\<lambda>c. \<not> regex_space c \<and> c \<noteq> CHR ''&''))]"

definition bearer_token_pattern :: regex where
  "bearer_token_pattern =
    rseq [RBoundary, fold_lit ''Bearer'', rplus (RByte regex_space),
      rplus (fold_class (\<lambda>c. digit_or_letter c \<or> c \<in> set ''._~+/-=''))]"

definition known_token_pattern :: regex where
  "known_token_pattern =
    ralt [rseq [RBoundary, ralt (map rlit [''ghp'', ''gho'', ''ghu'', ''ghs'', ''ghr'']), rlit ''_'',
        rplus (RByte (\<lambda>c. digit_or_letter c \<or> c = CHR ''_''))],
      rseq [RBoundary, rlit ''github_pat_'', rplus (RByte (\<lambda>c. digit_or_letter c \<or> c = CHR ''_''))],
      rseq [RBoundary, rlit ''hvs.'', rplus (RByte (\<lambda>c. digit_or_letter c \<or> c \<in> set ''._-''))]]"

definition redact_log_string :: "string \<Rightarrow> string" where
  "redact_log_string value =
    (let a = replace_all url_credential_pattern (\<lambda>g. group g 1 @ group g 2 @ '':<redacted>@'') None value;
         b = replace_all query_secret_pattern (\<lambda>g. group g 1 @ ''<redacted>'') None a;
         c = replace_all bearer_token_pattern (\<lambda>_. ''Bearer <redacted>'') None b
     in replace_all known_token_pattern (\<lambda>_. ''<redacted>'') None c)"

definition truncate_log_string :: "string \<Rightarrow> string" where
  "truncate_log_string value = (if length value \<le> 2048 then value else take 2048 value @ ''...<truncated>'')"

definition is_sensitive_log_key :: "string \<Rightarrow> bool" where
  "is_sensitive_log_key key \<longleftrightarrow>
    (let k = to_lower (filter (\<lambda>c. c \<noteq> CHR ''_'') (trim_space key)) in
     k \<in> {''authorization'', ''bearer'', ''clientsecret'', ''dockerconfigjson'', ''idtoken'', ''password'',
        ''refreshtoken'', ''secret'', ''token''} \<or> suffix ''password'' k \<or> suffix ''token'' k)"

definition sanitize_log_value :: "jval \<Rightarrow> jval" where
  "sanitize_log_value value =
    (case value of
       JStr s \<Rightarrow> JStr (truncate_log_string (redact_log_string s))
     | JStrs items \<Rightarrow> JStrs (map (\<lambda>s. truncate_log_string (redact_log_string s)) items)
     | _ \<Rightarrow> value)"

definition sanitize_log_details :: "jmap \<Rightarrow> jmap" where
  "sanitize_log_details details =
    map (\<lambda>(k, v). (k, if is_sensitive_log_key k then JStr ''<redacted>'' else sanitize_log_value v)) details"

definition log_http_error ::
  "web_request \<Rightarrow> int \<Rightarrow> string \<Rightarrow> string \<Rightarrow> jmap \<Rightarrow> bool \<Rightarrow> log_entry list" where
  "log_http_error r status code message details retryable =
    (if status < 400 then []
     else [\<lparr>lg_level = (if 500 \<le> status then LogError else LogWarn),
        lg_text = (if 500 \<le> status then ''api request failed'' else ''api request rejected''),
        lg_request_id = wq_id r, lg_method = rq_method r, lg_path = rq_path r, lg_status = status, lg_code = code,
        lg_message = message, lg_retryable = retryable, lg_remote = wq_remote r,
        lg_details = sanitize_log_details details\<rparr>])"

section \<open>Writing replies\<close>

definition write_error ::
  "web_request \<Rightarrow> int \<Rightarrow> string \<Rightarrow> string \<Rightarrow> jmap \<Rightarrow> bool \<Rightarrow> 'p web" where
  "write_error r status code message details retryable s =
    (Failed status \<lparr>eb_code = code, eb_message = message, eb_details = details, eb_request_id = wq_id r,
       eb_retryable = retryable\<rparr>,
     s\<lparr>ws_log := ws_log s @ log_http_error r status code message details retryable\<rparr>)"

definition write_json :: "int \<Rightarrow> 'p \<Rightarrow> 'p web" where
  "write_json status body s = (Reply status body, s)"

definition response_etag :: "(string \<Rightarrow> string) \<Rightarrow> string \<Rightarrow> string" where
  "response_etag sha256_hex payload = CHR 0x22 # sha256_hex payload @ [CHR 0x22]"

definition weak_etag_value :: "string \<Rightarrow> string" where
  "weak_etag_value etag = trim_prefix ''W/'' (trim_space etag)"

definition if_none_match_contains :: "string list \<Rightarrow> string \<Rightarrow> bool" where
  "if_none_match_contains values etag \<longleftrightarrow>
    list_ex (\<lambda>value. list_ex (\<lambda>c. let candidate = trim_space c in
        candidate \<noteq> [] \<and> (candidate = ''*'' \<or> weak_etag_value candidate = weak_etag_value etag))
      (split_on (CHR '','') value)) values"

definition write_conditional_json ::
  "(string \<Rightarrow> string) \<Rightarrow> ('p \<Rightarrow> string option) \<Rightarrow> web_request \<Rightarrow> int \<Rightarrow> 'p \<Rightarrow> 'p web" where
  "write_conditional_json sha256_hex marshal r status body s =
    (case marshal body of
       None \<Rightarrow> write_json status body s
     | Some text \<Rightarrow>
         let etag = response_etag sha256_hex (text @ [CHR 0x0A]) in
         if status = 200 \<and> if_none_match_contains (rq_headers r ''If-None-Match'') etag
         then (Unmodified etag, s) else (Tagged status etag body, s))"

text \<open>The decoder reads one value, unknown fields refused, and tells whether more follows.\<close>

definition decode_json :: "(string \<Rightarrow> (string, 'b \<times> bool) result) \<Rightarrow> string option \<Rightarrow> (string, 'b) result" where
  "decode_json decode body =
    (case body of
       None \<Rightarrow> Inl ''request body is required''
     | Some text \<Rightarrow> (case decode text of
         Inl e \<Rightarrow> Inl e
       | Inr (v, trailing) \<Rightarrow>
           if trailing then Inl ''request body must contain a single JSON object'' else Inr v))"

section \<open>Request identifiers and cross-origin headers\<close>

definition pad_left :: "nat \<Rightarrow> string \<Rightarrow> string" where
  "pad_left n s = replicate (n - length s) (CHR ''0'') @ s"

definition request_id_of :: "http_request \<Rightarrow> int \<Rightarrow> nat \<Rightarrow> string" where
  "request_id_of r millis sequence =
    (if header_get r ''X-Request-Id'' \<noteq> [] then header_get r ''X-Request-Id''
     else ''req_'' @ show_int millis @ ''_'' @ pad_left 6 (show_nat sequence))"

definition parse_allowed_origins :: "string \<Rightarrow> string list" where
  "parse_allowed_origins value =
    (let origins = filter (\<lambda>p. p \<noteq> []) (map trim_space (split_on (CHR '','') value))
     in if origins = [] then [''*''] else origins)"

definition is_loopback_origin :: "string \<Rightarrow> bool" where
  "is_loopback_origin value =
    (case url_parse value of
       None \<Rightarrow> False
     | Some u \<Rightarrow> url_scheme u \<in> {''http'', ''https''} \<and>
         trim_space (url_hostname u) \<in> {''localhost'', ''127.0.0.1''})"

fun first_allowed :: "string \<Rightarrow> string list \<Rightarrow> string option" where
  "first_allowed origin [] = None"
| "first_allowed origin (c # cs) =
    (if c = ''*'' then Some ''*'' else if c = origin then Some origin else first_allowed origin cs)"

definition select_cors_origin :: "string \<Rightarrow> string list \<Rightarrow> bool \<Rightarrow> string option" where
  "select_cors_origin request_origin configured allow_dev_fallback =
    (let origin = trim_space request_origin in
     if origin = [] then (if ''*'' \<in> set configured then Some ''*'' else None)
     else case first_allowed origin configured of
       Some o' \<Rightarrow> Some o'
     | None \<Rightarrow> if allow_dev_fallback \<and> is_loopback_origin origin then Some origin else None)"

definition cors_headers :: "string \<Rightarrow> bool \<Rightarrow> http_request \<Rightarrow> (string \<times> string) list" where
  "cors_headers allowed_origin allow_dev_fallback r =
    (case select_cors_origin (header_get r ''Origin'') (parse_allowed_origins allowed_origin) allow_dev_fallback of
       None \<Rightarrow> [] | Some origin \<Rightarrow> [(''Access-Control-Allow-Origin'', origin)]) @
    [(''Vary'', ''Origin''), (''Vary'', ''Access-Control-Request-Headers''), (''Vary'', ''Access-Control-Request-Method''),
     (''Access-Control-Allow-Headers'', ''Content-Type, Authorization, If-None-Match, X-AODS-User-Id, X-AODS-Username, X-AODS-Display-Name, X-AODS-Groups, X-Request-Id''),
     (''Access-Control-Allow-Methods'', ''GET, POST, PATCH, DELETE, OPTIONS''),
     (''Access-Control-Expose-Headers'', ''ETag, X-Request-Id'')]"

definition with_cors :: "http_request \<Rightarrow> 'p web \<Rightarrow> 'p web" where
  "with_cors r next s = (if rq_method r = ''OPTIONS'' then (NoContent, s) else next s)"

end
