(* ===== verification/WebHandlers.thy ===== *)
theory WebHandlers
  imports Web FleetOverview AppSecrets AppHealth Poller ChangeFlow
begin

text \<open>
  The handlers of the packages core, project, cluster, change, admin and application (identity.go and the
  files http.go): who asks, what the body holds, which operation of the service runs, and which status and
  code an error becomes. Every body a handler sends is a value of \<open>payload\<close>.
\<close>

section \<open>Bodies and tools\<close>

datatype payload =
    PUser user
  | PClusters "cluster list"
  | PCluster cluster
  | POverview overview
  | PProjects "project_summary list"
  | PProject project_summary
  | PProjectLifecycle project_lifecycle
  | PEnvironments "environment list"
  | PRepositories "repository_summary list"
  | PPolicies policy_set
  | PChange change_record
  | PApplications "app_summary list"
  | PHealth "string \<times> int \<times> health_snapshot list"
  | PApplication application
  | PPreview repository_preview
  | PImageAccess image_access
  | PDeployment deployment_response
  | PSecrets secrets_response
  | PSecretVersions secret_versions_response
  | PLifecycle lifecycle_response
  | PSyncStatus sync_status_response
  | PRepositorySync repository_sync
  | PExposure exposure_response
  | PMetrics "string \<times> metric_series list"
  | PDiagnostics diagnostics_response
  | PLogs logs_response
  | PLogTargets "string \<times> int \<times> log_target list"
  | PDeployments "string \<times> deployment_record list"
  | PDeploymentRecord deployment_record
  | PRollbackPolicy rollback_policy
  | PEvents "string \<times> app_event list"
  | PHealthy

text \<open>A decoder gives the value and whether more follows it.\<close>

record web_tools =
  wt_identity :: identity_tools
  wt_users :: user_provider
  wt_sha256 :: "string \<Rightarrow> string"
  wt_marshal :: "payload \<Rightarrow> string option"
  wt_cluster :: "string \<Rightarrow> (string, cluster \<times> bool) result"
  wt_project :: "string \<Rightarrow> (string, catalog_project \<times> bool) result"
  wt_policies :: "string \<Rightarrow> (string, policy_set \<times> bool) result"
  wt_change :: "string \<Rightarrow> (string, change_request \<times> bool) result"
  wt_create :: "string \<Rightarrow> (string, create_request \<times> bool) result"
  wt_image :: "string \<Rightarrow> (string, (string \<times> string \<times> string \<times> string) \<times> bool) result"
  wt_deployment :: "string \<Rightarrow> (string, (string \<times> string) \<times> bool) result"
  wt_update :: "string \<Rightarrow> (string, update_request \<times> bool) result"
  wt_secrets :: "string \<Rightarrow> (string, (secret_entry list \<times> string list) \<times> bool) result"
  wt_rollback :: "string \<Rightarrow> (string, rollback_policy \<times> bool) result"

record web_services =
  wv_app :: app_service
  wv_kube :: kube_outside
  wv_decoders :: kube_decoders
  wv_overview :: "overview_source option"
  wv_flushes :: bool

section \<open>Steps of a handler\<close>

definition with_user :: "web_tools \<Rightarrow> web_request \<Rightarrow> (user \<Rightarrow> 'p web) \<Rightarrow> 'p web" where
  "with_user wt r next s =
    (case current_user (wt_identity wt) (wt_users wt) (http_request.truncate r) (ws_identity s) of
       (answer, ident) \<Rightarrow>
         let t = s\<lparr>ws_identity := ident\<rparr> in
         case answer of
           Inr u \<Rightarrow> next u t
         | Inl e \<Rightarrow>
             if errors_is e ErrUnauthorized then
               write_error r 401 ''UNAUTHORIZED'' ''Authentication is required.'' [] False t
             else write_error r 500 ''AUTH_PROVIDER_ERROR'' ''Could not resolve the current user.'' [] True t)"

definition with_body ::
  "(string \<Rightarrow> (string, 'b \<times> bool) result) \<Rightarrow> web_request \<Rightarrow> ('b \<Rightarrow> 'p web) \<Rightarrow> 'p web" where
  "with_body decode r next s =
    (case decode_json decode (wq_body r) of
       Inl e \<Rightarrow> write_error r 400 ''INVALID_REQUEST'' ''Request body is invalid.'' [(''error'', JStr e)] False s
     | Inr v \<Rightarrow> next v s)"

text \<open>An operation of the service, then the reply to its error or to its value.\<close>

definition running ::
  "'a handler \<Rightarrow> (go_error \<Rightarrow> 'p web) \<Rightarrow> ('a \<Rightarrow> 'p web) \<Rightarrow> 'p web" where
  "running m failing done s =
    (case m (ws_server s) of
       (answer, server) \<Rightarrow>
         let t = s\<lparr>ws_server := server\<rparr> in
         case answer of Inl e \<Rightarrow> failing e t | Inr x \<Rightarrow> done x t)"

text \<open>The same with the readers of the cluster.\<close>

definition asking ::
  "(server \<Rightarrow> (unit, 'a) kube) \<Rightarrow> (go_error \<Rightarrow> 'p web) \<Rightarrow> ('a \<Rightarrow> 'p web) \<Rightarrow> 'p web" where
  "asking m failing done s =
    (case m (ws_server s) (ws_kube s) of
       (answer, kube) \<Rightarrow>
         let t = s\<lparr>ws_kube := kube\<rparr> in
         case answer of Inl e \<Rightarrow> failing e t | Inr x \<Rightarrow> done x t)"

definition tagged :: "web_tools \<Rightarrow> web_request \<Rightarrow> payload \<Rightarrow> payload web" where
  "tagged wt r body = write_conditional_json (wt_sha256 wt) (wt_marshal wt) r 200 body"

definition value_entry :: "web_request \<Rightarrow> string \<Rightarrow> string \<times> jval" where
  "value_entry r key = (key, JStr (wq_value r key))"

definition unexpected :: "web_request \<Rightarrow> string \<Rightarrow> string \<Rightarrow> go_error \<Rightarrow> 'p web" where
  "unexpected r code text e = write_error r 500 code text [(''error'', JStr (error_text e))] True"

section \<open>Errors of each package\<close>

definition app_error :: "web_request \<Rightarrow> go_error \<Rightarrow> 'p web" where
  "app_error r e =
    (case root_cause e of
       ValidationError text details \<Rightarrow> write_error r 400 ''INVALID_REQUEST'' text details False
     | ImageValidationError code text img registry \<Rightarrow>
         write_error r 400 code text [(''image'', JStr img), (''registry'', JStr registry)] False
     | ErrProjectForbidden \<Rightarrow>
         write_error r 403 ''FORBIDDEN'' ''You do not have permission to perform this action.'' [] False
     | ErrRequiresDeployer \<Rightarrow>
         write_error r 403 ''FORBIDDEN'' ''You do not have permission to perform this action.'' [] False
     | ErrRequiresAdmin \<Rightarrow>
         write_error r 403 ''FORBIDDEN'' ''You do not have permission to perform this action.'' [] False
     | ErrChangeRequired \<Rightarrow>
         write_error r 409 ''CHANGE_REVIEW_REQUIRED''
           ''Direct mutation is disabled for this environment. Create a reviewed change instead.''
           [value_entry r ''applicationId''] False
     | ErrProjectNotFound \<Rightarrow>
         write_error r 404 ''PROJECT_NOT_FOUND'' ''Project was not found.'' [value_entry r ''projectId''] False
     | ErrInvalidID \<Rightarrow>
         write_error r 404 ''APPLICATION_NOT_FOUND'' ''Application was not found.'' [value_entry r ''applicationId''] False
     | ErrNotFound \<Rightarrow>
         write_error r 404 ''APPLICATION_NOT_FOUND'' ''Application was not found.'' [value_entry r ''applicationId''] False
     | ErrArchived \<Rightarrow>
         write_error r 404 ''APPLICATION_NOT_FOUND'' ''Application was not found.'' [value_entry r ''applicationId''] False
     | ErrDeploymentNotFound \<Rightarrow>
         write_error r 404 ''DEPLOYMENT_NOT_FOUND'' ''Deployment was not found.''
           [value_entry r ''applicationId'', value_entry r ''deploymentId''] False
     | ErrConflict \<Rightarrow>
         write_error r 409 ''DUPLICATE_APPLICATION'' ''An application with this name already exists.''
           [value_entry r ''projectId''] False
     | ErrAlreadyArchived \<Rightarrow>
         write_error r 409 ''APPLICATION_ALREADY_ARCHIVED'' ''Application is already archived.''
           [value_entry r ''applicationId''] False
     | _ \<Rightarrow> unexpected r ''INTEGRATION_ERROR'' ''An unexpected integration error occurred.'' e)"

definition project_error :: "web_request \<Rightarrow> go_error \<Rightarrow> 'p web" where
  "project_error r e =
    (case root_cause e of
       ProjectValidationError text details \<Rightarrow> write_error r 400 ''INVALID_REQUEST'' text details False
     | ProtectedProjectError pid namespace reason \<Rightarrow>
         write_error r 400 ''PROJECT_DELETE_PROTECTED'' ''Shared namespace projects cannot be deleted.''
           [(''projectId'', JStr pid), (''namespace'', JStr namespace), (''reason'', JStr reason)] False
     | ErrProjectForbidden \<Rightarrow>
         write_error r 403 ''FORBIDDEN'' ''You do not have permission to access this project.'' [] False
     | ErrProjectConflict \<Rightarrow>
         write_error r 409 ''PROJECT_ALREADY_EXISTS'' ''A project with this id already exists.'' [] False
     | ErrProjectNotFound \<Rightarrow>
         write_error r 404 ''PROJECT_NOT_FOUND'' ''Project was not found.'' [value_entry r ''projectId''] False
     | _ \<Rightarrow> unexpected r ''PROJECT_CATALOG_WRITE_FAILED'' ''Could not update the project catalog.'' e)"

definition project_list_error :: "web_request \<Rightarrow> go_error \<Rightarrow> 'p web" where
  "project_list_error r e =
    (case root_cause e of
       CatalogNotFoundError p \<Rightarrow>
         write_error r 500 ''PROJECT_CATALOG_NOT_BOOTSTRAPPED'' ''Project catalog is missing from the GitOps repository.''
           [(''path'', JStr p),
            (''hint'', JStr ''Seed platform/projects.yaml in the GitOps repository before enabling git mode.'')] False
     | _ \<Rightarrow> unexpected r ''PROJECT_CATALOG_READ_FAILED'' ''Could not read the project catalog.'' e)"

text \<open>The switch on the type of the error does not look through a wrapping.\<close>

definition cluster_error :: "web_request \<Rightarrow> string \<Rightarrow> go_error \<Rightarrow> 'p web" where
  "cluster_error r cid e =
    (case e of
       ClusterValidationError text details \<Rightarrow> write_error r 400 ''INVALID_CLUSTER_REQUEST'' text details False
     | _ \<Rightarrow>
         if errors_is e ErrClusterForbidden then
           write_error r 403 ''FORBIDDEN'' ''Platform admin permissions are required.'' [] False
         else if errors_is e ErrClusterConflict then
           write_error r 409 ''CLUSTER_CONFLICT'' ''Cluster already exists.'' [(''id'', JStr cid)] False
         else unexpected r ''CLUSTER_CATALOG_WRITE_FAILED'' ''Could not update the cluster catalog.'' e)"

definition change_error :: "web_request \<Rightarrow> go_error \<Rightarrow> 'p web" where
  "change_error r e =
    (case root_cause e of
       ErrProjectForbidden \<Rightarrow>
         write_error r 403 ''FORBIDDEN'' ''You do not have permission to perform this action.'' [] False
     | ErrRequiresDeployer \<Rightarrow>
         write_error r 403 ''FORBIDDEN'' ''You do not have permission to perform this action.'' [] False
     | ErrRequiresAdmin \<Rightarrow>
         write_error r 403 ''FORBIDDEN'' ''You do not have permission to perform this action.'' [] False
     | ImageValidationError code text img registry \<Rightarrow>
         write_error r 400 code text [(''image'', JStr img), (''registry'', JStr registry)] False
     | ErrInvalidOperation \<Rightarrow>
         write_error r 400 ''INVALID_REQUEST'' ''Change request is invalid.'' [(''error'', JStr (error_text e))] False
     | ErrProjectNotFound \<Rightarrow>
         write_error r 404 ''PROJECT_NOT_FOUND'' ''Project was not found.'' [value_entry r ''projectId''] False
     | ErrChangeNotFound \<Rightarrow>
         write_error r 404 ''CHANGE_NOT_FOUND'' ''Change was not found.'' [value_entry r ''changeId''] False
     | ErrSubmissionRequired \<Rightarrow>
         write_error r 409 ''CHANGE_SUBMISSION_REQUIRED'' ''This change must be submitted before continuing.''
           [value_entry r ''changeId''] False
     | ErrApprovalRequired \<Rightarrow>
         write_error r 409 ''CHANGE_APPROVAL_REQUIRED'' ''This change must be approved before merge.''
           [value_entry r ''changeId''] False
     | ErrStateConflict \<Rightarrow>
         write_error r 409 ''CHANGE_STATE_CONFLICT'' ''This change cannot perform that transition in its current state.''
           [value_entry r ''changeId''] False
     | _ \<Rightarrow> unexpected r ''CHANGE_PROCESSING_FAILED'' ''Could not process the change.'' e)"

definition admin_error :: "web_request \<Rightarrow> go_error \<Rightarrow> 'p web" where
  "admin_error r e =
    (if errors_is e ErrAdminForbidden then
       write_error r 403 ''FORBIDDEN'' ''Platform admin permissions are required.'' [] False
     else unexpected r ''ADMIN_RESOURCE_OVERVIEW_FAILED'' ''Could not calculate the fleet resource overview.'' e)"

section \<open>Parameters of a request\<close>

definition parse_tail_lines :: "web_request \<Rightarrow> (int \<Rightarrow> 'p web) \<Rightarrow> 'p web" where
  "parse_tail_lines r next =
    (if wq_query r ''tailLines'' = [] then next 120
     else case atoi (wq_query r ''tailLines'') of
       Some n \<Rightarrow> next n
     | None \<Rightarrow> write_error r 400 ''INVALID_REQUEST'' ''tailLines must be a valid integer.''
         [(''field'', JStr ''tailLines'')] False)"

definition query_duration :: "web_request \<Rightarrow> string \<Rightarrow> int \<Rightarrow> int" where
  "query_duration r key fallback =
    (if wq_query r key = [] then fallback
     else case parse_duration (wq_query r key) of Inr d \<Rightarrow> d | Inl _ \<Rightarrow> fallback)"

definition parse_metric_window :: "web_request \<Rightarrow> int \<times> int" where
  "parse_metric_window r = (query_duration r ''range'' (15 * minute), query_duration r ''step'' minute)"

section \<open>Handlers\<close>

definition get_me :: "web_tools \<Rightarrow> web_request \<Rightarrow> payload web" where
  "get_me wt r = with_user wt r (\<lambda>u. write_json 200 (PUser u))"

text \<open>The list of clusters asks nobody who they are.\<close>

definition handle_list_clusters :: "web_tools \<Rightarrow> web_request \<Rightarrow> payload web" where
  "handle_list_clusters wt r =
    running (readS (\<lambda>s. cluster_service_list (pf_repo s)))
      (unexpected r ''CLUSTER_CATALOG_READ_FAILED'' ''Could not read the cluster catalog.'')
      (\<lambda>items. tagged wt r (PClusters items))"

definition handle_create_cluster :: "web_tools \<Rightarrow> web_services \<Rightarrow> web_request \<Rightarrow> payload web" where
  "handle_create_cluster wt wv r =
    with_user wt r (\<lambda>u. with_body (wt_cluster wt) r (\<lambda>c.
      running (on_repo (cluster_service_create (sv_flux (fs_projects (wv_app wv))) (sv_admins (fs_projects (wv_app wv))) u c))
        (cluster_error r (cl_id c)) (\<lambda>x. write_json 201 (PCluster x))))"

definition handle_overview :: "web_tools \<Rightarrow> web_services \<Rightarrow> web_request \<Rightarrow> payload web" where
  "handle_overview wt wv r =
    with_user wt r (\<lambda>u.
      asking (\<lambda>v. fleet_overview (wv_kube wv) (wv_decoders wv) (sv_admins (fs_projects (wv_app wv))) (wv_overview wv) u
          (pf_repo v))
        (admin_error r) (\<lambda>x. write_json 200 (POverview x)))"

definition handle_list_projects :: "web_tools \<Rightarrow> web_services \<Rightarrow> web_request \<Rightarrow> payload web" where
  "handle_list_projects wt wv r =
    with_user wt r (\<lambda>u. running (readS (\<lambda>s. list_authorized (fs_projects (wv_app wv)) u (pf_repo s)))
      (project_list_error r) (\<lambda>items. tagged wt r (PProjects items)))"

definition handle_create_project :: "web_tools \<Rightarrow> web_services \<Rightarrow> web_request \<Rightarrow> payload web" where
  "handle_create_project wt wv r =
    with_user wt r (\<lambda>u. with_body (wt_project wt) r (\<lambda>p.
      running (create_project (fs_projects (wv_app wv)) u p) (project_error r) (\<lambda>x. write_json 201 (PProject x))))"

definition handle_delete_project :: "web_tools \<Rightarrow> web_services \<Rightarrow> web_request \<Rightarrow> payload web" where
  "handle_delete_project wt wv r =
    with_user wt r (\<lambda>u.
      running (bindS (now_utc (wv_app wv)) (\<lambda>now. delete_project (fs_projects (wv_app wv)) now u (wq_value r ''projectId'')))
        (project_error r) (\<lambda>x. write_json 200 (PProjectLifecycle x)))"

definition handle_list_environments :: "web_tools \<Rightarrow> web_services \<Rightarrow> web_request \<Rightarrow> payload web" where
  "handle_list_environments wt wv r =
    with_user wt r (\<lambda>u.
      running (readS (\<lambda>s. list_environments (fs_projects (wv_app wv)) u (wq_value r ''projectId'') (pf_repo s)))
        (project_error r) (\<lambda>x. tagged wt r (PEnvironments x)))"

definition handle_list_repositories :: "web_tools \<Rightarrow> web_services \<Rightarrow> web_request \<Rightarrow> payload web" where
  "handle_list_repositories wt wv r =
    with_user wt r (\<lambda>u.
      running (readS (\<lambda>s. list_repositories (fs_projects (wv_app wv)) u (wq_value r ''projectId'') (pf_repo s)))
        (project_error r) (\<lambda>x. tagged wt r (PRepositories x)))"

definition handle_get_policies :: "web_tools \<Rightarrow> web_services \<Rightarrow> web_request \<Rightarrow> payload web" where
  "handle_get_policies wt wv r =
    with_user wt r (\<lambda>u.
      running (readS (\<lambda>s. get_policies (fs_projects (wv_app wv)) u (wq_value r ''projectId'') (pf_repo s)))
        (project_error r) (\<lambda>x. tagged wt r (PPolicies x)))"

definition handle_update_policies :: "web_tools \<Rightarrow> web_services \<Rightarrow> web_request \<Rightarrow> payload web" where
  "handle_update_policies wt wv r =
    with_user wt r (\<lambda>u. with_body (wt_policies wt) r (\<lambda>p.
      running (update_policies (fs_projects (wv_app wv)) u (wq_value r ''projectId'') p)
        (project_error r) (\<lambda>x. write_json 200 (PPolicies x))))"

definition handle_create_change :: "web_tools \<Rightarrow> web_services \<Rightarrow> web_request \<Rightarrow> payload web" where
  "handle_create_change wt wv r =
    with_user wt r (\<lambda>u. with_body (wt_change wt) r (\<lambda>q.
      running (create_change (wv_app wv) u (wq_value r ''projectId'') q (wq_id r))
        (change_error r) (\<lambda>x. write_json 201 (PChange x))))"

definition handle_get_change :: "web_tools \<Rightarrow> web_services \<Rightarrow> web_request \<Rightarrow> payload web" where
  "handle_get_change wt wv r =
    with_user wt r (\<lambda>u.
      running (readS (\<lambda>s. bindR (get_change (wv_app wv) u (wq_value r ''changeId'') s) (\<lambda>(c, _). Inr c)))
        (change_error r) (\<lambda>x. write_json 200 (PChange x)))"

definition change_step ::
  "(app_service \<Rightarrow> user \<Rightarrow> string \<Rightarrow> change_record handler) \<Rightarrow> web_tools \<Rightarrow> web_services \<Rightarrow> web_request \<Rightarrow> payload web" where
  "change_step operation wt wv r =
    with_user wt r (\<lambda>u. running (operation (wv_app wv) u (wq_value r ''changeId''))
      (change_error r) (\<lambda>x. write_json 200 (PChange x)))"

text \<open>A handler of package application, by what it runs and how it replies.\<close>

definition app_handler ::
  "web_tools \<Rightarrow> web_request \<Rightarrow> (user \<Rightarrow> 'a handler) \<Rightarrow> ('a \<Rightarrow> payload web) \<Rightarrow> payload web" where
  "app_handler wt r operation reply = with_user wt r (\<lambda>u. running (operation u) (app_error r) reply)"

definition app_body_handler ::
  "web_tools \<Rightarrow> web_request \<Rightarrow> (string \<Rightarrow> (string, 'b \<times> bool) result) \<Rightarrow> (user \<Rightarrow> 'b \<Rightarrow> 'a handler) \<Rightarrow>
    ('a \<Rightarrow> payload web) \<Rightarrow> payload web" where
  "app_body_handler wt r decode operation reply =
    with_user wt r (\<lambda>u. with_body decode r (\<lambda>b. running (operation u b) (app_error r) reply))"

end
