(* ===== verification/WebServer.thy ===== *)
theory WebServer
  imports WebHandlers
begin

text \<open>
  The handlers of package application and the whole server (application/http.go, server/server.go): the
  table of routes, the choice of a route as http.ServeMux makes it, and the wrapping with the request
  identifier and the cross-origin headers.
\<close>

section \<open>Handlers of package application\<close>

definition handle_list_applications :: "web_tools \<Rightarrow> web_services \<Rightarrow> web_request \<Rightarrow> payload web" where
  "handle_list_applications wt wv r =
    app_handler wt r (\<lambda>u. list_app_summaries (wv_app wv) u (wq_value r ''projectId''))
      (\<lambda>x. tagged wt r (PApplications x))"

definition handle_project_health :: "web_tools \<Rightarrow> web_services \<Rightarrow> web_request \<Rightarrow> payload web" where
  "handle_project_health wt wv r =
    app_handler wt r (\<lambda>u. get_project_health (wv_app wv) u (wq_value r ''projectId''))
      (\<lambda>x. write_json 200 (PHealth x))"

definition handle_get_secrets :: "web_tools \<Rightarrow> web_services \<Rightarrow> web_request \<Rightarrow> payload web" where
  "handle_get_secrets wt wv r =
    app_handler wt r (\<lambda>u. get_application_secrets (wv_app wv) u (wq_value r ''applicationId''))
      (\<lambda>x. tagged wt r (PSecrets x))"

definition handle_secret_versions :: "web_tools \<Rightarrow> web_services \<Rightarrow> web_request \<Rightarrow> payload web" where
  "handle_secret_versions wt wv r =
    app_handler wt r (\<lambda>u. list_secret_versions (wv_app wv) u (wq_value r ''applicationId''))
      (\<lambda>x. tagged wt r (PSecretVersions x))"

definition handle_archive :: "web_tools \<Rightarrow> web_services \<Rightarrow> web_request \<Rightarrow> payload web" where
  "handle_archive wt wv r =
    app_handler wt r (\<lambda>u. archive_application (wv_app wv) u (wq_value r ''applicationId''))
      (\<lambda>x. write_json 200 (PLifecycle x))"

definition handle_delete_application :: "web_tools \<Rightarrow> web_services \<Rightarrow> web_request \<Rightarrow> payload web" where
  "handle_delete_application wt wv r =
    app_handler wt r (\<lambda>u. delete_application (wv_app wv) u (wq_value r ''applicationId''))
      (\<lambda>x. write_json 200 (PLifecycle x))"

definition handle_sync_status :: "web_tools \<Rightarrow> web_services \<Rightarrow> web_request \<Rightarrow> payload web" where
  "handle_sync_status wt wv r =
    app_handler wt r (\<lambda>u. get_sync_status (wv_app wv) u (wq_value r ''applicationId''))
      (\<lambda>x. write_json 200 (PSyncStatus x))"

definition handle_sync_now :: "web_tools \<Rightarrow> web_services \<Rightarrow> web_request \<Rightarrow> payload web" where
  "handle_sync_now wt wv r =
    app_handler wt r (\<lambda>u. sync_repository_on_request (wv_app wv) u (wq_value r ''applicationId''))
      (\<lambda>x. write_json 200 (PRepositorySync x))"

definition handle_network_exposure :: "web_tools \<Rightarrow> web_services \<Rightarrow> web_request \<Rightarrow> payload web" where
  "handle_network_exposure wt wv r =
    app_handler wt r (\<lambda>u. get_network_exposure (wv_app wv) u (wq_value r ''applicationId''))
      (\<lambda>x. write_json 200 (PExposure x))"

definition handle_metrics :: "web_tools \<Rightarrow> web_services \<Rightarrow> web_request \<Rightarrow> payload web" where
  "handle_metrics wt wv r =
    app_handler wt r (\<lambda>u. get_metrics (wv_app wv) u (wq_value r ''applicationId'')
      (fst (parse_metric_window r)) (snd (parse_metric_window r)))
      (\<lambda>x. write_json 200 (PMetrics x))"

definition handle_metrics_diagnostics :: "web_tools \<Rightarrow> web_services \<Rightarrow> web_request \<Rightarrow> payload web" where
  "handle_metrics_diagnostics wt wv r =
    app_handler wt r (\<lambda>u. get_metrics_diagnostics (wv_app wv) u (wq_value r ''applicationId'')
      (fst (parse_metric_window r)) (snd (parse_metric_window r)))
      (\<lambda>x. write_json 200 (PDiagnostics x))"

definition handle_log_targets :: "web_tools \<Rightarrow> web_services \<Rightarrow> web_request \<Rightarrow> payload web" where
  "handle_log_targets wt wv r =
    app_handler wt r (\<lambda>u. get_container_log_targets (wv_app wv) u (wq_value r ''applicationId''))
      (\<lambda>x. write_json 200 (PLogTargets x))"

definition handle_list_deployments :: "web_tools \<Rightarrow> web_services \<Rightarrow> web_request \<Rightarrow> payload web" where
  "handle_list_deployments wt wv r =
    app_handler wt r (\<lambda>u. list_app_deployments (wv_app wv) u (wq_value r ''applicationId''))
      (\<lambda>x. tagged wt r (PDeployments x))"

definition handle_get_deployment :: "web_tools \<Rightarrow> web_services \<Rightarrow> web_request \<Rightarrow> payload web" where
  "handle_get_deployment wt wv r =
    app_handler wt r (\<lambda>u. get_app_deployment (wv_app wv) u (wq_value r ''applicationId'')
      (wq_value r ''deploymentId''))
      (\<lambda>x. tagged wt r (PDeploymentRecord x))"

definition handle_promote :: "web_tools \<Rightarrow> web_services \<Rightarrow> web_request \<Rightarrow> payload web" where
  "handle_promote wt wv r =
    app_handler wt r (\<lambda>u. promote_deployment (wv_app wv) u (wq_value r ''applicationId'')
      (wq_value r ''deploymentId''))
      (\<lambda>x. write_json 200 (PDeploymentRecord x))"

definition handle_abort :: "web_tools \<Rightarrow> web_services \<Rightarrow> web_request \<Rightarrow> payload web" where
  "handle_abort wt wv r =
    app_handler wt r (\<lambda>u. abort_deployment (wv_app wv) u (wq_value r ''applicationId'')
      (wq_value r ''deploymentId''))
      (\<lambda>x. write_json 200 (PDeploymentRecord x))"

definition handle_get_rollback_policy :: "web_tools \<Rightarrow> web_services \<Rightarrow> web_request \<Rightarrow> payload web" where
  "handle_get_rollback_policy wt wv r =
    app_handler wt r (\<lambda>u. get_rollback_policy (wv_app wv) u (wq_value r ''applicationId''))
      (\<lambda>x. tagged wt r (PRollbackPolicy x))"

definition handle_events :: "web_tools \<Rightarrow> web_services \<Rightarrow> web_request \<Rightarrow> payload web" where
  "handle_events wt wv r =
    app_handler wt r (\<lambda>u. get_events (wv_app wv) u (wq_value r ''applicationId''))
      (\<lambda>x. tagged wt r (PEvents x))"

definition handle_create_application :: "web_tools \<Rightarrow> web_services \<Rightarrow> web_request \<Rightarrow> payload web" where
  "handle_create_application wt wv r =
    app_body_handler wt r (wt_create wt) (\<lambda>u b. create_application (wv_app wv) False u (wq_value r ''projectId'') b (wq_id r))
      (\<lambda>x. write_json 201 (PApplication x))"

definition handle_preview_source :: "web_tools \<Rightarrow> web_services \<Rightarrow> web_request \<Rightarrow> payload web" where
  "handle_preview_source wt wv r =
    app_body_handler wt r (wt_create wt) (\<lambda>u b. preview_repository_source (wv_app wv) u (wq_value r ''projectId'') b)
      (\<lambda>x. write_json 200 (PPreview x))"

definition handle_verify_image :: "web_tools \<Rightarrow> web_services \<Rightarrow> web_request \<Rightarrow> payload web" where
  "handle_verify_image wt wv r =
    app_body_handler wt r (wt_image wt) (\<lambda>u b. (case b of (img, server, username, token) \<Rightarrow>
      verify_image_access (wv_app wv) u (wq_value r ''projectId'') img server username token))
      (\<lambda>x. write_json 200 (PImageAccess x))"

definition handle_create_deployment :: "web_tools \<Rightarrow> web_services \<Rightarrow> web_request \<Rightarrow> payload web" where
  "handle_create_deployment wt wv r =
    app_body_handler wt r (wt_deployment wt) (\<lambda>u b. create_deployment (wv_app wv) False u (wq_value r ''applicationId'')
      (fst b) (snd b) (wq_id r))
      (\<lambda>x. write_json 201 (PDeployment x))"

definition handle_patch_application :: "web_tools \<Rightarrow> web_services \<Rightarrow> web_request \<Rightarrow> payload web" where
  "handle_patch_application wt wv r =
    app_body_handler wt r (wt_update wt) (\<lambda>u b. patch_application (wv_app wv) False u (wq_value r ''applicationId'') b)
      (\<lambda>x. write_json 200 (PApplication x))"

definition handle_update_secrets :: "web_tools \<Rightarrow> web_services \<Rightarrow> web_request \<Rightarrow> payload web" where
  "handle_update_secrets wt wv r =
    app_body_handler wt r (wt_secrets wt) (\<lambda>u b. update_application_secrets (wv_app wv) False u (wq_value r ''applicationId'')
      (fst b) (snd b) (wq_id r))
      (\<lambda>x. write_json 200 (PSecrets x))"

definition handle_save_rollback_policy :: "web_tools \<Rightarrow> web_services \<Rightarrow> web_request \<Rightarrow> payload web" where
  "handle_save_rollback_policy wt wv r =
    app_body_handler wt r (wt_rollback wt) (\<lambda>u b. save_rollback_policy (wv_app wv) u (wq_value r ''applicationId'') b)
      (\<lambda>x. write_json 200 (PRollbackPolicy x))"

definition handle_restore_secrets :: "web_tools \<Rightarrow> web_services \<Rightarrow> web_request \<Rightarrow> payload web" where
  "handle_restore_secrets wt wv r =
    with_user wt r (\<lambda>u. case atoi (wq_value r ''version'') of
      None \<Rightarrow> write_error r 400 ''INVALID_REQUEST'' ''Secret version must be a valid integer.''
        [(''field'', JStr ''version'')] False
    | Some version \<Rightarrow>
        running (restore_secret_version (wv_app wv) False u (wq_value r ''applicationId'') version (wq_id r))
          (app_error r) (\<lambda>x. write_json 200 (PSecrets x)))"

definition handle_logs :: "web_tools \<Rightarrow> web_services \<Rightarrow> web_request \<Rightarrow> payload web" where
  "handle_logs wt wv r =
    with_user wt r (\<lambda>u. parse_tail_lines r (\<lambda>n.
      running (get_container_logs (wv_app wv) u (wq_value r ''applicationId'') n)
        (app_error r) (\<lambda>x. write_json 200 (PLogs x))))"

text \<open>
  The stream is opened before the service is asked, so its errors are events of a reply with status 200.
  The lines that the reader emits stand between the first chunk and the last.
\<close>

definition stream_open :: string where
  "stream_open = '': connected'' @ [CHR 0x0A, CHR 0x0A]"

definition stream_error :: "go_error \<Rightarrow> string" where
  "stream_error e = ''event: error'' @ [CHR 0x0A] @ ''data: {'' @ json_string ''message'' @ '':'' @
     json_string (error_text e) @ ''}'' @ [CHR 0x0A, CHR 0x0A]"

definition stream_done :: string where
  "stream_done = ''event: done'' @ [CHR 0x0A] @ ''data: {}'' @ [CHR 0x0A, CHR 0x0A]"

definition handle_log_stream :: "web_tools \<Rightarrow> web_services \<Rightarrow> web_request \<Rightarrow> payload web" where
  "handle_log_stream wt wv r =
    with_user wt r (\<lambda>u. parse_tail_lines r (\<lambda>n.
      if \<not> wv_flushes wv then
        write_error r 500 ''STREAM_UNSUPPORTED'' ''Streaming is not supported by the current server.'' [] True
      else
        running (stream_container_logs (wv_app wv) u (wq_value r ''applicationId'') (trim_space (wq_query r ''podName''))
            (trim_space (wq_query r ''containerName'')) n)
          (\<lambda>e s. (Streamed [stream_open, stream_error e], s)) (\<lambda>_ s. (Streamed [stream_open, stream_done], s))))"

section \<open>Routes\<close>

datatype segment = Lit string | Var string

type_synonym web_handler = "web_tools \<Rightarrow> web_services \<Rightarrow> web_request \<Rightarrow> payload web"

record route =
  rt_method :: string
  rt_pattern :: "segment list"
  rt_handler :: web_handler

definition handle_health :: web_handler where
  "handle_health wt wv r = write_json 200 PHealthy"

fun pattern_of :: "string list \<Rightarrow> segment list" where
  "pattern_of [] = []"
| "pattern_of (s # ss) =
    (if s \<noteq> [] \<and> hd s = CHR ''{'' then Var (butlast (tl s)) else Lit s) # pattern_of ss"

definition route :: "string \<Rightarrow> string \<Rightarrow> web_handler \<Rightarrow> route" where
  "route verb pattern h =
    \<lparr>rt_method = verb, rt_pattern = pattern_of (tl (split_on (CHR ''/'') pattern)), rt_handler = h\<rparr>"

definition routes :: "route list" where
  "routes =
    [route ''GET'' ''/healthz'' handle_health,
     route ''GET'' ''/readyz'' handle_health,
     route ''GET'' ''/api/v1/me'' (\<lambda>wt wv. get_me wt),
     route ''GET'' ''/api/v1/clusters'' (\<lambda>wt wv. handle_list_clusters wt),
     route ''POST'' ''/api/v1/clusters'' handle_create_cluster,
     route ''GET'' ''/api/v1/admin/resource-overview'' handle_overview,
     route ''GET'' ''/api/v1/projects'' handle_list_projects,
     route ''POST'' ''/api/v1/projects'' handle_create_project,
     route ''DELETE'' ''/api/v1/projects/{projectId}'' handle_delete_project,
     route ''GET'' ''/api/v1/projects/{projectId}/environments'' handle_list_environments,
     route ''GET'' ''/api/v1/projects/{projectId}/repositories'' handle_list_repositories,
     route ''GET'' ''/api/v1/projects/{projectId}/policies'' handle_get_policies,
     route ''PATCH'' ''/api/v1/projects/{projectId}/policies'' handle_update_policies,
     route ''POST'' ''/api/v1/projects/{projectId}/changes'' handle_create_change,
     route ''GET'' ''/api/v1/projects/{projectId}/applications'' handle_list_applications,
     route ''GET'' ''/api/v1/projects/{projectId}/health'' handle_project_health,
     route ''POST'' ''/api/v1/projects/{projectId}/applications/source-preview'' handle_preview_source,
     route ''POST'' ''/api/v1/projects/{projectId}/applications/image-access'' handle_verify_image,
     route ''POST'' ''/api/v1/projects/{projectId}/applications'' handle_create_application,
     route ''DELETE'' ''/api/v1/applications/{applicationId}'' handle_delete_application,
     route ''PATCH'' ''/api/v1/applications/{applicationId}'' handle_patch_application,
     route ''GET'' ''/api/v1/applications/{applicationId}/secrets'' handle_get_secrets,
     route ''PUT'' ''/api/v1/applications/{applicationId}/secrets'' handle_update_secrets,
     route ''GET'' ''/api/v1/applications/{applicationId}/secrets/versions'' handle_secret_versions,
     route ''POST'' ''/api/v1/applications/{applicationId}/secrets/versions/{version}/restore'' handle_restore_secrets,
     route ''POST'' ''/api/v1/applications/{applicationId}/archive'' handle_archive,
     route ''POST'' ''/api/v1/applications/{applicationId}/deployments'' handle_create_deployment,
     route ''GET'' ''/api/v1/applications/{applicationId}/deployments'' handle_list_deployments,
     route ''GET'' ''/api/v1/applications/{applicationId}/deployments/{deploymentId}'' handle_get_deployment,
     route ''POST'' ''/api/v1/applications/{applicationId}/deployments/{deploymentId}/promote'' handle_promote,
     route ''POST'' ''/api/v1/applications/{applicationId}/deployments/{deploymentId}/abort'' handle_abort,
     route ''GET'' ''/api/v1/applications/{applicationId}/sync-status'' handle_sync_status,
     route ''POST'' ''/api/v1/applications/{applicationId}/sync'' handle_sync_now,
     route ''GET'' ''/api/v1/applications/{applicationId}/network-exposure'' handle_network_exposure,
     route ''GET'' ''/api/v1/applications/{applicationId}/metrics'' handle_metrics,
     route ''GET'' ''/api/v1/applications/{applicationId}/metrics/diagnostics'' handle_metrics_diagnostics,
     route ''GET'' ''/api/v1/applications/{applicationId}/logs'' handle_logs,
     route ''GET'' ''/api/v1/applications/{applicationId}/logs/targets'' handle_log_targets,
     route ''GET'' ''/api/v1/applications/{applicationId}/logs/stream'' handle_log_stream,
     route ''GET'' ''/api/v1/applications/{applicationId}/rollback-policies'' handle_get_rollback_policy,
     route ''POST'' ''/api/v1/applications/{applicationId}/rollback-policies'' handle_save_rollback_policy,
     route ''GET'' ''/api/v1/applications/{applicationId}/events'' handle_events,
     route ''GET'' ''/api/v1/changes/{changeId}'' handle_get_change,
     route ''POST'' ''/api/v1/changes/{changeId}/submit'' (change_step submit_change),
     route ''POST'' ''/api/v1/changes/{changeId}/approve'' (change_step approve_change),
     route ''POST'' ''/api/v1/changes/{changeId}/merge'' (change_step merge_change)]"

section \<open>Choosing a route\<close>

text \<open>
  A variable takes one segment that is not empty. A GET route also takes HEAD. Where two routes match, the
  one with the literal at the first difference is more specific and wins.
\<close>

fun match_segments :: "segment list \<Rightarrow> string list \<Rightarrow> (string \<times> string) list option" where
  "match_segments [] [] = Some []"
| "match_segments (Lit l # ps) (s # ss) = (if l = s then match_segments ps ss else None)"
| "match_segments (Var x # ps) (s # ss) =
    (if s = [] then None else map_option (\<lambda>vs. (x, s) # vs) (match_segments ps ss))"
| "match_segments _ _ = None"

definition takes_method :: "string \<Rightarrow> string \<Rightarrow> bool" where
  "takes_method verb asked \<longleftrightarrow> verb = asked \<or> (verb = ''GET'' \<and> asked = ''HEAD'')"

definition path_segments :: "string \<Rightarrow> string list" where
  "path_segments path =
    map (\<lambda>s. case url_unescape InPath s of Some t \<Rightarrow> t | None \<Rightarrow> s) (tl (split_on (CHR ''/'') path))"

definition matching_routes :: "string \<Rightarrow> string list \<Rightarrow> (route \<times> (string \<times> string) list) list" where
  "matching_routes verb segments =
    List.map_filter (\<lambda>rt. if takes_method (rt_method rt) verb
      then map_option (\<lambda>vs. (rt, vs)) (match_segments (rt_pattern rt) segments) else None) routes"

text \<open>cleanPath of package net/http.\<close>

definition clean_request_path :: "string \<Rightarrow> string" where
  "clean_request_path p =
    (let q = (if p = [] then ''/'' else if hd p = CHR ''/'' then p else CHR ''/'' # p); c = path_clean q in
     if last q = CHR ''/'' \<and> c \<noteq> ''/'' then c @ ''/'' else c)"

definition route_not_found :: "web_request \<Rightarrow> payload web" where
  "route_not_found r = write_error r 404 ''ROUTE_NOT_FOUND'' ''Route was not found.'' [(''path'', JStr (rq_path r))] False"

definition dispatch :: "web_tools \<Rightarrow> web_services \<Rightarrow> web_request \<Rightarrow> payload web" where
  "dispatch wt wv r s =
    (if clean_request_path (wq_escaped r) \<noteq> wq_escaped r then (Redirected (clean_request_path (wq_escaped r)), s)
     else case matching_routes (rq_method r) (path_segments (wq_escaped r)) of
       [] \<Rightarrow> route_not_found r s
     | (rt, vs) # _ \<Rightarrow>
         rt_handler rt wt wv (r\<lparr>wq_value := (\<lambda>x. case map_of vs x of Some v \<Rightarrow> v | None \<Rightarrow> [])\<rparr>) s)"

record web_answer =
  wa_headers :: "(string \<times> string) list"
  wa_reply :: "payload reply"

text \<open>core.WithRequestID around core.WithCORS around the routes.\<close>

definition serve ::
  "config \<Rightarrow> web_tools \<Rightarrow> web_services \<Rightarrow> int \<Rightarrow> nat \<Rightarrow> web_request \<Rightarrow> web_state \<Rightarrow> web_answer \<times> web_state" where
  "serve c wt wv millis sequence r s =
    (let plain = http_request.truncate r; rid = request_id_of plain millis sequence in
     case with_cors plain (dispatch wt wv (r\<lparr>wq_id := rid\<rparr>)) s of
       (reply, t) \<Rightarrow>
         (\<lparr>wa_headers = (''X-Request-Id'', rid) # cors_headers (c_allowed_origin c) (c_allow_dev_fallback c) plain,
           wa_reply = reply\<rparr>, t))"

end
