(* ===== verification/WebLaws.thy ===== *)
theory WebLaws
  imports WebServer
begin

text \<open>
  Laws of the server as a whole: a request without a valid identity changes nothing and learns nothing but
  the clusters, every error is logged once with its secrets out of sight, no request matches two routes,
  and a tag sent back is recognised.
\<close>

section \<open>What a request runs\<close>

lemma matching_routes_from: "(rt, vs) \<in> set (matching_routes verb segs) \<Longrightarrow> rt \<in> set routes"
  by (auto simp: matching_routes_def List.map_filter_def split: if_splits)

lemma dispatch_cases:
  obtains (moved) "dispatch wt wv r s = (Redirected (clean_request_path (wq_escaped r)), s)"
    | (none) "dispatch wt wv r s = route_not_found r s"
    | (found) rt q where "rt \<in> set routes" "dispatch wt wv r s = rt_handler rt wt wv (r\<lparr>wq_value := q\<rparr>) s"
proof (cases "clean_request_path (wq_escaped r) = wq_escaped r")
  case True
  show ?thesis
  proof (cases "matching_routes (rq_method r) (path_segments (wq_escaped r))")
    case Nil
    with True show ?thesis using that(2) by (simp add: dispatch_def)
  next
    case (Cons a rest)
    obtain rt vs where a: "a = (rt, vs)" by fastforce
    have "(rt, vs) \<in> set (matching_routes (rq_method r) (path_segments (wq_escaped r)))" by (simp add: Cons a)
    then have "rt \<in> set routes" by (rule matching_routes_from)
    with True Cons a show ?thesis using that(3) by (simp add: dispatch_def)
  qed
qed (use that(1) in \<open>simp add: dispatch_def\<close>)

section \<open>Errors and the log\<close>

text \<open>
  After an error the log has one more entry, which agrees with the body and the identifier of the request;
  else it is the same.
\<close>

definition logged_step :: "string \<Rightarrow> web_state \<Rightarrow> 'p reply \<Rightarrow> web_state \<Rightarrow> bool" where
  "logged_step rid s reply t \<longleftrightarrow>
    (case reply of
       Failed status body \<Rightarrow> 400 \<le> status \<and> (\<exists>entry. ws_log t = ws_log s @ [entry] \<and> lg_status entry = status \<and>
         lg_code entry = eb_code body \<and> eb_request_id body = rid \<and> lg_request_id entry = rid \<and>
         lg_details entry = sanitize_log_details (eb_details body))
     | _ \<Rightarrow> ws_log t = ws_log s)"

definition logs_errors :: "string \<Rightarrow> 'p web \<Rightarrow> bool" where
  "logs_errors rid m \<longleftrightarrow> (\<forall>s. logged_step rid s (fst (m s)) (snd (m s)))"

lemma logs_write_error: "400 \<le> status \<Longrightarrow> logs_errors (wq_id r) (write_error r status code text details retryable)"
  by (simp add: logs_errors_def logged_step_def write_error_def log_http_error_def)

lemma logs_simple:
  "logs_errors rid (write_json status body)" "logs_errors rid (tagged wt r body)" "logs_errors rid (\<lambda>s. (Streamed cs, s))"
  by (auto simp: logs_errors_def logged_step_def write_json_def tagged_def write_conditional_json_def Let_def
      split: option.split)

lemma logs_unexpected: "logs_errors (wq_id r) (unexpected r code text e)"
  by (simp add: unexpected_def logs_write_error)

lemma logs_domain_errors:
  "logs_errors (wq_id r) (app_error r e)" "logs_errors (wq_id r) (project_error r e)" "logs_errors (wq_id r) (project_list_error r e)"
  "logs_errors (wq_id r) (change_error r e)" "logs_errors (wq_id r) (admin_error r e)"
  by (auto simp: app_error_def project_error_def project_list_error_def change_error_def admin_error_def
      intro: logs_write_error logs_unexpected split: go_error.split)

lemma logs_cluster_error: "logs_errors (wq_id r) (cluster_error r cid e)"
  by (cases e) (simp_all add: cluster_error_def logs_write_error logs_unexpected)

lemma logged_other_state:
  "logged_step rid s reply t \<Longrightarrow> ws_log s = ws_log s' \<Longrightarrow> logged_step rid s' reply t"
  by (simp add: logged_step_def split: reply.splits)

lemma logs_with_user:
  assumes "\<And>u. logs_errors (wq_id r) (next u)"
  shows "logs_errors (wq_id r) (with_user wt r next)"
  unfolding logs_errors_def
proof
  fix s :: web_state
  obtain answer ident where cu: "current_user (wt_identity wt) (wt_users wt) (http_request.truncate r) (ws_identity s) =
      (answer, ident)" by fastforce
  let ?t = "s\<lparr>ws_identity := ident\<rparr>"
  have "logs_errors (wq_id r) (case answer of Inr u \<Rightarrow> next u
     | Inl e \<Rightarrow> if errors_is e ErrUnauthorized then
         write_error r 401 ''UNAUTHORIZED'' ''Authentication is required.'' [] False
       else write_error r 500 ''AUTH_PROVIDER_ERROR'' ''Could not resolve the current user.'' [] True)"
    using assms by (auto intro: logs_write_error split: sum.split)
  then have "logged_step (wq_id r) ?t (fst (with_user wt r next s)) (snd (with_user wt r next s))"
    by (auto simp: logs_errors_def with_user_def cu Let_def split: sum.splits if_splits)
  then show "logged_step (wq_id r) s (fst (with_user wt r next s)) (snd (with_user wt r next s))"
    by (rule logged_other_state) simp
qed

lemma logs_with_body:
  assumes "\<And>b. logs_errors (wq_id r) (next b)"
  shows "logs_errors (wq_id r) (with_body decode r next)"
proof (cases "decode_json decode (wq_body r)")
  case (Inl e)
  then have "with_body decode r next =
      write_error r 400 ''INVALID_REQUEST'' ''Request body is invalid.'' [(''error'', JStr e)] False"
    by (simp add: with_body_def fun_eq_iff)
  then show ?thesis by (simp add: logs_write_error)
next
  case (Inr v)
  then have "with_body decode r next = next v" by (simp add: with_body_def fun_eq_iff)
  then show ?thesis using assms by simp
qed

lemma logs_running:
  assumes "\<And>e. logs_errors rid (failing e)" "\<And>x. logs_errors rid (done x)"
  shows "logs_errors rid (running m failing done)"
  unfolding logs_errors_def
proof
  fix s :: web_state
  obtain answer server where run: "m (ws_server s) = (answer, server)" by fastforce
  let ?t = "s\<lparr>ws_server := server\<rparr>"
  have "logged_step rid ?t (fst (running m failing done s)) (snd (running m failing done s))"
    using assms by (cases answer) (simp_all add: running_def run logs_errors_def)
  then show "logged_step rid s (fst (running m failing done s)) (snd (running m failing done s))"
    by (rule logged_other_state) simp
qed

lemma logs_asking:
  assumes "\<And>e. logs_errors rid (failing e)" "\<And>x. logs_errors rid (done x)"
  shows "logs_errors rid (asking m failing done)"
  unfolding logs_errors_def
proof
  fix s :: web_state
  obtain answer k where run: "m (ws_server s) (ws_kube s) = (answer, k)" by fastforce
  let ?t = "s\<lparr>ws_kube := k\<rparr>"
  have "logged_step rid ?t (fst (asking m failing done s)) (snd (asking m failing done s))"
    using assms by (cases answer) (simp_all add: asking_def run logs_errors_def)
  then show "logged_step rid s (fst (asking m failing done s)) (snd (asking m failing done s))"
    by (rule logged_other_state) simp
qed

lemma logs_tail_lines: "(\<And>n. logs_errors (wq_id r) (next n)) \<Longrightarrow> logs_errors (wq_id r) (parse_tail_lines r next)"
  by (auto simp: parse_tail_lines_def intro: logs_write_error split: option.split)

lemmas logs_intros = logs_with_user logs_with_body logs_running logs_asking logs_tail_lines logs_simple logs_domain_errors
  logs_cluster_error logs_unexpected

lemma logs_app_handler: "(\<And>x. logs_errors (wq_id r) (reply x)) \<Longrightarrow> logs_errors (wq_id r) (app_handler wt r operation reply)"
  unfolding app_handler_def by (intro logs_intros)

lemma logs_app_body_handler:
  "(\<And>x. logs_errors (wq_id r) (reply x)) \<Longrightarrow> logs_errors (wq_id r) (app_body_handler wt r decode operation reply)"
  unfolding app_body_handler_def by (intro logs_intros)

lemma logs_restore: "logs_errors (wq_id r) (handle_restore_secrets wt wv r)"
  unfolding handle_restore_secrets_def
  by (rule logs_with_user) (auto intro: logs_write_error logs_running logs_domain_errors logs_simple split: option.split)

lemma logs_stream: "logs_errors (wq_id r) (handle_log_stream wt wv r)"
  unfolding handle_log_stream_def
  by (intro logs_with_user logs_tail_lines) (auto intro: logs_write_error logs_running logs_simple)

lemma routes_log: "rt \<in> set routes \<Longrightarrow> logs_errors (wq_id r) (rt_handler rt wt wv r)"
  unfolding routes_def
  by (auto simp: route_def handle_health_def get_me_def change_step_def
      handle_list_clusters_def handle_create_cluster_def handle_overview_def handle_list_projects_def handle_create_project_def
      handle_delete_project_def handle_list_environments_def handle_list_repositories_def handle_get_policies_def
      handle_update_policies_def handle_create_change_def handle_get_change_def handle_list_applications_def
      handle_project_health_def handle_get_secrets_def handle_secret_versions_def handle_archive_def
      handle_delete_application_def handle_sync_status_def handle_sync_now_def handle_network_exposure_def
      handle_metrics_def handle_metrics_diagnostics_def handle_log_targets_def handle_list_deployments_def
      handle_get_deployment_def handle_promote_def handle_abort_def handle_get_rollback_policy_def handle_events_def
      handle_create_application_def handle_preview_source_def handle_verify_image_def handle_create_deployment_def
      handle_patch_application_def handle_update_secrets_def handle_save_rollback_policy_def handle_logs_def
      intro!: logs_intros logs_app_handler logs_app_body_handler logs_restore logs_stream)


lemma dispatch_logs: "logs_errors (wq_id r) (dispatch wt wv r)"
  unfolding logs_errors_def
proof
  fix s :: web_state
  consider (moved) "dispatch wt wv r s = (Redirected (clean_request_path (wq_escaped r)), s)"
    | (none) "dispatch wt wv r s = route_not_found r s"
    | (found) rt q where "rt \<in> set routes" "dispatch wt wv r s = rt_handler rt wt wv (r\<lparr>wq_value := q\<rparr>) s"
    by (rule dispatch_cases)
  then show "logged_step (wq_id r) s (fst (dispatch wt wv r s)) (snd (dispatch wt wv r s))"
  proof cases
    case moved then show ?thesis by (simp add: logged_step_def)
  next
    case none
    have "logs_errors (wq_id r) (route_not_found r)" by (simp add: route_not_found_def logs_write_error)
    with none show ?thesis by (simp add: logs_errors_def)
  next
    case (found rt q)
    from routes_log [OF found(1), of "r\<lparr>wq_value := q\<rparr>" wt wv] found(2) show ?thesis
      by (simp add: logs_errors_def)
  qed
qed

lemma sensitive_details_hidden:
  "list_all (\<lambda>(k, v). is_sensitive_log_key k \<longrightarrow> v = JStr ''<redacted>'') (sanitize_log_details details)"
  by (auto simp: sanitize_log_details_def list_all_iff)

text \<open>
  C34: Every error reply of the server is logged exactly once, under the status, the code and the request
  identifier that the client reads, with the values of sensitive keys out of sight; a reply that is no error
  leaves the log as it is.
\<close>

theorem errors_logged_once:
  "case serve c wt wv millis sequence r s of (answer, t) \<Rightarrow>
    (case wa_reply answer of
       Failed status body \<Rightarrow> 400 \<le> status \<and> hd (wa_headers answer) = (''X-Request-Id'', eb_request_id body) \<and>
         (\<exists>entry. ws_log t = ws_log s @ [entry] \<and> lg_status entry = status \<and> lg_code entry = eb_code body \<and>
           lg_request_id entry = eb_request_id body \<and>
           list_all (\<lambda>(k, v). is_sensitive_log_key k \<longrightarrow> v = JStr ''<redacted>'') (lg_details entry))
     | _ \<Rightarrow> ws_log t = ws_log s)"
proof -
  let ?plain = "http_request.truncate r"
  let ?rid = "request_id_of ?plain millis sequence"
  let ?run = "with_cors ?plain (dispatch wt wv (r\<lparr>wq_id := ?rid\<rparr>)) s"
  have "logs_errors ?rid (dispatch wt wv (r\<lparr>wq_id := ?rid\<rparr>))"
    using dispatch_logs [of "r\<lparr>wq_id := ?rid\<rparr>"] by simp
  then have "logged_step ?rid s (fst ?run) (snd ?run)"
    by (simp add: with_cors_def logs_errors_def) (simp add: logged_step_def)
  then show ?thesis
    using sensitive_details_hidden
    by (simp add: serve_def Let_def logged_step_def split: prod.split reply.split) fastforce
qed

text \<open>A request for a path without a route, whatever the server holds.\<close>

definition asking_for :: "string \<Rightarrow> string \<Rightarrow> web_request" where
  "asking_for verb path =
    \<lparr>rq_method = verb, rq_path = path, rq_headers = (\<lambda>_. []), wq_escaped = path, wq_id = [], wq_value = (\<lambda>_. []),
      wq_query = (\<lambda>_. []), wq_body = None, wq_remote = ''10.0.0.1:4242''\<rparr>"

text \<open>No pattern begins with nowhere or with a variable.\<close>

lemma first_names:
  "list_all (\<lambda>rt. case rt_pattern rt of Lit l # _ \<Rightarrow> l \<noteq> ''nowhere'' | Var x # _ \<Rightarrow> False | [] \<Rightarrow> True) routes"
  unfolding routes_def by (simp add: route_def)

lemma nothing_matches:
  assumes "list_all (\<lambda>rt. case rt_pattern rt of Lit l # _ \<Rightarrow> l \<noteq> s | Var x # _ \<Rightarrow> False | [] \<Rightarrow> True) rts"
  shows "List.map_filter (\<lambda>rt. if takes_method (rt_method rt) verb
      then map_option (\<lambda>vs. (rt, vs)) (match_segments (rt_pattern rt) [s]) else None) rts = []"
  using assms
  by (induction rts) (auto simp: List.map_filter_simps split: list.splits segment.splits)

lemma nowhere_not_found: "dispatch wt wv ((asking_for ''GET'' ''/nowhere'')\<lparr>wq_id := rid\<rparr>) =
    route_not_found ((asking_for ''GET'' ''/nowhere'')\<lparr>wq_id := rid\<rparr>)"
proof -
  have "clean_request_path ''/nowhere'' = ''/nowhere''" "path_segments ''/nowhere'' = [''nowhere'']" by code_simp+
  moreover have "matching_routes ''GET'' [''nowhere''] = []"
    unfolding matching_routes_def by (rule nothing_matches [OF first_names])
  ultimately show ?thesis by (simp add: dispatch_def asking_for_def fun_eq_iff)
qed

theorem errors_logged_once_witness:
  "\<forall>c wt wv s. case serve c wt wv 0 1 (asking_for ''GET'' ''/nowhere'') s of (answer, t) \<Rightarrow>
    (\<exists>body entry. wa_reply answer = Failed 404 body \<and> ws_log t = ws_log s @ [entry] \<and> lg_status entry = 404 \<and>
      lg_code entry = eb_code body)"
proof (intro allI)
  fix c wt wv and s :: web_state
  obtain answer t where run: "serve c wt wv 0 1 (asking_for ''GET'' ''/nowhere'') s = (answer, t)" by fastforce
  have "rq_method (http_request.truncate (asking_for ''GET'' ''/nowhere'')) \<noteq> ''OPTIONS''"
    by (simp add: asking_for_def http_request.truncate_def)
  then have "\<exists>body. wa_reply answer = Failed 404 body"
    using run by (auto simp: serve_def Let_def with_cors_def nowhere_not_found route_not_found_def write_error_def)
  then show "case serve c wt wv 0 1 (asking_for ''GET'' ''/nowhere'') s of (answer, t) \<Rightarrow>
    (\<exists>body entry. wa_reply answer = Failed 404 body \<and> ws_log t = ws_log s @ [entry] \<and> lg_status entry = 404 \<and>
      lg_code entry = eb_code body)"
    using errors_logged_once [where c = c and wt = wt and wv = wv and millis = 0 and sequence = 1 and s = s
        and r = "asking_for ''GET'' ''/nowhere''"] run by auto
qed

section \<open>Requests without an identity\<close>

text \<open>What may leave the server without a valid identity: errors, the health of the server, the clusters.\<close>

definition public_reply :: "payload reply \<Rightarrow> bool" where
  "public_reply reply \<longleftrightarrow>
    (case reply of
       Reply _ body \<Rightarrow> (case body of PHealthy \<Rightarrow> True | PClusters _ \<Rightarrow> True | _ \<Rightarrow> False)
     | Tagged _ _ body \<Rightarrow> (case body of PClusters _ \<Rightarrow> True | _ \<Rightarrow> False)
     | Streamed _ \<Rightarrow> False
     | _ \<Rightarrow> True)"

definition harmless :: "web_state \<Rightarrow> payload web \<Rightarrow> bool" where
  "harmless s m \<longleftrightarrow> ws_server (snd (m s)) = ws_server s \<and> ws_kube (snd (m s)) = ws_kube s \<and> public_reply (fst (m s))"

lemma with_user_refuses:
  assumes "current_user (wt_identity wt) (wt_users wt) (http_request.truncate r) (ws_identity s) = (Inl e, ident)"
  shows "harmless s (with_user wt r next)"
  by (simp add: harmless_def public_reply_def with_user_def assms write_error_def Let_def)

lemma clusters_harmless: "harmless s (handle_list_clusters wt r)"
proof (cases "cluster_service_list (pf_repo (ws_server s))")
  case (Inl e)
  then show ?thesis
    by (simp add: harmless_def public_reply_def handle_list_clusters_def running_def readS_def unexpected_def write_error_def)
next
  case (Inr x)
  then show ?thesis
    by (simp add: harmless_def public_reply_def handle_list_clusters_def running_def readS_def tagged_def
        write_conditional_json_def write_json_def Let_def split: option.split)
qed

text \<open>Every route but those of health and the list of clusters asks for the user first.\<close>

lemma routes_ask_first:
  "rt \<in> set routes \<Longrightarrow> rt_handler rt = handle_health \<or> rt_handler rt = (\<lambda>wt wv. handle_list_clusters wt) \<or>
    (\<exists>next. rt_handler rt wt wv r = with_user wt r next)"
  unfolding routes_def
  by (auto simp: route_def get_me_def change_step_def app_handler_def app_body_handler_def
      handle_create_cluster_def handle_overview_def handle_list_projects_def handle_create_project_def
      handle_delete_project_def handle_list_environments_def handle_list_repositories_def handle_get_policies_def
      handle_update_policies_def handle_create_change_def handle_get_change_def handle_list_applications_def
      handle_project_health_def handle_get_secrets_def handle_secret_versions_def handle_archive_def
      handle_delete_application_def handle_sync_status_def handle_sync_now_def handle_network_exposure_def
      handle_metrics_def handle_metrics_diagnostics_def handle_log_targets_def handle_list_deployments_def
      handle_get_deployment_def handle_promote_def handle_abort_def handle_get_rollback_policy_def handle_events_def
      handle_create_application_def handle_preview_source_def handle_verify_image_def handle_create_deployment_def
      handle_patch_application_def handle_update_secrets_def handle_save_rollback_policy_def handle_logs_def
      handle_restore_secrets_def handle_log_stream_def)

text \<open>
  C35: Where the provider of users does not accept a request, the request changes neither the state of the
  platform nor that of the clusters, and the reply holds nothing but an error, the health of the server or
  the list of clusters.
\<close>

theorem stranger_harmless:
  assumes "current_user (wt_identity wt) (wt_users wt) (http_request.truncate r) (ws_identity s) = (Inl e, ident)"
  shows "case serve c wt wv millis sequence r s of (answer, t) \<Rightarrow>
    ws_server t = ws_server s \<and> ws_kube t = ws_kube s \<and> public_reply (wa_reply answer)"
proof -
  let ?plain = "http_request.truncate r"
  let ?q = "r\<lparr>wq_id := request_id_of ?plain millis sequence\<rparr>"
  have "harmless s (dispatch wt wv ?q)"
  proof (rule dispatch_cases [of wt wv ?q s])
    assume "dispatch wt wv ?q s = (Redirected (clean_request_path (wq_escaped ?q)), s)"
    then show ?thesis by (simp add: harmless_def public_reply_def)
  next
    assume "dispatch wt wv ?q s = route_not_found ?q s"
    then show ?thesis by (simp add: harmless_def public_reply_def route_not_found_def write_error_def)
  next
    fix rt q
    assume rt: "rt \<in> set routes" and run: "dispatch wt wv ?q s = rt_handler rt wt wv (?q\<lparr>wq_value := q\<rparr>) s"
    have "harmless s (rt_handler rt wt wv (?q\<lparr>wq_value := q\<rparr>))"
      using routes_ask_first [OF rt, of wt wv "?q\<lparr>wq_value := q\<rparr>"] clusters_harmless [of s wt]
        with_user_refuses [of wt "?q\<lparr>wq_value := q\<rparr>" s e ident] assms
      by (auto simp: http_request.truncate_def) (simp add: harmless_def public_reply_def handle_health_def write_json_def)
    then show ?thesis by (simp add: harmless_def run)
  qed
  then show ?thesis
    by (auto simp: serve_def Let_def with_cors_def harmless_def public_reply_def split: prod.split)
qed

text \<open>The deletion of a project, asked by nobody, whatever the server holds.\<close>

theorem stranger_harmless_witness:
  "\<forall>c (wt :: web_tools) wv s. case serve c (wt\<lparr>wt_users := ErrorProvider None\<rparr>) wv 0 1 (asking_for ''DELETE'' ''/api/v1/projects/shop'') s of
    (answer, t) \<Rightarrow> ws_server t = ws_server s \<and> ws_kube t = ws_kube s \<and> public_reply (wa_reply answer)"
proof (intro allI)
  fix c wv and wt :: web_tools and s :: web_state
  have "current_user (wt_identity (wt\<lparr>wt_users := ErrorProvider None\<rparr>)) (wt_users (wt\<lparr>wt_users := ErrorProvider None\<rparr>))
      (http_request.truncate (asking_for ''DELETE'' ''/api/v1/projects/shop'')) (ws_identity s) =
    (Inl ErrUnauthorized, ws_identity s)"
    by (simp add: failS_def)
  from stranger_harmless [OF this] show "case serve c (wt\<lparr>wt_users := ErrorProvider None\<rparr>) wv 0 1
      (asking_for ''DELETE'' ''/api/v1/projects/shop'') s of
    (answer, t) \<Rightarrow> ws_server t = ws_server s \<and> ws_kube t = ws_kube s \<and> public_reply (wa_reply answer)" .
qed

section \<open>No two routes for one request\<close>

text \<open>Two patterns overlap when some path matches both.\<close>

fun overlap :: "segment list \<Rightarrow> segment list \<Rightarrow> bool" where
  "overlap [] [] \<longleftrightarrow> True"
| "overlap (Lit a # ps) (Lit b # qs) \<longleftrightarrow> a = b \<and> overlap ps qs"
| "overlap (Lit a # ps) (Var y # qs) \<longleftrightarrow> a \<noteq> [] \<and> overlap ps qs"
| "overlap (Var x # ps) (Lit b # qs) \<longleftrightarrow> b \<noteq> [] \<and> overlap ps qs"
| "overlap (Var x # ps) (Var y # qs) \<longleftrightarrow> overlap ps qs"
| "overlap _ _ \<longleftrightarrow> False"

lemma matched_overlap:
  "match_segments ps segs \<noteq> None \<Longrightarrow> match_segments qs segs \<noteq> None \<Longrightarrow> overlap ps qs"
  by (induction ps qs arbitrary: segs rule: overlap.induct) (case_tac segs; fastforce split: if_splits)+

fun apart :: "(string \<times> segment list) list \<Rightarrow> bool" where
  "apart [] \<longleftrightarrow> True"
| "apart ((verb, ps) # rest) \<longleftrightarrow> verb \<noteq> ''HEAD'' \<and> list_all (\<lambda>(w, qs). verb = w \<longrightarrow> \<not> overlap ps qs) rest \<and> apart rest"

lemma routes_apart: "apart (map (\<lambda>rt. (rt_method rt, rt_pattern rt)) routes)"
  unfolding routes_def by (simp add: route_def)

lemma apart_no_head: "apart (map (\<lambda>rt. (rt_method rt, rt_pattern rt)) rts) \<Longrightarrow> rt \<in> set rts \<Longrightarrow> rt_method rt \<noteq> ''HEAD''"
  by (induction rts) auto

lemma apart_one:
  assumes "apart (map (\<lambda>rt. (rt_method rt, rt_pattern rt)) rts)"
  shows "length (List.map_filter (\<lambda>rt. if takes_method (rt_method rt) verb
      then map_option (\<lambda>vs. (rt, vs)) (match_segments (rt_pattern rt) segs) else None) rts) \<le> 1"
  using assms
proof (induction rts)
  case (Cons rt rts)
  let ?f = "\<lambda>rt. if takes_method (rt_method rt) verb
      then map_option (\<lambda>vs. (rt, vs)) (match_segments (rt_pattern rt) segs) else None"
  show ?case
  proof (cases "?f rt")
    case None
    then show ?thesis using Cons by (simp add: List.map_filter_simps)
  next
    case (Some a)
    then have here: "takes_method (rt_method rt) verb" "match_segments (rt_pattern rt) segs \<noteq> None"
      by (auto split: if_splits)
    have "?f other = None" if "other \<in> set rts" for other
    proof (rule ccontr)
      assume "?f other \<noteq> None"
      then have there: "takes_method (rt_method other) verb" "match_segments (rt_pattern other) segs \<noteq> None"
        by (auto split: if_splits)
      have "rt_method rt = rt_method other"
        using here(1) there(1) apart_no_head [OF Cons.prems] that by (auto simp: takes_method_def)
      with Cons.prems that matched_overlap [OF here(2) there(2)] show False by (auto simp: list_all_iff)
    qed
    then have "List.map_filter ?f rts = []" by (simp add: List.map_filter_def filter_empty_conv)
    with Some show ?thesis by (simp add: List.map_filter_simps)
  qed
qed (simp add: List.map_filter_simps)

text \<open>
  No request matches two routes of the table, so the order of the table decides nothing.
\<close>

theorem routes_unambiguous: "length (matching_routes verb segs) \<le> 1"
  unfolding matching_routes_def by (rule apart_one [OF routes_apart])

section \<open>Entity tags\<close>

definition hexadecimal :: "(string \<Rightarrow> string) \<Rightarrow> bool" where
  "hexadecimal sha256_hex \<longleftrightarrow> (\<forall>x. set (sha256_hex x) \<subseteq> set ''0123456789abcdef'')"

lemma etag_plain:
  assumes "hexadecimal sha256_hex"
  shows "trim_space (response_etag sha256_hex x) = response_etag sha256_hex x"
    "split_on (CHR '','') (response_etag sha256_hex x) = [response_etag sha256_hex x]"
    "weak_etag_value (response_etag sha256_hex x) = response_etag sha256_hex x"
proof -
  show trim: "trim_space (response_etag sha256_hex x) = response_etag sha256_hex x"
    by (rule trim_space_graphic) (simp_all add: response_etag_def graphic_def)
  show "split_on (CHR '','') (response_etag sha256_hex x) = [response_etag sha256_hex x]"
    using assms by (intro split_on_single) (force simp: response_etag_def hexadecimal_def)
  show "weak_etag_value (response_etag sha256_hex x) = response_etag sha256_hex x"
    unfolding weak_etag_value_def trim by (simp add: response_etag_def trim_prefix_def)
qed

lemma etag_matches:
  assumes "hexadecimal sha256_hex"
  shows "if_none_match_contains [response_etag sha256_hex x] (response_etag sha256_hex y) \<longleftrightarrow> sha256_hex x = sha256_hex y"
  using assms by (auto simp: if_none_match_contains_def Let_def etag_plain) (simp_all add: response_etag_def)

text \<open>
  A client that sends back the tag of a body it holds is told that the body has not changed exactly
  when the body now has the same hash, and else gets the new body with its own tag.
\<close>

theorem tag_recognised:
  assumes hex: "hexadecimal sha256_hex"
    and first: "fst (write_conditional_json sha256_hex marshal r 200 body s) = Tagged 200 tag body"
    and sent: "rq_headers r' ''If-None-Match'' = [tag]"
    and known: "marshal body = Some text" "marshal body' = Some text'"
  shows "fst (write_conditional_json sha256_hex marshal r' 200 body' s') =
    (if sha256_hex (text' @ [CHR 0x0A]) = sha256_hex (text @ [CHR 0x0A]) then Unmodified tag
     else Tagged 200 (response_etag sha256_hex (text' @ [CHR 0x0A])) body')"
proof -
  have tag: "tag = response_etag sha256_hex (text @ [CHR 0x0A])"
    using first known(1) by (simp add: write_conditional_json_def Let_def split: if_splits)
  show ?thesis
    using etag_matches [OF hex, of "text @ [CHR 0x0A]" "text' @ [CHR 0x0A]"]
    by (auto simp: write_conditional_json_def Let_def known(2) sent tag) (simp_all add: response_etag_def)
qed

text \<open>The hash of the lengths in unary, and two bodies under it.\<close>

definition unary_hash :: "string \<Rightarrow> string" where
  "unary_hash x = replicate (length x) (CHR ''1'')"

definition asking_again :: web_request where
  "asking_again = (asking_for ''GET'' ''/p'')\<lparr>rq_headers := (\<lambda>k. if k = ''If-None-Match'' then [CHR 0x22 # ''111'' @ [CHR 0x22]] else [])\<rparr>"

theorem tag_recognised_witness:
  "\<forall>s s'. fst (write_conditional_json unary_hash Some asking_again 200 ''ok'' s') = Unmodified (CHR 0x22 # ''111'' @ [CHR 0x22]) \<and>
    fst (write_conditional_json unary_hash Some asking_again 200 ''new'' s') =
      Tagged 200 (CHR 0x22 # ''1111'' @ [CHR 0x22]) ''new''"
proof (intro allI)
  fix s s' :: web_state
  have hash: "hexadecimal unary_hash" by (auto simp: hexadecimal_def unary_hash_def)
  have first: "fst (write_conditional_json unary_hash Some (asking_for ''GET'' ''/p'') 200 ''ok'' s) =
      Tagged 200 (CHR 0x22 # ''111'' @ [CHR 0x22]) ''ok''"
    by (simp add: write_conditional_json_def asking_for_def if_none_match_contains_def response_etag_def unary_hash_def)
  have sent: "rq_headers asking_again ''If-None-Match'' = [CHR 0x22 # ''111'' @ [CHR 0x22]]" by (simp add: asking_again_def)
  show "fst (write_conditional_json unary_hash Some asking_again 200 ''ok'' s') = Unmodified (CHR 0x22 # ''111'' @ [CHR 0x22]) \<and>
    fst (write_conditional_json unary_hash Some asking_again 200 ''new'' s') =
      Tagged 200 (CHR 0x22 # ''1111'' @ [CHR 0x22]) ''new''"
    using tag_recognised [OF hash first sent, of "''ok''" "''ok''" "''ok''" s']
      tag_recognised [OF hash first sent, of "''ok''" "''new''" "''new''" s']
    by (simp add: unary_hash_def response_etag_def)
qed

text \<open>A browser never offers PUT, although the table of routes has one.\<close>

lemma route_method: "rt_method (route verb pattern h) = verb"
  by (simp add: route_def)

lemma put_not_offered:
  "(\<exists>rt \<in> set routes. rt_method rt = ''PUT'') \<and>
    (\<forall>methods. (''Access-Control-Allow-Methods'', methods) \<in> set (cors_headers origin dev r) \<longrightarrow>
      ''PUT'' \<notin> set (map trim_space (split_on (CHR '','') methods)))"
proof
  show "\<exists>rt \<in> set routes. rt_method rt = ''PUT''"
    unfolding routes_def by (simp only: list.set bex_simps route_method) simp
  have "''PUT'' \<notin> set (map trim_space (split_on (CHR '','') ''GET, POST, PATCH, DELETE, OPTIONS''))" by code_simp
  then show "\<forall>methods. (''Access-Control-Allow-Methods'', methods) \<in> set (cors_headers origin dev r) \<longrightarrow>
      ''PUT'' \<notin> set (map trim_space (split_on (CHR '','') methods))"
    by (auto simp: cors_headers_def split: option.splits)
qed

end
