(* ===== verification/CatalogCache.thy ===== *)
theory CatalogCache
  imports GitStores DeployQueue "HOL-Library.Product_Lexorder"
begin

text \<open>
  The catalog of applications in a database (application/catalog_cache.go, catalog_cache_mariadb.go,
  catalog_cache_postgres.go, catalog_projector.go): the two tables as lists of rows, the cache over them,
  the store that reads through the cache, and the projector that refills it. Every statement may fail; a
  transaction that does not commit leaves the tables as they were. As in the queue, texts are compared
  byte by byte and times are cut to microseconds. JSON codecs and the clock are parameters. A store is a
  record of its operations at one moment of the clock, so that the cache stands over any of them.
\<close>

section \<open>A store as its callers see it\<close>

record 's store_api =
  sa_list :: "string \<Rightarrow> ('s, go_error, app_record list) action"
  sa_get :: "string \<Rightarrow> ('s, go_error, app_record) action"
  sa_create :: "project_context \<Rightarrow> create_request \<Rightarrow> string \<Rightarrow> ('s, go_error, app_record) action"
  sa_archive :: "string \<Rightarrow> string \<Rightarrow> ('s, go_error, lifecycle_response) action"
  sa_delete :: "string \<Rightarrow> ('s, go_error, lifecycle_response) action"
  sa_image :: "project_context \<Rightarrow> string \<Rightarrow> string \<Rightarrow> string \<Rightarrow> ('s, go_error, app_record) action"
  sa_patch :: "project_context \<Rightarrow> string \<Rightarrow> update_request \<Rightarrow> ('s, go_error, app_record) action"
  sa_secret_path :: "project_context \<Rightarrow> string \<Rightarrow> string \<Rightarrow> ('s, go_error, app_record) action"
  sa_deployments :: "string \<Rightarrow> ('s, go_error, deployment_record list) action"
  sa_deployment :: "string \<Rightarrow> string \<Rightarrow> ('s, go_error, deployment_record) action"
  sa_update_deployment :: "string \<Rightarrow> deployment_record \<Rightarrow> ('s, go_error, deployment_record) action"
  sa_policy :: "string \<Rightarrow> ('s, go_error, rollback_policy) action"
  sa_save_policy :: "string \<Rightarrow> rollback_policy \<Rightarrow> ('s, go_error, rollback_policy) action"
  sa_events :: "string \<Rightarrow> ('s, go_error, app_event list) action"
  sa_append_event :: "string \<Rightarrow> app_event \<Rightarrow> ('s, go_error, unit) action"
  sa_cleanup :: "('s, go_error, nat) action option"

definition local_api :: "store_config \<Rightarrow> int \<Rightarrow> repo store_api" where
  "local_api cfg now =
    \<lparr>sa_list = (\<lambda>pid. readS (list_applications pid)), sa_get = (\<lambda>aid. readS (get_application aid)),
     sa_create = store_create cfg now, sa_archive = store_archive now, sa_delete = store_delete now,
     sa_image = store_update_image cfg now, sa_patch = store_patch cfg now,
     sa_secret_path = store_save_secret_path cfg now,
     sa_deployments = (\<lambda>aid. readS (store_list_deployments aid)),
     sa_deployment = (\<lambda>aid did. readS (store_get_deployment aid did)),
     sa_update_deployment = store_update_deployment,
     sa_policy = (\<lambda>aid. readS (store_get_rollback_policy aid)), sa_save_policy = store_save_rollback_policy,
     sa_events = (\<lambda>aid. readS (store_list_events aid)), sa_append_event = store_append_event,
     sa_cleanup = Some cleanup_orphans\<rparr>"

definition git_api :: "git_outside \<Rightarrow> git_settings option \<Rightarrow> store_config \<Rightarrow> int \<Rightarrow> git_state store_api" where
  "git_api gt gs cfg now =
    \<lparr>sa_list = git_list_applications gt gs, sa_get = git_get_application gt gs,
     sa_create = git_create_application gt gs cfg now, sa_archive = git_archive_application gt gs now,
     sa_delete = git_delete_application gt gs now, sa_image = git_update_image gt gs cfg now,
     sa_patch = git_patch_application gt gs cfg now, sa_secret_path = git_save_secret_path gt gs cfg now,
     sa_deployments = git_list_deployments gt gs, sa_deployment = git_get_deployment gt gs,
     sa_update_deployment = git_update_deployment gt gs, sa_policy = git_get_rollback_policy gt gs,
     sa_save_policy = git_save_rollback_policy gt gs, sa_events = git_list_events gt gs,
     sa_append_event = git_append_event gt gs, sa_cleanup = Some (git_cleanup_orphans gt gs)\<rparr>"

section \<open>The tables\<close>

record snapshot_row =
  sn_project :: string
  sn_count :: nat
  sn_updated_at :: int

record catalog_row =
  cw_project :: string
  cw_id :: string
  cw_name :: string
  cw_json :: string
  cw_updated_at :: int

record catalog =
  ca_snapshots :: "snapshot_row list"
  ca_records :: "catalog_row list"

datatype catalog_driver = MariaDB | Postgres

text \<open>What the cache asks: whether a statement fails, the clock, the codecs; and the text of a duplicate key.\<close>

record catalog_outside =
  co_driver :: catalog_driver
  co_connected :: bool
  co_statement :: "nat \<Rightarrow> go_error option"
  co_clock :: "nat \<Rightarrow> int"
  co_duplicate :: string
  co_encode :: "app_record \<Rightarrow> (string, string) result"
  co_decode :: "string \<Rightarrow> (string, app_record) result"

record 's catalog_state =
  cg_source :: 's
  cg_tables :: catalog
  cg_asked :: nat

type_synonym ('s, 'a) cataloged = "('s catalog_state, go_error, 'a) action"

definition ask_catalog :: "(nat \<Rightarrow> 'a) \<Rightarrow> ('s, 'a) cataloged" where
  "ask_catalog f s = (Inr (f (cg_asked s)), s\<lparr>cg_asked := Suc (cg_asked s)\<rparr>)"

definition sql_statement :: "catalog_outside \<Rightarrow> ('s, unit) cataloged" where
  "sql_statement co =
    bindS (ask_catalog (co_statement co)) (\<lambda>e. case e of None \<Rightarrow> returnS () | Some x \<Rightarrow> failS x)"

definition on_tables :: "(catalog \<Rightarrow> catalog) \<Rightarrow> ('s, unit) cataloged" where
  "on_tables f = modifyS (\<lambda>s. s\<lparr>cg_tables := f (cg_tables s)\<rparr>)"

definition in_transaction :: "('s, 'a) cataloged \<Rightarrow> ('s, 'a) cataloged" where
  "in_transaction m s =
    (case m s of (Inl e, t) \<Rightarrow> (Inl e, t\<lparr>cg_tables := cg_tables s\<rparr>) | (Inr x, t) \<Rightarrow> (Inr x, t))"

section \<open>The cache\<close>

definition cache_not_configured :: "catalog_outside \<Rightarrow> go_error" where
  "cache_not_configured co =
    OtherError ((case co_driver co of MariaDB \<Rightarrow> ''mariadb'' | Postgres \<Rightarrow> ''postgres'') @
      '' application catalog cache is not configured'')"

definition when_connected :: "catalog_outside \<Rightarrow> ('s, 'a) cataloged \<Rightarrow> ('s, 'a) cataloged" where
  "when_connected co m = (if co_connected co then m else failS (cache_not_configured co))"

text \<open>Both drivers create what is missing of the two tables and their indexes, so the tables are there.\<close>

definition schema_statements :: "catalog_driver \<Rightarrow> nat" where
  "schema_statements d = (case d of MariaDB \<Rightarrow> 2 | Postgres \<Rightarrow> 5)"

definition cache_ensure :: "catalog_outside \<Rightarrow> ('s, unit) cataloged" where
  "cache_ensure co =
    when_connected co
      (fold (\<lambda>_ m. bindS m (\<lambda>_. sql_statement co)) [0..<schema_statements (co_driver co)] (returnS ()))"

fun decode_records :: "catalog_outside \<Rightarrow> string list \<Rightarrow> (go_error, app_record list) result" where
  "decode_records co [] = Inr []"
| "decode_records co (raw # raws) =
    (case co_decode co raw of
       Inl e \<Rightarrow> Inl (Wrapped ''decode cached application record'' (OtherError e))
     | Inr r \<Rightarrow> bindR (decode_records co raws) (\<lambda>rs. Inr (r # rs)))"

definition rows_of :: "string \<Rightarrow> catalog \<Rightarrow> catalog_row list" where
  "rows_of pid c = sort_key (\<lambda>w. (cw_name w, cw_id w)) (filter (\<lambda>w. cw_project w = pid) (ca_records c))"

definition stored_snapshot :: "string \<Rightarrow> catalog \<Rightarrow> snapshot_row option" where
  "stored_snapshot pid c = find (\<lambda>n. sn_project n = pid) (ca_snapshots c)"

text \<open>None stands for what the code returns with \<open>ok\<close> false.\<close>

definition cache_list :: "catalog_outside \<Rightarrow> string \<Rightarrow> int \<Rightarrow> ('s, app_record list option) cataloged" where
  "cache_list co pid max_age =
    when_connected co
      (if max_age \<le> 0 then returnS None
       else
         bindS (sql_statement co) (\<lambda>_.
         bindS (readS (\<lambda>s. Inr (stored_snapshot pid (cg_tables s)))) (\<lambda>found. case found of
           None \<Rightarrow> returnS None
         | Some n \<Rightarrow>
             bindS (ask_catalog (co_clock co)) (\<lambda>now.
               if max_age < now - sn_updated_at n then returnS None
               else if sn_count n = 0 then returnS (Some [])
               else
                 bindS (sql_statement co) (\<lambda>_.
                 bindS (readS (\<lambda>s. decode_records co (map cw_json (rows_of pid (cg_tables s))))) (\<lambda>rs.
                   returnS (if length rs = sn_count n then Some rs else None)))))))"

definition records_by_name :: "app_record list \<Rightarrow> app_record list" where
  "records_by_name rs = sort_key (\<lambda>r. (ar_name r, ar_id r)) rs"

text \<open>The primary key is the project with the application.\<close>

definition insert_row :: "catalog_outside \<Rightarrow> catalog_row \<Rightarrow> ('s, unit) cataloged" where
  "insert_row co w =
    bindS (readS (\<lambda>s. if list_ex (\<lambda>x. cw_project x = cw_project w \<and> cw_id x = cw_id w) (ca_records (cg_tables s))
        then Inl (OtherError (co_duplicate co)) else Inr ())) (\<lambda>_.
      on_tables (\<lambda>c. c\<lparr>ca_records := ca_records c @ [w]\<rparr>))"

fun insert_records :: "catalog_outside \<Rightarrow> string \<Rightarrow> int \<Rightarrow> app_record list \<Rightarrow> ('s, unit) cataloged" where
  "insert_records co pid now [] = returnS ()"
| "insert_records co pid now (r # rs) =
    (case co_encode co r of
       Inl e \<Rightarrow> failS (Wrapped ''encode cached application record'' (OtherError e))
     | Inr raw \<Rightarrow>
         bindS (sql_statement co) (\<lambda>_.
         bindS (insert_row co \<lparr>cw_project = pid, cw_id = ar_id r, cw_name = ar_name r, cw_json = raw,
           cw_updated_at = db_time now\<rparr>) (\<lambda>_.
           insert_records co pid now rs)))"

definition put_snapshot :: "string \<Rightarrow> nat \<Rightarrow> int \<Rightarrow> catalog \<Rightarrow> catalog" where
  "put_snapshot pid n now c =
    (let row = \<lparr>sn_project = pid, sn_count = n, sn_updated_at = db_time now\<rparr> in
     if list_ex (\<lambda>x. sn_project x = pid) (ca_snapshots c)
     then c\<lparr>ca_snapshots := map (\<lambda>x. if sn_project x = pid then row else x) (ca_snapshots c)\<rparr>
     else c\<lparr>ca_snapshots := ca_snapshots c @ [row]\<rparr>)"

definition cache_replace :: "catalog_outside \<Rightarrow> string \<Rightarrow> app_record list \<Rightarrow> ('s, unit) cataloged" where
  "cache_replace co pid rs =
    when_connected co
      (bindS (ask_catalog (co_clock co)) (\<lambda>now.
       in_transaction
         (bindS (sql_statement co) (\<lambda>_.
          bindS (sql_statement co) (\<lambda>_.
          bindS (on_tables (\<lambda>c. c\<lparr>ca_records := filter (\<lambda>w. cw_project w \<noteq> pid) (ca_records c)\<rparr>)) (\<lambda>_.
          bindS (insert_records co pid now (records_by_name rs)) (\<lambda>_.
          bindS (sql_statement co) (\<lambda>_.
          bindS (on_tables (put_snapshot pid (length rs) now)) (\<lambda>_.
            sql_statement co)))))))))"

definition cache_invalidate :: "catalog_outside \<Rightarrow> string \<Rightarrow> ('s, unit) cataloged" where
  "cache_invalidate co pid =
    when_connected co
      (bindS (sql_statement co) (\<lambda>_.
        on_tables (\<lambda>c. c\<lparr>ca_snapshots := filter (\<lambda>n. sn_project n \<noteq> pid) (ca_snapshots c)\<rparr>)))"

section \<open>The store that reads through the cache\<close>

record 's cached_store =
  cd_source :: "'s store_api option"
  cd_cache :: "catalog_outside option"
  cd_freshness :: int

definition on_source :: "('s, go_error, 'a) action \<Rightarrow> ('s, 'a) cataloged" where
  "on_source m s = (case m (cg_source s) of (r, u) \<Rightarrow> (r, s\<lparr>cg_source := u\<rparr>))"

definition from_source :: "'s cached_store \<Rightarrow> ('s store_api \<Rightarrow> ('s, go_error, 'a) action) \<Rightarrow> ('s, 'a) cataloged" where
  "from_source cd f =
    (case cd_source cd of
       None \<Rightarrow> failS (OtherError ''cached manifest store source is not configured'')
     | Some api \<Rightarrow> on_source (f api))"

text \<open>An error of the cache is logged and dropped; what the statements did stays.\<close>

definition drop_error :: "('s, 'a) cataloged \<Rightarrow> ('s, unit) cataloged" where
  "drop_error m s = (Inr (), snd (m s))"

definition replace_project :: "'s cached_store \<Rightarrow> string \<Rightarrow> app_record list \<Rightarrow> ('s, unit) cataloged" where
  "replace_project cd pid rs =
    (case cd_cache cd of None \<Rightarrow> returnS () | Some co \<Rightarrow> drop_error (cache_replace co pid rs))"

definition invalidate_project :: "'s cached_store \<Rightarrow> string \<Rightarrow> ('s, unit) cataloged" where
  "invalidate_project cd pid =
    (case cd_cache cd of None \<Rightarrow> returnS () | Some co \<Rightarrow> drop_error (cache_invalidate co pid))"

definition refresh_project :: "'s cached_store \<Rightarrow> string \<Rightarrow> ('s, app_record list) cataloged" where
  "refresh_project cd pid =
    bindS (from_source cd (\<lambda>api. sa_list api pid)) (\<lambda>rs.
    bindS (replace_project cd pid rs) (\<lambda>_. returnS rs))"

definition refresh_after_write :: "'s cached_store \<Rightarrow> string \<Rightarrow> ('s, unit) cataloged" where
  "refresh_after_write cd pid s =
    (if pid = [] then (Inr (), s)
     else case refresh_project cd pid s of
       (Inr _, t) \<Rightarrow> (Inr (), t)
     | (Inl e, t) \<Rightarrow> invalidate_project cd pid t)"

text \<open>What the cache holds of a project; None also for a cache that is off or fails.\<close>

definition cached_records :: "'s cached_store \<Rightarrow> string \<Rightarrow> ('s, app_record list option) cataloged" where
  "cached_records cd pid s =
    (case cd_cache cd of
       None \<Rightarrow> (Inr None, s)
     | Some co \<Rightarrow>
         if cd_freshness cd \<le> 0 then (Inr None, s)
         else case cache_list co pid (cd_freshness cd) s of
           (Inl e, t) \<Rightarrow> (Inr None, t)
         | (Inr found, t) \<Rightarrow> (Inr found, t))"

definition cached_list :: "'s cached_store \<Rightarrow> string \<Rightarrow> ('s, app_record list) cataloged" where
  "cached_list cd pid =
    bindS (cached_records cd pid) (\<lambda>found. case found of Some rs \<Rightarrow> returnS rs | None \<Rightarrow> refresh_project cd pid)"

definition cached_get :: "'s cached_store \<Rightarrow> string \<Rightarrow> ('s, app_record) cataloged" where
  "cached_get cd aid =
    bindS (case split_application_id aid of
        Inl e \<Rightarrow> returnS None | Inr (pid, _) \<Rightarrow> cached_records cd pid) (\<lambda>found.
      case (case found of None \<Rightarrow> None | Some rs \<Rightarrow> find (\<lambda>r. ar_id r = aid) rs) of
        Some r \<Rightarrow> returnS r
      | None \<Rightarrow> from_source cd (\<lambda>api. sa_get api aid))"

text \<open>A write of the source, and then the catalog of the project it names.\<close>

definition cached_write ::
  "'s cached_store \<Rightarrow> ('a \<Rightarrow> string) \<Rightarrow> ('s store_api \<Rightarrow> ('s, go_error, 'a) action) \<Rightarrow> ('s, 'a) cataloged" where
  "cached_write cd project_of f =
    bindS (from_source cd f) (\<lambda>x. bindS (refresh_after_write cd (project_of x)) (\<lambda>_. returnS x))"

definition cached_create ::
  "'s cached_store \<Rightarrow> project_context \<Rightarrow> create_request \<Rightarrow> string \<Rightarrow> ('s, app_record) cataloged" where
  "cached_create cd pc req path = cached_write cd ar_project_id (\<lambda>api. sa_create api pc req path)"

definition cached_archive :: "'s cached_store \<Rightarrow> string \<Rightarrow> string \<Rightarrow> ('s, lifecycle_response) cataloged" where
  "cached_archive cd aid who = cached_write cd lc_project_id (\<lambda>api. sa_archive api aid who)"

definition cached_delete :: "'s cached_store \<Rightarrow> string \<Rightarrow> ('s, lifecycle_response) cataloged" where
  "cached_delete cd aid = cached_write cd lc_project_id (\<lambda>api. sa_delete api aid)"

definition cached_update_image ::
  "'s cached_store \<Rightarrow> project_context \<Rightarrow> string \<Rightarrow> string \<Rightarrow> string \<Rightarrow> ('s, app_record) cataloged" where
  "cached_update_image cd pc aid tag did = cached_write cd ar_project_id (\<lambda>api. sa_image api pc aid tag did)"

definition cached_patch ::
  "'s cached_store \<Rightarrow> project_context \<Rightarrow> string \<Rightarrow> update_request \<Rightarrow> ('s, app_record) cataloged" where
  "cached_patch cd pc aid req = cached_write cd ar_project_id (\<lambda>api. sa_patch api pc aid req)"

definition cached_save_secret_path ::
  "'s cached_store \<Rightarrow> project_context \<Rightarrow> string \<Rightarrow> string \<Rightarrow> ('s, app_record) cataloged" where
  "cached_save_secret_path cd pc aid path = cached_write cd ar_project_id (\<lambda>api. sa_secret_path api pc aid path)"

definition cached_cleanup_orphans :: "'s cached_store \<Rightarrow> ('s, nat) cataloged" where
  "cached_cleanup_orphans cd =
    (case cd_source cd of
       Some api \<Rightarrow> (case sa_cleanup api of
           Some m \<Rightarrow> on_source m
         | None \<Rightarrow> failS (OtherError ''application manifest store does not support orphan flux cleanup''))
     | None \<Rightarrow> failS (OtherError ''application manifest store does not support orphan flux cleanup''))"

text \<open>The cached store is a store again; what concerns deployments, policies and events is the source's.\<close>

definition cached_api :: "'s cached_store \<Rightarrow> 's catalog_state store_api" where
  "cached_api cd =
    \<lparr>sa_list = cached_list cd, sa_get = cached_get cd, sa_create = cached_create cd,
     sa_archive = cached_archive cd, sa_delete = cached_delete cd, sa_image = cached_update_image cd,
     sa_patch = cached_patch cd, sa_secret_path = cached_save_secret_path cd,
     sa_deployments = (\<lambda>aid. from_source cd (\<lambda>api. sa_deployments api aid)),
     sa_deployment = (\<lambda>aid did. from_source cd (\<lambda>api. sa_deployment api aid did)),
     sa_update_deployment = (\<lambda>aid d. from_source cd (\<lambda>api. sa_update_deployment api aid d)),
     sa_policy = (\<lambda>aid. from_source cd (\<lambda>api. sa_policy api aid)),
     sa_save_policy = (\<lambda>aid p. from_source cd (\<lambda>api. sa_save_policy api aid p)),
     sa_events = (\<lambda>aid. from_source cd (\<lambda>api. sa_events api aid)),
     sa_append_event = (\<lambda>aid e. from_source cd (\<lambda>api. sa_append_event api aid e)),
     sa_cleanup = Some (cached_cleanup_orphans cd)\<rparr>"

section \<open>The projector\<close>

text \<open>How a turn ends: skipped with its reason, no list of projects, or the projects refreshed, skipped and failed.\<close>

datatype projection =
    ProjectionSkipped string | ProjectionFailed go_error | Projected nat nat nat

fun refresh_each ::
  "(nat \<Rightarrow> go_error option) \<Rightarrow> 's cached_store \<Rightarrow> string list \<Rightarrow> nat \<times> nat \<times> nat \<Rightarrow> 's catalog_state \<Rightarrow>
    projection \<times> 's catalog_state" where
  "refresh_each context cd [] (done, skipped, failed) s = (Projected done skipped failed, s)"
| "refresh_each context cd (pid # pids) (done, skipped, failed) s =
    (case ask_catalog context s of
       (Inr (Some e), t) \<Rightarrow> (ProjectionSkipped (background_skip_reason (Some e)), t)
     | (_, t) \<Rightarrow>
         if pid = [] then refresh_each context cd pids (done, skipped, failed) t
         else case refresh_project cd pid t of
           (Inl e, u) \<Rightarrow>
             if background_skip_reason (Some e) \<noteq> [] then refresh_each context cd pids (done, Suc skipped, failed) u
             else refresh_each context cd pids (done, skipped, Suc failed) u
         | (Inr _, u) \<Rightarrow> refresh_each context cd pids (Suc done, skipped, failed) u)"

definition refresh_all ::
  "(nat \<Rightarrow> go_error option) \<Rightarrow> 's cached_store \<Rightarrow> ('s, catalog_project list) cataloged \<Rightarrow> 's catalog_state \<Rightarrow>
    projection \<times> 's catalog_state" where
  "refresh_all context cd projects s =
    (case projects s of
       (Inl e, t) \<Rightarrow>
         (let reason = background_skip_reason (Some e) in
          (if reason \<noteq> [] then ProjectionSkipped reason else ProjectionFailed e, t))
     | (Inr ps, t) \<Rightarrow> refresh_each context cd (map cp_id ps) (0, 0, 0) t)"

definition projector_starts :: "int \<Rightarrow> bool" where
  "projector_starts interval \<longleftrightarrow> 0 < interval"

end
