(* ===== verification/StoreListing.thy ===== *)
theory StoreListing
  imports StoreSpec
begin

text \<open>
  What a write of the manifest store changes of the listings of applications: a write of one project
  leaves the listing of every other project as it was. The lemmas rest on the frames of the store: outside
  the directory of its application and the wiring of Flux a write changes no file.
\<close>

section \<open>Directories\<close>

text \<open>Names of directories below apps are single components, as every file system has them.\<close>

definition tidy_repo :: "repo \<Rightarrow> bool" where
  "tidy_repo repo \<longleftrightarrow> (\<forall>pid n rest. rest \<noteq> [] \<longrightarrow> fs_read repo (''apps'' # pid # n # rest) \<noteq> None \<longrightarrow>
    plain_component n)"

lemma tidy_subdirs:
  assumes "tidy_repo repo" and "plain_component pid" and "n \<in> set (fs_subdirs (join_path [''apps'', pid]) repo)"
  shows "plain_app pid n"
proof -
  have "join_path [''apps'', pid] = [''apps'', pid]"
    using assms(2) by (simp add: join_path_plain apps_plain)
  then obtain rest where "rest \<noteq> []" "fs_read repo (''apps'' # pid # n # rest) \<noteq> None"
    using assms(3) by (auto simp: fs_subdirs_iff)
  with assms(1,2) show ?thesis by (auto simp: tidy_repo_def plain_app_def)
qed

text \<open>A change that stays inside one application and the wiring of Flux.\<close>

definition stays_in :: "string \<Rightarrow> string \<Rightarrow> repo \<Rightarrow> repo \<Rightarrow> bool" where
  "stays_in pid app repo t \<longleftrightarrow> (\<forall>q. \<not> prefix flux_root q \<longrightarrow> \<not> prefix (app_dir pid app) q \<longrightarrow> fs_read t q = fs_read repo q)"

lemma stays_tidy:
  assumes "tidy_repo repo" and "plain_app pid app" and "stays_in pid app repo t"
  shows "tidy_repo t"
  unfolding tidy_repo_def
proof (intro allI impI)
  fix p n and rest :: path
  assume rest: "rest \<noteq> []" and there: "fs_read t (''apps'' # p # n # rest) \<noteq> None"
  show "plain_component n"
  proof (cases "prefix (app_dir pid app) (''apps'' # p # n # rest)")
    case True
    then show ?thesis using assms(2) by (auto simp: app_dir_plain plain_app_def)
  next
    case False
    then have "fs_read t (''apps'' # p # n # rest) = fs_read repo (''apps'' # p # n # rest)"
      using assms(3) by (simp add: stays_in_def flux_root_def)
    with there rest assms(1) show ?thesis by (auto simp: tidy_repo_def)
  qed
qed

lemma load_records_cong:
  "(\<And>n. n \<in> set ns \<Longrightarrow> load_record a pid n = load_record b pid n) \<Longrightarrow> load_records a pid ns = load_records b pid ns"
  by (induction ns) (auto split: sum.splits)

lemma listing_frame:
  assumes "tidy_repo repo" and "plain_app pid app" and "stays_in pid app repo t" and "plain_component q" and "q \<noteq> pid"
  shows "list_applications q t = list_applications q repo"
proof -
  have d: "join_path [''apps'', q] = [''apps'', q]" using assms(4) by (simp add: join_path_plain apps_plain)
  have same: "fs_read t p = fs_read repo p" if "prefix [''apps'', q] p" for p
  proof -
    from that obtain s where p: "p = ''apps'' # q # s" by (auto simp: prefix_def)
    show ?thesis
      using assms(2,3,5) by (simp add: p stays_in_def flux_root_def app_dir_plain)
  qed
  have in_both: "n \<in> set (fs_subdirs [''apps'', q] t) \<longleftrightarrow> n \<in> set (fs_subdirs [''apps'', q] repo)" for n
    by (simp add: fs_subdirs_iff same)
  have dirs: "fs_subdirs [''apps'', q] t = fs_subdirs [''apps'', q] repo"
  proof (rule sorted_distinct_set_unique)
    show "set (fs_subdirs [''apps'', q] t) = set (fs_subdirs [''apps'', q] repo)" using in_both by blast
  qed (simp_all add: fs_subdirs_def)
  have "load_record t q n = load_record repo q n" if "n \<in> set (fs_subdirs [''apps'', q] repo)" for n
  proof (rule load_record_cong)
    show app: "plain_app q n" using tidy_subdirs [OF assms(1,4)] that d by simp
    show "tree.same_below (app_dir q n) t repo"
      unfolding tree.same_below_def
    proof (intro allI impI)
      fix p assume "prefix (app_dir q n) p"
      then have "prefix [''apps'', q] p" by (auto simp: app_dir_plain [OF app] prefix_def)
      then show "fs_read t p = fs_read repo p" by (rule same)
    qed
  qed
  then show ?thesis unfolding list_applications_def d dirs by (rule load_records_cong)
qed

section \<open>What a listing holds\<close>

lemma load_records_names:
  assumes "wf_repo repo" and "\<forall>n \<in> set ns. plain_app pid n" and "load_records repo pid ns = Inr rs"
  shows "subseq (map ar_name rs) ns"
    and "\<forall>r \<in> set rs. load_record repo pid (ar_name r) = Inr r \<and> plain_app pid (ar_name r) \<and>
      ar_id r = build_application_id pid (ar_name r)"
proof -
  have "subseq (map ar_name rs) ns \<and> (\<forall>r \<in> set rs. load_record repo pid (ar_name r) = Inr r \<and>
      plain_app pid (ar_name r) \<and> ar_id r = build_application_id pid (ar_name r))"
    using assms(2,3)
  proof (induction ns arbitrary: rs)
    case (Cons n ns)
    show ?case
    proof (cases "load_record repo pid n")
      case (Inl e)
      with Cons.prems Cons.IH [of rs] show ?thesis by (auto split: if_splits)
    next
      case (Inr r)
      with Cons.prems obtain qs where qs: "load_records repo pid ns = Inr qs" "rs = r # qs"
        by (auto simp: bindR_eq_Inr)
      from Cons.prems have app: "plain_app pid n" by simp
      note w = wf_load [OF assms(1) app Inr]
      from Cons.IH [OF _ qs(1)] Cons.prems w app Inr show ?thesis by (simp add: qs(2))
    qed
  qed simp
  then show "subseq (map ar_name rs) ns"
    "\<forall>r \<in> set rs. load_record repo pid (ar_name r) = Inr r \<and> plain_app pid (ar_name r) \<and>
      ar_id r = build_application_id pid (ar_name r)" by blast+
qed

lemma subseq_sorted: "subseq xs ys \<Longrightarrow> sorted (ys :: ('a :: linorder) list) \<Longrightarrow> sorted xs"
  unfolding sorted_wrt_iff_nth_less by (metis sorted_iff_nth_mono sorted_wrt_iff_nth_less subseq_conv_nths sorted_nths)

lemma build_id_inj: "build_application_id pid a = build_application_id pid b \<longleftrightarrow> a = b"
  by (simp add: build_application_id_def)

lemma list_applications_records:
  assumes "wf_repo repo" and "tidy_repo repo" and "plain_component pid" and "list_applications pid repo = Inr rs"
  shows "sorted (map ar_name rs)" and "distinct (map ar_name rs)" and "distinct (map ar_id rs)"
    and "r \<in> set rs \<Longrightarrow> load_record repo pid (ar_name r) = Inr r \<and> plain_app pid (ar_name r) \<and>
      ar_id r = build_application_id pid (ar_name r)"
proof -
  have apps: "\<forall>n \<in> set (fs_subdirs (join_path [''apps'', pid]) repo). plain_app pid n"
    using tidy_subdirs [OF assms(2,3)] by blast
  note l = load_records_names [OF assms(1) apps assms(4) [unfolded list_applications_def]]
  from l(1) show "sorted (map ar_name rs)" by (rule subseq_sorted) (simp add: fs_subdirs_def)
  have "distinct (fs_subdirs (join_path [''apps'', pid]) repo)" by (simp add: fs_subdirs_def)
  with l(1) show d: "distinct (map ar_name rs)" by (metis subseq_conv_nths distinct_nthsI)
  from l(2) have "map ar_id rs = map (build_application_id pid) (map ar_name rs)" by simp
  with d show "distinct (map ar_id rs)" by (simp add: distinct_map inj_on_def build_id_inj)
  show "load_record repo pid (ar_name r) = Inr r \<and> plain_app pid (ar_name r) \<and>
      ar_id r = build_application_id pid (ar_name r)" if "r \<in> set rs" using l(2) that by blast
qed

section \<open>What a write changes\<close>

lemma stays_persist:
  assumes "plain_context pc" and "plain_app (ar_project_id r) (ar_name r)" and "plain_environments es"
    and "plain_component (ar_environment r)"
  shows "stays_in (ar_project_id r) (ar_name r) repo (persist_record cfg r pc prev es repo)"
  using persist_frame [OF assms] by (simp add: stays_in_def)

lemma stays_deployment:
  assumes "stays_in (dr_project_id d) (dr_application_name d) repo t"
    and "plain_app (dr_project_id d) (dr_application_name d)" and "CHR ''/'' \<notin> set (dr_id d)"
  shows "stays_in (dr_project_id d) (dr_application_name d) repo (write_deployment_record d t)"
  unfolding stays_in_def
proof (intro allI impI)
  fix q assume q: "\<not> prefix flux_root q" "\<not> prefix (app_dir (dr_project_id d) (dr_application_name d)) q"
  then have "\<not> prefix (app_dir (dr_project_id d) (dr_application_name d) @ [''.aods'', ''deployments'']) q"
    by (metis append_prefixD)
  from deployment_frame [OF assms(2,3) this] assms(1) q
  show "fs_read (write_deployment_record d t) q = fs_read repo q" by (simp add: stays_in_def)
qed

text \<open>What every write promises: it keeps the invariants, and what it changes lies in one application.\<close>

definition confined :: "string \<Rightarrow> repo \<Rightarrow> repo \<Rightarrow> bool" where
  "confined pid repo t \<longleftrightarrow> wf_repo t \<and> tidy_repo t \<and>
    (\<forall>q. plain_component q \<longrightarrow> q \<noteq> pid \<longrightarrow> list_applications q t = list_applications q repo)"

lemma confinedI:
  "wf_repo t \<Longrightarrow> tidy_repo repo \<Longrightarrow> plain_app pid app \<Longrightarrow> stays_in pid app repo t \<Longrightarrow> confined pid repo t"
  by (simp add: confined_def stays_tidy listing_frame)

lemma create_confined:
  assumes "wf_repo repo" and "tidy_repo repo" and "plain_create pc req"
    and run: "store_create cfg now pc req sec repo = (Inr r, t)"
  shows "confined (ar_project_id r) repo t" and "plain_component (ar_project_id r)"
proof -
  note p = store_create_provides [OF assms(1,3) run]
  from assms(3) have app: "plain_app (pc_id pc) (cr_name req)" and pc: "plain_context pc"
    and envs: "plain_environments (pc_environments pc)" by (simp_all add: plain_create_def)
  let ?r = "record_of_create now pc req sec"
  note env = record_of_create_environment [OF assms(3), of now sec]
  have persisted: "stays_in (pc_id pc) (cr_name req) repo (persist_record cfg ?r pc []
      (normalized_environments (pc_environments pc) (ar_environment ?r)) repo)"
    using stays_persist [OF pc _ sorted_environments_plain [OF envs env] env, of repo cfg "[]"] app by simp
  let ?d = "deployment_of ?r (initial_deployment_id ?r) ''Created'' now"
  have "stays_in (pc_id pc) (cr_name req) repo t"
    using stays_deployment [of ?d, simplified, OF persisted app initial_id_plain] run
    by (auto simp: store_create_def Let_def split: if_splits)
  with p(1,3) app show "confined (ar_project_id r) repo t" by (simp add: confinedI [OF _ assms(2)])
  show "plain_component (ar_project_id r)" using p(1) app by (simp add: plain_app_def)
qed

lemma update_confined:
  assumes "wf_repo repo" and "tidy_repo repo" and "plain_context pc" and "valid_id i" and "get_application i repo = Inr r"
    and q: "ar_id q = ar_id r" "ar_project_id q = ar_project_id r" "ar_name q = ar_name r"
    and "plain_component (ar_environment q)" and "plain_environments es"
  shows "confined (ar_project_id q) repo (persist_record cfg q pc prev es repo)"
    and "plain_component (ar_project_id q)" and "plain_app (ar_project_id q) (ar_name q)"
proof -
  from assms(4) obtain pid app where s: "split_application_id i = Inr (pid, app)" "plain_app pid app"
    by (rule valid_idE)
  note u = record_update_provides(2) [where cfg = cfg and prev = prev, OF assms(1,3) s assms(5) q assms(9,10)]
  note n = record_update_provides(3,4) [OF assms(1,3) s assms(5) q assms(9,10)]
  show a: "plain_app (ar_project_id q) (ar_name q)" using n s(2) by simp
  then show "plain_component (ar_project_id q)" by (simp add: plain_app_def)
  show "confined (ar_project_id q) repo (persist_record cfg q pc prev es repo)"
    by (rule confinedI [OF u assms(2) a stays_persist [OF assms(3) a assms(10,9)]])
qed

text \<open>The operations on one application, on success.\<close>

lemma patch_confined:
  assumes "wf_repo repo" and "tidy_repo repo" and "plain_context pc" and "plain_patch u" and "valid_id i"
    and run: "store_patch cfg now pc i u repo = (Inr x, t)"
  shows "confined (ar_project_id x) repo t" and "plain_component (ar_project_id x)"
proof -
  from run obtain r where g: "get_application i repo = Inr r" by (auto simp: store_patch_def split: sum.splits)
  from assms(5) obtain pid app where s: "split_application_id i = Inr (pid, app)" and app: "plain_app pid app"
    by (rule valid_idE)
  from g s have "load_record repo pid app = Inr r" by (simp add: get_application_def)
  note w = wf_load [OF assms(1) app this]
  let ?q = "patch_record now u r" and ?known = "record_environments repo (patch_record now u r)"
  let ?es = "if ar_environment ?q \<in> set ?known then ?known else sort (?known @ [ar_environment ?q])"
  have env: "plain_component (ar_environment ?q)" by (rule patch_environment_plain [OF assms(4) w(4)])
  have "plain_environments ?known" by (rule record_environments_cong [OF _ _ w(5) env]) simp_all
  with env have es: "plain_environments ?es" by (auto simp: plain_environments_def list_all_iff)
  note c = update_confined [OF assms(1-3,5) g patch_record_fields env es]
  have "x = ?q" and "t = persist_record cfg ?q pc (ar_environment r) ?es repo"
    using run g by (auto simp: store_patch_def Let_def)
  with c(1,2) show "confined (ar_project_id x) repo t" "plain_component (ar_project_id x)" by simp_all
qed

lemma secret_path_confined:
  assumes "wf_repo repo" and "tidy_repo repo" and "plain_context pc" and "valid_id i"
    and run: "store_save_secret_path cfg now pc i sec repo = (Inr x, t)"
  shows "confined (ar_project_id x) repo t" and "plain_component (ar_project_id x)"
proof -
  from run obtain r where g: "get_application i repo = Inr r"
    by (auto simp: store_save_secret_path_def split: sum.splits)
  from assms(4) obtain pid app where s: "split_application_id i = Inr (pid, app)" and app: "plain_app pid app"
    by (rule valid_idE)
  from g s have "load_record repo pid app = Inr r" by (simp add: get_application_def)
  note w = wf_load [OF assms(1) app this]
  let ?q = "r\<lparr>ar_secret_path := trim_space sec, ar_updated_at := now\<rparr>"
  have qf: "ar_id ?q = ar_id r" "ar_project_id ?q = ar_project_id r" "ar_name ?q = ar_name r" by simp_all
  have env: "plain_component (ar_environment ?q)" using w(4) by simp
  have es: "plain_environments (record_environments repo ?q)" by (rule record_environments_cong [OF qf(2,3) w(5) env])
  note c = update_confined [OF assms(1-4) g qf env es]
  have "x = ?q" and "t = persist_record cfg ?q pc (ar_environment r) (record_environments repo ?q) repo"
    using run g by (auto simp: store_save_secret_path_def Let_def)
  with c(1,2) show "confined (ar_project_id x) repo t" "plain_component (ar_project_id x)" by simp_all
qed

lemma image_confined:
  assumes "wf_repo repo" and "tidy_repo repo" and "plain_context pc" and "CHR ''/'' \<notin> set dep" and "valid_id i"
    and run: "store_update_image cfg now pc i tag dep repo = (Inr x, t)"
  shows "confined (ar_project_id x) repo t" and "plain_component (ar_project_id x)"
proof -
  from run obtain r where g: "get_application i repo = Inr r" by (auto simp: store_update_image_def split: sum.splits)
  from assms(5) obtain pid app where s: "split_application_id i = Inr (pid, app)" and app: "plain_app pid app"
    by (rule valid_idE)
  from g s have "load_record repo pid app = Inr r" by (simp add: get_application_def)
  note w = wf_load [OF assms(1) app this]
  let ?q = "r\<lparr>ar_image := replace_image_tag (ar_image r) tag, ar_updated_at := now\<rparr>"
  let ?u = "persist_record cfg ?q pc (ar_environment ?q) (record_environments repo ?q) repo"
  let ?d = "deployment_of ?q dep ''Syncing'' now"
  have qf: "ar_id ?q = ar_id r" "ar_project_id ?q = ar_project_id r" "ar_name ?q = ar_name r" by simp_all
  have env: "plain_component (ar_environment ?q)" using w(4) by simp
  have es: "plain_environments (record_environments repo ?q)" by (rule record_environments_cong [OF qf(2,3) w(5) env])
  note c = update_confined(2,3) [OF assms(1-3,5) g qf env es]
  have xt: "x = ?q" "t = write_deployment_record ?d ?u" using run g by (auto simp: store_update_image_def Let_def)
  have "stays_in (ar_project_id ?q) (ar_name ?q) repo t"
    using stays_deployment [of ?d repo ?u] stays_persist [OF assms(3) c(2) es env, of repo cfg "ar_environment ?q"] c(2) assms(4)
    by (simp add: xt(2))
  moreover have "wf_repo t"
    using local_store.image_get [OF assms(1,3,4,5) g, of cfg now tag] run by auto
  ultimately show "confined (ar_project_id x) repo t" "plain_component (ar_project_id x)"
    using c confinedI [OF _ assms(2)] by (simp_all add: xt(1))
qed

lemma lifecycle_frame:
  assumes "wf_repo repo" and "plain_app pid app" and "metadata_ok pid app m" and "\<not> prefix flux_root q"
  shows "fs_read (remove_flux_children (metadata_to_record m) repo) q = fs_read repo q"
proof (rule remove_children_frame [OF metadata_record_plain [OF assms(3,2)] assms(4)])
  show "\<forall>c \<in> set (fs_subdirs clusters_root repo). cluster_name c"
    using assms(1) by (intro clusters_ok_subdirs) (simp add: wf_repo_def)
qed

lemma archive_confined:
  assumes "wf_repo repo" and "tidy_repo repo" and "valid_id i" and "now \<noteq> 0"
    and run: "store_archive now i who repo = (Inr x, t)"
  shows "confined (lc_project_id x) repo t" and "plain_component (lc_project_id x)"
proof -
  from assms(3) obtain pid app where s: "split_application_id i = Inr (pid, app)" and app: "plain_app pid app"
    by (rule valid_idE)
  from run s obtain m where m: "load_lifecycle_metadata repo pid app = Inr m" "\<not> is_archived m"
    by (auto simp: store_archive_def bindR_def split: sum.splits if_splits)
  note mo = lifecycle_metadata_ok [OF assms(1) app m(1)]
  obtain m' where t: "t = write_app_metadata pid app m' (strip_desired_state pid app
      (remove_flux_children (metadata_to_record m) repo))" and x: "lc_project_id x = pid"
    using run m s by (auto simp: store_archive_def Let_def)
  have "stays_in pid app repo t"
    using lifecycle_frame [OF assms(1) app mo] metadata_below [OF app]
    by (auto simp: stays_in_def t write_app_metadata_def tree.read_write strip_read)
  moreover have "wf_repo t"
  proof (cases "get_application i repo")
    case (Inr r)
    from local_store.archive_get [OF assms(1,3) Inr assms(4), of who] run show ?thesis by auto
  next
    case (Inl e)
    with s m have False
      by (auto simp: get_application_def load_lifecycle_metadata_def load_record_def is_archived_def bindR_def Let_def
        split: sum.splits option.splits if_splits)
    then show ?thesis ..
  qed
  ultimately show "confined (lc_project_id x) repo t" "plain_component (lc_project_id x)"
    using app x confinedI [OF _ assms(2) app] by (simp_all add: plain_app_def)
qed

lemma delete_confined:
  assumes "wf_repo repo" and "tidy_repo repo" and "valid_id i" and run: "store_delete now i repo = (Inr x, t)"
  shows "confined (lc_project_id x) repo t" and "plain_component (lc_project_id x)"
proof -
  from assms(3) obtain pid app where s: "split_application_id i = Inr (pid, app)" and app: "plain_app pid app"
    by (rule valid_idE)
  from run s obtain m where m: "load_lifecycle_metadata repo pid app = Inr m" and x: "lc_project_id x = pid"
    and t: "t = fs_remove_all (app_dir pid app) (remove_flux_children (metadata_to_record m) repo)"
    by (auto simp: store_delete_def bindR_def split: sum.splits)
  have "stays_in pid app repo t"
    using lifecycle_frame [OF assms(1) app lifecycle_metadata_ok [OF assms(1) app m]]
    by (simp add: stays_in_def t tree.read_back)
  then show "confined (lc_project_id x) repo t" "plain_component (lc_project_id x)"
    using app x confinedI [OF store_delete_provides(2) [OF assms(1,3) run] assms(2) app] by (simp_all add: plain_app_def)
qed

end
