(* ===== verification/CatalogLaws.thy ===== *)
theory CatalogLaws
  imports CatalogCache StoreListing
begin

text \<open>
  The catalog cache is invisible while its database works: through the cache every call of the store
  answers what the manifest store alone answers. The locale \<open>listed_store\<close> is what the cache asks of the
  store below it; it is interpreted on the local manifest store. Where a statement of the refresh after a
  write fails, the cache keeps what it held: the last lemma shows a deleted application that is still read.
\<close>

section \<open>A database that works\<close>

lemma asked_first: "s\<lparr>cg_tables := c, cg_asked := n\<rparr> = s\<lparr>cg_asked := n, cg_tables := c\<rparr>"
  by simp

definition catalog_works :: "catalog_outside \<Rightarrow> bool" where
  "catalog_works co \<longleftrightarrow> co_connected co \<and> (\<forall>n. co_statement co n = None) \<and>
    (\<forall>r. \<exists>raw. co_encode co r = Inr raw \<and> co_decode co raw = Inr r)"

lemma sql_works: "catalog_works co \<Longrightarrow> sql_statement co s = (Inr (), s\<lparr>cg_asked := Suc (cg_asked s)\<rparr>)"
  by (simp add: catalog_works_def sql_statement_def bindS_def ask_catalog_def returnS_def)

lemma bind_sql: "catalog_works co \<Longrightarrow> bindS (sql_statement co) f s = f () (s\<lparr>cg_asked := Suc (cg_asked s)\<rparr>)"
  by (simp add: bindS_def sql_works)

lemma bind_ask: "bindS (ask_catalog g) f s = f (g (cg_asked s)) (s\<lparr>cg_asked := Suc (cg_asked s)\<rparr>)"
  by (simp add: bindS_def ask_catalog_def)

lemma bind_tables: "bindS (on_tables h) f s = f () (s\<lparr>cg_tables := h (cg_tables s)\<rparr>)"
  by (simp add: bindS_def on_tables_def modifyS_def)

lemma connected_works: "catalog_works co \<Longrightarrow> when_connected co m = m"
  by (simp add: when_connected_def catalog_works_def)

text \<open>The cache shows a listing of a project, and it mirrors a store when it shows that store's listings.\<close>

definition shows_listing :: "catalog_outside \<Rightarrow> catalog \<Rightarrow> string \<Rightarrow> app_record list \<Rightarrow> bool" where
  "shows_listing co c pid rs \<longleftrightarrow> (\<exists>n. stored_snapshot pid c = Some n \<and> sn_count n = length rs \<and>
    decode_records co (map cw_json (rows_of pid c)) = Inr rs)"

definition mirrors ::
  "catalog_outside \<Rightarrow> (string \<Rightarrow> (go_error, app_record list) result) \<Rightarrow> catalog \<Rightarrow> string \<Rightarrow> bool" where
  "mirrors co listing c pid \<longleftrightarrow>
    stored_snapshot pid c = None \<or> (\<exists>rs. listing pid = Inr rs \<and> shows_listing co c pid rs)"

definition same_project :: "string \<Rightarrow> catalog \<Rightarrow> catalog \<Rightarrow> bool" where
  "same_project q c c' \<longleftrightarrow> stored_snapshot q c' = stored_snapshot q c \<and> rows_of q c' = rows_of q c"

lemma mirrors_same: "same_project q c c' \<Longrightarrow> mirrors co listing c' q = mirrors co listing c q"
  by (simp add: same_project_def mirrors_def shows_listing_def)

lemma insert_run:
  assumes "catalog_works co" and "distinct (map ar_id rs)"
    and "\<forall>w \<in> set (ca_records (cg_tables s)). cw_project w = pid \<longrightarrow> cw_id w \<notin> ar_id ` set rs"
  shows "\<exists>n rows. insert_records co pid now rs s =
      (Inr (), s\<lparr>cg_tables := (cg_tables s)\<lparr>ca_records := ca_records (cg_tables s) @ rows\<rparr>, cg_asked := n\<rparr>) \<and>
    map (\<lambda>w. (cw_name w, cw_id w)) rows = map (\<lambda>r. (ar_name r, ar_id r)) rs \<and>
    (\<forall>w \<in> set rows. cw_project w = pid) \<and> decode_records co (map cw_json rows) = Inr rs"
  using assms(2,3)
proof (induction rs arbitrary: s)
  case Nil
  show ?case by (rule exI [of _ "cg_asked s"], rule exI [of _ "[]"]) (simp add: returnS_def)
next
  case (Cons r rs)
  obtain raw where raw: "co_encode co r = Inr raw" "co_decode co raw = Inr r"
    using assms(1) by (auto simp: catalog_works_def)
  let ?w = "\<lparr>cw_project = pid, cw_id = ar_id r, cw_name = ar_name r, cw_json = raw, cw_updated_at = db_time now\<rparr>"
  let ?s = "s\<lparr>cg_tables := (cg_tables s)\<lparr>ca_records := ca_records (cg_tables s) @ [?w]\<rparr>, cg_asked := Suc (cg_asked s)\<rparr>"
  have free: "\<not> list_ex (\<lambda>x. cw_project x = pid \<and> cw_id x = ar_id r) (ca_records (cg_tables s))"
    using Cons.prems(2) by (auto simp: list_ex_iff)
  then have step: "insert_records co pid now (r # rs) s = insert_records co pid now rs ?s"
    by (simp add: raw(1) sql_works [OF assms(1)] bindS_def insert_row_def readS_def on_tables_def modifyS_def asked_first)
  have "\<forall>w \<in> set (ca_records (cg_tables ?s)). cw_project w = pid \<longrightarrow> cw_id w \<notin> ar_id ` set rs"
    using Cons.prems by auto
  from Cons.IH [OF _ this] Cons.prems(1) obtain n rows where
    run: "insert_records co pid now rs ?s = (Inr (), ?s\<lparr>cg_tables := (cg_tables ?s)\<lparr>ca_records :=
        ca_records (cg_tables ?s) @ rows\<rparr>, cg_asked := n\<rparr>)"
      "map (\<lambda>w. (cw_name w, cw_id w)) rows = map (\<lambda>r. (ar_name r, ar_id r)) rs"
      "\<forall>w \<in> set rows. cw_project w = pid" "decode_records co (map cw_json rows) = Inr rs"
    by auto
  show ?case
  proof (intro exI conjI)
    show "insert_records co pid now (r # rs) s = (Inr (), s\<lparr>cg_tables := (cg_tables s)\<lparr>ca_records :=
        ca_records (cg_tables s) @ ?w # rows\<rparr>, cg_asked := n\<rparr>)"
      unfolding step run(1) by simp
  qed (use run raw in auto)
qed

lemma sorted_key_same: "sorted (map f xs) \<Longrightarrow> sort_key f xs = xs"
  by (rule sort_key_id_if_sorted)

lemma snapshot_put:
  "stored_snapshot pid (put_snapshot pid n now c) = Some \<lparr>sn_project = pid, sn_count = n, sn_updated_at = db_time now\<rparr>"
  "q \<noteq> pid \<Longrightarrow> stored_snapshot q (put_snapshot pid n now c) = stored_snapshot q c"
  "ca_records (put_snapshot pid n now c) = ca_records c"
proof -
  let ?row = "\<lparr>sn_project = pid, sn_count = n, sn_updated_at = db_time now\<rparr>"
  have there: "find (\<lambda>n. sn_project n = pid) (map (\<lambda>x. if sn_project x = pid then ?row else x) xs) = Some ?row"
    if "list_ex (\<lambda>x. sn_project x = pid) xs" for xs
    using that by (induction xs) auto
  have fresh: "find (\<lambda>n. sn_project n = pid) (xs @ [?row]) = Some ?row"
    if "\<not> list_ex (\<lambda>x. sn_project x = pid) xs" for xs
    using that by (induction xs) auto
  show "stored_snapshot pid (put_snapshot pid n now c) = Some ?row"
    by (auto simp: stored_snapshot_def put_snapshot_def Let_def there fresh)
  have other: "find (\<lambda>n. sn_project n = q) (map (\<lambda>x. if sn_project x = pid then ?row else x) xs) =
      find (\<lambda>n. sn_project n = q) xs" "find (\<lambda>n. sn_project n = q) (xs @ [?row]) = find (\<lambda>n. sn_project n = q) xs"
    if "q \<noteq> pid" for xs using that by (induction xs) auto
  show "q \<noteq> pid \<Longrightarrow> stored_snapshot q (put_snapshot pid n now c) = stored_snapshot q c"
    by (auto simp: stored_snapshot_def put_snapshot_def Let_def other)
qed (simp add: put_snapshot_def Let_def)

text \<open>A replacement shows the listing of its project and touches no other project.\<close>

lemma replace_run:
  assumes works: "catalog_works co" and rs: "records_by_name rs = rs" "distinct (map ar_id rs)"
  shows "\<exists>t. cache_replace co pid rs s = (Inr (), t) \<and> cg_source t = cg_source s \<and>
    shows_listing co (cg_tables t) pid rs \<and> (\<forall>q. q \<noteq> pid \<longrightarrow> same_project q (cg_tables s) (cg_tables t))"
proof -
  let ?now = "co_clock co (cg_asked s)"
  let ?kept = "filter (\<lambda>w. cw_project w \<noteq> pid) (ca_records (cg_tables s))"
  let ?s = "s\<lparr>cg_tables := (cg_tables s)\<lparr>ca_records := ?kept\<rparr>, cg_asked := Suc (Suc (Suc (cg_asked s)))\<rparr>"
  have "\<forall>w \<in> set (ca_records (cg_tables ?s)). cw_project w = pid \<longrightarrow> cw_id w \<notin> ar_id ` set rs" by simp
  from insert_run [OF works rs(2) this, of ?now] obtain n rows where
    run: "insert_records co pid ?now rs ?s = (Inr (), ?s\<lparr>cg_tables := (cg_tables ?s)\<lparr>ca_records :=
        ca_records (cg_tables ?s) @ rows\<rparr>, cg_asked := n\<rparr>)"
      "map (\<lambda>w. (cw_name w, cw_id w)) rows = map (\<lambda>r. (ar_name r, ar_id r)) rs"
      "\<forall>w \<in> set rows. cw_project w = pid" "decode_records co (map cw_json rows) = Inr rs" by auto
  let ?c = "put_snapshot pid (length rs) ?now ((cg_tables s)\<lparr>ca_records := ?kept @ rows\<rparr>)"
  let ?t = "s\<lparr>cg_tables := ?c, cg_asked := Suc (Suc n)\<rparr>"
  have "bindS (insert_records co pid ?now rs) f ?s = f () (?s\<lparr>cg_tables := (cg_tables ?s)\<lparr>ca_records :=
      ca_records (cg_tables ?s) @ rows\<rparr>, cg_asked := n\<rparr>)" for f :: "unit \<Rightarrow> ('a, unit) cataloged"
    by (simp only: bindS_def run(1) prod.case sum.case)
  then have "cache_replace co pid rs s = (Inr (), ?t)"
    by (simp add: cache_replace_def connected_works [OF works] bind_sql [OF works] bind_ask bind_tables
      in_transaction_def rs(1) sql_works [OF works] asked_first)
  moreover have "rows_of pid ?c = rows"
  proof -
    have "filter (\<lambda>w. cw_project w = pid) (?kept @ rows) = rows"
      using run(3) by (simp add: filter_True filter_False)
    moreover have "sorted (map (\<lambda>r. (ar_name r, ar_id r)) rs)"
      using rs(1) sorted_sort_key [of "\<lambda>r. (ar_name r, ar_id r)" rs] by (simp add: records_by_name_def)
    ultimately show ?thesis
      unfolding rows_of_def snapshot_put(3) using run(2) by (simp add: sorted_key_same)
  qed
  then have "shows_listing co ?c pid rs" by (simp add: shows_listing_def snapshot_put(1) run(4))
  moreover have "same_project q (cg_tables s) ?c" if "q \<noteq> pid" for q
  proof -
    have "filter (\<lambda>w. cw_project w = q) (?kept @ rows) = filter (\<lambda>w. cw_project w = q) (ca_records (cg_tables s))"
      using that run(3) by (auto simp: filter_empty_conv intro: filter_cong)
    moreover have "stored_snapshot q ?c = stored_snapshot q (cg_tables s)"
      unfolding snapshot_put(2) [OF that] by (simp add: stored_snapshot_def)
    ultimately show ?thesis by (simp add: same_project_def rows_of_def snapshot_put(3))
  qed
  ultimately show ?thesis by (intro exI [of _ ?t]) simp
qed

lemma invalidate_run:
  assumes "catalog_works co"
  shows "\<exists>t. cache_invalidate co pid s = (Inr (), t) \<and> cg_source t = cg_source s \<and>
    stored_snapshot pid (cg_tables t) = None \<and> (\<forall>q. q \<noteq> pid \<longrightarrow> same_project q (cg_tables s) (cg_tables t))"
proof -
  let ?c = "(cg_tables s)\<lparr>ca_snapshots := filter (\<lambda>n. sn_project n \<noteq> pid) (ca_snapshots (cg_tables s))\<rparr>"
  have "cache_invalidate co pid s = (Inr (), s\<lparr>cg_asked := Suc (cg_asked s), cg_tables := ?c\<rparr>)"
    by (simp add: cache_invalidate_def connected_works [OF assms] bind_sql [OF assms] on_tables_def modifyS_def)
  moreover have "find (\<lambda>n. sn_project n = pid) (filter (\<lambda>n. sn_project n \<noteq> pid) ns) = None"
    "q \<noteq> pid \<Longrightarrow> find (\<lambda>n. sn_project n = q) (filter (\<lambda>n. sn_project n \<noteq> pid) ns) = find (\<lambda>n. sn_project n = q) ns"
    for q ns by (induction ns) auto
  then have "stored_snapshot pid ?c = None" "q \<noteq> pid \<Longrightarrow> stored_snapshot q ?c = stored_snapshot q (cg_tables s)" for q
    unfolding stored_snapshot_def by (simp_all del: find.simps)
  ultimately show ?thesis by (auto simp: same_project_def rows_of_def)
qed

text \<open>A read of the cache gives nothing or the listing it mirrors, and changes no table.\<close>

lemma cache_list_run:
  assumes works: "catalog_works co" and "mirrors co listing (cg_tables s) pid"
  shows "\<exists>found n. cache_list co pid age s = (Inr found, s\<lparr>cg_asked := n\<rparr>) \<and>
    (\<forall>rs. found = Some rs \<longrightarrow> listing pid = Inr rs)"
proof (cases "age \<le> 0 \<or> stored_snapshot pid (cg_tables s) = None")
  case True
  then have "\<exists>n. cache_list co pid age s = (Inr None, s\<lparr>cg_asked := n\<rparr>)"
    by (cases "age \<le> 0")
      (auto simp: cache_list_def connected_works [OF works] bind_sql [OF works] returnS_def bindS_run(4)
        intro: exI [of _ "cg_asked s"])
  then show ?thesis by blast
next
  case False
  with assms(2) obtain rs n where shown: "listing pid = Inr rs" "stored_snapshot pid (cg_tables s) = Some n"
      "sn_count n = length rs" "decode_records co (map cw_json (rows_of pid (cg_tables s))) = Inr rs"
    by (auto simp: mirrors_def shows_listing_def)
  let ?old = "age < co_clock co (Suc (cg_asked s)) - sn_updated_at n"
  have "cache_list co pid age s =
      (if ?old then (Inr None, s\<lparr>cg_asked := Suc (Suc (cg_asked s))\<rparr>)
       else if rs = [] then (Inr (Some []), s\<lparr>cg_asked := Suc (Suc (cg_asked s))\<rparr>)
       else (Inr (Some rs), s\<lparr>cg_asked := Suc (Suc (Suc (cg_asked s)))\<rparr>))"
    using False shown(2-4)
    by (simp add: cache_list_def connected_works [OF works] bind_sql [OF works] bind_ask bindS_run(4) returnS_def)
  with shown(1) show ?thesis by (cases ?old; cases "rs = []") auto
qed

lemma cached_records_run:
  assumes "catalog_works co" and "mirrors co listing (cg_tables s) pid" and "cd_cache cd = Some co"
  shows "\<exists>found n. cached_records cd pid s = (Inr found, s\<lparr>cg_asked := n\<rparr>) \<and>
    (\<forall>rs. found = Some rs \<longrightarrow> listing pid = Inr rs)"
proof (cases "cd_freshness cd \<le> 0")
  case True
  then have "cached_records cd pid s = (Inr None, s\<lparr>cg_asked := cg_asked s\<rparr>)"
    using assms(3) by (simp add: cached_records_def)
  then show ?thesis by blast
next
  case False
  from cache_list_run [OF assms(1,2), of "cd_freshness cd"] obtain found n where
    "cache_list co pid (cd_freshness cd) s = (Inr found, s\<lparr>cg_asked := n\<rparr>)" "\<forall>rs. found = Some rs \<longrightarrow> listing pid = Inr rs"
    by blast
  with False assms(3) show ?thesis by (auto simp: cached_records_def)
qed

section \<open>What the cache asks of a store\<close>

definition coherent ::
  "catalog_outside \<Rightarrow> (string \<Rightarrow> 's \<Rightarrow> (go_error, app_record list) result) \<Rightarrow> 's catalog_state \<Rightarrow> bool" where
  "coherent co listing s \<longleftrightarrow>
    (\<forall>pid. plain_component pid \<longrightarrow> mirrors co (\<lambda>q. listing q (cg_source s)) (cg_tables s) pid)"

locale listed_store =
  fixes listing :: "string \<Rightarrow> 's \<Rightarrow> (go_error, app_record list) result"
    and lookup :: "string \<Rightarrow> 's \<Rightarrow> (go_error, app_record) result"
    and good :: "'s \<Rightarrow> bool"
  assumes listed: "good s \<Longrightarrow> plain_component pid \<Longrightarrow> listing pid s = Inr rs \<Longrightarrow> records_by_name rs = rs \<and> distinct (map ar_id rs)"
    and looked_up: "good s \<Longrightarrow> plain_component pid \<Longrightarrow> split_application_id i = Inr (pid, app) \<Longrightarrow> listing pid s = Inr rs \<Longrightarrow>
      find (\<lambda>r. ar_id r = i) rs = Some r \<Longrightarrow> lookup i s = Inr r"
begin

lemma refresh_run:
  assumes works: "catalog_works co" and cd: "cd_source cd = Some api" "cd_cache cd = Some co"
    and api: "sa_list api = (\<lambda>pid. readS (listing pid))" and good: "good (cg_source s)" and pid: "plain_component pid"
  shows "\<exists>t. refresh_project cd pid s = (listing pid (cg_source s), t) \<and> cg_source t = cg_source s \<and>
    (\<forall>q. q \<noteq> pid \<longrightarrow> same_project q (cg_tables s) (cg_tables t)) \<and>
    (case listing pid (cg_source s) of Inl e \<Rightarrow> t = s | Inr rs \<Rightarrow> shows_listing co (cg_tables t) pid rs)"
proof (cases "listing pid (cg_source s)")
  case (Inl e)
  then show ?thesis
    by (simp add: refresh_project_def from_source_def cd api on_source_def readS_def bindS_def same_project_def)
next
  case (Inr rs)
  from listed [OF good pid Inr] obtain t where t: "cache_replace co pid rs s = (Inr (), t)" "cg_source t = cg_source s"
      "shows_listing co (cg_tables t) pid rs" "\<forall>q. q \<noteq> pid \<longrightarrow> same_project q (cg_tables s) (cg_tables t)"
    using replace_run [OF works, of rs pid s] by blast
  have "refresh_project cd pid s = (Inr rs, t)"
    using Inr t(1)
    by (simp add: refresh_project_def from_source_def cd api on_source_def readS_def bindS_def replace_project_def
      drop_error_def returnS_def)
  with t Inr show ?thesis by auto
qed

lemma coherent_others:
  assumes "\<forall>q. q \<noteq> pid \<longrightarrow> same_project q (cg_tables s) (cg_tables t)" and "cg_source t = cg_source s"
    and "\<forall>q. plain_component q \<longrightarrow> q \<noteq> pid \<longrightarrow> mirrors co (\<lambda>p. listing p (cg_source s)) (cg_tables s) q"
    and "mirrors co (\<lambda>p. listing p (cg_source s)) (cg_tables t) pid"
  shows "coherent co listing t"
  unfolding coherent_def assms(2)
proof (intro allI impI)
  fix q assume "plain_component q"
  with assms mirrors_same show "mirrors co (\<lambda>p. listing p (cg_source s)) (cg_tables t) q" by (cases "q = pid") auto
qed

text \<open>After a write of one project its listing is refreshed, or forgotten where it cannot be read.\<close>

lemma after_write_run:
  assumes works: "catalog_works co" and cd: "cd_source cd = Some api" "cd_cache cd = Some co"
    and api: "sa_list api = (\<lambda>pid. readS (listing pid))" and good: "good (cg_source s)" and pid: "plain_component pid"
    and others: "\<forall>q. plain_component q \<longrightarrow> q \<noteq> pid \<longrightarrow> mirrors co (\<lambda>p. listing p (cg_source s)) (cg_tables s) q"
  shows "\<exists>t. refresh_after_write cd pid s = (Inr (), t) \<and> cg_source t = cg_source s \<and> coherent co listing t"
proof -
  from pid have named: "pid \<noteq> []" by (simp add: plain_component_def)
  from refresh_run [OF works cd api good pid] obtain t where
    t: "refresh_project cd pid s = (listing pid (cg_source s), t)" "cg_source t = cg_source s"
      "\<forall>q. q \<noteq> pid \<longrightarrow> same_project q (cg_tables s) (cg_tables t)"
      "case listing pid (cg_source s) of Inl e \<Rightarrow> t = s | Inr rs \<Rightarrow> shows_listing co (cg_tables t) pid rs" by blast
  show ?thesis
  proof (cases "listing pid (cg_source s)")
    case (Inr rs)
    with t(4) have "mirrors co (\<lambda>p. listing p (cg_source s)) (cg_tables t) pid" by (simp add: mirrors_def)
    from coherent_others [OF t(3,2) others this] t(1,2) Inr named show ?thesis by (simp add: refresh_after_write_def)
  next
    case (Inl e)
    from invalidate_run [OF works, of pid s] obtain u where u: "cache_invalidate co pid s = (Inr (), u)"
      "cg_source u = cg_source s" "stored_snapshot pid (cg_tables u) = None"
      "\<forall>q. q \<noteq> pid \<longrightarrow> same_project q (cg_tables s) (cg_tables u)" by blast
    have "refresh_after_write cd pid s = (Inr (), u)"
      using t(1,4) Inl u(1) named by (simp add: refresh_after_write_def invalidate_project_def cd drop_error_def)
    moreover have "mirrors co (\<lambda>p. listing p (cg_source s)) (cg_tables u) pid" using u(3) by (simp add: mirrors_def)
    ultimately show ?thesis using coherent_others [OF u(4,2) others] u(2) by blast
  qed
qed

lemma write_run:
  assumes works: "catalog_works co" and cd: "cd_source cd = Some api" "cd_cache cd = Some co"
    and api: "sa_list api = (\<lambda>pid. readS (listing pid))"
    and run: "f api (cg_source s) = (r, u)" and failed: "\<And>e. r = Inl e \<Longrightarrow> u = cg_source s"
    and wrote: "\<And>x. r = Inr x \<Longrightarrow> good u \<and> plain_component (project_of x) \<and>
      (\<forall>q. plain_component q \<longrightarrow> q \<noteq> project_of x \<longrightarrow> listing q u = listing q (cg_source s))"
    and coherent: "coherent co listing s"
  shows "\<exists>t. cached_write cd project_of f s = (r, t) \<and> cg_source t = u \<and> coherent co listing t"
proof (cases r)
  case (Inl e)
  with failed run have "cached_write cd project_of f s = (Inl e, s)"
    by (simp add: cached_write_def from_source_def cd on_source_def bindS_def)
  with Inl failed coherent show ?thesis by simp
next
  case (Inr x)
  let ?s = "s\<lparr>cg_source := u\<rparr>"
  note ok = wrote [OF Inr]
  have others: "\<forall>q. plain_component q \<longrightarrow> q \<noteq> project_of x \<longrightarrow> mirrors co (\<lambda>p. listing p (cg_source ?s)) (cg_tables ?s) q"
    using ok coherent by (simp add: coherent_def mirrors_def)
  from after_write_run [OF works cd api _ _ others] ok obtain t where
    t: "refresh_after_write cd (project_of x) ?s = (Inr (), t)" "cg_source t = u" "coherent co listing t" by auto
  have "cached_write cd project_of f s = (Inr x, t)"
    using Inr run t(1) by (simp add: cached_write_def from_source_def cd on_source_def bindS_def returnS_def)
  with t Inr show ?thesis by blast
qed

lemma list_run:
  assumes works: "catalog_works co" and cd: "cd_source cd = Some api" "cd_cache cd = Some co"
    and api: "sa_list api = (\<lambda>pid. readS (listing pid))" and good: "good (cg_source s)" and pid: "plain_component pid"
    and coherent: "coherent co listing s"
  shows "\<exists>t. cached_list cd pid s = (listing pid (cg_source s), t) \<and> cg_source t = cg_source s \<and> coherent co listing t"
proof -
  have "mirrors co (\<lambda>q. listing q (cg_source s)) (cg_tables s) pid" using coherent pid by (simp add: coherent_def)
  from cached_records_run [OF works this cd(2)] obtain found n where
    r: "cached_records cd pid s = (Inr found, s\<lparr>cg_asked := n\<rparr>)" "\<forall>rs. found = Some rs \<longrightarrow> listing pid (cg_source s) = Inr rs"
    by blast
  show ?thesis
  proof (cases found)
    case (Some rs)
    with r have "cached_list cd pid s = (listing pid (cg_source s), s\<lparr>cg_asked := n\<rparr>)"
      by (simp add: cached_list_def bindS_def returnS_def)
    with coherent show ?thesis by (simp add: coherent_def)
  next
    case None
    let ?s = "s\<lparr>cg_asked := n\<rparr>"
    have good': "good (cg_source ?s)" using good by simp
    from refresh_run [OF works cd api good' pid] obtain t where
      t: "refresh_project cd pid ?s = (listing pid (cg_source ?s), t)" "cg_source t = cg_source ?s"
        "\<forall>q. q \<noteq> pid \<longrightarrow> same_project q (cg_tables ?s) (cg_tables t)"
        "case listing pid (cg_source ?s) of Inl e \<Rightarrow> t = ?s | Inr rs \<Rightarrow> shows_listing co (cg_tables t) pid rs" by blast
    have others: "\<forall>q. plain_component q \<longrightarrow> mirrors co (\<lambda>p. listing p (cg_source ?s)) (cg_tables ?s) q"
      using coherent by (simp add: coherent_def)
    have "mirrors co (\<lambda>p. listing p (cg_source ?s)) (cg_tables t) pid"
      using t(4) others pid by (auto simp: mirrors_def split: sum.splits)
    with coherent_others [OF t(3,2)] others have "coherent co listing t" by blast
    moreover have "cached_list cd pid s = (listing pid (cg_source s), t)"
      using r(1) None t(1) by (simp add: cached_list_def bindS_def)
    ultimately show ?thesis using t(2) by auto
  qed
qed

lemma get_run:
  assumes works: "catalog_works co" and cd: "cd_source cd = Some api" "cd_cache cd = Some co"
    and api: "sa_get api = (\<lambda>i. readS (lookup i))" and good: "good (cg_source s)"
    and i: "split_application_id i = Inr (pid, app)" and pid: "plain_component pid" and coherent: "coherent co listing s"
  shows "\<exists>t. cached_get cd i s = (lookup i (cg_source s), t) \<and> cg_source t = cg_source s \<and> coherent co listing t"
proof -
  have "mirrors co (\<lambda>q. listing q (cg_source s)) (cg_tables s) pid" using coherent pid by (simp add: coherent_def)
  from cached_records_run [OF works this cd(2)] obtain found n where
    r: "cached_records cd pid s = (Inr found, s\<lparr>cg_asked := n\<rparr>)" "\<forall>rs. found = Some rs \<longrightarrow> listing pid (cg_source s) = Inr rs"
    by blast
  let ?hit = "case found of None \<Rightarrow> None | Some rs \<Rightarrow> find (\<lambda>r. ar_id r = i) rs"
  have "lookup i (cg_source s) = Inr x" if "?hit = Some x" for x
    using that r(2) looked_up [OF good pid i] by (auto split: option.splits)
  then have "cached_get cd i s = (lookup i (cg_source s), s\<lparr>cg_asked := n\<rparr>)"
    using r(1) by (cases ?hit)
      (simp_all add: cached_get_def i bindS_def returnS_def from_source_def cd on_source_def api readS_def)
  with coherent show ?thesis by (simp add: coherent_def)
qed

end

section \<open>The local manifest store below the cache\<close>

lemma sorted_by_name:
  assumes "sorted (map ar_name rs)" and "distinct (map ar_name rs)"
  shows "records_by_name rs = rs"
proof -
  have "sorted (map (\<lambda>r. (ar_name r, ar_id r)) rs)"
    using assms by (induction rs) (auto simp: less_eq_prod_def order.order_iff_strict)
  then show ?thesis unfolding records_by_name_def by (rule sorted_key_same)
qed

interpretation local_listing: listed_store list_applications get_application "\<lambda>r. wf_repo r \<and> tidy_repo r"
proof
  fix s :: repo and pid rs
  assume "wf_repo s \<and> tidy_repo s" "plain_component pid" "list_applications pid s = Inr rs"
  then show "records_by_name rs = rs \<and> distinct (map ar_id rs)"
    using list_applications_records(1-3) [of s pid rs] sorted_by_name by blast
next
  fix s :: repo and pid i app rs r
  assume good: "wf_repo s \<and> tidy_repo s" and pid: "plain_component pid" and i: "split_application_id i = Inr (pid, app)"
    and rs: "list_applications pid s = Inr rs" and r: "find (\<lambda>r. ar_id r = i) rs = Some r"
  from find_SomeD [OF r] have "r \<in> set rs" "ar_id r = i" by simp_all
  with list_applications_records(4) [of s pid rs r] good pid rs
  have l: "load_record s pid (ar_name r) = Inr r" "i = build_application_id pid (ar_name r)" by auto
  from split_inverse(1) [OF i] l(2) have "app = ar_name r" by (simp add: build_application_id_def)
  with l(1) i show "get_application i s = Inr r" by (simp add: get_application_def)
qed

text \<open>The calls that read or change what the catalog holds, with the time of the call, and their answers.\<close>

datatype store_call =
    CallList int string
  | CallGet int string
  | CallCreate int project_context create_request string
  | CallPatch int project_context string update_request
  | CallImage int project_context string string string
  | CallSecretPath int project_context string string
  | CallArchive int string string
  | CallDelete int string

datatype store_answer =
    Records "(go_error, app_record list) result"
  | Record "(go_error, app_record) result"
  | Lifecycle "(go_error, lifecycle_response) result"

fun call_store :: "(int \<Rightarrow> 's store_api) \<Rightarrow> store_call \<Rightarrow> 's \<Rightarrow> store_answer \<times> 's" where
  "call_store api (CallList now pid) s = map_prod Records id (sa_list (api now) pid s)"
| "call_store api (CallGet now i) s = map_prod Record id (sa_get (api now) i s)"
| "call_store api (CallCreate now pc req path) s = map_prod Record id (sa_create (api now) pc req path s)"
| "call_store api (CallPatch now pc i u) s = map_prod Record id (sa_patch (api now) pc i u s)"
| "call_store api (CallImage now pc i tag dep) s = map_prod Record id (sa_image (api now) pc i tag dep s)"
| "call_store api (CallSecretPath now pc i path) s = map_prod Record id (sa_secret_path (api now) pc i path s)"
| "call_store api (CallArchive now i who) s = map_prod Lifecycle id (sa_archive (api now) i who s)"
| "call_store api (CallDelete now i) s = map_prod Lifecycle id (sa_delete (api now) i s)"

fun call_all :: "(int \<Rightarrow> 's store_api) \<Rightarrow> store_call list \<Rightarrow> 's \<Rightarrow> store_answer list \<times> 's" where
  "call_all api [] s = ([], s)"
| "call_all api (c # cs) s = (case call_store api c s of (a, t) \<Rightarrow> map_prod (Cons a) id (call_all api cs t))"

fun call_ok :: "store_call \<Rightarrow> bool" where
  "call_ok (CallList now pid) \<longleftrightarrow> plain_component pid"
| "call_ok (CallGet now i) \<longleftrightarrow> valid_id i"
| "call_ok (CallCreate now pc req path) \<longleftrightarrow> plain_create pc req"
| "call_ok (CallPatch now pc i u) \<longleftrightarrow> plain_context pc \<and> plain_patch u \<and> valid_id i"
| "call_ok (CallImage now pc i tag dep) \<longleftrightarrow> plain_context pc \<and> CHR ''/'' \<notin> set dep \<and> valid_id i"
| "call_ok (CallSecretPath now pc i path) \<longleftrightarrow> plain_context pc \<and> valid_id i"
| "call_ok (CallArchive now i who) \<longleftrightarrow> valid_id i \<and> now \<noteq> 0"
| "call_ok (CallDelete now i) \<longleftrightarrow> valid_id i"

definition over_local :: "store_config \<Rightarrow> catalog_outside \<Rightarrow> int \<Rightarrow> int \<Rightarrow> repo cached_store" where
  "over_local cfg co freshness now =
    \<lparr>cd_source = Some (local_api cfg now), cd_cache = Some co, cd_freshness = freshness\<rparr>"

lemma over_local_fields:
  "cd_source (over_local cfg co f now) = Some (local_api cfg now)" "cd_cache (over_local cfg co f now) = Some co"
  "sa_list (local_api cfg now) = (\<lambda>pid. readS (list_applications pid))"
  "sa_get (local_api cfg now) = (\<lambda>i. readS (get_application i))"
  by (simp_all add: over_local_def local_api_def)

text \<open>A write that fails changes nothing, and one that succeeds stays in its project.\<close>

definition project_write :: "('a \<Rightarrow> string) \<Rightarrow> repo \<Rightarrow> (go_error, 'a) result \<Rightarrow> repo \<Rightarrow> bool" where
  "project_write project_of repo r u \<longleftrightarrow>
    (case r of Inl e \<Rightarrow> u = repo | Inr x \<Rightarrow> confined (project_of x) repo u \<and> plain_component (project_of x))"

lemma write_cached:
  assumes "catalog_works co" and "f (local_api cfg now) (cg_source s) = (r, u)" and "project_write project_of (cg_source s) r u"
    and "coherent co list_applications s"
  shows "\<exists>t. cached_write (over_local cfg co fr now) project_of f s = (r, t) \<and> cg_source t = u \<and>
    coherent co list_applications t"
  by (rule local_listing.write_run [OF assms(1) over_local_fields(1-3), where f = f and r = r, OF assms(2) _ _ assms(4)])
     (use assms(3) in \<open>auto simp: project_write_def confined_def\<close>)

lemma local_writes:
  assumes "wf_repo repo" and "tidy_repo repo"
  shows "plain_create pc req \<Longrightarrow> store_create cfg now pc req path repo = (r, u) \<Longrightarrow> project_write ar_project_id repo r u"
    and "plain_context pc \<Longrightarrow> plain_patch x \<Longrightarrow> valid_id i \<Longrightarrow> store_patch cfg now pc i x repo = (r, u) \<Longrightarrow>
      project_write ar_project_id repo r u"
    and "plain_context pc \<Longrightarrow> CHR ''/'' \<notin> set dep \<Longrightarrow> valid_id i \<Longrightarrow> store_update_image cfg now pc i tag dep repo = (r, u) \<Longrightarrow>
      project_write ar_project_id repo r u"
    and "plain_context pc \<Longrightarrow> valid_id i \<Longrightarrow> store_save_secret_path cfg now pc i path repo = (r, u) \<Longrightarrow>
      project_write ar_project_id repo r u"
    and "valid_id i \<Longrightarrow> now \<noteq> 0 \<Longrightarrow> store_archive now i who repo = (l, u) \<Longrightarrow> project_write lc_project_id repo l u"
    and "valid_id i \<Longrightarrow> store_delete now i repo = (l, u) \<Longrightarrow> project_write lc_project_id repo l u"
proof -
  note ok = assms
  show "plain_create pc req \<Longrightarrow> store_create cfg now pc req path repo = (r, u) \<Longrightarrow> project_write ar_project_id repo r u"
    using create_confined [OF ok] by (cases r) (auto simp: project_write_def store_create_def Let_def split: if_splits)
  show "plain_context pc \<Longrightarrow> plain_patch x \<Longrightarrow> valid_id i \<Longrightarrow> store_patch cfg now pc i x repo = (r, u) \<Longrightarrow>
      project_write ar_project_id repo r u"
    using patch_confined [OF ok] by (cases r) (auto simp: project_write_def store_patch_def Let_def split: sum.splits)
  show "plain_context pc \<Longrightarrow> CHR ''/'' \<notin> set dep \<Longrightarrow> valid_id i \<Longrightarrow> store_update_image cfg now pc i tag dep repo = (r, u) \<Longrightarrow>
      project_write ar_project_id repo r u"
    using image_confined [OF ok] by (cases r) (auto simp: project_write_def store_update_image_def Let_def split: sum.splits)
  show "plain_context pc \<Longrightarrow> valid_id i \<Longrightarrow> store_save_secret_path cfg now pc i path repo = (r, u) \<Longrightarrow>
      project_write ar_project_id repo r u"
    using secret_path_confined [OF ok]
    by (cases r) (auto simp: project_write_def store_save_secret_path_def Let_def split: sum.splits)
  show "valid_id i \<Longrightarrow> now \<noteq> 0 \<Longrightarrow> store_archive now i who repo = (l, u) \<Longrightarrow> project_write lc_project_id repo l u"
    using archive_confined [OF ok]
    by (cases l) (auto simp: project_write_def store_archive_def Let_def split: sum.splits prod.splits)
  show "valid_id i \<Longrightarrow> store_delete now i repo = (l, u) \<Longrightarrow> project_write lc_project_id repo l u"
    using delete_confined [OF ok]
    by (cases l) (auto simp: project_write_def store_delete_def split: sum.splits prod.splits)
qed

lemma project_write_good:
  "wf_repo repo \<Longrightarrow> tidy_repo repo \<Longrightarrow> project_write project_of repo r u \<Longrightarrow> wf_repo u \<and> tidy_repo u"
  by (auto simp: project_write_def confined_def split: sum.splits)

lemma write_step:
  assumes "catalog_works co" and "wf_repo (cg_source s)" "tidy_repo (cg_source s)" and "coherent co list_applications s"
    and "f (local_api cfg now) (cg_source s) = (r, u)" and "project_write project_of (cg_source s) r u"
  shows "\<exists>t. cached_write (over_local cfg co fr now) project_of f s = (r, t) \<and> cg_source t = u \<and>
    coherent co list_applications t \<and> wf_repo u \<and> tidy_repo u"
  using write_cached [where f = f and fr = fr and project_of = project_of, OF assms(1,5,6,4)]
    project_write_good [OF assms(2,3,6)] by blast

lemma cached_step:
  assumes works: "catalog_works co" and good: "wf_repo (cg_source s)" "tidy_repo (cg_source s)"
    and coherent: "coherent co list_applications s" and c: "call_ok c"
  shows "\<exists>a t. call_store (\<lambda>now. cached_api (over_local cfg co fr now)) c s = (a, t) \<and>
    call_store (local_api cfg) c (cg_source s) = (a, cg_source t) \<and> coherent co list_applications t \<and>
    wf_repo (cg_source t) \<and> tidy_repo (cg_source t)"
proof -
  note w = local_writes [OF good] and wrote = write_step [OF works good coherent]
  show ?thesis
  proof (cases c)
    case (CallList now pid)
    with c have "plain_component pid" by simp
    from local_listing.list_run [OF works over_local_fields(1-3) conjI [OF good] this coherent, of cfg fr now] CallList good
    show ?thesis by (auto simp: cached_api_def over_local_fields readS_def)
  next
    case (CallGet now i)
    with c obtain pid app where i: "split_application_id i = Inr (pid, app)" "plain_app pid app" by (auto elim: valid_idE)
    then have "plain_component pid" by (simp add: plain_app_def)
    from local_listing.get_run [OF works over_local_fields(1,2,4) conjI [OF good] i(1) this coherent, of cfg fr now] CallGet good
    show ?thesis by (auto simp: cached_api_def over_local_fields readS_def)
  next
    case (CallCreate now pc req path)
    obtain r u where run: "store_create cfg now pc req path (cg_source s) = (r, u)" by fastforce
    from wrote [where f = "\<lambda>api. sa_create api pc req path" and cfg = cfg and now = now and r = r and u = u and project_of = ar_project_id and fr = fr] w(1) [OF _ run] run CallCreate c
    show ?thesis
      by (auto simp: cached_api_def local_api_def cached_create_def)
  next
    case (CallPatch now pc i x)
    obtain r u where run: "store_patch cfg now pc i x (cg_source s) = (r, u)" by fastforce
    from wrote [where f = "\<lambda>api. sa_patch api pc i x" and cfg = cfg and now = now and r = r and u = u and project_of = ar_project_id and fr = fr] w(2) [OF _ _ _ run] run CallPatch c
    show ?thesis
      by (auto simp: cached_api_def local_api_def cached_patch_def)
  next
    case (CallImage now pc i tag dep)
    obtain r u where run: "store_update_image cfg now pc i tag dep (cg_source s) = (r, u)" by fastforce
    from wrote [where f = "\<lambda>api. sa_image api pc i tag dep" and cfg = cfg and now = now and r = r and u = u and project_of = ar_project_id and fr = fr] w(3) [OF _ _ _ run] run CallImage c
    show ?thesis
      by (auto simp: cached_api_def local_api_def cached_update_image_def)
  next
    case (CallSecretPath now pc i path)
    obtain r u where run: "store_save_secret_path cfg now pc i path (cg_source s) = (r, u)" by fastforce
    from wrote [where f = "\<lambda>api. sa_secret_path api pc i path" and cfg = cfg and now = now and r = r and u = u and project_of = ar_project_id and fr = fr] w(4) [OF _ _ run] run CallSecretPath c
    show ?thesis by (auto simp: cached_api_def local_api_def cached_save_secret_path_def)
  next
    case (CallArchive now i who)
    obtain r u where run: "store_archive now i who (cg_source s) = (r, u)" by fastforce
    from wrote [where f = "\<lambda>api. sa_archive api i who" and cfg = cfg and now = now and r = r and u = u and project_of = lc_project_id and fr = fr] w(5) [OF _ _ run] run CallArchive c
    show ?thesis
      by (auto simp: cached_api_def local_api_def cached_archive_def)
  next
    case (CallDelete now i)
    obtain r u where run: "store_delete now i (cg_source s) = (r, u)" by fastforce
    from wrote [where f = "\<lambda>api. sa_delete api i" and cfg = cfg and now = now and r = r and u = u and project_of = lc_project_id and fr = fr] w(6) [OF _ run] run CallDelete c
    show ?thesis
      by (auto simp: cached_api_def local_api_def cached_delete_def)
  qed
qed

lemma cached_trace:
  assumes "catalog_works co" and "wf_repo (cg_source s)" and "tidy_repo (cg_source s)"
    and "coherent co list_applications s" and "list_all call_ok cs"
  shows "\<exists>as t. call_all (\<lambda>now. cached_api (over_local cfg co fr now)) cs s = (as, t) \<and>
    call_all (local_api cfg) cs (cg_source s) = (as, cg_source t)"
  using assms(2-5)
proof (induction cs arbitrary: s)
  case (Cons c cs)
  from cached_step [OF assms(1) Cons.prems(1-3), of c cfg fr] Cons.prems(4) obtain a t where
    step: "call_store (\<lambda>now. cached_api (over_local cfg co fr now)) c s = (a, t)"
      "call_store (local_api cfg) c (cg_source s) = (a, cg_source t)"
    and t: "coherent co list_applications t" "wf_repo (cg_source t)" "tidy_repo (cg_source t)" by auto
  from Cons.IH [OF t(2,3,1)] Cons.prems(4) step show ?case by auto
qed simp

definition empty_catalog :: "'s \<Rightarrow> 's catalog_state" where
  "empty_catalog source = \<lparr>cg_source = source, cg_tables = \<lparr>ca_snapshots = [], ca_records = []\<rparr>, cg_asked = 0\<rparr>"

text \<open>
  C21: While its database works, the catalog cache is invisible. Whatever sequence of reads and writes of
  applications is called through the cache over the local manifest store, starting with an empty catalog
  and whatever the freshness and the clock, every answer, errors included, is the answer of the manifest
  store alone, and the manifests at the end are the same.
\<close>

theorem cached_store_transparent:
  assumes "catalog_works co" and "wf_repo repo" and "tidy_repo repo" and "list_all call_ok cs"
  shows "fst (call_all (\<lambda>now. cached_api (over_local cfg co freshness now)) cs (empty_catalog repo)) =
      fst (call_all (local_api cfg) cs repo) \<and>
    cg_source (snd (call_all (\<lambda>now. cached_api (over_local cfg co freshness now)) cs (empty_catalog repo))) =
      snd (call_all (local_api cfg) cs repo)"
proof -
  have "coherent co list_applications (empty_catalog repo)"
    by (simp add: coherent_def mirrors_def empty_catalog_def stored_snapshot_def)
  from cached_trace [OF assms(1) _ _ this assms(4), of cfg freshness] assms(2,3)
  show ?thesis by (auto simp: empty_catalog_def)
qed

text \<open>A codec for the witness: the fields of a record as texts, each after its length in unary.\<close>

definition unary :: "int \<Rightarrow> string" where
  "unary i = (if i < 0 then CHR ''-'' # replicate (nat (- i)) (CHR ''1'') else replicate (nat i) (CHR ''1''))"

definition from_unary :: "string \<Rightarrow> int" where
  "from_unary s = (if s \<noteq> [] \<and> hd s = CHR ''-'' then - int (length (tl s)) else int (length s))"

lemma from_unary: "from_unary (unary i) = i"
  by (cases "nat i") (auto simp: unary_def from_unary_def)

definition show_flag :: "bool \<Rightarrow> string" where
  "show_flag b = (if b then ''1'' else [])"

lemma show_flag: "show_flag b \<noteq> [] \<longleftrightarrow> b"
  by (simp add: show_flag_def)

definition pack_fields :: "string list \<Rightarrow> string" where
  "pack_fields ss = concat (map (\<lambda>s. replicate (length s) (CHR ''1'') @ CHR ''0'' # s) ss)"

fun unpack_fields :: "nat \<Rightarrow> string \<Rightarrow> string list" where
  "unpack_fields 0 t = []"
| "unpack_fields (Suc k) t =
    (let n = length (takeWhile (\<lambda>c. c = CHR ''1'') t); rest = drop (Suc n) t in take n rest # unpack_fields k (drop n rest))"

lemma unpack_pack_fields: "unpack_fields (length ss) (pack_fields ss) = ss"
proof (induction ss)
  case (Cons s ss)
  have "takeWhile (\<lambda>c. c = CHR ''1'') (replicate (length s) (CHR ''1'') @ CHR ''0'' # s @ pack_fields ss) =
      replicate (length s) (CHR ''1'')"
    by (simp add: takeWhile_append2 takeWhile_append)
  with Cons show ?case by (simp add: pack_fields_def Let_def)
qed (simp add: pack_fields_def)

definition record_texts :: "app_record \<Rightarrow> string list" where
  "record_texts r =
    [ar_id r, ar_project_id r, ar_namespace r, ar_name r, ar_description r, ar_image r,
     unary (ar_service_port r), unary (ar_replicas r), show_flag (ar_required_probes r), ar_strategy r,
     ar_environment r, unary (ar_created_at r), unary (ar_updated_at r), ar_secret_path r, ar_repository_id r,
     ar_repository_url r, ar_repository_branch r, ar_repository_service_id r, ar_config_path r,
     ar_repository_token_path r, ar_registry_secret_path r, unary (ar_poll_interval r),
     rq_cpu (rr_requests (ar_resources r)), rq_memory (rr_requests (ar_resources r)),
     rq_cpu (rr_limits (ar_resources r)), rq_memory (rr_limits (ar_resources r)), show_flag (ar_mesh r),
     show_flag (ar_load_balancer r)]"

definition record_of_texts :: "string list \<Rightarrow> app_record" where
  "record_of_texts ss =
    \<lparr>ar_id = ss ! 0, ar_project_id = ss ! 1, ar_namespace = ss ! 2, ar_name = ss ! 3, ar_description = ss ! 4,
     ar_image = ss ! 5, ar_service_port = from_unary (ss ! 6), ar_replicas = from_unary (ss ! 7),
     ar_required_probes = ss ! 8 \<noteq> [], ar_strategy = ss ! 9, ar_environment = ss ! 10,
     ar_created_at = from_unary (ss ! 11), ar_updated_at = from_unary (ss ! 12), ar_secret_path = ss ! 13,
     ar_repository_id = ss ! 14, ar_repository_url = ss ! 15, ar_repository_branch = ss ! 16,
     ar_repository_service_id = ss ! 17, ar_config_path = ss ! 18, ar_repository_token_path = ss ! 19,
     ar_registry_secret_path = ss ! 20, ar_poll_interval = from_unary (ss ! 21),
     ar_resources = \<lparr>rr_requests = \<lparr>rq_cpu = ss ! 22, rq_memory = ss ! 23\<rparr>, rr_limits = \<lparr>rq_cpu = ss ! 24, rq_memory = ss ! 25\<rparr>\<rparr>,
     ar_mesh = ss ! 26 \<noteq> [], ar_load_balancer = ss ! 27 \<noteq> []\<rparr>"

lemma record_texts_back: "record_of_texts (record_texts r) = r"
  by (simp add: record_of_texts_def record_texts_def from_unary show_flag)

definition plain_database :: catalog_outside where
  "plain_database =
    \<lparr>co_driver = MariaDB, co_connected = True, co_statement = (\<lambda>_. None), co_clock = int, co_duplicate = ''duplicate key'',
     co_encode = (\<lambda>r. Inr (pack_fields (record_texts r))), co_decode = (\<lambda>raw. Inr (record_of_texts (unpack_fields 28 raw)))\<rparr>"

lemma plain_database_works: "catalog_works plain_database"
proof -
  have "length (record_texts r) = 28" for r by (simp add: record_texts_def)
  then have "record_of_texts (unpack_fields 28 (pack_fields (record_texts r))) = r" for r
    using unpack_pack_fields [of "record_texts r"] by (simp add: record_texts_back)
  then show ?thesis by (simp add: catalog_works_def plain_database_def)
qed

theorem cached_store_transparent_witness:
  "\<forall>cfg. fst (call_all (\<lambda>now. cached_api (over_local cfg plain_database 60 now))
      [CallCreate 5 demo_context demo_request [], CallList 6 ''demo'', CallGet 7 demo_id, CallDelete 8 demo_id, CallGet 9 demo_id]
      (empty_catalog [])) =
    fst (call_all (local_api cfg)
      [CallCreate 5 demo_context demo_request [], CallList 6 ''demo'', CallGet 7 demo_id, CallDelete 8 demo_id, CallGet 9 demo_id] [])"
proof
  fix cfg :: store_config
  have "tidy_repo []" by (simp add: tidy_repo_def fs_read_def)
  moreover have "list_all call_ok [CallCreate 5 demo_context demo_request [], CallList 6 ''demo'', CallGet 7 demo_id,
      CallDelete 8 demo_id, CallGet 9 demo_id]"
    using demo_plain_create demo_created_parts(2) by (simp add: plain_component_def)
  ultimately show "fst (call_all (\<lambda>now. cached_api (over_local cfg plain_database 60 now))
      [CallCreate 5 demo_context demo_request [], CallList 6 ''demo'', CallGet 7 demo_id, CallDelete 8 demo_id, CallGet 9 demo_id]
      (empty_catalog [])) =
    fst (call_all (local_api cfg)
      [CallCreate 5 demo_context demo_request [], CallList 6 ''demo'', CallGet 7 demo_id, CallDelete 8 demo_id, CallGet 9 demo_id] [])"
    by (rule conjunct1 [OF cached_store_transparent [OF plain_database_works empty_wf]])
qed

text \<open>
  When the write succeeds and its listing too, but the replacement of the catalog fails, the catalog stays
  as it was before the write: only a listing that fails makes the cache forget the project.
\<close>

lemma failed_refresh_keeps_catalog:
  assumes "cd_source cd = Some api" and "cd_cache cd = Some co" and "f api (cg_source s) = (Inr x, u)"
    and "sa_list api (project_of x) u = (Inr rs, w)"
    and "fst (cache_replace co (project_of x) rs (s\<lparr>cg_source := w\<rparr>)) = Inl e"
  shows "fst (cached_write cd project_of f s) = Inr x \<and> cg_tables (snd (cached_write cd project_of f s)) = cg_tables s"
proof -
  obtain t where t: "cache_replace co (project_of x) rs (s\<lparr>cg_source := w\<rparr>) = (Inl e, t)"
    using assms(5) by (cases "cache_replace co (project_of x) rs (s\<lparr>cg_source := w\<rparr>)") auto
  have "cg_tables t = cg_tables s"
    using t by (auto simp: cache_replace_def when_connected_def failS_def bind_ask in_transaction_def
      split: if_splits prod.splits sum.splits)
  then show ?thesis
    using assms t by (simp add: cached_write_def from_source_def on_source_def refresh_after_write_def refresh_project_def
      replace_project_def drop_error_def bindS_def returnS_def)
qed

end
