(* ===== verification/MetricsProm.thy ===== *)
theory MetricsProm
  imports KubePods VaultHttp
begin

text \<open>
  The readers of metrics (application/metrics_prometheus.go, metrics_local.go): the Prometheus reader with
  its queries, single and in batches, the reader of two sources, the failing and the local one. The
  transport, the JSON decoder, strconv.ParseFloat, the clock and the end of a context are parameters asked
  with a running number. Go's maps are lists of pairs with distinct keys, so an iteration over a map is one
  over the list, in whatever order it has. A step is cut to a whole second as the exact quotient is, ties to
  even; the conversion of the code through float64 agrees for steps below a month.
\<close>

section \<open>Readers\<close>

type_synonym series_by_id = "(string \<times> metric_series list) list"

text \<open>
  A reader over a state, the batch interface if it has one. A batch error comes with what was read.
\<close>

record 's metrics_source =
  mz_read :: "app_record \<Rightarrow> int \<Rightarrow> int \<Rightarrow> ('s, go_error, metric_series list) action"
  mz_many :: "(app_record list \<Rightarrow> int \<Rightarrow> int \<Rightarrow> ('s, go_error, batch_error option \<times> series_by_id) action) option"

definition series_has_values :: "metric_series \<Rightarrow> bool" where
  "series_has_values m \<longleftrightarrow> list_ex (\<lambda>p. mp_value p \<noteq> None) (ms_points m)"

text \<open>The values of a series by second, a later point over an earlier one.\<close>

definition values_by_second :: "metric_series \<Rightarrow> (int \<times> f64) list" where
  "values_by_second m =
    rev (List.map_filter (\<lambda>p. map_option (\<lambda>v. (unix_seconds (mp_timestamp p), v)) (mp_value p)) (ms_points m))"

definition merge_metric_points :: "metric_series \<Rightarrow> metric_series \<Rightarrow> metric_series" where
  "merge_metric_points primary fallback =
    (if ms_points primary = [] then fallback
     else primary\<lparr>
       ms_points := map (\<lambda>p.
         if mp_value p \<noteq> None then p
         else case map_of (values_by_second fallback) (unix_seconds (mp_timestamp p)) of
           None \<Rightarrow> p | Some v \<Rightarrow> p\<lparr>mp_value := Some v\<rparr>) (ms_points primary),
       ms_label := (if ms_label primary = [] then ms_label fallback else ms_label primary),
       ms_unit := (if ms_unit primary = [] then ms_unit fallback else ms_unit primary)\<rparr>)"

definition merge_single_series :: "metric_series \<Rightarrow> metric_series \<Rightarrow> metric_series" where
  "merge_single_series primary fallback =
    (if ms_points primary = [] then fallback
     else if \<not> series_has_values primary \<and> series_has_values fallback then merge_metric_points primary fallback
     else if \<not> series_has_values fallback then primary
     else merge_metric_points primary fallback)"

fun merge_each :: "metric_series list \<Rightarrow> (string \<times> metric_series) list \<Rightarrow> metric_series list" where
  "merge_each [] others = map snd others"
| "merge_each (m # ms) others =
    (case map_of others (ms_key m) of
       None \<Rightarrow> m # merge_each ms others
     | Some f \<Rightarrow> merge_single_series m f # merge_each ms (AList.delete (ms_key m) others))"

definition merge_metric_series :: "metric_series list \<Rightarrow> metric_series list \<Rightarrow> metric_series list" where
  "merge_metric_series primary fallback =
    (if primary = [] then fallback
     else merge_each primary (fold (\<lambda>m others. AList.update (ms_key m) m others) fallback []))"

definition merge_metric_maps :: "app_record list \<Rightarrow> series_by_id \<Rightarrow> series_by_id \<Rightarrow> series_by_id" where
  "merge_metric_maps records primary fallback =
    (let at = (\<lambda>m a. case map_of m (ar_id a) of Some ms \<Rightarrow> ms | None \<Rightarrow> []) in
     fold (\<lambda>a merged. AList.update (ar_id a) (merge_metric_series (at primary a) (at fallback a)) merged) records [])"

text \<open>The error of an action in hand.\<close>

definition attempt :: "('s, go_error, 'a) action \<Rightarrow> ('s, go_error, (go_error, 'a) result) action" where
  "attempt m s = (let (r, t) = m s in (Inr r, t))"

fun read_each ::
  "(app_record \<Rightarrow> ('s, go_error, metric_series list) action) \<Rightarrow> app_record list \<Rightarrow> series_by_id \<Rightarrow>
    ('s, go_error, series_by_id) action" where
  "read_each read [] items = returnS items"
| "read_each read (a # rest) items =
    bindS (read a) (\<lambda>ms. read_each read rest (AList.update (ar_id a) ms items))"

definition read_many_metrics ::
  "('s, go_error, unit) action \<Rightarrow> 's metrics_source option \<Rightarrow> app_record list \<Rightarrow> int \<Rightarrow> int \<Rightarrow>
    ('s, go_error, batch_error option \<times> series_by_id) action" where
  "read_many_metrics context source records duration step =
    bindS context (\<lambda>_. case source of
      None \<Rightarrow> failS (OtherError ''metrics reader is not configured'')
    | Some mz \<Rightarrow> (case mz_many mz of
        Some many \<Rightarrow> many records duration step
      | None \<Rightarrow> bindS (read_each (\<lambda>a. mz_read mz a duration step) records []) (\<lambda>items. returnS (None, items))))"

definition composite_read ::
  "('s, go_error, unit) action \<Rightarrow> 's metrics_source option \<Rightarrow> 's metrics_source option \<Rightarrow> app_record \<Rightarrow> int \<Rightarrow> int \<Rightarrow>
    ('s, go_error, metric_series list) action" where
  "composite_read context primary fallback a duration step =
    bindS context (\<lambda>_. case (primary, fallback) of
      (None, None) \<Rightarrow> failS (OtherError ''metrics reader is not configured'')
    | (None, Some f) \<Rightarrow> mz_read f a duration step
    | (Some p, None) \<Rightarrow> mz_read p a duration step
    | (Some p, Some f) \<Rightarrow>
        bindS (attempt (mz_read p a duration step)) (\<lambda>first. case first of
          Inl _ \<Rightarrow> mz_read f a duration step
        | Inr ms \<Rightarrow>
            bindS (attempt (mz_read f a duration step)) (\<lambda>second.
              returnS (case second of Inl _ \<Rightarrow> ms | Inr fs \<Rightarrow> merge_metric_series ms fs))))"

text \<open>
  The batch interface: of two batches with errors the part that was read is merged, of one that failed as a
  whole nothing is.
\<close>

definition composite_read_many ::
  "('s, go_error, unit) action \<Rightarrow> 's metrics_source option \<Rightarrow> 's metrics_source option \<Rightarrow> app_record list \<Rightarrow> int \<Rightarrow> int \<Rightarrow>
    ('s, go_error, batch_error option \<times> series_by_id) action" where
  "composite_read_many context primary fallback records duration step =
    bindS context (\<lambda>_. case primary of
      None \<Rightarrow>
        if fallback = None then failS (OtherError ''metrics reader is not configured'')
        else read_many_metrics context fallback records duration step
    | Some _ \<Rightarrow>
        bindS (attempt (read_many_metrics context primary records duration step)) (\<lambda>first.
          if fallback = None then liftR first
          else bindS (attempt (read_many_metrics context fallback records duration step)) (\<lambda>second.
            liftR (case (first, second) of
              (Inl e, Inl _) \<Rightarrow> Inl e
            | (Inl _, Inr (Some _, _)) \<Rightarrow> first
            | (Inl _, Inr (None, fs)) \<Rightarrow> Inr (None, fs)
            | (Inr (Some _, _), Inl _) \<Rightarrow> first
            | (Inr (Some _, _), Inr (Some _, _)) \<Rightarrow> first
            | (Inr (Some _, ps), Inr (None, fs)) \<Rightarrow> Inr (None, merge_metric_maps records ps fs)
            | (Inr (None, ps), Inl _) \<Rightarrow> Inr (None, ps)
            | (Inr (None, ps), Inr (_, fs)) \<Rightarrow> Inr (None, merge_metric_maps records ps fs)))))"

definition composite_source ::
  "('s, go_error, unit) action \<Rightarrow> 's metrics_source option \<Rightarrow> 's metrics_source option \<Rightarrow> 's metrics_source" where
  "composite_source context primary fallback =
    \<lparr>mz_read = composite_read context primary fallback, mz_many = Some (composite_read_many context primary fallback)\<rparr>"

definition failing_source :: "('s, go_error, unit) action \<Rightarrow> go_error option \<Rightarrow> 's metrics_source" where
  "failing_source context err =
    \<lparr>mz_read = (\<lambda>_ _ _. bindS context (\<lambda>_. case err of None \<Rightarrow> returnS [] | Some e \<Rightarrow> failS e)),
     mz_many = Some (\<lambda>records _ _. bindS context (\<lambda>_. case err of
       Some e \<Rightarrow> failS e
     | None \<Rightarrow> returnS (None, fold (\<lambda>a items. AList.update (ar_id a) [] items) records [])))\<rparr>"

definition local_source :: "('s, go_error, unit) action \<Rightarrow> 's metrics_source" where
  "local_source context =
    \<lparr>mz_read = (\<lambda>_ _ _. bindS context (\<lambda>_. returnS [])),
     mz_many = Some (\<lambda>records _ _. bindS context (\<lambda>_.
       bindS (read_each (\<lambda>_. bindS context (\<lambda>_. returnS [])) records []) (\<lambda>items. returnS (None, items))))\<rparr>"

section \<open>Queries\<close>

record batch_query =
  bq_query :: string
  bq_label :: string
  bq_from_pod :: bool

record metric_definition =
  md_key :: string
  md_label :: string
  md_unit :: string
  md_queries :: "string list"
  md_batch :: "batch_query list"

definition prometheus_definitions :: "metric_definition list" where
  \<open>prometheus_definitions =
    [
     \<lparr>md_key = ''request_rate'', md_label = ''Requests'', md_unit = ''rpm'',
      md_queries =
       [''sum(rate(istio_requests_total{reporter="destination",destination_workload_namespace="{{namespace}}",destination_app="{{appName}}"}[5m])) * 60'',
        ''sum(rate(http_server_requests_seconds_count{namespace="{{namespace}}",application="{{appName}}"}[5m])) * 60''],
      md_batch =
       [\<lparr>bq_query = ''sum by (destination_app) (rate(istio_requests_total{reporter="destination",destination_workload_namespace="{{namespace}}",destination_app=~"{{appMatcher}}"}[5m])) * 60'',
         bq_label = ''destination_app'', bq_from_pod = False\<rparr>,
        \<lparr>bq_query = ''sum by (application) (rate(http_server_requests_seconds_count{namespace="{{namespace}}",application=~"{{appMatcher}}"}[5m])) * 60'',
         bq_label = ''application'', bq_from_pod = False\<rparr>]\<rparr>,
     \<lparr>md_key = ''error_rate'', md_label = ''Error Rate'', md_unit = ''%'',
      md_queries =
       [''100 * (sum(rate(istio_requests_total{reporter="destination",destination_workload_namespace="{{namespace}}",destination_app="{{appName}}",response_code=~"5.."}[5m])) / clamp_min(sum(rate(istio_requests_total{reporter="destination",destination_workload_namespace="{{namespace}}",destination_app="{{appName}}"}[5m])), 0.001))'',
        ''100 * (sum(rate(http_server_requests_seconds_count{namespace="{{namespace}}",application="{{appName}}",status=~"5.."}[5m])) / clamp_min(sum(rate(http_server_requests_seconds_count{namespace="{{namespace}}",application="{{appName}}"}[5m])), 0.001))''],
      md_batch =
       [\<lparr>bq_query = ''100 * (((sum by (destination_app) (rate(istio_requests_total{reporter="destination",destination_workload_namespace="{{namespace}}",destination_app=~"{{appMatcher}}",response_code=~"5.."}[5m]))) or on (destination_app) (0 * sum by (destination_app) (rate(istio_requests_total{reporter="destination",destination_workload_namespace="{{namespace}}",destination_app=~"{{appMatcher}}"}[5m])))) / clamp_min(sum by (destination_app) (rate(istio_requests_total{reporter="destination",destination_workload_namespace="{{namespace}}",destination_app=~"{{appMatcher}}"}[5m])), 0.001))'',
         bq_label = ''destination_app'', bq_from_pod = False\<rparr>,
        \<lparr>bq_query = ''100 * (((sum by (application) (rate(http_server_requests_seconds_count{namespace="{{namespace}}",application=~"{{appMatcher}}",status=~"5.."}[5m]))) or on (application) (0 * sum by (application) (rate(http_server_requests_seconds_count{namespace="{{namespace}}",application=~"{{appMatcher}}"}[5m])))) / clamp_min(sum by (application) (rate(http_server_requests_seconds_count{namespace="{{namespace}}",application=~"{{appMatcher}}"}[5m])), 0.001))'',
         bq_label = ''application'', bq_from_pod = False\<rparr>]\<rparr>,
     \<lparr>md_key = ''latency_p95'', md_label = ''P95 Latency'', md_unit = ''ms'',
      md_queries =
       [''histogram_quantile(0.95, sum(rate(istio_request_duration_milliseconds_bucket{reporter="destination",destination_workload_namespace="{{namespace}}",destination_app="{{appName}}"}[5m])) by (le))'',
        ''histogram_quantile(0.95, sum(rate(istio_request_duration_seconds_bucket{reporter="destination",destination_workload_namespace="{{namespace}}",destination_app="{{appName}}"}[5m])) by (le)) * 1000'',
        ''histogram_quantile(0.95, sum(rate(http_server_requests_seconds_bucket{namespace="{{namespace}}",application="{{appName}}"}[5m])) by (le)) * 1000''],
      md_batch =
       [\<lparr>bq_query = ''histogram_quantile(0.95, sum by (destination_app, le) (rate(istio_request_duration_milliseconds_bucket{reporter="destination",destination_workload_namespace="{{namespace}}",destination_app=~"{{appMatcher}}"}[5m])))'',
         bq_label = ''destination_app'', bq_from_pod = False\<rparr>,
        \<lparr>bq_query = ''histogram_quantile(0.95, sum by (destination_app, le) (rate(istio_request_duration_seconds_bucket{reporter="destination",destination_workload_namespace="{{namespace}}",destination_app=~"{{appMatcher}}"}[5m]))) * 1000'',
         bq_label = ''destination_app'', bq_from_pod = False\<rparr>,
        \<lparr>bq_query = ''histogram_quantile(0.95, sum by (application, le) (rate(http_server_requests_seconds_bucket{namespace="{{namespace}}",application=~"{{appMatcher}}"}[5m]))) * 1000'',
         bq_label = ''application'', bq_from_pod = False\<rparr>]\<rparr>,
     \<lparr>md_key = ''cpu_usage'', md_label = ''CPU Usage'', md_unit = ''cores'',
      md_queries =
       [''sum(rate(container_cpu_usage_seconds_total{namespace="{{namespace}}",pod=~"{{podRegex}}",container!="",container!="POD"}[5m]))''],
      md_batch =
       [\<lparr>bq_query = ''sum by (pod) (rate(container_cpu_usage_seconds_total{namespace="{{namespace}}",pod=~"{{podMatcher}}",container!="",container!="POD"}[5m]))'',
         bq_label = ''pod'', bq_from_pod = True\<rparr>]\<rparr>,
     \<lparr>md_key = ''memory_usage'', md_label = ''Memory Usage'', md_unit = ''MiB'',
      md_queries =
       [''sum(container_memory_working_set_bytes{namespace="{{namespace}}",pod=~"{{podRegex}}",container!="",container!="POD"}) / 1024 / 1024''],
      md_batch =
       [\<lparr>bq_query = ''sum by (pod) (container_memory_working_set_bytes{namespace="{{namespace}}",pod=~"{{podMatcher}}",container!="",container!="POD"}) / 1024 / 1024'',
         bq_label = ''pod'', bq_from_pod = True\<rparr>]\<rparr>]\<close>

text \<open>strings.NewReplacer: at each position the first pair whose old text stands there; the count is what is left to skip.\<close>

fun replacing :: "(string \<times> string) list \<Rightarrow> nat \<Rightarrow> string \<Rightarrow> string" where
  "replacing pairs skip [] = []"
| "replacing pairs (Suc skip) (c # cs) = replacing pairs skip cs"
| "replacing pairs 0 (c # cs) =
    (case find (\<lambda>p. prefix (fst p) (c # cs)) pairs of
       None \<Rightarrow> c # replacing pairs 0 cs
     | Some p \<Rightarrow> snd p @ replacing pairs (length (fst p) - 1) cs)"

definition pod_suffix_pattern :: string where
  "pod_suffix_pattern = ''-[a-z0-9]+(?:-[a-z0-9]+)?''"

definition render_query :: "string \<Rightarrow> app_record \<Rightarrow> string" where
  "render_query template a =
    replacing [(''{{namespace}}'', ar_namespace a), (''{{appName}}'', ar_name a),
      (''{{podRegex}}'', ar_name a @ pod_suffix_pattern)] 0 template"

text \<open>regexp.QuoteMeta, and then the escapes of a text in double quotes.\<close>

definition quote_meta :: "string \<Rightarrow> string" where
  "quote_meta s = concat (map (\<lambda>c. if c \<in> set ([CHR 0x5C] @ ''.+*?()|[]{}^$'') then [CHR 0x5C, c] else [c]) s)"

definition regex_literal :: "string \<Rightarrow> string" where
  "regex_literal s = concat (map (\<lambda>c. if c = CHR 0x5C \<or> c = CHR 0x22 then [CHR 0x5C, c] else [c]) (quote_meta s))"

definition render_batch_query :: "string \<Rightarrow> app_record list \<Rightarrow> string" where
  "render_batch_query template records =
    (let namespace = (case find (\<lambda>n. n \<noteq> []) (map ar_namespace records) of Some n \<Rightarrow> n | None \<Rightarrow> []);
         apps = join_with ''|'' (map (\<lambda>a. regex_literal (ar_name a)) (filter (\<lambda>a. trim_space (ar_name a) \<noteq> []) records))
     in replacing [(''{{namespace}}'', namespace), (''{{appMatcher}}'', apps),
          (''{{podMatcher}}'', ''(?:'' @ apps @ '')'' @ pod_suffix_pattern)] 0 template)"

section \<open>One request\<close>

datatype prom_answer = PromRefused string | PromNotSent string | PromAnswered int string string

record prom_series =
  py_labels :: "(string \<times> string) list"
  py_values :: "json list list"

record prom_response =
  pz_status :: string
  pz_error :: string
  pz_result :: "prom_series list"

record prom_outside =
  po_context :: "nat \<Rightarrow> go_error option"
  po_call :: "nat \<Rightarrow> string \<Rightarrow> prom_answer"
  po_clock :: "nat \<Rightarrow> int"
  po_decode :: "string \<Rightarrow> (string, prom_response) result"
  po_float :: "string \<Rightarrow> f64 option"

record prom_reader =
  pr_base :: string
  pr_range :: int
  pr_step :: int

type_synonym 'a prom = "(nat, go_error, 'a) action"

definition ask_prom :: "(nat \<Rightarrow> 'a) \<Rightarrow> 'a prom" where
  "ask_prom f n = (Inr (f n), Suc n)"

definition prom_context :: "prom_outside \<Rightarrow> unit prom" where
  "prom_context po = bindS (ask_prom (po_context po)) (\<lambda>e. case e of None \<Rightarrow> returnS () | Some x \<Rightarrow> failS x)"

type_synonym window = "int \<times> int \<times> int"

definition prom_window :: "prom_reader \<Rightarrow> int \<Rightarrow> int \<Rightarrow> int \<Rightarrow> window" where
  "prom_window r now duration step =
    (let st = (if 0 < step then step else if 0 < pr_step r then pr_step r else 5 * minute);
         span = (if 0 < duration then duration else if 0 < pr_range r then pr_range r else hour);
         stop = now - now mod st;
         start = stop - span + st
     in (if stop < start then stop else start, stop, st))"

text \<open>The parameters replace those of the address, and the encoding sorts by key.\<close>

definition range_url :: "prom_reader \<Rightarrow> string \<Rightarrow> window \<Rightarrow> (go_error, string) result" where
  "range_url r query w =
    (case w of (start, stop, step) \<Rightarrow>
      let endpoint = trim_right_slash (pr_base r) @ ''/api/v1/query_range'';
          values = [(''query'', query), (''start'', show_int (unix_seconds start)), (''end'', show_int (unix_seconds stop)),
            (''step'', show_int (int (half_even (nat step) 1000000000)))]
      in if trim_space (pr_base r) = [] then Inl (OtherError ''prometheus URL is required'')
         else case url_parse endpoint of
           None \<Rightarrow> Inl (Wrapped ''parse prometheus URL'' (OtherError (''parse '' @ go_quote endpoint)))
         | Some u \<Rightarrow>
             let pairs = filter (\<lambda>kv. fst kv \<notin> fst ` set values) (query_pairs (url_query u)) @ values in
             Inr (url_text (u\<lparr>url_query := join_with ''&''
               (map (\<lambda>kv. url_query_escape (fst kv) @ ''='' @ url_query_escape (snd kv)) (sort_key fst pairs))\<rparr>)))"

definition prom_response_series :: "prom_outside \<Rightarrow> prom_answer \<Rightarrow> (go_error, prom_series list) result" where
  "prom_response_series po answer =
    (case answer of
       PromRefused e \<Rightarrow> Inl (Wrapped ''build prometheus request'' (OtherError e))
     | PromNotSent e \<Rightarrow> Inl (Wrapped ''query prometheus'' (OtherError e))
     | PromAnswered code text status \<Rightarrow>
         if code < 200 \<or> 300 \<le> code then
           Inl (OtherError (''prometheus API returned '' @ status @ '': '' @ trim_space (take 4096 text)))
         else case po_decode po text of
           Inl e \<Rightarrow> Inl (Wrapped ''decode prometheus response'' (OtherError e))
         | Inr x \<Rightarrow>
             if pz_status x \<noteq> ''success'' then
               Inl (OtherError (''prometheus query failed: '' @ (if pz_error x = [] then ''unknown error'' else pz_error x)))
             else Inr (pz_result x))"

definition ask_series :: "prom_outside \<Rightarrow> prom_reader \<Rightarrow> string \<Rightarrow> window \<Rightarrow> prom_series list prom" where
  "ask_series po r query w =
    bindS (liftR (range_url r query w)) (\<lambda>endpoint.
    bindS (ask_prom (\<lambda>n. po_call po n endpoint)) (\<lambda>answer. liftR (prom_response_series po answer)))"

text \<open>A sample is a pair of a time in seconds and the text of a number; others are skipped.\<close>

definition decode_timestamp :: "json \<Rightarrow> int option" where
  "decode_timestamp v = (case v of JNumber x \<Rightarrow> Some (f64_int64 x) | _ \<Rightarrow> None)"

definition decode_value :: "prom_outside \<Rightarrow> json \<Rightarrow> f64 option" where
  "decode_value po v = (case v of JText s \<Rightarrow> po_float po s | _ \<Rightarrow> None)"

definition decode_sample :: "prom_outside \<Rightarrow> json list \<Rightarrow> (int \<times> f64) option" where
  "decode_sample po raw =
    (case raw of
       [a, b] \<Rightarrow> (case (decode_timestamp a, decode_value po b) of (Some t, Some v) \<Rightarrow> Some (t, v) | _ \<Rightarrow> None)
     | _ \<Rightarrow> None)"

definition add_value :: "int \<times> f64 \<Rightarrow> (int \<times> f64) list \<Rightarrow> (int \<times> f64) list" where
  "add_value tv values =
    AList.update (fst tv) (f64_plus (case map_of values (fst tv) of Some x \<Rightarrow> x | None \<Rightarrow> f64_zero) (snd tv)) values"

definition add_samples :: "prom_outside \<Rightarrow> json list list \<Rightarrow> (int \<times> f64) list \<Rightarrow> (int \<times> f64) list" where
  "add_samples po raws values = fold add_value (List.map_filter (decode_sample po) raws) values"

text \<open>No value at all is the answer not found.\<close>

definition query_range :: "prom_outside \<Rightarrow> prom_reader \<Rightarrow> string \<Rightarrow> window \<Rightarrow> (int \<times> f64) list option prom" where
  "query_range po r query w =
    bindS (ask_series po r query w) (\<lambda>result.
      let values = fold (\<lambda>y. add_samples po (py_values y)) result [] in
      returnS (if values = [] then None else Some values))"

type_synonym grouped = "(string \<times> (int \<times> f64) list) list"

definition add_group :: "prom_outside \<Rightarrow> string \<Rightarrow> prom_series \<Rightarrow> grouped \<Rightarrow> grouped" where
  "add_group po label y groups =
    (let name = trim_space (case map_of (py_labels y) label of Some x \<Rightarrow> x | None \<Rightarrow> []);
         values = add_samples po (py_values y) (case map_of groups name of Some vs \<Rightarrow> vs | None \<Rightarrow> [])
     in if name = [] then groups
        else if values = [] then AList.delete name groups
        else AList.update name values groups)"

definition query_range_grouped ::
  "prom_outside \<Rightarrow> prom_reader \<Rightarrow> string \<Rightarrow> string \<Rightarrow> window \<Rightarrow> grouped option prom" where
  "query_range_grouped po r query label w =
    (if trim_space label = [] then failS (OtherError ''prometheus grouped query requires a group label'')
     else bindS (ask_series po r query w) (\<lambda>result.
       let groups = fold (add_group po label) result [] in
       returnS (if groups = [] then None else Some groups)))"

section \<open>Series of one application\<close>

definition points_of :: "window \<Rightarrow> (int \<times> f64) list \<Rightarrow> metric_point list" where
  "points_of w values =
    (case w of (start, stop, step) \<Rightarrow>
      map (\<lambda>t. \<lparr>mp_timestamp = t, mp_value = map_of values (unix_seconds t)\<rparr>) (series_times start stop step))"

definition series_of_definition :: "metric_definition \<Rightarrow> metric_point list \<Rightarrow> metric_series" where
  "series_of_definition d points =
    \<lparr>ms_key = md_key d, ms_label = md_label d, ms_unit = md_unit d, ms_points = points\<rparr>"

fun first_found :: "prom_outside \<Rightarrow> prom_reader \<Rightarrow> app_record \<Rightarrow> window \<Rightarrow> string list \<Rightarrow> metric_point list prom" where
  "first_found po r a w [] = returnS (points_of w [])"
| "first_found po r a w (q # qs) =
    bindS (query_range po r (render_query q a) w) (\<lambda>found. case found of
      None \<Rightarrow> first_found po r a w qs | Some values \<Rightarrow> returnS (points_of w values))"

fun read_definitions ::
  "prom_outside \<Rightarrow> prom_reader \<Rightarrow> app_record \<Rightarrow> window \<Rightarrow> metric_definition list \<Rightarrow> metric_series list prom" where
  "read_definitions po r a w [] = returnS []"
| "read_definitions po r a w (d # ds) =
    bindS (first_found po r a w (md_queries d)) (\<lambda>points.
    bindS (read_definitions po r a w ds) (\<lambda>ms. returnS (series_of_definition d points # ms)))"

definition prom_read :: "prom_outside \<Rightarrow> prom_reader \<Rightarrow> app_record \<Rightarrow> int \<Rightarrow> int \<Rightarrow> metric_series list prom" where
  "prom_read po r a duration step =
    bindS (prom_context po) (\<lambda>_.
    bindS (ask_prom (po_clock po)) (\<lambda>now.
      read_definitions po r a (prom_window r now duration step) prometheus_definitions))"

section \<open>Batches\<close>

text \<open>Applications are found by their name, the last of the same name; pods by the pattern of their names.\<close>

definition app_of_group :: "app_record list \<Rightarrow> bool \<Rightarrow> string \<Rightarrow> string option" where
  "app_of_group records from_pod name =
    (if from_pod then map_option ar_id (find (\<lambda>a. pod_of_app (ar_name a) (trim_space name)) records)
     else map_of (rev (map (\<lambda>a. (ar_name a, ar_id a)) records)) name)"

definition merge_values :: "string \<Rightarrow> (int \<times> f64) list \<Rightarrow> grouped \<Rightarrow> grouped" where
  "merge_values aid values target =
    (if values = [] then target
     else AList.update aid (fold add_value values (case map_of target aid of Some vs \<Rightarrow> vs | None \<Rightarrow> [])) target)"

definition collect_groups :: "app_record list \<Rightarrow> bool \<Rightarrow> grouped \<Rightarrow> grouped \<Rightarrow> grouped" where
  "collect_groups records from_pod groups resolved =
    fold (\<lambda>(name, values) target.
      case app_of_group records from_pod name of
        None \<Rightarrow> target
      | Some aid \<Rightarrow> if map_of resolved aid \<noteq> None then target else merge_values aid values target) groups resolved"

fun query_batches ::
  "prom_outside \<Rightarrow> prom_reader \<Rightarrow> app_record list \<Rightarrow> window \<Rightarrow> batch_query list \<Rightarrow> grouped \<Rightarrow> grouped prom" where
  "query_batches po r records w [] target = returnS target"
| "query_batches po r records w (b # bs) target =
    bindS (query_range_grouped po r (render_batch_query (bq_query b) records) (bq_label b) w) (\<lambda>found.
      case found of
        None \<Rightarrow> query_batches po r records w bs target
      | Some groups \<Rightarrow>
          let target' = collect_groups records (bq_from_pod b) groups target in
          if length target' = length records then returnS target' else query_batches po r records w bs target')"

text \<open>The series at the index of its definition, or one more.\<close>

definition put_series :: "nat \<Rightarrow> metric_series \<Rightarrow> metric_series list \<Rightarrow> metric_series list" where
  "put_series index m ms = (if index < length ms then ms[index := m] else ms @ [m])"

definition put_values :: "window \<Rightarrow> nat \<Rightarrow> metric_definition \<Rightarrow> grouped \<Rightarrow> app_record \<Rightarrow> series_by_id \<Rightarrow> series_by_id" where
  "put_values w index d found a items =
    (case map_of found (ar_id a) of
       None \<Rightarrow> items
     | Some values \<Rightarrow>
         AList.update (ar_id a) (put_series index (series_of_definition d (points_of w values))
           (case map_of items (ar_id a) of Some ms \<Rightarrow> ms | None \<Rightarrow> [])) items)"

text \<open>The items read so far stay also with an error.\<close>

fun read_namespace ::
  "prom_outside \<Rightarrow> prom_reader \<Rightarrow> app_record list \<Rightarrow> window \<Rightarrow> nat \<Rightarrow> metric_definition list \<Rightarrow> series_by_id \<Rightarrow>
    (go_error option \<times> series_by_id) prom" where
  "read_namespace po r records w index [] items = returnS (None, items)"
| "read_namespace po r records w index (d # ds) items =
    bindS (attempt (query_batches po r records w (md_batch d) [])) (\<lambda>answer. case answer of
      Inl e \<Rightarrow> returnS (Some e, items)
    | Inr found \<Rightarrow> read_namespace po r records w (Suc index) ds (fold (put_values w index d found) records items))"

fun read_namespaces ::
  "prom_outside \<Rightarrow> prom_reader \<Rightarrow> window \<Rightarrow> app_record list list \<Rightarrow> batch \<Rightarrow> batch prom" where
  "read_namespaces po r w [] b = returnS b"
| "read_namespaces po r w (g # gs) (items, failed, texts) =
    bindS (read_namespace po r g w 0 prometheus_definitions items) (\<lambda>(err, items').
      read_namespaces po r w gs (case err of
          None \<Rightarrow> (items', failed, texts)
        | Some e \<Rightarrow> (items', failed @ map ar_id g, texts @ [error_text e])))"

definition empty_series :: "window \<Rightarrow> metric_series list" where
  "empty_series w = map (\<lambda>d. series_of_definition d (points_of w [])) prometheus_definitions"

definition prom_read_many ::
  "prom_outside \<Rightarrow> prom_reader \<Rightarrow> app_record list \<Rightarrow> int \<Rightarrow> int \<Rightarrow> (batch_error option \<times> series_by_id) prom" where
  "prom_read_many po r records duration step =
    bindS (prom_context po) (\<lambda>_.
      if records = [] then returnS (None, [])
      else
        bindS (ask_prom (po_clock po)) (\<lambda>now.
          let w = prom_window r now duration step in
          bindS (read_namespaces po r w (group_by_namespace records)
            (fold (\<lambda>a items. AList.update (ar_id a) (empty_series w) items) records [], [], [])) (\<lambda>(items, failed, texts).
            returnS (if texts = [] then None
              else Some \<lparr>be_error = OtherError (''prometheus metrics batch query failed: '' @ join_with ''; '' texts),
                be_failed = failed\<rparr>, items))))"

definition prom_source :: "prom_outside \<Rightarrow> prom_reader \<Rightarrow> nat metrics_source" where
  "prom_source po r = \<lparr>mz_read = prom_read po r, mz_many = Some (prom_read_many po r)\<rparr>"

end
