(* ===== verification/MetricsLaws.thy ===== *)
theory MetricsLaws
  imports MetricsProm StoreExact
begin

text \<open>
  What a batch of metrics promises: whatever Prometheus answers, and also when it does not, every
  application asked for has its five series with a point at every sample time. And the reader of two
  sources: it fails only when both do, and it loses no value.
\<close>

section \<open>Batches\<close>

text \<open>One series for each definition, in their order, with a point at every sample time.\<close>

definition full_series :: "window \<Rightarrow> metric_series list \<Rightarrow> bool" where
  "full_series w ms \<longleftrightarrow>
    list_all2 (\<lambda>d m. ms_key m = md_key d \<and> ms_label m = md_label d \<and> ms_unit m = md_unit d \<and>
      map mp_timestamp (ms_points m) = (case w of (start, stop, step) \<Rightarrow> series_times start stop step))
    prometheus_definitions ms"

definition all_full :: "window \<Rightarrow> string set \<Rightarrow> series_by_id \<Rightarrow> bool" where
  "all_full w ids items \<longleftrightarrow> (\<forall>i \<in> ids. \<exists>ms. map_of items i = Some ms \<and> full_series w ms)"

lemma points_times: "map mp_timestamp (points_of w vs) = (case w of (start, stop, step) \<Rightarrow> series_times start stop step)"
  by (cases w) (simp add: points_of_def comp_def)

lemma empty_full: "full_series w (empty_series w)"
  by (simp add: full_series_def empty_series_def list_all2_conv_all_nth series_of_definition_def points_times)

lemma put_full:
  assumes "full_series w ms" and "index < length prometheus_definitions" and "d = prometheus_definitions ! index"
  shows "full_series w (put_series index (series_of_definition d (points_of w vs)) ms)"
  using assms
  by (auto simp: full_series_def put_series_def list_all2_conv_all_nth nth_list_update series_of_definition_def points_times)

lemma put_values_full:
  assumes "all_full w ids items" and "ar_id a \<in> ids" and "index < length prometheus_definitions"
    and "d = prometheus_definitions ! index"
  shows "all_full w ids (put_values w index d found a items)"
proof (cases "map_of found (ar_id a)")
  case None
  with assms(1) show ?thesis by (simp add: put_values_def)
next
  case (Some vs)
  from assms(1,2) obtain ms where ms: "map_of items (ar_id a) = Some ms" "full_series w ms" by (auto simp: all_full_def)
  with Some assms put_full [OF ms(2) assms(3,4), of vs] show ?thesis
    by (auto simp: put_values_def all_full_def update_conv')
qed

lemma fold_put_full:
  assumes "\<forall>a \<in> set records. ar_id a \<in> ids" and "index < length prometheus_definitions"
    and "d = prometheus_definitions ! index" and "all_full w ids items"
  shows "all_full w ids (fold (put_values w index d found) records items)"
  using assms(1,4) by (induction records arbitrary: items) (simp_all add: put_values_full [OF _ _ assms(2,3)])

text \<open>A namespace always has its answer: an error stands beside what was read before it.\<close>

lemma read_namespace_full:
  assumes "\<forall>a \<in> set records. ar_id a \<in> ids" and "all_full w ids items" and "ds = drop index prometheus_definitions"
  shows "\<exists>err items' t. read_namespace po r records w index ds items n = (Inr (err, items'), t) \<and> all_full w ids items'"
  using assms(2,3)
proof (induction ds arbitrary: index items n)
  case Nil
  then show ?case by (simp add: returnS_def)
next
  case (Cons d ds)
  from Cons.prems(2) have index: "index < length prometheus_definitions"
    by (metis drop_eq_Nil2 list.distinct(1) not_le)
  with Cons.prems(2) have d: "d = prometheus_definitions ! index" "ds = drop (Suc index) prometheus_definitions"
    by (simp_all add: Cons_nth_drop_Suc [symmetric])
  show ?case
  proof (cases "query_batches po r records w (md_batch d) [] n")
    case (Pair answer m)
    show ?thesis
    proof (cases answer)
      case (Inl e)
      with Pair Cons.prems(1) show ?thesis by (simp add: bindS_def attempt_def returnS_def)
    next
      case (Inr found)
      from Cons.IH [OF fold_put_full [OF assms(1) index d(1) Cons.prems(1)] d(2), of found m] Pair Inr
      show ?thesis by (simp add: bindS_def attempt_def)
    qed
  qed
qed

lemma read_namespaces_full:
  assumes "\<forall>g \<in> set gs. g \<noteq> [] \<and> (\<forall>a \<in> set g. ar_id a \<in> ids)" and "all_full w ids items"
    and "set failed \<subseteq> ids" and "(texts = []) = (failed = [])"
  shows "\<exists>items' failed' texts' t. read_namespaces po r w gs (items, failed, texts) n = (Inr (items', failed', texts'), t) \<and>
    all_full w ids items' \<and> set failed' \<subseteq> ids \<and> (texts' = []) = (failed' = [])"
  using assms
proof (induction gs arbitrary: items failed texts n)
  case (Cons g gs)
  from Cons.prems(1) have g: "\<forall>a \<in> set g. ar_id a \<in> ids" "g \<noteq> []" by simp_all
  from read_namespace_full [OF g(1) Cons.prems(2), of prometheus_definitions 0 po r n] obtain err items' t where
    run: "read_namespace po r g w 0 prometheus_definitions items n = (Inr (err, items'), t)" "all_full w ids items'" by auto
  show ?case
  proof (cases err)
    case None
    with Cons.IH [OF _ run(2) Cons.prems(3,4)] Cons.prems(1) run(1) show ?thesis by (simp add: bindS_def)
  next
    case (Some e)
    have "set (failed @ map ar_id g) \<subseteq> ids" using Cons.prems(3) g(1) by auto
    from Cons.IH [OF _ run(2) this, of "texts @ [error_text e]"] Cons.prems(1) g(2) run(1) Some show ?thesis
      by (simp add: bindS_def)
  qed
qed (simp add: returnS_def)

lemma add_to_group_members:
  "\<forall>g \<in> set gs. g \<noteq> [] \<Longrightarrow> \<forall>g \<in> set (add_to_group a gs). g \<noteq> [] \<and> set g \<subseteq> insert a (\<Union> (set ` set gs))"
  by (induction gs) auto

lemma group_members: "\<forall>g \<in> set (group_by_namespace records). g \<noteq> [] \<and> set g \<subseteq> set records"
proof -
  have "\<forall>g \<in> set (fold add_to_group rs gs). g \<noteq> [] \<and> set g \<subseteq> set rs \<union> \<Union> (set ` set gs)"
    if "\<forall>g \<in> set gs. g \<noteq> []" for rs gs
    using that
  proof (induction rs arbitrary: gs)
    case (Cons a rs)
    note step = add_to_group_members [OF Cons.prems, of a]
    then have "\<forall>g \<in> set (add_to_group a gs). g \<noteq> []" by blast
    from Cons.IH [OF this] step show ?case by fastforce
  qed auto
  from this [of "[]" records] show ?thesis by (simp add: group_by_namespace_def)
qed

lemma start_full:
  "all_full w (ar_id ` set records \<union> ids) (fold (\<lambda>a items. AList.update (ar_id a) (empty_series w) items) records items)"
  if "all_full w ids items"
  using that
proof (induction records arbitrary: items ids)
  case (Cons a records)
  have "all_full w (insert (ar_id a) ids) (AList.update (ar_id a) (empty_series w) items)"
    using Cons.prems empty_full by (auto simp: all_full_def update_conv')
  from Cons.IH [OF this] show ?case by (simp add: Un_commute Un_left_commute)
qed simp

text \<open>
  C37: A batch of metrics that starts always ends with an answer, whatever Prometheus says to any of its
  queries: every application has one series for each metric, in the order of the definitions, with a point
  at every sample time of the window, and an error names only applications that were asked for, and at
  least one.
\<close>

theorem batch_complete:
  assumes "po_context po n = None" and "records \<noteq> []"
  shows "\<exists>err items t. prom_read_many po r records duration step n = (Inr (err, items), t) \<and>
    all_full (prom_window r (po_clock po (Suc n)) duration step) (ar_id ` set records) items \<and>
    (err = None \<or> (\<exists>be. err = Some be \<and> be_failed be \<noteq> [] \<and> set (be_failed be) \<subseteq> ar_id ` set records))"
proof -
  let ?w = "prom_window r (po_clock po (Suc n)) duration step" and ?ids = "ar_id ` set records"
  have groups: "\<forall>g \<in> set (group_by_namespace records). g \<noteq> [] \<and> (\<forall>a \<in> set g. ar_id a \<in> ?ids)"
    using group_members [of records] by auto
  have start: "all_full ?w ?ids (fold (\<lambda>a items. AList.update (ar_id a) (empty_series ?w) items) records [])"
    using start_full [of ?w "{}" "[]" records] by (simp add: all_full_def)
  from read_namespaces_full [OF groups start, of "[]" "[]" po r "Suc (Suc n)"] obtain items failed texts t where
    run: "read_namespaces po r ?w (group_by_namespace records)
        (fold (\<lambda>a items. AList.update (ar_id a) (empty_series ?w) items) records [], [], []) (Suc (Suc n)) =
        (Inr (items, failed, texts), t)"
      "all_full ?w ?ids items" "set failed \<subseteq> ?ids" "(texts = []) = (failed = [])" by auto
  let ?err = "if texts = [] then None else Some \<lparr>be_error = OtherError (''prometheus metrics batch query failed: '' @
      join_with ''; '' texts), be_failed = failed\<rparr>"
  have "prom_read_many po r records duration step n = (Inr (?err, items), t)"
    using assms run(1) by (simp add: prom_read_many_def prom_context_def ask_prom_def bindS_def returnS_def Let_def)
  with run(2-4) show ?thesis by (intro exI [of _ ?err] exI [of _ items] exI [of _ t]) auto
qed

text \<open>A Prometheus that cannot be reached.\<close>

definition silent_prometheus :: prom_outside where
  "silent_prometheus =
    \<lparr>po_context = (\<lambda>_. None), po_call = (\<lambda>_ _. PromNotSent ''connection refused''), po_clock = (\<lambda>_. 600000000000),
     po_decode = (\<lambda>_. Inl ''no answer''), po_float = (\<lambda>_. None)\<rparr>"

definition hourly_reader :: prom_reader where
  "hourly_reader = \<lparr>pr_base = ''http://prometheus:9090'', pr_range = 0, pr_step = 0\<rparr>"

theorem batch_complete_witness:
  "\<exists>err items t. prom_read_many silent_prometheus hourly_reader [demo_record] 0 0 0 = (Inr (err, items), t) \<and>
    all_full (prom_window hourly_reader 600000000000 0 0) {ar_id demo_record} items \<and>
    (err = None \<or> (\<exists>be. err = Some be \<and> be_failed be \<noteq> [] \<and> set (be_failed be) \<subseteq> {ar_id demo_record}))"
  using batch_complete [of silent_prometheus 0 "[demo_record]" hourly_reader 0 0] by (simp add: silent_prometheus_def)

section \<open>Two sources\<close>

text \<open>The reader of two sources fails only when both fail, with the error of the second.\<close>

lemma composite_available:
  assumes "context s = (Inr (), s')" and "mz_read p a duration step s' = (first, t)"
    and "mz_read f a duration step t = (later, u)"
  shows "fst (composite_read context (Some p) (Some f) a duration step s) =
    (case (first, later) of
       (Inr ms, Inr fs) \<Rightarrow> Inr (merge_metric_series ms fs)
     | (Inr ms, Inl _) \<Rightarrow> Inr ms
     | (Inl _, Inr fs) \<Rightarrow> Inr fs
     | (Inl _, Inl e) \<Rightarrow> Inl e)"
  using assms by (cases first; cases later) (simp_all add: composite_read_def bindS_def attempt_def returnS_def)

text \<open>A merged point has the value of the first series, or else that of the second at the same second.\<close>

lemma no_values: "\<not> series_has_values m \<Longrightarrow> map_of (values_by_second m) t = None"
proof -
  assume "\<not> series_has_values m"
  then have "List.map_filter (\<lambda>p. map_option (\<lambda>v. (unix_seconds (mp_timestamp p), v)) (mp_value p)) (ms_points m) = []"
    by (auto simp: series_has_values_def list_ex_iff List.map_filter_def filter_empty_conv)
  then show ?thesis by (simp add: values_by_second_def)
qed

lemma merged_points:
  assumes "ms_points primary \<noteq> []"
  shows "ms_points (merge_single_series primary fallback) =
    map (\<lambda>p. p\<lparr>mp_value := (case mp_value p of Some v \<Rightarrow> Some v
      | None \<Rightarrow> map_of (values_by_second fallback) (unix_seconds (mp_timestamp p)))\<rparr>) (ms_points primary)"
  using assms no_values [of fallback]
  by (auto simp: merge_single_series_def merge_metric_points_def map_idI split: option.splits)

text \<open>
  A pod whose name carries one suffix belongs to two applications when the name of one continues that of the
  other: the pattern takes the continuation for a part of the suffix.
\<close>

lemma pod_of_two_applications: "pod_of_app ''web'' ''web-api-0'' \<and> pod_of_app ''web-api'' ''web-api-0''"
  by code_simp

end
