(* ===== verification/Wiring.thy ===== *)
theory Wiring
  imports MetricsProm CatalogCache FleetOverview KubeServices
begin

text \<open>
  How a process is put together (server/server.go NewWithResources, cmd/server/main.go, the constructors of
  users in core/auth.go and core/auth_oidc.go): which stores, readers and clients a configuration gives, the
  databases that are opened and closed on the way, the workers that are started. The HTTP client, the SQL
  driver and SHA-256 are parameters. A database is a handle; the state holds the handles that are open.
\<close>

section \<open>Users\<close>

definition discover_jwks_url :: "identity_tools \<Rightarrow> string \<Rightarrow> string identified" where
  "discover_jwks_url it issuer =
    bindS (identity_get it (trim_right_slash (trim_space issuer) @ ''/.well-known/openid-configuration'')
      ''request oidc discovery: '' ''oidc discovery'') (\<lambda>body.
      case it_discovery it body of
        Inl e \<Rightarrow> failS (OtherError (''decode oidc discovery: '' @ e))
      | Inr uri \<Rightarrow>
          if trim_space uri = [] then failS (OtherError ''oidc discovery did not expose jwks_uri'')
          else returnS (trim_space uri))"

definition new_oidc_user_provider :: "identity_tools \<Rightarrow> config \<Rightarrow> oidc_provider identified" where
  "new_oidc_user_provider it c =
    (let issuer = trim_space (c_oidc_issuer_url c) in
     if issuer = [] then failS (OtherError ''AODS_OIDC_ISSUER_URL is required when AODS_AUTH_MODE=oidc'')
     else
       bindS (if trim_space (c_oidc_jwks_url c) = [] then discover_jwks_url it issuer
         else returnS (trim_space (c_oidc_jwks_url c))) (\<lambda>jwks.
         returnS \<lparr>oi_issuer = issuer, oi_audience = trim_space (c_oidc_audience c),
           oi_user_id_claim = trim_space (c_oidc_user_id_claim c),
           oi_username_claim = trim_space (c_oidc_username_claim c),
           oi_display_claim = trim_space (c_oidc_display_name_claim c),
           oi_groups_claim = trim_space (c_oidc_groups_claim c), oi_jwks_url = jwks, oi_cache_ttl = 5 * minute\<rparr>))"

definition new_user_provider :: "identity_tools \<Rightarrow> config \<Rightarrow> identity_state \<Rightarrow> user_provider \<times> identity_state" where
  "new_user_provider it c s =
    (let mode = to_lower (trim_space (c_auth_mode c)); allow = c_allow_dev_fallback c; dev = c_dev_user c;
         (provider, t) =
           (if mode = [] \<or> mode = ''header'' then (HeaderProvider allow dev, s)
            else if mode = ''oidc'' then
              (case new_oidc_user_provider it c s of
                 (Inl e, t) \<Rightarrow> (ErrorProvider (Some (Wrapped ''configure oidc auth provider'' e)), t)
               | (Inr p, t) \<Rightarrow> (CompositeProvider (Some (OIDCProvider p)) allow dev, t))
            else (ErrorProvider (Some (OtherError (''unsupported auth mode '' @ go_quote (c_auth_mode c)))), s))
     in (if c_oidc_role_mappings c = [] then provider else MappingProvider provider (c_oidc_role_mappings c), t))"

section \<open>The state of the construction\<close>

record wiring_outside =
  wo_identity :: identity_tools
  wo_kube :: kube_outside
  wo_sha256 :: "string \<Rightarrow> nat list"
  wo_open :: "nat \<Rightarrow> string \<Rightarrow> string \<Rightarrow> string option"
  wo_ping :: "nat \<Rightarrow> string option"
  wo_ensure :: "nat \<Rightarrow> go_error option"

text \<open>The open databases, oldest first, and how many were opened.\<close>

record wiring = kube_state +
  wi_identity :: identity_state
  wi_open :: "nat list"
  wi_count :: nat

type_synonym 'a wired = "(wiring, go_error, 'a) action"

definition close_database :: "nat \<Rightarrow> unit wired" where
  "close_database h = modifyS (\<lambda>s. s\<lparr>wi_open := filter (\<lambda>x. x \<noteq> h) (wi_open s)\<rparr>)"

definition close_all :: "nat list \<Rightarrow> unit wired" where
  "close_all hs = fold (\<lambda>h m. bindS m (\<lambda>_. close_database h)) hs (returnS ())"

definition new_handle :: "nat wired" where
  "new_handle s = (Inr (wi_count s), s\<lparr>wi_open := wi_open s @ [wi_count s], wi_count := Suc (wi_count s)\<rparr>)"

definition mariadb_dsn :: "string \<Rightarrow> string" where
  "mariadb_dsn value =
    (if sublist ''parseTime='' value then value
     else value @ (if CHR ''?'' \<in> set value then ''&'' else ''?'') @ ''parseTime=true&loc=UTC'')"

definition open_database :: "wiring_outside \<Rightarrow> string \<Rightarrow> string \<Rightarrow> nat wired" where
  "open_database wo driver dsn =
    (let d = trim_space driver in
     if d = [] then failS (OtherError ''database driver is required'')
     else if d \<noteq> ''mysql'' \<and> d \<noteq> ''postgres'' then
       failS (OtherError (''unsupported database driver '' @ go_quote d))
     else
       bindS (ask_kube (\<lambda>n. wo_open wo n d (if d = ''mysql'' then mariadb_dsn dsn else dsn))) (\<lambda>failure. case failure of
         Some e \<Rightarrow> failS (OtherError e)
       | None \<Rightarrow>
           bindS new_handle (\<lambda>h.
           bindS (ask_kube (wo_ping wo)) (\<lambda>failure. case failure of
             Some e \<Rightarrow> bindS (close_database h) (\<lambda>_. failS (OtherError e))
           | None \<Rightarrow> returnS h))))"

section \<open>What a server is made of\<close>

datatype metrics_choice =
    LocalMetrics
  | FailingMetrics go_error
  | PrometheusMetrics prom_reader int
  | PodMetrics pod_metrics_reader
  | PrometheusOverPods prom_reader int pod_metrics_reader

datatype secrets_choice = LocalSecrets string | VaultSecrets vault_client int

record operations_choice =
  oc_database :: nat
  oc_lock_key :: string
  oc_max_attempts :: int

record catalog_choice =
  cc_database :: nat
  cc_driver :: catalog_driver
  cc_freshness :: int

record backend =
  bk_users :: user_provider
  bk_flux :: flux_config
  bk_repository :: "git_settings option"
  bk_metrics :: metrics_choice
  bk_exposure :: exposure_source
  bk_logs :: "kube_client option"
  bk_secrets :: secrets_choice
  bk_images :: "int option"
  bk_status :: sync_source
  bk_rollouts :: rollout_source
  bk_operations :: "operations_choice option"
  bk_catalog :: "catalog_choice option"
  bk_overview :: overview_source
  bk_cleanup :: "nat list"

definition max_duration :: "int \<Rightarrow> int \<Rightarrow> int" where
  "max_duration value fallback = (if value \<le> 0 then fallback else value)"

definition git_repository :: "config \<Rightarrow> git_settings option" where
  "git_repository c =
    (if use_git_repo c then
       Some \<lparr>gs_dir = c_git_repo_dir c, gs_remote = c_git_remote c, gs_branch = c_git_branch c,
         gs_author_name = c_git_author_name c, gs_author_email = c_git_author_email c,
         gs_timeout = max_duration (c_git_command_timeout c) (15 * second), gs_ttl = c_git_sync_ttl c\<rparr>
     else None)"

definition prometheus_of :: "config \<Rightarrow> (prom_reader \<times> int) option" where
  "prometheus_of c =
    (if use_prometheus_api c then
       Some (\<lparr>pr_base = c_prometheus_url c, pr_range = c_prometheus_range c, pr_step = c_prometheus_step c\<rparr>,
         max_duration (c_prometheus_request_timeout c) (5 * second))
     else None)"

text \<open>A reader that cannot be built fails every read only when no other reader stands in.\<close>

definition choose_metrics :: "wiring_outside \<Rightarrow> config \<Rightarrow> metrics_choice wired" where
  "choose_metrics wo c =
    bindS (if use_kubernetes_api c then bindS (try_kube (new_pod_metrics_reader (wo_kube wo) c)) (\<lambda>r. returnS (Some r))
      else returnS None) (\<lambda>pods.
      returnS (case (prometheus_of c, pods) of
        (Some (p, timeout), Some (Inr k)) \<Rightarrow> PrometheusOverPods p timeout k
      | (Some (p, timeout), _) \<Rightarrow> PrometheusMetrics p timeout
      | (None, Some (Inr k)) \<Rightarrow> PodMetrics k
      | (None, Some (Inl e)) \<Rightarrow> FailingMetrics e
      | (None, None) \<Rightarrow> LocalMetrics))"

definition choose_logs :: "wiring_outside \<Rightarrow> config \<Rightarrow> kube_client option wired" where
  "choose_logs wo c =
    (if use_kubernetes_api c then
       bindS (try_kube (new_api_client (wo_kube wo) c)) (\<lambda>r. returnS (case r of Inl _ \<Rightarrow> None | Inr k \<Rightarrow> Some k))
     else returnS None)"

text \<open>Without Kubernetes the constructor of the exposure reader gives the local reader, as the server starts with.\<close>

definition choose_overview :: "wiring_outside \<Rightarrow> config \<Rightarrow> overview_source wired" where
  "choose_overview wo c =
    (if use_kubernetes_api c then
       bindS (try_kube (new_api_client (wo_kube wo) c)) (\<lambda>r. returnS (case r of
         Inl e \<Rightarrow> FailingOverview (Some e) | Inr k \<Rightarrow> FleetOverviewOf (Some k)))
     else returnS LocalOverview)"

definition choose_secrets :: "config \<Rightarrow> secrets_choice" where
  "choose_secrets c =
    (if use_vault_api c then
       VaultSecrets \<lparr>vc_address = c_vault_address c, vc_token = c_vault_token c, vc_namespace = c_vault_namespace c\<rparr>
         (max_duration (c_vault_request_timeout c) (5 * second))
     else LocalSecrets (c_local_vault_dir c))"

definition choose_images :: "config \<Rightarrow> int option" where
  "choose_images c =
    (if use_image_verification c then Some (max_duration (c_image_verification_timeout c) (5 * second)) else None)"

definition deployment_operation_lock_key :: "wiring_outside \<Rightarrow> config \<Rightarrow> string" where
  "deployment_operation_lock_key wo c =
    (let remote = trim_space (c_git_remote c);
         material = (if remote = [] then trim_space (c_git_repo_dir c) else remote) @ ''|'' @ trim_space (c_git_branch c)
     in ''git:'' @ concat (map (\<lambda>n. [hex_digit (n div 16), hex_digit (n mod 16)]) (take 8 (wo_sha256 wo material))))"

text \<open>A step with a database that is closed, with what came before it, when the step fails.\<close>

definition or_close :: "nat list \<Rightarrow> 'a wired \<Rightarrow> 'a wired" where
  "or_close hs m s = (case m s of (Inl e, t) \<Rightarrow> (Inl e, snd (close_all hs t)) | (Inr x, t) \<Rightarrow> (Inr x, t))"

definition ensure_tables :: "wiring_outside \<Rightarrow> unit wired" where
  "ensure_tables wo = bindS (ask_kube (wo_ensure wo)) (\<lambda>e. case e of None \<Rightarrow> returnS () | Some x \<Rightarrow> failS x)"

definition choose_operations :: "wiring_outside \<Rightarrow> config \<Rightarrow> operations_choice option wired" where
  "choose_operations wo c =
    (if use_mariadb_operations c then
       bindS (open_database wo ''mysql'' (c_mariadb_dsn c)) (\<lambda>h.
       bindS (or_close [h] (ensure_tables wo)) (\<lambda>_.
         returnS (Some \<lparr>oc_database = h, oc_lock_key = deployment_operation_lock_key wo c,
           oc_max_attempts = c_deployment_operation_max_attempts c\<rparr>)))
     else returnS None)"

definition cache_for_driver :: "string \<Rightarrow> (go_error, catalog_driver) result" where
  "cache_for_driver driver =
    (if driver = ''mysql'' then Inr MariaDB else if driver = ''postgres'' then Inr Postgres
     else Inl (OtherError (''unsupported application catalog database driver '' @ go_quote driver)))"

text \<open>The database of the operations is shared when driver and address agree; else the second is closed after it.\<close>

definition choose_catalog ::
  "wiring_outside \<Rightarrow> config \<Rightarrow> operations_choice option \<Rightarrow> (catalog_choice option \<times> nat list) wired" where
  "choose_catalog wo c operations =
    (let cleanup = (case operations of None \<Rightarrow> [] | Some x \<Rightarrow> [oc_database x]) in
     if \<not> use_application_catalog_cache c then returnS (None, cleanup)
     else
       let driver = resolved_application_catalog_db_driver c; dsn = resolved_application_catalog_dsn c in
       bindS (case operations of
           Some x \<Rightarrow>
             if driver = ''mysql'' \<and> trim_space dsn = trim_space (c_mariadb_dsn c) then returnS (oc_database x, [])
             else bindS (or_close cleanup (open_database wo driver dsn)) (\<lambda>h. returnS (h, [h]))
         | None \<Rightarrow> bindS (or_close cleanup (open_database wo driver dsn)) (\<lambda>h. returnS (h, [h]))) (\<lambda>(h, own).
       or_close (own @ cleanup)
         (bindS (liftR (cache_for_driver driver)) (\<lambda>kind.
          bindS (ensure_tables wo) (\<lambda>_.
            returnS (Some \<lparr>cc_database = h, cc_driver = kind, cc_freshness = c_application_catalog_cache_ttl c\<rparr>,
              cleanup @ own))))))"

definition choose_users :: "wiring_outside \<Rightarrow> config \<Rightarrow> user_provider wired" where
  "choose_users wo c s =
    (case new_user_provider (wo_identity wo) c (wi_identity s) of (p, t) \<Rightarrow> (Inr p, s\<lparr>wi_identity := t\<rparr>))"

definition new_with_resources :: "wiring_outside \<Rightarrow> config \<Rightarrow> backend wired" where
  "new_with_resources wo c =
    bindS (choose_users wo c) (\<lambda>users.
    bindS (choose_metrics wo c) (\<lambda>metrics.
    bindS (choose_logs wo c) (\<lambda>logs.
    bindS (new_exposure_reader (wo_kube wo) c) (\<lambda>exposure.
    bindS (new_sync_reader (wo_kube wo) c) (\<lambda>status.
    bindS (new_rollout_controller (wo_kube wo) c) (\<lambda>rollouts.
    bindS (choose_operations wo c) (\<lambda>operations.
    bindS (choose_catalog wo c operations) (\<lambda>(catalog, cleanup).
    bindS (choose_overview wo c) (\<lambda>overview.
      returnS \<lparr>bk_users = users,
        bk_flux = \<lparr>fc_namespace = c_flux_kustomization_namespace c, fc_source = c_flux_source_name c\<rparr>,
        bk_repository = git_repository c, bk_metrics = metrics, bk_exposure = exposure, bk_logs = logs,
        bk_secrets = choose_secrets c, bk_images = choose_images c, bk_status = status, bk_rollouts = rollouts,
        bk_operations = operations, bk_catalog = catalog, bk_overview = overview, bk_cleanup = cleanup\<rparr>)))))))))"

section \<open>The process\<close>

text \<open>The workers with what they are given; the identity of a worker of operations is the name of the host.\<close>

datatype worker =
    PollWorker int int
  | ProjectorWorker int int
  | OperationWorker string int int
  | StagingWorker int int
  | OrphanWorker int int

definition hostname_worker_id :: "string option \<Rightarrow> string" where
  "hostname_worker_id host = (case host of None \<Rightarrow> ''aods-backend'' | Some h \<Rightarrow> if h = [] then ''aods-backend'' else h)"

definition workers_of :: "string option \<Rightarrow> config \<Rightarrow> backend \<Rightarrow> worker list" where
  "workers_of host c b =
    [PollWorker (c_repository_poll_interval c) (c_git_command_timeout c)] @
    (if bk_catalog b \<noteq> None \<and> 0 < c_application_catalog_sync_interval c
     then [ProjectorWorker (c_application_catalog_sync_interval c) (c_git_command_timeout c)] else []) @
    (if bk_operations b \<noteq> None
     then [OperationWorker (hostname_worker_id host) (c_deployment_operation_interval c) (c_deployment_operation_lease c)]
     else []) @
    (if 0 < c_vault_staging_cleanup_interval c \<and> 0 < c_vault_staging_max_age c
     then [StagingWorker (c_vault_staging_cleanup_interval c) (c_vault_staging_max_age c)] else []) @
    (if 0 < c_orphan_flux_cleanup_interval c
     then [OrphanWorker (c_orphan_flux_cleanup_interval c) (c_git_command_timeout c)] else [])"

text \<open>The checkout of the preflight is one of its own, with the time limit as it is configured.\<close>

definition preflight_settings :: "config \<Rightarrow> git_settings" where
  "preflight_settings c =
    \<lparr>gs_dir = c_git_repo_dir c, gs_remote = c_git_remote c, gs_branch = c_git_branch c,
     gs_author_name = c_git_author_name c, gs_author_email = c_git_author_email c,
     gs_timeout = c_git_command_timeout c, gs_ttl = c_git_sync_ttl c\<rparr>"

datatype start_end =
    NoConfiguration go_error
  | NoCatalogFile go_error
  | NoIdentity go_error
  | NoBackend go_error
  | Serving backend "worker list"

definition main_run ::
  "wiring_outside \<Rightarrow> git_outside \<Rightarrow> string option \<Rightarrow> (go_error, config) result \<Rightarrow> git_state \<Rightarrow> wiring \<Rightarrow>
    start_end \<times> wiring" where
  "main_run wo gt host cfg_result gs s =
    (case cfg_result of
       Inl e \<Rightarrow> (NoConfiguration e, s)
     | Inr c \<Rightarrow>
         (case (if use_git_repo c then fst (ensure_file gt (preflight_settings c) ''platform/projects.yaml'' gs) else Inr ()) of
            Inl e \<Rightarrow> (NoCatalogFile e, s)
          | Inr _ \<Rightarrow>
              (case (if use_oidc_auth c then new_oidc_user_provider (wo_identity wo) c (wi_identity s)
                    else (Inl ErrUnauthorized, wi_identity s)) of
                 (checked, t) \<Rightarrow>
                   if use_oidc_auth c \<and> \<not> isOk checked then
                     (NoIdentity (case checked of Inl e \<Rightarrow> e | Inr _ \<Rightarrow> ErrUnauthorized), s\<lparr>wi_identity := t\<rparr>)
                   else
                   (case new_with_resources wo c (s\<lparr>wi_identity := t\<rparr>) of
                      (Inl e, u) \<Rightarrow> (NoBackend e, u)
                    | (Inr b, u) \<Rightarrow> (Serving b (workers_of host c b), u)))))"

end
