(* ===== verification/WiringLaws.thy ===== *)
theory WiringLaws
  imports Wiring KubeLaws IdentityLaws
begin

text \<open>
  Laws of the construction of a server: the databases it opens are closed on every way it fails, and those
  that stay open are the ones its cleanup closes, each once; and whom the user provider that a
  configuration builds admits.
\<close>

section \<open>Steps that open databases\<close>

definition handles_below :: "wiring \<Rightarrow> bool" where
  "handles_below s \<longleftrightarrow> (\<forall>h \<in> set (wi_open s). h < wi_count s)"

text \<open>
  A step that fails leaves the open databases as they were; one that succeeds leaves those its result names
  open besides, all new and different.
\<close>

definition leaves_open :: "wiring \<Rightarrow> nat list \<Rightarrow> wiring \<Rightarrow> bool" where
  "leaves_open s hs t \<longleftrightarrow> wi_count s \<le> wi_count t \<and> wi_open t = wi_open s @ hs \<and> distinct hs \<and>
    (\<forall>h \<in> set hs. wi_count s \<le> h \<and> h < wi_count t)"

definition opens :: "('a \<Rightarrow> nat list) \<Rightarrow> 'a wired \<Rightarrow> bool" where
  "opens cl m \<longleftrightarrow> (\<forall>s. handles_below s \<longrightarrow>
    leaves_open s (case fst (m s) of Inl _ \<Rightarrow> [] | Inr x \<Rightarrow> cl x) (snd (m s)))"

named_theorems opens_intros \<open>which databases a step leaves open\<close>

lemma opensD:
  assumes "opens cl m" and "m s = (r, t)" and "handles_below s"
  shows "leaves_open s (case r of Inl _ \<Rightarrow> [] | Inr x \<Rightarrow> cl x) t"
  using assms unfolding opens_def by (metis fst_conv snd_conv)

lemma leaves_below: "leaves_open s hs t \<Longrightarrow> handles_below s \<Longrightarrow> handles_below t"
  by (fastforce simp: leaves_open_def handles_below_def)

lemma leaves_trans: "leaves_open s [] t \<Longrightarrow> leaves_open t hs u \<Longrightarrow> leaves_open s hs u"
  by (fastforce simp: leaves_open_def)

lemma leaves_refl [simp]: "leaves_open s [] s"
  by (simp add: leaves_open_def)

lemma opens_basic [opens_intros]:
  "cl x = [] \<Longrightarrow> opens cl (returnS x)" "opens cl (failS e)" "opens (\<lambda>_. []) (liftR r)"
  by (simp_all add: opens_def action_defs split: sum.split)

lemma opens_only_asks:
  assumes "only_asks m"
  shows "opens (\<lambda>_. []) m"
  unfolding opens_def
proof (intro allI impI)
  fix s :: wiring
  have "kube_state.more (snd (m s)) = kube_state.more s" using assms by (simp add: only_asks_def)
  then have "wi_open (snd (m s)) = wi_open s" "wi_count (snd (m s)) = wi_count s"
    by (cases s; cases "snd (m s)"; simp)+
  then show "leaves_open s (case fst (m s) of Inl _ \<Rightarrow> [] | Inr x \<Rightarrow> []) (snd (m s))"
    by (simp add: leaves_open_def split: sum.split)
qed

lemma opens_bindS [opens_intros]:
  assumes m: "opens (\<lambda>_. []) m" and f: "\<And>x. opens cl (f x)"
  shows "opens cl (bindS m f)"
  unfolding opens_def
proof (intro allI impI)
  fix s assume s: "handles_below s"
  obtain r t where run: "m s = (r, t)" by (cases "m s")
  have t: "leaves_open s [] t" using opensD [OF m run s] by (simp split: sum.splits)
  show "leaves_open s (case fst (bindS m f s) of Inl _ \<Rightarrow> [] | Inr x \<Rightarrow> cl x) (snd (bindS m f s))"
  proof (cases r)
    case (Inl e)
    then show ?thesis using t by (simp add: bindS_def run)
  next
    case (Inr x)
    obtain q u where follow: "f x t = (q, u)" by (cases "f x t")
    show ?thesis
      using leaves_trans [OF t opensD [OF f follow leaves_below [OF t s]]] Inr by (simp add: bindS_def run follow)
  qed
qed

section \<open>Clients and readers open nothing\<close>

lemma only_asks_try: "only_asks m \<Longrightarrow> only_asks (try_kube m)"
  by (auto simp: only_asks_def try_kube_def split_beta Let_def)

lemma only_asks_client: "only_asks (new_api_client ko c)"
  by (auto simp: new_api_client_def new_token_client_def new_kubeconfig_client_def new_http_client_def
      resolve_client_certificate_def read_pem_def Let_def
      intro!: only_asks_bindS only_asks_basic split: option.split prod.split)

lemmas reader_defs = new_exposure_reader_def new_sync_reader_def new_flux_reader_def new_rollout_controller_def
  new_pod_metrics_reader_def

lemma opens_readers [opens_intros]:
  "opens (\<lambda>_. []) (new_exposure_reader ko c)" "opens (\<lambda>_. []) (new_sync_reader ko c)"
  "opens (\<lambda>_. []) (new_rollout_controller ko c)" "opens (\<lambda>_. []) (choose_metrics wo c)"
  "opens (\<lambda>_. []) (choose_logs wo c)" "opens (\<lambda>_. []) (choose_overview wo c)"
  by (auto simp: reader_defs choose_metrics_def choose_logs_def choose_overview_def
      intro!: opens_only_asks only_asks_bindS only_asks_basic only_asks_try only_asks_client)

lemma opens_users [opens_intros]: "opens (\<lambda>_. []) (choose_users wo c)"
  by (auto simp: opens_def choose_users_def leaves_open_def split: prod.split)

section \<open>Opening and closing\<close>

lemma close_one:
  "close_database h s = (Inr (), s\<lparr>wi_open := filter (\<lambda>x. x \<noteq> h) (wi_open s)\<rparr>)"
  by (simp add: close_database_def modifyS_def)

lemma close_fold:
  "fold (\<lambda>h m. bindS m (\<lambda>_. close_database h)) hs (\<lambda>s. (Inr (), g s)) =
    (\<lambda>s. (Inr (), (g s)\<lparr>wi_open := filter (\<lambda>x. x \<notin> set hs) (wi_open (g s))\<rparr>))"
proof (induction hs arbitrary: g)
  case (Cons h hs)
  have "bindS (\<lambda>s. (Inr (), g s)) (\<lambda>_. close_database h) =
      (\<lambda>s. (Inr (), (g s)\<lparr>wi_open := filter (\<lambda>x. x \<noteq> h) (wi_open (g s))\<rparr>))"
    by (rule ext) (simp add: bindS_def close_one)
  then show ?case by (simp add: Cons.IH conj_commute)
qed simp

lemma close_all_run: "close_all hs s = (Inr (), s\<lparr>wi_open := filter (\<lambda>x. x \<notin> set hs) (wi_open s)\<rparr>)"
proof -
  have "close_all hs = (\<lambda>s. (Inr (), s\<lparr>wi_open := filter (\<lambda>x. x \<notin> set hs) (wi_open s)\<rparr>))"
    using close_fold [of hs "\<lambda>s. s"] by (simp add: close_all_def returnS_def [abs_def])
  then show ?thesis by simp
qed

lemma close_left:
  assumes left: "leaves_open s hs t" and s: "handles_below s" and "set ks = set hs"
  shows "wi_open (snd (close_all ks t)) = wi_open s"
proof -
  have "x \<notin> set hs" if "x \<in> set (wi_open s)" for x
    using left s that unfolding leaves_open_def handles_below_def by (metis leD)
  then have "filter (\<lambda>x. x \<notin> set hs) (wi_open s) = wi_open s"
    by (simp add: filter_id_conv)
  then show ?thesis using assms by (simp add: close_all_run leaves_open_def)
qed

lemma close_count [simp]: "wi_count (snd (close_all hs s)) = wi_count s"
  by (simp add: close_all_run)

lemma opens_database [opens_intros]: "opens (\<lambda>h. [h]) (open_database wo driver dsn)"
proof -
  have step: "opens (\<lambda>h. [h]) (bindS new_handle (\<lambda>h. bindS (ask_kube (wo_ping wo)) (\<lambda>failure. case failure of
      Some e \<Rightarrow> bindS (close_database h) (\<lambda>_. failS (OtherError e)) | None \<Rightarrow> returnS h)))"
    unfolding opens_def handles_below_def leaves_open_def
    by (force simp: bindS_def new_handle_def ask_kube_def close_one returnS_def failS_def filter_id_conv
        split: option.split)
  show ?thesis
    by (auto simp: open_database_def Let_def
        intro!: opens_intros opens_only_asks only_asks_basic step split: option.split)
qed

lemma opens_tables [opens_intros]: "opens (\<lambda>_. []) (ensure_tables wo)"
  by (auto simp: ensure_tables_def intro!: opens_only_asks only_asks_bindS only_asks_basic split: option.split)

text \<open>A step after databases were opened that closes them when it fails.\<close>

lemma or_close_run:
  assumes left: "leaves_open s hs t" and s: "handles_below s" and m: "opens cl m" and same: "set ks = set hs"
    and run: "or_close ks m t = (r, u)"
  shows "leaves_open s (case r of Inl _ \<Rightarrow> [] | Inr x \<Rightarrow> hs @ cl x) u"
proof -
  obtain q v where inner: "m t = (q, v)" by (cases "m t")
  have v: "leaves_open t (case q of Inl _ \<Rightarrow> [] | Inr x \<Rightarrow> cl x) v"
    using opensD [OF m inner leaves_below [OF left s]] .
  show ?thesis
  proof (cases q)
    case (Inl e)
    then have "leaves_open s hs v" using v left by (fastforce simp: leaves_open_def)
    then have "wi_open (snd (close_all ks v)) = wi_open s" "wi_count s \<le> wi_count v"
      using close_left [OF _ s same] by (auto simp: leaves_open_def)
    then show ?thesis using run inner Inl by (auto simp: or_close_def leaves_open_def)
  next
    case (Inr x)
    then show ?thesis using run inner v left by (fastforce simp: or_close_def leaves_open_def)
  qed
qed

section \<open>The databases of a server\<close>

definition held_by :: "operations_choice option \<Rightarrow> nat list" where
  "held_by operations = (case operations of None \<Rightarrow> [] | Some x \<Rightarrow> [oc_database x])"

lemma opens_operations: "opens held_by (choose_operations wo c)"
  unfolding opens_def
proof (intro allI impI)
  fix s assume s: "handles_below s"
  show "leaves_open s (case fst (choose_operations wo c s) of Inl _ \<Rightarrow> [] | Inr x \<Rightarrow> held_by x)
      (snd (choose_operations wo c s))"
  proof (cases "use_mariadb_operations c")
    case False
    then show ?thesis by (simp add: choose_operations_def returnS_def held_by_def)
  next
    case True
    obtain q t where db: "open_database wo ''mysql'' (c_mariadb_dsn c) s = (q, t)"
      by (cases "open_database wo ''mysql'' (c_mariadb_dsn c) s")
    note t = opensD [OF opens_database db s]
    show ?thesis
    proof (cases q)
      case (Inl e)
      then show ?thesis using t True db by (simp add: choose_operations_def bindS_def)
    next
      case (Inr h)
      obtain r u where tables: "or_close [h] (ensure_tables wo) t = (r, u)" by (cases "or_close [h] (ensure_tables wo) t")
      have "leaves_open s (case r of Inl _ \<Rightarrow> [] | Inr x \<Rightarrow> [h] @ []) u"
        using or_close_run [OF _ s opens_tables _ tables] t Inr by simp
      then show ?thesis
        using True db tables Inr
        by (cases r) (simp_all add: choose_operations_def bindS_def returnS_def held_by_def)
    qed
  qed
qed

lemma own_database:
  assumes left: "leaves_open s held t" and s: "handles_below s"
    and run: "bindS (or_close held (open_database wo driver dsn)) (\<lambda>h. returnS (h, [h])) t = (r, u)"
  shows "leaves_open s (case r of Inl _ \<Rightarrow> [] | Inr (h, own) \<Rightarrow> held @ own) u"
    and "r = Inr (h, own) \<Longrightarrow> own = [h]"
proof -
  obtain q v where inner: "or_close held (open_database wo driver dsn) t = (q, v)"
    by (cases "or_close held (open_database wo driver dsn) t")
  note v = or_close_run [OF left s opens_database refl inner]
  show "leaves_open s (case r of Inl _ \<Rightarrow> [] | Inr (h, own) \<Rightarrow> held @ own) u" "r = Inr (h, own) \<Longrightarrow> own = [h]"
    using v inner run by (auto simp: bindS_def returnS_def split: sum.splits)
qed

definition databases_of :: "operations_choice option \<Rightarrow> catalog_choice option \<Rightarrow> nat set" where
  "databases_of operations catalog =
    set (held_by operations) \<union> (case catalog of None \<Rightarrow> {} | Some k \<Rightarrow> {cc_database k})"

lemma catalog_databases:
  assumes left: "leaves_open s (held_by operations) t" and s: "handles_below s"
    and run: "choose_catalog wo c operations t = (r, u)"
  shows "leaves_open s (case r of Inl _ \<Rightarrow> [] | Inr (_, cleanup) \<Rightarrow> cleanup) u"
    and "r = Inr (catalog, cleanup) \<Longrightarrow> set cleanup = databases_of operations catalog"
proof -
  let ?d = "resolved_application_catalog_db_driver c" and ?n = "resolved_application_catalog_dsn c"
  let ?held = "held_by operations"
  let ?fresh = "bindS (or_close ?held (open_database wo ?d ?n)) (\<lambda>h. returnS (h, [h]))"
  let ?base = "case operations of None \<Rightarrow> ?fresh
    | Some x \<Rightarrow> if ?d = ''mysql'' \<and> trim_space ?n = trim_space (c_mariadb_dsn c) then returnS (oc_database x, []) else ?fresh"
  let ?tables = "\<lambda>h own. bindS (liftR (cache_for_driver ?d)) (\<lambda>kind. bindS (ensure_tables wo) (\<lambda>_.
    returnS (Some \<lparr>cc_database = h, cc_driver = kind, cc_freshness = c_application_catalog_cache_ttl c\<rparr>, ?held @ own)))"
  have "leaves_open s (case r of Inl _ \<Rightarrow> [] | Inr (_, cleanup) \<Rightarrow> cleanup) u \<and>
      (\<forall>catalog cleanup. r = Inr (catalog, cleanup) \<longrightarrow> set cleanup = databases_of operations catalog)"
  proof (cases "use_application_catalog_cache c")
    case False
    then show ?thesis
      using run left by (auto simp: choose_catalog_def returnS_def databases_of_def held_by_def)
  next
    case True
    define base where "base = ?base"
    have whole: "choose_catalog wo c operations = bindS base (\<lambda>(h, own). or_close (own @ ?held) (?tables h own))"
      using True by (cases operations) (simp_all add: choose_catalog_def base_def Let_def held_by_def)
    obtain q v where first: "base t = (q, v)" by (cases "base t")
    have v: "leaves_open s (case q of Inl _ \<Rightarrow> [] | Inr (h, own) \<Rightarrow> ?held @ own) v \<and>
        (\<forall>h own. q = Inr (h, own) \<longrightarrow> own = [h] \<or> own = [] \<and> h \<in> set ?held)"
    proof (cases "base = ?fresh")
      case True
      then have "?fresh t = (q, v)" using first by metis
      then show ?thesis using own_database [OF left s] by blast
    next
      case False
      then obtain x where "operations = Some x" "base = returnS (oc_database x, [])"
        by (cases operations) (auto simp: base_def split: if_splits)
      then show ?thesis using first left by (auto simp: returnS_def held_by_def)
    qed
    then have own: "\<And>h own. q = Inr (h, own) \<Longrightarrow> own = [h] \<or> own = [] \<and> h \<in> set ?held" by blast
    show ?thesis
    proof (cases q)
      case (Inl e)
      then show ?thesis using run v first by (auto simp: whole bindS_def)
    next
      case (Inr ho)
      obtain h own where ho: "ho = (h, own)" by (cases ho)
      have last: "or_close (own @ ?held) (?tables h own) v = (r, u)"
        using run first Inr ho by (simp add: whole bindS_def)
      have opens: "opens (\<lambda>_. []) (?tables h own)" by (intro opens_intros refl)
      have u: "leaves_open s (case r of Inl _ \<Rightarrow> [] | Inr x \<Rightarrow> (?held @ own) @ []) u"
        by (rule or_close_run [OF _ s opens _ last]) (use v Inr ho in auto)
      have named: "set (?held @ own) = databases_of operations (Some \<lparr>cc_database = h, cc_driver = kind,
          cc_freshness = c_application_catalog_cache_ttl c\<rparr>)" for kind
        using own Inr ho by (auto simp: databases_of_def)
      show ?thesis
      proof (cases r)
        case (Inl e)
        then show ?thesis using u by simp
      next
        case (Inr x)
        then obtain kind where "x = (Some \<lparr>cc_database = h, cc_driver = kind,
            cc_freshness = c_application_catalog_cache_ttl c\<rparr>, ?held @ own)"
          using last by (auto simp: or_close_def bindS_def liftR_def returnS_def split: prod.splits sum.splits)
        then show ?thesis using u Inr named by simp
      qed
    qed
  qed
  then show "leaves_open s (case r of Inl _ \<Rightarrow> [] | Inr (_, cleanup) \<Rightarrow> cleanup) u"
    "r = Inr (catalog, cleanup) \<Longrightarrow> set cleanup = databases_of operations catalog"
    by blast+
qed

text \<open>A step that builds a server: what it leaves open is what the server uses and closes.\<close>

definition builds :: "backend wired \<Rightarrow> bool" where
  "builds m \<longleftrightarrow> (\<forall>s. handles_below s \<longrightarrow>
    leaves_open s (case fst (m s) of Inl _ \<Rightarrow> [] | Inr b \<Rightarrow> bk_cleanup b) (snd (m s)) \<and>
    (\<forall>b. fst (m s) = Inr b \<longrightarrow> set (bk_cleanup b) = databases_of (bk_operations b) (bk_catalog b)))"

lemma buildsD:
  assumes "builds m" and "m s = (r, t)" and "handles_below s"
  shows "leaves_open s (case r of Inl _ \<Rightarrow> [] | Inr b \<Rightarrow> bk_cleanup b) t"
    and "r = Inr b \<Longrightarrow> set (bk_cleanup b) = databases_of (bk_operations b) (bk_catalog b)"
  using assms unfolding builds_def by (metis fst_conv snd_conv)+

lemma builds_bindS:
  assumes m: "opens (\<lambda>_. []) m" and f: "\<And>x. builds (f x)"
  shows "builds (bindS m f)"
  unfolding builds_def
proof (intro allI impI)
  fix s assume s: "handles_below s"
  obtain r t where run: "m s = (r, t)" by (cases "m s")
  have t: "leaves_open s [] t" using opensD [OF m run s] by (simp split: sum.splits)
  show "leaves_open s (case fst (bindS m f s) of Inl _ \<Rightarrow> [] | Inr b \<Rightarrow> bk_cleanup b) (snd (bindS m f s)) \<and>
      (\<forall>b. fst (bindS m f s) = Inr b \<longrightarrow> set (bk_cleanup b) = databases_of (bk_operations b) (bk_catalog b))"
  proof (cases r)
    case (Inl e)
    then show ?thesis using t by (simp add: bindS_def run)
  next
    case (Inr x)
    obtain q u where follow: "f x t = (q, u)" by (cases "f x t")
    note u = buildsD [OF f follow leaves_below [OF t s]]
    show ?thesis using leaves_trans [OF t u(1)] u(2) Inr by (simp add: bindS_def run follow)
  qed
qed

lemma overview_built: "\<exists>v u. choose_overview wo c s = (Inr v, u)"
  by (simp add: choose_overview_def bindS_def try_kube_def returnS_def split: prod.split)

lemma builds_databases:
  assumes mk: "\<And>operations catalog cleanup overview. bk_cleanup (mk operations catalog cleanup overview) = cleanup"
      "\<And>operations catalog cleanup overview. bk_operations (mk operations catalog cleanup overview) = operations"
      "\<And>operations catalog cleanup overview. bk_catalog (mk operations catalog cleanup overview) = catalog"
  shows "builds (bindS (choose_operations wo c) (\<lambda>operations. bindS (choose_catalog wo c operations) (\<lambda>(catalog, cleanup).
    bindS (choose_overview wo c) (\<lambda>overview. returnS (mk operations catalog cleanup overview)))))"
    (is "builds ?m")
  unfolding builds_def
proof (intro allI impI)
  fix s assume s: "handles_below s"
  let ?good = "\<lambda>r t. leaves_open s (case r of Inl _ \<Rightarrow> [] | Inr b \<Rightarrow> bk_cleanup b) t \<and>
    (\<forall>b. r = Inr b \<longrightarrow> set (bk_cleanup b) = databases_of (bk_operations b) (bk_catalog b))"
  obtain q t where first: "choose_operations wo c s = (q, t)" by (cases "choose_operations wo c s")
  note t = opensD [OF opens_operations first s]
  show "?good (fst (?m s)) (snd (?m s))"
  proof (cases q)
    case (Inl e)
    then show ?thesis using t first by (simp add: bindS_def)
  next
    case (Inr os)
    obtain r u where next_run: "choose_catalog wo c os t = (r, u)" by (cases "choose_catalog wo c os t")
    have left: "leaves_open s (held_by os) t" using t Inr by simp
    note u = catalog_databases [OF left s next_run]
    obtain v w where last: "choose_overview wo c u = (Inr v, w)" using overview_built by blast
    have "handles_below u"
      by (rule leaves_below [OF u(1) s])
    then have w: "leaves_open u [] w"
      using opensD [OF opens_readers(6) last] by simp
    show ?thesis
    proof (cases r)
      case (Inl e)
      then show ?thesis using u first Inr next_run by (simp add: bindS_def \<open>q = Inr os\<close>)
    next
      case (Inr kc)
      obtain catalog cleanup where kc: "kc = (catalog, cleanup)" by (cases kc)
      have "leaves_open s cleanup u" using u(1) Inr kc by simp
      then have "leaves_open s cleanup w" using w by (fastforce simp: leaves_open_def)
      moreover have "?m s = (Inr (mk os catalog cleanup v), w)"
        using first next_run last Inr kc \<open>q = Inr os\<close> by (simp add: bindS_def returnS_def)
      ultimately show ?thesis using u(2) Inr kc by (simp add: mk)
    qed
  qed
qed

lemma server_built: "builds (new_with_resources wo c)"
  unfolding new_with_resources_def
  by (intro builds_bindS builds_databases opens_intros) simp_all

text \<open>
  C39: Building a server leaks no database. When NewWithResources fails, the open databases are those from
  before; when it succeeds, the databases open besides are exactly the ones the deployment operations and the
  application catalog of the server use, each once, and running its cleanup leaves those from before.
\<close>

theorem databases_closed:
  assumes "handles_below s" and "new_with_resources wo c s = (r, t)"
  shows "case r of
      Inl _ \<Rightarrow> wi_open t = wi_open s
    | Inr b \<Rightarrow> wi_open t = wi_open s @ bk_cleanup b \<and> distinct (bk_cleanup b) \<and>
        set (bk_cleanup b) = databases_of (bk_operations b) (bk_catalog b) \<and>
        wi_open (snd (close_all (bk_cleanup b) t)) = wi_open s"
proof (cases r)
  case (Inl e)
  then show ?thesis using buildsD(1) [OF server_built assms(2,1)] by (simp add: leaves_open_def)
next
  case (Inr b)
  then have left: "leaves_open s (bk_cleanup b) t" using buildsD(1) [OF server_built assms(2,1)] by simp
  show ?thesis
    using left close_left [OF left assms(1) refl] buildsD(2) [OF server_built assms(2,1) Inr] Inr
    by (simp add: leaves_open_def)
qed

text \<open>The tables of the second database cannot be made when the statement is the failing one.\<close>

definition visitor :: user where
  "visitor = \<lparr>user_id = ''visitor'', user_name = ''visitor'', user_display = [], user_groups = []\<rparr>"

definition two_database_config :: config where
  "two_database_config = \<lparr>c_address = [], c_repo_root = [], c_auth_mode = ''header'', c_platform_admin_authorities = [],
    c_oidc_issuer_url = [], c_oidc_jwks_url = [], c_oidc_audience = [], c_oidc_user_id_claim = [],
    c_oidc_username_claim = [], c_oidc_display_name_claim = [], c_oidc_groups_claim = [],
    c_oidc_role_mappings = [], c_oidc_request_timeout = 0, c_git_mode = [], c_git_repo_dir = [],
    c_git_remote = [], c_git_branch = ''main'', c_git_author_name = [], c_git_author_email = [],
    c_git_command_timeout = 0, c_git_sync_ttl = 0, c_repository_poll_interval = 5 * minute,
    c_kubernetes_mode = [], c_kubernetes_api_url = [], c_kubernetes_bearer_token = [],
    c_kubernetes_ca_file = [], c_kubernetes_ca_data = [], c_kubernetes_kubeconfig_path = [],
    c_kubernetes_context = [], c_kubernetes_request_timeout = 0, c_image_verification_mode = [],
    c_image_verification_timeout = 0, c_flux_kustomization_namespace = [], c_flux_source_name = [],
    c_flux_status_cache_ttl = 0, c_prometheus_mode = [], c_prometheus_url = [],
    c_prometheus_request_timeout = 0, c_prometheus_range = 0, c_prometheus_step = 0, c_vault_mode = [],
    c_vault_address = [], c_vault_token = [], c_vault_namespace = [], c_vault_request_timeout = 0,
    c_vault_staging_cleanup_interval = 0, c_vault_staging_max_age = 0, c_orphan_flux_cleanup_interval = 0,
    c_mariadb_dsn = ''operations'', c_application_catalog_db_driver = [],
    c_application_catalog_dsn = ''postgres://catalog'', c_application_catalog_cache_ttl = 30 * second,
    c_application_catalog_sync_interval = 0, c_deployment_operation_interval = 0,
    c_deployment_operation_lease = 0, c_deployment_operation_max_attempts = 5, c_allowed_origin = [],
    c_allow_dev_fallback = False, c_dev_user = visitor, c_local_vault_dir = []\<rparr>"

definition demo_databases :: "nat option \<Rightarrow> wiring_outside" where
  "demo_databases failing = \<lparr>wo_identity = demo_tools, wo_kube = demo_outside, wo_sha256 = (\<lambda>_. replicate 32 0),
    wo_open = (\<lambda>_ _ _. None), wo_ping = (\<lambda>_. None),
    wo_ensure = (\<lambda>n. if failing = Some n then Some (OtherError ''access denied'') else None)\<rparr>"

definition demo_wiring :: wiring where
  "demo_wiring = \<lparr>ks_asked = 0, wi_identity = demo_identity, wi_open = [7], wi_count = 8\<rparr>"

theorem databases_closed_witness:
  "(\<exists>e t. new_with_resources (demo_databases (Some 5)) two_database_config demo_wiring = (Inl e, t) \<and> wi_open t = [7]) \<and>
   (\<exists>b t. new_with_resources (demo_databases None) two_database_config demo_wiring = (Inr b, t) \<and>
     length (wi_open t) = 3 \<and> wi_open (snd (close_all (bk_cleanup b) t)) = [7])"
proof
  have below: "handles_below demo_wiring" by (simp add: handles_below_def demo_wiring_def)
  have failed: "\<not> isOk (fst (new_with_resources (demo_databases (Some 5)) two_database_config demo_wiring))" by code_simp
  obtain r t where run: "new_with_resources (demo_databases (Some 5)) two_database_config demo_wiring = (r, t)"
    by (cases "new_with_resources (demo_databases (Some 5)) two_database_config demo_wiring")
  show "\<exists>e t. new_with_resources (demo_databases (Some 5)) two_database_config demo_wiring = (Inl e, t) \<and> wi_open t = [7]"
    using databases_closed [OF below run] failed run by (cases r) (simp_all add: demo_wiring_def)
  have built: "isOk (fst (new_with_resources (demo_databases None) two_database_config demo_wiring))" by code_simp
  have three: "length (wi_open (snd (new_with_resources (demo_databases None) two_database_config demo_wiring))) = 3"
    by code_simp
  obtain q u where run: "new_with_resources (demo_databases None) two_database_config demo_wiring = (q, u)"
    by (cases "new_with_resources (demo_databases None) two_database_config demo_wiring")
  show "\<exists>b t. new_with_resources (demo_databases None) two_database_config demo_wiring = (Inr b, t) \<and>
      length (wi_open t) = 3 \<and> wi_open (snd (close_all (bk_cleanup b) t)) = [7]"
    using databases_closed [OF below run] built three run by (cases q) (simp_all add: demo_wiring_def)
qed

section \<open>Who a server admits\<close>

lemma oidc_provider_configured:
  assumes "new_oidc_user_provider it c s = (Inr p, t)"
  shows "oi_issuer p = trim_space (c_oidc_issuer_url c)" and "oi_issuer p \<noteq> []"
    and "oi_audience p = trim_space (c_oidc_audience c)"
  using assms by (auto simp: new_oidc_user_provider_def Let_def bindS_Inr action_Inr split: if_splits)

lemma mapped_user:
  assumes "current_user it (if m = [] then base else MappingProvider base m) r s = (Inr u, t)"
  shows "\<exists>u0. current_user it base r s = (Inr u0, t) \<and>
    u = (if m = [] then u0 else u0\<lparr>user_groups := expand_authorities (user_groups u0) m\<rparr>)"
  using assms by (cases "m = []") (auto simp: bindS_Inr action_Inr)

text \<open>The two ways by which the composite provider names a user.\<close>

lemma composite_user:
  assumes "current_user it (CompositeProvider (Some (OIDCProvider p)) allow dev) r s = (Inr u, t)"
  shows "authorization_header_provided r \<and> oidc_current_user it p r s = (Inr u, t) \<or>
    \<not> authorization_header_provided r \<and> \<not> header_identity_provided r \<and> allow \<and> u = dev"
  using assms by (auto simp: dev_fallback_user_def action_Inr split: if_splits)

text \<open>
  C33: whom the provider that a configuration builds admits. The user it names, but for the groups that
  the role mappings add, is one of three: in the mode header (or without one) the user that the identity
  headers name; in the mode oidc, with an Authorization header, the user of a token that verifies for
  the configured issuer and audience; or the development user, when that is allowed, the request has no
  identity header and, in the mode oidc, no Authorization header either. So in the mode oidc identity
  headers name nobody and a token that fails is never replaced by the development user; in the mode
  header an Authorization header is not looked at. Any other mode admits nobody.
\<close>

theorem admitted_user_source:
  assumes "new_user_provider it c s0 = (provider, s1)" and "current_user it provider r s = (Inr u, t)"
  defines "mode \<equiv> to_lower (trim_space (c_auth_mode c))"
  shows "\<exists>u0. u = (if c_oidc_role_mappings c = [] then u0
      else u0\<lparr>user_groups := expand_authorities (user_groups u0) (c_oidc_role_mappings c)\<rparr>) \<and>
    ((mode = [] \<or> mode = ''header'') \<and> user_from_headers r = (True, Inr u0) \<or>
     mode = ''oidc'' \<and> authorization_header_provided r \<and>
       (\<exists>p t0. new_oidc_user_provider it c s0 = (Inr p, t0) \<and> oi_issuer p = trim_space (c_oidc_issuer_url c) \<and>
         oi_issuer p \<noteq> [] \<and> oi_audience p = trim_space (c_oidc_audience c) \<and> token_vouches it p r s u0) \<or>
     (mode = [] \<or> mode = ''header'' \<or> mode = ''oidc'' \<and> \<not> authorization_header_provided r) \<and>
       \<not> header_identity_provided r \<and> c_allow_dev_fallback c \<and> u0 = c_dev_user c)"
proof -
  obtain base where base: "provider = (if c_oidc_role_mappings c = [] then base
      else MappingProvider base (c_oidc_role_mappings c))"
    and b: "base = (if mode = [] \<or> mode = ''header'' then HeaderProvider (c_allow_dev_fallback c) (c_dev_user c)
      else if mode = ''oidc'' then
        (case fst (new_oidc_user_provider it c s0) of
           Inl e \<Rightarrow> ErrorProvider (Some (Wrapped ''configure oidc auth provider'' e))
         | Inr p \<Rightarrow> CompositeProvider (Some (OIDCProvider p)) (c_allow_dev_fallback c) (c_dev_user c))
      else ErrorProvider (Some (OtherError (''unsupported auth mode '' @ go_quote (c_auth_mode c)))))"
    using assms(1) by (auto simp: new_user_provider_def Let_def mode_def split: if_splits prod.splits sum.splits)
  from mapped_user [OF assms(2) [unfolded base]] obtain u0 where
    u0: "current_user it base r s = (Inr u0, t)"
    and u: "u = (if c_oidc_role_mappings c = [] then u0
      else u0\<lparr>user_groups := expand_authorities (user_groups u0) (c_oidc_role_mappings c)\<rparr>)" by blast
  consider (header) "mode = [] \<or> mode = ''header''"
    | (oidc) p t0 where "mode = ''oidc''" "new_oidc_user_provider it c s0 = (Inr p, t0)"
    using u0 unfolding b
    by (cases "new_oidc_user_provider it c s0"; cases "fst (new_oidc_user_provider it c s0)")
       (auto simp: action_Inr split: if_splits)
  then show ?thesis
  proof cases
    case header
    then have "header_current_user (c_allow_dev_fallback c) (c_dev_user c) r = Inr u0"
      using u0 unfolding b by (auto simp: action_Inr)
    from header_user_cases [OF this] header u show ?thesis by blast
  next
    case oidc
    then have "current_user it (CompositeProvider (Some (OIDCProvider p)) (c_allow_dev_fallback c) (c_dev_user c)) r s = (Inr u0, t)"
      using u0 unfolding b by simp
    from composite_user [OF this] oidc_user_vouched oidc_provider_configured [OF oidc(2)] oidc u show ?thesis by blast
  qed
qed

text \<open>The token of \<open>ada\<close> is admitted; one with another signature is not, although development users are allowed.\<close>

definition oidc_config :: config where
  "oidc_config = two_database_config\<lparr>c_auth_mode := '' OIDC '', c_oidc_issuer_url := ''https://id'',
    c_oidc_jwks_url := ''https://id/keys'', c_allow_dev_fallback := True,
    c_oidc_role_mappings := [(''dev'', [''aods:shop:deploy''])]\<rparr>"

definition forged_request :: http_request where
  "forged_request = demo_http_request\<lparr>rq_headers := (\<lambda>k. if k = ''Authorization'' then
    [''Bearer '' @ b64url_encode ''h'' @ ''.'' @ b64url_encode ''c'' @ ''.'' @ b64url_encode ''forged''] else [])\<rparr>"

definition oidc_users :: user_provider where
  "oidc_users = fst (new_user_provider demo_tools oidc_config demo_identity)"

lemma forged_not_vouched: "\<not> token_vouches demo_tools p forged_request s u"
proof
  assume "token_vouches demo_tools p forged_request s u"
  then obtain token k key where t: "bearer_token_from_request forged_request = Some token"
    "parse_jwt demo_tools token = Some k"
    "verify_jwt_signature demo_tools (pk_input k) (pk_signature k) (pk_algorithm k) key"
    unfolding token_vouches_def by blast
  have "map_option pk_signature (case bearer_token_from_request forged_request of None \<Rightarrow> None
      | Some token \<Rightarrow> parse_jwt demo_tools token) = Some ''forged''" by code_simp
  with t have "pk_signature k = ''forged''" by simp
  with t(3) show False
    by (auto simp: verify_jwt_signature_def demo_tools_def Let_def split: option.splits public_key.splits if_splits)
qed

theorem admitted_user_source_witness:
  "(\<exists>u t. current_user demo_tools oidc_users demo_http_request demo_identity = (Inr u, t) \<and>
      user_name u = ''ada'' \<and> ''aods:shop:deploy'' \<in> set (user_groups u)) \<and>
   \<not> (\<exists>u t. current_user demo_tools oidc_users forged_request demo_identity = (Inr u, t))"
proof
  obtain s1 where built: "new_user_provider demo_tools oidc_config demo_identity = (oidc_users, s1)"
    by (cases "new_user_provider demo_tools oidc_config demo_identity") (simp add: oidc_users_def)
  have mode: "to_lower (trim_space (c_auth_mode oidc_config)) = ''oidc''" by code_simp
  have auth: "authorization_header_provided demo_http_request" "authorization_header_provided forged_request" by code_simp+
  have "(case fst (current_user demo_tools oidc_users demo_http_request demo_identity) of
      Inl e \<Rightarrow> None | Inr u \<Rightarrow> Some (user_name u, user_groups u)) = Some (''ada'', [''dev'', ''aods:shop:deploy''])"
    by code_simp
  then obtain u t where run: "current_user demo_tools oidc_users demo_http_request demo_identity = (Inr u, t)"
    and u: "user_name u = ''ada''" "user_groups u = [''dev'', ''aods:shop:deploy'']"
    by (cases "current_user demo_tools oidc_users demo_http_request demo_identity") (auto split: sum.splits)
  then show "\<exists>u t. current_user demo_tools oidc_users demo_http_request demo_identity = (Inr u, t) \<and>
      user_name u = ''ada'' \<and> ''aods:shop:deploy'' \<in> set (user_groups u)" by simp
  show "\<not> (\<exists>u t. current_user demo_tools oidc_users forged_request demo_identity = (Inr u, t))"
  proof
    assume "\<exists>u t. current_user demo_tools oidc_users forged_request demo_identity = (Inr u, t)"
    then obtain u t where "current_user demo_tools oidc_users forged_request demo_identity = (Inr u, t)" by blast
    from admitted_user_source [OF built this] show False
      unfolding mode using auth forged_not_vouched by auto
  qed
qed

end
