(* ===== verification/RegistryHttp.thy ===== *)
theory RegistryHttp
  imports ImageRef VaultHttp
begin

text \<open>
  The HTTP side of the check of images (application/image_verifier.go): the scheme of a registry with
  net.SplitHostPort and net.ParseIP, the manifest and the token requests. The transport and the JSON
  decoders are parameters; the requests of one verification are numbered in the order the code makes them.
\<close>

section \<open>Addresses\<close>

text \<open>The host of an address with a port: the part before the last colon, of an IPv6 address without its brackets.\<close>

definition split_host_port :: "string \<Rightarrow> (string \<times> string) option" where
  "split_host_port s =
    (case split_last CHR '':'' s of
       None \<Rightarrow> None
     | Some (front, port) \<Rightarrow>
         if hd s = CHR ''['' then
           (case cut_at (CHR '']'') s of (inner, rest) \<Rightarrow>
             if CHR '']'' \<notin> set s \<or> rest \<noteq> CHR '':'' # port \<or> CHR ''['' \<in> set (tl s) \<or> CHR '']'' \<in> set rest
             then None else Some (tl inner, port))
         else if CHR '':'' \<in> set front \<or> CHR ''['' \<in> set s \<or> CHR '']'' \<in> set s then None
         else Some (front, port))"

definition ip4_octet :: "string \<Rightarrow> nat option" where
  "ip4_octet s =
    (let n = foldl (\<lambda>v c. 10 * v + digit_nat c) 0 s in
     if s = [] \<or> \<not> list_all is_digit s \<or> (hd s = CHR ''0'' \<and> s \<noteq> ''0'') \<or> 255 < n then None else Some n)"

definition parse_ip4 :: "string \<Rightarrow> nat list option" where
  "parse_ip4 s =
    (let octets = map ip4_octet (split_on CHR ''.'' s) in
     if length octets = 4 \<and> None \<notin> set octets then Some (map the octets) else None)"

definition hex_value :: "string \<Rightarrow> nat" where
  "hex_value s = foldl (\<lambda>v c. 16 * v + (case unhex c of Some n \<Rightarrow> n | None \<Rightarrow> 0)) 0 s"

text \<open>
  Groups of an IPv6 address: how many fit still, the bytes so far and where the ellipsis is among them. The
  end gives the bytes, the ellipsis and what was not read.
\<close>

fun ip6_groups :: "nat \<Rightarrow> string \<Rightarrow> nat list \<Rightarrow> nat option \<Rightarrow> (nat list \<times> nat option \<times> string) option" where
  "ip6_groups 0 s bytes ellipsis = Some (bytes, ellipsis, s)"
| "ip6_groups (Suc k) s bytes ellipsis =
    (let digits = takeWhile (\<lambda>c. unhex c \<noteq> None) s; rest = drop (length digits) s; n = hex_value digits;
         bytes' = bytes @ [n div 256, n mod 256] in
     if digits = [] \<or> 4 < length digits then None
     else if rest \<noteq> [] \<and> hd rest = CHR ''.'' then
       (if (ellipsis = None \<and> length bytes \<noteq> 12) \<or> 16 < length bytes + 4 then None
        else map_option (\<lambda>v4. (bytes @ v4, ellipsis, [])) (parse_ip4 s))
     else if rest = [] then Some (bytes', ellipsis, [])
     else if hd rest \<noteq> CHR '':'' \<or> length rest = 1 then None
     else if rest ! 1 = CHR '':'' then
       (if ellipsis \<noteq> None then None
        else if length rest = 2 then Some (bytes', Some (length bytes'), [])
        else ip6_groups k (drop 2 rest) bytes' (Some (length bytes')))
     else ip6_groups k (drop 1 rest) bytes' ellipsis)"

definition parse_ip6 :: "string \<Rightarrow> nat list option" where
  "parse_ip6 s =
    (if s = ''::'' then Some (replicate 16 0)
     else case (if prefix ''::'' s then ip6_groups 8 (drop 2 s) [] (Some 0) else ip6_groups 8 s [] None) of
       None \<Rightarrow> None
     | Some (bytes, ellipsis, rest) \<Rightarrow>
         if rest \<noteq> [] then None
         else if length bytes < 16 then
           map_option (\<lambda>e. take e bytes @ replicate (16 - length bytes) 0 @ drop e bytes) ellipsis
         else if ellipsis \<noteq> None then None else Some bytes)"

text \<open>net.ParseIP takes no zone; an address with neither dot nor colon is none.\<close>

definition parse_ip :: "string \<Rightarrow> nat list option" where
  "parse_ip s =
    (case find (\<lambda>c. c \<in> {CHR ''.'', CHR '':'', CHR ''%''}) s of
       Some c \<Rightarrow>
         if c = CHR ''.'' then parse_ip4 s
         else if c = CHR '':'' \<and> CHR ''%'' \<notin> set s then parse_ip6 s
         else None
     | None \<Rightarrow> None)"

definition ip_is_loopback :: "nat list \<Rightarrow> bool" where
  "ip_is_loopback ip \<longleftrightarrow>
    (if length ip = 4 then hd ip = 127
     else if take 12 ip = replicate 10 0 @ [255, 255] then ip ! 12 = 127
     else ip = replicate 15 0 @ [1])"

definition registry_scheme :: "string \<Rightarrow> string" where
  "registry_scheme host =
    (if host = ''localhost'' then ''http''
     else
       let h = (case split_host_port host of Some (server, _) \<Rightarrow> server | None \<Rightarrow> host) in
       if (case parse_ip h of Some ip \<Rightarrow> ip_is_loopback ip | None \<Rightarrow> False) \<or> prefix ''127.'' h then ''http''
       else ''https'')"

section \<open>Requests\<close>

text \<open>An answer: the status, the WWW-Authenticate header and the body. A request that cannot be made or sent has a text.\<close>

record registry_outside =
  ro_send :: "nat \<Rightarrow> string \<Rightarrow> (string \<times> string) list \<Rightarrow> (string, int \<times> string \<times> string) result"
  ro_codes :: "string \<Rightarrow> string list option"
  ro_tokens :: "string \<Rightarrow> (string, string \<times> string) result"

definition manifest_url :: "image_ref \<Rightarrow> string" where
  "manifest_url ref =
    registry_scheme (ir_registry ref) @ ''://'' @ ir_registry ref @ ''/v2/'' @ ir_repository ref @ ''/manifests/'' @
      path_escape (ir_identifier ref)"

definition manifest_accept :: string where
  "manifest_accept = join_with '', ''
    [''application/vnd.oci.image.manifest.v1+json'', ''application/vnd.docker.distribution.manifest.v2+json'',
     ''application/vnd.docker.distribution.manifest.list.v2+json'', ''application/vnd.oci.image.index.v1+json'',
     ''application/json'']"

definition extract_registry_error_code :: "registry_outside \<Rightarrow> string \<Rightarrow> string" where
  "extract_registry_error_code ro payload =
    (if payload = [] then []
     else case ro_codes ro payload of Some (code # _) \<Rightarrow> code | _ \<Rightarrow> [])"

definition http_fetch_manifest :: "registry_outside \<Rightarrow> nat \<Rightarrow> image_ref \<Rightarrow> string \<Rightarrow> (string, manifest_response) result" where
  "http_fetch_manifest ro n ref token =
    (case ro_send ro (2 * n) (manifest_url ref)
       ((''Accept'', manifest_accept) # (if token = [] then [] else [(''Authorization'', ''Bearer '' @ token)])) of
       Inl e \<Rightarrow> Inl e
     | Inr (status, authenticate, body) \<Rightarrow>
         Inr \<lparr>mr_status = status, mr_authenticate = authenticate,
           mr_error_code = extract_registry_error_code ro (take 16384 body)\<rparr>)"

text \<open>The parameters replace those of the realm; the encoding sorts by key.\<close>

definition token_url :: "string \<times> string \<times> string \<Rightarrow> string option" where
  "token_url challenge =
    (case challenge of (realm, service, scope) \<Rightarrow>
      let values = (if service = [] then [] else [(''service'', service)]) @
            (if scope = [] then [] else [(''scope'', scope)]) @ [(''client_id'', ''aods'')]
      in map_option (\<lambda>u.
           let pairs = filter (\<lambda>kv. fst kv \<notin> fst ` set values) (query_pairs (url_query u)) @ values in
           url_text (u\<lparr>url_query := join_with ''&''
             (map (\<lambda>kv. url_query_escape (fst kv) @ ''='' @ url_query_escape (snd kv)) (sort_key fst pairs))\<rparr>))
         (url_parse realm))"

definition basic_auth :: "registry_credential \<Rightarrow> string \<times> string" where
  "basic_auth c = (''Authorization'', ''Basic '' @ base64 (trim_space (rc_username c) @ '':'' @ rc_password c))"

definition http_fetch_token ::
  "registry_outside \<Rightarrow> nat \<Rightarrow> string \<times> string \<times> string \<Rightarrow> registry_credential option \<Rightarrow> (string, string) result" where
  "http_fetch_token ro n challenge credential =
    (case token_url challenge of
       None \<Rightarrow> Inl (''parse '' @ go_quote (fst challenge))
     | Some u \<Rightarrow>
         (case ro_send ro (2 * n + 1) u (case credential of None \<Rightarrow> [] | Some c \<Rightarrow> [basic_auth c]) of
            Inl e \<Rightarrow> Inl e
          | Inr (status, _, body) \<Rightarrow>
              if status \<noteq> 200 then Inl (''anonymous token request returned '' @ show_int status)
              else (case ro_tokens ro (take 16384 body) of
                Inl e \<Rightarrow> Inl e
              | Inr (token, access) \<Rightarrow>
                  if token \<noteq> [] then Inr token
                  else if access \<noteq> [] then Inr access
                  else Inl ''token response did not include a token'')))"

definition http_registry :: "registry_outside \<Rightarrow> registry_client" where
  "http_registry ro = \<lparr>fetch_manifest = http_fetch_manifest ro, fetch_token = http_fetch_token ro\<rparr>"

definition verify_image :: "registry_outside \<Rightarrow> string \<Rightarrow> registry_credential option \<Rightarrow> (go_error, unit) result" where
  "verify_image ro = registry_verify (http_registry ro)"

section \<open>Laws\<close>

lemma scheme_cases: "registry_scheme host = ''http'' \<or> registry_scheme host = ''https''"
  by (simp add: registry_scheme_def Let_def)

text \<open>The name localhost is tested before the port is cut off, so with a port it is asked over TLS.\<close>

lemma registry_scheme_examples:
  "registry_scheme ''localhost'' = ''http''" "registry_scheme ''localhost:5000'' = ''https''"
  "registry_scheme ''127.0.0.1:5000'' = ''http''" "registry_scheme ''[::1]:5000'' = ''http''"
  "registry_scheme ''ghcr.io'' = ''https''"
  by code_simp+

text \<open>A credential of another registry is not used: the outcome is that without any.\<close>

lemma foreign_credential_unused:
  assumes "\<And>ref. parse_image_reference img = Inr ref \<Longrightarrow> \<not> credential_matches c (ir_registry ref)"
  shows "verify_image ro img (Some c) = verify_image ro img None"
  using assms
  by (simp add: verify_image_def registry_verify_def verify_challenged_def split: sum.split option.split)

end
