(* ===== verification/WorkerLoop.thy ===== *)
theory WorkerLoop
  imports ServiceLaws
begin

text \<open>
  The worker of deployment operations (application/deployment_operations.go Start): the settings it starts
  with and one turn, which handles operations until none can be claimed or a step fails. The turn is a
  partial function; the laws show that it always ends, since every operation it handles uses up one of
  the attempts that are left. The ticker between the turns is not modelled.
\<close>

section \<open>Start\<close>

record worker_settings =
  wk_id :: string
  wk_interval :: int
  wk_lease :: int

definition worker_settings_of :: "int \<Rightarrow> string \<Rightarrow> int \<Rightarrow> int \<Rightarrow> worker_settings" where
  "worker_settings_of now worker interval lease =
    \<lparr>wk_id = (if trim_space worker = [] then ''worker-'' @ show_int (now - unix_epoch) else trim_space worker),
     wk_interval = (if interval \<le> 0 then 2 * second else interval),
     wk_lease = (if lease \<le> 0 then 5 * minute else lease)\<rparr>"

partial_function (option) worker_turn ::
  "app_service \<Rightarrow> string \<Rightarrow> int \<Rightarrow> server \<Rightarrow> (go_error option \<times> server) option" where
  "worker_turn sv worker lease s =
    (case process_once sv worker lease s of
       (Inl e, t) \<Rightarrow> Some (Some e, t)
     | (Inr processed, t) \<Rightarrow> if processed then worker_turn sv worker lease t else Some (None, t))"

section \<open>The attempts that are left\<close>

definition waiting :: "operation \<Rightarrow> bool" where
  "waiting r \<longleftrightarrow> op_status r = OpQueued \<or> op_status r = OpRetrying"

definition attempts_left :: "operation \<Rightarrow> nat" where
  "attempts_left r = (if waiting r then nat (op_max_attempts r - op_attempts r) else 0)"

definition work_left :: "queue \<Rightarrow> nat" where
  "work_left q = sum_list (map attempts_left (q_ops q))"

definition drainable :: "queue \<Rightarrow> bool" where
  "drainable q \<longleftrightarrow> distinct (map op_id (q_ops q)) \<and>
    (\<forall>r \<in> set (q_ops q). waiting r \<longrightarrow> 0 \<le> op_attempts r \<and> op_attempts r < op_max_attempts r)"

lemma reach_drainable: "queue_reach t q \<Longrightarrow> drainable q"
  using queue_invD(1,3) [OF reach_inv]
  by (fastforce simp: drainable_def waiting_def row_ok_def)

text \<open>The sum over rows of which one is replaced.\<close>

lemma sum_replaced:
  assumes "distinct (map op_id ops)" and "r \<in> set ops"
  shows "sum_list (map (\<lambda>x. if op_id x = op_id r then a else h x) ops) + h r = sum_list (map h ops) + (a :: nat)"
  using assms
proof (induction ops)
  case (Cons x xs)
  show ?case
  proof (cases "x = r")
    case True
    then have "map (\<lambda>x. if op_id x = op_id r then a else h x) xs = map h xs"
      using Cons.prems(1) by (auto simp: image_iff)
    then show ?thesis using True by (simp only: list.map sum_list.Cons) simp
  next
    case False
    then have "r \<in> set xs" and "op_id x \<noteq> op_id r" using Cons.prems by (auto simp: image_iff)
    then show ?thesis using Cons by simp
  qed
qed simp

text \<open>A claimed row of the queue, and the queue without its other attempts.\<close>

definition claim_of :: "string \<Rightarrow> queue \<Rightarrow> operation \<Rightarrow> queue \<Rightarrow> bool" where
  "claim_of w q o1 q' \<longleftrightarrow> (\<exists>r c. r \<in> set (q_ops q) \<and> waiting r \<and> op_id o1 = op_id r \<and> op_lease_owner o1 = w \<and>
    op_attempts o1 = op_attempts r + 1 \<and> op_max_attempts o1 = op_max_attempts r \<and>
    op_id c = op_id r \<and> op_status c = OpRunning \<and> op_lease_owner c = w \<and> op_attempts c = op_attempts o1 \<and>
    op_max_attempts c = op_max_attempts r \<and>
    q_ops q' = map (\<lambda>x. if op_id x = op_id r then c else x) (q_ops q))"

lemma claim_loop_of:
  assumes "claim_loop w now lease rs q = Inr (res, q')" and "distinct (map op_id (q_ops q))"
    and "\<forall>r \<in> set rs. r \<in> set (q_ops q) \<and> waiting r"
  shows "(case res of None \<Rightarrow> q_ops q' = q_ops q | Some o1 \<Rightarrow> claim_of w q o1 q')"
  using assms
proof (induction rs arbitrary: q)
  case (Cons r rs)
  from Cons.prems(1) obtain got locks where
    a: "acquire_operation_lock (op_lock_key r) w now (now + lease) (q_locks q) = Inr (got, locks)"
    by (auto split: sum.splits)
  have r: "r \<in> set (q_ops q)" "waiting r" using Cons.prems(3) by auto
  then have there: "list_ex (\<lambda>x. op_id x = op_id r \<and> op_version x = op_version r) (q_ops q)" by (auto simp: list_ex_iff)
  show ?case
  proof (cases got)
    case False
    with a Cons.prems(1) have run: "claim_loop w now lease rs (q\<lparr>q_locks := locks\<rparr>) = Inr (res, q')" by simp
    have "case res of None \<Rightarrow> q_ops q' = q_ops (q\<lparr>q_locks := locks\<rparr>) | Some o1 \<Rightarrow> claim_of w (q\<lparr>q_locks := locks\<rparr>) o1 q'"
      by (rule Cons.IH [OF run]) (use Cons.prems(2,3) in auto)
    then show ?thesis by (simp add: claim_of_def split: option.splits)
  next
    case True
    let ?c = "claimed_row (claimed w now lease r) r"
    have res: "res = Some (claimed w now lease r)" and ops: "q_ops q' = map (\<lambda>x. if op_id x = op_id r \<and> op_version x = op_version r
        then claimed_row (claimed w now lease r) x else x) (q_ops q)"
      using True a there Cons.prems(1) by auto
    have only: "x = r" if "x \<in> set (q_ops q)" "op_id x = op_id r" for x
      using distinct_id_eq [OF Cons.prems(2) that(1) r(1) that(2)] .
    have "q_ops q' = map (\<lambda>x. if op_id x = op_id r then ?c else x) (q_ops q)"
      unfolding ops by (rule map_cong) (auto dest: only)
    then have "claim_of w q (claimed w now lease r) q'"
      unfolding claim_of_def
      by (intro exI [of _ r] exI [of _ ?c]) (use r in \<open>simp add: claimed_def claimed_row_def scan_operation_def\<close>)
    then show ?thesis by (simp add: res)
  qed
qed auto

lemma claim_next_of:
  assumes "claim_next now w lease q = (Inr res, q')" and "drainable q"
  shows "(case res of None \<Rightarrow> q_ops q' = q_ops q | Some o1 \<Rightarrow> claim_of w q o1 q')"
proof (rule claim_loop_of)
  show "claim_loop w now (effective_lease lease) (claim_candidates now q) q = Inr (res, q')"
    using assms(1) by (auto simp: claim_next_def split: sum.splits)
  show "\<forall>r \<in> set (claim_candidates now q). r \<in> set (q_ops q) \<and> waiting r"
    using set_take_subset [of 10] by (force simp: claim_candidates_def waiting_def)
qed (use assms(2) in \<open>simp add: drainable_def\<close>)

section \<open>One operation\<close>

text \<open>Settling the claimed operation gives its row a value with fewer attempts left.\<close>

definition moves_on :: "queue \<Rightarrow> queue \<Rightarrow> bool" where
  "moves_on q q' \<longleftrightarrow> drainable q' \<and> work_left q' < work_left q"

lemma settled:
  assumes d: "drainable q" and claim: "claim_of w q o1 q1" and run: "update_leased o1 lost f q1 = (Inr (), q2)"
    and f: "\<And>c. op_id (f c) = op_id c" "\<And>c. op_attempts (f c) = op_attempts c" "\<And>c. op_max_attempts (f c) = op_max_attempts c"
    and less: "\<And>c. waiting (f c) \<Longrightarrow> op_attempts o1 < op_max_attempts o1"
  shows "moves_on q q2"
proof -
  obtain r c where r: "r \<in> set (q_ops q)" "waiting r" "op_id o1 = op_id r" "op_lease_owner o1 = w"
      "op_attempts o1 = op_attempts r + 1" "op_max_attempts o1 = op_max_attempts r"
    and c: "op_id c = op_id r" "op_lease_owner c = w" "op_attempts c = op_attempts o1" "op_max_attempts c = op_max_attempts r"
    and ops: "q_ops q1 = map (\<lambda>x. if op_id x = op_id r then c else x) (q_ops q)"
    using claim unfolding claim_of_def by blast
  let ?mine = "\<lambda>x. op_id x = op_id o1 \<and> op_lease_owner x = op_lease_owner o1 \<and> op_lease_owner x \<noteq> []"
  have ids: "distinct (map op_id (q_ops q))" and waits: "0 \<le> op_attempts r" "op_attempts r < op_max_attempts r"
    using d r(1,2) by (auto simp: drainable_def)
  have w: "w \<noteq> []" and two: "q_ops q2 = map (\<lambda>x. if ?mine x then f x else x) (q_ops q1)"
    using run r(4) by (auto simp: update_leased_def Let_def list_ex_iff split: if_splits)
  have ops2: "q_ops q2 = map (\<lambda>x. if op_id x = op_id r then f c else x) (q_ops q)"
    unfolding two ops using w r(3,4) c(1,2) by simp
  have "work_left q2 + attempts_left r = work_left q + attempts_left (f c)"
    using sum_replaced [OF ids r(1), of "attempts_left (f c)" attempts_left]
    by (simp add: work_left_def ops2 comp_def if_distrib cong: if_cong)
  moreover have "attempts_left (f c) < attempts_left r"
    using r(2,5) c(3,4) waits f(2,3) by (simp add: attempts_left_def)
  moreover have "drainable q2"
    unfolding drainable_def
  proof (intro conjI ballI impI)
    have "map op_id (q_ops q2) = map op_id (q_ops q)"
      unfolding ops2 map_map by (rule map_cong) (use f(1) c(1) in auto)
    with ids show "distinct (map op_id (q_ops q2))" by (simp only:)
  next
    fix x assume "x \<in> set (q_ops q2)" and x: "waiting x"
    then have "x = f c \<or> x \<in> set (q_ops q)" by (auto simp: ops2)
    then show "0 \<le> op_attempts x" "op_attempts x < op_max_attempts x"
      using less x waits r(5,6) c(3,4) f(2,3) d by (auto simp: drainable_def)
  qed
  ultimately show ?thesis by (simp add: moves_on_def)
qed

lemma terminal_moves:
  assumes "drainable q" and "claim_of w q o1 q1" and "mark_terminal now o1 status message last_error q1 = (Inr (), q2)"
    and "status \<in> {OpCompleted, OpFailed}"
  shows "moves_on q q2"
  by (rule settled [OF assms(1,2) assms(3) [unfolded mark_terminal_def]]) (use assms(4) in \<open>auto simp: waiting_def\<close>)

lemma marks_move:
  assumes "drainable q" and "claim_of w q o1 q1"
  shows "mark_succeeded now o1 q1 = (Inr (), q2) \<Longrightarrow> moves_on q q2"
    and "mark_failed now o1 message q1 = (Inr (), q2) \<Longrightarrow> moves_on q q2"
    and "mark_retry now o1 message next_at q1 = (Inr (), q2) \<Longrightarrow> moves_on q q2"
proof -
  show "mark_succeeded now o1 q1 = (Inr (), q2) \<Longrightarrow> moves_on q q2"
    unfolding mark_succeeded_def by (erule terminal_moves [OF assms]) simp
  show failed: "mark_failed now o1 message q1 = (Inr (), q2) \<Longrightarrow> moves_on q q2"
    unfolding mark_failed_def by (erule terminal_moves [OF assms]) simp
  show "moves_on q q2" if run: "mark_retry now o1 message next_at q1 = (Inr (), q2)"
  proof (cases "max_deployment_attempts o1 \<le> op_attempts o1")
    case True
    with run failed show ?thesis by (simp add: mark_retry_def)
  next
    case False
    have "0 < op_max_attempts o1"
      using assms by (auto simp: claim_of_def drainable_def)
    with False have less: "op_attempts o1 < op_max_attempts o1" by (simp add: max_deployment_attempts_def)
    from False run have "update_leased o1 '' lease was lost before retry state update''
       (\<lambda>r. r\<lparr>op_status := OpRetrying, op_message := msg_op_retrying, op_last_error := trim_space message,
         op_next_attempt_at := db_time next_at, op_lease_owner := [], op_lease_until := 0,
         op_updated_at := db_time now, op_version := op_version r + 1\<rparr>) q1 = (Inr (), q2)"
      by (simp add: mark_retry_def)
    from settled [OF assms this] less show ?thesis by simp
  qed
qed

lemma service_keeps_queue [keeps_intros]:
  "keeps sr_queue (append_event sv i k m md)" "keeps sr_queue (resolve_record_registry_credential sv r)"
  "keeps sr_queue (verify_image_reference sv img cred)"
  unfolding append_event_def resolve_record_registry_credential_def verify_image_reference_def Let_def
  by (intro keeps_intros)+

lemma execute_keeps_queue: "keeps sr_queue (execute_deployment_operation sv o1)"
  unfolding execute_deployment_operation_def Let_def note_event_def verify_deployment_image_def
  by (intro keeps_intros)

text \<open>An operation that was handled has used up an attempt.\<close>

lemma on_queue_run: "on_queue m s = (r, t) \<longleftrightarrow> (\<exists>q. m (sr_queue s) = (r, q) \<and> t = s\<lparr>sr_queue := q\<rparr>)"
  by (auto simp: on_queue_def split: prod.splits)

lemma process_moves:
  assumes d: "drainable (sr_queue s)" and run: "process_once sv worker lease s = (Inr True, t)"
  shows "moves_on (sr_queue s) (sr_queue t)"
proof -
  define settle where "settle o1 = bindS (tryS (execute_deployment_operation sv o1)) (\<lambda>run. case run of
      Inr _ \<Rightarrow> bindS (now_utc sv) (\<lambda>t. bindS (on_queue (mark_succeeded t o1)) (\<lambda>_. returnS True))
    | Inl e \<Rightarrow>
        if \<not> retryable_error e \<or> max_deployment_attempts o1 \<le> op_attempts o1 then
          bindS (now_utc sv) (\<lambda>t. bindS (on_queue (mark_failed t o1 (error_text e))) (\<lambda>_. returnS True))
        else bindS (now_utc sv) (\<lambda>t0. bindS (now_utc sv) (\<lambda>t.
          bindS (on_queue (mark_retry t o1 (error_text e) (t0 + deployment_backoff (op_attempts o1)))) (\<lambda>_.
            returnS True))))" for o1
  have once: "process_once sv worker lease = bindS (now_utc sv) (\<lambda>now.
      bindS (on_queue (claim_next now worker lease)) (\<lambda>claimed. case claimed of None \<Rightarrow> returnS False | Some o1 \<Rightarrow> settle o1))"
    unfolding process_once_def settle_def by (rule refl)
  let ?at = "\<lambda>q. s\<lparr>sr_asked := Suc (sr_asked s), sr_queue := q\<rparr>"
  obtain now res q1 where first: "claim_next now worker lease (sr_queue s) = (Inr res, q1)"
    and cont: "(case res of None \<Rightarrow> returnS False | Some o1 \<Rightarrow> settle o1) (?at q1) = (Inr True, t)"
    using run unfolding once bindS_Inr now_utc_def ask_def on_queue_run by auto
  then obtain o1 where claim: "claim_next now worker lease (sr_queue s) = (Inr (Some o1), q1)"
    and rest: "settle o1 (?at q1) = (Inr True, t)"
    by (cases res) (auto simp: returnS_def)
  have of: "claim_of worker (sr_queue s) o1 q1" using claim_next_of [OF claim d] by simp
  obtain res s2 where run2: "execute_deployment_operation sv o1 (?at q1) = (res, s2)"
    by (cases "execute_deployment_operation sv o1 (?at q1)")
  have s2: "sr_queue s2 = q1" using keepsD [OF execute_keeps_queue, of sv o1 "?at q1"] run2 by simp
  show ?thesis
    using rest s2 run2 marks_move [OF d of]
    by (cases res)
      (auto simp: settle_def bindS_Inr try_run now_utc_def ask_def on_queue_run returnS_def split: if_splits)
qed

section \<open>The turn\<close>

lemma worker_turn_returns:
  assumes "drainable (sr_queue s)"
  shows "\<exists>v u r. worker_turn sv worker lease s = Some (r, u) \<and> drainable (sr_queue v) \<and>
    work_left (sr_queue v) \<le> work_left (sr_queue s) \<and>
    (r = None \<and> process_once sv worker lease v = (Inr False, u) \<or>
     (\<exists>e. r = Some e \<and> process_once sv worker lease v = (Inl e, u)))"
  using assms
proof (induction "work_left (sr_queue s)" arbitrary: s rule: less_induct)
  case less
  obtain q t where once: "process_once sv worker lease s = (q, t)" by (cases "process_once sv worker lease s")
  show ?case
  proof (cases "q = Inr True")
    case True
    then have m: "moves_on (sr_queue s) (sr_queue t)" using process_moves [OF less.prems] once by simp
    have "worker_turn sv worker lease s = worker_turn sv worker lease t"
      using once True by (simp add: worker_turn.simps)
    then show ?thesis using less.hyps [of t] m by (fastforce simp: moves_on_def)
  next
    case False
    then show ?thesis
      using once less.prems by (cases q) (auto simp: worker_turn.simps intro!: exI [of _ s])
  qed
qed

text \<open>
  C15: A turn of the worker always ends, whatever the registry, the clock and the services answer: from every
  queue that the service and the workers can reach, a worker that keeps handling operations while one can be
  claimed comes to the end of its turn, because nothing is left to claim or because a step failed, and the
  attempts that the waiting operations have left did not become more.
\<close>

theorem worker_turn_ends:
  assumes "queue_reach t (sr_queue s)"
  shows "\<exists>v u r. worker_turn sv worker lease s = Some (r, u) \<and>
    work_left (sr_queue v) \<le> work_left (sr_queue s) \<and>
    (r = None \<and> process_once sv worker lease v = (Inr False, u) \<or>
     (\<exists>e. r = Some e \<and> process_once sv worker lease v = (Inl e, u)))"
  using worker_turn_returns [OF reach_drainable [OF assms], of sv worker lease] by blast

theorem worker_turn_ends_witness:
  "work_left demo_queued = 5 \<and>
   (\<exists>u r. worker_turn demo_handlers ''worker'' 0 (demo_server\<lparr>sr_queue := demo_queued\<rparr>) = Some (r, u))"
proof
  show "work_left demo_queued = 5"
    by (simp add: work_left_def demo_queued_parts attempts_left_def waiting_def enqueue_row_def demo_operation_def)
  have "queue_reach demo_start (sr_queue (demo_server\<lparr>sr_queue := demo_queued\<rparr>))"
    using demo_queued_reach by simp
  from worker_turn_ends [OF this]
  show "\<exists>u r. worker_turn demo_handlers ''worker'' 0 (demo_server\<lparr>sr_queue := demo_queued\<rparr>) = Some (r, u)"
    by blast
qed

end
