(* ===== verification/Spec2Isabelle.thy ===== *)
theory Spec2Isabelle
  imports GitLaws GitStores VaultHttpLaws StoreExact ProjectServiceLaws DeployQueueLaws AppSecrets AppReads AppHealth Poller ChangeFlow OrphanCleanup StoreSpec ServiceLaws ChangeLaws IdentityLaws ConfigLaws KubeLaws WebLaws CatalogLaws MetricsLaws WiringLaws RegistryHttp WorkerLoop
begin

text \<open>
  The backend of the AODS deployment platform (src/backend): a server that keeps the desired state of
  applications as manifests in a git repository, from which Flux deploys them, their secrets in Vault, and
  asks Kubernetes, Prometheus and container registries how they fare. This development models the
  backend function by function and proves what its parts promise each other.

  \<^bold>\<open>How the parts fit together.\<close> main (cmd/server/main.go) loads a configuration, builds a backend from it
  (server/server.go) and starts the workers. A request passes the identifier and cross-origin wrapping, is
  matched with a route, and a handler finds out who asks, reads the body and calls a service. The project,
  cluster, application and change services check roles and policies and write through stores: the local
  stores write the files of a work tree, the git stores run them inside a synchronised checkout with a commit
  and a push, the cached store keeps the listings of applications in a database beside it. Deployments go
  through a durable queue when a database is configured; workers claim them under leases and locks, execute
  them and retry. Other workers poll the repositories of applications, roll back bad deployments, refill the
  catalog, and remove stale secrets and orphaned Flux manifests.

  \<^bold>\<open>Conventions.\<close> A Go string is a \<open>string\<close>, one char per byte; integers are \<open>int\<close>, written out where a width
  matters (durations within 64 bits, float64 as a mantissa and an exponent with its rounding); times and
  durations are nanoseconds. A struct is a record, with one prefix per record; a pointer is an option; an error
  is a value of \<open>go_error\<close> with its wrapping, a fallible function a sum with the error on the left, an operation
  with effects an \<open>action\<close>: a function from a state to a result and the next state, so a failing operation
  shows what it left behind. Go's maps are lists of pairs with distinct keys or functions. What lies outside
  the program (git, HTTP servers, SQL, clocks, files outside the repository, JSON and YAML codecs, SHA-256,
  signatures) is a parameter: a record of functions, asked with the number of questions so far, so that it
  may answer differently every time. Laws that rely on the documented behaviour of such a part name it as a
  hypothesis (\<open>git_documented\<close>, \<open>kv_documented\<close>, \<open>catalog_works\<close>), and their witness has a concrete one.

  \<^bold>\<open>Theories and the code they model\<close> (paths below src/backend/internal).

  \<^item> \<open>Prelude\<close>, \<open>GoStrings\<close>, \<open>GoEncoding\<close>, \<open>GoErrors\<close>, \<open>GoNumbers\<close>, \<open>GoFloat\<close>, \<open>GoUrl\<close>, \<open>GoRegex\<close>: actions and their rules,
    and what the code uses of strings, strconv, time, path/filepath, net/url, regexp, encoding/base64 and
    encoding/json. \<open>Messages\<close>: the Korean texts. \<open>Domain\<close>: the structs that cross components.
  \<^item> \<open>ProjectDefaults\<close>, \<open>ProjectPolicy\<close>, \<open>ProjectLaws\<close> (project/service.go): roles, defaults and the
    normalisation of requests. \<open>ProjectCatalog\<close> (project/source_local.go), \<open>ProjectService\<close>,
    \<open>ProjectServiceLaws\<close>: the catalog file and the handlers. \<open>ClusterCatalog\<close> (cluster/): the clusters.
  \<^item> \<open>FileStore\<close>, \<open>RepoState\<close>, \<open>Manifests\<close> (application/flux_support.go, fluxscaffold/, the render functions of
    application/store_local.go): the work tree, the scaffold of Flux and the manifests as document trees.
  \<^item> \<open>ManifestStore\<close> (application/store_local.go, store_support.go) with \<open>StoreLaws\<close>, \<open>StoreContract\<close>,
    \<open>StoreProvides\<close>, \<open>StoreExact\<close>, \<open>StoreListing\<close>, \<open>StoreSpec\<close>: the local manifest store, its frame, the interface
    it provides and the map it implements.
  \<^item> \<open>Vault\<close>, \<open>VaultLaws\<close> (vault/local.go, core/secrets.go); \<open>VaultHttp\<close>, \<open>VaultHttpLaws\<close> (vault/real.go).
  \<^item> \<open>ImageRef\<close>, \<open>RegistryHttp\<close> (application/image_verifier.go): references, credentials, the check of an image.
  \<^item> \<open>AppModel\<close>, \<open>ServiceTypes\<close>, \<open>AppService\<close>, \<open>AppDeploy\<close>, \<open>AppSecrets\<close>, \<open>AppReads\<close>, \<open>AppHealth\<close> with \<open>ServiceLaws\<close>
    (application/service.go, resources.go, types.go): the application service.
  \<^item> \<open>DeployQueue\<close>, \<open>DeployQueueLaws\<close>, \<open>WorkerLoop\<close> (application/deployment_operations.go and its MariaDB store).
  \<^item> \<open>PollTracker\<close>, \<open>RepoSource\<close>, \<open>Poller\<close> (application/poll_tracker.go, poller.go); \<open>OrphanCleanup\<close>
    (application/orphan_cleanup.go); \<open>ChangeFlow\<close>, \<open>ChangeLaws\<close> (change/).
  \<^item> \<open>GitRepo\<close>, \<open>GitLaws\<close> (gitops/repository.go); \<open>GitStores\<close> (the files source_git.go and store_git.go,
    vault/cleanup.go).
  \<^item> \<open>CatalogCache\<close>, \<open>CatalogLaws\<close> (application/catalog_cache.go with its two databases, catalog_projector.go).
  \<^item> \<open>KubeClient\<close>, \<open>KubeReaders\<close>, \<open>KubePods\<close>, \<open>KubeServices\<close>, \<open>FleetOverview\<close>, \<open>KubeLaws\<close> (kubernetes/, admin/);
    \<open>MetricsProm\<close>, \<open>MetricsLaws\<close> (application/metrics_prometheus.go, metrics_local.go).
  \<^item> \<open>Identity\<close>, \<open>IdentityLaws\<close> (core/auth.go, auth_mapping.go, auth_oidc.go); \<open>Config\<close>, \<open>ConfigLaws\<close>
    (core/config.go); \<open>Web\<close>, \<open>WebHandlers\<close>, \<open>WebServer\<close>, \<open>WebLaws\<close> (core/http.go, the files http.go, the routes of
    server/server.go); \<open>Wiring\<close>, \<open>WiringLaws\<close> (server/server.go, cmd/server/main.go).
\<close>

text \<open>
  \<^bold>\<open>Interfaces.\<close> \<open>file_store\<close> (reading after writing, removing and listing) is interpreted on the decoded files;
  \<open>secret_store\<close> (staging, finalising, deleting) on the local vault; \<open>app_store\<close> (every operation is one update of
  what readers see, failing operations change nothing) on the local manifest store; \<open>listed_store\<close> (what the
  catalog cache asks of the store below it) on the local manifest store with its listings. The laws proved in
  them reach the properties through these interpretations.

  \<^bold>\<open>What the lemmas show.\<close>

  \<^item> Projects and clusters: a created project has unique slug identifiers, one default environment and policies
    that name existing environments, and is a fixed point of the defaults; only administrators write; a
    deletion removes the files of the project and the children whose name starts with its identifier and a
    dash (\<open>prefixed_child\<close>), which includes those of other projects that continue the identifier. A created
    cluster is appended to the stored ones and its whole scaffold is written.
  \<^item> Manifest store: the repository refines a map from applications to what a reader gets; the base directory
    holds exactly what its kustomization lists; a Flux child lies in one cluster; writes stay in their
    application. The cached store answers as the local store does while its database works.
  \<^item> Secrets: staging and finalising publish a new version and clear the staging, locally and over HTTP; histories
    only grow; the cleanup removes exactly what is stale.
  \<^item> Queue: \<open>queue_step\<close> is the step relation of the service and the workers, \<open>queue_inv\<close> its invariant; a
    worker may claim at any time. Attempts stay within their limit, finished operations are frozen, the
    oldest free operation is claimed, the delays double up to a limit, and a turn of a worker ends.
    \<open>pool_step\<close> adds what each worker has in hand (the local variable of processOnce, forgotten after a failed
    update or a restart) and moves the queue by the same steps (\<open>pool_queue_step\<close>): two workers never have
    operations of one key in hand while both leases last. One worker may come to own two running rows of a
    key (\<open>same_owner_retakes\<close>). Clocks agree and each worker id is that of one process.
  \<^item> Poll tracker and orphans: the next read that a snapshot announces and the one that Due waits for, after
    any marks; a run of the cleanup removes exactly the orphans, or nothing when its loads fail.
  \<^item> Application service and changes: writes need a role, protected environments need a reviewed change, an
    accepted request is well formed; a change moves along the edges of its state machine and is merged after
    review, except by the way that \<open>review_avoided\<close> shows.
  \<^item> Checkout: a write that succeeds is one commit on top of a state of the remote and loses no commit.
  \<^item> Readers: how old a status may be, that a batch of metrics is complete whatever Prometheus answers, that the
    overview has one service for every application of every catalog entry, classified, counted and in order.
  \<^item> Server: a user from a token passed every check, and the provider of a configuration names only users of
    the configured source or the development user where that is allowed (\<open>admitted_user_source\<close>);
    strangers change nothing, every error is logged once with its secrets hidden, no two routes overlap,
    the search for the repository ends at the nearest mark, and building a server leaks no database.

  \<^bold>\<open>Bounds and fuel.\<close> Recursion is structural or has a proved measure almost everywhere. The cleanup of
  the HTTP vault follows a tree that the server answers; \<open>clean_under\<close> takes the depth as fuel and a deeper tree
  has no result. More fuel never changes a result (\<open>clean_under_mono\<close>), and one more than the depth of the tree
  is enough (\<open>http_cleanup_ends\<close>). \<open>replacing\<close> of \<open>MetricsProm\<close> counts the bytes to
  skip, so that it is structural. \<open>worker_turn\<close> is a partial function into options, and \<open>worker_turn_ends\<close> shows
  that its value is never missing: the attempts left in the queue are the measure.

  \<^bold>\<open>Not modelled.\<close>

  \<^item> Failing disk reads and writes inside the repository, and the rollback of the catalog files after them; the
    YAML and JSON texts of files that the code itself writes, which are kept as the values they hold.
  \<^item> Concurrency inside an operation: a transaction, a tracker operation and a write under the checkout's lock
    are one step, and interleavings are sequences of steps. Cancellation and time-outs of contexts are
    modelled only where the code looks at them (checkout, Vault, Prometheus).
  \<^item> The tickers and endless loops of the workers: one turn of each is modelled. Log output apart from the
    errors of requests, pool sizes of databases, the listening socket, the helper New that panics.
  \<^item> cmd/manifest-fixtures, which writes test fixtures with the modelled renderers; the functions without a
    caller WithNotFoundJSON, buildMetricSeries and hashRecord; the frontend and the deployment files.
\<close>

end
